(* ===== verification/Prelude.thy ===== *)
theory Prelude
  imports Main "HOL-Library.Sublist" "HOL-Library.Word" "HOL-Library.Multiset"
begin

text \<open>
  What the components share: the error values of the Go code, the collections of
  rewrite rules the proofs use, and generic lemmas on lists, options and stable
  sorting that no component owns.
\<close>

section \<open>Collections\<close>

named_theorems db_simps \<open>effect of the storage operations on the tables they touch\<close>
named_theorems frame_simps \<open>what an operation leaves unchanged\<close>
named_theorems go_simps \<open>Go library functions on literals\<close>

section \<open>Errors\<close>

text \<open>
  Go errors are values. The sentinels of the storage layer are constructors;
  \<open>ErrIO\<close> is a failure of the engine, the network or the file system;
  \<open>Wrap\<close> is \<open>fmt.Errorf("...: %w", err)\<close> and \<open>Msg\<close> an error with a
  message of its own.
\<close>

datatype err =
    ErrNotFound
  | ErrConflict
  | ErrAmbiguous
  | ErrIO
  | Msg string
  | Wrap string err

text \<open>\<open>errors.Is\<close> walks the chain of wrapped errors.\<close>

fun errors_Is :: "err \<Rightarrow> err \<Rightarrow> bool" where
  "errors_Is (Wrap s e) t \<longleftrightarrow> Wrap s e = t \<or> errors_Is e t"
| "errors_Is e t \<longleftrightarrow> e = t"

lemma errors_Is_refl [simp]: "errors_Is e e"
  by (cases e) auto

section \<open>Lists\<close>

lemma filter_eq_Nil_iff: "filter P xs = [] \<longleftrightarrow> (\<forall>x\<in>set xs. \<not> P x)"
  by (induction xs) auto

lemma distinct_map_filterI: "distinct (map f xs) \<Longrightarrow> distinct (map f (filter P xs))"
  by (induction xs) auto

lemma inj_on_key:
  "distinct (map f xs) \<Longrightarrow> x \<in> set xs \<Longrightarrow> y \<in> set xs \<Longrightarrow> f x = f y \<Longrightarrow> x = y"
  by (metis distinct_map inj_onD)

lemma find_Some_in: "find P xs = Some x \<Longrightarrow> x \<in> set xs \<and> P x"
  by (auto simp: find_Some_iff)

lemma find_unique:
  "distinct (map f xs) \<Longrightarrow> x \<in> set xs \<Longrightarrow> find (\<lambda>y. f y = f x) xs = Some x"
  by (induction xs) (force simp: image_iff)+

lemma find_None_not_in: "find (\<lambda>y. f y = k) xs = None \<longleftrightarrow> k \<notin> f ` set xs"
  by (auto simp: find_None_iff)

text \<open>
  \<open>UPDATE t SET ... WHERE p\<close> on a table kept as a list of rows, and the number of rows
  it reports as affected.
\<close>

definition upd_where :: "('r \<Rightarrow> bool) \<Rightarrow> ('r \<Rightarrow> 'r) \<Rightarrow> 'r list \<Rightarrow> 'r list" where
  "upd_where p f rs = map (\<lambda>r. if p r then f r else r) rs"

definition affected :: "('r \<Rightarrow> bool) \<Rightarrow> 'r list \<Rightarrow> nat" where
  "affected p rs = length (filter p rs)"

lemma affected_0_iff [simp]: "affected p rs = 0 \<longleftrightarrow> (\<forall>r\<in>set rs. \<not> p r)"
  by (simp add: affected_def filter_eq_Nil_iff)

lemma upd_where_Nil [simp]: "upd_where p f [] = []"
  by (simp add: upd_where_def)

lemma upd_where_Cons [simp]:
  "upd_where p f (r # rs) = (if p r then f r else r) # upd_where p f rs"
  by (simp add: upd_where_def)

lemma length_upd_where [simp]: "length (upd_where p f rs) = length rs"
  by (simp add: upd_where_def)

lemma map_upd_where_same:
  "(\<And>r. p r \<Longrightarrow> g (f r) = g r) \<Longrightarrow> map g (upd_where p f rs) = map g rs"
  by (induction rs) auto

lemma set_upd_where: "set (upd_where p f rs) = f ` {r \<in> set rs. p r} \<union> {r \<in> set rs. \<not> p r}"
  by (induction rs) auto

lemma upd_where_none: "(\<And>r. r \<in> set rs \<Longrightarrow> \<not> p r) \<Longrightarrow> upd_where p f rs = rs"
  by (induction rs) auto

lemma find_upd_where:
  "(\<And>r. p r \<Longrightarrow> k (f r) = k r) \<Longrightarrow>
   find (\<lambda>r. k r = x) (upd_where p f rs) =
     map_option (\<lambda>r. if p r then f r else r) (find (\<lambda>r. k r = x) rs)"
  by (induction rs) auto

lemma filter_upd_where_other:
  "(\<And>r. p r \<Longrightarrow> \<not> q r \<and> \<not> q (f r)) \<Longrightarrow> filter q (upd_where p f rs) = filter q rs"
  by (induction rs) auto

section \<open>Stable sorting\<close>

text \<open>\<open>sort_key\<close> is stable, as is the order \<open>ORDER BY k, rowid\<close> gives.\<close>

lemma sort_key_sorted: "sorted (map k (sort_key k xs))"
  by simp

lemma sort_key_id: "sorted (map k xs) \<Longrightarrow> sort_key k xs = xs"
  by (induction xs) (simp_all add: insort_is_Cons)

lemma set_take_subset_trans: "set xs \<subseteq> A \<Longrightarrow> set (take n xs) \<subseteq> A"
  using set_take_subset by fast

lemma take_sort_all: "length xs \<le> n \<Longrightarrow> take n (sort_key k xs) = sort_key k xs"
  by simp

section \<open>Options and maps\<close>

lemma option_None_or_Some: "(x = None \<Longrightarrow> P) \<Longrightarrow> (\<And>y. x = Some y \<Longrightarrow> P) \<Longrightarrow> P"
  by (cases x) auto

lemma map_of_eq_find: "map_of xs k = map_option snd (find (\<lambda>p. fst p = k) xs)"
  by (induction xs) auto

end
