(* ===== verification/Normalize.thy ===== *)
theory Normalize
  imports Go_Strings
begin

text \<open>
  \<open>differ/normalize.go\<close>: the rewriting of volatile path segments and the
  canonical forms of names. The rules are regular expressions handed to Go's
  \<open>regexp\<close>; the fragment the eight rules use (character classes with bounded or
  unbounded greedy repetition, literals, alternation, one capture group, the anchors
  \<open>^\<close> and \<open>$\<close>) is modelled with leftmost-first matching: the alternatives of a match
  are listed in the order of preference, and the first one is taken.
\<close>

section \<open>Regular expressions\<close>

datatype re =
    Lit string
  | Cls "char \<Rightarrow> bool" nat
  | ClsN "char \<Rightarrow> bool" nat
  | Grp re
  | Alt re re
  | Seq re re
  | Bol
  | Eol

text \<open>
  \<open>Lit s\<close> is a literal, \<open>Cls P n\<close> is \<open>[P]{n,}\<close> (so \<open>n = 0\<close> is \<open>*\<close> and \<open>n = 1\<close> is
  \<open>+\<close>), \<open>ClsN P n\<close> is \<open>[P]{n}\<close>. A match is the consumed text, what the group
  captured, and the rest of the input.
\<close>

type_synonym rmatch = "string \<times> string option \<times> string"

definition later_capture :: "string option \<Rightarrow> string option \<Rightarrow> string option" where
  "later_capture g h = (case h of None \<Rightarrow> g | Some x \<Rightarrow> Some x)"

fun matches :: "re \<Rightarrow> bool \<Rightarrow> string \<Rightarrow> rmatch list" where
  "matches (Lit t) b s = (if prefix t s then [(t, None, drop (length t) s)] else [])"
| "matches (Cls P n) b s =
     map (\<lambda>k. (take k s, None, drop k s)) (rev [n..<Suc (length (takeWhile P s))])"
| "matches (ClsN P n) b s =
     (if n \<le> length (takeWhile P s) then [(take n s, None, drop n s)] else [])"
| "matches (Grp r) b s = map (\<lambda>(c, g, t). (c, Some c, t)) (matches r b s)"
| "matches (Alt p q) b s = matches p b s @ matches q b s"
| "matches (Seq p q) b s =
     concat (map (\<lambda>(c, g, t).
       map (\<lambda>(d, h, u). (c @ d, later_capture g h, u)) (matches q (b \<and> c = []) t))
       (matches p b s))"
| "matches Bol b s = (if b then [([], None, s)] else [])"
| "matches Eol b s = (if s = [] then [([], None, [])] else [])"

definition first_match :: "re \<Rightarrow> bool \<Rightarrow> string \<Rightarrow> rmatch option" where
  "first_match r b s = (case matches r b s of [] \<Rightarrow> None | m # _ \<Rightarrow> Some m)"

text \<open>A replacement template: literal text, and \<open>$1\<close>.\<close>

datatype piece = PText string | PGroup

fun expand :: "piece list \<Rightarrow> string option \<Rightarrow> string" where
  "expand [] g = []"
| "expand (PText t # ps) g = t @ expand ps g"
| "expand (PGroup # ps) g = (case g of None \<Rightarrow> [] | Some x \<Rightarrow> x) @ expand ps g"

text \<open>
  \<open>Regexp.ReplaceAllString\<close>: scan from the left, replace each match and go on behind
  it. The flag says whether the scan is at the start of the text. None of the rules
  below matches the empty string (\<open>pathRules_consume\<close>), so an empty match is treated
  as no match.
\<close>

function replace_from :: "re \<Rightarrow> piece list \<Rightarrow> bool \<Rightarrow> string \<Rightarrow> string" where
  "replace_from r t b [] = []"
| "replace_from r t b (x # xs) =
     (case first_match r b (x # xs) of
        None \<Rightarrow> x # replace_from r t False xs
      | Some (c, g, _) \<Rightarrow>
          if c = [] then x # replace_from r t False xs
          else expand t g @ replace_from r t False (drop (length c) (x # xs)))"
  by pat_completeness auto
termination
  by (relation "measure (\<lambda>(r, t, b, s). length s)") auto

declare replace_from.simps(2) [simp del]

definition ReplaceAllString :: "re \<Rightarrow> piece list \<Rightarrow> string \<Rightarrow> string" where
  "ReplaceAllString r t s = replace_from r t True s"

section \<open>The path rules\<close>

definition tmp_char :: "char \<Rightarrow> bool" where
  "tmp_char c \<longleftrightarrow> is_lower c \<or> is_upper c \<or> is_digit c \<or> c \<in> set ''._-''"

definition alnum :: "char \<Rightarrow> bool" where
  "alnum c \<longleftrightarrow> is_lower c \<or> is_upper c \<or> is_digit c"

definition letter :: "char \<Rightarrow> bool" where
  "letter c \<longleftrightarrow> is_lower c \<or> is_upper c"

definition no_slash :: "char \<Rightarrow> bool" where
  "no_slash c \<longleftrightarrow> c \<noteq> CHR ''/''"

definition digit_or_us :: "char \<Rightarrow> bool" where
  "digit_or_us c \<longleftrightarrow> is_digit c \<or> c = CHR ''_''"

fun seqs :: "re list \<Rightarrow> re" where
  "seqs [] = Lit []"
| "seqs [r] = r"
| "seqs (r # rs) = Seq r (seqs rs)"

definition date_re :: "re list" where
  "date_re = [Lit ''/'', ClsN is_digit 4, Lit ''-'', ClsN is_digit 2, Lit ''-'', ClsN is_digit 2]"

definition slash_or_end :: re where
  "slash_or_end = Grp (Alt (Lit ''/'') Eol)"

definition hash_tail :: "re list" where
  "hash_tail = [Lit ''/'', ClsN is_hex_lower 2, Lit ''/'', ClsN is_hex_lower 2,
     Lit ''/'', Cls is_hex_lower 1]"

record pathRule =
  pr_re :: re
  pr_repl :: "piece list"

definition rule_pid :: pathRule where
  "rule_pid = \<lparr>pr_re = seqs [Bol, Lit ''/proc/'', Cls is_digit 1, slash_or_end],
     pr_repl = [PText ''/proc/<PID>'', PGroup]\<rparr>"

definition rule_tmp :: pathRule where
  "rule_tmp = \<lparr>pr_re = seqs [Bol, Lit ''/tmp/'', Cls tmp_char 0, Lit ''-'', Cls is_digit 3,
       Grp (Cls tmp_char 0)],
     pr_repl = [PText ''/tmp/<RAND>'']\<rparr>"

definition rule_npm_log :: pathRule where
  "rule_npm_log = \<lparr>pr_re = seqs (date_re @ [Lit ''T'', Cls digit_or_us 1, Lit ''Z-debug-'',
       Cls is_digit 1, Lit ''.log'', Eol]),
     pr_repl = [PText ''/<TIMESTAMP>-debug-<N>.log'']\<rparr>"

definition rule_date :: pathRule where
  "rule_date = \<lparr>pr_re = seqs (date_re @ [Grp (Seq (Lit ''.'') (Cls letter 1)), Eol]),
     pr_repl = [PText ''/<DATE>'', PGroup]\<rparr>"

definition rule_content :: pathRule where
  "rule_content = \<lparr>pr_re = seqs (Grp (seqs [Lit ''/.npm/_cacache/'', Cls no_slash 1, Lit ''/'',
       Cls alnum 1]) # hash_tail),
     pr_repl = [PGroup, PText ''/<SHA256>'']\<rparr>"

definition rule_index :: pathRule where
  "rule_index = \<lparr>pr_re = seqs (Grp (Seq (Lit ''/.npm/_cacache/index-'') (Cls no_slash 1)) # hash_tail),
     pr_repl = [PGroup, PText ''/<HASH>'']\<rparr>"

definition rule_cache_tmp :: pathRule where
  "rule_cache_tmp = \<lparr>pr_re = seqs [Grp (Lit ''/.npm/_cacache/tmp''), Lit ''/'', Cls is_hex_lower 1],
     pr_repl = [PGroup, PText ''/<HEX>'']\<rparr>"

definition rule_hex :: pathRule where
  "rule_hex = \<lparr>pr_re = seqs [Lit ''/'', Cls is_hex_lower 12, slash_or_end],
     pr_repl = [PText ''/<HEX>'', PGroup]\<rparr>"

definition pathRules :: "pathRule list" where
  "pathRules = [rule_pid, rule_tmp, rule_npm_log, rule_date, rule_content, rule_index,
     rule_cache_tmp, rule_hex]"

definition NormalizePath :: "string \<Rightarrow> string" where
  "NormalizePath p = foldl (\<lambda>q r. ReplaceAllString (pr_re r) (pr_repl r) q) p pathRules"

section \<open>Names\<close>

definition NormalizeDestination :: "string \<Rightarrow> string" where
  "NormalizeDestination s = s"

definition NormalizeSNI :: "string \<Rightarrow> string" where
  "NormalizeSNI s = ToLower (TrimSpace s)"

definition NormalizeDNS :: "string \<Rightarrow> string" where
  "NormalizeDNS qname = TrimSuffix (ToLower (TrimSpace qname)) ''.''"

definition NormalizeBinaryPath :: "string \<Rightarrow> string" where
  "NormalizeBinaryPath p = TrimSpace (TrimRight p [char_of (0 :: nat)])"

lemmas path_rule_defs = rule_pid_def rule_tmp_def rule_npm_log_def rule_date_def
  rule_content_def rule_index_def rule_cache_tmp_def rule_hex_def
  date_re_def slash_or_end_def hash_tail_def

section \<open>Matching consumes what it reports\<close>

lemma matches_split:
  "(c, g, t) \<in> set (matches r b s) \<Longrightarrow> s = c @ t"
proof (induction r arbitrary: b s c g t)
  case (Seq p q)
  then obtain c1 g1 t1 c2 g2 where
    "(c1, g1, t1) \<in> set (matches p b s)" "(c2, g2, t) \<in> set (matches q (b \<and> c1 = []) t1)"
    "c = c1 @ c2"
    by auto
  with Seq.IH show ?case by fastforce
qed (auto simp: prefix_def split: if_splits)

lemma matches_Bol_False: "matches (Seq Bol r) False s = []"
  by simp

lemma replace_from_no_match:
  "(\<And>s. matches r False s = []) \<Longrightarrow> replace_from r t False s = s"
  by (induction s) (auto simp: replace_from.simps(2) first_match_def)

section \<open>Every rule consumes input\<close>

fun consumes :: "re \<Rightarrow> bool" where
  "consumes (Lit t) \<longleftrightarrow> t \<noteq> []"
| "consumes (Cls P n) \<longleftrightarrow> 0 < n"
| "consumes (ClsN P n) \<longleftrightarrow> 0 < n"
| "consumes (Grp r) \<longleftrightarrow> consumes r"
| "consumes (Alt p q) \<longleftrightarrow> consumes p \<and> consumes q"
| "consumes (Seq p q) \<longleftrightarrow> consumes p \<or> consumes q"
| "consumes _ \<longleftrightarrow> False"

lemma consumes_sound: "consumes r \<Longrightarrow> (c, g, t) \<in> set (matches r b s) \<Longrightarrow> c \<noteq> []"
proof (induction r arbitrary: b s c g t)
  case (Seq p q)
  then obtain c1 g1 t1 c2 g2 where
    "(c1, g1, t1) \<in> set (matches p b s)" "(c2, g2, t) \<in> set (matches q (b \<and> c1 = []) t1)"
    "c = c1 @ c2"
    by auto
  with Seq show ?case by fastforce
next
  case (Cls P n)
  then obtain k where "c = take k s" "n \<le> k" "k \<le> length (takeWhile P s)" by auto
  with Cls.prems(1) length_takeWhile_le [of P s] show ?case by auto
next
  case (ClsN P n)
  then show ?case
    using length_takeWhile_le [of P s] by (auto split: if_splits)
qed (fastforce split: if_splits)+

lemma pathRules_consumes: "r \<in> set pathRules \<Longrightarrow> consumes (pr_re r)"
  by (auto simp: pathRules_def path_rule_defs)

lemma pathRules_consume:
  "r \<in> set pathRules \<Longrightarrow> (c, g, t) \<in> set (matches (pr_re r) b s) \<Longrightarrow> c \<noteq> []"
  by (blast dest: consumes_sound [OF pathRules_consumes])

section \<open>Process ids are normalised away\<close>


lemma matches_Cls_first:
  assumes "length (takeWhile P s) = m" "n \<le> m"
  shows "\<exists>ms. matches (Cls P n) b s = (take m s, None, drop m s) # ms"
  using assms by auto

lemma first_match_Seq:
  assumes "matches p b s = (c, g, t) # ms"
    and "matches q (b \<and> c = []) t = (d, h, u) # ms'"
  shows "\<exists>ms. matches (Seq p q) b s = (c @ d, later_capture g h, u) # ms"
  using assms by simp

lemma takeWhile_digits:
  "\<forall>c\<in>set d. P c \<Longrightarrow> rest = [] \<or> \<not> P (hd rest) \<Longrightarrow> takeWhile P (d @ rest) = d"
  by (induction d) (cases rest; auto)+

definition at_boundary :: "string \<Rightarrow> bool" where
  "at_boundary rest \<longleftrightarrow> rest = [] \<or> hd rest = CHR ''/''"

lemma slash_not_digit: "\<not> is_digit CHR ''/''"
  by code_simp

lemma slash_or_end_boundary:
  "at_boundary rest \<Longrightarrow>
   \<exists>ms. matches slash_or_end b rest = (take 1 rest, Some (take 1 rest), drop 1 rest) # ms"
  by (cases rest) (auto simp: slash_or_end_def at_boundary_def)

lemma rule_pid_match:
  assumes "d \<noteq> []" "\<forall>c\<in>set d. is_digit c" "at_boundary rest"
  shows "first_match (pr_re rule_pid) True (''/proc/'' @ d @ rest) =
    Some (''/proc/'' @ d @ take 1 rest, Some (take 1 rest), drop 1 rest)"
proof -
  have tw: "takeWhile is_digit (d @ rest) = d"
    using assms slash_not_digit by (intro takeWhile_digits) (auto simp: at_boundary_def)
  obtain ms where "matches (Cls is_digit 1) False (d @ rest) = (d, None, rest) # ms"
    using matches_Cls_first [of is_digit "d @ rest" "length d" 1 False] tw assms(1)
    by (cases d) auto
  moreover obtain ms' where
    "matches slash_or_end False rest = (take 1 rest, Some (take 1 rest), drop 1 rest) # ms'"
    using slash_or_end_boundary [OF assms(3)] by blast
  ultimately have "\<exists>ms. matches (Seq (Cls is_digit 1) slash_or_end) False (d @ rest) =
      (d @ take 1 rest, Some (take 1 rest), drop 1 rest) # ms"
    using first_match_Seq by (fastforce simp: later_capture_def)
  then show ?thesis
    by (auto simp: rule_pid_def first_match_def later_capture_def simp del: matches.simps(2))
qed

lemma rule_pid_replace:
  assumes "d \<noteq> []" "\<forall>c\<in>set d. is_digit c" "at_boundary rest"
  shows "ReplaceAllString (pr_re rule_pid) (pr_repl rule_pid) (''/proc/'' @ d @ rest) =
    ''/proc/<PID>'' @ rest"
proof -
  have nf: "replace_from (pr_re rule_pid) t False s = s" for t s
    by (rule replace_from_no_match) (simp add: rule_pid_def)
  have "replace_from (pr_re rule_pid) (pr_repl rule_pid) True (''/proc/'' @ d @ rest) =
     expand (pr_repl rule_pid) (Some (take 1 rest)) @ drop 1 rest"
    using rule_pid_match [OF assms] by (cases rest) (simp_all add: replace_from.simps(2) nf)
  then show ?thesis
    by (simp add: ReplaceAllString_def rule_pid_def)
qed

section \<open>Properties\<close>

text \<open>
  Two paths that differ only in the process id under \<open>/proc/\<close> have the same normal
  form, so a file read through \<open>/proc/<pid>/\<close> does not become a new fingerprint
  on every run.
\<close>

lemma NormalizePath_pid_stable:
  assumes "d \<noteq> []" "\<forall>c\<in>set d. is_digit c" "e \<noteq> []" "\<forall>c\<in>set e. is_digit c"
    and "at_boundary rest"
  shows "NormalizePath (''/proc/'' @ d @ rest) = NormalizePath (''/proc/'' @ e @ rest)"
  using rule_pid_replace [OF assms(1,2,5)] rule_pid_replace [OF assms(3,4,5)]
  by (simp add: NormalizePath_def pathRules_def)

theorem NormalizePath_pid_stable_witness:
  "NormalizePath (''/proc/'' @ ''7'' @ ''/environ'') = NormalizePath (''/proc/'' @ ''31337'' @ ''/environ'')"
proof (rule NormalizePath_pid_stable)
  show "\<forall>c\<in>set ''7''. is_digit c" and "\<forall>c\<in>set ''31337''. is_digit c"
    by code_simp+
  show "at_boundary ''/environ''" by code_simp
qed simp_all

text \<open>
  One pass of \<open>NormalizePath\<close> does not reach a normal form. The hexadecimal rule
  consumes the slash that ends a component, so of two adjacent hexadecimal components only
  the first is replaced; a second pass replaces the other one.
\<close>

theorem NormalizePath_not_idempotent:
  "NormalizePath ''/x/0123456789ab/0123456789ab/c'' = ''/x/<HEX>/0123456789ab/c'' \<and>
   NormalizePath ''/x/<HEX>/0123456789ab/c'' = ''/x/<HEX>/<HEX>/c''"
  by code_simp

end
