(* ===== verification/Net.thy ===== *)
theory Net
  imports Go_Strings
begin

unbundle bit_operations_syntax

text \<open>
  The part of Go's \<open>net\<close> package the differ and the sensor rely on: \<open>net.ParseIP\<close>,
  \<open>net.ParseCIDR\<close>, \<open>IPNet.Contains\<close> and the printing of IPv4 addresses. An address is a
  list of bytes, 16 of them as \<open>ParseIP\<close> returns it (an IPv4 address under the prefix
  \<open>::ffff:0:0/96\<close>).
\<close>

type_synonym byte = "8 word"
type_synonym ip = "byte list"

section \<open>Parsing addresses\<close>

fun split_on :: "char \<Rightarrow> string \<Rightarrow> string list" where
  "split_on c [] = [[]]"
| "split_on c (x # xs) =
     (if x = c then [] # split_on c xs
      else (case split_on c xs of [] \<Rightarrow> [[x]] | y # ys \<Rightarrow> (x # y) # ys))"

definition parse_octet :: "string \<Rightarrow> byte option" where
  "parse_octet f =
     (if f = [] \<or> \<not> list_all is_digit f then None
      else if 1 < length f \<and> hd f = CHR ''0'' then None
      else if 3 < length f \<or> 255 < read_dec f then None
      else Some (of_nat (read_dec f)))"

definition parse_ipv4 :: "string \<Rightarrow> ip option" where
  "parse_ipv4 s =
     (case split_on CHR ''.'' s of
        [a, b, c, d] \<Rightarrow>
          (case (parse_octet a, parse_octet b, parse_octet c, parse_octet d) of
             (Some w, Some x, Some y, Some z) \<Rightarrow> Some [w, x, y, z]
           | _ \<Rightarrow> None)
      | _ \<Rightarrow> None)"

definition hex_val :: "char \<Rightarrow> nat option" where
  "hex_val c = (let n = (of_char c :: nat) in
     if 48 \<le> n \<and> n \<le> 57 then Some (n - 48)
     else if 97 \<le> n \<and> n \<le> 102 then Some (n - 87)
     else if 65 \<le> n \<and> n \<le> 70 then Some (n - 55)
     else None)"

definition is_hex :: "char \<Rightarrow> bool" where
  "is_hex c \<longleftrightarrow> hex_val c \<noteq> None"

definition read_hex :: "string \<Rightarrow> nat" where
  "read_hex s = foldl (\<lambda>n c. 16 * n + the (hex_val c)) 0 s"

text \<open>
  The group loop of \<open>netip.parseIPv6\<close>. The first argument counts the groups that still
  fit, \<open>ell\<close> is where the ellipsis stood, \<open>acc\<close> the bytes read so far.
\<close>

fun v6_groups :: "nat \<Rightarrow> nat option \<Rightarrow> byte list \<Rightarrow> string
    \<Rightarrow> (nat option \<times> byte list \<times> string) option" where
  "v6_groups 0 ell acc s = Some (ell, acc, s)"
| "v6_groups (Suc n) ell acc s =
     (let hs = takeWhile is_hex s; rest = drop (length hs) s in
      if hs = [] \<or> 4 < length hs then None
      else if rest \<noteq> [] \<and> hd rest = CHR ''.'' then
        (if ell = None \<and> length acc \<noteq> 12 \<or> 16 < length acc + 4 then None
         else (case parse_ipv4 s of None \<Rightarrow> None | Some v4 \<Rightarrow> Some (ell, acc @ v4, [])))
      else
        let v = read_hex hs; acc' = acc @ [of_nat (v div 256), of_nat (v mod 256)] in
        if rest = [] then Some (ell, acc', [])
        else if hd rest \<noteq> CHR '':'' \<or> length rest = 1 then None
        else if hd (tl rest) = CHR '':'' then
          (if ell \<noteq> None then None
           else if tl (tl rest) = [] then Some (Some (length acc'), acc', [])
           else v6_groups n (Some (length acc')) acc' (tl (tl rest)))
        else v6_groups n ell acc' (tl rest))"

definition v6_finish :: "nat option \<times> byte list \<times> string \<Rightarrow> ip option" where
  "v6_finish r = (case r of (ell, acc, rest) \<Rightarrow>
     if rest \<noteq> [] then None
     else if length acc < 16 then
       (case ell of None \<Rightarrow> None
        | Some e \<Rightarrow> Some (take e acc @ replicate (16 - length acc) 0 @ drop e acc))
     else if ell \<noteq> None then None
     else Some acc)"

definition parse_ipv6 :: "string \<Rightarrow> ip option" where
  "parse_ipv6 s =
     (if prefix ''::'' s then
        (if drop 2 s = [] then Some (replicate 16 0)
         else Option.bind (v6_groups 8 (Some 0) [] (drop 2 s)) v6_finish)
      else Option.bind (v6_groups 8 None [] s) v6_finish)"

text \<open>
  \<open>netip.ParseAddr\<close>, with an address that carries a zone rejected as \<open>ParseIP\<close> and
  \<open>ParseCIDR\<close> reject it. The flag says whether the text was IPv4.
\<close>

definition parse_addr :: "string \<Rightarrow> (bool \<times> ip) option" where
  "parse_addr s =
     (case find (\<lambda>c. c \<in> set ''.:%'') s of
        None \<Rightarrow> None
      | Some c \<Rightarrow>
          if c = CHR ''.'' then map_option (Pair True) (parse_ipv4 s)
          else if c = CHR '':'' then
            (if CHR ''%'' \<in> set s then None else map_option (Pair False) (parse_ipv6 s))
          else None)"

definition v4_prefix :: ip where
  "v4_prefix = replicate 10 0 @ [255, 255]"

definition ParseIP :: "string \<Rightarrow> ip option" where
  "ParseIP s = map_option (\<lambda>(v4, b). if v4 then v4_prefix @ b else b) (parse_addr s)"

definition To4 :: "ip \<Rightarrow> ip option" where
  "To4 b = (if length b = 4 then Some b
     else if length b = 16 \<and> take 12 b = v4_prefix then Some (drop 12 b)
     else None)"

section \<open>Networks\<close>

record ipnet =
  net_ip :: ip
  net_mask :: ip

fun cidr_mask :: "nat \<Rightarrow> nat \<Rightarrow> ip" where
  "cidr_mask n 0 = []"
| "cidr_mask n (Suc l) =
     (if 8 \<le> n then 255 # cidr_mask (n - 8) l else NOT (drop_bit n 255) # cidr_mask 0 l)"

definition and_bytes :: "ip \<Rightarrow> ip \<Rightarrow> ip" where
  "and_bytes a m = map2 (\<lambda>x y. x AND y) a m"

definition dtoi :: "string \<Rightarrow> nat option" where
  "dtoi s = (if s = [] \<or> \<not> list_all is_digit s \<or> 16777215 \<le> int (read_dec s) then None
     else Some (read_dec s))"

definition ParseCIDR :: "string \<Rightarrow> ipnet option" where
  "ParseCIDR s =
     (case index_byte s CHR ''/'' of
        None \<Rightarrow> None
      | Some i \<Rightarrow>
          (case (parse_addr (take i s), dtoi (drop (Suc i) s)) of
             (Some (v4, b), Some n) \<Rightarrow>
               let l = (if v4 then 4 else 16) in
               if 8 * l < n then None
               else Some \<lparr>net_ip = and_bytes b (cidr_mask n l), net_mask = cidr_mask n l\<rparr>
           | _ \<Rightarrow> None))"

text \<open>
  \<open>IPNet.Contains\<close>: the address and the network number are brought to four bytes where
  they can be, the mask follows the network number, and all bytes must agree under the
  mask.
\<close>

definition network_number_and_mask :: "ipnet \<Rightarrow> (ip \<times> ip) option" where
  "network_number_and_mask n =
     (let i = (case To4 (net_ip n) of Some x \<Rightarrow> x | None \<Rightarrow> net_ip n); m = net_mask n in
      if length i \<noteq> 4 \<and> length i \<noteq> 16 then None
      else if length m = 4 then (if length i = 4 then Some (i, m) else None)
      else if length m = 16 then Some (i, if length i = 4 then drop 12 m else m)
      else None)"

definition Contains :: "ipnet \<Rightarrow> ip \<Rightarrow> bool" where
  "Contains n b =
     (case network_number_and_mask n of
        None \<Rightarrow> b = []
      | Some (nn, m) \<Rightarrow>
          let x = (case To4 b of Some y \<Rightarrow> y | None \<Rightarrow> b) in
          length x = length nn \<and> and_bytes nn m = and_bytes x m)"

section \<open>Printing\<close>

definition format_ipv4 :: "ip \<Rightarrow> string" where
  "format_ipv4 b = Join (map (\<lambda>x. dec_digits (unat x)) b) ''.''"

end
