(* ===== verification/Json.thy ===== *)
theory Json
  imports Go_Strings
begin

text \<open>
  JSON values and the decoding of an object into the fields of a Go struct
  (\<open>encoding/json\<close>). A document is represented by the value it parses to.
  \<open>JNum\<close> is a number written as an integer, \<open>JFrac\<close> one written with a fraction or an
  exponent, given by its value truncated towards zero (decoding it into an integer field
  is an error).
\<close>

datatype json =
    JNull
  | JBool bool
  | JNum int
  | JFrac int
  | JStr string
  | JArr "json list"
  | JObj "(string \<times> json) list"

text \<open>
  A struct is decoded from an object, and from \<open>null\<close> as if the object were empty.
\<close>

fun unmarshal_object :: "json \<Rightarrow> (string \<times> json) list option" where
  "unmarshal_object (JObj kvs) = Some kvs"
| "unmarshal_object JNull = Some []"
| "unmarshal_object _ = None"

text \<open>
  One field: keys match without regard to case, a later key overwrites an earlier one,
  \<open>null\<close> leaves the field alone, and a value of the wrong type makes the whole decode
  fail.
\<close>

fun unmarshal_field :: "(json \<Rightarrow> 'a option) \<Rightarrow> string \<Rightarrow> (string \<times> json) list \<Rightarrow> 'a \<Rightarrow> 'a option" where
  "unmarshal_field dec k [] v = Some v"
| "unmarshal_field dec k ((k', j) # kvs) v =
     (if EqualFold k' k \<and> j \<noteq> JNull
      then (case dec j of None \<Rightarrow> None | Some w \<Rightarrow> unmarshal_field dec k kvs w)
      else unmarshal_field dec k kvs v)"

fun as_string :: "json \<Rightarrow> string option" where
  "as_string (JStr s) = Some s"
| "as_string _ = None"

fun as_integer :: "int \<Rightarrow> int \<Rightarrow> json \<Rightarrow> int option" where
  "as_integer lo hi (JNum n) = (if lo \<le> n \<and> n \<le> hi then Some n else None)"
| "as_integer lo hi _ = None"

definition string_field :: "string \<Rightarrow> json \<Rightarrow> string option" where
  "string_field k j =
     (case unmarshal_object j of None \<Rightarrow> None
      | Some kvs \<Rightarrow> unmarshal_field as_string k kvs [])"

definition int_field :: "int \<Rightarrow> int \<Rightarrow> string \<Rightarrow> json \<Rightarrow> int option" where
  "int_field lo hi k j =
     (case unmarshal_object j of None \<Rightarrow> None
      | Some kvs \<Rightarrow> unmarshal_field (as_integer lo hi) k kvs 0)"

lemma unmarshal_field_range:
  "lo \<le> v \<Longrightarrow> v \<le> hi \<Longrightarrow> unmarshal_field (as_integer lo hi) k kvs v = Some w \<Longrightarrow> lo \<le> w \<and> w \<le> hi"
proof (induction kvs arbitrary: v)
  case (Cons kv kvs)
  obtain k' j where kv: "kv = (k', j)" by (cases kv)
  with Cons show ?case
    by (cases j) (auto split: if_splits option.splits)
qed auto

end
