(* ===== verification/Storage.thy ===== *)
theory Storage
  imports Json
begin

text \<open>
  \<open>storage/storage.go\<close>: the rows the orchestrator persists, the lifecycle of a run and
  the \<open>Backend\<close> interface as a record of operations. An operation takes the state of
  the database and returns an error or a value together with the new state. Instants are
  nanoseconds since the Unix epoch; an operation that reads the wall clock takes the
  reading as its first argument.
\<close>

type_synonym time = int

definition zero_time :: time where
  "zero_time = - 62135596800000000000"

text \<open>\<open>RunState\<close> is a string type with six defined values.\<close>

type_synonym RunState = string

abbreviation RunStatePending :: RunState where "RunStatePending \<equiv> ''pending''"
abbreviation RunStateBuilding :: RunState where "RunStateBuilding \<equiv> ''building''"
abbreviation RunStateSandboxed :: RunState where "RunStateSandboxed \<equiv> ''sandboxed''"
abbreviation RunStateAnalyzed :: RunState where "RunStateAnalyzed \<equiv> ''analyzed''"
abbreviation RunStateDone :: RunState where "RunStateDone \<equiv> ''done''"
abbreviation RunStateFailed :: RunState where "RunStateFailed \<equiv> ''failed''"

definition RunState_IsValid :: "RunState \<Rightarrow> bool" where
  "RunState_IsValid s \<longleftrightarrow> s \<in> set [RunStatePending, RunStateBuilding, RunStateSandboxed,
     RunStateAnalyzed, RunStateDone, RunStateFailed]"

section \<open>Rows\<close>

record Run =
  run_ID :: string
  run_PackageName :: string
  run_Version :: string
  run_TarballSHA256 :: string
  run_LockfileSHA256 :: string
  run_NodeVersion :: string
  run_NPMVersion :: string
  run_State :: RunState
  run_Attempt :: int
  run_IsBaseline :: bool
  run_StartedAt :: "time option"
  run_FinishedAt :: "time option"
  run_FailureReason :: string
  run_EventsEmitted :: int
  run_EventsDropped :: int
  run_DurationNS :: int

record ScanResult =
  sr_Status :: string
  sr_Reason :: string
  sr_EventsEmitted :: int
  sr_EventsDropped :: int
  sr_DurationNS :: int

text \<open>\<open>Data\<close> is the JSON text of the payload, given by what it parses to; \<open>None\<close> is a
  text that does not parse.\<close>

record EventRow =
  ev_ID :: int
  ev_RunID :: string
  ev_TsNS :: int
  ev_Type :: string
  ev_Data :: "json option"

record BaselineRow =
  bl_PackageName :: string
  bl_Category :: string
  bl_Value :: string
  bl_FirstSeenRunID :: string
  bl_LastSeenRunID :: string
  bl_OccurrenceCount :: int

record DeviationFilter =
  df_PackageName :: string
  df_Severity :: string
  df_RunID :: string
  df_Limit :: int

record WatchedPackage =
  wp_Name :: string
  wp_AddedAt :: time
  wp_LastCheckedAt :: "time option"
  wp_LastSeenVersion :: string

record ReleaseRow =
  rel_PackageName :: string
  rel_Version :: string
  rel_TarballSHA256 :: string
  rel_NPMIntegrity :: string
  rel_PublishedAt :: time
  rel_DiscoveredAt :: time

record PackageSummary =
  ps_Name :: string
  ps_RunsTotal :: int
  ps_RunsBaseline :: int
  ps_DeviationsLatest :: int
  ps_LatestRunID :: string
  ps_LatestVersion :: string

record DeviationRow =
  dv_ID :: string
  dv_RunID :: string
  dv_Category :: string
  dv_Value :: string
  dv_EvidenceEventID :: int
  dv_Severity :: string
  dv_DetectedAt :: time
  dv_NotifiedAt :: "time option"
  dv_Suppressed :: bool

abbreviation AllowScopeGlobal :: string where "AllowScopeGlobal \<equiv> ''global''"
abbreviation AllowScopePackage :: string where "AllowScopePackage \<equiv> ''package''"
abbreviation AllowKindCIDR :: string where "AllowKindCIDR \<equiv> ''cidr''"
abbreviation AllowKindPath :: string where "AllowKindPath \<equiv> ''path''"
abbreviation AllowKindSNI :: string where "AllowKindSNI \<equiv> ''sni''"

record AllowEntry =
  al_ID :: string
  al_Scope :: string
  al_PackageName :: string
  al_Kind :: string
  al_Value :: string
  al_Note :: string
  al_CreatedAt :: time

record NotifierRow =
  nt_Name :: string
  nt_URL :: string
  nt_Template :: string
  nt_SecretEnv :: string
  nt_Headers :: string
  nt_MinSeverity :: string
  nt_Enabled :: bool
  nt_CreatedAt :: time
  nt_UpdatedAt :: time

record NotificationRow =
  nf_ID :: string
  nf_RunID :: string
  nf_NotifierName :: string
  nf_Attempt :: int
  nf_Status :: string
  nf_LastAttemptedAt :: "time option"
  nf_NextAttemptAt :: "time option"
  nf_ResponseCode :: int
  nf_ResponseBody :: string
  nf_ErrorMsg :: string
  nf_DeviationCount :: int
  nf_CreatedAt :: time

section \<open>Allowlist scoping\<close>

fun EntriesForPackage :: "AllowEntry list \<Rightarrow> string \<Rightarrow> AllowEntry list" where
  "EntriesForPackage [] p = []"
| "EntriesForPackage (e # es) p =
     (if al_Scope e = AllowScopeGlobal then e # EntriesForPackage es p
      else if al_Scope e = AllowScopePackage \<and> al_PackageName e = p
      then e # EntriesForPackage es p
      else EntriesForPackage es p)"

lemma EntriesForPackage_filter:
  "EntriesForPackage es p =
     filter (\<lambda>e. al_Scope e = AllowScopeGlobal \<or> al_Scope e = AllowScopePackage \<and> al_PackageName e = p) es"
  by (induction es) auto

section \<open>The backend interface\<close>

type_synonym ('db, 'a) op = "'db \<Rightarrow> (err + 'a) \<times> 'db"

record 'db Backend =
  be_CreateRun :: "time \<Rightarrow> Run \<Rightarrow> ('db, unit) op"
  be_UpdateRunState :: "time \<Rightarrow> string \<Rightarrow> RunState \<Rightarrow> string \<Rightarrow> ('db, unit) op"
  be_GetRun :: "string \<Rightarrow> ('db, Run) op"
  be_ListRuns :: "int \<Rightarrow> ('db, Run list) op"
  be_AppendEvents :: "string \<Rightarrow> EventRow list \<Rightarrow> ('db, unit) op"
  be_ListEventsByRun :: "string \<Rightarrow> int \<Rightarrow> ('db, EventRow list) op"
  be_EventCount :: "string \<Rightarrow> ('db, int) op"
  be_LoadBaseline :: "string \<Rightarrow> ('db, BaselineRow list) op"
  be_MergeBaseline :: "string \<Rightarrow> BaselineRow list \<Rightarrow> ('db, unit) op"
  be_MarkRunBaseline :: "string \<Rightarrow> bool \<Rightarrow> ('db, unit) op"
  be_WriteDeviations :: "DeviationRow list \<Rightarrow> ('db, unit) op"
  be_DeleteDeviationsForRun :: "string \<Rightarrow> ('db, unit) op"
  be_ListDeviations :: "string \<Rightarrow> ('db, DeviationRow list) op"
  be_ListDeviationsFiltered :: "DeviationFilter \<Rightarrow> ('db, DeviationRow list) op"
  be_GetDeviation :: "string \<Rightarrow> ('db, DeviationRow) op"
  be_GetEvent :: "int \<Rightarrow> ('db, EventRow) op"
  be_ListPackages :: "('db, PackageSummary list) op"
  be_ListRunsByPackage :: "string \<Rightarrow> int \<Rightarrow> ('db, Run list) op"
  be_ResolveRunPrefix :: "string \<Rightarrow> ('db, Run) op"
  be_ResolveDeviationPrefix :: "string \<Rightarrow> ('db, DeviationRow) op"
  be_AddWatchedPackage :: "time \<Rightarrow> string \<Rightarrow> ('db, unit) op"
  be_RemoveWatchedPackage :: "string \<Rightarrow> ('db, unit) op"
  be_ListWatchedPackages :: "('db, WatchedPackage list) op"
  be_UpdatePackageCheck :: "time \<Rightarrow> string \<Rightarrow> string \<Rightarrow> ('db, unit) op"
  be_RecordRelease :: "ReleaseRow \<Rightarrow> ('db, unit) op"
  be_ListReleasesByPackage :: "string \<Rightarrow> int \<Rightarrow> ('db, ReleaseRow list) op"
  be_RecordScanResult :: "time \<Rightarrow> string \<Rightarrow> ScanResult \<Rightarrow> ('db, unit) op"
  be_EventsDroppedTotal :: "('db, int) op"
  be_PruneEvents :: "int \<Rightarrow> ('db, int) op"
  be_AddAllowEntry :: "time \<Rightarrow> AllowEntry \<Rightarrow> ('db, unit) op"
  be_ListAllowEntries :: "('db, AllowEntry list) op"
  be_DeleteAllowEntry :: "string \<Rightarrow> ('db, unit) op"
  be_ResolveAllowPrefix :: "string \<Rightarrow> ('db, AllowEntry) op"
  be_UpsertNotifier :: "time \<Rightarrow> NotifierRow \<Rightarrow> ('db, unit) op"
  be_ListNotifiers :: "('db, NotifierRow list) op"
  be_GetNotifier :: "string \<Rightarrow> ('db, NotifierRow) op"
  be_DeleteNotifier :: "string \<Rightarrow> ('db, unit) op"
  be_RecordNotification :: "time \<Rightarrow> NotificationRow \<Rightarrow> ('db, unit) op"
  be_ListNotificationsByRun :: "string \<Rightarrow> ('db, NotificationRow list) op"

section \<open>Error texts\<close>

text \<open>\<open>Error()\<close> of the sentinels and of wrapped errors.\<close>

fun err_text :: "err \<Rightarrow> string" where
  "err_text ErrNotFound = ''storage: not found''"
| "err_text ErrConflict = ''storage: conflicting row''"
| "err_text ErrAmbiguous = ''storage: prefix matches multiple rows''"
| "err_text ErrIO = ''disk I/O error''"
| "err_text (Msg m) = m"
| "err_text (Wrap s e) = s @ '': '' @ err_text e"

end
