(* ===== verification/Allow_Filter.thy ===== *)
theory Allow_Filter
  imports Net Storage
begin

text \<open>
  \<open>differ/allowlist.go\<close> and \<open>differ/filter.go\<close>: the hard-coded CDN ranges and the
  per-run filter built from them and the operator's allowlist.
\<close>

section \<open>The CDN ranges\<close>

definition DefaultCDNAllowlist :: "string list" where
  "DefaultCDNAllowlist =
    [''103.21.244.0/22'', ''103.22.200.0/22'', ''103.31.4.0/22'',
     ''104.16.0.0/13'', ''104.24.0.0/14'',
     ''108.162.192.0/18'', ''131.0.72.0/22'',
     ''141.101.64.0/18'', ''162.158.0.0/15'', ''172.64.0.0/13'',
     ''173.245.48.0/20'', ''188.114.96.0/20'', ''190.93.240.0/20'',
     ''197.234.240.0/22'', ''198.41.128.0/17'',
     ''140.82.112.0/20'', ''143.55.64.0/20'', ''185.199.108.0/22'',
     ''192.30.252.0/22'',
     ''142.250.0.0/15'', ''172.217.0.0/16'', ''216.58.192.0/19'',
     ''172.253.0.0/16'', ''74.125.0.0/16'',
     ''151.101.0.0/16'', ''199.232.0.0/16'',
     ''13.32.0.0/15'', ''13.224.0.0/14'', ''52.84.0.0/15'',
     ''54.182.0.0/16'', ''54.192.0.0/16'', ''54.230.0.0/16'',
     ''99.86.0.0/16'', ''204.246.164.0/22'']"

text \<open>
  \<open>loadAllowlist\<close> panics on an entry that does not parse: \<open>None\<close>. The nets are
  computed once (\<open>sync.Once\<close>) from a constant, so they are a constant of the model.
\<close>

fun load_cidrs :: "string list \<Rightarrow> ipnet list option" where
  "load_cidrs [] = Some []"
| "load_cidrs (c # cs) =
     (case ParseCIDR c of
        None \<Rightarrow> None
      | Some n \<Rightarrow> map_option (\<lambda>ns. n # ns) (load_cidrs cs))"

definition loadAllowlist :: "ipnet list option" where
  "loadAllowlist = load_cidrs DefaultCDNAllowlist"

text \<open>The outer \<open>None\<close> is the panic.\<close>

definition IsAllowlistedCDN :: "string \<Rightarrow> bool option" where
  "IsAllowlistedCDN ipStr =
     (if ipStr = [] then Some False
      else (case loadAllowlist of
              None \<Rightarrow> None
            | Some nets \<Rightarrow>
                (case ParseIP ipStr of
                   None \<Rightarrow> Some False
                 | Some b \<Rightarrow> Some (list_ex (\<lambda>n. Contains n b) nets))))"

section \<open>The filter\<close>

record Filter =
  flt_cidrs :: "ipnet list"
  flt_paths :: "string list"
  flt_snis :: "string list"

definition default_cidrs :: "ipnet list" where
  "default_cidrs = List.map_filter ParseCIDR DefaultCDNAllowlist"

definition add_entry :: "Filter \<Rightarrow> AllowEntry \<Rightarrow> Filter" where
  "add_entry f e =
     (if al_Kind e = AllowKindCIDR then
        (case ParseCIDR (al_Value e) of
           None \<Rightarrow> f
         | Some n \<Rightarrow> f\<lparr>flt_cidrs := flt_cidrs f @ [n]\<rparr>)
      else if al_Kind e = AllowKindPath then
        (if al_Value e \<noteq> [] then f\<lparr>flt_paths := flt_paths f @ [al_Value e]\<rparr> else f)
      else if al_Kind e = AllowKindSNI then
        (if al_Value e \<noteq> []
         then f\<lparr>flt_snis := List.insert (ToLower (TrimSpace (al_Value e))) (flt_snis f)\<rparr> else f)
      else f)"

definition NewFilter :: "AllowEntry list \<Rightarrow> Filter" where
  "NewFilter entries = foldl add_entry \<lparr>flt_cidrs = default_cidrs, flt_paths = [], flt_snis = []\<rparr> entries"

text \<open>The methods accept a nil receiver.\<close>

definition SuppressIP :: "Filter option \<Rightarrow> string \<Rightarrow> bool" where
  "SuppressIP f ipStr =
     (case f of
        None \<Rightarrow> False
      | Some f \<Rightarrow>
          (case ParseIP ipStr of
             None \<Rightarrow> False
           | Some b \<Rightarrow> list_ex (\<lambda>n. Contains n b) (flt_cidrs f)))"

definition SuppressPath :: "Filter option \<Rightarrow> string \<Rightarrow> bool" where
  "SuppressPath f p =
     (case f of
        None \<Rightarrow> False
      | Some f \<Rightarrow> list_ex (\<lambda>q. HasPrefix p q) (flt_paths f))"

definition SuppressSNI :: "Filter option \<Rightarrow> string \<Rightarrow> bool" where
  "SuppressSNI f sni =
     (case f of
        None \<Rightarrow> False
      | Some f \<Rightarrow> List.member (flt_snis f) (ToLower (TrimSpace sni)))"

section \<open>Lemmas\<close>

lemma loadAllowlist_ok: "\<exists>ns. loadAllowlist = Some ns"
proof -
  have "loadAllowlist \<noteq> None" by code_simp
  then show ?thesis by blast
qed

lemma load_cidrs_map_filter: "load_cidrs cs = Some ns \<Longrightarrow> List.map_filter ParseCIDR cs = ns"
  by (induction cs arbitrary: ns) (auto simp: List.map_filter_simps split: option.splits)

lemma loadAllowlist_default: "loadAllowlist = Some default_cidrs"
  using loadAllowlist_ok load_cidrs_map_filter by (auto simp: loadAllowlist_def default_cidrs_def)

lemma add_entry_cidrs:
  "set (flt_cidrs (add_entry f e)) =
     set (flt_cidrs f) \<union> {n. al_Kind e = AllowKindCIDR \<and> ParseCIDR (al_Value e) = Some n}"
  by (auto simp: add_entry_def split: option.splits)

lemma add_entry_paths:
  "set (flt_paths (add_entry f e)) =
     set (flt_paths f) \<union> {p. al_Kind e = AllowKindPath \<and> p = al_Value e \<and> p \<noteq> []}"
  by (auto simp: add_entry_def split: option.splits)

lemma add_entry_snis:
  "set (flt_snis (add_entry f e)) =
     set (flt_snis f) \<union>
     {s. al_Kind e = AllowKindSNI \<and> al_Value e \<noteq> [] \<and> s = ToLower (TrimSpace (al_Value e))}"
  by (auto simp: add_entry_def split: option.splits)

lemma foldl_add_entry:
  "set (flt_cidrs (foldl add_entry f es)) =
     set (flt_cidrs f) \<union> {n. \<exists>e\<in>set es. al_Kind e = AllowKindCIDR \<and> ParseCIDR (al_Value e) = Some n}"
  "set (flt_paths (foldl add_entry f es)) =
     set (flt_paths f) \<union> {p. \<exists>e\<in>set es. al_Kind e = AllowKindPath \<and> p = al_Value e \<and> p \<noteq> []}"
  "set (flt_snis (foldl add_entry f es)) =
     set (flt_snis f) \<union>
     {s. \<exists>e\<in>set es. al_Kind e = AllowKindSNI \<and> al_Value e \<noteq> [] \<and> s = ToLower (TrimSpace (al_Value e))}"
  by (induction es arbitrary: f) (auto simp: add_entry_cidrs add_entry_paths add_entry_snis)

lemma SuppressIP_iff:
  "SuppressIP (Some (NewFilter es)) ipStr \<longleftrightarrow>
     (\<exists>b n. ParseIP ipStr = Some b \<and> Contains n b \<and>
        (n \<in> set default_cidrs \<or>
         (\<exists>e\<in>set es. al_Kind e = AllowKindCIDR \<and> ParseCIDR (al_Value e) = Some n)))"
  by (auto simp: SuppressIP_def NewFilter_def foldl_add_entry list_ex_iff split: option.splits)

lemma SuppressPath_iff:
  "SuppressPath (Some (NewFilter es)) p \<longleftrightarrow>
     (\<exists>e\<in>set es. al_Kind e = AllowKindPath \<and> al_Value e \<noteq> [] \<and> prefix (al_Value e) p)"
  by (auto simp: SuppressPath_def NewFilter_def foldl_add_entry list_ex_iff HasPrefix_def)

lemma SuppressSNI_iff:
  "SuppressSNI (Some (NewFilter es)) s \<longleftrightarrow>
     (\<exists>e\<in>set es. al_Kind e = AllowKindSNI \<and> al_Value e \<noteq> [] \<and>
        ToLower (TrimSpace (al_Value e)) = ToLower (TrimSpace s))"
  by (auto simp: SuppressSNI_def NewFilter_def foldl_add_entry)

lemma IsAllowlistedCDN_SuppressIP:
  "IsAllowlistedCDN ipStr = Some True \<Longrightarrow> SuppressIP (Some (NewFilter es)) ipStr"
  unfolding SuppressIP_iff
  by (auto simp: IsAllowlistedCDN_def loadAllowlist_default list_ex_iff split: if_splits option.splits)

lemma NewFilter_cidrs: "flt_cidrs (NewFilter []) = default_cidrs"
  by (simp add: NewFilter_def)

text \<open>
  The hard-coded list is well formed: the check against it never panics, and it agrees
  with the filter built from an empty allowlist, so the second test in the extractor is
  redundant once a filter is present.
\<close>

theorem IsAllowlistedCDN_total:
  "IsAllowlistedCDN ipStr = Some (SuppressIP (Some (NewFilter [])) ipStr)"
proof (cases "ipStr = []")
  case True
  have "ParseIP [] = None" by code_simp
  with True show ?thesis by (simp add: IsAllowlistedCDN_def SuppressIP_def)
next
  case False
  then show ?thesis
    by (simp add: IsAllowlistedCDN_def loadAllowlist_default SuppressIP_def NewFilter_cidrs split: option.split)
qed

text \<open>
  What the operator's entries suppress for a package is what its own and the global
  entries name: an address inside a default or listed CIDR range, a path with a listed
  non-empty prefix, a host equal to a listed name up to case and surrounding blanks. Entries
  scoped to another package have no effect.
\<close>

theorem filter_suppression:
  defines "applies \<equiv> \<lambda>p e. al_Scope e = AllowScopeGlobal \<or> al_Scope e = AllowScopePackage \<and> al_PackageName e = p"
  shows "(SuppressIP (Some (NewFilter (EntriesForPackage es p))) x \<longleftrightarrow>
      (\<exists>b n. ParseIP x = Some b \<and> Contains n b \<and> (n \<in> set default_cidrs \<or>
        (\<exists>e\<in>set es. applies p e \<and> al_Kind e = AllowKindCIDR \<and> ParseCIDR (al_Value e) = Some n)))) \<and>
    (SuppressPath (Some (NewFilter (EntriesForPackage es p))) y \<longleftrightarrow>
      (\<exists>e\<in>set es. applies p e \<and> al_Kind e = AllowKindPath \<and> al_Value e \<noteq> [] \<and> prefix (al_Value e) y)) \<and>
    (SuppressSNI (Some (NewFilter (EntriesForPackage es p))) z \<longleftrightarrow>
      (\<exists>e\<in>set es. applies p e \<and> al_Kind e = AllowKindSNI \<and> al_Value e \<noteq> [] \<and>
         ToLower (TrimSpace (al_Value e)) = ToLower (TrimSpace z)))"
  unfolding SuppressIP_iff SuppressPath_iff SuppressSNI_iff EntriesForPackage_filter applies_def
  by auto

end
