(* ===== verification/Fingerprint.thy ===== *)
theory Fingerprint
  imports Normalize Allow_Filter
begin

text \<open>
  \<open>differ/differ.go\<close> and \<open>differ/fingerprint.go\<close>: the deviation taxonomy and the
  extraction of a run's fingerprints from its events. The bucket map of
  \<open>ExtractFingerprintsWith\<close> is an association list; the order in which Go ranges over a
  map is a parameter \<open>ord\<close>, of which the theorems assume only that it permutes.
\<close>

unbundle bit_operations_syntax

section \<open>Taxonomy\<close>

type_synonym Category = string

abbreviation CatNetDestination :: Category where "CatNetDestination \<equiv> ''net_new_destination''"
abbreviation CatNetDNS :: Category where "CatNetDNS \<equiv> ''net_new_dns''"
abbreviation CatNetHTTPSHost :: Category where "CatNetHTTPSHost \<equiv> ''net_new_https_host''"
abbreviation CatFSPathRead :: Category where "CatFSPathRead \<equiv> ''fs_new_path_read''"
abbreviation CatFSPathWrite :: Category where "CatFSPathWrite \<equiv> ''fs_new_path_write''"
abbreviation CatProcExec :: Category where "CatProcExec \<equiv> ''proc_new_exec''"

definition AllCategories :: "Category list" where
  "AllCategories = [CatNetDestination, CatNetDNS, CatNetHTTPSHost, CatFSPathRead,
     CatFSPathWrite, CatProcExec]"

record Fingerprint =
  fp_Category :: Category
  fp_Value :: string
  fp_Count :: int
  fp_FirstEvtID :: int

definition key_of :: "Category \<Rightarrow> string \<Rightarrow> string" where
  "key_of c v = c @ ''|'' @ v"

definition Fingerprint_Key :: "Fingerprint \<Rightarrow> string" where
  "Fingerprint_Key f = key_of (fp_Category f) (fp_Value f)"

abbreviation SevInfo :: string where "SevInfo \<equiv> ''info''"
abbreviation SevWarn :: string where "SevWarn \<equiv> ''warn''"
abbreviation SevCrit :: string where "SevCrit \<equiv> ''crit''"

definition defaultSeverity :: "Category \<Rightarrow> string" where
  "defaultSeverity c =
     (if c = CatNetDestination \<or> c = CatNetHTTPSHost \<or> c = CatNetDNS then SevWarn
      else if c = CatProcExec then SevWarn
      else if c = CatFSPathRead \<or> c = CatFSPathWrite then SevInfo
      else SevInfo)"

section \<open>Extraction\<close>

type_synonym bucket = "(string \<times> Fingerprint) list"

definition addUnique :: "Category \<Rightarrow> string \<Rightarrow> int \<Rightarrow> bucket \<Rightarrow> bucket" where
  "addUnique cat v evtID b =
     (if v = [] then b
      else if map_of b (key_of cat v) \<noteq> None
      then map (\<lambda>(k, fp). if k = key_of cat v then (k, fp\<lparr>fp_Count := fp_Count fp + 1\<rparr>) else (k, fp)) b
      else b @ [(key_of cat v, \<lparr>fp_Category = cat, fp_Value = v, fp_Count = 1, fp_FirstEvtID = evtID\<rparr>)])"

definition decode_file_access :: "json \<Rightarrow> (string \<times> int) option" where
  "decode_file_access d =
     (case (string_field ''PathName'' d, int_field (- 2147483648) 2147483647 ''Flags'' d) of
        (Some p, Some fl) \<Rightarrow> Some (p, fl)
      | _ \<Rightarrow> None)"

definition decode_net_connect :: "json \<Rightarrow> (string \<times> int) option" where
  "decode_net_connect d =
     (case (string_field ''DestIP'' d, int_field 0 65535 ''DestPort'' d) of
        (Some p, Some fl) \<Rightarrow> Some (p, fl)
      | _ \<Rightarrow> None)"

definition isWrite :: "int \<Rightarrow> bool" where
  "isWrite flags = (let fl = (word_of_int flags :: 32 word) in
     fl AND 1 \<noteq> 0 \<or> fl AND 2 \<noteq> 0 \<or> fl AND 64 \<noteq> 0)"

type_synonym add_fn = "Category \<Rightarrow> string \<Rightarrow> int \<Rightarrow> bucket \<Rightarrow> bucket"

definition extractFileAccess :: "EventRow \<Rightarrow> add_fn \<Rightarrow> Filter option \<Rightarrow> bucket \<Rightarrow> bucket" where
  "extractFileAccess e add f b =
     (case Option.bind (ev_Data e) decode_file_access of
        None \<Rightarrow> b
      | Some (pathName, flags) \<Rightarrow>
          if pathName = [] then b
          else (let norm = NormalizePath pathName in
            if SuppressPath f norm then b
            else if isWrite flags then add CatFSPathWrite norm (ev_ID e) b
            else add CatFSPathRead norm (ev_ID e) b))"

definition extractExec :: "EventRow \<Rightarrow> add_fn \<Rightarrow> bucket \<Rightarrow> bucket" where
  "extractExec e add b =
     (case Option.bind (ev_Data e) (string_field ''BinaryPathStr'') of
        None \<Rightarrow> b
      | Some p \<Rightarrow> add CatProcExec (NormalizeBinaryPath p) (ev_ID e) b)"

definition extractNetConnect :: "EventRow \<Rightarrow> add_fn \<Rightarrow> Filter option \<Rightarrow> bucket \<Rightarrow> bucket" where
  "extractNetConnect e add f b =
     (case Option.bind (ev_Data e) decode_net_connect of
        None \<Rightarrow> b
      | Some (destIP, destPort) \<Rightarrow>
          if destIP = [] then b
          else if SuppressIP f destIP \<or> IsAllowlistedCDN destIP = Some True then b
          else add CatNetDestination (NormalizeDestination (destIP @ '':'' @ Itoa destPort)) (ev_ID e) b)"

definition extractDNS :: "EventRow \<Rightarrow> add_fn \<Rightarrow> bucket \<Rightarrow> bucket" where
  "extractDNS e add b =
     (case Option.bind (ev_Data e) (string_field ''QName'') of
        None \<Rightarrow> b
      | Some q \<Rightarrow> add CatNetDNS (NormalizeDNS q) (ev_ID e) b)"

definition extractTLSSNI :: "EventRow \<Rightarrow> add_fn \<Rightarrow> Filter option \<Rightarrow> bucket \<Rightarrow> bucket" where
  "extractTLSSNI e add f b =
     (case Option.bind (ev_Data e) (string_field ''SNI'') of
        None \<Rightarrow> b
      | Some s \<Rightarrow>
          (let norm = NormalizeSNI s in
           if SuppressSNI f norm then b else add CatNetHTTPSHost norm (ev_ID e) b))"

definition extract_event :: "Filter option \<Rightarrow> bucket \<Rightarrow> EventRow \<Rightarrow> bucket" where
  "extract_event f b e =
     (if ev_Type e = ''file_access'' then extractFileAccess e addUnique f b
      else if ev_Type e = ''exec'' then extractExec e addUnique b
      else if ev_Type e = ''net_connect'' then extractNetConnect e addUnique f b
      else if ev_Type e = ''dns_query'' then extractDNS e addUnique b
      else if ev_Type e = ''tls_sni'' then extractTLSSNI e addUnique f b
      else b)"

definition ExtractFingerprintsWith ::
  "(bucket \<Rightarrow> bucket) \<Rightarrow> EventRow list \<Rightarrow> Filter option \<Rightarrow> Fingerprint list" where
  "ExtractFingerprintsWith ord events f = map snd (ord (foldl (extract_event f) [] events))"

definition ExtractFingerprints :: "(bucket \<Rightarrow> bucket) \<Rightarrow> EventRow list \<Rightarrow> Fingerprint list" where
  "ExtractFingerprints ord events = ExtractFingerprintsWith ord events None"

section \<open>What an event contributes\<close>

text \<open>
  The specification: the (category, value) pair one event stands for under a filter, if
  it stands for one; and the fingerprint a list of such pairs with event ids calls for.
\<close>

definition contribution :: "Filter option \<Rightarrow> EventRow \<Rightarrow> (Category \<times> string) option" where
  "contribution f e =
     (case ev_Data e of None \<Rightarrow> None
      | Some d \<Rightarrow>
        Option.bind
          (if ev_Type e = ''file_access'' then
             Option.bind (decode_file_access d) (\<lambda>(p, fl).
               if p = [] \<or> SuppressPath f (NormalizePath p) then None
               else Some (if isWrite fl then CatFSPathWrite else CatFSPathRead, NormalizePath p))
           else if ev_Type e = ''exec'' then
             map_option (\<lambda>p. (CatProcExec, NormalizeBinaryPath p)) (string_field ''BinaryPathStr'' d)
           else if ev_Type e = ''net_connect'' then
             Option.bind (decode_net_connect d) (\<lambda>(ip, port).
               if ip = [] \<or> SuppressIP f ip \<or> IsAllowlistedCDN ip = Some True then None
               else Some (CatNetDestination, NormalizeDestination (ip @ '':'' @ Itoa port)))
           else if ev_Type e = ''dns_query'' then
             map_option (\<lambda>q. (CatNetDNS, NormalizeDNS q)) (string_field ''QName'' d)
           else if ev_Type e = ''tls_sni'' then
             Option.bind (string_field ''SNI'' d) (\<lambda>s.
               if SuppressSNI f (NormalizeSNI s) then None else Some (CatNetHTTPSHost, NormalizeSNI s))
           else None)
          (\<lambda>(c, v). if v = [] then None else Some (c, v)))"

definition contributors :: "Filter option \<Rightarrow> EventRow list \<Rightarrow> Category \<times> string \<Rightarrow> EventRow list" where
  "contributors f events cv = filter (\<lambda>e. contribution f e = Some cv) events"

definition summary_fp :: "Filter option \<Rightarrow> EventRow list \<Rightarrow> Category \<times> string \<Rightarrow> Fingerprint" where
  "summary_fp f events cv =
     \<lparr>fp_Category = fst cv, fp_Value = snd cv,
      fp_Count = int (length (contributors f events cv)),
      fp_FirstEvtID = ev_ID (hd (contributors f events cv))\<rparr>"

definition fingerprints_spec :: "Filter option \<Rightarrow> EventRow list \<Rightarrow> Fingerprint list" where
  "fingerprints_spec f events =
     map (summary_fp f events) (rev (remdups (rev (List.map_filter (contribution f) events))))"

section \<open>Lemmas\<close>

lemma key_of_inject:
  "CHR ''|'' \<notin> set c \<Longrightarrow> CHR ''|'' \<notin> set c' \<Longrightarrow> key_of c v = key_of c' v' \<longleftrightarrow> c = c' \<and> v = v'"
proof (induction c arbitrary: c')
  case Nil
  then show ?case by (cases c') (auto simp: key_of_def)
next
  case (Cons x c)
  then show ?case by (cases c') (auto simp: key_of_def)
qed

lemma contribution_category: "contribution f e = Some (c, v) \<Longrightarrow> c \<in> set AllCategories \<and> v \<noteq> []"
  by (auto simp: contribution_def AllCategories_def bind_eq_Some_conv split: option.splits if_splits prod.splits)

lemma AllCategories_no_bar: "c \<in> set AllCategories \<Longrightarrow> CHR ''|'' \<notin> set c"
  by (auto simp: AllCategories_def)

lemma addUnique_empty [simp]: "addUnique c [] i b = b"
  by (simp add: addUnique_def)

lemmas extract_defs = extract_event_def contribution_def extractFileAccess_def extractExec_def
  extractNetConnect_def extractDNS_def extractTLSSNI_def

lemma extract_event_contribution:
  "extract_event f b e =
     (case contribution f e of None \<Rightarrow> b | Some (c, v) \<Rightarrow> addUnique c v (ev_ID e) b)"
proof (cases "ev_Data e")
  case None
  then show ?thesis by (simp add: extract_defs)
next
  case (Some d)
  consider "ev_Type e = ''file_access''" | "ev_Type e = ''exec''" | "ev_Type e = ''net_connect''"
    | "ev_Type e = ''dns_query''" | "ev_Type e = ''tls_sni''"
    | "ev_Type e \<notin> {''file_access'', ''exec'', ''net_connect'', ''dns_query'', ''tls_sni''}"
    by blast
  then show ?thesis
  proof cases
    case 1
    with Some show ?thesis
      by (cases "decode_file_access d") (simp_all add: extract_defs Let_def split: prod.split)
  next
    case 2
    with Some show ?thesis
      by (cases "string_field ''BinaryPathStr'' d") (simp_all add: extract_defs)
  next
    case 3
    with Some show ?thesis
      by (cases "decode_net_connect d") (simp_all add: extract_defs split: prod.split)
  next
    case 4
    with Some show ?thesis
      by (cases "string_field ''QName'' d") (simp_all add: extract_defs)
  next
    case 5
    with Some show ?thesis
      by (cases "string_field ''SNI'' d") (simp_all add: extract_defs Let_def)
  next
    case 6
    with Some show ?thesis by (simp add: extract_event_def contribution_def)
  qed
qed

text \<open>The bucket after some events is the specification, keyed.\<close>

definition keyed :: "Fingerprint \<Rightarrow> string \<times> Fingerprint" where
  "keyed fp = (Fingerprint_Key fp, fp)"

lemma contributors_Nil_iff:
  "contributors f es cv = [] \<longleftrightarrow> cv \<notin> set (List.map_filter (contribution f) es)"
  by (induction es) (auto simp: contributors_def List.map_filter_simps split: option.splits)

lemma summary_snoc_other:
  "contribution f e \<noteq> Some cv \<Longrightarrow> summary_fp f (es @ [e]) cv = summary_fp f es cv"
  by (simp add: summary_fp_def contributors_def)

lemma summary_snoc_same:
  "contribution f e = Some cv \<Longrightarrow> contributors f es cv \<noteq> [] \<Longrightarrow>
   summary_fp f (es @ [e]) cv = (summary_fp f es cv)\<lparr>fp_Count := fp_Count (summary_fp f es cv) + 1\<rparr>"
  by (simp add: summary_fp_def contributors_def)

lemma summary_snoc_new:
  "contribution f e = Some (c, v) \<Longrightarrow> contributors f es (c, v) = [] \<Longrightarrow>
   summary_fp f (es @ [e]) (c, v) =
     \<lparr>fp_Category = c, fp_Value = v, fp_Count = 1, fp_FirstEvtID = ev_ID e\<rparr>"
  by (simp add: summary_fp_def contributors_def)

lemma summary_key: "Fingerprint_Key (summary_fp f es cv) = key_of (fst cv) (snd cv)"
  by (simp add: Fingerprint_Key_def summary_fp_def)

lemma contributed_pairs:
  "cv \<in> set (List.map_filter (contribution f) es) \<Longrightarrow> fst cv \<in> set AllCategories"
  by (cases cv) (auto simp: List.map_filter_def dest: contribution_category)

lemma key_of_contributed:
  assumes "cv \<in> set (List.map_filter (contribution f) es)" "contribution f e = Some (c, v)"
  shows "key_of (fst cv) (snd cv) = key_of c v \<longleftrightarrow> cv = (c, v)"
  using key_of_inject [of "fst cv" c "snd cv" v] AllCategories_no_bar
    contributed_pairs [OF assms(1)] contribution_category [OF assms(2)]
  by (metis prod.exhaust_sel fst_conv snd_conv)

lemma map_filter_snoc:
  "List.map_filter g (es @ [e]) = List.map_filter g es @ (case g e of None \<Rightarrow> [] | Some y \<Rightarrow> [y])"
  by (simp add: List.map_filter_def split: option.splits)

lemma bucket_spec: "foldl (extract_event f) [] es = map keyed (fingerprints_spec f es)"
proof (induction es rule: rev_induct)
  case Nil
  then show ?case by (simp add: fingerprints_spec_def List.map_filter_simps)
next
  case (snoc e es)
  let ?ps = "List.map_filter (contribution f) es"
  show ?case
  proof (cases "contribution f e")
    case None
    then show ?thesis
      using snoc by (simp add: extract_event_contribution fingerprints_spec_def map_filter_snoc
          summary_snoc_other)
  next
    case (Some cv)
    obtain c v where cv: "cv = (c, v)" by (cases cv)
    have v: "v \<noteq> []" using contribution_category Some cv by blast
    have key: "\<And>p. p \<in> set ?ps \<Longrightarrow> key_of (fst p) (snd p) = key_of c v \<longleftrightarrow> p = (c, v)"
      using key_of_contributed Some cv by blast
    let ?b = "map keyed (fingerprints_spec f es)"
    have look: "map_of ?b (key_of c v) \<noteq> None \<longleftrightarrow> (c, v) \<in> set ?ps"
      using key by (force simp: map_of_eq_None_iff fingerprints_spec_def keyed_def summary_key image_iff)
    show ?thesis
    proof (cases "(c, v) \<in> set ?ps")
      case True
      let ?g = "\<lambda>(k, fp). if k = key_of c v then (k, fp\<lparr>fp_Count := fp_Count fp + 1\<rparr>) else (k, fp)"
      have same: "?g (keyed (summary_fp f es p)) = keyed (summary_fp f (es @ [e]) p)" if "p \<in> set ?ps" for p
      proof (cases "p = (c, v)")
        case True
        then have "contributors f es p \<noteq> []" using that by (simp add: contributors_Nil_iff)
        then show ?thesis
          using True summary_snoc_same [of f e p es] Some cv
          by (simp add: keyed_def summary_key Fingerprint_Key_def) (simp add: summary_fp_def)
      next
        case False
        then show ?thesis
          using key [OF that] Some cv by (auto simp: keyed_def summary_key summary_snoc_other)
      qed
      have "addUnique c v (ev_ID e) ?b = map ?g ?b"
        using True look v by (simp add: addUnique_def)
      also have "\<dots> = map keyed (map (summary_fp f (es @ [e])) (rev (remdups (rev ?ps))))"
        using same by (simp add: fingerprints_spec_def)
      finally have "addUnique c v (ev_ID e) ?b =
          map keyed (map (summary_fp f (es @ [e])) (rev (remdups (rev ?ps))))" .
      moreover have "rev (remdups (rev (?ps @ [(c, v)]))) = rev (remdups (rev ?ps))"
        using True by simp
      ultimately show ?thesis
        using snoc Some cv by (simp add: extract_event_contribution fingerprints_spec_def map_filter_snoc)
    next
      case False
      have same: "summary_fp f (es @ [e]) p = summary_fp f es p" if "p \<in> set ?ps" for p
        using that False Some cv by (intro summary_snoc_other) auto
      have new: "summary_fp f (es @ [e]) (c, v) =
          \<lparr>fp_Category = c, fp_Value = v, fp_Count = 1, fp_FirstEvtID = ev_ID e\<rparr>"
        using False Some cv by (intro summary_snoc_new) (auto simp: contributors_Nil_iff)
      have "addUnique c v (ev_ID e) ?b = ?b @ [keyed (summary_fp f (es @ [e]) (c, v))]"
        using False look v new by (simp add: addUnique_def keyed_def Fingerprint_Key_def)
      then show ?thesis
        using False snoc Some cv same
        by (simp add: extract_event_contribution fingerprints_spec_def map_filter_snoc)
    qed
  qed
qed

lemma fingerprints_spec_keys: "distinct (map Fingerprint_Key (fingerprints_spec f es))"
proof -
  let ?ps = "rev (remdups (rev (List.map_filter (contribution f) es)))"
  have "inj_on (\<lambda>cv. key_of (fst cv) (snd cv)) (set ?ps)"
    using contributed_pairs [of _ f es] AllCategories_no_bar
    by (intro inj_onI) (metis key_of_inject prod.expand set_remdups set_rev)
  then have "distinct (map (\<lambda>cv. key_of (fst cv) (snd cv)) ?ps)"
    by (simp add: distinct_map)
  then show ?thesis by (simp add: fingerprints_spec_def comp_def summary_key)
qed

lemma fingerprints_spec_set:
  "set (fingerprints_spec f es) =
     summary_fp f es ` {cv. \<exists>e\<in>set es. contribution f e = Some cv}"
  by (force simp: fingerprints_spec_def List.map_filter_def image_iff)

lemma fingerprints_spec_category: "fp \<in> set (fingerprints_spec f es) \<Longrightarrow> fp_Category fp \<in> set AllCategories"
  using contribution_category by (fastforce simp: fingerprints_spec_set summary_fp_def)

text \<open>A permutation of the bucket, whatever it is, leaves these facts in place.\<close>

definition permuting :: "(bucket \<Rightarrow> bucket) \<Rightarrow> bool" where
  "permuting ord \<longleftrightarrow> (\<forall>b. mset (ord b) = mset b)"

lemma extract_mset:
  "permuting ord \<Longrightarrow> mset (ExtractFingerprintsWith ord es f) = mset (fingerprints_spec f es)"
proof -
  assume "permuting ord"
  then have "image_mset snd (mset (ord (map keyed (fingerprints_spec f es)))) =
      image_mset snd (mset (map keyed (fingerprints_spec f es)))"
    by (simp add: permuting_def)
  also have "\<dots> = mset (fingerprints_spec f es)"
    by (simp add: multiset.map_comp comp_def keyed_def)
  finally show ?thesis by (simp add: ExtractFingerprintsWith_def bucket_spec)
qed



end
