(* ===== verification/Analyze.thy ===== *)
theory Analyze
  imports Fingerprint
begin

text \<open>
  \<open>differ/analyze.go\<close>: \<open>AnalyzeRun\<close> over any storage backend, the contract a backend
  owes the differ as a locale, and what the analysis then achieves. The state is that
  of the backend together with the metrics sink's. \<open>newID i\<close> and \<open>now i\<close> are the id
  and the clock reading drawn for the \<open>i\<close>-th fingerprint of the walk.
\<close>

section \<open>The differ\<close>

definition baseline_row :: "string \<Rightarrow> string \<Rightarrow> int \<Rightarrow> Fingerprint \<Rightarrow> BaselineRow" where
  "baseline_row pkg runID n fp =
     \<lparr>bl_PackageName = pkg, bl_Category = fp_Category fp, bl_Value = fp_Value fp,
      bl_FirstSeenRunID = runID, bl_LastSeenRunID = runID, bl_OccurrenceCount = n\<rparr>"

definition seedBaseline :: "'db Backend \<Rightarrow> string \<Rightarrow> string \<Rightarrow> Fingerprint list \<Rightarrow> ('db, unit) op" where
  "seedBaseline be runID pkgName fps db =
     (let rows = map (\<lambda>fp. baseline_row pkgName runID (fp_Count fp) fp) fps in
      case be_MergeBaseline be runID rows db of
        (Inl e, db1) \<Rightarrow> (Inl e, db1)
      | (Inr _, db1) \<Rightarrow> be_MarkRunBaseline be runID True db1)"

definition deviation_row_of :: "string \<Rightarrow> string \<Rightarrow> time \<Rightarrow> Fingerprint \<Rightarrow> DeviationRow" where
  "deviation_row_of i runID t fp =
     \<lparr>dv_ID = i, dv_RunID = runID, dv_Category = fp_Category fp, dv_Value = fp_Value fp,
      dv_EvidenceEventID = fp_FirstEvtID fp, dv_Severity = defaultSeverity (fp_Category fp),
      dv_DetectedAt = t, dv_NotifiedAt = None, dv_Suppressed = False\<rparr>"

text \<open>The walk over the run's fingerprints: deviations and baseline bumps.\<close>

fun walk_fps :: "(nat \<Rightarrow> string) \<Rightarrow> (nat \<Rightarrow> time) \<Rightarrow> string \<Rightarrow> string \<Rightarrow> string list \<Rightarrow> nat
    \<Rightarrow> Fingerprint list \<Rightarrow> DeviationRow list \<times> BaselineRow list" where
  "walk_fps newID now runID pkg known i [] = ([], [])"
| "walk_fps newID now runID pkg known i (fp # fps) =
     (let (ds, bs) = walk_fps newID now runID pkg known (Suc i) fps in
      if Fingerprint_Key fp \<in> set known then (ds, baseline_row pkg runID 1 fp # bs)
      else (deviation_row_of (newID i) runID (now i) fp # ds, bs))"

definition diffRun ::
  "'db Backend \<Rightarrow> (nat \<Rightarrow> string) \<Rightarrow> (nat \<Rightarrow> time) \<Rightarrow> (DeviationRow list \<Rightarrow> 'm \<Rightarrow> 'm) \<Rightarrow> string \<Rightarrow> string
    \<Rightarrow> BaselineRow list \<Rightarrow> Fingerprint list \<Rightarrow> ('db \<times> 'm, int) op" where
  "diffRun be newID now sink runID pkg baseline runFPs = (\<lambda>(db0, m).
     (let known = map (\<lambda>b. key_of (bl_Category b) (bl_Value b)) baseline;
          (deviations, newBaselineRows) = walk_fps newID now runID pkg known 0 runFPs;
          (_, db1) = be_DeleteDeviationsForRun be runID db0
      in case be_WriteDeviations be deviations db1 of
           (Inl e, db2) \<Rightarrow> (Inl (Wrap ''WriteDeviations'' e), db2, m)
         | (Inr _, db2) \<Rightarrow>
             (let m' = sink deviations m;
                  (_, db3) = be_MergeBaseline be runID newBaselineRows db2;
                  db4 = (if deviations = [] then snd (be_MarkRunBaseline be runID True db3) else db3)
              in (Inr (int (length deviations)), db4, m'))))"

definition AnalyzeRun ::
  "'db Backend \<Rightarrow> (bucket \<Rightarrow> bucket) \<Rightarrow> (nat \<Rightarrow> string) \<Rightarrow> (nat \<Rightarrow> time) \<Rightarrow> (DeviationRow list \<Rightarrow> 'm \<Rightarrow> 'm)
    \<Rightarrow> string \<Rightarrow> ('db \<times> 'm, int) op" where
  "AnalyzeRun be ord newID now sink runID = (\<lambda>(db, m).
     (case be_GetRun be runID db of
        (Inl e, db1) \<Rightarrow> (Inl (Wrap ''GetRun'' e), db1, m)
      | (Inr run, db1) \<Rightarrow>
          if run_PackageName run = [] then (Inr 0, db1, m)
          else
            (case be_ListEventsByRun be runID 0 db1 of
               (Inl e, db2) \<Rightarrow> (Inl (Wrap ''ListEventsByRun'' e), db2, m)
             | (Inr events, db2) \<Rightarrow>
                 (case be_ListAllowEntries be db2 of (r, db3) \<Rightarrow>
                   (let allEntries = (case r of Inl e \<Rightarrow> [] | Inr es \<Rightarrow> es);
                        filter = NewFilter (EntriesForPackage allEntries (run_PackageName run));
                        runFPs = ExtractFingerprintsWith ord events (Some filter)
                    in case be_LoadBaseline be (run_PackageName run) db3 of
                         (Inl e, db4) \<Rightarrow> (Inl (Wrap ''LoadBaseline'' e), db4, m)
                       | (Inr baseline, db4) \<Rightarrow>
                           if baseline = [] then
                             (case seedBaseline be runID (run_PackageName run) runFPs db4 of
                                (Inl e, db5) \<Rightarrow> (Inl (Wrap ''seedBaseline'' e), db5, m)
                              | (Inr _, db5) \<Rightarrow> (Inr 0, db5, m))
                           else diffRun be newID now sink runID (run_PackageName run) baseline runFPs
                                  (db4, m))))))"

section \<open>What the analysis is for\<close>

text \<open>
  The abstract store: what of a database the analysis reads and writes. A deviation is
  (id, category, value, evidence, severity); a baseline entry is (first seen, last seen,
  count).
\<close>

type_synonym dev_entry = "string \<times> string \<times> string \<times> int \<times> string"
type_synonym bl_entry = "string \<times> string \<times> int"
type_synonym baseline_map = "string \<times> string \<times> string \<Rightarrow> bl_entry option"

record store_view =
  v_run :: "string \<Rightarrow> Run option"
  v_events :: "string \<Rightarrow> EventRow list"
  v_baseline :: baseline_map
  v_devs :: "string \<Rightarrow> dev_entry list"
  v_allow :: "AllowEntry list"

definition dev_entry :: "DeviationRow \<Rightarrow> dev_entry" where
  "dev_entry d = (dv_ID d, dv_Category d, dv_Value d, dv_EvidenceEventID d, dv_Severity d)"

definition merged_entry :: "string \<Rightarrow> bl_entry option \<Rightarrow> BaselineRow \<Rightarrow> bl_entry" where
  "merged_entry runID old r =
     (let n = (if bl_OccurrenceCount r = 0 then 1 else bl_OccurrenceCount r);
          first = (if bl_FirstSeenRunID r = [] then runID else bl_FirstSeenRunID r);
          last = (if bl_LastSeenRunID r = [] then runID else bl_LastSeenRunID r)
      in case old of
           None \<Rightarrow> (first, last, n)
         | Some (first0, last0, n0) \<Rightarrow> (first0, last, n0 + n))"

definition row_key :: "BaselineRow \<Rightarrow> string \<times> string \<times> string" where
  "row_key b = (bl_PackageName b, bl_Category b, bl_Value b)"

lemma row_key_baseline_row [simp]:
  "row_key (baseline_row pkg runID n fp) = (pkg, fp_Category fp, fp_Value fp)"
  by (simp add: row_key_def baseline_row_def)

definition merge_entry :: "string \<Rightarrow> baseline_map \<Rightarrow> BaselineRow \<Rightarrow> baseline_map" where
  "merge_entry runID m r = m(row_key r := Some (merged_entry runID (m (row_key r)) r))"

definition writable :: "store_view \<Rightarrow> DeviationRow list \<Rightarrow> bool" where
  "writable v ds \<longleftrightarrow> distinct (map dv_ID ds) \<and>
     (\<forall>d\<in>set ds. (\<forall>r. dv_ID d \<notin> fst ` set (v_devs v r)) \<and> v_run v (dv_RunID d) \<noteq> None \<and>
        dv_EvidenceEventID d \<in> ev_ID ` set (v_events v (dv_RunID d)))"

text \<open>
  The specification of one analysis, on the view: the fingerprints of a run under the
  allowlist that applies to its package, and those the baseline does not know.
\<close>

definition run_fps :: "store_view \<Rightarrow> AllowEntry list \<Rightarrow> string \<Rightarrow> string \<Rightarrow> Fingerprint list" where
  "run_fps v allow pkg runID =
     fingerprints_spec (Some (NewFilter (EntriesForPackage allow pkg))) (take 10000 (v_events v runID))"

definition known_fp :: "store_view \<Rightarrow> string \<Rightarrow> Fingerprint \<Rightarrow> bool" where
  "known_fp v pkg fp \<longleftrightarrow> v_baseline v (pkg, fp_Category fp, fp_Value fp) \<noteq> None"

definition novel_fps :: "store_view \<Rightarrow> AllowEntry list \<Rightarrow> string \<Rightarrow> string \<Rightarrow> Fingerprint list" where
  "novel_fps v allow pkg runID = filter (\<lambda>fp. \<not> known_fp v pkg fp) (run_fps v allow pkg runID)"

definition dev_of_fp :: "Fingerprint \<Rightarrow> string \<times> string \<times> int \<times> string" where
  "dev_of_fp fp = (fp_Category fp, fp_Value fp, fp_FirstEvtID fp, defaultSeverity (fp_Category fp))"

definition has_baseline :: "store_view \<Rightarrow> string \<Rightarrow> bool" where
  "has_baseline v pkg \<longleftrightarrow> (\<exists>c x. v_baseline v (pkg, c, x) \<noteq> None)"

text \<open>The baseline after a set of fingerprints was merged with given counts.\<close>

definition merged_baseline :: "string \<Rightarrow> string \<Rightarrow> (Fingerprint \<Rightarrow> int) \<Rightarrow> Fingerprint list \<Rightarrow> baseline_map \<Rightarrow> baseline_map" where
  "merged_baseline runID pkg cnt fps m =
     (\<lambda>(p, c, x). case find (\<lambda>fp. fp_Category fp = c \<and> fp_Value fp = x) fps of
          Some fp \<Rightarrow> if p = pkg then Some (merged_entry runID (m (p, c, x)) (baseline_row pkg runID (cnt fp) fp))
                    else m (p, c, x)
        | None \<Rightarrow> m (p, c, x))"

section \<open>Lemmas on the walk\<close>

lemma walk_fps_snd:
  "snd (walk_fps newID now runID pkg known i fps) =
     map (baseline_row pkg runID 1) (filter (\<lambda>fp. Fingerprint_Key fp \<in> set known) fps)"
  by (induction fps arbitrary: i) (simp_all add: case_prod_beta Let_def)

lemma walk_fps_entries:
  "map (snd \<circ> dev_entry) (fst (walk_fps newID now runID pkg known i fps)) =
     map dev_of_fp (filter (\<lambda>fp. Fingerprint_Key fp \<notin> set known) fps)"
  by (induction fps arbitrary: i)
     (simp_all add: case_prod_beta Let_def dev_entry_def dev_of_fp_def deviation_row_of_def)

lemma walk_fps_rows:
  "d \<in> set (fst (walk_fps newID now runID pkg known i fps)) \<Longrightarrow>
   dv_RunID d = runID \<and> (\<exists>j\<ge>i. dv_ID d = newID j) \<and> dv_EvidenceEventID d \<in> fp_FirstEvtID ` set fps"
proof (induction fps arbitrary: i)
  case (Cons fp fps)
  show ?case
  proof (cases "d \<in> set (fst (walk_fps newID now runID pkg known (Suc i) fps))")
    case True
    then show ?thesis using Cons.IH [of "Suc i"] Suc_leD by (meson image_mono set_subset_Cons subsetD)
  next
    case False
    then show ?thesis
      using Cons.prems by (auto simp: case_prod_beta Let_def deviation_row_of_def split: if_splits)
  qed
qed simp

lemma walk_fps_admitted:
  "d \<in> set (fst (walk_fps newID now runID pkg known i fps)) \<Longrightarrow>
   dv_RunID d = runID \<and> (\<exists>j. dv_ID d = newID j) \<and>
   (\<exists>fp\<in>set fps. dv_Category d = fp_Category fp \<and> dv_Value d = fp_Value fp \<and> dv_Severity d = defaultSeverity (fp_Category fp))"
proof (induction fps arbitrary: i)
  case (Cons fp fps)
  show ?case
  proof (cases "d \<in> set (fst (walk_fps newID now runID pkg known (Suc i) fps))")
    case False
    then show ?thesis
      using Cons.prems by (auto simp: case_prod_beta Let_def deviation_row_of_def split: if_splits)
  qed (use Cons.IH in auto)
qed simp

lemma walk_fps_distinct_ids:
  "inj newID \<Longrightarrow> distinct (map dv_ID (fst (walk_fps newID now runID pkg known i fps)))"
proof (induction fps arbitrary: i)
  case (Cons fp fps)
  have "newID i \<notin> dv_ID ` set (fst (walk_fps newID now runID pkg known (Suc i) fps))"
    using walk_fps_rows Cons.prems by (fastforce dest: injD)
  then show ?case
    using Cons by (simp add: case_prod_beta Let_def deviation_row_of_def)
qed simp

lemma length_walk_fps:
  "length (fst (walk_fps newID now runID pkg known i fps)) =
     length (filter (\<lambda>fp. Fingerprint_Key fp \<notin> set known) fps)"
  by (metis walk_fps_entries length_map)

section \<open>Lemmas on the baseline\<close>

lemma foldl_merge_entry:
  "distinct (map row_key rows) \<Longrightarrow>
   foldl (merge_entry runID) m rows k =
     (case find (\<lambda>r. row_key r = k) rows of None \<Rightarrow> m k | Some r \<Rightarrow> Some (merged_entry runID (m k) r))"
proof (induction rows arbitrary: m)
  case (Cons r rows)
  show ?case
  proof (cases "row_key r = k")
    case True
    then have "find (\<lambda>r. row_key r = k) rows = None"
      using Cons.prems by (simp add: find_None_not_in)
    then show ?thesis using Cons True by (simp add: merge_entry_def)
  next
    case False
    then show ?thesis using Cons by (simp add: merge_entry_def)
  qed
qed simp

lemma find_map: "find P (map f xs) = map_option f (find (P \<circ> f) xs)"
  by (induction xs) auto

lemma distinct_row_keys:
  "distinct (map Fingerprint_Key fps) \<Longrightarrow> distinct (map row_key (map (\<lambda>fp. baseline_row pkg runID (cnt fp) fp) fps))"
proof (induction fps)
  case (Cons fp fps)
  have "(fp_Category fp, fp_Value fp) \<notin> (\<lambda>g. (fp_Category g, fp_Value g)) ` set fps"
    using Cons.prems by (force simp: Fingerprint_Key_def)
  then show ?case using Cons by auto
qed simp

lemma merge_rows:
  assumes "distinct (map Fingerprint_Key fps)"
  shows "foldl (merge_entry runID) m (map (\<lambda>fp. baseline_row pkg runID (cnt fp) fp) fps) =
    merged_baseline runID pkg cnt fps m"
proof
  fix k :: "string \<times> string \<times> string"
  obtain p c x where k: "k = (p, c, x)" by (metis prod_cases3)
  have "find ((\<lambda>r. row_key r = k) \<circ> (\<lambda>fp. baseline_row pkg runID (cnt fp) fp)) fps =
      (if p = pkg then find (\<lambda>fp. fp_Category fp = c \<and> fp_Value fp = x) fps else None)"
    by (auto simp: k comp_def find_None_iff)
  then show "foldl (merge_entry runID) m (map (\<lambda>fp. baseline_row pkg runID (cnt fp) fp) fps) k =
      merged_baseline runID pkg cnt fps m k"
    using foldl_merge_entry [OF distinct_row_keys [OF assms]]
    by (auto simp: find_map merged_baseline_def k split: option.splits)
qed

lemma find_permuted:
  assumes "mset xs = mset ys" "distinct (map Fingerprint_Key xs)"
  shows "find (\<lambda>fp. fp_Category fp = c \<and> fp_Value fp = x) xs = find (\<lambda>fp. fp_Category fp = c \<and> fp_Value fp = x) ys"
proof -
  have set: "set xs = set ys" using assms(1) by (metis set_mset_mset)
  have uniq: "f = g" if "f \<in> set xs" "g \<in> set xs" "fp_Category f = fp_Category g" "fp_Value f = fp_Value g" for f g
    using that assms(2) inj_on_key [of Fingerprint_Key xs f g] by (simp add: Fingerprint_Key_def)
  show ?thesis
  proof (cases "find (\<lambda>fp. fp_Category fp = c \<and> fp_Value fp = x) xs")
    case None
    then show ?thesis using set by (metis find_None_iff)
  next
    case (Some f)
    then have f: "f \<in> set xs" "fp_Category f = c" "fp_Value f = x" by (auto dest: find_Some_in)
    then obtain g where g: "find (\<lambda>fp. fp_Category fp = c \<and> fp_Value fp = x) ys = Some g"
      using set by (metis (mono_tags, lifting) find_None_iff not_Some_eq)
    then have "g \<in> set xs" "fp_Category g = c" "fp_Value g = x" using set by (auto dest: find_Some_in)
    then show ?thesis using Some f g uniq by metis
  qed
qed

lemma merged_baseline_permuted:
  "mset fps = mset gps \<Longrightarrow> distinct (map Fingerprint_Key fps) \<Longrightarrow>
   merged_baseline runID pkg cnt fps m = merged_baseline runID pkg cnt gps m"
  by (simp add: merged_baseline_def find_permuted)

lemma merged_baseline_dom:
  "merged_baseline runID pkg cnt fps m k = None \<longleftrightarrow>
     m k = None \<and> (\<forall>fp\<in>set fps. k \<noteq> (pkg, fp_Category fp, fp_Value fp))"
proof -
  obtain p c x where k: "k = (p, c, x)" by (metis prod_cases3)
  show ?thesis
  proof (cases "find (\<lambda>fp. fp_Category fp = c \<and> fp_Value fp = x) fps")
    case None
    then have "\<forall>fp\<in>set fps. \<not> (fp_Category fp = c \<and> fp_Value fp = x)" by (simp add: find_None_iff)
    with None show ?thesis by (auto simp: k merged_baseline_def)
  next
    case (Some fp)
    then have "fp \<in> set fps" "fp_Category fp = c" "fp_Value fp = x" by (auto dest: find_Some_in)
    with Some show ?thesis by (auto simp: k merged_baseline_def)
  qed
qed

lemma merge_entry_dom: "merge_entry runID m r k = None \<longleftrightarrow> m k = None \<and> k \<noteq> row_key r"
  by (simp add: merge_entry_def)

lemma foldl_merge_dom:
  "foldl (merge_entry runID) m rows k = None \<longleftrightarrow> m k = None \<and> k \<notin> row_key ` set rows"
  by (induction rows arbitrary: m) (auto simp: merge_entry_dom)

end
