(* ===== verification/Differ_Store.thy ===== *)
theory Differ_Store
  imports Analyze
begin

text \<open>
  The contract between the differ and the storage backend as a locale: \<open>view\<close> abstracts a
  database, \<open>integ\<close> is the provider's integrity invariant and \<open>rel\<close> says that no interaction
  with the engine fails. Each law gives the outcome of one operation: on success the
  view changes as stated, on an error it does not change, and errors that are not the
  caller's doing only occur when the database is not reliable. \<open>adm\<close> says which texts the
  columns of the backend take, \<open>room\<close> which counts. What the analysis achieves is proved
  once, from the contract alone.
\<close>

definition kept :: "('db \<Rightarrow> bool) \<Rightarrow> ('db \<Rightarrow> bool) \<Rightarrow> ('db \<Rightarrow> store_view) \<Rightarrow> store_view \<Rightarrow> 'db \<Rightarrow> 'db \<Rightarrow> bool" where
  "kept integ rel view v db db' \<longleftrightarrow> integ db' \<and> view db' = v \<and> (rel db \<longrightarrow> rel db')"

definition baseline_listed :: "store_view \<Rightarrow> string \<Rightarrow> BaselineRow list \<Rightarrow> bool" where
  "baseline_listed v pkg bs \<longleftrightarrow>
     (\<forall>c x. v_baseline v (pkg, c, x) \<noteq> None \<longleftrightarrow> (pkg, c, x) \<in> row_key ` set bs) \<and>
     (\<forall>b\<in>set bs. bl_PackageName b = pkg)"

text \<open>Only the differ writes the baseline, under its own categories.\<close>

definition clean_baseline :: "store_view \<Rightarrow> bool" where
  "clean_baseline v \<longleftrightarrow> (\<forall>p c x. v_baseline v (p, c, x) \<noteq> None \<longrightarrow> c \<in> set AllCategories)"

text \<open>The view after the analysis of a later run that wrote the deviations \<open>ds\<close>.\<close>

definition diff_view :: "store_view \<Rightarrow> string \<Rightarrow> string \<Rightarrow> Run \<Rightarrow> Fingerprint list \<Rightarrow> dev_entry list \<Rightarrow> store_view" where
  "diff_view v i pkg r fps ds =
     v\<lparr>v_devs := (v_devs v)(i := ds),
       v_baseline := merged_baseline i pkg (\<lambda>fp. 1) (filter (known_fp v pkg) fps) (v_baseline v),
       v_run := (if filter (\<lambda>fp. \<not> known_fp v pkg fp) fps = [] then (v_run v)(i \<mapsto> r\<lparr>run_IsBaseline := True\<rparr>)
                 else v_run v)\<rparr>"

text \<open>
  What an analysis may touch, whatever fails on the way: the deviations and the baseline
  flag of its own run, and the baseline of the run's package, in which no key appears
  outside \<open>K\<close> and none disappears.
\<close>

definition scoped :: "string \<Rightarrow> string \<Rightarrow> (string \<times> string \<times> string) set \<Rightarrow> store_view \<Rightarrow> store_view \<Rightarrow> bool" where
  "scoped i pkg K v v' \<longleftrightarrow>
     v_events v' = v_events v \<and> v_allow v' = v_allow v \<and>
     (\<forall>s. s \<noteq> i \<longrightarrow> v_devs v' s = v_devs v s \<and> v_run v' s = v_run v s) \<and>
     (\<forall>k. fst k \<noteq> pkg \<longrightarrow> v_baseline v' k = v_baseline v k) \<and>
     (\<forall>k. v_baseline v k \<noteq> None \<longrightarrow> v_baseline v' k \<noteq> None) \<and>
     (\<forall>k. k \<notin> K \<longrightarrow> v_baseline v k = None \<longrightarrow> v_baseline v' k = None)"

text \<open>When the backend can store what the analysis gives it.\<close>

definition mergeable :: "(string \<Rightarrow> bool) \<Rightarrow> (int \<Rightarrow> bool) \<Rightarrow> string \<Rightarrow> baseline_map \<Rightarrow> BaselineRow list \<Rightarrow> bool" where
  "mergeable adm room i m rows \<longleftrightarrow> adm i \<and> distinct (map row_key rows) \<and>
     (\<forall>r\<in>set rows. adm (bl_PackageName r) \<and> adm (bl_Category r) \<and> adm (bl_Value r) \<and> adm (bl_FirstSeenRunID r) \<and>
        adm (bl_LastSeenRunID r) \<and> room (snd (snd (merged_entry i None r))) \<and>
        room (snd (snd (merged_entry i (m (row_key r)) r))))"

definition dev_admitted :: "(string \<Rightarrow> bool) \<Rightarrow> DeviationRow \<Rightarrow> bool" where
  "dev_admitted adm d \<longleftrightarrow> adm (dv_ID d) \<and> adm (dv_RunID d) \<and> adm (dv_Category d) \<and> adm (dv_Value d) \<and> adm (dv_Severity d)"

definition recordable ::
  "(string \<Rightarrow> bool) \<Rightarrow> (int \<Rightarrow> bool) \<Rightarrow> store_view \<Rightarrow> string \<Rightarrow> string \<Rightarrow> (Fingerprint \<Rightarrow> int) \<Rightarrow> Fingerprint list \<Rightarrow> bool" where
  "recordable adm room v i pkg n fps \<longleftrightarrow>
     (\<forall>fp\<in>set fps. adm (fp_Value fp) \<and> room (snd (snd (merged_entry i None (baseline_row pkg i (n fp) fp)))) \<and>
        room (snd (snd (merged_entry i (v_baseline v (pkg, fp_Category fp, fp_Value fp)) (baseline_row pkg i (n fp) fp)))))"

definition analysable :: "(string \<Rightarrow> bool) \<Rightarrow> (int \<Rightarrow> bool) \<Rightarrow> store_view \<Rightarrow> string \<Rightarrow> string \<Rightarrow> Fingerprint list \<Rightarrow> bool" where
  "analysable adm room v i pkg fps \<longleftrightarrow>
     (\<forall>fp\<in>set fps. adm (fp_Value fp)) \<and> recordable adm room v i pkg (\<lambda>fp. 1) (filter (known_fp v pkg) fps)"

lemma unrestricted [simp]:
  "recordable (\<lambda>x. True) (\<lambda>n. True) v i pkg n fps" "analysable (\<lambda>x. True) (\<lambda>n. True) v i pkg fps"
  by (simp_all add: recordable_def analysable_def)

lemma recordable_set_cong: "set fps = set gps \<Longrightarrow> recordable adm room v i pkg n fps \<longleftrightarrow> recordable adm room v i pkg n gps"
  by (simp add: recordable_def)

lemma analysable_set_cong: "set fps = set gps \<Longrightarrow> analysable adm room v i pkg fps \<longleftrightarrow> analysable adm room v i pkg gps"
  by (simp add: analysable_def recordable_def)

lemma scoped_refl [simp]: "scoped i pkg K v v"
  by (simp add: scoped_def)

lemma scoped_trans: "scoped i pkg K u v \<Longrightarrow> scoped i pkg K v w \<Longrightarrow> scoped i pkg K u w"
  by (auto simp: scoped_def)

locale differ_store =
  fixes be :: "'db Backend"
    and integ :: "'db \<Rightarrow> bool"
    and rel :: "'db \<Rightarrow> bool"
    and view :: "'db \<Rightarrow> store_view"
    and adm :: "string \<Rightarrow> bool"
    and room :: "int \<Rightarrow> bool"
  assumes category_admitted: "c \<in> set AllCategories \<Longrightarrow> adm c"
    and severity_admitted: "adm (defaultSeverity c)"
    and run_admitted: "integ db \<Longrightarrow> v_run (view db) i = Some r \<Longrightarrow> adm i \<and> adm (run_PackageName r)"
    and GetRun_law:
    "integ db \<Longrightarrow> be_GetRun be i db = (res, db') \<Longrightarrow>
       kept integ rel view (view db) db db' \<and>
       (case res of Inr r \<Rightarrow> v_run (view db) i = Some r | Inl e \<Rightarrow> rel db \<longrightarrow> v_run (view db) i = None)"
    and ListEvents_law:
    "integ db \<Longrightarrow> be_ListEventsByRun be i 0 db = (evs, db') \<Longrightarrow>
       kept integ rel view (view db) db db' \<and>
       (case evs of Inr es \<Rightarrow> es = take 10000 (v_events (view db) i) | Inl e \<Rightarrow> rel db \<longrightarrow> \<not> adm i)"
    and ListAllow_law:
    "integ db \<Longrightarrow> be_ListAllowEntries be db = (als, db') \<Longrightarrow>
       kept integ rel view (view db) db db' \<and>
       (case als of Inr es \<Rightarrow> es = v_allow (view db) | Inl e \<Rightarrow> \<not> rel db)"
    and LoadBaseline_law:
    "integ db \<Longrightarrow> be_LoadBaseline be pkg db = (bls, db') \<Longrightarrow>
       kept integ rel view (view db) db db' \<and>
       (case bls of Inr bs \<Rightarrow> baseline_listed (view db) pkg bs | Inl e \<Rightarrow> rel db \<longrightarrow> \<not> adm pkg)"
    and MergeBaseline_law:
    "integ db \<Longrightarrow> be_MergeBaseline be i rows db = (ures, db') \<Longrightarrow>
       (case ures of
          Inr u \<Rightarrow> kept integ rel view
            ((view db)\<lparr>v_baseline := foldl (merge_entry i) (v_baseline (view db)) rows\<rparr>) db db'
        | Inl e \<Rightarrow> (rel db \<longrightarrow> \<not> mergeable adm room i (v_baseline (view db)) rows) \<and> kept integ rel view (view db) db db')"
    and MarkRunBaseline_law:
    "integ db \<Longrightarrow> be_MarkRunBaseline be i b db = (ures, db') \<Longrightarrow>
       (case ures of
          Inr u \<Rightarrow> (\<exists>r. v_run (view db) i = Some r \<and> kept integ rel view
            ((view db)\<lparr>v_run := (v_run (view db))(i \<mapsto> r\<lparr>run_IsBaseline := b\<rparr>)\<rparr>) db db')
        | Inl e \<Rightarrow> (rel db \<longrightarrow> v_run (view db) i = None) \<and> kept integ rel view (view db) db db')"
    and DeleteDeviations_law:
    "integ db \<Longrightarrow> be_DeleteDeviationsForRun be i db = (ures, db') \<Longrightarrow>
       (case ures of
          Inr u \<Rightarrow> kept integ rel view ((view db)\<lparr>v_devs := (v_devs (view db))(i := [])\<rparr>) db db'
        | Inl e \<Rightarrow> (rel db \<longrightarrow> \<not> adm i) \<and> kept integ rel view (view db) db db')"
    and WriteDeviations_law:
    "integ db \<Longrightarrow> be_WriteDeviations be ds db = (ures, db') \<Longrightarrow>
       (case ures of
          Inr u \<Rightarrow> kept integ rel view ((view db)\<lparr>v_devs := (\<lambda>r. v_devs (view db) r @
             map dev_entry (filter (\<lambda>d. dv_RunID d = r) ds))\<rparr>) db db'
        | Inl e \<Rightarrow> (rel db \<longrightarrow> \<not> (writable (view db) ds \<and> (\<forall>d\<in>set ds. dev_admitted adm d))) \<and> kept integ rel view (view db) db db')"
begin

section \<open>On a reliable database\<close>

lemma GetRun_ok:
  "integ db \<Longrightarrow> rel db \<Longrightarrow> v_run (view db) i = Some r \<Longrightarrow>
   \<exists>db'. be_GetRun be i db = (Inr r, db') \<and> integ db' \<and> rel db' \<and> view db' = view db"
  using GetRun_law [of db i] by (cases "be_GetRun be i db") (auto simp: kept_def split: sum.splits)

lemma ListEvents_ok:
  "integ db \<Longrightarrow> rel db \<Longrightarrow> adm i \<Longrightarrow>
   \<exists>db'. be_ListEventsByRun be i 0 db = (Inr (take 10000 (v_events (view db) i)), db') \<and> integ db' \<and> rel db' \<and> view db' = view db"
  using ListEvents_law [of db i] by (cases "be_ListEventsByRun be i 0 db") (auto simp: kept_def split: sum.splits)

lemma ListAllow_ok:
  "integ db \<Longrightarrow> rel db \<Longrightarrow>
   \<exists>db'. be_ListAllowEntries be db = (Inr (v_allow (view db)), db') \<and> integ db' \<and> rel db' \<and> view db' = view db"
  using ListAllow_law [of db] by (cases "be_ListAllowEntries be db") (auto simp: kept_def split: sum.splits)

lemma LoadBaseline_ok:
  "integ db \<Longrightarrow> rel db \<Longrightarrow> adm pkg \<Longrightarrow>
   \<exists>bs db'. be_LoadBaseline be pkg db = (Inr bs, db') \<and> baseline_listed (view db) pkg bs \<and>
     integ db' \<and> rel db' \<and> view db' = view db"
  using LoadBaseline_law [of db pkg] by (cases "be_LoadBaseline be pkg db") (auto simp: kept_def split: sum.splits)

lemma MergeBaseline_ok:
  "integ db \<Longrightarrow> rel db \<Longrightarrow> mergeable adm room i (v_baseline (view db)) rows \<Longrightarrow>
   \<exists>db'. be_MergeBaseline be i rows db = (Inr (), db') \<and> integ db' \<and> rel db' \<and>
     view db' = (view db)\<lparr>v_baseline := foldl (merge_entry i) (v_baseline (view db)) rows\<rparr>"
  using MergeBaseline_law [of db i rows]
  by (cases "be_MergeBaseline be i rows db") (auto simp: kept_def split: sum.splits)

lemma MarkRunBaseline_ok:
  "integ db \<Longrightarrow> rel db \<Longrightarrow> v_run (view db) i = Some r \<Longrightarrow>
   \<exists>db'. be_MarkRunBaseline be i b db = (Inr (), db') \<and> integ db' \<and> rel db' \<and>
     view db' = (view db)\<lparr>v_run := (v_run (view db))(i \<mapsto> r\<lparr>run_IsBaseline := b\<rparr>)\<rparr>"
  using MarkRunBaseline_law [of db i b]
  by (cases "be_MarkRunBaseline be i b db") (auto simp: kept_def split: sum.splits)

lemma DeleteDeviations_ok:
  "integ db \<Longrightarrow> rel db \<Longrightarrow> adm i \<Longrightarrow>
   \<exists>db'. be_DeleteDeviationsForRun be i db = (Inr (), db') \<and> integ db' \<and> rel db' \<and>
     view db' = (view db)\<lparr>v_devs := (v_devs (view db))(i := [])\<rparr>"
  using DeleteDeviations_law [of db i]
  by (cases "be_DeleteDeviationsForRun be i db") (auto simp: kept_def split: sum.splits)

lemma WriteDeviations_ok:
  "integ db \<Longrightarrow> rel db \<Longrightarrow> writable (view db) ds \<Longrightarrow> \<forall>d\<in>set ds. dev_admitted adm d \<Longrightarrow>
   \<exists>db'. be_WriteDeviations be ds db = (Inr (), db') \<and> integ db' \<and> rel db' \<and>
     view db' = (view db)\<lparr>v_devs := (\<lambda>r. v_devs (view db) r @ map dev_entry (filter (\<lambda>d. dv_RunID d = r) ds))\<rparr>"
  using WriteDeviations_law [of db ds]
  by (cases "be_WriteDeviations be ds db") (auto simp: kept_def split: sum.splits)

lemma recordable_mergeable:
  assumes "integ db" "v_run (view db) i = Some r" "run_PackageName r = pkg" "recordable adm room (view db) i pkg n fps"
    and "distinct (map Fingerprint_Key fps)" "\<forall>fp\<in>set fps. fp_Category fp \<in> set AllCategories"
  shows "mergeable adm room i (v_baseline (view db)) (map (\<lambda>fp. baseline_row pkg i (n fp) fp) fps)"
proof -
  have a: "adm i" "adm pkg" using run_admitted [OF assms(1,2)] assms(3) by simp_all
  have "distinct (map row_key (map (\<lambda>fp. baseline_row pkg i (n fp) fp) fps))"
    using distinct_row_keys [OF assms(5)] .
  then show ?thesis
    using a assms(4,6) category_admitted unfolding mergeable_def recordable_def
    by (auto simp: baseline_row_def row_key_def)
qed

text \<open>The first run of a package: its fingerprints become the baseline.\<close>

lemma seedBaseline_ok:
  assumes "integ db" "rel db" "v_run (view db) i = Some r" "distinct (map Fingerprint_Key fps)"
    and "mergeable adm room i (v_baseline (view db)) (map (\<lambda>fp. baseline_row pkg i (fp_Count fp) fp) fps)"
  shows "\<exists>db'. seedBaseline be i pkg fps db = (Inr (), db') \<and> integ db' \<and> rel db' \<and>
    view db' = (view db)\<lparr>v_baseline := merged_baseline i pkg fp_Count fps (v_baseline (view db)),
                         v_run := (v_run (view db))(i \<mapsto> r\<lparr>run_IsBaseline := True\<rparr>)\<rparr>"
proof -
  let ?rows = "map (\<lambda>fp. baseline_row pkg i (fp_Count fp) fp) fps"
  obtain db1 where 1: "be_MergeBaseline be i ?rows db = (Inr (), db1)" "integ db1" "rel db1"
    "view db1 = (view db)\<lparr>v_baseline := merged_baseline i pkg fp_Count fps (v_baseline (view db))\<rparr>"
    using MergeBaseline_ok [OF assms(1,2,5)] merge_rows [OF assms(4)] by auto
  then have "v_run (view db1) i = Some r" using assms(3) by simp
  then obtain db2 where "be_MarkRunBaseline be i True db1 = (Inr (), db2)" "integ db2" "rel db2"
    "view db2 = (view db1)\<lparr>v_run := (v_run (view db1))(i \<mapsto> r\<lparr>run_IsBaseline := True\<rparr>)\<rparr>"
    using MarkRunBaseline_ok 1 by blast
  with 1 show ?thesis by (simp add: seedBaseline_def)
qed

lemma known_iff:
  assumes "baseline_listed v pkg bs" "fp_Category fp \<in> set AllCategories"
    and "clean_baseline v"
  shows "Fingerprint_Key fp \<in> set (map (\<lambda>b. key_of (bl_Category b) (bl_Value b)) bs) \<longleftrightarrow> known_fp v pkg fp"
proof
  assume "Fingerprint_Key fp \<in> set (map (\<lambda>b. key_of (bl_Category b) (bl_Value b)) bs)"
  then obtain b where b: "b \<in> set bs" "key_of (fp_Category fp) (fp_Value fp) = key_of (bl_Category b) (bl_Value b)"
    by (auto simp: Fingerprint_Key_def)
  have rk: "row_key b = (pkg, bl_Category b, bl_Value b)"
    using b(1) assms(1) by (auto simp: baseline_listed_def row_key_def)
  then have "v_baseline v (pkg, bl_Category b, bl_Value b) \<noteq> None"
    using b(1) assms(1) unfolding baseline_listed_def by (metis image_eqI)
  moreover from this have "CHR ''|'' \<notin> set (bl_Category b)"
    using assms(3) AllCategories_no_bar unfolding clean_baseline_def by blast
  ultimately show "known_fp v pkg fp"
    using b(2) key_of_inject AllCategories_no_bar [OF assms(2)] by (metis known_fp_def)
next
  assume "known_fp v pkg fp"
  then have "(pkg, fp_Category fp, fp_Value fp) \<in> row_key ` set bs"
    using assms(1) unfolding known_fp_def baseline_listed_def by blast
  then show "Fingerprint_Key fp \<in> set (map (\<lambda>b. key_of (bl_Category b) (bl_Value b)) bs)"
    by (auto simp: Fingerprint_Key_def row_key_def)
qed

lemma has_baseline_iff: "baseline_listed v pkg bs \<Longrightarrow> has_baseline v pkg \<longleftrightarrow> bs \<noteq> []"
  by (cases bs) (auto simp: baseline_listed_def has_baseline_def row_key_def)

lemma evidence_in_events:
  "fp \<in> set (fingerprints_spec f es) \<Longrightarrow> fp_FirstEvtID fp \<in> ev_ID ` set es"
proof -
  assume "fp \<in> set (fingerprints_spec f es)"
  then obtain e cv where e: "e \<in> set es" "contribution f e = Some cv" "fp = summary_fp f es cv"
    by (auto simp: fingerprints_spec_set)
  then have "contributors f es cv \<noteq> []" by (auto simp: contributors_def filter_empty_conv)
  then have "hd (contributors f es cv) \<in> set es"
    using hd_in_set by (fastforce simp: contributors_def)
  with e show ?thesis by (simp add: summary_fp_def)
qed

text \<open>
  A later run: what the baseline does not know becomes this run's deviations, in place
  of any it had; what the baseline knows is counted once more; the run joins the
  baseline when there is no deviation.
\<close>

lemma diffRun_ok:
  assumes db: "integ db" "rel db" and run: "v_run (view db) i = Some r"
    and bs: "baseline_listed (view db) pkg bs" "clean_baseline (view db)"
    and fps: "distinct (map Fingerprint_Key fps)" "\<forall>fp\<in>set fps. fp_Category fp \<in> set AllCategories"
      "\<forall>fp\<in>set fps. fp_FirstEvtID fp \<in> ev_ID ` set (v_events (view db) i)"
    and ids: "inj newID" "\<forall>j s. newID j \<notin> fst ` set (v_devs (view db) s)"
    and pkg: "run_PackageName r = pkg" and adm: "\<forall>j. adm (newID j)" "analysable adm room (view db) i pkg fps"
  shows "\<exists>db' ds. diffRun be newID now sink i pkg bs fps (db, m) =
      (Inr (int (length (filter (\<lambda>fp. \<not> known_fp (view db) pkg fp) fps))), db',
       sink (fst (walk_fps newID now i pkg (map (\<lambda>b. key_of (bl_Category b) (bl_Value b)) bs) 0 fps)) m) \<and>
    integ db' \<and> rel db' \<and> map snd ds = map dev_of_fp (filter (\<lambda>fp. \<not> known_fp (view db) pkg fp) fps) \<and>
    view db' = diff_view (view db) i pkg r fps ds"
proof -
  let ?v = "view db"
  let ?known = "map (\<lambda>b. key_of (bl_Category b) (bl_Value b)) bs"
  let ?devs = "fst (walk_fps newID now i pkg ?known 0 fps)"
  let ?rows = "snd (walk_fps newID now i pkg ?known 0 fps)"
  have known: "filter (\<lambda>fp. Fingerprint_Key fp \<in> set ?known) fps = filter (known_fp ?v pkg) fps"
    "filter (\<lambda>fp. Fingerprint_Key fp \<notin> set ?known) fps = filter (\<lambda>fp. \<not> known_fp ?v pkg fp) fps"
    using known_iff [OF bs(1) _ bs(2)] fps(2) by (auto intro!: filter_cong simp del: set_map)
  have rows: "?rows = map (\<lambda>fp. baseline_row pkg i 1 fp) (filter (known_fp ?v pkg) fps)"
    using known(1) by (simp only: walk_fps_snd)
  have runs: "\<forall>d\<in>set ?devs. dv_RunID d = i" using walk_fps_rows by blast
  obtain db1 where 1: "be_DeleteDeviationsForRun be i db = (Inr (), db1)" "integ db1" "rel db1"
    "view db1 = ?v\<lparr>v_devs := (v_devs ?v)(i := [])\<rparr>"
    using DeleteDeviations_ok [OF db] run_admitted [OF db(1) run] by blast
  have "\<forall>d\<in>set ?devs. dev_admitted adm d"
    using walk_fps_admitted [of _ newID now i pkg ?known 0 fps] run_admitted [OF db(1) run] adm fps(2) category_admitted severity_admitted
    by (fastforce simp: dev_admitted_def analysable_def)
  moreover have "writable (view db1) ?devs"
    unfolding writable_def
  proof (intro conjI ballI allI)
    show "distinct (map dv_ID ?devs)" by (rule walk_fps_distinct_ids [OF ids(1)])
    fix d assume "d \<in> set ?devs"
    then obtain j where d: "dv_RunID d = i" "dv_ID d = newID j" "dv_EvidenceEventID d \<in> fp_FirstEvtID ` set fps"
      using walk_fps_rows by blast
    show "dv_ID d \<notin> fst ` set (v_devs (view db1) s)" for s
      using ids(2) by (simp add: d(2) 1(4))
    show "v_run (view db1) (dv_RunID d) \<noteq> None" using run by (simp add: d(1) 1(4))
    show "dv_EvidenceEventID d \<in> ev_ID ` set (v_events (view db1) (dv_RunID d))"
      using d(3) fps(3) by (auto simp: d(1) 1(4))
  qed
  ultimately obtain db2 where 2: "be_WriteDeviations be ?devs db1 = (Inr (), db2)" "integ db2" "rel db2"
    "view db2 = (view db1)\<lparr>v_devs := (\<lambda>s. v_devs (view db1) s @ map dev_entry (filter (\<lambda>d. dv_RunID d = s) ?devs))\<rparr>"
    using WriteDeviations_ok [OF 1(2,3)] by blast
  have devs2: "v_devs (view db2) = (v_devs ?v)(i := map dev_entry ?devs)"
    using runs by (auto simp: 2(4) 1(4) fun_eq_iff filter_id_conv filter_empty_conv)
  have keys: "distinct (map Fingerprint_Key (filter (known_fp ?v pkg) fps))"
    using fps(1) by (rule distinct_map_filterI)
  have "mergeable adm room i (v_baseline ?v) ?rows"
    using recordable_mergeable [OF db(1) run pkg _ keys] adm(2) fps(2) by (simp add: rows analysable_def)
  then have merge: "mergeable adm room i (v_baseline (view db2)) ?rows"
    by (simp add: 2(4) 1(4))
  obtain db3 where 3: "be_MergeBaseline be i ?rows db2 = (Inr (), db3)" "integ db3" "rel db3"
    "view db3 = (view db2)\<lparr>v_baseline := merged_baseline i pkg (\<lambda>fp. 1) (filter (known_fp ?v pkg) fps) (v_baseline ?v)\<rparr>"
    using MergeBaseline_ok [OF 2(2,3) merge] merge_rows [OF keys, of i "v_baseline ?v" pkg "\<lambda>fp. 1"]
    by (auto simp: rows 2(4) 1(4))
  have len: "length ?devs = length (filter (\<lambda>fp. \<not> known_fp ?v pkg fp) fps)"
    using known(2) by (simp only: length_walk_fps)
  have cont: "map snd (map dev_entry ?devs) = map dev_of_fp (filter (\<lambda>fp. \<not> known_fp ?v pkg fp) fps)"
    using walk_fps_entries [of newID now i pkg ?known 0 fps] known(2) by simp
  have v3: "view db3 = ?v\<lparr>v_devs := (v_devs ?v)(i := map dev_entry ?devs),
      v_baseline := merged_baseline i pkg (\<lambda>fp. 1) (filter (known_fp ?v pkg) fps) (v_baseline ?v)\<rparr>"
    using devs2 by (simp add: 3(4) 2(4) 1(4))
  show ?thesis
  proof (cases "filter (\<lambda>fp. \<not> known_fp ?v pkg fp) fps = []")
    case True
    then have none: "?devs = []" using len by simp
    have "v_run (view db3) i = Some r" using run by (simp add: v3)
    then obtain db4 where 4: "be_MarkRunBaseline be i True db3 = (Inr (), db4)" "integ db4" "rel db4"
      "view db4 = (view db3)\<lparr>v_run := (v_run (view db3))(i \<mapsto> r\<lparr>run_IsBaseline := True\<rparr>)\<rparr>"
      using MarkRunBaseline_ok 3 by blast
    have "diffRun be newID now sink i pkg bs fps (db, m) = (Inr (int (length ?devs)), db4, sink ?devs m)"
      using 1 2 3 4 none by (simp add: diffRun_def Let_def case_prod_beta)
    moreover have "view db4 = diff_view ?v i pkg r fps (map dev_entry ?devs)"
      using True by (simp add: 4(4) v3 diff_view_def)
    ultimately show ?thesis
      using 4(2,3) len cont by (intro exI [of _ db4] exI [of _ "map dev_entry ?devs"]) simp
  next
    case False
    then have "?devs \<noteq> []" using len by auto
    then have "diffRun be newID now sink i pkg bs fps (db, m) = (Inr (int (length ?devs)), db3, sink ?devs m)"
      using 1 2 3 by (simp add: diffRun_def Let_def case_prod_beta)
    moreover have "view db3 = diff_view ?v i pkg r fps (map dev_entry ?devs)"
      using False by (simp add: v3 diff_view_def)
    ultimately show ?thesis
      using 3(2,3) len cont by (intro exI [of _ db3] exI [of _ "map dev_entry ?devs"]) simp
  qed
qed

lemma run_fps_facts:
  "distinct (map Fingerprint_Key (run_fps v al pkg i))"
  "fp \<in> set (run_fps v al pkg i) \<Longrightarrow> fp_Category fp \<in> set AllCategories"
  "fp \<in> set (run_fps v al pkg i) \<Longrightarrow> fp_FirstEvtID fp \<in> ev_ID ` set (v_events v i)"
proof -
  show "distinct (map Fingerprint_Key (run_fps v al pkg i))"
    by (simp add: run_fps_def fingerprints_spec_keys)
  assume fp: "fp \<in> set (run_fps v al pkg i)"
  then show "fp_Category fp \<in> set AllCategories"
    unfolding run_fps_def by (rule fingerprints_spec_category)
  have "fp_FirstEvtID fp \<in> ev_ID ` set (take 10000 (v_events v i))"
    using fp unfolding run_fps_def by (rule evidence_in_events)
  then show "fp_FirstEvtID fp \<in> ev_ID ` set (v_events v i)"
    using set_take_subset by fast
qed

lemma extracted_fps:
  assumes "permuting ord"
  defines "fps \<equiv> \<lambda>v al pkg i. ExtractFingerprintsWith ord (take 10000 (v_events v i))
      (Some (NewFilter (EntriesForPackage al pkg)))"
  shows "mset (fps v al pkg i) = mset (run_fps v al pkg i)"
    and "set (fps v al pkg i) = set (run_fps v al pkg i)"
    and "distinct (map Fingerprint_Key (fps v al pkg i))"
proof -
  show m: "mset (fps v al pkg i) = mset (run_fps v al pkg i)"
    using extract_mset [OF assms(1)] by (simp add: fps_def run_fps_def)
  then show "set (fps v al pkg i) = set (run_fps v al pkg i)" by (metis set_mset_mset)
  have "mset (map Fingerprint_Key (fps v al pkg i)) = mset (map Fingerprint_Key (run_fps v al pkg i))"
    using m by simp
  then show "distinct (map Fingerprint_Key (fps v al pkg i))"
    using run_fps_facts(1) by (metis mset_eq_imp_distinct_iff)
qed

lemma diff_view_permuted:
  assumes "mset fps = mset gps" "distinct (map Fingerprint_Key fps)"
  shows "diff_view v i pkg r fps ds = diff_view v i pkg r gps ds"
proof -
  have "mset (filter (known_fp v pkg) fps) = mset (filter (known_fp v pkg) gps)"
    using assms(1) by simp
  then have "merged_baseline i pkg (\<lambda>fp. 1) (filter (known_fp v pkg) fps) (v_baseline v) =
      merged_baseline i pkg (\<lambda>fp. 1) (filter (known_fp v pkg) gps) (v_baseline v)"
    using assms(2) by (intro merged_baseline_permuted distinct_map_filterI)
  moreover have "filter (\<lambda>fp. \<not> known_fp v pkg fp) fps = [] \<longleftrightarrow> filter (\<lambda>fp. \<not> known_fp v pkg fp) gps = []"
    using assms(1) by (metis mset_filter mset_zero_iff)
  ultimately show ?thesis by (simp add: diff_view_def)
qed

lemma prefix_ok:
  assumes "integ db" "rel db" "v_run (view db) i = Some r" "run_PackageName r = pkg" "pkg \<noteq> []"
  obtains bs db' where "baseline_listed (view db) (pkg) bs" "integ db'" "rel db'" "view db' = view db"
    "AnalyzeRun be ord newID now sink i (db, m) =
      (let fps = ExtractFingerprintsWith ord (take 10000 (v_events (view db) i))
          (Some (NewFilter (EntriesForPackage (v_allow (view db)) (pkg)))) in
       if bs = [] then
         (case seedBaseline be i (pkg) fps db' of
            (Inl e, db5) \<Rightarrow> (Inl (Wrap ''seedBaseline'' e), db5, m)
          | (Inr _, db5) \<Rightarrow> (Inr 0, db5, m))
       else diffRun be newID now sink i (pkg) bs fps (db', m))"
proof -
  obtain db1 where 1: "be_GetRun be i db = (Inr r, db1)" "integ db1" "rel db1" "view db1 = view db"
    using GetRun_ok assms by blast
  obtain db2 where 2: "be_ListEventsByRun be i 0 db1 = (Inr (take 10000 (v_events (view db) i)), db2)"
    "integ db2" "rel db2" "view db2 = view db"
    using ListEvents_ok [OF 1(2,3)] 1(4) run_admitted [OF assms(1,3)] by metis
  obtain db3 where 3: "be_ListAllowEntries be db2 = (Inr (v_allow (view db)), db3)"
    "integ db3" "rel db3" "view db3 = view db"
    using ListAllow_ok [OF 2(2,3)] 2(4) by metis
  obtain bs db4 where 4: "be_LoadBaseline be (pkg) db3 = (Inr bs, db4)"
    "baseline_listed (view db) (pkg) bs" "integ db4" "rel db4" "view db4 = view db"
    using LoadBaseline_ok [OF 3(2,3)] 3(4) run_admitted [OF assms(1,3)] assms(4) by metis
  show ?thesis
    by (rule that [OF 4(2-5)]) (simp add: AnalyzeRun_def 1(1) 2(1) 3(1) 4(1) assms(4,5) Let_def)
qed

lemma AnalyzeRun_first:
  assumes "integ db" "rel db" "v_run (view db) i = Some r" "run_PackageName r = pkg" "pkg \<noteq> []"
    and "\<not> has_baseline (view db) pkg" "permuting ord"
    and "recordable adm room (view db) i pkg fp_Count (run_fps (view db) (v_allow (view db)) pkg i)"
  shows "\<exists>db'. AnalyzeRun be ord newID now sink i (db, m) = (Inr 0, db', m) \<and> integ db' \<and> rel db' \<and>
    view db' = (view db)\<lparr>
      v_baseline := merged_baseline i pkg fp_Count (run_fps (view db) (v_allow (view db)) pkg i) (v_baseline (view db)),
      v_run := (v_run (view db))(i \<mapsto> r\<lparr>run_IsBaseline := True\<rparr>)\<rparr>"
proof -
  obtain bs db1 where 1: "baseline_listed (view db) pkg bs" "integ db1" "rel db1" "view db1 = view db"
    "AnalyzeRun be ord newID now sink i (db, m) =
      (let fps = ExtractFingerprintsWith ord (take 10000 (v_events (view db) i))
          (Some (NewFilter (EntriesForPackage (v_allow (view db)) pkg))) in
       if bs = [] then
         (case seedBaseline be i pkg fps db1 of
            (Inl e, db5) \<Rightarrow> (Inl (Wrap ''seedBaseline'' e), db5, m)
          | (Inr _, db5) \<Rightarrow> (Inr 0, db5, m))
       else diffRun be newID now sink i pkg bs fps (db1, m))"
    by (rule prefix_ok [OF assms(1-5)])
  let ?fps = "ExtractFingerprintsWith ord (take 10000 (v_events (view db) i))
     (Some (NewFilter (EntriesForPackage (v_allow (view db)) pkg)))"
  note x = extracted_fps [OF assms(7), of "view db" i "v_allow (view db)" pkg]
  have "bs = []" using has_baseline_iff [OF 1(1)] assms(6) by simp
  moreover obtain db2 where "seedBaseline be i pkg ?fps db1 = (Inr (), db2)" "integ db2" "rel db2"
    "view db2 = (view db)\<lparr>v_baseline := merged_baseline i pkg fp_Count ?fps (v_baseline (view db)),
                         v_run := (v_run (view db))(i \<mapsto> r\<lparr>run_IsBaseline := True\<rparr>)\<rparr>"
    using seedBaseline_ok [OF 1(2,3) _ x(3), of i r pkg] assms(3) 1(4)
      recordable_mergeable [OF assms(1,3,4) _ x(3), of fp_Count] assms(8) recordable_set_cong [OF x(2)] run_fps_facts(2) x(2)
    by auto
  ultimately show ?thesis
    using 1(5) merged_baseline_permuted [OF x(1,3)] by simp
qed

lemma AnalyzeRun_later:
  assumes "integ db" "rel db" "v_run (view db) i = Some r" "run_PackageName r = pkg" "pkg \<noteq> []"
    and "has_baseline (view db) pkg" "clean_baseline (view db)" "permuting ord"
    and "inj newID" "\<forall>j s. newID j \<notin> fst ` set (v_devs (view db) s)"
    and "\<forall>j. adm (newID j)" "analysable adm room (view db) i pkg (run_fps (view db) (v_allow (view db)) pkg i)"
  shows "\<exists>db' m' ds. AnalyzeRun be ord newID now sink i (db, m) =
      (Inr (int (length (novel_fps (view db) (v_allow (view db)) pkg i))), db', m') \<and> integ db' \<and> rel db' \<and>
    mset (map snd ds) = mset (map dev_of_fp (novel_fps (view db) (v_allow (view db)) pkg i)) \<and>
    view db' = diff_view (view db) i pkg r (run_fps (view db) (v_allow (view db)) pkg i) ds"
proof -
  obtain bs db1 where 1: "baseline_listed (view db) pkg bs" "integ db1" "rel db1" "view db1 = view db"
    "AnalyzeRun be ord newID now sink i (db, m) =
      (let fps = ExtractFingerprintsWith ord (take 10000 (v_events (view db) i))
          (Some (NewFilter (EntriesForPackage (v_allow (view db)) pkg))) in
       if bs = [] then
         (case seedBaseline be i pkg fps db1 of
            (Inl e, db5) \<Rightarrow> (Inl (Wrap ''seedBaseline'' e), db5, m)
          | (Inr _, db5) \<Rightarrow> (Inr 0, db5, m))
       else diffRun be newID now sink i pkg bs fps (db1, m))"
    by (rule prefix_ok [OF assms(1-5)])
  let ?fps = "ExtractFingerprintsWith ord (take 10000 (v_events (view db) i))
     (Some (NewFilter (EntriesForPackage (v_allow (view db)) pkg)))"
  let ?new = "filter (\<lambda>fp. \<not> known_fp (view db) pkg fp)"
  note x = extracted_fps [OF assms(8), of "view db" i "v_allow (view db)" pkg]
  have new: "mset (?new ?fps) = mset (novel_fps (view db) (v_allow (view db)) pkg i)"
    using x(1) by (simp add: novel_fps_def)
  then have len: "length (?new ?fps) = length (novel_fps (view db) (v_allow (view db)) pkg i)"
    by (metis size_mset)
  have bs: "bs \<noteq> []" using has_baseline_iff [OF 1(1)] assms(6) by simp
  obtain db2 ds m2 where 2: "diffRun be newID now sink i pkg bs ?fps (db1, m) =
      (Inr (int (length (?new ?fps))), db2, m2)" "integ db2" "rel db2"
    "map snd ds = map dev_of_fp (?new ?fps)" "view db2 = diff_view (view db) i pkg r ?fps ds"
    using diffRun_ok [of db1 i r pkg bs ?fps newID now sink m] 1 assms(3,4,7,9-12) run_fps_facts(2,3) x(2,3)
      analysable_set_cong [OF x(2)]
    by auto
  have "mset (map snd ds) = mset (map dev_of_fp (novel_fps (view db) (v_allow (view db)) pkg i))"
    using 2(4) new by simp
  moreover have "view db2 = diff_view (view db) i pkg r (run_fps (view db) (v_allow (view db)) pkg i) ds"
    using 2(5) diff_view_permuted [OF x(1,3)] by simp
  ultimately show ?thesis
    using 1(5) 2 bs len by (intro exI [of _ db2] exI [of _ m2] exI [of _ ds]) simp
qed

section \<open>Whatever fails\<close>

lemma reads_keep:
  assumes "integ db"
  shows "integ (snd (be_GetRun be i db)) \<and> view (snd (be_GetRun be i db)) = view db"
    and "integ (snd (be_ListEventsByRun be i 0 db)) \<and> view (snd (be_ListEventsByRun be i 0 db)) = view db"
    and "integ (snd (be_ListAllowEntries be db)) \<and> view (snd (be_ListAllowEntries be db)) = view db"
    and "integ (snd (be_LoadBaseline be pkg db)) \<and> view (snd (be_LoadBaseline be pkg db)) = view db"
  using GetRun_law [OF assms surjective_pairing] ListEvents_law [OF assms surjective_pairing]
    ListAllow_law [OF assms surjective_pairing] LoadBaseline_law [OF assms surjective_pairing]
  by (auto simp: kept_def)

lemma MarkRunBaseline_scoped:
  "integ db \<Longrightarrow> integ (snd (be_MarkRunBaseline be i b db)) \<and>
     scoped i pkg K (view db) (view (snd (be_MarkRunBaseline be i b db)))"
  using MarkRunBaseline_law [OF _ surjective_pairing, of db i b]
  by (auto simp: kept_def scoped_def split: sum.splits)

lemma DeleteDeviations_scoped:
  "integ db \<Longrightarrow> integ (snd (be_DeleteDeviationsForRun be i db)) \<and>
     scoped i pkg K (view db) (view (snd (be_DeleteDeviationsForRun be i db)))"
  using DeleteDeviations_law [OF _ surjective_pairing, of db i]
  by (auto simp: kept_def scoped_def split: sum.splits)

lemma WriteDeviations_scoped:
  "integ db \<Longrightarrow> \<forall>d\<in>set ds. dv_RunID d = i \<Longrightarrow> integ (snd (be_WriteDeviations be ds db)) \<and>
     scoped i pkg K (view db) (view (snd (be_WriteDeviations be ds db)))"
  using WriteDeviations_law [OF _ surjective_pairing, of db ds]
  by (auto simp: kept_def scoped_def filter_empty_conv split: sum.splits)

lemma foldl_merge_other:
  "\<forall>r\<in>set rows. bl_PackageName r = pkg \<Longrightarrow> fst k \<noteq> pkg \<Longrightarrow> foldl (merge_entry i) m rows k = m k"
  by (induction rows arbitrary: m) (auto simp: merge_entry_def row_key_def)

lemma MergeBaseline_scoped:
  assumes "integ db" "\<forall>r\<in>set rows. bl_PackageName r = pkg"
    and "\<forall>r\<in>set rows. row_key r \<in> K \<or> v_baseline (view db) (row_key r) \<noteq> None"
  shows "integ (snd (be_MergeBaseline be i rows db)) \<and>
     scoped i pkg K (view db) (view (snd (be_MergeBaseline be i rows db)))"
proof (cases "fst (be_MergeBaseline be i rows db)")
  case (Inl e)
  then show ?thesis
    using MergeBaseline_law [OF assms(1) surjective_pairing, of i rows] by (simp add: kept_def)
next
  case (Inr u)
  let ?b = "foldl (merge_entry i) (v_baseline (view db)) rows"
  have "integ (snd (be_MergeBaseline be i rows db)) \<and>
      view (snd (be_MergeBaseline be i rows db)) = (view db)\<lparr>v_baseline := ?b\<rparr>"
    using MergeBaseline_law [OF assms(1) surjective_pairing, of i rows] Inr by (simp add: kept_def)
  moreover have "v_baseline (view db) k = None \<Longrightarrow> ?b k = None" if "k \<notin> K" for k
    using that assms(3) by (auto simp: foldl_merge_dom)
  moreover have "v_baseline (view db) k \<noteq> None \<Longrightarrow> ?b k \<noteq> None" for k
    by (simp add: foldl_merge_dom)
  moreover have "?b k = v_baseline (view db) k" if "fst k \<noteq> pkg" for k
    using foldl_merge_other [OF assms(2) that] .
  ultimately show ?thesis unfolding scoped_def by simp
qed

lemma diffRun_scoped:
  assumes db: "integ db" and bs: "baseline_listed (view db) pkg bs" "clean_baseline (view db)"
    and fps: "\<forall>fp\<in>set fps. fp_Category fp \<in> set AllCategories"
  shows "integ (fst (snd (diffRun be newID now sink i pkg bs fps (db, m)))) \<and>
    scoped i pkg {} (view db) (view (fst (snd (diffRun be newID now sink i pkg bs fps (db, m)))))"
proof -
  let ?known = "map (\<lambda>b. key_of (bl_Category b) (bl_Value b)) bs"
  let ?devs = "fst (walk_fps newID now i pkg ?known 0 fps)"
  let ?rows = "snd (walk_fps newID now i pkg ?known 0 fps)"
  define db1 where "db1 = snd (be_DeleteDeviationsForRun be i db)"
  define db2 where "db2 = snd (be_WriteDeviations be ?devs db1)"
  define db3 where "db3 = snd (be_MergeBaseline be i ?rows db2)"
  define db4 where "db4 = (if ?devs = [] then snd (be_MarkRunBaseline be i True db3) else db3)"
  have 1: "integ db1" "scoped i pkg {} (view db) (view db1)"
    using DeleteDeviations_scoped [OF db] by (simp_all add: db1_def)
  have 2: "integ db2" "scoped i pkg {} (view db) (view db2)"
    using WriteDeviations_scoped [OF 1(1), of ?devs i] walk_fps_rows scoped_trans [OF 1(2)]
    by (auto simp: db2_def)
  have rows: "bl_PackageName b = pkg \<and> v_baseline (view db) (row_key b) \<noteq> None" if "b \<in> set ?rows" for b
  proof -
    from that obtain fp where fp: "fp \<in> set fps" "Fingerprint_Key fp \<in> set ?known" "b = baseline_row pkg i 1 fp"
      unfolding walk_fps_snd by (auto simp del: set_map simp: set_map [of "baseline_row pkg i 1"])
    then have "known_fp (view db) pkg fp"
      using known_iff [OF bs(1) _ bs(2)] fps by blast
    with fp(3) show ?thesis by (simp add: known_fp_def baseline_row_def row_key_def)
  qed
  then have "\<forall>b\<in>set ?rows. v_baseline (view db2) (row_key b) \<noteq> None"
    using 2(2) unfolding scoped_def by blast
  then have 3: "integ db3" "scoped i pkg {} (view db) (view db3)"
    using MergeBaseline_scoped [OF 2(1), of ?rows pkg "{}" i] rows scoped_trans [OF 2(2)]
    by (auto simp: db3_def)
  have 4: "integ db4" "scoped i pkg {} (view db) (view db4)"
    using 3 MarkRunBaseline_scoped [OF 3(1)] scoped_trans [OF 3(2)] by (auto simp: db4_def)
  have "fst (snd (diffRun be newID now sink i pkg bs fps (db, m))) \<in> {db2, db4}"
    by (auto simp: diffRun_def Let_def case_prod_beta db1_def db2_def db3_def db4_def split: sum.split)
  with 2 4 show ?thesis by auto
qed

lemma seedBaseline_scoped:
  assumes "integ db"
  shows "integ (snd (seedBaseline be i pkg fps db)) \<and>
    scoped i pkg {k. fst k = pkg} (view db) (view (snd (seedBaseline be i pkg fps db)))"
proof -
  let ?rows = "map (\<lambda>fp. baseline_row pkg i (fp_Count fp) fp) fps"
  define db1 where "db1 = snd (be_MergeBaseline be i ?rows db)"
  have 1: "integ db1" "scoped i pkg {k. fst k = pkg} (view db) (view db1)"
    using MergeBaseline_scoped [OF assms, of ?rows pkg "{k. fst k = pkg}" i]
    by (simp_all add: db1_def baseline_row_def row_key_def)
  moreover have "snd (seedBaseline be i pkg fps db) \<in> {db1, snd (be_MarkRunBaseline be i True db1)}"
    by (auto simp: seedBaseline_def Let_def case_prod_beta db1_def split: sum.split)
  ultimately show ?thesis
    using MarkRunBaseline_scoped [OF 1(1)] scoped_trans [OF 1(2)] by (metis insert_iff singletonD)
qed

lemma AnalyzeRun_scoped:
  assumes db: "integ db" and clean: "clean_baseline (view db)" and ord: "permuting ord"
    and run: "\<And>r. v_run (view db) i = Some r \<Longrightarrow> run_PackageName r = pkg"
    and out: "AnalyzeRun be ord newID now sink i (db, m) = (res, db', m')"
  shows "integ db' \<and> scoped i pkg (if has_baseline (view db) pkg then {} else {k. fst k = pkg}) (view db) (view db')"
proof -
  define K :: "(string \<times> string \<times> string) set" where "K = (if has_baseline (view db) pkg then {} else {k. fst k = pkg})"
  obtain r1 db1 where 1: "be_GetRun be i db = (r1, db1)" by fastforce
  obtain r2 db2 where 2: "be_ListEventsByRun be i 0 db1 = (r2, db2)" by fastforce
  obtain r3 db3 where 3: "be_ListAllowEntries be db2 = (r3, db3)" by fastforce
  obtain r4 db4 where 4: "be_LoadBaseline be pkg db3 = (r4, db4)" by fastforce
  have k1: "integ db1" "view db1 = view db" using reads_keep(1) [OF db, of i] 1 by simp_all
  have k2: "integ db2" "view db2 = view db" using reads_keep(2) [OF k1(1), of i] 2 k1 by simp_all
  have k3: "integ db3" "view db3 = view db" using reads_keep(3) [OF k2(1)] 3 k2 by simp_all
  have k4: "integ db4" "view db4 = view db" using reads_keep(4) [OF k3(1), of pkg] 4 k3 by simp_all
  have stay: "integ db' \<and> scoped i pkg K (view db) (view db')" if "db' \<in> {db1, db2, db3, db4}"
    using that k1 k2 k3 k4 by auto
  have pkg: "run_PackageName r = pkg" if "r1 = Inr r" for r
    using GetRun_law [OF db 1] that run by simp
  show ?thesis
  proof (cases "\<exists>r es bs. r1 = Inr r \<and> pkg \<noteq> [] \<and> r2 = Inr es \<and> r4 = Inr bs")
    case False
    have "db' \<in> {db1, db2, db3, db4}"
    proof (cases r1)
      case (Inl e)
      then show ?thesis using out by (simp add: AnalyzeRun_def 1)
    next
      case (Inr r)
      note p = pkg [OF Inr]
      show ?thesis
        using False out p Inr
        by (cases r2; cases r4) (auto simp: AnalyzeRun_def 1 2 3 4 Let_def split: if_splits)
    qed
    then show ?thesis using stay by (simp add: K_def)
  next
    case True
    then obtain r es bs where r: "r1 = Inr r" "pkg \<noteq> []" "r2 = Inr es" "r4 = Inr bs" by blast
    define fps where "fps = ExtractFingerprintsWith ord es
      (Some (NewFilter (EntriesForPackage (case r3 of Inl e \<Rightarrow> [] | Inr es \<Rightarrow> es) pkg)))"
    have bs: "baseline_listed (view db) pkg bs" using LoadBaseline_law [OF k3(1) 4] r(4) k3(2) by simp
    have "set fps = set (fingerprints_spec (Some (NewFilter (EntriesForPackage
        (case r3 of Inl e \<Rightarrow> [] | Inr es \<Rightarrow> es) pkg))) es)"
      using extract_mset [OF ord] unfolding fps_def by (metis set_mset_mset)
    then have cats: "\<forall>fp\<in>set fps. fp_Category fp \<in> set AllCategories"
      using fingerprints_spec_category by blast
    have body: "(res, db', m') = (if bs = [] then
         (case seedBaseline be i pkg fps db4 of
            (Inl e, db5) \<Rightarrow> (Inl (Wrap ''seedBaseline'' e), db5, m)
          | (Inr _, db5) \<Rightarrow> (Inr 0, db5, m))
       else diffRun be newID now sink i pkg bs fps (db4, m))"
      using out [symmetric] r by (simp add: AnalyzeRun_def 1 2 3 4 fps_def Let_def pkg [OF r(1)] cong: if_cong)
    show ?thesis
    proof (cases "bs = []")
      case True
      then have "db' = snd (seedBaseline be i pkg fps db4)"
        using body by (auto split: prod.splits sum.splits)
      then show ?thesis
        using seedBaseline_scoped [OF k4(1), of i pkg fps] has_baseline_iff [OF bs] True k4(2) by simp
    next
      case False
      then have "db' = fst (snd (diffRun be newID now sink i pkg bs fps (db4, m)))"
        using body by (metis fst_conv snd_conv)
      then show ?thesis
        using diffRun_scoped [OF k4(1), of pkg bs fps] bs clean cats has_baseline_iff [OF bs] False k4(2) by simp
    qed
  qed
qed

end

end
