(* ===== verification/Sql.thy ===== *)
theory Sql
  imports Storage "HOL-Library.Option_ord" "HOL-Library.Product_Lexorder" "HOL-Library.List_Lexorder"
    "HOL-Library.Char_ord"
begin

text \<open>
  What the two SQL backends use of \<open>database/sql\<close> and of the SQL language: timestamps in
  text columns, statements and transactions that may fail, \<open>LIKE\<close>, \<open>ORDER BY\<close>,
  \<open>LIMIT\<close>. A database is its committed tables and a script of faults: each flag
  is one interaction with the engine, and \<open>True\<close> makes that interaction fail.
\<close>

section \<open>Timestamps in text columns\<close>

text \<open>
  \<open>t.UTC().Format(time.RFC3339Nano)\<close> writes the date and the time to the second in
  fixed width, then the fraction of the second without its trailing zeros, then \<open>Z\<close>. For the
  years 0 to 9999 the fixed-width part is ordered as the number of seconds is, so a
  column value is that number together with the rest of the text.
\<close>

type_synonym timestamp = "int \<times> string"

fun frac_digits :: "nat \<Rightarrow> int \<Rightarrow> string" where
  "frac_digits 0 n = []"
| "frac_digits (Suc k) n = frac_digits k (n div 10) @ [char_of (48 + nat (n mod 10))]"

definition format_time :: "time \<Rightarrow> timestamp" where
  "format_time t =
     (t div 1000000000,
      (let ds = trim_right_while (\<lambda>c. c = CHR ''0'') (frac_digits 9 (t mod 1000000000)) in
       if ds = [] then ''Z'' else ''.'' @ ds @ ''Z''))"

definition read_frac :: "string \<Rightarrow> int" where
  "read_frac ds = foldl (\<lambda>n c. 10 * n + int (digit_val c)) 0 ds * 10 ^ (9 - length ds)"

definition parse_time :: "timestamp \<Rightarrow> time" where
  "parse_time ts = fst ts * 1000000000 + read_frac (takeWhile is_digit (dropWhile (\<lambda>c. c = CHR ''.'') (snd ts)))"

lemma length_frac_digits [simp]: "length (frac_digits k n) = k"
  by (induction k arbitrary: n) auto

lemma frac_digits_digits: "c \<in> set (frac_digits k n) \<Longrightarrow> is_digit c"
  by (induction k arbitrary: n) (auto intro: is_digit_char_of)

lemma fold_frac_digits: "0 \<le> n \<Longrightarrow> foldl (\<lambda>n c. 10 * n + int (digit_val c)) 0 (frac_digits k n) = n mod 10 ^ k"
proof (induction k arbitrary: n)
  case (Suc k)
  have "nat (n mod 10) < 10" by auto
  then have "digit_val (char_of (48 + nat (n mod 10))) = nat (n mod 10)"
    by (rule digit_val_char_of)
  moreover have "n mod (10 * 10 ^ k) = 10 * (n div 10 mod 10 ^ k) + n mod 10"
    by (simp add: zmod_zmult2_eq)
  ultimately show ?case using Suc by simp
qed simp

lemma fold_zeros:
  "foldl (\<lambda>n c. 10 * n + int (digit_val c)) a (replicate m CHR ''0'') = a * 10 ^ m"
  by (induction m arbitrary: a) (simp_all add: digit_val_def)

lemma trim_right_while_replicate:
  "\<exists>m. s = trim_right_while (\<lambda>c. c = x) s @ replicate m x"
proof -
  have "takeWhile (\<lambda>c. c = x) (rev s) = replicate (length (takeWhile (\<lambda>c. c = x) (rev s))) x"
    by (rule replicate_eqI) (auto dest: set_takeWhileD)
  moreover have "s = rev (dropWhile (\<lambda>c. c = x) (rev s)) @ rev (takeWhile (\<lambda>c. c = x) (rev s))"
    by (metis rev_append rev_rev_ident takeWhile_dropWhile_id)
  ultimately show ?thesis unfolding trim_right_while_def by (metis rev_replicate)
qed

lemma read_frac_trim:
  assumes "length s = 9"
  shows "read_frac (trim_right_while (\<lambda>c. c = CHR ''0'') s) = foldl (\<lambda>n c. 10 * n + int (digit_val c)) 0 s"
proof -
  obtain m where m: "s = trim_right_while (\<lambda>c. c = CHR ''0'') s @ replicate m CHR ''0''"
    using trim_right_while_replicate by blast
  let ?t = "trim_right_while (\<lambda>c. c = CHR ''0'') s"
  have "length s = length ?t + m" using m by (metis length_append length_replicate)
  then have "9 - length ?t = m" using assms by simp
  then show ?thesis
    unfolding read_frac_def by (subst (3) m) (simp add: fold_zeros)
qed

lemma parse_format_time [simp]: "parse_time (format_time t) = t"
proof -
  let ?ds = "trim_right_while (\<lambda>c. c = CHR ''0'') (frac_digits 9 (t mod 1000000000))"
  have dig: "\<forall>c\<in>set ?ds. is_digit c"
    using frac_digits_digits by (auto simp: trim_right_while_def dest: set_dropWhileD)
  have z: "\<not> is_digit CHR ''Z''" "\<not> is_digit CHR ''.''" by (simp_all add: is_digit_def)
  have "takeWhile is_digit (dropWhile (\<lambda>c. c = CHR ''.'') (snd (format_time t))) = ?ds"
  proof (cases "?ds")
    case (Cons d ds)
    then have "d \<noteq> CHR ''.''" using dig z by auto
    then show ?thesis
      using Cons dig z by (simp add: format_time_def Let_def takeWhile_append2)
  qed (simp add: format_time_def Let_def z)
  moreover have "read_frac ?ds = t mod 1000000000"
    using read_frac_trim [of "frac_digits 9 (t mod 1000000000)"] fold_frac_digits [of "t mod 1000000000" 9]
    by simp
  ultimately show ?thesis by (simp add: parse_time_def) (simp add: format_time_def)
qed

lemma format_time_inj: "format_time s = format_time t \<longleftrightarrow> s = t"
  by (metis parse_format_time)

section \<open>Statements and transactions\<close>

record 't sdb =
  db_tab :: 't
  db_faults :: "bool list"

fun next_fault :: "bool list \<Rightarrow> bool \<times> bool list" where
  "next_fault [] = (False, [])"
| "next_fault (b # bs) = (b, bs)"

text \<open>One statement: it fails with the engine, or does what it says.\<close>

definition stmt :: "('t \<Rightarrow> err + 'a \<times> 't) \<Rightarrow> ('t sdb, 'a) op" where
  "stmt f db =
     (let (b, fs) = next_fault (db_faults db); db' = db\<lparr>db_faults := fs\<rparr> in
      if b then (Inl ErrIO, db')
      else (case f (db_tab db) of
              Inl e \<Rightarrow> (Inl e, db')
            | Inr (x, t) \<Rightarrow> (Inr x, db'\<lparr>db_tab := t\<rparr>)))"

definition query :: "('t \<Rightarrow> 'a) \<Rightarrow> ('t sdb, 'a) op" where
  "query g = stmt (\<lambda>t. Inr (g t, t))"

text \<open>Querying a single row: \<open>sql.ErrNoRows\<close> becomes \<open>ErrNotFound\<close>.\<close>

definition query_row :: "('t \<Rightarrow> 'a option) \<Rightarrow> ('t sdb, 'a) op" where
  "query_row g = stmt (\<lambda>t. case g t of None \<Rightarrow> Inl ErrNotFound | Some x \<Rightarrow> Inr (x, t))"

text \<open>\<open>fmt.Errorf("msg: %w", err)\<close> around an operation.\<close>

definition wrap_err :: "string \<Rightarrow> ('db, 'a) op \<Rightarrow> ('db, 'a) op" where
  "wrap_err s f db = (case f db of (Inl e, db') \<Rightarrow> (Inl (Wrap s e), db') | r \<Rightarrow> r)"

text \<open>
  A prepared statement executed for each row inside a transaction: begin, prepare, one
  execution per row, commit. Every failure rolls back.
\<close>

fun tx_loop :: "('t \<Rightarrow> 'r \<Rightarrow> err + 't) \<Rightarrow> ('r \<Rightarrow> string) \<Rightarrow> 'r list \<Rightarrow> 't \<Rightarrow> bool list \<Rightarrow> (err + 't) \<times> bool list" where
  "tx_loop f m [] t fs = (case next_fault fs of (b, fs') \<Rightarrow> (if b then Inl ErrIO else Inr t, fs'))"
| "tx_loop f m (r # rs) t fs =
     (case next_fault fs of (b, fs') \<Rightarrow>
        if b then (Inl (Wrap (m r) ErrIO), fs')
        else (case f t r of
                Inl e \<Rightarrow> (Inl (Wrap (m r) e), fs')
              | Inr t' \<Rightarrow> tx_loop f m rs t' fs'))"

definition in_tx :: "('t \<Rightarrow> 'r \<Rightarrow> err + 't) \<Rightarrow> ('r \<Rightarrow> string) \<Rightarrow> 'r list \<Rightarrow> ('t sdb, unit) op" where
  "in_tx f m rs db =
     (case next_fault (db_faults db) of (b, fs) \<Rightarrow>
        if b then (Inl ErrIO, db\<lparr>db_faults := fs\<rparr>)
        else (case next_fault fs of (b', fs') \<Rightarrow>
          if b' then (Inl ErrIO, db\<lparr>db_faults := fs'\<rparr>)
          else (case tx_loop f m rs (db_tab db) fs' of
                  (Inl e, fs'') \<Rightarrow> (Inl e, db\<lparr>db_faults := fs''\<rparr>)
                | (Inr t, fs'') \<Rightarrow> (Inr (), db\<lparr>db_tab := t, db_faults := fs''\<rparr>))))"

text \<open>What a loop without faults computes.\<close>

fun fold_rows :: "('t \<Rightarrow> 'r \<Rightarrow> err + 't) \<Rightarrow> 'r list \<Rightarrow> 't \<Rightarrow> err + 't" where
  "fold_rows f [] t = Inr t"
| "fold_rows f (r # rs) t = (case f t r of Inl e \<Rightarrow> Inl e | Inr t' \<Rightarrow> fold_rows f rs t')"

section \<open>Predicates and orders\<close>

text \<open>
  \<open>LIKE\<close>, with the fold the engine applies to both sides. Strings are UTF-8: an underscore stands
  for one character, which may take continuation bytes.
\<close>

definition utf8_cont :: "char \<Rightarrow> bool" where
  "utf8_cont c \<longleftrightarrow> 0x80 \<le> (of_char c :: nat) \<and> (of_char c :: nat) < 0xC0"

function like :: "(char \<Rightarrow> char) \<Rightarrow> string \<Rightarrow> string \<Rightarrow> bool" where
  "like fc [] s = (s = [])"
| "like fc (p # ps) [] = (p = CHR ''%'' \<and> like fc ps [])"
| "like fc (p # ps) (c # s) =
     (if p = CHR ''%'' then like fc ps (c # s) \<or> like fc (p # ps) s
      else if p = CHR ''_'' then like fc ps (dropWhile utf8_cont s)
      else fc p = fc c \<and> like fc ps s)"
  by pat_completeness auto
termination
  by (relation "measure (\<lambda>(fc, p, s). length p + length s)") (auto simp: less_Suc_eq_le le_SucI length_dropWhile_le)

definition order_by :: "('r \<Rightarrow> 'k :: linorder) \<Rightarrow> 'r list \<Rightarrow> 'r list" where
  "order_by k rs = sort_key k rs"

text \<open>\<open>ORDER BY k DESC\<close>: rows with equal keys stay in the order of the table.\<close>

definition order_by_desc :: "('r \<Rightarrow> 'k :: linorder) \<Rightarrow> 'r list \<Rightarrow> 'r list" where
  "order_by_desc k rs = rev (sort_key k (rev rs))"

definition limit_rows :: "int \<Rightarrow> 'r list \<Rightarrow> 'r list" where
  "limit_rows n rs = take (nat n) rs"

section \<open>Lemmas\<close>

abbreviation reliable :: "'t sdb \<Rightarrow> bool" where
  "reliable db \<equiv> db_faults db = []"

lemma stmt_reliable:
  "reliable db \<Longrightarrow>
   stmt f db = (case f (db_tab db) of Inl e \<Rightarrow> (Inl e, db) | Inr (x, t) \<Rightarrow> (Inr x, db\<lparr>db_tab := t\<rparr>))"
  by (simp add: stmt_def split: sum.split prod.split)

lemma stmt_cases:
  assumes "stmt f db = (res, db')"
  obtains (fault) "res = Inl ErrIO" "\<not> reliable db" "db_tab db' = db_tab db"
  | (err) e where "f (db_tab db) = Inl e" "res = Inl e" "db_tab db' = db_tab db"
  | (ok) x where "f (db_tab db) = Inr (x, db_tab db')" "res = Inr x"
proof (cases "db_faults db")
  case Nil
  then show ?thesis
    using assms err ok by (auto simp: stmt_def Let_def split: sum.splits)
next
  case (Cons b bs)
  then show ?thesis
    using assms fault err ok by (auto simp: stmt_def Let_def split: sum.splits if_splits)
qed

lemma stmt_keeps_reliable: "reliable db \<Longrightarrow> stmt f db = (res, db') \<Longrightarrow> reliable db'"
  by (auto simp: stmt_reliable split: sum.splits)

lemma query_tab [simp]: "db_tab (snd (query g db)) = db_tab db"
  by (auto simp: query_def stmt_def Let_def split: prod.splits)

lemma query_row_tab [simp]: "db_tab (snd (query_row g db)) = db_tab db"
  by (auto simp: query_row_def stmt_def Let_def split: prod.splits option.splits sum.splits)

lemma query_reliable [simp]: "reliable db \<Longrightarrow> query g db = (Inr (g (db_tab db)), db)"
  by (simp add: query_def stmt_reliable)

lemma query_row_reliable [simp]:
  "reliable db \<Longrightarrow>
   query_row g db = ((case g (db_tab db) of None \<Rightarrow> Inl ErrNotFound | Some x \<Rightarrow> Inr x), db)"
  by (simp add: query_row_def stmt_reliable split: option.split)

lemma wrap_err_snd [simp]: "snd (wrap_err s f db) = snd (f db)"
  by (auto simp: wrap_err_def split: prod.splits sum.splits)

lemma wrap_err_Inr: "wrap_err s f db = (Inr x, db') \<longleftrightarrow> f db = (Inr x, db')"
  by (auto simp: wrap_err_def split: prod.splits sum.splits)

lemma wrap_err_Inl: "wrap_err s f db = (Inl e, db') \<longleftrightarrow> (\<exists>e'. f db = (Inl e', db') \<and> e = Wrap s e')"
  by (auto simp: wrap_err_def split: prod.splits sum.splits)

lemma tx_loop_Inr: "tx_loop f m rs t fs = (Inr t', fs') \<Longrightarrow> fold_rows f rs t = Inr t'"
  by (induction rs arbitrary: t fs) (auto split: prod.splits if_splits sum.splits)

lemma tx_loop_reliable: "fold_rows f rs t = Inr t' \<Longrightarrow> tx_loop f m rs t [] = (Inr t', [])"
  by (induction rs arbitrary: t) (auto split: sum.splits)

lemma tx_loop_reliable_Inl: "fold_rows f rs t = Inl e \<Longrightarrow> \<exists>e'. tx_loop f m rs t [] = (Inl e', [])"
  by (induction rs arbitrary: t) (auto split: sum.splits)

lemma in_tx_cases:
  assumes "in_tx f m rs db = (res, db')"
  obtains (err) e where "res = Inl e" "db_tab db' = db_tab db"
  | (ok) "res = Inr ()" "fold_rows f rs (db_tab db) = Inr (db_tab db')"
  using assms tx_loop_Inr [of f m rs "db_tab db"]
  by (auto simp: in_tx_def split: prod.splits if_splits sum.splits)

lemma in_tx_reliable:
  "reliable db \<Longrightarrow> fold_rows f rs (db_tab db) = Inr t \<Longrightarrow> in_tx f m rs db = (Inr (), db\<lparr>db_tab := t\<rparr>)"
  using tx_loop_reliable [of f rs "db_tab db" t m] by (simp add: in_tx_def)

lemma in_tx_keeps_reliable: "reliable db \<Longrightarrow> in_tx f m rs db = (res, db') \<Longrightarrow> reliable db'"
proof -
  assume a: "reliable db" "in_tx f m rs db = (res, db')"
  show ?thesis
  proof (cases "fold_rows f rs (db_tab db)")
    case (Inl e)
    then obtain e' where "tx_loop f m rs (db_tab db) [] = (Inl e', [])"
      using tx_loop_reliable_Inl by metis
    with a show ?thesis by (auto simp: in_tx_def)
  next
    case (Inr t)
    with a in_tx_reliable show ?thesis by fastforce
  qed
qed

lemma fold_rows_invariant:
  assumes "fold_rows f rs t = Inr t'" "P t"
    and "\<And>t r t'. r \<in> set rs \<Longrightarrow> P t \<Longrightarrow> f t r = Inr t' \<Longrightarrow> P t'"
  shows "P t'"
  using assms
proof (induction rs arbitrary: t)
  case (Cons r rs)
  then obtain u where u: "f t r = Inr u" "fold_rows f rs u = Inr t'"
    by (auto split: sum.splits)
  moreover have "P u" using Cons.prems(3) [of r t u] Cons.prems(2) u by simp
  ultimately show ?case using Cons.IH Cons.prems(3) by (meson list.set_intros(2))
qed simp

lemma order_by_desc_set [simp]: "set (order_by_desc k rs) = set rs"
  by (simp add: order_by_desc_def)

lemma order_by_set [simp]: "set (order_by k rs) = set rs"
  by (simp add: order_by_def)

lemma order_by_mset [simp]: "mset (order_by k rs) = mset rs"
  by (simp add: order_by_def)

lemma order_by_desc_mset [simp]: "mset (order_by_desc k rs) = mset rs"
  by (simp add: order_by_desc_def)

lemma order_by_desc_sorted: "sorted_wrt (\<lambda>x y. k y \<le> k x) (order_by_desc k rs)"
  using sorted_sort_key [of k "rev rs"] by (simp add: order_by_desc_def sorted_wrt_rev sorted_map)

lemma like_percent [simp]: "like fc ''%'' s"
  by (induction s) auto

lemma like_prefix:
  "CHR ''%'' \<notin> set p \<Longrightarrow> CHR ''_'' \<notin> set p \<Longrightarrow>
   like fc (p @ ''%'') s \<longleftrightarrow> length p \<le> length s \<and> map fc p = map fc (take (length p) s)"
proof (induction p arbitrary: s)
  case (Cons c p)
  then show ?case by (cases s) auto
qed simp

end
