(* ===== verification/Schema.thy ===== *)
theory Schema
  imports Sql
begin

text \<open>
  The tables that the migrations of both dialects create (\<open>storage/migrations\<close>), as lists of
  rows in the order of their insertion, and the statements the two backends share, with the
  constraints of the schema. The dialects differ in the types of two kinds of columns,
  instants and booleans, which are the type parameters of the rows. A violated constraint is
  named by the message SQLite gives it.
\<close>

section \<open>Tables\<close>

record 'ts package_cols =
  pk_name :: string
  pk_added_at :: 'ts
  pk_last_checked_at :: "'ts option"
  pk_last_seen_version :: "string option"

record 'ts release_cols =
  rl_package_name :: string
  rl_version :: string
  rl_tarball_sha256 :: string
  rl_npm_integrity :: string
  rl_published_at :: 'ts
  rl_discovered_at :: 'ts

record ('ts, 'b) run_cols =
  rn_id :: string
  rn_package_name :: string
  rn_version :: string
  rn_tarball_sha256 :: string
  rn_lockfile_sha256 :: string
  rn_node_version :: string
  rn_npm_version :: string
  rn_state :: string
  rn_attempt :: int
  rn_is_baseline :: 'b
  rn_started_at :: "'ts option"
  rn_finished_at :: "'ts option"
  rn_failure_reason :: string
  rn_events_emitted :: int
  rn_events_dropped :: int
  rn_duration_ns :: int

record ('ts, 'b) deviation_cols =
  de_id :: string
  de_run_id :: string
  de_category :: string
  de_value :: string
  de_evidence_event_id :: int
  de_severity :: string
  de_detected_at :: 'ts
  de_notified_at :: "'ts option"
  de_suppressed :: 'b

record ('ts, 'b) notifier_cols =
  no_name :: string
  no_url :: string
  no_template :: string
  no_secret_env :: "string option"
  no_headers :: "string option"
  no_min_severity :: "string option"
  no_enabled :: 'b
  no_created_at :: 'ts
  no_updated_at :: 'ts

record 'ts notification_cols =
  nn_id :: string
  nn_run_id :: string
  nn_notifier_name :: string
  nn_attempt :: int
  nn_status :: string
  nn_last_attempted_at :: "'ts option"
  nn_next_attempt_at :: "'ts option"
  nn_response_code :: int
  nn_response_body :: "string option"
  nn_error_msg :: "string option"
  nn_deviation_count :: int
  nn_created_at :: 'ts

record 'ts allow_cols =
  aw_id :: string
  aw_scope :: string
  aw_package_name :: "string option"
  aw_kind :: string
  aw_value :: string
  aw_note :: string
  aw_created_at :: 'ts

text \<open>\<open>t_seq\<close> is the counter the ids of events are drawn from.\<close>

record ('ts, 'b) db_tables =
  t_packages :: "'ts package_cols list"
  t_releases :: "'ts release_cols list"
  t_runs :: "('ts, 'b) run_cols list"
  t_events :: "EventRow list"
  t_seq :: int
  t_baseline :: "BaselineRow list"
  t_deviations :: "('ts, 'b) deviation_cols list"
  t_notifiers :: "('ts, 'b) notifier_cols list"
  t_notifications :: "'ts notification_cols list"
  t_allowlists :: "'ts allow_cols list"

definition empty_tables :: "('ts, 'b) db_tables" where
  "empty_tables = \<lparr>t_packages = [], t_releases = [], t_runs = [], t_events = [], t_seq = 0,
     t_baseline = [], t_deviations = [], t_notifiers = [], t_notifications = [], t_allowlists = []\<rparr>"

abbreviation unique_failed :: err where
  "unique_failed \<equiv> Msg ''constraint failed: UNIQUE constraint failed''"

abbreviation foreign_key_failed :: err where
  "foreign_key_failed \<equiv> Msg ''constraint failed: FOREIGN KEY constraint failed''"

abbreviation check_failed :: err where
  "check_failed \<equiv> Msg ''constraint failed: CHECK constraint failed''"

section \<open>Statements\<close>

definition NullString :: "string option \<Rightarrow> string" where
  "NullString s = (case s of None \<Rightarrow> [] | Some s \<Rightarrow> s)"

definition insert_run :: "('ts, 'b) run_cols \<Rightarrow> ('ts, 'b) db_tables \<Rightarrow> err + unit \<times> ('ts, 'b) db_tables" where
  "insert_run r t =
     (if rn_id r \<in> rn_id ` set (t_runs t) then Inl unique_failed
      else Inr ((), t\<lparr>t_runs := t_runs t @ [r]\<rparr>))"

text \<open>An \<open>UPDATE\<close> of one table that must touch a row.\<close>

definition update_runs :: "string \<Rightarrow> (('ts, 'b) run_cols \<Rightarrow> ('ts, 'b) run_cols) \<Rightarrow> ('ts, 'b) db_tables \<Rightarrow> err + nat \<times> ('ts, 'b) db_tables" where
  "update_runs i f t =
     Inr (affected (\<lambda>r. rn_id r = i) (t_runs t),
          t\<lparr>t_runs := upd_where (\<lambda>r. rn_id r = i) f (t_runs t)\<rparr>)"

definition must_affect :: "('db, nat) op \<Rightarrow> ('db, unit) op" where
  "must_affect f db =
     (case f db of
        (Inl e, db') \<Rightarrow> (Inl e, db')
      | (Inr n, db') \<Rightarrow> (if n = 0 then Inl ErrNotFound else Inr (), db'))"

definition set_state :: "'ts \<Rightarrow> RunState \<Rightarrow> string \<Rightarrow> ('ts, 'b) run_cols \<Rightarrow> ('ts, 'b) run_cols" where
  "set_state now st reason r =
     r\<lparr>rn_state := st,
       rn_started_at := (case rn_started_at r of
           Some s \<Rightarrow> Some s
         | None \<Rightarrow> if st = RunStateBuilding then Some now else None),
       rn_finished_at := (if st \<in> {RunStateDone, RunStateFailed} then Some now else rn_finished_at r),
       rn_failure_reason := (if st = RunStateFailed then reason else rn_failure_reason r)\<rparr>"

definition insert_event :: "string \<Rightarrow> ('ts, 'b) db_tables \<Rightarrow> EventRow \<Rightarrow> err + ('ts, 'b) db_tables" where
  "insert_event runID t e =
     (if runID \<notin> rn_id ` set (t_runs t) then Inl foreign_key_failed
      else Inr (t\<lparr>t_events := t_events t @ [e\<lparr>ev_ID := t_seq t + 1, ev_RunID := runID\<rparr>],
                  t_seq := t_seq t + 1\<rparr>))"

definition delete_events :: "int \<Rightarrow> ('ts, 'b) db_tables \<Rightarrow> err + int \<times> ('ts, 'b) db_tables" where
  "delete_events cutoff t =
     (let gone = (\<lambda>e. ev_TsNS e < cutoff \<and> ev_ID e \<notin> de_evidence_event_id ` set (t_deviations t)) in
      Inr (int (affected gone (t_events t)), t\<lparr>t_events := filter (\<lambda>e. \<not> gone e) (t_events t)\<rparr>))"

abbreviation bl_key :: "BaselineRow \<Rightarrow> string \<times> string \<times> string" where
  "bl_key b \<equiv> (bl_PackageName b, bl_Category b, bl_Value b)"

definition fill_baseline_row :: "string \<Rightarrow> BaselineRow \<Rightarrow> BaselineRow" where
  "fill_baseline_row runID r =
     r\<lparr>bl_OccurrenceCount := (if bl_OccurrenceCount r = 0 then 1 else bl_OccurrenceCount r),
       bl_FirstSeenRunID := (if bl_FirstSeenRunID r = [] then runID else bl_FirstSeenRunID r),
       bl_LastSeenRunID := (if bl_LastSeenRunID r = [] then runID else bl_LastSeenRunID r)\<rparr>"

definition upsert_baseline :: "string \<Rightarrow> ('ts, 'b) db_tables \<Rightarrow> BaselineRow \<Rightarrow> err + ('ts, 'b) db_tables" where
  "upsert_baseline runID t r0 =
     (let r = fill_baseline_row runID r0 in
      if bl_key r \<in> bl_key ` set (t_baseline t)
      then Inr (t\<lparr>t_baseline := upd_where (\<lambda>b. bl_key b = bl_key r)
             (\<lambda>b. b\<lparr>bl_LastSeenRunID := bl_LastSeenRunID r,
                    bl_OccurrenceCount := bl_OccurrenceCount b + bl_OccurrenceCount r\<rparr>) (t_baseline t)\<rparr>)
      else Inr (t\<lparr>t_baseline := t_baseline t @ [r]\<rparr>))"

definition add_deviation :: "('ts, 'b) deviation_cols \<Rightarrow> ('ts, 'b) db_tables \<Rightarrow> err + ('ts, 'b) db_tables" where
  "add_deviation d t =
     (if de_id d \<in> de_id ` set (t_deviations t) then Inl unique_failed
      else if de_run_id d \<notin> rn_id ` set (t_runs t) \<or> de_evidence_event_id d \<notin> ev_ID ` set (t_events t)
      then Inl foreign_key_failed
      else Inr (t\<lparr>t_deviations := t_deviations t @ [d]\<rparr>))"

text \<open>The join keeps a deviation whose run exists; run ids are unique.\<close>

definition deviation_selected :: "DeviationFilter \<Rightarrow> ('ts, 'b) db_tables \<Rightarrow> ('ts, 'b) deviation_cols \<Rightarrow> bool" where
  "deviation_selected f t d =
     (case find (\<lambda>r. rn_id r = de_run_id d) (t_runs t) of
        None \<Rightarrow> False
      | Some r \<Rightarrow>
          (df_PackageName f \<noteq> [] \<longrightarrow> rn_package_name r = df_PackageName f) \<and>
          (df_Severity f \<noteq> [] \<longrightarrow> de_severity d = df_Severity f) \<and>
          (df_RunID f \<noteq> [] \<longrightarrow> de_run_id d = df_RunID f))"

definition insert_package :: "'ts \<Rightarrow> string \<Rightarrow> ('ts, 'b) db_tables \<Rightarrow> err + unit \<times> ('ts, 'b) db_tables" where
  "insert_package now name t =
     (if name \<in> pk_name ` set (t_packages t) then Inr ((), t)
      else Inr ((), t\<lparr>t_packages := t_packages t @
        [\<lparr>pk_name = name, pk_added_at = now, pk_last_checked_at = None, pk_last_seen_version = None\<rparr>]\<rparr>))"

text \<open>\<open>ON DELETE CASCADE\<close> takes the releases of the package along.\<close>

definition delete_package :: "string \<Rightarrow> ('ts, 'b) db_tables \<Rightarrow> err + nat \<times> ('ts, 'b) db_tables" where
  "delete_package name t =
     Inr (affected (\<lambda>p. pk_name p = name) (t_packages t),
          t\<lparr>t_packages := filter (\<lambda>p. pk_name p \<noteq> name) (t_packages t),
            t_releases := (if name \<in> pk_name ` set (t_packages t)
                           then filter (\<lambda>r. rl_package_name r \<noteq> name) (t_releases t)
                           else t_releases t)\<rparr>)"

abbreviation rl_key :: "'ts release_cols \<Rightarrow> string \<times> string" where
  "rl_key r \<equiv> (rl_package_name r, rl_version r)"

definition add_release :: "'ts release_cols \<Rightarrow> ('ts, 'b) db_tables \<Rightarrow> err + unit \<times> ('ts, 'b) db_tables" where
  "add_release r t =
     (if rl_key r \<in> rl_key ` set (t_releases t) then Inr ((), t)
      else if rl_package_name r \<notin> pk_name ` set (t_packages t) then Inl foreign_key_failed
      else Inr ((), t\<lparr>t_releases := t_releases t @ [r]\<rparr>))"

definition resolve :: "string \<Rightarrow> ('t \<Rightarrow> 'a list) \<Rightarrow> ('t sdb, 'a) op" where
  "resolve p g db =
     (if p = [] then (Inl ErrNotFound, db)
      else (case query g db of
              (Inl e, db') \<Rightarrow> (Inl e, db')
            | (Inr [], db') \<Rightarrow> (Inl ErrNotFound, db')
            | (Inr [m], db') \<Rightarrow> (Inr m, db')
            | (Inr (m # m' # ms), db') \<Rightarrow> (Inl ErrAmbiguous, db')))"

definition allow_checks :: "'ts allow_cols \<Rightarrow> bool" where
  "allow_checks r \<longleftrightarrow>
     aw_scope r \<in> {AllowScopeGlobal, AllowScopePackage} \<and>
     aw_kind r \<in> {AllowKindCIDR, AllowKindPath, AllowKindSNI} \<and>
     (aw_scope r = AllowScopeGlobal \<and> aw_package_name r = None \<or>
      aw_scope r = AllowScopePackage \<and> aw_package_name r \<noteq> None)"

definition insert_allow :: "'ts allow_cols \<Rightarrow> ('ts, 'b) db_tables \<Rightarrow> err + unit \<times> ('ts, 'b) db_tables" where
  "insert_allow r t =
     (if \<not> allow_checks r then Inl check_failed
      else if aw_id r \<in> aw_id ` set (t_allowlists t) then Inl unique_failed
      else Inr ((), t\<lparr>t_allowlists := t_allowlists t @ [r]\<rparr>))"

definition result_state :: "ScanResult \<Rightarrow> RunState" where
  "result_state r =
     (if sr_Status r \<in> {''failed'', ''timeout''} then RunStateFailed else RunStateDone)"

definition set_result :: "'ts \<Rightarrow> ScanResult \<Rightarrow> ('ts, 'b) run_cols \<Rightarrow> ('ts, 'b) run_cols" where
  "set_result now s r =
     r\<lparr>rn_state := result_state s, rn_finished_at := Some now,
       rn_failure_reason := (if sr_Reason s \<noteq> [] then sr_Reason s else rn_failure_reason r),
       rn_events_emitted := sr_EventsEmitted s, rn_events_dropped := sr_EventsDropped s,
       rn_duration_ns := sr_DurationNS s\<rparr>"

definition upsert_notifier :: "('ts, 'b) notifier_cols \<Rightarrow> ('ts, 'b) db_tables \<Rightarrow> err + unit \<times> ('ts, 'b) db_tables" where
  "upsert_notifier r t =
     (if no_name r \<in> no_name ` set (t_notifiers t)
      then Inr ((), t\<lparr>t_notifiers := upd_where (\<lambda>n. no_name n = no_name r)
             (\<lambda>n. r\<lparr>no_created_at := no_created_at n\<rparr>) (t_notifiers t)\<rparr>)
      else Inr ((), t\<lparr>t_notifiers := t_notifiers t @ [r]\<rparr>))"

definition insert_notification :: "'ts notification_cols \<Rightarrow> ('ts, 'b) db_tables \<Rightarrow> err + unit \<times> ('ts, 'b) db_tables" where
  "insert_notification r t =
     (if nn_id r \<in> nn_id ` set (t_notifications t) then Inl unique_failed
      else if nn_run_id r \<notin> rn_id ` set (t_runs t) \<or> nn_notifier_name r \<notin> no_name ` set (t_notifiers t)
      then Inl foreign_key_failed
      else Inr ((), t\<lparr>t_notifications := t_notifications t @ [r]\<rparr>))"

definition delete_notifier :: "string \<Rightarrow> ('ts, 'b) db_tables \<Rightarrow> ('ts, 'b) db_tables" where
  "delete_notifier name t =
     t\<lparr>t_notifiers := filter (\<lambda>n. no_name n \<noteq> name) (t_notifiers t),
       t_notifications := (if name \<in> no_name ` set (t_notifiers t)
                           then filter (\<lambda>n. nn_notifier_name n \<noteq> name) (t_notifications t)
                           else t_notifications t)\<rparr>"

end
