(* ===== verification/Schema_Inv.thy ===== *)
theory Schema_Inv
  imports Schema
begin

text \<open>
  The integrity of the tables (keys, foreign keys, checks, the event counter) and that every
  statement of the schema keeps it, alone or in a transaction, whatever the engine does.
\<close>

section \<open>Integrity\<close>

definition runs_ok :: "('ts, 'b) db_tables \<Rightarrow> bool" where
  "runs_ok t \<longleftrightarrow> distinct (map rn_id (t_runs t)) \<and> (\<forall>r\<in>set (t_runs t). RunState_IsValid (rn_state r))"

definition events_ok :: "('ts, 'b) db_tables \<Rightarrow> bool" where
  "events_ok t \<longleftrightarrow> 0 \<le> t_seq t \<and> sorted_wrt (<) (map ev_ID (t_events t)) \<and>
     (\<forall>e\<in>set (t_events t). 0 < ev_ID e \<and> ev_ID e \<le> t_seq t \<and> ev_RunID e \<in> rn_id ` set (t_runs t))"

definition baseline_ok :: "('ts, 'b) db_tables \<Rightarrow> bool" where
  "baseline_ok t \<longleftrightarrow> distinct (map bl_key (t_baseline t))"

definition deviations_ok :: "('ts, 'b) db_tables \<Rightarrow> bool" where
  "deviations_ok t \<longleftrightarrow> distinct (map de_id (t_deviations t)) \<and>
     (\<forall>d\<in>set (t_deviations t). de_run_id d \<in> rn_id ` set (t_runs t) \<and>
        de_evidence_event_id d \<in> ev_ID ` set (t_events t))"

definition packages_ok :: "('ts, 'b) db_tables \<Rightarrow> bool" where
  "packages_ok t \<longleftrightarrow> distinct (map pk_name (t_packages t)) \<and> distinct (map rl_key (t_releases t)) \<and>
     (\<forall>r\<in>set (t_releases t). rl_package_name r \<in> pk_name ` set (t_packages t))"

definition notifiers_ok :: "('ts, 'b) db_tables \<Rightarrow> bool" where
  "notifiers_ok t \<longleftrightarrow> distinct (map no_name (t_notifiers t)) \<and> distinct (map nn_id (t_notifications t)) \<and>
     (\<forall>n\<in>set (t_notifications t). nn_run_id n \<in> rn_id ` set (t_runs t) \<and>
        nn_notifier_name n \<in> no_name ` set (t_notifiers t))"

definition allowlists_ok :: "('ts, 'b) db_tables \<Rightarrow> bool" where
  "allowlists_ok t \<longleftrightarrow> distinct (map aw_id (t_allowlists t)) \<and> (\<forall>r\<in>set (t_allowlists t). allow_checks r)"

definition tables_ok :: "('ts, 'b) db_tables \<Rightarrow> bool" where
  "tables_ok t \<longleftrightarrow> runs_ok t \<and> events_ok t \<and> baseline_ok t \<and> deviations_ok t \<and> packages_ok t \<and>
     notifiers_ok t \<and> allowlists_ok t"

lemmas ok_defs = runs_ok_def events_ok_def baseline_ok_def deviations_ok_def packages_ok_def
  notifiers_ok_def allowlists_ok_def

lemma empty_tables_ok: "tables_ok empty_tables"
  by (simp add: tables_ok_def ok_defs empty_tables_def)

section \<open>Statements keep it\<close>

lemma set_upd_where_key:
  "(\<And>r. p r \<Longrightarrow> k (f r) = k r) \<Longrightarrow> k ` set (upd_where p f rs) = k ` set rs"
  by (metis map_upd_where_same list.set_map)

lemma fk_filter:
  "\<forall>r\<in>set rs. k r \<in> j ` set ps \<Longrightarrow>
   \<forall>r\<in>set (if n \<in> j ` set ps then filter (\<lambda>r. k r \<noteq> n) rs else rs). k r \<in> j ` set (filter (\<lambda>p. j p \<noteq> n) ps)"
  by (cases "n \<in> j ` set ps") (force+)

text \<open>Which predicates a write to one table can touch.\<close>

lemma tables_ok_frame:
  assumes "tables_ok t"
  shows "tables_ok (t\<lparr>t_events := es, t_seq := n\<rparr>) \<longleftrightarrow>
      events_ok (t\<lparr>t_events := es, t_seq := n\<rparr>) \<and> deviations_ok (t\<lparr>t_events := es\<rparr>)"
    and "tables_ok (t\<lparr>t_baseline := bs\<rparr>) \<longleftrightarrow> baseline_ok (t\<lparr>t_baseline := bs\<rparr>)"
    and "tables_ok (t\<lparr>t_deviations := ds\<rparr>) \<longleftrightarrow> deviations_ok (t\<lparr>t_deviations := ds\<rparr>)"
    and "tables_ok (t\<lparr>t_packages := ps, t_releases := rs\<rparr>) \<longleftrightarrow> packages_ok (t\<lparr>t_packages := ps, t_releases := rs\<rparr>)"
    and "tables_ok (t\<lparr>t_packages := ps\<rparr>) \<longleftrightarrow> packages_ok (t\<lparr>t_packages := ps\<rparr>)"
    and "tables_ok (t\<lparr>t_releases := rs\<rparr>) \<longleftrightarrow> packages_ok (t\<lparr>t_releases := rs\<rparr>)"
    and "tables_ok (t\<lparr>t_notifiers := ns, t_notifications := ls\<rparr>) \<longleftrightarrow> notifiers_ok (t\<lparr>t_notifiers := ns, t_notifications := ls\<rparr>)"
    and "tables_ok (t\<lparr>t_notifiers := ns\<rparr>) \<longleftrightarrow> notifiers_ok (t\<lparr>t_notifiers := ns\<rparr>)"
    and "tables_ok (t\<lparr>t_notifications := ls\<rparr>) \<longleftrightarrow> notifiers_ok (t\<lparr>t_notifications := ls\<rparr>)"
    and "tables_ok (t\<lparr>t_allowlists := as\<rparr>) \<longleftrightarrow> allowlists_ok (t\<lparr>t_allowlists := as\<rparr>)"
  using assms by (simp_all add: tables_ok_def ok_defs)

lemma tables_okD:
  assumes "tables_ok t"
  shows "runs_ok t" "events_ok t" "baseline_ok t" "deviations_ok t" "packages_ok t" "notifiers_ok t"
    "allowlists_ok t"
  using assms by (simp_all add: tables_ok_def)

lemma insert_run_ok:
  "tables_ok t \<Longrightarrow> RunState_IsValid (rn_state r) \<Longrightarrow> insert_run r t = Inr (x, t') \<Longrightarrow> tables_ok t'"
  by (auto simp: insert_run_def tables_ok_def ok_defs split: if_splits)

lemma result_state_valid [simp]: "RunState_IsValid (result_state s)"
  by (simp add: result_state_def RunState_IsValid_def)

lemma update_runs_ok:
  assumes "tables_ok t" "update_runs i f t = Inr (n, t')"
    and id: "\<And>r. rn_id (f r) = rn_id r"
    and st: "\<And>r. RunState_IsValid (rn_state r) \<Longrightarrow> RunState_IsValid (rn_state (f r))"
  shows "tables_ok t'"
proof -
  let ?p = "\<lambda>r. rn_id r = i"
  have t': "t' = t\<lparr>t_runs := upd_where ?p f (t_runs t)\<rparr>" using assms by (simp add: update_runs_def)
  have ids: "map rn_id (upd_where ?p f (t_runs t)) = map rn_id (t_runs t)"
    using id by (intro map_upd_where_same) auto
  then have idset: "rn_id ` set (upd_where ?p f (t_runs t)) = rn_id ` set (t_runs t)"
    by (metis list.set_map)
  have states: "\<forall>r\<in>set (upd_where ?p f (t_runs t)). RunState_IsValid (rn_state r)"
    using assms(1) st by (auto simp: set_upd_where tables_ok_def runs_ok_def)
  show ?thesis
    using assms(1) ids idset states by (simp add: t' tables_ok_def ok_defs)
qed

lemma insert_event_ok: "tables_ok t \<Longrightarrow> insert_event i t e = Inr t' \<Longrightarrow> tables_ok t'"
  using tables_okD(2,4) [of t]
  by (fastforce simp: insert_event_def tables_ok_frame events_ok_def deviations_ok_def sorted_wrt_append
      split: if_splits)

lemma delete_events_ok:
  assumes "tables_ok t" "delete_events c t = Inr (n, t')"
  shows "tables_ok t'"
proof -
  let ?keep = "\<lambda>e. ev_TsNS e < c \<longrightarrow> ev_ID e \<in> de_evidence_event_id ` set (t_deviations t)"
  have t': "t' = t\<lparr>t_events := filter ?keep (t_events t)\<rparr>"
    using assms(2) by (simp add: delete_events_def Let_def)
  have "sorted_wrt (<) (map ev_ID (filter ?keep (t_events t)))"
    using assms(1) by (simp add: tables_ok_def events_ok_def sorted_wrt_map sorted_wrt_filter)
  moreover have "\<forall>d\<in>set (t_deviations t). de_evidence_event_id d \<in> ev_ID ` set (filter ?keep (t_events t))"
    using assms(1) by (force simp: tables_ok_def deviations_ok_def)
  ultimately show ?thesis
    using assms(1) by (simp add: t' tables_ok_def ok_defs)
qed

lemma upsert_baseline_keys:
  "upsert_baseline i t r = Inr t' \<Longrightarrow>
   t' = t\<lparr>t_baseline := t_baseline t'\<rparr> \<and>
   map bl_key (t_baseline t') = (if bl_key r \<in> bl_key ` set (t_baseline t) then map bl_key (t_baseline t)
     else map bl_key (t_baseline t) @ [bl_key r])"
  by (auto simp: upsert_baseline_def Let_def fill_baseline_row_def map_upd_where_same split: if_splits)

lemma upsert_baseline_ok: "tables_ok t \<Longrightarrow> upsert_baseline i t r = Inr t' \<Longrightarrow> tables_ok t'"
proof -
  assume a: "tables_ok t" "upsert_baseline i t r = Inr t'"
  note k = upsert_baseline_keys [OF a(2)]
  then have "distinct (map bl_key (t_baseline t'))"
    using a(1) by (auto simp: tables_ok_def baseline_ok_def)
  moreover have "\<And>B. tables_ok (t\<lparr>t_baseline := B\<rparr>) \<longleftrightarrow> distinct (map bl_key B)"
    using a(1) by (simp add: tables_ok_def ok_defs)
  ultimately have "tables_ok (t\<lparr>t_baseline := t_baseline t'\<rparr>)" by simp
  then show ?thesis by (subst conjunct1 [OF k])
qed

lemma add_deviation_ok: "tables_ok t \<Longrightarrow> add_deviation d t = Inr t' \<Longrightarrow> tables_ok t'"
  using tables_okD(4) [of t]
  by (auto simp: add_deviation_def tables_ok_frame deviations_ok_def split: if_splits)

lemma delete_deviations_ok:
  "tables_ok t \<Longrightarrow> tables_ok (t\<lparr>t_deviations := filter P (t_deviations t)\<rparr>)"
  by (simp add: tables_ok_def ok_defs distinct_map_filterI)

lemma insert_package_ok: "tables_ok t \<Longrightarrow> insert_package now n t = Inr (x, t') \<Longrightarrow> tables_ok t'"
  using tables_okD(5) [of t]
  by (auto simp: insert_package_def tables_ok_frame packages_ok_def split: if_splits)

lemma delete_package_ok: "tables_ok t \<Longrightarrow> delete_package n t = Inr (x, t') \<Longrightarrow> tables_ok t'"
proof -
  assume a: "tables_ok t" "delete_package n t = Inr (x, t')"
  let ?rs = "if n \<in> pk_name ` set (t_packages t)
     then filter (\<lambda>r. rl_package_name r \<noteq> n) (t_releases t) else t_releases t"
  let ?ps = "filter (\<lambda>p. pk_name p \<noteq> n) (t_packages t)"
  have t': "t' = t\<lparr>t_packages := ?ps, t_releases := ?rs\<rparr>" using a(2) by (simp add: delete_package_def)
  have "distinct (map rl_key ?rs)"
    using a(1) by (auto simp: tables_ok_def packages_ok_def intro!: distinct_map_filterI)
  moreover have "\<forall>r\<in>set ?rs. rl_package_name r \<in> pk_name ` set ?ps"
    using a(1) by (intro fk_filter) (simp add: tables_ok_def packages_ok_def)
  moreover have "distinct (map pk_name ?ps)"
    using a(1) by (simp add: tables_ok_def packages_ok_def distinct_map_filterI)
  ultimately show ?thesis
    using a(1) by (simp add: t' tables_ok_def ok_defs)
qed

lemma update_packages_ok:
  "tables_ok t \<Longrightarrow> (\<And>p. pk_name (f p) = pk_name p) \<Longrightarrow>
   tables_ok (t\<lparr>t_packages := upd_where P f (t_packages t)\<rparr>)"
  by (simp add: tables_ok_def ok_defs map_upd_where_same set_upd_where_key)

lemma add_release_ok: "tables_ok t \<Longrightarrow> add_release r t = Inr (x, t') \<Longrightarrow> tables_ok t'"
  using tables_okD(5) [of t]
  by (auto simp: add_release_def tables_ok_frame packages_ok_def split: if_splits)

lemma insert_allow_ok: "tables_ok t \<Longrightarrow> insert_allow r t = Inr (x, t') \<Longrightarrow> tables_ok t'"
  using tables_okD(7) [of t]
  by (auto simp: insert_allow_def tables_ok_frame allowlists_ok_def split: if_splits)

lemma delete_allow_ok: "tables_ok t \<Longrightarrow> tables_ok (t\<lparr>t_allowlists := filter P (t_allowlists t)\<rparr>)"
  by (simp add: tables_ok_def ok_defs distinct_map_filterI)

lemma upsert_notifier_ok: "tables_ok t \<Longrightarrow> upsert_notifier r t = Inr (x, t') \<Longrightarrow> tables_ok t'"
proof -
  assume a: "tables_ok t" "upsert_notifier r t = Inr (x, t')"
  let ?u = "upd_where (\<lambda>n. no_name n = no_name r) (\<lambda>n. r\<lparr>no_created_at := no_created_at n\<rparr>) (t_notifiers t)"
  have m: "map no_name ?u = map no_name (t_notifiers t)"
    by (rule map_upd_where_same) simp
  then have s: "no_name ` set ?u = no_name ` set (t_notifiers t)" by (metis list.set_map)
  show ?thesis
    using a m s tables_okD(6) [OF a(1)]
    by (auto simp: upsert_notifier_def tables_ok_frame notifiers_ok_def split: if_splits)
qed

lemma delete_notifier_ok:
  assumes "tables_ok t"
  shows "tables_ok (delete_notifier name t)"
proof -
  let ?ns = "filter (\<lambda>n. no_name n \<noteq> name) (t_notifiers t)"
  let ?ls = "if name \<in> no_name ` set (t_notifiers t)
     then filter (\<lambda>n. nn_notifier_name n \<noteq> name) (t_notifications t) else t_notifications t"
  have "distinct (map nn_id ?ls)"
    using tables_okD(6) [OF assms] by (auto simp: notifiers_ok_def intro!: distinct_map_filterI)
  moreover have "\<forall>l\<in>set ?ls. nn_notifier_name l \<in> no_name ` set ?ns"
    using assms by (intro fk_filter) (simp add: tables_ok_def notifiers_ok_def)
  moreover have "\<forall>l\<in>set ?ls. nn_run_id l \<in> rn_id ` set (t_runs t)"
    using tables_okD(6) [OF assms] by (auto simp: notifiers_ok_def)
  moreover have "distinct (map no_name ?ns)"
    using assms by (simp add: tables_ok_def notifiers_ok_def distinct_map_filterI)
  ultimately show ?thesis
    using assms by (simp add: delete_notifier_def tables_ok_frame notifiers_ok_def)
qed

lemma insert_notification_ok: "tables_ok t \<Longrightarrow> insert_notification r t = Inr (x, t') \<Longrightarrow> tables_ok t'"
  using tables_okD(6) [of t]
  by (auto simp: insert_notification_def tables_ok_frame notifiers_ok_def split: if_splits)

section \<open>Running a statement\<close>

lemma stmt_ok:
  "tables_ok (db_tab db) \<Longrightarrow> (\<And>x t'. f (db_tab db) = Inr (x, t') \<Longrightarrow> tables_ok t') \<Longrightarrow>
   tables_ok (db_tab (snd (stmt f db)))"
  by (cases "stmt f db") (auto elim!: stmt_cases)

lemma in_tx_ok:
  "tables_ok (db_tab db) \<Longrightarrow> (\<And>t r t'. tables_ok t \<Longrightarrow> f t r = Inr t' \<Longrightarrow> tables_ok t') \<Longrightarrow>
   tables_ok (db_tab (snd (in_tx f m rs db)))"
  by (cases "in_tx f m rs db")
     (auto elim!: in_tx_cases intro: fold_rows_invariant [where P = tables_ok])

lemma must_affect_snd [simp]: "snd (must_affect f db) = snd (f db)"
  by (auto simp: must_affect_def split: prod.splits sum.splits)

lemma resolve_tab [simp]: "db_tab (snd (resolve p g db)) = db_tab db"
proof -
  obtain q db1 where q: "query g db = (q, db1)" by (metis prod.exhaust)
  then have "db_tab db1 = db_tab db" using query_tab by (metis snd_conv)
  with q show ?thesis by (auto simp: resolve_def split: sum.split list.split)
qed

end
