(* ===== verification/Schema_View.thy ===== *)
theory Schema_View
  imports Differ_Store Schema_Inv
begin

text \<open>
  The tables of either dialect as the differ's abstract store: what the statements of the
  schema do to it. \<open>scan\<close> reads a run back, \<open>al\<close> lists the allowlist entries.
\<close>

definition dev_cols :: "('ts, 'b) deviation_cols \<Rightarrow> dev_entry" where
  "dev_cols d = (de_id d, de_category d, de_value d, de_evidence_event_id d, de_severity d)"

definition bl_cols :: "BaselineRow \<Rightarrow> bl_entry" where
  "bl_cols b = (bl_FirstSeenRunID b, bl_LastSeenRunID b, bl_OccurrenceCount b)"

definition tables_view ::
  "(('ts, 'b) run_cols \<Rightarrow> Run) \<Rightarrow> ('ts allow_cols list \<Rightarrow> AllowEntry list) \<Rightarrow> ('ts, 'b) db_tables \<Rightarrow> store_view" where
  "tables_view scan al t =
     \<lparr>v_run = (\<lambda>i. map_option scan (find (\<lambda>r. rn_id r = i) (t_runs t))),
      v_events = (\<lambda>i. order_by (\<lambda>e. (ev_TsNS e, ev_ID e)) (filter (\<lambda>e. ev_RunID e = i) (t_events t))),
      v_baseline = (\<lambda>k. map_option bl_cols (find (\<lambda>b. row_key b = k) (t_baseline t))),
      v_devs = (\<lambda>i. map dev_cols (filter (\<lambda>d. de_run_id d = i) (t_deviations t))),
      v_allow = al (t_allowlists t)\<rparr>"

section \<open>Queries\<close>

lemma query_outcome:
  assumes "query g db = (res, db')"
  shows "db_tab db' = db_tab db" and "reliable db \<Longrightarrow> reliable db'"
    and "case res of Inr x \<Rightarrow> x = g (db_tab db) | Inl e \<Rightarrow> \<not> reliable db"
proof -
  show "db_tab db' = db_tab db" using query_tab [of g db] assms by simp
  show "reliable db \<Longrightarrow> reliable db'"
    using assms stmt_keeps_reliable by (auto simp: query_def)
  show "case res of Inr x \<Rightarrow> x = g (db_tab db) | Inl e \<Rightarrow> \<not> reliable db"
    using assms unfolding query_def by (auto elim!: stmt_cases)
qed

lemma query_row_outcome:
  assumes "query_row g db = (res, db')"
  shows "db_tab db' = db_tab db" and "reliable db \<Longrightarrow> reliable db'"
    and "case res of Inr x \<Rightarrow> g (db_tab db) = Some x | Inl e \<Rightarrow> reliable db \<longrightarrow> g (db_tab db) = None"
proof -
  show "db_tab db' = db_tab db" using query_row_tab [of g db] assms by simp
  show "reliable db \<Longrightarrow> reliable db'"
    using assms stmt_keeps_reliable by (auto simp: query_row_def)
  show "case res of Inr x \<Rightarrow> g (db_tab db) = Some x | Inl e \<Rightarrow> reliable db \<longrightarrow> g (db_tab db) = None"
    using assms unfolding query_row_def by (auto elim!: stmt_cases split: option.splits)
qed

section \<open>The baseline table\<close>

lemma find_map_upd:
  "(\<And>b. b \<in> set bs \<Longrightarrow> row_key b = k \<Longrightarrow> row_key (f b) = k) \<Longrightarrow>
   find (\<lambda>b. row_key b = j) (upd_where (\<lambda>b. row_key b = k) f bs) =
     (if j = k then map_option f (find (\<lambda>b. row_key b = k) bs) else find (\<lambda>b. row_key b = j) bs)"
  by (induction bs) auto

lemma find_append: "find P (xs @ ys) = (case find P xs of None \<Rightarrow> find P ys | Some x \<Rightarrow> Some x)"
  by (induction xs) auto

lemma fill_row_key [simp]: "row_key (fill_baseline_row i r) = row_key r"
  by (simp add: row_key_def fill_baseline_row_def)

lemma upsert_baseline_view:
  "\<exists>t'. upsert_baseline i t r = Inr t' \<and>
     tables_view scan al t' = (tables_view scan al t)\<lparr>v_baseline := merge_entry i (v_baseline (tables_view scan al t)) r\<rparr>"
proof -
  let ?q = "fill_baseline_row i r"
  have key: "bl_key ?q = row_key r" "\<And>b. bl_key b = row_key b"
    by (simp_all add: row_key_def fill_baseline_row_def)
  show ?thesis
  proof (cases "row_key r \<in> row_key ` set (t_baseline t)")
    case True
    let ?f = "\<lambda>b. b\<lparr>bl_LastSeenRunID := bl_LastSeenRunID ?q,
        bl_OccurrenceCount := bl_OccurrenceCount b + bl_OccurrenceCount ?q\<rparr>"
    let ?t = "t\<lparr>t_baseline := upd_where (\<lambda>b. row_key b = row_key r) ?f (t_baseline t)\<rparr>"
    have "upsert_baseline i t r = Inr ?t"
      using True unfolding upsert_baseline_def Let_def key by simp
    moreover obtain b where b: "find (\<lambda>b. row_key b = row_key r) (t_baseline t) = Some b"
      using True by (metis find_None_not_in not_Some_eq)
    have "find (\<lambda>b. row_key b = k) (upd_where (\<lambda>b. row_key b = row_key r) ?f (t_baseline t)) =
        (if k = row_key r then Some (?f b) else find (\<lambda>b. row_key b = k) (t_baseline t))" for k
      using b by (subst find_map_upd) (simp_all add: row_key_def)
    then have "tables_view scan al ?t = (tables_view scan al t)\<lparr>v_baseline := merge_entry i (v_baseline (tables_view scan al t)) r\<rparr>"
      using b by (auto simp: tables_view_def merge_entry_def merged_entry_def bl_cols_def fun_eq_iff
          fill_baseline_row_def Let_def)
    ultimately show ?thesis by blast
  next
    case False
    let ?t = "t\<lparr>t_baseline := t_baseline t @ [?q]\<rparr>"
    have "upsert_baseline i t r = Inr ?t"
      using False unfolding upsert_baseline_def Let_def key by simp
    moreover have none: "find (\<lambda>b. row_key b = row_key r) (t_baseline t) = None"
      using False by (simp add: find_None_not_in)
    then have "tables_view scan al ?t = (tables_view scan al t)\<lparr>v_baseline := merge_entry i (v_baseline (tables_view scan al t)) r\<rparr>"
      by (auto simp: tables_view_def merge_entry_def merged_entry_def bl_cols_def fun_eq_iff
          find_append Let_def fill_baseline_row_def row_key_def split: option.split)
    ultimately show ?thesis by blast
  qed
qed

lemma merge_rows_view:
  "\<exists>t'. fold_rows (upsert_baseline i) rows t = Inr t' \<and>
     tables_view scan al t' = (tables_view scan al t)\<lparr>v_baseline := foldl (merge_entry i) (v_baseline (tables_view scan al t)) rows\<rparr>"
proof (induction rows arbitrary: t)
  case (Cons r rows)
  obtain t1 where 1: "upsert_baseline i t r = Inr t1"
    "tables_view scan al t1 = (tables_view scan al t)\<lparr>v_baseline := merge_entry i (v_baseline (tables_view scan al t)) r\<rparr>"
    using upsert_baseline_view by blast
  obtain t2 where "fold_rows (upsert_baseline i) rows t1 = Inr t2"
    "tables_view scan al t2 = (tables_view scan al t1)\<lparr>v_baseline := foldl (merge_entry i) (v_baseline (tables_view scan al t1)) rows\<rparr>"
    using Cons.IH by blast
  with 1 show ?case by simp
qed simp

lemma LoadBaseline_listed:
  "baseline_listed (tables_view scan al t) pkg (filter (\<lambda>b. bl_PackageName b = pkg) (t_baseline t))"
proof -
  have "v_baseline (tables_view scan al t) (pkg, c, x) \<noteq> None \<longleftrightarrow>
      (pkg, c, x) \<in> row_key ` set (filter (\<lambda>b. bl_PackageName b = pkg) (t_baseline t))" for c x
    using find_None_not_in [of row_key "(pkg, c, x)" "t_baseline t"]
    by (auto simp: tables_view_def row_key_def)
  then show ?thesis by (simp add: baseline_listed_def)
qed

section \<open>The deviations table\<close>

text \<open>What a dialect's encoding of a deviation has to keep.\<close>

definition encodes_dev :: "(DeviationRow \<Rightarrow> ('ts, 'b) deviation_cols) \<Rightarrow> bool" where
  "encodes_dev enc \<longleftrightarrow> (\<forall>d. dev_cols (enc d) = dev_entry d \<and> de_run_id (enc d) = dv_RunID d)"

lemma encodes_devD:
  assumes "encodes_dev enc"
  shows "de_id (enc d) = dv_ID d" "de_run_id (enc d) = dv_RunID d" "de_evidence_event_id (enc d) = dv_EvidenceEventID d"
    "dev_cols (enc d) = dev_entry d"
proof -
  have "dev_cols (enc d) = dev_entry d \<and> de_run_id (enc d) = dv_RunID d" using assms by (simp add: encodes_dev_def)
  then show "de_id (enc d) = dv_ID d" "de_run_id (enc d) = dv_RunID d" "de_evidence_event_id (enc d) = dv_EvidenceEventID d"
    "dev_cols (enc d) = dev_entry d"
    by (simp_all add: dev_cols_def dev_entry_def)
qed

lemma add_deviation_view:
  "encodes_dev enc \<Longrightarrow> add_deviation (enc d) t = Inr t' \<Longrightarrow>
   tables_view scan al t' = (tables_view scan al t)\<lparr>v_devs := (\<lambda>r. v_devs (tables_view scan al t) r @ (if dv_RunID d = r then [dev_entry d] else []))\<rparr>"
  by (auto simp: add_deviation_def tables_view_def encodes_devD fun_eq_iff split: if_splits)

lemma add_deviations_view:
  "encodes_dev enc \<Longrightarrow> fold_rows (\<lambda>t d. add_deviation (enc d) t) ds t = Inr t' \<Longrightarrow>
   tables_view scan al t' = (tables_view scan al t)\<lparr>v_devs := (\<lambda>r. v_devs (tables_view scan al t) r @ map dev_entry (filter (\<lambda>d. dv_RunID d = r) ds))\<rparr>"
proof (induction ds arbitrary: t)
  case (Cons d ds)
  then obtain t1 where t1: "add_deviation (enc d) t = Inr t1" "fold_rows (\<lambda>t d. add_deviation (enc d) t) ds t1 = Inr t'"
    by (auto split: sum.splits)
  show ?case
    using Cons.IH [OF Cons.prems(1) t1(2)] add_deviation_view [OF Cons.prems(1) t1(1)] by (auto simp: fun_eq_iff)
qed simp

lemma writable_add:
  assumes enc: "encodes_dev enc" and "writable (tables_view scan al t) (d # ds)"
  shows "\<exists>t'. add_deviation (enc d) t = Inr t' \<and> writable (tables_view scan al t') ds"
proof -
  have "dv_ID d \<noteq> de_id e" if "e \<in> set (t_deviations t)" for e
  proof -
    have "de_id e \<in> fst ` set (v_devs (tables_view scan al t) (de_run_id e))"
      using that by (force simp: tables_view_def dev_cols_def)
    then show ?thesis using assms(2) unfolding writable_def by (metis list.set_intros(1))
  qed
  then have fresh: "dv_ID d \<notin> de_id ` set (t_deviations t)" by auto
  have "find (\<lambda>r. rn_id r = dv_RunID d) (t_runs t) \<noteq> None"
    using assms(2) by (simp add: writable_def tables_view_def)
  then have run: "dv_RunID d \<in> rn_id ` set (t_runs t)" by (metis find_None_not_in)
  have ev: "dv_EvidenceEventID d \<in> ev_ID ` set (t_events t)"
    using assms(2) by (auto simp: writable_def tables_view_def)
  obtain t' where t': "add_deviation (enc d) t = Inr t'"
    using fresh run ev by (simp add: add_deviation_def encodes_devD [OF enc])
  have "dv_ID d \<notin> dv_ID ` set ds" using assms(2) by (simp add: writable_def)
  then have 1: "dv_ID x \<noteq> dv_ID d" if "x \<in> set ds" for x using that by (metis image_eqI)
  have 2: "dv_ID x \<notin> fst ` set (v_devs (tables_view scan al t) r)" if "x \<in> set ds" for x r
    using assms(2) that by (simp add: writable_def)
  have 3: "fst ` set (v_devs (tables_view scan al t') r) \<subseteq> insert (dv_ID d) (fst ` set (v_devs (tables_view scan al t) r))" for r
    by (auto simp: add_deviation_view [OF enc t'] dev_entry_def)
  have "dv_ID x \<notin> fst ` set (v_devs (tables_view scan al t') r)" if "x \<in> set ds" for x r
    using 1 [OF that] 2 [OF that, of r] 3 [of r] by blast
  then have "writable (tables_view scan al t') ds"
    using assms(2) by (simp add: writable_def add_deviation_view [OF enc t'])
  with t' show ?thesis by blast
qed

lemma writable_add_all:
  "encodes_dev enc \<Longrightarrow> writable (tables_view scan al t) ds \<Longrightarrow> \<exists>t'. fold_rows (\<lambda>t d. add_deviation (enc d) t) ds t = Inr t'"
proof (induction ds arbitrary: t)
  case (Cons d ds)
  then show ?case using writable_add by fastforce
qed simp

lemma delete_deviations_view:
  fixes t :: "('ts, 'b) db_tables"
  shows "tables_view scan al (t\<lparr>t_deviations := filter (\<lambda>d. de_run_id d \<noteq> i) (t_deviations t)\<rparr>) =
     (tables_view scan al t)\<lparr>v_devs := (v_devs (tables_view scan al t))(i := [])\<rparr>"
proof -
  have "filter (\<lambda>d. de_run_id d \<noteq> i \<and> de_run_id d = s) ds =
      (if s = i then [] else filter (\<lambda>d. de_run_id d = s) ds)" for s and ds :: "('ts, 'b) deviation_cols list"
    by (induction ds) auto
  then show ?thesis by (simp add: tables_view_def fun_eq_iff)
qed

section \<open>The runs table\<close>

lemma update_runs_view:
  assumes "update_runs i f t = Inr (n, t')" "\<And>r. rn_id (f r) = rn_id r"
  shows "tables_view scan al t' = (tables_view scan al t)\<lparr>v_run := (\<lambda>j.
      if j = i then map_option (scan \<circ> f) (find (\<lambda>r. rn_id r = i) (t_runs t)) else v_run (tables_view scan al t) j)\<rparr>"
    and "n = 0 \<longleftrightarrow> v_run (tables_view scan al t) i = None"
proof -
  have t': "t' = t\<lparr>t_runs := upd_where (\<lambda>r. rn_id r = i) f (t_runs t)\<rparr>" "n = affected (\<lambda>r. rn_id r = i) (t_runs t)"
    using assms(1) by (auto simp: update_runs_def)
  have "find (\<lambda>r. rn_id r = j) (upd_where (\<lambda>r. rn_id r = i) f rs) =
      (if j = i then map_option f (find (\<lambda>r. rn_id r = i) rs) else find (\<lambda>r. rn_id r = j) rs)" for j rs
    by (induction rs) (auto simp: assms(2))
  then show "tables_view scan al t' = (tables_view scan al t)\<lparr>v_run := (\<lambda>j.
      if j = i then map_option (scan \<circ> f) (find (\<lambda>r. rn_id r = i) (t_runs t)) else v_run (tables_view scan al t) j)\<rparr>"
    by (auto simp: tables_view_def t' fun_eq_iff option.map_comp)
  show "n = 0 \<longleftrightarrow> v_run (tables_view scan al t) i = None"
    by (auto simp: t' tables_view_def find_None_iff)
qed

end
