(* ===== verification/Sqlite.thy ===== *)
theory Sqlite
  imports Schema
begin

text \<open>
  \<open>storage/sqlite/sqlite.go\<close> over the schema of \<open>storage/migrations/sqlite\<close>: every
  method of the backend on the tables of the schema. Columns hold what the driver stores
  (booleans as integers, instants as text, empty optional strings as \<open>NULL\<close>); the scan
  functions read them back. The counter of \<open>AUTOINCREMENT\<close> is part of the transaction.
\<close>

section \<open>Tables\<close>

type_synonym package_row = "timestamp package_cols"
type_synonym release_row = "timestamp release_cols"
type_synonym run_row = "(timestamp, int) run_cols"
type_synonym deviation_row = "(timestamp, int) deviation_cols"
type_synonym notifier_row = "(timestamp, int) notifier_cols"
type_synonym notification_row = "timestamp notification_cols"
type_synonym allow_row = "timestamp allow_cols"
type_synonym tables = "(timestamp, int) db_tables"
type_synonym sqlite = "tables sdb"

section \<open>Column helpers\<close>

definition boolToInt :: "bool \<Rightarrow> int" where
  "boolToInt b = (if b then 1 else 0)"

definition boolInt :: "bool \<Rightarrow> int" where
  "boolInt b = (if b then 1 else 0)"

definition nullableTime :: "time option \<Rightarrow> timestamp option" where
  "nullableTime t = (case t of None \<Rightarrow> None | Some t \<Rightarrow> Some (format_time t))"

definition nullableString :: "string \<Rightarrow> string option" where
  "nullableString s = (if s = [] then None else Some s)"

definition isUniqueViolation :: "err \<Rightarrow> bool" where
  "isUniqueViolation e \<longleftrightarrow>
     Contains_str (err_text e) ''UNIQUE constraint failed'' \<or>
     Contains_str (err_text e) ''constraint failed: UNIQUE''"

definition scanRun :: "run_row \<Rightarrow> Run" where
  "scanRun r =
     \<lparr>run_ID = rn_id r, run_PackageName = rn_package_name r, run_Version = rn_version r,
      run_TarballSHA256 = rn_tarball_sha256 r, run_LockfileSHA256 = rn_lockfile_sha256 r,
      run_NodeVersion = rn_node_version r, run_NPMVersion = rn_npm_version r,
      run_State = rn_state r, run_Attempt = rn_attempt r, run_IsBaseline = (rn_is_baseline r \<noteq> 0),
      run_StartedAt = map_option parse_time (rn_started_at r),
      run_FinishedAt = map_option parse_time (rn_finished_at r),
      run_FailureReason = rn_failure_reason r, run_EventsEmitted = rn_events_emitted r,
      run_EventsDropped = rn_events_dropped r, run_DurationNS = rn_duration_ns r\<rparr>"

definition scanDeviationRow :: "deviation_row \<Rightarrow> DeviationRow" where
  "scanDeviationRow d =
     \<lparr>dv_ID = de_id d, dv_RunID = de_run_id d, dv_Category = de_category d, dv_Value = de_value d,
      dv_EvidenceEventID = de_evidence_event_id d, dv_Severity = de_severity d,
      dv_DetectedAt = parse_time (de_detected_at d),
      dv_NotifiedAt = map_option parse_time (de_notified_at d),
      dv_Suppressed = (de_suppressed d \<noteq> 0)\<rparr>"

definition scanDeviationRows :: "deviation_row list \<Rightarrow> DeviationRow list" where
  "scanDeviationRows ds = map scanDeviationRow ds"

definition scanAllowEntry :: "allow_row \<Rightarrow> AllowEntry" where
  "scanAllowEntry e =
     \<lparr>al_ID = aw_id e, al_Scope = aw_scope e, al_PackageName = NullString (aw_package_name e),
      al_Kind = aw_kind e, al_Value = aw_value e, al_Note = aw_note e,
      al_CreatedAt = parse_time (aw_created_at e)\<rparr>"

definition scanNotifier :: "notifier_row \<Rightarrow> NotifierRow" where
  "scanNotifier n =
     \<lparr>nt_Name = no_name n, nt_URL = no_url n, nt_Template = no_template n,
      nt_SecretEnv = NullString (no_secret_env n), nt_Headers = NullString (no_headers n),
      nt_MinSeverity = NullString (no_min_severity n), nt_Enabled = (no_enabled n \<noteq> 0),
      nt_CreatedAt = parse_time (no_created_at n), nt_UpdatedAt = parse_time (no_updated_at n)\<rparr>"

definition scanNotification :: "notification_row \<Rightarrow> NotificationRow" where
  "scanNotification n =
     \<lparr>nf_ID = nn_id n, nf_RunID = nn_run_id n, nf_NotifierName = nn_notifier_name n,
      nf_Attempt = nn_attempt n, nf_Status = nn_status n,
      nf_LastAttemptedAt = map_option parse_time (nn_last_attempted_at n),
      nf_NextAttemptAt = map_option parse_time (nn_next_attempt_at n),
      nf_ResponseCode = nn_response_code n, nf_ResponseBody = NullString (nn_response_body n),
      nf_ErrorMsg = NullString (nn_error_msg n), nf_DeviationCount = nn_deviation_count n,
      nf_CreatedAt = parse_time (nn_created_at n)\<rparr>"

section \<open>Runs\<close>

definition encode_run :: "Run \<Rightarrow> run_row" where
  "encode_run r =
     \<lparr>rn_id = run_ID r, rn_package_name = run_PackageName r, rn_version = run_Version r,
      rn_tarball_sha256 = run_TarballSHA256 r, rn_lockfile_sha256 = run_LockfileSHA256 r,
      rn_node_version = run_NodeVersion r, rn_npm_version = run_NPMVersion r,
      rn_state = run_State r, rn_attempt = run_Attempt r,
      rn_is_baseline = boolToInt (run_IsBaseline r),
      rn_started_at = nullableTime (run_StartedAt r),
      rn_finished_at = nullableTime (run_FinishedAt r),
      rn_failure_reason = run_FailureReason r,
      rn_events_emitted = 0, rn_events_dropped = 0, rn_duration_ns = 0\<rparr>"

definition sqlite_CreateRun :: "time \<Rightarrow> Run \<Rightarrow> (sqlite, unit) op" where
  "sqlite_CreateRun now r db =
     (if \<not> RunState_IsValid (run_State r) then (Inl (Msg ''invalid run state''), db)
      else
        (let r' = (if run_StartedAt r = None then r\<lparr>run_StartedAt := Some now\<rparr> else r) in
         case stmt (insert_run (encode_run r')) db of
           (Inl e, db') \<Rightarrow>
             (if isUniqueViolation e then (Inl ErrConflict, db') else (Inl (Wrap ''insert run'' e), db'))
         | (Inr _, db') \<Rightarrow> (Inr (), db')))"

definition sqlite_UpdateRunState :: "time \<Rightarrow> string \<Rightarrow> RunState \<Rightarrow> string \<Rightarrow> (sqlite, unit) op" where
  "sqlite_UpdateRunState now runID st reason db =
     (if \<not> RunState_IsValid st then (Inl (Msg ''invalid run state''), db)
      else must_affect
             (wrap_err ''update run state'' (stmt (update_runs runID (set_state (format_time now) st reason)))) db)"

definition sqlite_GetRun :: "string \<Rightarrow> (sqlite, Run) op" where
  "sqlite_GetRun runID =
     query_row (\<lambda>t. map_option scanRun (find (\<lambda>r. rn_id r = runID) (t_runs t)))"

definition sqlite_ListRuns :: "int \<Rightarrow> (sqlite, Run list) op" where
  "sqlite_ListRuns lim =
     (let n = (if lim \<le> 0 then 100 else lim) in
      query (\<lambda>t. map scanRun (limit_rows n (order_by_desc rn_started_at (t_runs t)))))"

section \<open>Events\<close>

definition sqlite_AppendEvents :: "string \<Rightarrow> EventRow list \<Rightarrow> (sqlite, unit) op" where
  "sqlite_AppendEvents runID events db =
     (if events = [] then (Inr (), db)
      else in_tx (insert_event runID) (\<lambda>_. ''insert event'') events db)"

definition sqlite_ListEventsByRun :: "string \<Rightarrow> int \<Rightarrow> (sqlite, EventRow list) op" where
  "sqlite_ListEventsByRun runID lim =
     (let n = (if lim \<le> 0 then 10000 else lim) in
      query (\<lambda>t. limit_rows n
        (order_by (\<lambda>e. (ev_TsNS e, ev_ID e)) (filter (\<lambda>e. ev_RunID e = runID) (t_events t)))))"

definition sqlite_EventCount :: "string \<Rightarrow> (sqlite, int) op" where
  "sqlite_EventCount runID =
     query (\<lambda>t. int (length (filter (\<lambda>e. ev_RunID e = runID) (t_events t))))"

definition sqlite_GetEvent :: "int \<Rightarrow> (sqlite, EventRow) op" where
  "sqlite_GetEvent i = query_row (\<lambda>t. find (\<lambda>e. ev_ID e = i) (t_events t))"

definition sqlite_PruneEvents :: "int \<Rightarrow> (sqlite, int) op" where
  "sqlite_PruneEvents olderThanNS = wrap_err ''prune events'' (stmt (delete_events olderThanNS))"

section \<open>Baseline\<close>

definition sqlite_LoadBaseline :: "string \<Rightarrow> (sqlite, BaselineRow list) op" where
  "sqlite_LoadBaseline pkg = query (\<lambda>t. filter (\<lambda>b. bl_PackageName b = pkg) (t_baseline t))"

definition sqlite_MergeBaseline :: "string \<Rightarrow> BaselineRow list \<Rightarrow> (sqlite, unit) op" where
  "sqlite_MergeBaseline runID rows db =
     (if rows = [] then (Inr (), db)
      else in_tx (upsert_baseline runID)
             (\<lambda>r. ''merge baseline '' @ bl_Category r @ ''/'' @ bl_Value r) rows db)"

definition sqlite_MarkRunBaseline :: "string \<Rightarrow> bool \<Rightarrow> (sqlite, unit) op" where
  "sqlite_MarkRunBaseline runID b =
     must_affect (stmt (update_runs runID (\<lambda>r. r\<lparr>rn_is_baseline := (if b then 1 else 0)\<rparr>)))"

section \<open>Deviations\<close>

definition encode_deviation :: "DeviationRow \<Rightarrow> deviation_row" where
  "encode_deviation r =
     \<lparr>de_id = dv_ID r, de_run_id = dv_RunID r, de_category = dv_Category r, de_value = dv_Value r,
      de_evidence_event_id = dv_EvidenceEventID r, de_severity = dv_Severity r,
      de_detected_at = format_time (dv_DetectedAt r), de_notified_at = None,
      de_suppressed = (if dv_Suppressed r then 1 else 0)\<rparr>"

definition insert_deviation :: "tables \<Rightarrow> DeviationRow \<Rightarrow> err + tables" where
  "insert_deviation t r = add_deviation (encode_deviation r) t"

definition sqlite_WriteDeviations :: "DeviationRow list \<Rightarrow> (sqlite, unit) op" where
  "sqlite_WriteDeviations rows db =
     (if rows = [] then (Inr (), db) else in_tx insert_deviation (\<lambda>_. ''insert deviation'') rows db)"

definition sqlite_DeleteDeviationsForRun :: "string \<Rightarrow> (sqlite, unit) op" where
  "sqlite_DeleteDeviationsForRun runID =
     stmt (\<lambda>t. Inr ((), t\<lparr>t_deviations := filter (\<lambda>d. de_run_id d \<noteq> runID) (t_deviations t)\<rparr>))"

definition sqlite_ListDeviations :: "string \<Rightarrow> (sqlite, DeviationRow list) op" where
  "sqlite_ListDeviations runID =
     query (\<lambda>t. map scanDeviationRow (order_by (\<lambda>d. (de_detected_at d, de_id d))
        (filter (\<lambda>d. de_run_id d = runID) (t_deviations t))))"

definition sqlite_ListDeviationsFiltered :: "DeviationFilter \<Rightarrow> (sqlite, DeviationRow list) op" where
  "sqlite_ListDeviationsFiltered f =
     query (\<lambda>t. let ds = order_by_desc (\<lambda>d. (de_detected_at d, de_id d))
                      (filter (deviation_selected f t) (t_deviations t))
        in scanDeviationRows (if df_Limit f > 0 then limit_rows (df_Limit f) ds else ds))"

definition sqlite_GetDeviation :: "string \<Rightarrow> (sqlite, DeviationRow) op" where
  "sqlite_GetDeviation i =
     query_row (\<lambda>t. map_option scanDeviationRow (find (\<lambda>d. de_id d = i) (t_deviations t)))"

section \<open>Packages\<close>

definition package_totals :: "tables \<Rightarrow> PackageSummary list" where
  "package_totals t =
     map (\<lambda>p. let rs = filter (\<lambda>r. rn_package_name r = p) (t_runs t) in
        \<lparr>ps_Name = p, ps_RunsTotal = int (length rs),
         ps_RunsBaseline = int (length (filter (\<lambda>r. rn_is_baseline r = 1) rs)),
         ps_DeviationsLatest = 0, ps_LatestRunID = [], ps_LatestVersion = []\<rparr>)
       (sort (remdups (filter (\<lambda>p. p \<noteq> []) (map rn_package_name (t_runs t)))))"

definition latest_run :: "string \<Rightarrow> tables \<Rightarrow> run_row option" where
  "latest_run p t =
     (case order_by_desc (\<lambda>r. (rn_started_at r, rn_id r)) (filter (\<lambda>r. rn_package_name r = p) (t_runs t)) of
        [] \<Rightarrow> None
      | r # _ \<Rightarrow> Some r)"

text \<open>Neither of the two inner queries reports its failure.\<close>

definition decorate :: "PackageSummary \<Rightarrow> sqlite \<Rightarrow> PackageSummary \<times> sqlite" where
  "decorate p db =
     (case query_row (latest_run (ps_Name p)) db of
        (Inl e, db1) \<Rightarrow> (p, db1)
      | (Inr r, db1) \<Rightarrow>
          (case query (\<lambda>t. int (length (filter (\<lambda>d. de_run_id d = rn_id r) (t_deviations t)))) db1 of
             (q, db2) \<Rightarrow>
               (p\<lparr>ps_LatestRunID := rn_id r, ps_LatestVersion := rn_version r,
                  ps_DeviationsLatest := (case q of Inl e \<Rightarrow> 0 | Inr n \<Rightarrow> n)\<rparr>, db2)))"

fun decorate_all :: "PackageSummary list \<Rightarrow> sqlite \<Rightarrow> PackageSummary list \<times> sqlite" where
  "decorate_all [] db = ([], db)"
| "decorate_all (p # ps) db =
     (let (p', db1) = decorate p db; (ps', db2) = decorate_all ps db1 in (p' # ps', db2))"

definition sqlite_ListPackages :: "(sqlite, PackageSummary list) op" where
  "sqlite_ListPackages db =
     (case query package_totals db of
        (Inl e, db1) \<Rightarrow> (Inl e, db1)
      | (Inr ps, db1) \<Rightarrow> (let (ps', db2) = decorate_all ps db1 in (Inr ps', db2)))"

definition sqlite_ListRunsByPackage :: "string \<Rightarrow> int \<Rightarrow> (sqlite, Run list) op" where
  "sqlite_ListRunsByPackage pkg lim =
     (let n = (if lim \<le> 0 then 100 else lim) in
      query (\<lambda>t. map scanRun (limit_rows n (order_by_desc (\<lambda>r. (rn_started_at r, rn_id r))
        (filter (\<lambda>r. rn_package_name r = pkg) (t_runs t))))))"

section \<open>Watched packages and releases\<close>

definition sqlite_AddWatchedPackage :: "time \<Rightarrow> string \<Rightarrow> (sqlite, unit) op" where
  "sqlite_AddWatchedPackage now name = stmt (insert_package (format_time now) name)"

definition sqlite_RemoveWatchedPackage :: "string \<Rightarrow> (sqlite, unit) op" where
  "sqlite_RemoveWatchedPackage name = must_affect (stmt (delete_package name))"

definition scan_package :: "package_row \<Rightarrow> WatchedPackage" where
  "scan_package p =
     \<lparr>wp_Name = pk_name p, wp_AddedAt = parse_time (pk_added_at p),
      wp_LastCheckedAt = map_option parse_time (pk_last_checked_at p),
      wp_LastSeenVersion = NullString (pk_last_seen_version p)\<rparr>"

definition sqlite_ListWatchedPackages :: "(sqlite, WatchedPackage list) op" where
  "sqlite_ListWatchedPackages = query (\<lambda>t. map scan_package (order_by pk_name (t_packages t)))"

definition sqlite_UpdatePackageCheck :: "time \<Rightarrow> string \<Rightarrow> string \<Rightarrow> (sqlite, unit) op" where
  "sqlite_UpdatePackageCheck now name version =
     (if version \<noteq> [] then
        stmt (\<lambda>t. Inr ((), t\<lparr>t_packages := upd_where (\<lambda>p. pk_name p = name)
          (\<lambda>p. p\<lparr>pk_last_checked_at := Some (format_time now), pk_last_seen_version := Some version\<rparr>)
          (t_packages t)\<rparr>))
      else
        stmt (\<lambda>t. Inr ((), t\<lparr>t_packages := upd_where (\<lambda>p. pk_name p = name)
          (\<lambda>p. p\<lparr>pk_last_checked_at := Some (format_time now)\<rparr>) (t_packages t)\<rparr>)))"

definition encode_release :: "ReleaseRow \<Rightarrow> release_row" where
  "encode_release r =
     \<lparr>rl_package_name = rel_PackageName r, rl_version = rel_Version r,
      rl_tarball_sha256 = rel_TarballSHA256 r, rl_npm_integrity = rel_NPMIntegrity r,
      rl_published_at = format_time (rel_PublishedAt r), rl_discovered_at = format_time (rel_DiscoveredAt r)\<rparr>"

definition insert_release :: "ReleaseRow \<Rightarrow> tables \<Rightarrow> err + unit \<times> tables" where
  "insert_release r = add_release (encode_release r)"

definition sqlite_RecordRelease :: "ReleaseRow \<Rightarrow> (sqlite, unit) op" where
  "sqlite_RecordRelease r = stmt (insert_release r)"

definition scan_release :: "release_row \<Rightarrow> ReleaseRow" where
  "scan_release r =
     \<lparr>rel_PackageName = rl_package_name r, rel_Version = rl_version r,
      rel_TarballSHA256 = rl_tarball_sha256 r, rel_NPMIntegrity = rl_npm_integrity r,
      rel_PublishedAt = parse_time (rl_published_at r), rel_DiscoveredAt = parse_time (rl_discovered_at r)\<rparr>"

definition sqlite_ListReleasesByPackage :: "string \<Rightarrow> int \<Rightarrow> (sqlite, ReleaseRow list) op" where
  "sqlite_ListReleasesByPackage name lim =
     (let n = (if lim \<le> 0 then 100 else lim) in
      query (\<lambda>t. map scan_release (limit_rows n (order_by_desc rl_discovered_at
        (filter (\<lambda>r. rl_package_name r = name) (t_releases t))))))"

section \<open>Short ids\<close>

text \<open>SQLite's \<open>LIKE\<close> ignores the case of ASCII letters. The query has \<open>LIMIT 2\<close>.\<close>

definition resolve_matches :: "('r \<Rightarrow> string) \<Rightarrow> string \<Rightarrow> 'r list \<Rightarrow> 'r list" where
  "resolve_matches idf p rs = limit_rows 2 (filter (\<lambda>r. like lower_char (p @ ''%'') (idf r)) rs)"

definition sqlite_ResolveRunPrefix :: "string \<Rightarrow> (sqlite, Run) op" where
  "sqlite_ResolveRunPrefix p = resolve p (\<lambda>t. map scanRun (resolve_matches rn_id p (t_runs t)))"

definition sqlite_ResolveDeviationPrefix :: "string \<Rightarrow> (sqlite, DeviationRow) op" where
  "sqlite_ResolveDeviationPrefix p =
     resolve p (\<lambda>t. map scanDeviationRow (resolve_matches de_id p (t_deviations t)))"

definition sqlite_ResolveAllowPrefix :: "string \<Rightarrow> (sqlite, AllowEntry) op" where
  "sqlite_ResolveAllowPrefix p =
     resolve p (\<lambda>t. map scanAllowEntry (resolve_matches aw_id p (t_allowlists t)))"

section \<open>Allowlists\<close>

definition encode_allow :: "time \<Rightarrow> AllowEntry \<Rightarrow> allow_row" where
  "encode_allow now e =
     \<lparr>aw_id = al_ID e, aw_scope = al_Scope e, aw_package_name = nullableString (al_PackageName e),
      aw_kind = al_Kind e, aw_value = al_Value e, aw_note = al_Note e,
      aw_created_at = (if al_CreatedAt e = zero_time then format_time now else format_time (al_CreatedAt e))\<rparr>"

definition sqlite_AddAllowEntry :: "time \<Rightarrow> AllowEntry \<Rightarrow> (sqlite, unit) op" where
  "sqlite_AddAllowEntry now e = wrap_err ''insert allowlist'' (stmt (insert_allow (encode_allow now e)))"

definition sqlite_ListAllowEntries :: "(sqlite, AllowEntry list) op" where
  "sqlite_ListAllowEntries =
     query (\<lambda>t. map scanAllowEntry (order_by
       (\<lambda>r. (aw_scope r, NullString (aw_package_name r), aw_kind r, aw_value r)) (t_allowlists t)))"

definition sqlite_DeleteAllowEntry :: "string \<Rightarrow> (sqlite, unit) op" where
  "sqlite_DeleteAllowEntry i =
     stmt (\<lambda>t. Inr ((), t\<lparr>t_allowlists := filter (\<lambda>r. aw_id r \<noteq> i) (t_allowlists t)\<rparr>))"

section \<open>Run results\<close>

definition sqlite_EventsDroppedTotal :: "(sqlite, int) op" where
  "sqlite_EventsDroppedTotal =
     wrap_err ''events_dropped total'' (query (\<lambda>t. sum_list (map rn_events_dropped (t_runs t))))"

definition sqlite_RecordScanResult :: "time \<Rightarrow> string \<Rightarrow> ScanResult \<Rightarrow> (sqlite, unit) op" where
  "sqlite_RecordScanResult now runID s =
     must_affect (wrap_err ''record scan result'' (stmt (update_runs runID (set_result (format_time now) s))))"

section \<open>Notifier targets and the delivery log\<close>

definition encode_notifier :: "time \<Rightarrow> NotifierRow \<Rightarrow> notifier_row" where
  "encode_notifier now n =
     \<lparr>no_name = nt_Name n, no_url = nt_URL n, no_template = nt_Template n,
      no_secret_env = nullableString (nt_SecretEnv n), no_headers = nullableString (nt_Headers n),
      no_min_severity = nullableString (nt_MinSeverity n), no_enabled = boolInt (nt_Enabled n),
      no_created_at = (if nt_CreatedAt n = zero_time then format_time now else format_time (nt_CreatedAt n)),
      no_updated_at = format_time now\<rparr>"

definition sqlite_UpsertNotifier :: "time \<Rightarrow> NotifierRow \<Rightarrow> (sqlite, unit) op" where
  "sqlite_UpsertNotifier now n = stmt (upsert_notifier (encode_notifier now n))"

definition sqlite_ListNotifiers :: "(sqlite, NotifierRow list) op" where
  "sqlite_ListNotifiers = query (\<lambda>t. map scanNotifier (order_by no_name (t_notifiers t)))"

definition sqlite_GetNotifier :: "string \<Rightarrow> (sqlite, NotifierRow) op" where
  "sqlite_GetNotifier name =
     query_row (\<lambda>t. map_option scanNotifier (find (\<lambda>n. no_name n = name) (t_notifiers t)))"

definition sqlite_DeleteNotifier :: "string \<Rightarrow> (sqlite, unit) op" where
  "sqlite_DeleteNotifier name =
     stmt (\<lambda>t. Inr ((), delete_notifier name t))"

definition encode_notification :: "time \<Rightarrow> NotificationRow \<Rightarrow> notification_row" where
  "encode_notification now n =
     \<lparr>nn_id = nf_ID n, nn_run_id = nf_RunID n, nn_notifier_name = nf_NotifierName n,
      nn_attempt = nf_Attempt n, nn_status = nf_Status n,
      nn_last_attempted_at = nullableTime (nf_LastAttemptedAt n),
      nn_next_attempt_at = nullableTime (nf_NextAttemptAt n),
      nn_response_code = nf_ResponseCode n, nn_response_body = nullableString (nf_ResponseBody n),
      nn_error_msg = nullableString (nf_ErrorMsg n), nn_deviation_count = nf_DeviationCount n,
      nn_created_at = (if nf_CreatedAt n = zero_time then format_time now else format_time (nf_CreatedAt n))\<rparr>"

definition sqlite_RecordNotification :: "time \<Rightarrow> NotificationRow \<Rightarrow> (sqlite, unit) op" where
  "sqlite_RecordNotification now n = stmt (insert_notification (encode_notification now n))"

definition sqlite_ListNotificationsByRun :: "string \<Rightarrow> (sqlite, NotificationRow list) op" where
  "sqlite_ListNotificationsByRun runID =
     query (\<lambda>t. map scanNotification (order_by nn_attempt
       (filter (\<lambda>n. nn_run_id n = runID) (t_notifications t))))"

section \<open>The backend\<close>

definition sqlite_Backend :: "sqlite Backend" where
  "sqlite_Backend =
     \<lparr>be_CreateRun = sqlite_CreateRun, be_UpdateRunState = sqlite_UpdateRunState,
      be_GetRun = sqlite_GetRun, be_ListRuns = sqlite_ListRuns,
      be_AppendEvents = sqlite_AppendEvents, be_ListEventsByRun = sqlite_ListEventsByRun,
      be_EventCount = sqlite_EventCount, be_LoadBaseline = sqlite_LoadBaseline,
      be_MergeBaseline = sqlite_MergeBaseline, be_MarkRunBaseline = sqlite_MarkRunBaseline,
      be_WriteDeviations = sqlite_WriteDeviations,
      be_DeleteDeviationsForRun = sqlite_DeleteDeviationsForRun,
      be_ListDeviations = sqlite_ListDeviations,
      be_ListDeviationsFiltered = sqlite_ListDeviationsFiltered,
      be_GetDeviation = sqlite_GetDeviation, be_GetEvent = sqlite_GetEvent,
      be_ListPackages = sqlite_ListPackages, be_ListRunsByPackage = sqlite_ListRunsByPackage,
      be_ResolveRunPrefix = sqlite_ResolveRunPrefix,
      be_ResolveDeviationPrefix = sqlite_ResolveDeviationPrefix,
      be_AddWatchedPackage = sqlite_AddWatchedPackage,
      be_RemoveWatchedPackage = sqlite_RemoveWatchedPackage,
      be_ListWatchedPackages = sqlite_ListWatchedPackages,
      be_UpdatePackageCheck = sqlite_UpdatePackageCheck,
      be_RecordRelease = sqlite_RecordRelease,
      be_ListReleasesByPackage = sqlite_ListReleasesByPackage,
      be_RecordScanResult = sqlite_RecordScanResult,
      be_EventsDroppedTotal = sqlite_EventsDroppedTotal, be_PruneEvents = sqlite_PruneEvents,
      be_AddAllowEntry = sqlite_AddAllowEntry, be_ListAllowEntries = sqlite_ListAllowEntries,
      be_DeleteAllowEntry = sqlite_DeleteAllowEntry, be_ResolveAllowPrefix = sqlite_ResolveAllowPrefix,
      be_UpsertNotifier = sqlite_UpsertNotifier, be_ListNotifiers = sqlite_ListNotifiers,
      be_GetNotifier = sqlite_GetNotifier, be_DeleteNotifier = sqlite_DeleteNotifier,
      be_RecordNotification = sqlite_RecordNotification,
      be_ListNotificationsByRun = sqlite_ListNotificationsByRun\<rparr>"

lemma sqlite_Backend_sel [simp]:
  "be_CreateRun sqlite_Backend = sqlite_CreateRun"
  "be_UpdateRunState sqlite_Backend = sqlite_UpdateRunState"
  "be_GetRun sqlite_Backend = sqlite_GetRun"
  "be_ListRuns sqlite_Backend = sqlite_ListRuns"
  "be_AppendEvents sqlite_Backend = sqlite_AppendEvents"
  "be_ListEventsByRun sqlite_Backend = sqlite_ListEventsByRun"
  "be_EventCount sqlite_Backend = sqlite_EventCount"
  "be_LoadBaseline sqlite_Backend = sqlite_LoadBaseline"
  "be_MergeBaseline sqlite_Backend = sqlite_MergeBaseline"
  "be_MarkRunBaseline sqlite_Backend = sqlite_MarkRunBaseline"
  "be_WriteDeviations sqlite_Backend = sqlite_WriteDeviations"
  "be_DeleteDeviationsForRun sqlite_Backend = sqlite_DeleteDeviationsForRun"
  "be_ListDeviations sqlite_Backend = sqlite_ListDeviations"
  "be_ListDeviationsFiltered sqlite_Backend = sqlite_ListDeviationsFiltered"
  "be_GetDeviation sqlite_Backend = sqlite_GetDeviation"
  "be_GetEvent sqlite_Backend = sqlite_GetEvent"
  "be_ListPackages sqlite_Backend = sqlite_ListPackages"
  "be_ListRunsByPackage sqlite_Backend = sqlite_ListRunsByPackage"
  "be_ResolveRunPrefix sqlite_Backend = sqlite_ResolveRunPrefix"
  "be_ResolveDeviationPrefix sqlite_Backend = sqlite_ResolveDeviationPrefix"
  "be_AddWatchedPackage sqlite_Backend = sqlite_AddWatchedPackage"
  "be_RemoveWatchedPackage sqlite_Backend = sqlite_RemoveWatchedPackage"
  "be_ListWatchedPackages sqlite_Backend = sqlite_ListWatchedPackages"
  "be_UpdatePackageCheck sqlite_Backend = sqlite_UpdatePackageCheck"
  "be_RecordRelease sqlite_Backend = sqlite_RecordRelease"
  "be_ListReleasesByPackage sqlite_Backend = sqlite_ListReleasesByPackage"
  "be_RecordScanResult sqlite_Backend = sqlite_RecordScanResult"
  "be_EventsDroppedTotal sqlite_Backend = sqlite_EventsDroppedTotal"
  "be_PruneEvents sqlite_Backend = sqlite_PruneEvents"
  "be_AddAllowEntry sqlite_Backend = sqlite_AddAllowEntry"
  "be_ListAllowEntries sqlite_Backend = sqlite_ListAllowEntries"
  "be_DeleteAllowEntry sqlite_Backend = sqlite_DeleteAllowEntry"
  "be_ResolveAllowPrefix sqlite_Backend = sqlite_ResolveAllowPrefix"
  "be_UpsertNotifier sqlite_Backend = sqlite_UpsertNotifier"
  "be_ListNotifiers sqlite_Backend = sqlite_ListNotifiers"
  "be_GetNotifier sqlite_Backend = sqlite_GetNotifier"
  "be_DeleteNotifier sqlite_Backend = sqlite_DeleteNotifier"
  "be_RecordNotification sqlite_Backend = sqlite_RecordNotification"
  "be_ListNotificationsByRun sqlite_Backend = sqlite_ListNotificationsByRun"
  by (simp_all add: sqlite_Backend_def)

lemmas read_ops = sqlite_GetRun_def sqlite_ListRuns_def sqlite_ListEventsByRun_def sqlite_EventCount_def
  sqlite_GetEvent_def sqlite_LoadBaseline_def sqlite_ListDeviations_def sqlite_ListDeviationsFiltered_def
  sqlite_GetDeviation_def sqlite_ListRunsByPackage_def sqlite_ListWatchedPackages_def
  sqlite_ListReleasesByPackage_def sqlite_ResolveRunPrefix_def sqlite_ResolveDeviationPrefix_def
  sqlite_ResolveAllowPrefix_def sqlite_ListAllowEntries_def sqlite_EventsDroppedTotal_def
  sqlite_ListNotifiers_def sqlite_GetNotifier_def sqlite_ListNotificationsByRun_def

section \<open>Columns round-trip\<close>

lemma nullableString_roundtrip [simp]: "NullString (nullableString s) = s"
  by (simp add: NullString_def nullableString_def)

lemma nullableTime_roundtrip [simp]: "map_option parse_time (nullableTime t) = t"
  by (cases t) (simp_all add: nullableTime_def)

lemma boolToInt_nonzero [simp]: "boolToInt b \<noteq> 0 \<longleftrightarrow> b"
  by (simp add: boolToInt_def)

lemma scanRun_encode_run:
  "scanRun (encode_run r) = r\<lparr>run_EventsEmitted := 0, run_EventsDropped := 0, run_DurationNS := 0\<rparr>"
  by (simp add: scanRun_def encode_run_def)

lemma isUniqueViolation_cases:
  "isUniqueViolation unique_failed" "\<not> isUniqueViolation ErrIO"
  by (code_simp, code_simp)

end
