(* ===== verification/Sqlite_Inv.thy ===== *)
theory Sqlite_Inv
  imports Sqlite Schema_Inv
begin

text \<open>
  Every operation of the SQLite backend keeps the integrity of the tables, whatever fails
  underneath; the reachable databases.
\<close>

section \<open>Operations keep it\<close>

lemma decorate_tab: "db_tab (snd (decorate p db)) = db_tab db"
proof -
  obtain q db1 where q: "query_row (latest_run (ps_Name p)) db = (q, db1)" by (metis prod.exhaust)
  then have 1: "db_tab db1 = db_tab db" using query_row_tab by (metis snd_conv)
  show ?thesis
  proof (cases q)
    case (Inl e)
    then show ?thesis using q 1 by (simp add: decorate_def)
  next
    case (Inr r)
    then show ?thesis
      using q 1 query_tab [of "\<lambda>t. int (length (filter (\<lambda>d. de_run_id d = rn_id r) (t_deviations t)))" db1]
      by (simp add: decorate_def case_prod_beta)
  qed
qed

lemma decorate_all_tab: "db_tab (snd (decorate_all ps db)) = db_tab db"
  by (induction ps arbitrary: db) (simp_all add: decorate_tab case_prod_beta Let_def)

lemma ListPackages_tab: "db_tab (snd (sqlite_ListPackages db)) = db_tab db"
proof -
  obtain q db1 where q: "query package_totals db = (q, db1)" by (metis prod.exhaust)
  then have "db_tab db1 = db_tab db" using query_tab by (metis snd_conv)
  with q show ?thesis
    by (cases q) (simp_all add: sqlite_ListPackages_def case_prod_beta Let_def decorate_all_tab)
qed

text \<open>One step of the database is one operation of the backend.\<close>

inductive sqlite_step :: "sqlite \<Rightarrow> sqlite \<Rightarrow> bool" where
  CreateRun: "sqlite_step db (snd (be_CreateRun sqlite_Backend now r db))"
| UpdateRunState: "sqlite_step db (snd (be_UpdateRunState sqlite_Backend now i st reason db))"
| GetRun: "sqlite_step db (snd (be_GetRun sqlite_Backend i db))"
| ListRuns: "sqlite_step db (snd (be_ListRuns sqlite_Backend n db))"
| AppendEvents: "sqlite_step db (snd (be_AppendEvents sqlite_Backend i es db))"
| ListEventsByRun: "sqlite_step db (snd (be_ListEventsByRun sqlite_Backend i n db))"
| EventCount: "sqlite_step db (snd (be_EventCount sqlite_Backend i db))"
| LoadBaseline: "sqlite_step db (snd (be_LoadBaseline sqlite_Backend p db))"
| MergeBaseline: "sqlite_step db (snd (be_MergeBaseline sqlite_Backend i bs db))"
| MarkRunBaseline: "sqlite_step db (snd (be_MarkRunBaseline sqlite_Backend i b db))"
| WriteDeviations: "sqlite_step db (snd (be_WriteDeviations sqlite_Backend ds db))"
| DeleteDeviationsForRun: "sqlite_step db (snd (be_DeleteDeviationsForRun sqlite_Backend i db))"
| ListDeviations: "sqlite_step db (snd (be_ListDeviations sqlite_Backend i db))"
| ListDeviationsFiltered: "sqlite_step db (snd (be_ListDeviationsFiltered sqlite_Backend f db))"
| GetDeviation: "sqlite_step db (snd (be_GetDeviation sqlite_Backend i db))"
| GetEvent: "sqlite_step db (snd (be_GetEvent sqlite_Backend ei db))"
| ListPackages: "sqlite_step db (snd (be_ListPackages sqlite_Backend db))"
| ListRunsByPackage: "sqlite_step db (snd (be_ListRunsByPackage sqlite_Backend p n db))"
| ResolveRunPrefix: "sqlite_step db (snd (be_ResolveRunPrefix sqlite_Backend p db))"
| ResolveDeviationPrefix: "sqlite_step db (snd (be_ResolveDeviationPrefix sqlite_Backend p db))"
| AddWatchedPackage: "sqlite_step db (snd (be_AddWatchedPackage sqlite_Backend now p db))"
| RemoveWatchedPackage: "sqlite_step db (snd (be_RemoveWatchedPackage sqlite_Backend p db))"
| ListWatchedPackages: "sqlite_step db (snd (be_ListWatchedPackages sqlite_Backend db))"
| UpdatePackageCheck: "sqlite_step db (snd (be_UpdatePackageCheck sqlite_Backend now p v db))"
| RecordRelease: "sqlite_step db (snd (be_RecordRelease sqlite_Backend rel db))"
| ListReleasesByPackage: "sqlite_step db (snd (be_ListReleasesByPackage sqlite_Backend p n db))"
| RecordScanResult: "sqlite_step db (snd (be_RecordScanResult sqlite_Backend now i sr db))"
| EventsDroppedTotal: "sqlite_step db (snd (be_EventsDroppedTotal sqlite_Backend db))"
| PruneEvents: "sqlite_step db (snd (be_PruneEvents sqlite_Backend c db))"
| AddAllowEntry: "sqlite_step db (snd (be_AddAllowEntry sqlite_Backend now al db))"
| ListAllowEntries: "sqlite_step db (snd (be_ListAllowEntries sqlite_Backend db))"
| DeleteAllowEntry: "sqlite_step db (snd (be_DeleteAllowEntry sqlite_Backend i db))"
| ResolveAllowPrefix: "sqlite_step db (snd (be_ResolveAllowPrefix sqlite_Backend p db))"
| UpsertNotifier: "sqlite_step db (snd (be_UpsertNotifier sqlite_Backend now nt db))"
| ListNotifiers: "sqlite_step db (snd (be_ListNotifiers sqlite_Backend db))"
| GetNotifier: "sqlite_step db (snd (be_GetNotifier sqlite_Backend p db))"
| DeleteNotifier: "sqlite_step db (snd (be_DeleteNotifier sqlite_Backend p db))"
| RecordNotification: "sqlite_step db (snd (be_RecordNotification sqlite_Backend now nf db))"
| ListNotificationsByRun: "sqlite_step db (snd (be_ListNotificationsByRun sqlite_Backend i db))"

lemma encode_run_state [simp]: "rn_state (encode_run r) = run_State r"
  by (simp add: encode_run_def)

lemma insert_run_stmt_ok:
  "tables_ok (db_tab db) \<Longrightarrow> RunState_IsValid (run_State r) \<Longrightarrow>
   tables_ok (db_tab (snd (stmt (insert_run (encode_run r)) db)))"
  by (rule stmt_ok) (auto elim: insert_run_ok [rotated 2])

lemma CreateRun_snd:
  "snd (sqlite_CreateRun now r db) =
     (if RunState_IsValid (run_State r)
      then snd (stmt (insert_run (encode_run
             (if run_StartedAt r = None then r\<lparr>run_StartedAt := Some now\<rparr> else r))) db)
      else db)"
  by (simp add: sqlite_CreateRun_def Let_def case_prod_beta del: if_split split: sum.split)

lemma CreateRun_tab_ok: "tables_ok (db_tab db) \<Longrightarrow> tables_ok (db_tab (snd (sqlite_CreateRun now r db)))"
  by (simp add: CreateRun_snd insert_run_stmt_ok)

lemma update_runs_stmt_ok:
  "tables_ok (db_tab db) \<Longrightarrow> (\<And>r. rn_id (f r) = rn_id r) \<Longrightarrow>
   (\<And>r. RunState_IsValid (rn_state r) \<Longrightarrow> RunState_IsValid (rn_state (f r))) \<Longrightarrow>
   tables_ok (db_tab (snd (stmt (update_runs i f) db)))"
  by (rule stmt_ok) (auto intro: update_runs_ok)

lemma UpdateRunState_tab_ok:
  "tables_ok (db_tab db) \<Longrightarrow> tables_ok (db_tab (snd (sqlite_UpdateRunState now i st reason db)))"
  by (simp add: sqlite_UpdateRunState_def set_state_def update_runs_stmt_ok)

lemma RecordScanResult_tab_ok:
  "tables_ok (db_tab db) \<Longrightarrow> tables_ok (db_tab (snd (sqlite_RecordScanResult now i sr db)))"
  by (simp add: sqlite_RecordScanResult_def set_result_def update_runs_stmt_ok)

lemma MarkRunBaseline_tab_ok:
  "tables_ok (db_tab db) \<Longrightarrow> tables_ok (db_tab (snd (sqlite_MarkRunBaseline i b db)))"
  by (simp add: sqlite_MarkRunBaseline_def update_runs_stmt_ok)

lemma insert_deviation_ok: "tables_ok t \<Longrightarrow> insert_deviation t r = Inr t' \<Longrightarrow> tables_ok t'"
  by (auto simp: insert_deviation_def intro: add_deviation_ok)

lemma in_tx_ops_ok:
  assumes "tables_ok (db_tab db)"
  shows "tables_ok (db_tab (snd (sqlite_AppendEvents i es db)))"
    and "tables_ok (db_tab (snd (sqlite_MergeBaseline i bs db)))"
    and "tables_ok (db_tab (snd (sqlite_WriteDeviations ds db)))"
proof -
  have "tables_ok (db_tab (snd (in_tx (insert_event i) m es db)))" for m
    using assms insert_event_ok by (rule in_tx_ok)
  then show "tables_ok (db_tab (snd (sqlite_AppendEvents i es db)))"
    using assms by (simp add: sqlite_AppendEvents_def)
  have "tables_ok (db_tab (snd (in_tx (upsert_baseline i) m bs db)))" for m
    using assms upsert_baseline_ok by (rule in_tx_ok)
  then show "tables_ok (db_tab (snd (sqlite_MergeBaseline i bs db)))"
    using assms by (simp add: sqlite_MergeBaseline_def)
  have "tables_ok (db_tab (snd (in_tx insert_deviation m ds db)))" for m
    using assms insert_deviation_ok by (rule in_tx_ok)
  then show "tables_ok (db_tab (snd (sqlite_WriteDeviations ds db)))"
    using assms by (simp add: sqlite_WriteDeviations_def)
qed

lemma package_ops_ok:
  assumes "tables_ok (db_tab db)"
  shows "tables_ok (db_tab (snd (sqlite_AddWatchedPackage now p db)))"
    and "tables_ok (db_tab (snd (sqlite_RemoveWatchedPackage p db)))"
    and "tables_ok (db_tab (snd (sqlite_UpdatePackageCheck now p v db)))"
    and "tables_ok (db_tab (snd (sqlite_RecordRelease r db)))"
  unfolding sqlite_AddWatchedPackage_def sqlite_RemoveWatchedPackage_def
    sqlite_UpdatePackageCheck_def sqlite_RecordRelease_def must_affect_snd
  using assms by (auto intro!: stmt_ok update_packages_ok
      elim: insert_package_ok [rotated] delete_package_ok [rotated] add_release_ok [rotated] simp: insert_release_def)

lemma other_ops_ok:
  assumes "tables_ok (db_tab db)"
  shows "tables_ok (db_tab (snd (sqlite_DeleteDeviationsForRun i db)))"
    and "tables_ok (db_tab (snd (sqlite_PruneEvents c db)))"
    and "tables_ok (db_tab (snd (sqlite_AddAllowEntry now al db)))"
    and "tables_ok (db_tab (snd (sqlite_DeleteAllowEntry i db)))"
    and "tables_ok (db_tab (snd (sqlite_UpsertNotifier now nt db)))"
    and "tables_ok (db_tab (snd (sqlite_RecordNotification now nf db)))"
  unfolding sqlite_DeleteDeviationsForRun_def sqlite_PruneEvents_def sqlite_AddAllowEntry_def
    sqlite_DeleteAllowEntry_def sqlite_UpsertNotifier_def sqlite_RecordNotification_def wrap_err_snd
  using assms by (auto intro!: stmt_ok delete_deviations_ok delete_allow_ok
      elim: delete_events_ok [rotated] insert_allow_ok [rotated] upsert_notifier_ok [rotated]
        insert_notification_ok [rotated])

lemma DeleteNotifier_tab_ok:
  "tables_ok (db_tab db) \<Longrightarrow> tables_ok (db_tab (snd (sqlite_DeleteNotifier p db)))"
  unfolding sqlite_DeleteNotifier_def
  by (rule stmt_ok, assumption) (auto simp: delete_notifier_ok)

lemmas op_ok = CreateRun_tab_ok UpdateRunState_tab_ok RecordScanResult_tab_ok MarkRunBaseline_tab_ok
  in_tx_ops_ok package_ops_ok other_ops_ok DeleteNotifier_tab_ok ListPackages_tab

lemma sqlite_step_ok: "sqlite_step db db' \<Longrightarrow> tables_ok (db_tab db) \<Longrightarrow> tables_ok (db_tab db')"
  by (induction rule: sqlite_step.induct) (simp_all add: sqlite_Backend_def op_ok, simp_all add: read_ops Let_def)

inductive sqlite_reachable :: "sqlite \<Rightarrow> bool" where
  opened: "sqlite_reachable \<lparr>db_tab = empty_tables, db_faults = fs\<rparr>"
| stepped: "sqlite_reachable db \<Longrightarrow> sqlite_step db db' \<Longrightarrow> sqlite_reachable db'"

lemma sqlite_reachable_ok: "sqlite_reachable db \<Longrightarrow> tables_ok (db_tab db)"
  by (induction rule: sqlite_reachable.induct) (auto simp: empty_tables_ok intro: sqlite_step_ok)

end
