(* ===== verification/Sqlite_Store.thy ===== *)
theory Sqlite_Store
  imports Schema_View Sqlite_Inv
begin

text \<open>
  The SQLite backend keeps the differ's contract: the abstraction of its tables, the
  laws of each operation, and the interpretation of the contract.
\<close>

abbreviation sqlite_allow :: "allow_row list \<Rightarrow> AllowEntry list" where
  "sqlite_allow as \<equiv> map scanAllowEntry (order_by
     (\<lambda>r. (aw_scope r, NullString (aw_package_name r), aw_kind r, aw_value r)) as)"

abbreviation sqlite_view :: "tables \<Rightarrow> store_view" where
  "sqlite_view \<equiv> tables_view scanRun sqlite_allow"

lemma encodes_deviation [simp]: "encodes_dev encode_deviation"
  by (simp add: encodes_dev_def dev_cols_def dev_entry_def encode_deviation_def)

abbreviation sqlite_integ :: "sqlite \<Rightarrow> bool" where
  "sqlite_integ db \<equiv> tables_ok (db_tab db)"

section \<open>The operations of the differ\<close>

lemma MergeBaseline_outcome:
  assumes "tables_ok (db_tab db)" "sqlite_MergeBaseline i rows db = (res, db')"
  shows "case res of
      Inr u \<Rightarrow> tables_ok (db_tab db') \<and> (reliable db \<longrightarrow> reliable db') \<and> sqlite_view (db_tab db') =
        (sqlite_view (db_tab db))\<lparr>v_baseline := foldl (merge_entry i) (v_baseline (sqlite_view (db_tab db))) rows\<rparr>
    | Inl e \<Rightarrow> \<not> reliable db \<and> db_tab db' = db_tab db"
proof (cases "rows = []")
  case True
  then show ?thesis using assms by (auto simp: sqlite_MergeBaseline_def)
next
  case False
  have ok: "tables_ok (db_tab db')" using in_tx_ops_ok(2) [OF assms(1), of i rows] assms(2) by simp
  obtain t' where t': "fold_rows (upsert_baseline i) rows (db_tab db) = Inr t'" "sqlite_view t' =
      (sqlite_view (db_tab db))\<lparr>v_baseline := foldl (merge_entry i) (v_baseline (sqlite_view (db_tab db))) rows\<rparr>"
    using merge_rows_view by blast
  have tx: "in_tx (upsert_baseline i) (\<lambda>r. ''merge baseline '' @ bl_Category r @ ''/'' @ bl_Value r) rows db = (res, db')"
    using assms(2) False by (simp add: sqlite_MergeBaseline_def)
  have rel: "reliable db \<Longrightarrow> reliable db' \<and> res = Inr ()"
    using in_tx_keeps_reliable [OF _ tx] in_tx_reliable [OF _ t'(1)] tx by auto
  from tx show ?thesis
  proof (cases rule: in_tx_cases)
    case (err e)
    then show ?thesis using rel by auto
  next
    case ok
    then show ?thesis using t' rel \<open>tables_ok (db_tab db')\<close> by auto
  qed
qed

lemma insert_deviation_add: "insert_deviation = (\<lambda>t d. add_deviation (encode_deviation d) t)"
  by (simp add: insert_deviation_def fun_eq_iff)

lemma WriteDeviations_outcome:
  assumes "tables_ok (db_tab db)" "sqlite_WriteDeviations ds db = (res, db')"
  shows "case res of
      Inr u \<Rightarrow> tables_ok (db_tab db') \<and> (reliable db \<longrightarrow> reliable db') \<and> sqlite_view (db_tab db') =
        (sqlite_view (db_tab db))\<lparr>v_devs := (\<lambda>r. v_devs (sqlite_view (db_tab db)) r @ map dev_entry (filter (\<lambda>d. dv_RunID d = r) ds))\<rparr>
    | Inl e \<Rightarrow> (reliable db \<longrightarrow> reliable db' \<and> \<not> writable (sqlite_view (db_tab db)) ds) \<and> db_tab db' = db_tab db"
proof (cases "ds = []")
  case True
  then show ?thesis using assms by (auto simp: sqlite_WriteDeviations_def)
next
  case False
  have ok: "tables_ok (db_tab db')" using in_tx_ops_ok(3) [OF assms(1), of ds] assms(2) by simp
  have tx: "in_tx insert_deviation (\<lambda>_. ''insert deviation'') ds db = (res, db')"
    using assms(2) False by (simp add: sqlite_WriteDeviations_def)
  have rel: "reliable db \<Longrightarrow> reliable db'" using in_tx_keeps_reliable [OF _ tx] .
  have good: "res = Inr ()" if r: "reliable db" and w: "writable (sqlite_view (db_tab db)) ds"
  proof -
    obtain t' where "fold_rows insert_deviation ds (db_tab db) = Inr t'"
      using writable_add_all [OF encodes_deviation w] unfolding insert_deviation_add by blast
    then have "in_tx insert_deviation m ds db = (Inr (), db\<lparr>db_tab := t'\<rparr>)" for m
      by (rule in_tx_reliable [OF r])
    then show ?thesis using tx by simp
  qed
  from tx show ?thesis
  proof (cases rule: in_tx_cases)
    case (err e)
    then show ?thesis using rel good by auto
  next
    case ok
    then show ?thesis using add_deviations_view [OF encodes_deviation] rel insert_deviation_add \<open>tables_ok (db_tab db')\<close> by simp
  qed
qed

lemma DeleteDeviations_outcome:
  assumes "sqlite_DeleteDeviationsForRun i db = (res, db')"
  shows "(reliable db \<longrightarrow> reliable db') \<and> (case res of
      Inr u \<Rightarrow> sqlite_view (db_tab db') =
        (sqlite_view (db_tab db))\<lparr>v_devs := (v_devs (sqlite_view (db_tab db)))(i := [])\<rparr>
    | Inl e \<Rightarrow> \<not> reliable db \<and> db_tab db' = db_tab db)"
proof -
  have st: "stmt (\<lambda>t. Inr ((), t\<lparr>t_deviations := filter (\<lambda>d. de_run_id d \<noteq> i) (t_deviations t)\<rparr>)) db = (res, db')"
    using assms by (simp add: sqlite_DeleteDeviationsForRun_def)
  note view = delete_deviations_view [where scan = scanRun and al = sqlite_allow and t = "db_tab db" and i = i]
  have rel: "reliable db \<Longrightarrow> reliable db'" using stmt_keeps_reliable [OF _ st] .
  from st show ?thesis
  proof (cases rule: stmt_cases)
    case (ok x)
    then have "db_tab db' = (db_tab db)\<lparr>t_deviations := filter (\<lambda>d. de_run_id d \<noteq> i) (t_deviations (db_tab db))\<rparr>"
      by simp
    then show ?thesis using ok(2) rel view by simp
  qed (use rel in auto)
qed

lemma MarkRunBaseline_outcome:
  assumes "sqlite_MarkRunBaseline i b db = (res, db')"
  shows "(reliable db \<longrightarrow> reliable db') \<and> (case res of
      Inr u \<Rightarrow> (\<exists>r. v_run (sqlite_view (db_tab db)) i = Some r \<and> sqlite_view (db_tab db') =
        (sqlite_view (db_tab db))\<lparr>v_run := (v_run (sqlite_view (db_tab db)))(i \<mapsto> r\<lparr>run_IsBaseline := b\<rparr>)\<rparr>)
    | Inl e \<Rightarrow> (reliable db \<longrightarrow> v_run (sqlite_view (db_tab db)) i = None) \<and>
        sqlite_view (db_tab db') = sqlite_view (db_tab db))"
proof -
  let ?f = "\<lambda>r. r\<lparr>rn_is_baseline := (if b then 1 else 0)\<rparr>"
  obtain q db1 where q: "stmt (update_runs i ?f) db = (q, db1)" by fastforce
  then have db1: "db1 = db'" using assms by (auto simp: sqlite_MarkRunBaseline_def must_affect_def split: sum.splits)
  have rel: "reliable db \<longrightarrow> reliable db'" using stmt_keeps_reliable q db1 by auto
  have scan: "scanRun (?f z) = (scanRun z)\<lparr>run_IsBaseline := b\<rparr>" for z
    by (simp add: scanRun_def)
  from q show ?thesis
  proof (cases rule: stmt_cases)
    case fault
    then show ?thesis using assms q rel db1 by (auto simp: sqlite_MarkRunBaseline_def must_affect_def)
  next
    case (err e)
    then show ?thesis by (simp add: update_runs_def)
  next
    case (ok n)
    note u = update_runs_view [OF ok(1), where scan = scanRun and al = sqlite_allow]
    show ?thesis
    proof (cases "v_run (sqlite_view (db_tab db)) i")
      case None
      then have "sqlite_view (db_tab db1) = sqlite_view (db_tab db)"
        using u(1) by (auto simp: tables_view_def fun_eq_iff)
      then show ?thesis
        using None u(2) assms q ok rel db1 by (auto simp: sqlite_MarkRunBaseline_def must_affect_def)
    next
      case (Some r)
      then obtain z where z: "find (\<lambda>r. rn_id r = i) (t_runs (db_tab db)) = Some z" "r = scanRun z"
        by (auto simp: tables_view_def)
      then have "(\<lambda>j. if j = i then map_option (scanRun \<circ> ?f) (find (\<lambda>r. rn_id r = i) (t_runs (db_tab db)))
            else v_run (sqlite_view (db_tab db)) j) =
          (v_run (sqlite_view (db_tab db)))(i \<mapsto> r\<lparr>run_IsBaseline := b\<rparr>)"
        using scan [of z] by (cases b) (simp_all add: fun_eq_iff)
      then have "sqlite_view (db_tab db1) =
          (sqlite_view (db_tab db))\<lparr>v_run := (v_run (sqlite_view (db_tab db)))(i \<mapsto> r\<lparr>run_IsBaseline := b\<rparr>)\<rparr>"
        using u(1) by simp
      then show ?thesis
        using Some u(2) assms q ok rel db1 by (auto simp: sqlite_MarkRunBaseline_def must_affect_def)
    qed
  qed
qed

section \<open>The contract\<close>

interpretation sq: differ_store sqlite_Backend sqlite_integ reliable "\<lambda>db. sqlite_view (db_tab db)" "\<lambda>x. True" "\<lambda>n. True"
proof unfold_locales
  fix db db' :: sqlite and i :: string and res :: "err + Run"
  assume a: "sqlite_integ db" "be_GetRun sqlite_Backend i db = (res, db')"
  have q: "query_row (\<lambda>t. map_option scanRun (find (\<lambda>r. rn_id r = i) (t_runs t))) db = (res, db')"
    using a(2) by (simp add: sqlite_Backend_def sqlite_GetRun_def)
  show "kept sqlite_integ reliable (\<lambda>db. sqlite_view (db_tab db)) (sqlite_view (db_tab db)) db db' \<and>
      (case res of Inl e \<Rightarrow> reliable db \<longrightarrow> v_run (sqlite_view (db_tab db)) i = None
       | Inr r \<Rightarrow> v_run (sqlite_view (db_tab db)) i = Some r)"
    using query_row_outcome [OF q] a(1)
    by (auto simp: kept_def tables_view_def limit_rows_def split: sum.splits)
next
  fix db db' :: sqlite and i :: string and evs :: "err + EventRow list"
  assume a: "sqlite_integ db" "be_ListEventsByRun sqlite_Backend i 0 db = (evs, db')"
  have q: "query (\<lambda>t. limit_rows 10000 (order_by (\<lambda>e. (ev_TsNS e, ev_ID e)) (filter (\<lambda>e. ev_RunID e = i) (t_events t)))) db = (evs, db')"
    using a(2) by (simp add: sqlite_Backend_def sqlite_ListEventsByRun_def)
  show "kept sqlite_integ reliable (\<lambda>db. sqlite_view (db_tab db)) (sqlite_view (db_tab db)) db db' \<and>
      (case evs of Inl e \<Rightarrow> reliable db \<longrightarrow> \<not> True
       | Inr es \<Rightarrow> es = take 10000 (v_events (sqlite_view (db_tab db)) i))"
    using query_outcome [OF q] a(1)
    by (auto simp: kept_def tables_view_def limit_rows_def split: sum.splits)
next
  fix db db' :: sqlite and als :: "err + AllowEntry list"
  assume a: "sqlite_integ db" "be_ListAllowEntries sqlite_Backend db = (als, db')"
  have q: "query (\<lambda>t. map scanAllowEntry (order_by (\<lambda>r. (aw_scope r, NullString (aw_package_name r), aw_kind r, aw_value r)) (t_allowlists t))) db = (als, db')"
    using a(2) by (simp add: sqlite_Backend_def sqlite_ListAllowEntries_def)
  show "kept sqlite_integ reliable (\<lambda>db. sqlite_view (db_tab db)) (sqlite_view (db_tab db)) db db' \<and>
      (case als of Inl e \<Rightarrow> \<not> reliable db | Inr es \<Rightarrow> es = v_allow (sqlite_view (db_tab db)))"
    using query_outcome [OF q] a(1)
    by (auto simp: kept_def tables_view_def limit_rows_def split: sum.splits)
next
  fix db db' :: sqlite and pkg :: string and bls :: "err + BaselineRow list"
  assume a: "sqlite_integ db" "be_LoadBaseline sqlite_Backend pkg db = (bls, db')"
  have q: "query (\<lambda>t. filter (\<lambda>b. bl_PackageName b = pkg) (t_baseline t)) db = (bls, db')"
    using a(2) by (simp add: sqlite_Backend_def sqlite_LoadBaseline_def)
  show "kept sqlite_integ reliable (\<lambda>db. sqlite_view (db_tab db)) (sqlite_view (db_tab db)) db db' \<and>
      (case bls of Inl e \<Rightarrow> reliable db \<longrightarrow> \<not> True | Inr bs \<Rightarrow> baseline_listed (sqlite_view (db_tab db)) pkg bs)"
    using query_outcome [OF q] a(1) LoadBaseline_listed
    by (auto simp: kept_def split: sum.splits)
next
  fix db db' :: sqlite and i :: string and rows :: "BaselineRow list" and ures :: "err + unit"
  assume a: "sqlite_integ db" "be_MergeBaseline sqlite_Backend i rows db = (ures, db')"
  show "case ures of
      Inl e \<Rightarrow> (reliable db \<longrightarrow> \<not> mergeable (\<lambda>x. True) (\<lambda>n. True) i (v_baseline (sqlite_view (db_tab db))) rows) \<and> kept sqlite_integ reliable (\<lambda>db. sqlite_view (db_tab db)) (sqlite_view (db_tab db)) db db'
    | Inr u \<Rightarrow> kept sqlite_integ reliable (\<lambda>db. sqlite_view (db_tab db))
        ((sqlite_view (db_tab db))\<lparr>v_baseline := foldl (merge_entry i) (v_baseline (sqlite_view (db_tab db))) rows\<rparr>) db db'"
    using MergeBaseline_outcome [OF a(1), of i rows ures db'] a
    by (auto simp: sqlite_Backend_def kept_def split: sum.splits)
next
  fix db db' :: sqlite and i :: string and b :: bool and ures :: "err + unit"
  assume a: "sqlite_integ db" "be_MarkRunBaseline sqlite_Backend i b db = (ures, db')"
  then have "sqlite_integ db'"
    using MarkRunBaseline_tab_ok [OF a(1), of i b] by (simp add: sqlite_Backend_def)
  then show "case ures of
      Inl e \<Rightarrow> (reliable db \<longrightarrow> v_run (sqlite_view (db_tab db)) i = None) \<and>
        kept sqlite_integ reliable (\<lambda>db. sqlite_view (db_tab db)) (sqlite_view (db_tab db)) db db'
    | Inr u \<Rightarrow> \<exists>r. v_run (sqlite_view (db_tab db)) i = Some r \<and>
        kept sqlite_integ reliable (\<lambda>db. sqlite_view (db_tab db))
         ((sqlite_view (db_tab db))\<lparr>v_run := (v_run (sqlite_view (db_tab db)))(i \<mapsto> r\<lparr>run_IsBaseline := b\<rparr>)\<rparr>) db db'"
    using MarkRunBaseline_outcome [of i b db ures db'] a
    by (auto simp: sqlite_Backend_def kept_def split: sum.splits)
next
  fix db db' :: sqlite and i :: string and ures :: "err + unit"
  assume a: "sqlite_integ db" "be_DeleteDeviationsForRun sqlite_Backend i db = (ures, db')"
  then have "sqlite_integ db'"
    using other_ops_ok(1) [OF a(1), of i] by (simp add: sqlite_Backend_def)
  then show "case ures of
      Inl e \<Rightarrow> (reliable db \<longrightarrow> \<not> True) \<and> kept sqlite_integ reliable (\<lambda>db. sqlite_view (db_tab db)) (sqlite_view (db_tab db)) db db'
    | Inr u \<Rightarrow> kept sqlite_integ reliable (\<lambda>db. sqlite_view (db_tab db))
        ((sqlite_view (db_tab db))\<lparr>v_devs := (v_devs (sqlite_view (db_tab db)))(i := [])\<rparr>) db db'"
    using DeleteDeviations_outcome [of i db ures db'] a
    by (auto simp: sqlite_Backend_def kept_def split: sum.splits)
next
  fix db db' :: sqlite and ds :: "DeviationRow list" and ures :: "err + unit"
  assume a: "sqlite_integ db" "be_WriteDeviations sqlite_Backend ds db = (ures, db')"
  show "case ures of
      Inl e \<Rightarrow> (reliable db \<longrightarrow> \<not> (writable (sqlite_view (db_tab db)) ds \<and> (\<forall>d\<in>set ds. dev_admitted (\<lambda>x. True) d))) \<and>
        kept sqlite_integ reliable (\<lambda>db. sqlite_view (db_tab db)) (sqlite_view (db_tab db)) db db'
    | Inr u \<Rightarrow> kept sqlite_integ reliable (\<lambda>db. sqlite_view (db_tab db))
        ((sqlite_view (db_tab db))\<lparr>v_devs := (\<lambda>r. v_devs (sqlite_view (db_tab db)) r @ map dev_entry (filter (\<lambda>d. dv_RunID d = r) ds))\<rparr>) db db'"
    using WriteDeviations_outcome [OF a(1), of ds ures db'] a
    by (auto simp: sqlite_Backend_def kept_def split: sum.splits)
qed simp_all

end
