(* ===== verification/Differ_Demo.thy ===== *)
theory Differ_Demo
  imports Sqlite_Store
begin

text \<open>
  A small SQLite database: two runs of one package, three DNS events, and the package's
  baseline as a parameter; its analysis evaluated. The properties of the differ are
  instantiated on it.
\<close>

definition demo_run :: "string \<Rightarrow> run_row" where
  "demo_run i = \<lparr>rn_id = i, rn_package_name = ''left-pad'', rn_version = ''1.0.0'', rn_tarball_sha256 = [],
     rn_lockfile_sha256 = [], rn_node_version = [], rn_npm_version = [], rn_state = ''done'', rn_attempt = 1,
     rn_is_baseline = 0, rn_started_at = None, rn_finished_at = None, rn_failure_reason = [],
     rn_events_emitted = 0, rn_events_dropped = 0, rn_duration_ns = 0\<rparr>"

definition demo_event :: "int \<Rightarrow> string \<Rightarrow> string \<Rightarrow> EventRow" where
  "demo_event n i q = \<lparr>ev_ID = n, ev_RunID = i, ev_TsNS = n, ev_Type = ''dns_query'',
     ev_Data = Some (JObj [(''QName'', JStr q)])\<rparr>"

definition demo_tables :: "BaselineRow list \<Rightarrow> tables" where
  "demo_tables bs = empty_tables\<lparr>t_runs := [demo_run ''r1'', demo_run ''r2''], t_seq := 3,
     t_events := [demo_event 1 ''r1'' ''npm.org'', demo_event 2 ''r2'' ''npm.org'', demo_event 3 ''r2'' ''evil.org''],
     t_baseline := bs\<rparr>"

definition demo_row :: BaselineRow where
  "demo_row = \<lparr>bl_PackageName = ''left-pad'', bl_Category = CatNetDNS, bl_Value = ''npm.org'',
     bl_FirstSeenRunID = ''r1'', bl_LastSeenRunID = ''r1'', bl_OccurrenceCount = 1\<rparr>"

abbreviation demo_ids :: "nat \<Rightarrow> string" where "demo_ids j \<equiv> replicate (Suc j) CHR ''a''"

lemma demo_ok: "tables_ok (demo_tables [])" "tables_ok (demo_tables [demo_row])"
  by (code_simp, code_simp)

lemma demo_run_view: "v_run (sqlite_view (demo_tables bs)) ''r2'' = Some (scanRun (demo_run ''r2''))"
  by (simp add: tables_view_def demo_tables_def demo_run_def)

lemma demo_run_pkg: "run_PackageName (scanRun (demo_run i)) = ''left-pad''"
  by (simp add: scanRun_def demo_run_def)

lemma demo_events: "v_events (sqlite_view (demo_tables bs)) ''r2'' = [demo_event 2 ''r2'' ''npm.org'', demo_event 3 ''r2'' ''evil.org'']"
  by (simp add: tables_view_def demo_tables_def demo_event_def order_by_def)

lemma demo_contribution:
  "contribution f (demo_event n i ''npm.org'') = Some (CatNetDNS, ''npm.org'')"
  "contribution f (demo_event n i ''evil.org'') = Some (CatNetDNS, ''evil.org'')"
proof -
  have "NormalizeDNS ''npm.org'' = ''npm.org''" "NormalizeDNS ''evil.org'' = ''evil.org''"
    by (code_simp, code_simp)
  moreover have "string_field ''QName'' (JObj [(''QName'', JStr q)]) = Some q" for q
    by (simp add: string_field_def EqualFold_def)
  ultimately show "contribution f (demo_event n i ''npm.org'') = Some (CatNetDNS, ''npm.org'')"
  "contribution f (demo_event n i ''evil.org'') = Some (CatNetDNS, ''evil.org'')"
    by (simp_all add: contribution_def demo_event_def)
qed

lemma demo_fps: "run_fps (sqlite_view (demo_tables bs)) al pkg ''r2'' =
   [\<lparr>fp_Category = CatNetDNS, fp_Value = ''npm.org'', fp_Count = 1, fp_FirstEvtID = 2\<rparr>,
    \<lparr>fp_Category = CatNetDNS, fp_Value = ''evil.org'', fp_Count = 1, fp_FirstEvtID = 3\<rparr>]"
  by (simp add: run_fps_def demo_events fingerprints_spec_def List.map_filter_simps demo_contribution
      summary_fp_def contributors_def) (simp add: demo_event_def)

lemma demo_no_baseline: "\<not> has_baseline (sqlite_view (demo_tables [])) pkg" "clean_baseline (sqlite_view (demo_tables []))"
  by (simp_all add: has_baseline_def clean_baseline_def tables_view_def demo_tables_def)

lemma demo_baseline:
  "v_baseline (sqlite_view (demo_tables [demo_row])) =
     [(''left-pad'', CatNetDNS, ''npm.org'') \<mapsto> (''r1'', ''r1'', 1)]"
  by (simp add: fun_eq_iff tables_view_def demo_tables_def demo_row_def row_key_def bl_cols_def)

lemma demo_has_baseline: "has_baseline (sqlite_view (demo_tables [demo_row])) ''left-pad''"
  "clean_baseline (sqlite_view (demo_tables [demo_row]))"
  by (auto simp: has_baseline_def clean_baseline_def demo_baseline AllCategories_def split: if_splits)

lemma demo_ids: "inj demo_ids" "\<forall>j s. demo_ids j \<notin> fst ` set (v_devs (sqlite_view (demo_tables bs)) s)"
  by (auto simp: inj_def tables_view_def demo_tables_def empty_tables_def)

lemma permuting_id: "permuting (\<lambda>b. b)"
  by (simp add: permuting_def)

lemma demo_novel:
  "novel_fps (sqlite_view (demo_tables [demo_row])) al ''left-pad'' ''r2'' =
    [\<lparr>fp_Category = CatNetDNS, fp_Value = ''evil.org'', fp_Count = 1, fp_FirstEvtID = 3\<rparr>]"
  by (simp add: novel_fps_def demo_fps known_fp_def demo_baseline)

abbreviation demo_db :: "BaselineRow list \<Rightarrow> sqlite" where
  "demo_db bs \<equiv> \<lparr>db_tab = demo_tables bs, db_faults = []\<rparr>"

abbreviation demo_analysis :: "BaselineRow list \<Rightarrow> (err + int) \<times> sqlite \<times> nat" where
  "demo_analysis bs \<equiv> AnalyzeRun sqlite_Backend (\<lambda>b. b) demo_ids (\<lambda>j. 0) (\<lambda>ds n. n + length ds) ''r2''
      (demo_db bs, 0)"

lemmas demo_facts = demo_ok demo_run_view demo_run_pkg demo_has_baseline demo_no_baseline permuting_id demo_ids

lemma demo_db_facts:
  "tables_ok (db_tab (demo_db []))" "tables_ok (db_tab (demo_db [demo_row]))" "reliable (demo_db bs)"
  "v_run (sqlite_view (db_tab (demo_db bs))) ''r2'' = Some (scanRun (demo_run ''r2''))" "''left-pad'' \<noteq> []"
  "has_baseline (sqlite_view (db_tab (demo_db [demo_row]))) ''left-pad''"
  "clean_baseline (sqlite_view (db_tab (demo_db [demo_row])))"
  "\<not> has_baseline (sqlite_view (db_tab (demo_db []))) ''left-pad''"
  "clean_baseline (sqlite_view (db_tab (demo_db [])))"
  "\<forall>j s. demo_ids j \<notin> fst ` set (v_devs (sqlite_view (db_tab (demo_db bs))) s)"
  using demo_facts by simp_all

lemma demo_extract:
  "ExtractFingerprintsWith (\<lambda>b. b) [demo_event 2 ''r2'' ''npm.org'', demo_event 3 ''r2'' ''evil.org''] f =
   [\<lparr>fp_Category = CatNetDNS, fp_Value = ''npm.org'', fp_Count = 1, fp_FirstEvtID = 2\<rparr>,
    \<lparr>fp_Category = CatNetDNS, fp_Value = ''evil.org'', fp_Count = 1, fp_FirstEvtID = 3\<rparr>]"
  by (simp add: ExtractFingerprintsWith_def extract_event_contribution demo_contribution addUnique_def key_of_def)
     (simp add: demo_event_def)

lemma demo_list_events:
  "limit_rows 10000 (order_by (\<lambda>e. (ev_TsNS e, ev_ID e)) (filter (\<lambda>e. ev_RunID e = ''r2'') (t_events (demo_tables bs)))) =
    [demo_event 2 ''r2'' ''npm.org'', demo_event 3 ''r2'' ''evil.org'']"
  using demo_events [of bs] by (simp add: tables_view_def limit_rows_def)


lemma demo_reads:
  "sqlite_GetRun ''r2'' (demo_db bs) = (Inr (scanRun (demo_run ''r2'')), demo_db bs)"
  "sqlite_ListEventsByRun ''r2'' 0 (demo_db bs) =
     (Inr [demo_event 2 ''r2'' ''npm.org'', demo_event 3 ''r2'' ''evil.org''], demo_db bs)"
  "sqlite_ListAllowEntries (demo_db bs) = (Inr [], demo_db bs)"
  "sqlite_LoadBaseline ''left-pad'' (demo_db []) = (Inr [], demo_db [])"
  "sqlite_LoadBaseline ''left-pad'' (demo_db [demo_row]) = (Inr [demo_row], demo_db [demo_row])"
proof -
  show "sqlite_GetRun ''r2'' (demo_db bs) = (Inr (scanRun (demo_run ''r2'')), demo_db bs)"
    by (simp add: sqlite_GetRun_def demo_tables_def demo_run_def)
  show "sqlite_ListEventsByRun ''r2'' 0 (demo_db bs) =
     (Inr [demo_event 2 ''r2'' ''npm.org'', demo_event 3 ''r2'' ''evil.org''], demo_db bs)"
    by (simp add: sqlite_ListEventsByRun_def demo_list_events)
qed (simp_all add: sqlite_ListAllowEntries_def sqlite_LoadBaseline_def demo_tables_def empty_tables_def
     demo_row_def order_by_def)

lemmas demo_writes = diffRun_def seedBaseline_def key_of_def Fingerprint_Key_def demo_row_def
  deviation_row_of_def baseline_row_def sqlite_DeleteDeviationsForRun_def stmt_def sqlite_WriteDeviations_def
  in_tx_def insert_deviation_def add_deviation_def encode_deviation_def sqlite_MergeBaseline_def upsert_baseline_def fill_baseline_row_def
  sqlite_MarkRunBaseline_def must_affect_def update_runs_def affected_def

lemma demo_analyzed:
  "\<exists>t. demo_analysis [demo_row] = (Inr 1, \<lparr>db_tab = t, db_faults = []\<rparr>, 1) \<and>
     map de_id (t_deviations t) = [''aa'']"
  by (simp add: AnalyzeRun_def demo_reads demo_run_pkg demo_extract Let_def)
     (simp add: demo_writes Let_def demo_tables_def empty_tables_def demo_run_def demo_event_def)

lemma demo_seeded:
  "\<exists>t. demo_analysis [] = (Inr 0, \<lparr>db_tab = t, db_faults = []\<rparr>, 0) \<and> t_deviations t = []"
  by (simp add: AnalyzeRun_def demo_reads demo_run_pkg demo_extract Let_def)
     (simp add: demo_writes Let_def demo_tables_def empty_tables_def demo_run_def demo_event_def)

lemma fresh_ids:
  "\<forall>d\<in>set (t_deviations t). CHR ''b'' \<notin> set (de_id d) \<Longrightarrow>
   \<forall>j s. replicate (Suc j) CHR ''b'' \<notin> fst ` set (v_devs (sqlite_view t) s)"
  by (auto simp: tables_view_def dev_cols_def) (metis list.set_intros(1))

lemma inj_b: "inj (\<lambda>j. replicate (Suc j) CHR ''b'')"
  by (auto simp: inj_def)

end
