(* ===== verification/Differ_Props.thy ===== *)
theory Differ_Props
  imports Differ_Demo
begin

text \<open>
  The properties of the differ on the SQLite backend: what one analysis writes, what a
  second one changes, what the first run of a package establishes, and what is left
  alone when the engine fails.
\<close>

lemma diff_view_devs [simp]: "v_devs (diff_view v i pkg r fps ds) = (v_devs v)(i := ds)"
  by (simp add: diff_view_def)

lemma diff_view_baseline:
  "v_baseline (diff_view v i pkg r fps ds) k = None \<longleftrightarrow> v_baseline v k = None"
  by (auto simp: diff_view_def merged_baseline_dom known_fp_def)

lemma diff_view_known: "known_fp (diff_view v i pkg r fps ds) pkg fp \<longleftrightarrow> known_fp v pkg fp"
  by (simp only: known_fp_def diff_view_baseline)

lemma diff_view_novel:
  "novel_fps (diff_view v i pkg r fps ds) (v_allow (diff_view v i pkg r fps ds)) pkg i = novel_fps v (v_allow v) pkg i"
  by (simp add: novel_fps_def diff_view_known) (simp add: run_fps_def diff_view_def)

lemma diff_view_has_baseline: "has_baseline v pkg \<Longrightarrow> has_baseline (diff_view v i pkg r fps ds) pkg"
  by (simp only: has_baseline_def diff_view_baseline)

lemma diff_view_clean: "clean_baseline v \<Longrightarrow> clean_baseline (diff_view v i pkg r fps ds)"
  by (simp only: clean_baseline_def diff_view_baseline)

lemma diff_view_run:
  "v_run v i = Some r \<Longrightarrow> run_PackageName r = pkg \<Longrightarrow>
   \<exists>r'. v_run (diff_view v i pkg r fps ds) i = Some r' \<and> run_PackageName r' = pkg"
  by (simp add: diff_view_def)

text \<open>
  C2. The analysis of a later run of a package, on a SQLite database whose engine does
  not fail, returns the number of fingerprints of the run that the package's baseline
  does not know. Afterwards the run's deviations are exactly these fingerprints, each
  with the first event that shows it and the severity of its category, in place of any
  earlier ones; the fingerprints the baseline knows are counted once more and no other
  key appears in it; the run is promoted exactly when there is no deviation; the
  deviations, runs, events and allowlist entries besides are unchanged. This holds
  for every order in which the Go map is ranged over.
\<close>

theorem AnalyzeRun_exact:
  assumes "tables_ok (db_tab db)" "reliable db"
    and "v_run (sqlite_view (db_tab db)) i = Some r" "run_PackageName r = pkg" "pkg \<noteq> []"
    and "has_baseline (sqlite_view (db_tab db)) pkg" "clean_baseline (sqlite_view (db_tab db))"
    and "permuting ord" "inj newID" "\<forall>j s. newID j \<notin> fst ` set (v_devs (sqlite_view (db_tab db)) s)"
  defines "v \<equiv> sqlite_view (db_tab db)"
  shows "\<exists>db' m' ds. AnalyzeRun sqlite_Backend ord newID now sink i (db, m) =
      (Inr (int (length (novel_fps v (v_allow v) pkg i))), db', m') \<and>
    mset (map snd ds) = mset (map dev_of_fp (novel_fps v (v_allow v) pkg i)) \<and>
    sqlite_view (db_tab db') = v\<lparr>
      v_devs := (v_devs v)(i := ds),
      v_baseline := merged_baseline i pkg (\<lambda>fp. 1) (filter (known_fp v pkg) (run_fps v (v_allow v) pkg i)) (v_baseline v),
      v_run := (if novel_fps v (v_allow v) pkg i = [] then (v_run v)(i \<mapsto> r\<lparr>run_IsBaseline := True\<rparr>) else v_run v)\<rparr>"
  using sq.AnalyzeRun_later [OF assms(1-10) allI [OF TrueI] unrestricted(2), of now sink m]
  by (auto simp: v_def diff_view_def novel_fps_def)

theorem AnalyzeRun_exact_witness:
  "\<exists>db' m' ds. demo_analysis [demo_row] = (Inr 1, db', m') \<and>
    mset (map snd ds) = {#(CatNetDNS, ''evil.org'', 3, SevWarn)#} \<and>
    v_devs (sqlite_view (db_tab db')) ''r2'' = ds"
  using AnalyzeRun_exact [OF demo_db_facts(2,3,4) demo_run_pkg demo_db_facts(5,6,7) permuting_id demo_ids(1) demo_db_facts(10),
      of "\<lambda>j. 0" "\<lambda>ds n. n + length ds" 0]
  by (auto simp: demo_novel dev_of_fp_def defaultSeverity_def)

text \<open>
  The first analysed run of a package (no baseline row yet) reports no deviation: its
  fingerprints become the package's baseline with their occurrence counts, and the run is
  marked as a baseline run; nothing else changes.
\<close>

theorem AnalyzeRun_first_run:
  assumes "tables_ok (db_tab db)" "reliable db"
    and "v_run (sqlite_view (db_tab db)) i = Some r" "run_PackageName r = pkg" "pkg \<noteq> []"
    and "\<not> has_baseline (sqlite_view (db_tab db)) pkg" "permuting ord"
  defines "v \<equiv> sqlite_view (db_tab db)"
  shows "\<exists>db'. AnalyzeRun sqlite_Backend ord newID now sink i (db, m) = (Inr 0, db', m) \<and>
    sqlite_view (db_tab db') = v\<lparr>
      v_baseline := merged_baseline i pkg fp_Count (run_fps v (v_allow v) pkg i) (v_baseline v),
      v_run := (v_run v)(i \<mapsto> r\<lparr>run_IsBaseline := True\<rparr>)\<rparr>"
  using sq.AnalyzeRun_first [OF assms(1-7) unrestricted(1), of newID now sink m] unfolding v_def by blast

theorem AnalyzeRun_first_run_witness:
  "\<exists>db'. demo_analysis [] = (Inr 0, db', 0) \<and>
     v_baseline (sqlite_view (db_tab db')) (''left-pad'', CatNetDNS, ''evil.org'') = Some (''r2'', ''r2'', 1)"
  using AnalyzeRun_first_run [OF demo_db_facts(1,3,4) demo_run_pkg demo_db_facts(5,8) permuting_id,
      of demo_ids "\<lambda>j. 0" "\<lambda>ds n. n + length ds" 0]
proof (elim exE conjE)
  fix db' assume a: "demo_analysis [] = (Inr 0, db', 0)" "sqlite_view (db_tab db') = (sqlite_view (db_tab (demo_db [])))\<lparr>
      v_baseline := merged_baseline ''r2'' ''left-pad'' fp_Count (run_fps (sqlite_view (db_tab (demo_db [])))
        (v_allow (sqlite_view (db_tab (demo_db [])))) ''left-pad'' ''r2'') (v_baseline (sqlite_view (db_tab (demo_db [])))),
      v_run := (v_run (sqlite_view (db_tab (demo_db []))))(''r2'' \<mapsto> (scanRun (demo_run ''r2''))\<lparr>run_IsBaseline := True\<rparr>)\<rparr>"
  have "v_baseline (sqlite_view (demo_tables [])) k = None" for k
    by (simp add: tables_view_def demo_tables_def)
  then have "v_baseline (sqlite_view (db_tab db')) (''left-pad'', CatNetDNS, ''evil.org'') = Some (''r2'', ''r2'', 1)"
    by (simp add: a(2) demo_fps merged_baseline_def merged_entry_def baseline_row_def)
  with a(1) show ?thesis by blast
qed

text \<open>
  Analysing the same run again does not stack deviations: the second analysis, with
  other ids, another clock and another map order, returns the same count and leaves the
  same deviations (category, value, evidence, severity) as the first.
\<close>

theorem AnalyzeRun_again:
  assumes "tables_ok (db_tab db)" "reliable db"
    and "v_run (sqlite_view (db_tab db)) i = Some r" "run_PackageName r = pkg" "pkg \<noteq> []"
    and "has_baseline (sqlite_view (db_tab db)) pkg" "clean_baseline (sqlite_view (db_tab db))"
    and "permuting ord" "inj newID" "\<forall>j s. newID j \<notin> fst ` set (v_devs (sqlite_view (db_tab db)) s)"
    and first: "AnalyzeRun sqlite_Backend ord newID now sink i (db, m) = (Inr n, db1, m1)"
    and "permuting ord2" "inj newID2" "\<forall>j s. newID2 j \<notin> fst ` set (v_devs (sqlite_view (db_tab db1)) s)"
  shows "\<exists>db2 m2. AnalyzeRun sqlite_Backend ord2 newID2 now2 sink i (db1, m1) = (Inr n, db2, m2) \<and>
    mset (map snd (v_devs (sqlite_view (db_tab db2)) i)) = mset (map snd (v_devs (sqlite_view (db_tab db1)) i)) \<and>
    v_run (sqlite_view (db_tab db2)) = v_run (sqlite_view (db_tab db1))"
proof -
  let ?v = "sqlite_view (db_tab db)"
  let ?fps = "run_fps ?v (v_allow ?v) pkg i"
  obtain ds where 1: "tables_ok (db_tab db1)" "reliable db1" "n = int (length (novel_fps ?v (v_allow ?v) pkg i))"
    "mset (map snd ds) = mset (map dev_of_fp (novel_fps ?v (v_allow ?v) pkg i))"
    "sqlite_view (db_tab db1) = diff_view ?v i pkg r ?fps ds"
    using sq.AnalyzeRun_later [OF assms(1-10) allI [OF TrueI] unrestricted(2), of now sink m] first by auto
  let ?v1 = "diff_view ?v i pkg r ?fps ds"
  obtain r1 where r1: "v_run ?v1 i = Some r1" "run_PackageName r1 = pkg"
    using diff_view_run assms(3,4) by blast
  have clean: "clean_baseline ?v1"
    using diff_view_clean [OF assms(7)] .
  have base: "has_baseline ?v1 pkg" using diff_view_has_baseline [OF assms(6)] .
  obtain db2 m2 ds2 where 2: "AnalyzeRun sqlite_Backend ord2 newID2 now2 sink i (db1, m1) =
      (Inr (int (length (novel_fps ?v1 (v_allow ?v1) pkg i))), db2, m2)"
    "mset (map snd ds2) = mset (map dev_of_fp (novel_fps ?v1 (v_allow ?v1) pkg i))"
    "sqlite_view (db_tab db2) = diff_view ?v1 i pkg r1 (run_fps ?v1 (v_allow ?v1) pkg i) ds2"
    using sq.AnalyzeRun_later [OF 1(1,2) _ _ _ _ _ _ _ _ allI [OF TrueI] unrestricted(2), of i r1 pkg ord2 newID2 now2 sink m1] r1 assms(5,12-14) base clean
    unfolding 1(5) by blast
  have "v_run (sqlite_view (db_tab db2)) = v_run ?v1"
  proof (cases "novel_fps ?v (v_allow ?v) pkg i = []")
    case True
    then have "r1 = r\<lparr>run_IsBaseline := True\<rparr>"
      using r1(1) assms(3) by (simp add: diff_view_def novel_fps_def)
    then have "v_run ?v1 = (v_run ?v1)(i \<mapsto> r1\<lparr>run_IsBaseline := True\<rparr>)"
      using r1(1) by (auto simp: fun_eq_iff)
    then show ?thesis
      using True diff_view_novel [of ?v i pkg r ?fps ds]
      by (simp add: 2(3) diff_view_def [of ?v1] novel_fps_def [of ?v1])
  next
    case False
    then show ?thesis
      using diff_view_novel [of ?v i pkg r ?fps ds]
      by (simp add: 2(3) diff_view_def [of ?v1] novel_fps_def [of ?v1])
  qed
  then show ?thesis
    using 2 1(3,4,5) diff_view_novel [of ?v i pkg r ?fps ds]
    by (intro exI [of _ db2] exI [of _ m2]) simp
qed

theorem AnalyzeRun_again_witness:
  "\<exists>db1 m1 db2 m2. demo_analysis [demo_row] = (Inr 1, db1, m1) \<and>
    AnalyzeRun sqlite_Backend rev (\<lambda>j. replicate (Suc j) CHR ''b'') (\<lambda>j. 7) (\<lambda>ds n. n + length ds) ''r2'' (db1, m1) =
      (Inr 1, db2, m2) \<and>
    mset (map snd (v_devs (sqlite_view (db_tab db2)) ''r2'')) = mset (map snd (v_devs (sqlite_view (db_tab db1)) ''r2''))"
proof -
  obtain t where t: "demo_analysis [demo_row] = (Inr 1, \<lparr>db_tab = t, db_faults = []\<rparr>, 1)" "map de_id (t_deviations t) = [''aa'']"
    using demo_analyzed by (elim exE conjE) (rule that)
  have "CHR ''b'' \<notin> set x" if "x \<in> set (map de_id (t_deviations t))" for x
    using that unfolding t(2) by simp
  then have "\<forall>d\<in>set (t_deviations t). CHR ''b'' \<notin> set (de_id d)" by simp
  then have "\<forall>j s. replicate (Suc j) CHR ''b'' \<notin> fst ` set (v_devs (sqlite_view (db_tab \<lparr>db_tab = t, db_faults = []\<rparr>)) s)"
    using fresh_ids by simp
  note w = AnalyzeRun_again [OF demo_db_facts(2,3,4) demo_run_pkg demo_db_facts(5,6,7) permuting_id demo_ids(1)
      demo_db_facts(10) t(1) _ inj_b this, of rev "\<lambda>j. 7"]
  have "permuting rev" by (simp add: permuting_def)
  from w [OF this] t(1) show ?thesis by (metis (no_types, lifting))
qed

text \<open>
  C14. Whatever fails: an analysis, finished or cut short by engine errors at any point,
  keeps the integrity of the database, never touches events, allowlist entries, other
  runs, other runs' deviations or other packages' baselines, never removes a baseline
  key, and adds baseline keys only when the package had none.
\<close>

theorem AnalyzeRun_contained:
  assumes "tables_ok (db_tab db)" "clean_baseline (sqlite_view (db_tab db))" "permuting ord"
    and "\<And>r. v_run (sqlite_view (db_tab db)) i = Some r \<Longrightarrow> run_PackageName r = pkg"
    and "AnalyzeRun sqlite_Backend ord newID now sink i (db, m) = (res, db', m')"
  shows "tables_ok (db_tab db') \<and>
    scoped i pkg (if has_baseline (sqlite_view (db_tab db)) pkg then {} else {k. fst k = pkg})
      (sqlite_view (db_tab db)) (sqlite_view (db_tab db'))"
  using sq.AnalyzeRun_scoped [OF assms(1-3) _ assms(5)] assms(4) by blast

theorem AnalyzeRun_contained_witness:
  "\<exists>res db' m'. AnalyzeRun sqlite_Backend (\<lambda>b. b) demo_ids (\<lambda>j. 0) (\<lambda>ds n. n + length ds) ''r2''
      (\<lparr>db_tab = demo_tables [demo_row], db_faults = [False, False, True, False, False, True]\<rparr>, 0 :: nat) = (res, db', m') \<and>
    tables_ok (db_tab db') \<and>
    scoped ''r2'' ''left-pad'' {} (sqlite_view (demo_tables [demo_row])) (sqlite_view (db_tab db'))"
proof -
  let ?db = "\<lparr>db_tab = demo_tables [demo_row], db_faults = [False, False, True, False, False, True]\<rparr>"
  obtain res db' m' where out: "AnalyzeRun sqlite_Backend (\<lambda>b. b) demo_ids (\<lambda>j. 0) (\<lambda>ds n. n + length ds) ''r2'' (?db, 0 :: nat) =
      (res, db', m')" by (metis prod_cases3)
  then show ?thesis
    using AnalyzeRun_contained [of ?db "\<lambda>b. b" "''r2''" "''left-pad''", OF _ _ permuting_id _ out] demo_facts by auto
qed

text \<open>
  A run whose fingerprints seeded the baseline shows no deviation when it is analysed
  again: the second analysis, now against the seeded baseline, returns 0 and leaves no
  deviation for the run.
\<close>

theorem AnalyzeRun_seed_again:
  assumes "tables_ok (db_tab db)" "reliable db"
    and "v_run (sqlite_view (db_tab db)) i = Some r" "run_PackageName r = pkg" "pkg \<noteq> []"
    and "\<not> has_baseline (sqlite_view (db_tab db)) pkg" "permuting ord"
    and "clean_baseline (sqlite_view (db_tab db))"
    and some: "run_fps (sqlite_view (db_tab db)) (v_allow (sqlite_view (db_tab db))) pkg i \<noteq> []"
    and first: "AnalyzeRun sqlite_Backend ord newID now sink i (db, m) = (Inr n, db1, m1)"
    and "permuting ord2" "inj newID2" "\<forall>j s. newID2 j \<notin> fst ` set (v_devs (sqlite_view (db_tab db1)) s)"
  shows "\<exists>db2 m2. AnalyzeRun sqlite_Backend ord2 newID2 now2 sink i (db1, m1) = (Inr 0, db2, m2) \<and>
    v_devs (sqlite_view (db_tab db2)) i = []"
proof -
  let ?v = "sqlite_view (db_tab db)"
  let ?fps = "run_fps ?v (v_allow ?v) pkg i"
  let ?b1 = "merged_baseline i pkg fp_Count ?fps (v_baseline ?v)"
  let ?v1 = "?v\<lparr>v_baseline := ?b1, v_run := (v_run ?v)(i \<mapsto> r\<lparr>run_IsBaseline := True\<rparr>)\<rparr>"
  have 1: "tables_ok (db_tab db1)" "reliable db1" "sqlite_view (db_tab db1) = ?v1"
    using sq.AnalyzeRun_first [OF assms(1-7) unrestricted(1), of newID now sink m] first by auto
  have fps1: "run_fps ?v1 (v_allow ?v1) pkg i = ?fps" by (simp add: run_fps_def)
  have known: "known_fp ?v1 pkg fp" if "fp \<in> set ?fps" for fp
    using that by (auto simp: known_fp_def merged_baseline_dom simp del: not_None_eq)
  then have none: "novel_fps ?v1 (v_allow ?v1) pkg i = []"
    unfolding novel_fps_def fps1 filter_empty_conv by blast
  have base: "has_baseline ?v1 pkg"
    using known [OF list.set_sel(1) [OF some]] by (auto simp: has_baseline_def known_fp_def simp del: not_None_eq)
  have clean: "clean_baseline ?v1"
    using assms(8) sq.run_fps_facts(2) by (auto simp: clean_baseline_def merged_baseline_dom simp del: not_None_eq)
  obtain db2 m2 ds where 2: "AnalyzeRun sqlite_Backend ord2 newID2 now2 sink i (db1, m1) =
      (Inr (int (length (novel_fps ?v1 (v_allow ?v1) pkg i))), db2, m2)"
    "mset (map snd ds) = mset (map dev_of_fp (novel_fps ?v1 (v_allow ?v1) pkg i))"
    "sqlite_view (db_tab db2) = diff_view ?v1 i pkg (r\<lparr>run_IsBaseline := True\<rparr>) (run_fps ?v1 (v_allow ?v1) pkg i) ds"
    using sq.AnalyzeRun_later [OF 1(1,2) _ _ _ _ _ _ _ _ allI [OF TrueI] unrestricted(2), of i "r\<lparr>run_IsBaseline := True\<rparr>" pkg ord2 newID2 now2 sink m1]
      assms(4,5,11-13) base clean unfolding 1(3) by auto
  have "ds = []" using 2(2) none by simp
  then show ?thesis
    using 2 none by (intro exI [of _ db2] exI [of _ m2]) (simp add: diff_view_def)
qed

theorem AnalyzeRun_seed_again_witness:
  "\<exists>db1 m1 db2 m2. demo_analysis [] = (Inr 0, db1, m1) \<and>
    AnalyzeRun sqlite_Backend rev (\<lambda>j. replicate (Suc j) CHR ''b'') (\<lambda>j. 7) (\<lambda>ds n. n + length ds) ''r2'' (db1, m1) =
      (Inr 0, db2, m2)"
proof -
  obtain t where t: "demo_analysis [] = (Inr 0, \<lparr>db_tab = t, db_faults = []\<rparr>, 0)" "t_deviations t = []"
    using demo_seeded by blast
  then have fresh: "\<forall>j s. replicate (Suc j) CHR ''b'' \<notin> fst ` set (v_devs (sqlite_view (db_tab \<lparr>db_tab = t, db_faults = []\<rparr>)) s)"
    using fresh_ids by simp
  have "permuting rev" by (simp add: permuting_def)
  then show ?thesis
    using AnalyzeRun_seed_again [OF demo_db_facts(1,3,4) demo_run_pkg demo_db_facts(5,8) permuting_id demo_db_facts(9) _
        t(1) _ inj_b fresh, of rev "\<lambda>j. 7"] t(1) by (auto simp: demo_fps)
qed

end
