(* ===== verification/Proto.thy ===== *)
theory Proto
  imports Storage
begin

text \<open>
  \<open>shared/proto\<close>: the wire types of the runner protocol (\<open>protocol.go\<close>) and the event
  types and payload layouts shared with the kernel probes (\<open>events.go\<close>). Byte arrays are
  lists of bytes, fixed-width integers are words, durations are nanoseconds.
\<close>

type_synonym byte = "8 word"
type_synonym duration = int

definition second :: duration where
  "second = 1000000000"

section \<open>The runner protocol\<close>

record RunnerRegistration =
  rr_RunnerID :: string
  rr_Hostname :: string
  rr_Capabilities :: "string list"
  rr_KernelVersion :: string
  rr_ProtoVersion :: "32 word"

record RegistrationAck =
  ra_OK :: bool
  ra_OrchestratorID :: string
  ra_JobPollInterval :: duration
  ra_HeartbeatInterval :: duration

record Heartbeat =
  hb_RunnerID :: string
  hb_ActiveRunID :: string
  hb_Status :: string
  hb_EventsQueued :: int

record HeartbeatAck =
  ha_OK :: bool
  ha_UnknownRunner :: bool

record WatchedPath =
  wt_Prefix :: string
  wt_CredTagged :: bool

record SandboxSpec =
  sb_Image :: string
  sb_Command :: "string list"
  sb_Env :: "(string \<times> string) list"
  sb_WorkingDir :: string
  sb_User :: string
  sb_NetworkMode :: string
  sb_MemoryBytes :: int
  sb_NanoCPUs :: int
  sb_PidsLimit :: int
  sb_PullPolicy :: string
  sb_GracePeriod :: duration
  sb_CgroupParent :: string

record Job =
  jb_RunID :: "byte list"
  jb_Kind :: string
  jb_PackageName :: string
  jb_Version :: string
  jb_CgroupPath :: string
  jb_WatchedPaths :: "WatchedPath list"
  jb_Duration :: duration
  jb_DispatchedAt :: time
  jb_Sandbox :: "SandboxSpec option"

text \<open>The payload is the JSON value it was decoded to.\<close>

record EventEnvelope =
  ee_Type :: byte
  ee_Payload :: json

record EventBatch =
  eb_RunID :: "byte list"
  eb_Seq :: "64 word"
  eb_Events :: "EventEnvelope list"

record WireScanResult =
  ws_RunID :: "byte list"
  ws_Status :: string
  ws_Reason :: string
  ws_EventsEmitted :: int
  ws_EventsDropped :: "64 word"
  ws_Duration :: duration

record HealthResponse =
  hr_Status :: string
  hr_OrchestratorID :: string
  hr_Version :: string

definition CurrentProtoVersion :: "32 word" where
  "CurrentProtoVersion = 1"

section \<open>Event types\<close>

abbreviation EventTypeFileAccess :: byte where "EventTypeFileAccess \<equiv> 1"
abbreviation EventTypeExec :: byte where "EventTypeExec \<equiv> 2"
abbreviation EventTypeNetConnect :: byte where "EventTypeNetConnect \<equiv> 3"
abbreviation EventTypeDNSQuery :: byte where "EventTypeDNSQuery \<equiv> 4"
abbreviation EventTypeTLSSNI :: byte where "EventTypeTLSSNI \<equiv> 5"

definition EventType_String :: "byte \<Rightarrow> string" where
  "EventType_String t =
     (if t = EventTypeFileAccess then ''file_access''
      else if t = EventTypeExec then ''exec''
      else if t = EventTypeNetConnect then ''net_connect''
      else if t = EventTypeDNSQuery then ''dns_query''
      else if t = EventTypeTLSSNI then ''tls_sni''
      else ''unknown'')"

abbreviation AFInet :: byte where "AFInet \<equiv> 2"
abbreviation AFInet6 :: byte where "AFInet6 \<equiv> 10"
abbreviation NetSourceSyscall :: byte where "NetSourceSyscall \<equiv> 1"
abbreviation NetSourceKprobe :: byte where "NetSourceKprobe \<equiv> 2"
abbreviation TLSSourceLibSSL :: byte where "TLSSourceLibSSL \<equiv> 1"
abbreviation TLSSourceNodeInternal :: byte where "TLSSourceNodeInternal \<equiv> 2"
abbreviation TLSSourceTCPClientHello :: byte where "TLSSourceTCPClientHello \<equiv> 3"

definition TLSSourceName :: "byte \<Rightarrow> string" where
  "TLSSourceName s =
     (if s = TLSSourceLibSSL then ''libssl''
      else if s = TLSSourceNodeInternal then ''node_internal''
      else if s = TLSSourceTCPClientHello then ''tcp_clienthello''
      else ''unknown'')"

section \<open>Event payloads\<close>

record EventHeader =
  eh_TsNs :: "64 word"
  eh_CgroupID :: "64 word"
  eh_RunID :: "byte list"
  eh_PID :: "32 word"
  eh_TID :: "32 word"
  eh_PPID :: "32 word"
  eh_UID :: "32 word"
  eh_GID :: "32 word"
  eh_Comm :: "byte list"
  eh_Type :: byte
  eh_Tags :: byte

record OpenatEvent =
  oa_Header :: EventHeader
  oa_DFD :: "32 word"
  oa_Flags :: "32 word"
  oa_PathLen :: "16 word"
  oa_Truncated :: byte
  oa_Path :: "byte list"

record Ancestor =
  an_PID :: "32 word"
  an_PPID :: "32 word"
  an_Comm :: "byte list"

record ExecEvent =
  ex_Header :: EventHeader
  ex_Argc :: byte
  ex_ArgvLens :: "byte list"
  ex_Argv :: "byte list"
  ex_BinaryPath :: "byte list"
  ex_Ancestors :: "Ancestor list"

record NetConnectEvent =
  nc_Header :: EventHeader
  nc_Family :: byte
  nc_Source :: byte
  nc_DestPort :: "16 word"
  nc_Sockfd :: "32 word"
  nc_DestAddr :: "byte list"

record DnsQueryEvent =
  dq_Header :: EventHeader
  dq_Family :: byte
  dq_DestPort :: "16 word"
  dq_QueryLen :: "16 word"
  dq_DestAddr :: "byte list"
  dq_Query :: "byte list"

record TLSSniEvent =
  ts_Header :: EventHeader
  ts_Source :: byte
  ts_SniLen :: "16 word"
  ts_RawPayloadLen :: "16 word"
  ts_SNI :: "byte list"
  ts_RawPayload :: "byte list"

record CgmapValue =
  cv_RunID :: "byte list"
  cv_Flags :: "32 word"

record PathFilterKey =
  pk_PrefixLenBits :: "32 word"
  pk_Path :: "byte list"

definition PathActionKeep :: byte where "PathActionKeep = 1"
definition PathActionKeepCredTagged :: byte where "PathActionKeepCredTagged = 2"

end
