(* ===== verification/Dispatcher.thy ===== *)
theory Dispatcher
  imports Proto
begin

text \<open>
  \<open>core/dispatcher.go\<close>: the in-memory job queues with their wake channels. Each critical
  section of the mutex and each channel operation is one definition; \<open>dstep\<close> interleaves
  them for any number of concurrent callers. A wake channel has a buffer of one, so it is
  a flag. \<open>QueueJob\<close> and \<open>PollJob\<close> are the calls run without interference, the jobs
  queued by others while a poll waits given as a list.
\<close>

section \<open>The dispatcher\<close>

record Dispatcher =
  d_queues :: "string \<Rightarrow> Job list"
  d_signals :: "string \<Rightarrow> bool option"

definition new_Dispatcher :: Dispatcher where
  "new_Dispatcher = \<lparr>d_queues = (\<lambda>_. []), d_signals = (\<lambda>_. None)\<rparr>"

definition getSignal :: "string \<Rightarrow> Dispatcher \<Rightarrow> Dispatcher" where
  "getSignal r d = (case d_signals d r of
      None \<Rightarrow> d\<lparr>d_signals := (d_signals d)(r \<mapsto> False)\<rparr>
    | Some b \<Rightarrow> d)"

text \<open>Under the lock: append the job and make sure the channel exists.\<close>

definition enqueue :: "string \<Rightarrow> Job \<Rightarrow> Dispatcher \<Rightarrow> Dispatcher" where
  "enqueue r j d = getSignal r (d\<lparr>d_queues := (d_queues d)(r := d_queues d r @ [j])\<rparr>)"

text \<open>The non-blocking send: a full buffer is left alone.\<close>

definition send_signal :: "string \<Rightarrow> Dispatcher \<Rightarrow> Dispatcher" where
  "send_signal r d = d\<lparr>d_signals := (d_signals d)(r \<mapsto> True)\<rparr>"

definition QueueJob :: "string \<Rightarrow> Job \<Rightarrow> Dispatcher \<Rightarrow> Dispatcher" where
  "QueueJob r j d = send_signal r (enqueue r j d)"

text \<open>Under the lock: take the head of the queue, or get the channel to wait on.\<close>

definition try_take :: "string \<Rightarrow> Dispatcher \<Rightarrow> Job option \<times> Dispatcher" where
  "try_take r d = (case d_queues d r of
      j # js \<Rightarrow> (Some j, d\<lparr>d_queues := (d_queues d)(r := js)\<rparr>)
    | [] \<Rightarrow> (None, getSignal r d))"

definition recv_signal :: "string \<Rightarrow> Dispatcher \<Rightarrow> Dispatcher" where
  "recv_signal r d = d\<lparr>d_signals := (d_signals d)(r \<mapsto> False)\<rparr>"

definition QueueDepth :: "string \<Rightarrow> Dispatcher \<Rightarrow> nat" where
  "QueueDepth r d = length (d_queues d r)"

text \<open>
  A poll: \<open>arrivals\<close> are the jobs that other callers queue while it waits, in order; when
  they are used up the context expires.
\<close>

function PollJob :: "(string \<times> Job) list \<Rightarrow> string \<Rightarrow> Dispatcher \<Rightarrow> Job option \<times> Dispatcher" where
  "PollJob arrivals r d =
     (case try_take r d of
        (Some j, d') \<Rightarrow> (Some j, d')
      | (None, d') \<Rightarrow>
          if d_signals d' r = Some True then PollJob arrivals r (recv_signal r d')
          else (case arrivals of
                  [] \<Rightarrow> (None, d')
                | (r', j) # as \<Rightarrow> PollJob as r (QueueJob r' j d')))"
  by pat_completeness auto
termination
  by (relation "measures [\<lambda>(as, r, d). length as, \<lambda>(as, r, d). if d_signals d r = Some True then 1 else 0]")
     (auto simp: recv_signal_def try_take_def getSignal_def split: list.splits option.splits if_splits)

declare PollJob.simps [simp del]

text \<open>\<open>SyntheticRunID\<close>: the clock in nanoseconds, big-endian, in the first eight bytes.\<close>

definition SyntheticRunID :: "64 word \<Rightarrow> byte list" where
  "SyntheticRunID t = map (\<lambda>i. ucast (drop_bit (56 - 8 * i) t)) [0, 1, 2, 3, 4, 5, 6, 7] @ replicate 8 0"

section \<open>Concurrent callers\<close>

datatype pstate = Checking | Waiting

text \<open>
  \<open>s_polls\<close> are the polls in progress by an identifier of the caller, \<open>s_sends\<close> the calls of
  \<open>QueueJob\<close> that have released the lock and not yet sent the wake-up. \<open>s_in\<close> and \<open>s_out\<close>
  record the jobs queued and handed out per runner, oldest first.
\<close>

record dsys =
  s_disp :: Dispatcher
  s_polls :: "nat \<Rightarrow> (string \<times> pstate) option"
  s_sends :: "string list"
  s_in :: "string \<Rightarrow> Job list"
  s_out :: "string \<Rightarrow> Job list"

definition dsys_init :: dsys where
  "dsys_init = \<lparr>s_disp = new_Dispatcher, s_polls = (\<lambda>_. None), s_sends = [], s_in = (\<lambda>_. []), s_out = (\<lambda>_. [])\<rparr>"

text \<open>\<open>excl\<close> restricts the system to one poll per runner at a time.\<close>

inductive dstep :: "bool \<Rightarrow> dsys \<Rightarrow> dsys \<Rightarrow> bool" for excl where
  queue: "dstep excl s (s\<lparr>s_disp := enqueue r j (s_disp s), s_sends := r # s_sends s,
      s_in := (s_in s)(r := s_in s r @ [j])\<rparr>)"
| send: "r \<in> set (s_sends s) \<Longrightarrow>
    dstep excl s (s\<lparr>s_disp := send_signal r (s_disp s), s_sends := remove1 r (s_sends s)\<rparr>)"
| poll: "s_polls s p = None \<Longrightarrow> (excl \<Longrightarrow> \<forall>q st. s_polls s q \<noteq> Some (r, st)) \<Longrightarrow>
    dstep excl s (s\<lparr>s_polls := (s_polls s)(p \<mapsto> (r, Checking))\<rparr>)"
| take: "s_polls s p = Some (r, Checking) \<Longrightarrow> try_take r (s_disp s) = (Some j, d') \<Longrightarrow>
    dstep excl s (s\<lparr>s_disp := d', s_polls := (s_polls s)(p := None), s_out := (s_out s)(r := s_out s r @ [j])\<rparr>)"
| wait: "s_polls s p = Some (r, Checking) \<Longrightarrow> try_take r (s_disp s) = (None, d') \<Longrightarrow>
    dstep excl s (s\<lparr>s_disp := d', s_polls := (s_polls s)(p \<mapsto> (r, Waiting))\<rparr>)"
| wake: "s_polls s p = Some (r, Waiting) \<Longrightarrow> d_signals (s_disp s) r = Some True \<Longrightarrow>
    dstep excl s (s\<lparr>s_disp := recv_signal r (s_disp s), s_polls := (s_polls s)(p \<mapsto> (r, Checking))\<rparr>)"
| expire: "s_polls s p = Some (r, Waiting) \<Longrightarrow>
    dstep excl s (s\<lparr>s_polls := (s_polls s)(p := None)\<rparr>)"

inductive dreach :: "bool \<Rightarrow> dsys \<Rightarrow> bool" for excl where
  init: "dreach excl dsys_init"
| step: "dreach excl s \<Longrightarrow> dstep excl s s' \<Longrightarrow> dreach excl s'"

section \<open>Lemmas\<close>

lemma getSignal_queues [simp]: "d_queues (getSignal r d) = d_queues d"
  by (simp add: getSignal_def split: option.split)

lemma send_signal_queues [simp]: "d_queues (send_signal r d) = d_queues d"
  by (simp add: send_signal_def)

lemma recv_signal_queues [simp]: "d_queues (recv_signal r d) = d_queues d"
  by (simp add: recv_signal_def)

lemma enqueue_queues [simp]: "d_queues (enqueue r j d) = (d_queues d)(r := d_queues d r @ [j])"
  by (simp add: enqueue_def)

lemma QueueJob_queues [simp]: "d_queues (QueueJob r j d) = (d_queues d)(r := d_queues d r @ [j])"
  by (simp add: QueueJob_def)

lemma try_take_Some:
  "try_take r d = (Some j, d') \<longleftrightarrow> (\<exists>js. d_queues d r = j # js \<and> d' = d\<lparr>d_queues := (d_queues d)(r := js)\<rparr>)"
  by (auto simp: try_take_def split: list.splits)

lemma try_take_None: "try_take r d = (None, d') \<longleftrightarrow> d_queues d r = [] \<and> d' = getSignal r d"
  by (auto simp: try_take_def split: list.splits)

inductive_cases dstepE: "dstep excl s s'"

lemma dstep_fifo:
  "dstep excl s s' \<Longrightarrow> \<forall>r. s_out s r @ d_queues (s_disp s) r = s_in s r \<Longrightarrow>
   \<forall>r. s_out s' r @ d_queues (s_disp s') r = s_in s' r"
  by (induction rule: dstep.induct) (auto simp: try_take_Some try_take_None, metis)

lemma dreach_fifo: "dreach excl s \<Longrightarrow> s_out s r @ d_queues (s_disp s) r = s_in s r"
proof (induction arbitrary: r rule: dreach.induct)
  case init
  then show ?case by (simp add: dsys_init_def new_Dispatcher_def)
next
  case (step s s')
  then show ?case using dstep_fifo by blast
qed

definition one_poll :: "dsys \<Rightarrow> bool" where
  "one_poll s \<longleftrightarrow> (\<forall>p q r st st'. s_polls s p = Some (r, st) \<longrightarrow> s_polls s q = Some (r, st') \<longrightarrow> p = q)"

definition no_lost_wakeup :: "dsys \<Rightarrow> bool" where
  "no_lost_wakeup s \<longleftrightarrow> (\<forall>p r. s_polls s p = Some (r, Waiting) \<longrightarrow> d_queues (s_disp s) r \<noteq> [] \<longrightarrow>
     d_signals (s_disp s) r = Some True \<or> r \<in> set (s_sends s))"

lemma dstep_one_poll: "dstep True s s' \<Longrightarrow> one_poll s \<Longrightarrow> one_poll s'"
  by (induction rule: dstep.induct) (auto simp: one_poll_def split: if_splits)

lemma getSignal_True: "d_signals (getSignal r d) q = Some True \<longleftrightarrow> d_signals d q = Some True"
  by (auto simp: getSignal_def split: option.split)

lemma dstep_no_lost_wakeup:
  "dstep True s s' \<Longrightarrow> one_poll s \<Longrightarrow> no_lost_wakeup s \<Longrightarrow> no_lost_wakeup s'"
proof (induction rule: dstep.induct)
  case (queue s r j)
  then show ?case by (auto simp: no_lost_wakeup_def enqueue_def getSignal_True)
next
  case (send r s)
  have "q \<in> set (remove1 r (s_sends s))" if "q \<in> set (s_sends s)" "q \<noteq> r" for q
    using that by (simp add: in_set_remove1)
  with send show ?case by (auto simp: no_lost_wakeup_def send_signal_def)
next
  case (take s p r j d')
  then show ?case
    by (auto simp: no_lost_wakeup_def try_take_Some split: if_splits) (metis list.distinct(1))+
next
  case (wait s p r d')
  then show ?case
    by (auto simp: no_lost_wakeup_def try_take_None getSignal_True split: if_splits)
next
  case (wake s p r)
  then show ?case
    unfolding no_lost_wakeup_def one_poll_def recv_signal_def
    by (simp split: if_splits) metis
qed (auto simp: no_lost_wakeup_def split: if_splits)

lemma dreach_no_lost_wakeup: "dreach True s \<Longrightarrow> one_poll s \<and> no_lost_wakeup s"
proof (induction rule: dreach.induct)
  case init
  then show ?case by (simp add: one_poll_def no_lost_wakeup_def dsys_init_def)
next
  case (step s s')
  then show ?case using dstep_one_poll dstep_no_lost_wakeup by blast
qed

section \<open>The queue interface\<close>

text \<open>What the API relies on: a queue per runner, polled without waiting.\<close>

locale job_queue =
  fixes enq :: "string \<Rightarrow> 'j \<Rightarrow> 'd \<Rightarrow> 'd"
    and deq :: "string \<Rightarrow> 'd \<Rightarrow> 'j option \<times> 'd"
    and jobs :: "'d \<Rightarrow> string \<Rightarrow> 'j list"
  assumes jobs_enq: "jobs (enq r j d) = (jobs d)(r := jobs d r @ [j])"
    and deq_empty: "jobs d r = [] \<Longrightarrow> \<exists>d'. deq r d = (None, d') \<and> jobs d' = jobs d"
    and deq_take: "jobs d r = j # js \<Longrightarrow> \<exists>d'. deq r d = (Some j, d') \<and> jobs d' = (jobs d)(r := js)"
begin

fun drain :: "nat \<Rightarrow> string \<Rightarrow> 'd \<Rightarrow> 'j list \<times> 'd" where
  "drain 0 r d = ([], d)"
| "drain (Suc n) r d =
     (case deq r d of
        (None, d') \<Rightarrow> ([], d')
      | (Some j, d') \<Rightarrow> (let (js, d'') = drain n r d' in (j # js, d'')))"

lemma drain_take:
  "fst (drain n r d) = take n (jobs d r) \<and> jobs (snd (drain n r d)) = (jobs d)(r := drop n (jobs d r))"
proof (induction n arbitrary: d)
  case (Suc n)
  show ?case
  proof (cases "jobs d r")
    case Nil
    then obtain d' where "deq r d = (None, d')" "jobs d' = jobs d" using deq_empty by blast
    with Nil show ?thesis by auto
  next
    case (Cons j js)
    then obtain d' where d': "deq r d = (Some j, d')" "jobs d' = (jobs d)(r := js)" using deq_take by blast
    with Cons Suc.IH [of d'] show ?thesis by (auto simp: case_prod_beta Let_def)
  qed
qed auto

lemma jobs_enq_all: "jobs (foldl (\<lambda>d j. enq r j d) d js) = (jobs d)(r := jobs d r @ js)"
  by (induction js arbitrary: d) (auto simp: jobs_enq)

lemma enq_all_drain:
  "jobs d r = [] \<Longrightarrow> fst (drain (length js) r (foldl (\<lambda>d j. enq r j d) d js)) = js"
  by (simp add: drain_take jobs_enq_all)

end

lemma PollJob_ready:
  "d_queues d r = j # js \<Longrightarrow> PollJob arr r d = (Some j, d\<lparr>d_queues := (d_queues d)(r := js)\<rparr>)"
  by (simp add: PollJob.simps [of arr r d] try_take_def)

lemma PollJob_empty: "d_queues d r = [] \<Longrightarrow> \<exists>d'. PollJob [] r d = (None, d') \<and> d_queues d' = d_queues d"
proof (cases "d_signals d r = Some True")
  case True
  assume q: "d_queues d r = []"
  then have "PollJob [] r d = PollJob [] r (recv_signal r (getSignal r d))"
    using True by (simp add: PollJob.simps [of "[]" r d] try_take_def getSignal_True)
  moreover have "PollJob [] r (recv_signal r (getSignal r d)) =
      (None, getSignal r (recv_signal r (getSignal r d)))"
    using q by (subst PollJob.simps) (simp add: try_take_def getSignal_True, simp add: recv_signal_def)
  ultimately show ?thesis by simp
next
  case False
  assume "d_queues d r = []"
  then show ?thesis
    using False by (simp add: PollJob.simps [of "[]" r d] try_take_def getSignal_True)
qed

interpretation dq: job_queue QueueJob "PollJob []" d_queues
proof
  show "d_queues (QueueJob r j d) = (d_queues d)(r := d_queues d r @ [j])" for r j d by simp
  show "d_queues d r = [] \<Longrightarrow> \<exists>d'. PollJob [] r d = (None, d') \<and> d_queues d' = d_queues d" for d r
    by (rule PollJob_empty)
  show "d_queues d r = j # js \<Longrightarrow> \<exists>d'. PollJob [] r d = (Some j, d') \<and> d_queues d' = (d_queues d)(r := js)" for d r j js
    by (simp add: PollJob_ready)
qed

lemma PollJob_result:
  "fst (PollJob arr r d) =
     (case d_queues d r @ map snd (filter (\<lambda>a. fst a = r) arr) of [] \<Rightarrow> None | j # js \<Rightarrow> Some j)"
proof (induction arr r d rule: PollJob.induct)
  case (1 arr r d)
  show ?case
  proof (cases "d_queues d r")
    case Nil
    then have t: "try_take r d = (None, getSignal r d)" by (simp add: try_take_def)
    show ?thesis
    proof (cases "d_signals d r = Some True")
      case True
      then have "PollJob arr r d = PollJob arr r (recv_signal r (getSignal r d))"
        using t by (simp add: PollJob.simps [of arr r d] getSignal_True)
      then show ?thesis using "1.IH"(1) [OF t [symmetric] refl] True Nil by (simp add: getSignal_True)
    next
      case False
      then have f: "d_signals (getSignal r d) r \<noteq> Some True" by (simp add: getSignal_True)
      show ?thesis
      proof (cases arr)
        case Nil
        then show ?thesis using t f \<open>d_queues d r = []\<close> by (simp add: PollJob.simps [of "[]" r d])
      next
        case (Cons a as)
        obtain r' j where a: "a = (r', j)" by (cases a)
        have "PollJob arr r d = PollJob as r (QueueJob r' j (getSignal r d))"
          using t f Cons a by (simp add: PollJob.simps [of "(r', j) # as" r d])
        then show ?thesis
          using "1.IH"(2) [OF t [symmetric] refl f Cons a [symmetric]] Cons a \<open>d_queues d r = []\<close> by auto
      qed
    qed
  qed (simp add: PollJob_ready)
qed

section \<open>Properties\<close>

text \<open>
  C11. Under any interleaving of any number of callers, the jobs handed out for a runner
  followed by those still queued are the jobs queued for it, in order: none is lost,
  duplicated, reordered or given to another runner.
\<close>

theorem dispatcher_fifo:
  "dreach excl s \<Longrightarrow> s_out s r @ d_queues (s_disp s) r = s_in s r"
  by (rule dreach_fifo)

theorem dispatcher_fifo_witness:
  "\<forall>j. s_out (dsys_init\<lparr>s_disp := enqueue ''r'' j new_Dispatcher, s_sends := [''r''], s_in := (\<lambda>_. [])(''r'' := [j])\<rparr>) ''r'' @ [j] = [j]"
proof
  fix j
  let ?s = "dsys_init\<lparr>s_disp := enqueue ''r'' j (s_disp dsys_init), s_sends := ''r'' # s_sends dsys_init,
      s_in := (s_in dsys_init)(''r'' := s_in dsys_init ''r'' @ [j])\<rparr>"
  have "dreach False ?s" by (rule dreach.step [OF dreach.init dstep.queue])
  from dispatcher_fifo [OF this, of "''r''"]
  show "s_out (dsys_init\<lparr>s_disp := enqueue ''r'' j new_Dispatcher, s_sends := [''r''], s_in := (\<lambda>_. [])(''r'' := [j])\<rparr>) ''r'' @ [j] = [j]"
    by (simp add: dsys_init_def new_Dispatcher_def)
qed

text \<open>
  C12. With one poll per runner at a time, no wake-up is lost: whenever a poll waits and
  its runner has a job, the wake channel is full or the caller that queued the job is about
  to fill it, so the poll does not wait for its timeout.
\<close>

theorem dispatcher_no_lost_wakeup:
  assumes "dreach True s" "s_polls s p = Some (r, Waiting)" "d_queues (s_disp s) r \<noteq> []"
  shows "d_signals (s_disp s) r = Some True \<or> r \<in> set (s_sends s)"
  using dreach_no_lost_wakeup [OF assms(1)] assms(2,3) by (auto simp: no_lost_wakeup_def)

definition sys_polled :: "bool \<Rightarrow> dsys" where
  "sys_polled two = dsys_init\<lparr>s_disp := getSignal ''r'' new_Dispatcher,
     s_polls := (\<lambda>p. if p = 0 \<or> p = 1 \<and> two then Some (''r'', Waiting) else None)\<rparr>"

lemma sys_polled_one: "dreach True (sys_polled False)" "dreach False (sys_polled False)"
proof -
  have "dreach b (sys_polled False)" for b
  proof -
    have 1: "dreach b (dsys_init\<lparr>s_polls := (s_polls dsys_init)(0 \<mapsto> (''r'', Checking))\<rparr>)" (is "dreach b ?s")
      by (rule dreach.step [OF dreach.init dstep.poll]) (simp_all add: dsys_init_def)
    have "dreach b (?s\<lparr>s_disp := getSignal ''r'' new_Dispatcher, s_polls := (s_polls ?s)(0 \<mapsto> (''r'', Waiting))\<rparr>)"
      by (rule dreach.step [OF 1 dstep.wait]) (simp_all add: try_take_None dsys_init_def new_Dispatcher_def)
    moreover have "(s_polls ?s)(0 \<mapsto> (''r'', Waiting)) = s_polls (sys_polled False)"
      by (auto simp: sys_polled_def dsys_init_def)
    ultimately show ?thesis by (simp add: sys_polled_def dsys_init_def)
  qed
  then show "dreach True (sys_polled False)" "dreach False (sys_polled False)" by blast+
qed

lemma sys_polled_two: "dreach False (sys_polled True)"
proof -
  let ?s0 = "sys_polled False"
  have 1: "dreach False (?s0\<lparr>s_polls := (s_polls ?s0)(1 \<mapsto> (''r'', Checking))\<rparr>)" (is "dreach False ?s")
    by (rule dreach.step [OF sys_polled_one(2) dstep.poll]) (simp_all add: sys_polled_def)
  have "dreach False (?s\<lparr>s_disp := getSignal ''r'' (s_disp ?s), s_polls := (s_polls ?s)(1 \<mapsto> (''r'', Waiting))\<rparr>)"
    by (rule dreach.step [OF 1 dstep.wait]) (simp_all add: try_take_None sys_polled_def new_Dispatcher_def)
  moreover have "(s_polls ?s)(1 \<mapsto> (''r'', Waiting)) = s_polls (sys_polled True)"
    by (auto simp: sys_polled_def)
  moreover have "getSignal ''r'' (getSignal ''r'' new_Dispatcher) = getSignal ''r'' new_Dispatcher"
    by (simp add: getSignal_def new_Dispatcher_def)
  ultimately show ?thesis by (simp add: sys_polled_def)
qed

theorem dispatcher_no_lost_wakeup_witness:
  "\<forall>j. d_signals (enqueue ''r'' j (s_disp (sys_polled False))) ''r'' = Some True \<or> ''r'' \<in> set [''r'']"
proof
  fix j
  let ?s0 = "sys_polled False"
  let ?s = "?s0\<lparr>s_disp := enqueue ''r'' j (s_disp ?s0), s_sends := ''r'' # s_sends ?s0,
      s_in := (s_in ?s0)(''r'' := s_in ?s0 ''r'' @ [j])\<rparr>"
  have "dreach True ?s" by (rule dreach.step [OF sys_polled_one(1) dstep.queue])
  then show "d_signals (enqueue ''r'' j (s_disp (sys_polled False))) ''r'' = Some True \<or> ''r'' \<in> set [''r'']"
    using dispatcher_no_lost_wakeup [of ?s 0 "''r''"] by (simp add: sys_polled_def dsys_init_def)
qed

text \<open>
  With two concurrent polls for one runner a wake-up can be lost: two jobs are queued
  before either poll runs, the channel holds one wake-up, the first poll uses it for the
  first job, and the second poll keeps waiting although the second job is queued, no
  wake-up is pending and none will be sent.
\<close>

theorem dispatcher_two_polls_stall:
  "\<exists>s. dreach False s \<and> s_polls s 1 = Some (''r'', Waiting) \<and> length (d_queues (s_disp s) ''r'') = 1 \<and>
     d_signals (s_disp s) ''r'' \<noteq> Some True \<and> s_sends s = []"
proof -
  fix j :: Job
  let ?q = "\<lambda>s. s\<lparr>s_disp := enqueue ''r'' j (s_disp s), s_sends := ''r'' # s_sends s, s_in := (s_in s)(''r'' := s_in s ''r'' @ [j])\<rparr>"
  let ?w = "\<lambda>s. s\<lparr>s_disp := send_signal ''r'' (s_disp s), s_sends := remove1 ''r'' (s_sends s)\<rparr>"
  define s1 where "s1 = ?q (sys_polled True)"
  define s2 where "s2 = ?w s1"
  define s3 where "s3 = ?q s2"
  define s4 where "s4 = ?w s3"
  define s5 where "s5 = s4\<lparr>s_disp := recv_signal ''r'' (s_disp s4), s_polls := (s_polls s4)(0 \<mapsto> (''r'', Checking))\<rparr>"
  define s6 where "s6 = s5\<lparr>s_disp := (s_disp s5)\<lparr>d_queues := (d_queues (s_disp s5))(''r'' := [j])\<rparr>,
      s_polls := (s_polls s5)(0 := None), s_out := (s_out s5)(''r'' := s_out s5 ''r'' @ [j])\<rparr>"
  have q2: "d_queues (s_disp s5) ''r'' = [j, j]"
    by (simp add: s5_def s4_def s3_def s2_def s1_def sys_polled_def new_Dispatcher_def)
  have 1: "dreach False s1" unfolding s1_def by (rule dreach.step [OF sys_polled_two dstep.queue])
  have 2: "dreach False s2" unfolding s2_def by (rule dreach.step [OF 1 dstep.send]) (simp add: s1_def)
  have 3: "dreach False s3" unfolding s3_def by (rule dreach.step [OF 2 dstep.queue])
  have 4: "dreach False s4" unfolding s4_def by (rule dreach.step [OF 3 dstep.send]) (simp add: s3_def)
  have 5: "dreach False s5" unfolding s5_def
    by (rule dreach.step [OF 4 dstep.wake]) (simp_all add: s4_def s3_def s2_def s1_def sys_polled_def send_signal_def)
  have 6: "dreach False s6" unfolding s6_def
    by (rule dreach.step [OF 5 dstep.take])
       (simp_all add: try_take_Some q2, simp add: s5_def s4_def s3_def s2_def s1_def sys_polled_def)
  have "s_polls s6 1 = Some (''r'', Waiting)" "s_sends s6 = []" "d_signals (s_disp s6) ''r'' = Some False"
    "d_queues (s_disp s6) ''r'' = [j]"
    by (simp_all add: s6_def s5_def s4_def s3_def s2_def s1_def sys_polled_def dsys_init_def recv_signal_def)
  with 6 show ?thesis by (intro exI [of _ s6]) simp
qed

text \<open>
  A poll returns the oldest job there is for its runner: the head of its queue, or
  else the first job for it that arrives before the poll's time is up; it returns nothing
  exactly when there is neither.
\<close>

theorem PollJob_delivers:
  "fst (PollJob arr r d) =
     (case d_queues d r @ map snd (filter (\<lambda>a. fst a = r) arr) of [] \<Rightarrow> None | j # js \<Rightarrow> Some j)"
  by (rule PollJob_result)

text \<open>
  Jobs queued for an idle runner come back from successive polls in the order they were
  queued, and every one of them.
\<close>

theorem QueueJob_PollJob_order:
  assumes "d_queues d r = []"
  shows "fst (dq.drain (length js) r (foldl (\<lambda>d j. QueueJob r j d) d js)) = js"
  using assms by (rule dq.enq_all_drain)

theorem QueueJob_PollJob_order_witness:
  "\<forall>i j. fst (dq.drain (length [i, j]) ''r'' (foldl (\<lambda>d j. QueueJob ''r'' j d) new_Dispatcher [i, j])) = [i, j]"
  using QueueJob_PollJob_order [of new_Dispatcher "''r''"] by (simp add: new_Dispatcher_def del: List.list.size foldl.simps)

end
