(* ===== verification/Metrics.thy ===== *)
theory Metrics
  imports Storage
begin

text \<open>
  \<open>metrics/metrics.go\<close>: the counters the orchestrator increments. A counter vector is a
  function from its label values; registration with Prometheus and the \<open>/metrics\<close> endpoint
  are left out. A nil registry ignores every observation.
\<close>

record Registry =
  mt_EventsReceived :: "string \<Rightarrow> int"
  mt_EventsDropped :: int
  mt_ScansQueued :: int
  mt_DeviationsWritten :: "string \<Rightarrow> int"
  mt_BaselinePromoted :: "string \<Rightarrow> int"
  mt_NotificationsSent :: "string \<times> string \<Rightarrow> int"

definition new_Registry :: Registry where
  "new_Registry = \<lparr>mt_EventsReceived = (\<lambda>_. 0), mt_EventsDropped = 0, mt_ScansQueued = 0,
     mt_DeviationsWritten = (\<lambda>_. 0), mt_BaselinePromoted = (\<lambda>_. 0), mt_NotificationsSent = (\<lambda>_. 0)\<rparr>"

definition ObserveScanQueued :: "Registry option \<Rightarrow> Registry option" where
  "ObserveScanQueued = map_option (\<lambda>r. r\<lparr>mt_ScansQueued := mt_ScansQueued r + 1\<rparr>)"

definition ObserveEvent :: "string \<Rightarrow> int \<Rightarrow> Registry option \<Rightarrow> Registry option" where
  "ObserveEvent t n = map_option (\<lambda>r. r\<lparr>mt_EventsReceived := (mt_EventsReceived r)(t := mt_EventsReceived r t + n)\<rparr>)"

definition ObserveEventsDropped :: "int \<Rightarrow> Registry option \<Rightarrow> Registry option" where
  "ObserveEventsDropped n = map_option (\<lambda>r. if n \<le> 0 then r else r\<lparr>mt_EventsDropped := mt_EventsDropped r + n\<rparr>)"

definition observe_deviation :: "DeviationRow \<Rightarrow> Registry \<Rightarrow> Registry" where
  "observe_deviation d r =
     (let sev = (if dv_Severity d = [] then ''unknown'' else dv_Severity d) in
      r\<lparr>mt_DeviationsWritten := (mt_DeviationsWritten r)(sev := mt_DeviationsWritten r sev + 1)\<rparr>)"

definition ObserveDeviationsWritten :: "DeviationRow list \<Rightarrow> Registry option \<Rightarrow> Registry option" where
  "ObserveDeviationsWritten rows = map_option (fold observe_deviation rows)"

definition ObserveBaselinePromoted :: "string \<Rightarrow> Registry option \<Rightarrow> Registry option" where
  "ObserveBaselinePromoted trigger =
     map_option (\<lambda>r. r\<lparr>mt_BaselinePromoted := (mt_BaselinePromoted r)(trigger := mt_BaselinePromoted r trigger + 1)\<rparr>)"

definition ObserveNotification :: "string \<Rightarrow> string \<Rightarrow> Registry option \<Rightarrow> Registry option" where
  "ObserveNotification name status =
     map_option (\<lambda>r. r\<lparr>mt_NotificationsSent :=
       (mt_NotificationsSent r)((name, status) := mt_NotificationsSent r (name, status) + 1)\<rparr>)"

lemma fold_observe_deviation:
  "mt_DeviationsWritten (fold observe_deviation rows r) s =
     mt_DeviationsWritten r s +
     int (length (filter (\<lambda>d. (if dv_Severity d = [] then ''unknown'' else dv_Severity d) = s) rows))"
  by (induction rows arbitrary: r) (auto simp: observe_deviation_def Let_def)

end
