(* ===== verification/Api.thy ===== *)
theory Api
  imports Analyze Dispatcher Metrics "HOL-Library.AList"
begin

text \<open>
  \<open>api/server.go\<close>: the runner registry, scan submission, event ingestion and the
  debounced analysis. A handler takes the clock reading and the decoded request and
  returns the response with the new state of the server; the storage backend is any, or
  none. Request bodies are given by what they decode to, an undecodable one by the
  message. The TLS set-up and the listener are left out.
\<close>

section \<open>State\<close>

record registeredRunner =
  rg_Registration :: RunnerRegistration
  rg_RegisteredAt :: time
  rg_LastSeen :: time
  rg_ActiveRunID :: string
  rg_Status :: string
  rg_EventsQueued :: int

text \<open>
  The debounce timers: \<open>tm_reg\<close> is \<open>differTimers\<close>, and \<open>tm_armed\<close> the timers of the
  runtime that will fire, as (timer, run, instant).
\<close>

record timers =
  tm_next :: nat
  tm_reg :: "string \<Rightarrow> nat option"
  tm_armed :: "(nat \<times> string \<times> time) list"

record 'db Server =
  sv_orchestratorID :: string
  sv_version :: string
  sv_dispatcher :: Dispatcher
  sv_store :: "'db Backend option"
  sv_db :: 'db
  sv_hasNotifier :: bool
  sv_defaultWatchedPaths :: "WatchedPath list"
  sv_metrics :: "Registry option"
  sv_runners :: "(string \<times> registeredRunner) list"
  sv_timers :: timers
  sv_triggered :: "string list"

datatype body =
    BError string
  | BHealth HealthResponse
  | BRegistration RegistrationAck
  | BHeartbeat HeartbeatAck
  | BJob Job
  | BEmpty
  | BQueued string
  | BEvents int int int
  | BRecorded bool

type_synonym response = "int \<times> body"

definition writeJSON :: "int \<Rightarrow> body \<Rightarrow> response" where
  "writeJSON status b = (status, b)"

definition writeError :: "int \<Rightarrow> string \<Rightarrow> response" where
  "writeError status msg = writeJSON status (BError msg)"

record 'db Options =
  op_OrchestratorID :: string
  op_Version :: string
  op_Dispatcher :: "Dispatcher option"
  op_Storage :: "'db Backend option"
  op_Notifier :: bool
  op_DefaultWatchedPaths :: "WatchedPath list"

definition new_Server :: "'db Options \<Rightarrow> 'db \<Rightarrow> 'db Server" where
  "new_Server opts db =
     \<lparr>sv_orchestratorID = (if op_OrchestratorID opts = [] then ''fangs-orchestrator'' else op_OrchestratorID opts),
      sv_version = op_Version opts,
      sv_dispatcher = (case op_Dispatcher opts of None \<Rightarrow> new_Dispatcher | Some d \<Rightarrow> d),
      sv_store = op_Storage opts, sv_db = db, sv_hasNotifier = op_Notifier opts,
      sv_defaultWatchedPaths = op_DefaultWatchedPaths opts, sv_metrics = None, sv_runners = [],
      sv_timers = \<lparr>tm_next = 0, tm_reg = (\<lambda>_. None), tm_armed = []\<rparr>, sv_triggered = []\<rparr>"

definition SetMetrics :: "Registry option \<Rightarrow> 'db Server \<Rightarrow> 'db Server" where
  "SetMetrics m s = s\<lparr>sv_metrics := m\<rparr>"

section \<open>The debounced analysis\<close>

definition debounce :: duration where
  "debounce = 2 * second"

definition arm :: "time \<Rightarrow> string \<Rightarrow> timers \<Rightarrow> timers" where
  "arm now runID t =
     (case tm_reg t runID of
        Some k \<Rightarrow> t\<lparr>tm_armed := (k, runID, now + debounce) # filter (\<lambda>a. fst a \<noteq> k) (tm_armed t)\<rparr>
      | None \<Rightarrow> t\<lparr>tm_next := Suc (tm_next t), tm_reg := (tm_reg t)(runID \<mapsto> tm_next t),
                  tm_armed := (tm_next t, runID, now + debounce) # tm_armed t\<rparr>)"

definition scheduleDiffer :: "time \<Rightarrow> string \<Rightarrow> 'db Server \<Rightarrow> 'db Server" where
  "scheduleDiffer now runID s =
     (case sv_store s of
        None \<Rightarrow> s
      | Some be \<Rightarrow> s\<lparr>sv_timers := arm now runID (sv_timers s)\<rparr>)"

text \<open>The function a timer runs when it fires: analyse, deregister, notify.\<close>

definition timer_body ::
  "(bucket \<Rightarrow> bucket) \<Rightarrow> (nat \<Rightarrow> string) \<Rightarrow> (nat \<Rightarrow> time) \<Rightarrow> string \<Rightarrow> 'db Server \<Rightarrow> 'db Server" where
  "timer_body ord newID clock runID s =
     (case sv_store s of
        None \<Rightarrow> s
      | Some be \<Rightarrow>
          (let (res, db', m') = AnalyzeRun be ord newID clock ObserveDeviationsWritten runID (sv_db s, sv_metrics s);
               s1 = s\<lparr>sv_db := db', sv_metrics := m',
                      sv_timers := (sv_timers s)\<lparr>tm_reg := (tm_reg (sv_timers s))(runID := None)\<rparr>\<rparr>
           in case res of
                Inl e \<Rightarrow> s1
              | Inr n \<Rightarrow> if sv_hasNotifier s \<and> n > 0 then s1\<lparr>sv_triggered := sv_triggered s @ [runID]\<rparr> else s1))"

definition timer_fires ::
  "(bucket \<Rightarrow> bucket) \<Rightarrow> (nat \<Rightarrow> string) \<Rightarrow> (nat \<Rightarrow> time) \<Rightarrow> nat \<times> string \<times> time \<Rightarrow> 'db Server \<Rightarrow> 'db Server" where
  "timer_fires ord newID clock a s =
     timer_body ord newID clock (fst (snd a))
       (s\<lparr>sv_timers := (sv_timers s)\<lparr>tm_armed := remove1 a (tm_armed (sv_timers s))\<rparr>\<rparr>)"

section \<open>Registry\<close>

definition handleHealth :: "'db Server \<Rightarrow> response \<times> 'db Server" where
  "handleHealth s =
     (writeJSON 200 (BHealth \<lparr>hr_Status = ''ok'', hr_OrchestratorID = sv_orchestratorID s, hr_Version = sv_version s\<rparr>), s)"

definition handleRegister :: "time \<Rightarrow> string + RunnerRegistration \<Rightarrow> 'db Server \<Rightarrow> response \<times> 'db Server" where
  "handleRegister now req s =
     (case req of
        Inl e \<Rightarrow> (writeError 400 (''decode body: '' @ e), s)
      | Inr reg \<Rightarrow>
          if rr_RunnerID reg = [] then (writeError 400 ''missing runner_id'', s)
          else if rr_ProtoVersion reg \<noteq> CurrentProtoVersion
          then (writeError 400 (''proto_version '' @ Itoa (uint (rr_ProtoVersion reg)) @
                  '' != orchestrator '' @ Itoa (uint CurrentProtoVersion)), s)
          else
            (writeJSON 200 (BRegistration \<lparr>ra_OK = True, ra_OrchestratorID = sv_orchestratorID s,
               ra_JobPollInterval = 5 * second, ra_HeartbeatInterval = 30 * second\<rparr>),
             s\<lparr>sv_runners := AList.update (rr_RunnerID reg)
                 \<lparr>rg_Registration = reg, rg_RegisteredAt = now, rg_LastSeen = now,
                  rg_ActiveRunID = [], rg_Status = [], rg_EventsQueued = 0\<rparr> (sv_runners s)\<rparr>))"

text \<open>A request without a body decodes to the zero heartbeat.\<close>

definition zero_Heartbeat :: Heartbeat where
  "zero_Heartbeat = \<lparr>hb_RunnerID = [], hb_ActiveRunID = [], hb_Status = [], hb_EventsQueued = 0\<rparr>"

definition beat :: "time \<Rightarrow> Heartbeat \<Rightarrow> registeredRunner \<Rightarrow> registeredRunner" where
  "beat now hb rr =
     rr\<lparr>rg_LastSeen := now,
        rg_ActiveRunID := (if hb_ActiveRunID hb \<noteq> [] then hb_ActiveRunID hb else []),
        rg_Status := (if hb_Status hb \<noteq> [] then hb_Status hb else rg_Status rr),
        rg_EventsQueued := hb_EventsQueued hb\<rparr>"

definition handleHeartbeat ::
  "time \<Rightarrow> string \<Rightarrow> (string + Heartbeat) option \<Rightarrow> 'db Server \<Rightarrow> response \<times> 'db Server" where
  "handleHeartbeat now runnerID req s =
     (if runnerID = [] then (writeError 400 ''runner id required'', s)
      else (case (case req of None \<Rightarrow> Inr zero_Heartbeat | Some r \<Rightarrow> r) of
              Inl e \<Rightarrow> (writeError 400 (''decode heartbeat: '' @ e), s)
            | Inr hb \<Rightarrow>
                (case map_of (sv_runners s) runnerID of
                   None \<Rightarrow> (writeJSON 200 (BHeartbeat \<lparr>ha_OK = False, ha_UnknownRunner = True\<rparr>), s)
                 | Some rr \<Rightarrow>
                     (writeJSON 200 (BHeartbeat \<lparr>ha_OK = True, ha_UnknownRunner = False\<rparr>),
                      s\<lparr>sv_runners := AList.update runnerID (beat now hb rr) (sv_runners s)\<rparr>))))"

text \<open>One tick of \<open>prunerLoop\<close>.\<close>

definition prune_runners :: "time \<Rightarrow> duration \<Rightarrow> 'db Server \<Rightarrow> 'db Server" where
  "prune_runners now cutoff s =
     s\<lparr>sv_runners := filter (\<lambda>(i, rr). \<not> now - rg_LastSeen rr > cutoff) (sv_runners s)\<rparr>"

definition RegisteredRunners :: "(string list \<Rightarrow> string list) \<Rightarrow> 'db Server \<Rightarrow> string list" where
  "RegisteredRunners ord s = ord (map fst (sv_runners s))"

definition FirstRegisteredRunner :: "(string list \<Rightarrow> string list) \<Rightarrow> 'db Server \<Rightarrow> string" where
  "FirstRegisteredRunner ord s = (case ord (map fst (sv_runners s)) of [] \<Rightarrow> [] | i # _ \<Rightarrow> i)"

record RunnerSnapshot =
  sn_ID :: string
  sn_Hostname :: string
  sn_KernelVersion :: string
  sn_ProtoVersion :: "32 word"
  sn_Capabilities :: "string list"
  sn_RegisteredAt :: time
  sn_LastSeen :: time
  sn_ActiveRunID :: string
  sn_Status :: string
  sn_EventsQueued :: int

definition RegisteredRunnersDetail ::
  "((string \<times> registeredRunner) list \<Rightarrow> (string \<times> registeredRunner) list) \<Rightarrow> 'db Server \<Rightarrow> RunnerSnapshot list" where
  "RegisteredRunnersDetail ord s = map (\<lambda>(i, r).
     \<lparr>sn_ID = rr_RunnerID (rg_Registration r), sn_Hostname = rr_Hostname (rg_Registration r),
      sn_KernelVersion = rr_KernelVersion (rg_Registration r), sn_ProtoVersion = rr_ProtoVersion (rg_Registration r),
      sn_Capabilities = rr_Capabilities (rg_Registration r), sn_RegisteredAt = rg_RegisteredAt r,
      sn_LastSeen = rg_LastSeen r, sn_ActiveRunID = rg_ActiveRunID r, sn_Status = rg_Status r,
      sn_EventsQueued = rg_EventsQueued r\<rparr>) (ord (sv_runners s))"

section \<open>Jobs\<close>

definition handlePollJob :: "(string \<times> Job) list \<Rightarrow> string \<Rightarrow> 'db Server \<Rightarrow> response \<times> 'db Server" where
  "handlePollJob arrivals runnerID s =
     (if runnerID = [] then (writeError 400 ''missing runner id'', s)
      else if map_of (sv_runners s) runnerID = None
      then (writeError 404 ''runner not registered; POST /v1/runners/register first'', s)
      else (case PollJob arrivals runnerID (sv_dispatcher s) of
              (None, d) \<Rightarrow> ((204, BEmpty), s\<lparr>sv_dispatcher := d\<rparr>)
            | (Some job, d) \<Rightarrow> (writeJSON 200 (BJob job), s\<lparr>sv_dispatcher := d\<rparr>)))"

definition fill_job :: "time \<Rightarrow> WatchedPath list \<Rightarrow> Job \<Rightarrow> Job" where
  "fill_job now paths job =
     job\<lparr>jb_Kind := (if jb_Kind job = [] then ''sensor_only'' else jb_Kind job),
         jb_Duration := (if jb_Duration job = 0 then 10 * second else jb_Duration job),
         jb_WatchedPaths := (if jb_WatchedPaths job = [] \<and> paths \<noteq> [] then paths else jb_WatchedPaths job),
         jb_RunID := (if jb_RunID job = replicate 16 0 then SyntheticRunID (word_of_int now) else jb_RunID job),
         jb_DispatchedAt := now\<rparr>"

definition run_of_job :: "Job \<Rightarrow> Run" where
  "run_of_job job =
     \<lparr>run_ID = hex_bytes (jb_RunID job),
      run_PackageName = (case jb_Sandbox job of
          Some sb \<Rightarrow> if jb_PackageName job = [] then sb_Image sb else jb_PackageName job
        | None \<Rightarrow> jb_PackageName job),
      run_Version = jb_Version job, run_TarballSHA256 = [], run_LockfileSHA256 = [], run_NodeVersion = [],
      run_NPMVersion = [], run_State = RunStatePending, run_Attempt = 1, run_IsBaseline = False,
      run_StartedAt = None, run_FinishedAt = None, run_FailureReason = [],
      run_EventsEmitted = 0, run_EventsDropped = 0, run_DurationNS = 0\<rparr>"

definition SubmitScan :: "time \<Rightarrow> string \<Rightarrow> Job \<Rightarrow> 'db Server \<Rightarrow> (err + string) \<times> 'db Server" where
  "SubmitScan now targetRunner job0 s =
     (if map_of (sv_runners s) targetRunner = None
      then (Inl (Msg (''target_runner '' @ Quote targetRunner @ '' not registered'')), s)
      else
        (let job = fill_job now (sv_defaultWatchedPaths s) job0;
             db' = (case sv_store s of
                      None \<Rightarrow> sv_db s
                    | Some be \<Rightarrow> snd (be_CreateRun be now (run_of_job job) (sv_db s)))
         in (Inr (hex_bytes (jb_RunID job)),
             s\<lparr>sv_db := db', sv_dispatcher := QueueJob targetRunner job (sv_dispatcher s),
               sv_metrics := ObserveScanQueued (sv_metrics s)\<rparr>)))"

definition handleQueueScan :: "time \<Rightarrow> string + string \<times> Job \<Rightarrow> 'db Server \<Rightarrow> response \<times> 'db Server" where
  "handleQueueScan now req s =
     (case req of
        Inl e \<Rightarrow> (writeError 400 (''decode body: '' @ e), s)
      | Inr (targetRunner, job) \<Rightarrow>
          if targetRunner = [] then (writeError 400 ''missing target_runner'', s)
          else (case SubmitScan now targetRunner job s of
                  (Inl e, s') \<Rightarrow> (writeError 404 (err_text e), s')
                | (Inr runID, s') \<Rightarrow> (writeJSON 202 (BQueued runID), s')))"

section \<open>Events and results\<close>

definition observe_batch :: "EventBatch \<Rightarrow> Registry option \<Rightarrow> Registry option" where
  "observe_batch b m =
     (let ts = map (\<lambda>e. EventType_String (ee_Type e)) (eb_Events b) in
      fold (\<lambda>t. ObserveEvent t (int (length (filter (\<lambda>u. u = t) ts)))) (remdups ts) m)"

text \<open>
  \<open>now i\<close> is the clock reading for the \<open>i\<close>-th event of the request. Re-marshalling a decoded
  payload cannot fail.
\<close>

definition batch_rows :: "(nat \<Rightarrow> time) \<Rightarrow> nat \<Rightarrow> string \<Rightarrow> EventBatch \<Rightarrow> EventRow list" where
  "batch_rows clock n runID b =
     map (\<lambda>(i, e). \<lparr>ev_ID = 0, ev_RunID = runID, ev_TsNS = clock (n + i), ev_Type = EventType_String (ee_Type e),
                    ev_Data = Some (ee_Payload e)\<rparr>)
       (zip [0..<length (eb_Events b)] (eb_Events b))"

text \<open>The loop over the batches of one request; the counters are (batches, events, persisted).\<close>

fun ingest :: "(nat \<Rightarrow> time) \<Rightarrow> string \<Rightarrow> EventBatch list \<Rightarrow> int \<times> int \<times> int \<Rightarrow> nat \<Rightarrow> 'db Server
    \<Rightarrow> (int \<times> int \<times> int) \<times> 'db Server" where
  "ingest clock runID [] c n s = (c, s)"
| "ingest clock runID (b # bs) (nb, ne, np) n s =
     (let s1 = s\<lparr>sv_metrics := observe_batch b (sv_metrics s)\<rparr>;
          rows = batch_rows clock n runID b;
          k = int (length (eb_Events b));
          (np', s2) = (case sv_store s of
              None \<Rightarrow> (np, s1)
            | Some be \<Rightarrow>
                if eb_Events b = [] then (np, s1)
                else (case be_AppendEvents be runID rows (sv_db s1) of
                        (Inl e, db') \<Rightarrow> (np, s1\<lparr>sv_db := db'\<rparr>)
                      | (Inr _, db') \<Rightarrow> (np + int (length rows), s1\<lparr>sv_db := db'\<rparr>)))
      in ingest clock runID bs (nb + 1, ne + k, np') (n + length (eb_Events b)) s2)"

text \<open>
  The body is a sequence of batches that ends at the end of the stream or, with an error,
  at one that does not decode. \<open>now\<close> is the reading when the stream ends.
\<close>

definition handleEvents ::
  "(nat \<Rightarrow> time) \<Rightarrow> time \<Rightarrow> string \<Rightarrow> EventBatch list \<Rightarrow> string option \<Rightarrow> 'db Server \<Rightarrow> response \<times> 'db Server" where
  "handleEvents clock now runIDHex batches bad s =
     (if runIDHex = [] then (writeError 400 ''missing run_id'', s)
      else
        (let ((nb, ne, np), s1) = ingest clock runIDHex batches (0, 0, 0) 0 s in
         case bad of
           Some e \<Rightarrow> (writeError 400 (''decode batch: '' @ e), s1)
         | None \<Rightarrow>
             (let s2 = (case sv_store s1 of
                    None \<Rightarrow> s1
                  | Some be \<Rightarrow> s1\<lparr>sv_db := snd (be_UpdateRunState be now runIDHex RunStateDone [] (sv_db s1))\<rparr>)
              in (writeJSON 200 (BEvents nb ne np), scheduleDiffer now runIDHex s2))))"

definition to_storage_result :: "WireScanResult \<Rightarrow> ScanResult" where
  "to_storage_result r =
     \<lparr>sr_Status = ws_Status r, sr_Reason = ws_Reason r, sr_EventsEmitted = ws_EventsEmitted r,
      sr_EventsDropped = sint (ws_EventsDropped r), sr_DurationNS = ws_Duration r\<rparr>"

definition handleScanResult ::
  "time \<Rightarrow> string \<Rightarrow> string + WireScanResult \<Rightarrow> 'db Server \<Rightarrow> response \<times> 'db Server" where
  "handleScanResult now runIDHex req s =
     (if runIDHex = [] then (writeError 400 ''run_id required'', s)
      else (case req of
        Inl e \<Rightarrow> (writeError 400 (''decode ScanResult: '' @ e), s)
      | Inr result \<Rightarrow>
          if ws_Status result \<noteq> ''ok'' \<and> ws_Status result \<noteq> ''failed'' \<and> ws_Status result \<noteq> ''timeout''
          then (writeError 400 ''status must be ok|failed|timeout'', s)
          else (case sv_store s of
            None \<Rightarrow> (writeJSON 200 (BRecorded False), s)
          | Some be \<Rightarrow>
              (case be_RecordScanResult be now runIDHex (to_storage_result result) (sv_db s) of
                 (Inl e, db') \<Rightarrow>
                   (if errors_Is e ErrNotFound then (writeError 404 ''run not found'', s\<lparr>sv_db := db'\<rparr>)
                    else (writeError 500 (''record scan result: '' @ err_text e), s\<lparr>sv_db := db'\<rparr>))
               | (Inr _, db') \<Rightarrow>
                   (writeJSON 200 (BRecorded True),
                    s\<lparr>sv_db := db', sv_metrics :=
                       (if unat (ws_EventsDropped result) > 0
                        then ObserveEventsDropped (sint (ws_EventsDropped result)) (sv_metrics s)
                        else sv_metrics s)\<rparr>)))))"

end
