(* ===== verification/Api_Timers.thy ===== *)
theory Api_Timers
  imports Api
begin

text \<open>
  The debounced analysis of \<open>api/server.go\<close> as a system: event requests arm the timer of
  their run, due timers fire, analyses finish and deregister theirs, in any order. A
  request may arm a timer whose analysis is still going on.
\<close>

section \<open>The system\<close>

text \<open>
  \<open>ts_running\<close> are the analyses in progress, and \<open>ts_last\<close> the instant of the last event
  request of a run that no analysis has started after.
\<close>

record tsys =
  ts_now :: time
  ts_timers :: timers
  ts_running :: "string list"
  ts_last :: "string \<Rightarrow> time option"

definition tsys_init :: "time \<Rightarrow> tsys" where
  "tsys_init t = \<lparr>ts_now = t, ts_timers = \<lparr>tm_next = 0, tm_reg = (\<lambda>_. None), tm_armed = []\<rparr>,
     ts_running = [], ts_last = (\<lambda>_. None)\<rparr>"

inductive tstep :: "tsys \<Rightarrow> tsys \<Rightarrow> bool" where
  tick: "ts_now s \<le> t \<Longrightarrow> tstep s (s\<lparr>ts_now := t\<rparr>)"
| post: "tstep s (s\<lparr>ts_timers := arm (ts_now s) r (ts_timers s), ts_last := (ts_last s)(r \<mapsto> ts_now s)\<rparr>)"
| fire: "(k, r, due) \<in> set (tm_armed (ts_timers s)) \<Longrightarrow> due \<le> ts_now s \<Longrightarrow>
    tstep s (s\<lparr>ts_timers := (ts_timers s)\<lparr>tm_armed := remove1 (k, r, due) (tm_armed (ts_timers s))\<rparr>,
               ts_running := r # ts_running s, ts_last := (ts_last s)(r := None)\<rparr>)"
| finish: "r \<in> set (ts_running s) \<Longrightarrow>
    tstep s (s\<lparr>ts_timers := (ts_timers s)\<lparr>tm_reg := (tm_reg (ts_timers s))(r := None)\<rparr>,
               ts_running := remove1 r (ts_running s)\<rparr>)"

inductive treach :: "tsys \<Rightarrow> bool" where
  init: "treach (tsys_init t)"
| step: "treach s \<Longrightarrow> tstep s s' \<Longrightarrow> treach s'"

section \<open>Invariant\<close>

definition timers_ok :: "timers \<Rightarrow> bool" where
  "timers_ok t \<longleftrightarrow> distinct (map fst (tm_armed t)) \<and>
     (\<forall>(k, r, due)\<in>set (tm_armed t). k < tm_next t \<and> (\<forall>r'. tm_reg t r' = Some k \<longrightarrow> r' = r)) \<and>
     (\<forall>r k. tm_reg t r = Some k \<longrightarrow> k < tm_next t) \<and>
     (\<forall>r r' k. tm_reg t r = Some k \<longrightarrow> tm_reg t r' = Some k \<longrightarrow> r' = r)"

definition covered :: "tsys \<Rightarrow> bool" where
  "covered s \<longleftrightarrow> (\<forall>r t. ts_last s r = Some t \<longrightarrow> t \<le> ts_now s \<and> (\<exists>k. (k, r, t + debounce) \<in> set (tm_armed (ts_timers s))))"

lemma timers_ok_init: "timers_ok \<lparr>tm_next = 0, tm_reg = (\<lambda>_. None), tm_armed = []\<rparr>"
  by (simp add: timers_ok_def)

lemma timers_okD:
  assumes "timers_ok t"
  shows "distinct (map fst (tm_armed t))"
    and "(k, r, due) \<in> set (tm_armed t) \<Longrightarrow> k < tm_next t"
    and "(k, r, due) \<in> set (tm_armed t) \<Longrightarrow> tm_reg t r' = Some k \<Longrightarrow> r' = r"
    and "tm_reg t r = Some k \<Longrightarrow> k < tm_next t"
    and "tm_reg t r = Some k \<Longrightarrow> tm_reg t r' = Some k \<Longrightarrow> r' = r"
  using assms unfolding timers_ok_def by blast+

lemma timers_okI:
  assumes "distinct (map fst (tm_armed t))"
    and "\<And>k r due. (k, r, due) \<in> set (tm_armed t) \<Longrightarrow> k < tm_next t"
    and "\<And>k r due r'. (k, r, due) \<in> set (tm_armed t) \<Longrightarrow> tm_reg t r' = Some k \<Longrightarrow> r' = r"
    and "\<And>r k. tm_reg t r = Some k \<Longrightarrow> k < tm_next t"
    and "\<And>r r' k. tm_reg t r = Some k \<Longrightarrow> tm_reg t r' = Some k \<Longrightarrow> r' = r"
  shows "timers_ok t"
  using assms unfolding timers_ok_def by blast

lemma arm_ok:
  assumes ok: "timers_ok t"
  shows "timers_ok (arm now r t)"
proof (cases "tm_reg t r")
  case None
  have new: "tm_next t \<notin> fst ` set (tm_armed t)" "\<And>q. tm_reg t q \<noteq> Some (tm_next t)"
    using timers_okD(2,4) [OF ok] by force+
  let ?t = "t\<lparr>tm_next := Suc (tm_next t), tm_reg := (tm_reg t)(r \<mapsto> tm_next t),
                  tm_armed := (tm_next t, r, now + debounce) # tm_armed t\<rparr>"
  have "timers_ok ?t"
  proof (rule timers_okI)
    show "distinct (map fst (tm_armed ?t))" using timers_okD(1) [OF ok] new(1) by simp
    show "k < tm_next ?t" if "(k, q, due) \<in> set (tm_armed ?t)" for k q due
      using that timers_okD(2) [OF ok, of k q due] by auto
    show "q' = q" if "(k, q, due) \<in> set (tm_armed ?t)" "tm_reg ?t q' = Some k" for k q due q'
      using that timers_okD(2,3) [OF ok, of k q due] new(2) by (auto split: if_splits)
    show "k < tm_next ?t" if "tm_reg ?t q = Some k" for q k
      using that timers_okD(4) [OF ok, of q k] by (auto split: if_splits)
    show "q' = q" if "tm_reg ?t q = Some k" "tm_reg ?t q' = Some k" for q q' k
      using that timers_okD(5) [OF ok, of q k q'] new(2) by (auto split: if_splits)
  qed
  then show ?thesis using None by (simp add: arm_def)
next
  case (Some k)
  have "distinct (map fst (filter (\<lambda>a. fst a \<noteq> k) (tm_armed t)))"
    using timers_okD(1) [OF ok] by (rule distinct_map_filterI)
  then show ?thesis
    using Some timers_okD [OF ok] by (intro timers_okI) (auto simp: arm_def)
qed

lemma arm_armed: "\<exists>k. (k, r, now + debounce) \<in> set (tm_armed (arm now r t))"
  by (auto simp: arm_def split: option.split)

lemma arm_keeps:
  "timers_ok t \<Longrightarrow> (k, q, due) \<in> set (tm_armed t) \<Longrightarrow> q \<noteq> r \<Longrightarrow> (k, q, due) \<in> set (tm_armed (arm now r t))"
  using timers_okD(3) [of t k q due r] by (auto simp: arm_def split: option.split)

lemma timers_ok_subset:
  assumes "timers_ok t" "set xs \<subseteq> set (tm_armed t)" "distinct (map fst xs)" "\<And>q k. m q = Some k \<Longrightarrow> tm_reg t q = Some k"
  shows "timers_ok (t\<lparr>tm_armed := xs, tm_reg := m\<rparr>)"
proof (rule timers_okI)
  note mem = subsetD [OF assms(2)]
  show "distinct (map fst (tm_armed (t\<lparr>tm_armed := xs, tm_reg := m\<rparr>)))" using assms(3) by simp
  show "k < tm_next (t\<lparr>tm_armed := xs, tm_reg := m\<rparr>)" if "(k, r, due) \<in> set (tm_armed (t\<lparr>tm_armed := xs, tm_reg := m\<rparr>))" for k r due
    using timers_okD(2) [OF assms(1) mem] that by simp
  show "r' = r" if "(k, r, due) \<in> set (tm_armed (t\<lparr>tm_armed := xs, tm_reg := m\<rparr>))" "tm_reg (t\<lparr>tm_armed := xs, tm_reg := m\<rparr>) r' = Some k" for k r due r'
    using timers_okD(3) [OF assms(1) mem assms(4)] that by simp
  show "k < tm_next (t\<lparr>tm_armed := xs, tm_reg := m\<rparr>)" if "tm_reg (t\<lparr>tm_armed := xs, tm_reg := m\<rparr>) r = Some k" for r k
    using timers_okD(4) [OF assms(1) assms(4)] that by simp
  show "r' = r" if "tm_reg (t\<lparr>tm_armed := xs, tm_reg := m\<rparr>) r = Some k" "tm_reg (t\<lparr>tm_armed := xs, tm_reg := m\<rparr>) r' = Some k" for r r' k
    using timers_okD(5) [OF assms(1) assms(4) assms(4)] that by simp
qed

lemma distinct_map_remove1: "distinct (map f xs) \<Longrightarrow> distinct (map f (remove1 a xs))"
  by (induction xs) (auto dest: subsetD [OF set_remove1_subset])

lemma deregister_ok: "timers_ok t \<Longrightarrow> timers_ok (t\<lparr>tm_reg := (tm_reg t)(r := None)\<rparr>)"
proof -
  assume ok: "timers_ok t"
  have "timers_ok (t\<lparr>tm_armed := tm_armed t, tm_reg := (tm_reg t)(r := None)\<rparr>)"
    by (rule timers_ok_subset [OF ok subset_refl timers_okD(1) [OF ok]]) (simp split: if_splits)
  then show ?thesis by simp
qed

lemma remove_armed_ok: "timers_ok t \<Longrightarrow> timers_ok (t\<lparr>tm_armed := remove1 a (tm_armed t)\<rparr>)"
  using timers_ok_subset [of t "remove1 a (tm_armed t)" "tm_reg t"] timers_okD(1) [of t]
  by (simp add: set_remove1_subset distinct_map_remove1)

lemma tstep_ok: "tstep s s' \<Longrightarrow> timers_ok (ts_timers s) \<Longrightarrow> timers_ok (ts_timers s')"
  by (induction rule: tstep.induct) (simp_all add: arm_ok deregister_ok remove_armed_ok)

lemma tstep_covered: "tstep s s' \<Longrightarrow> timers_ok (ts_timers s) \<Longrightarrow> covered s \<Longrightarrow> covered s'"
proof (induction rule: tstep.induct)
  case (post s r)
  then show ?case using arm_keeps arm_armed by (fastforce simp: covered_def split: if_splits)
next
  case (fire k r due s)
  have "(j, q, d) \<in> set (remove1 (k, r, due) xs)" if "(j, q, d) \<in> set xs" "q \<noteq> r" for j q d xs
    using that by (simp add: in_set_remove1)
  then show ?case using fire by (fastforce simp: covered_def)
qed (fastforce simp: covered_def)+

lemma treach_covered: "treach s \<Longrightarrow> timers_ok (ts_timers s) \<and> covered s"
proof (induction rule: treach.induct)
  case (init t)
  then show ?case by (simp add: tsys_init_def timers_ok_init covered_def)
next
  case (step s s')
  then show ?case using tstep_ok tstep_covered by blast
qed

section \<open>A burst of requests\<close>

lemma arm_registered: "\<exists>k. tm_reg (arm now r t) r = Some k"
  by (auto simp: arm_def split: option.split)

lemma arm_others: "filter (\<lambda>(k, q, due). q \<noteq> r) (tm_armed (arm now r t)) = filter (\<lambda>(k, q, due). q \<noteq> r) (tm_armed t)"
  if "timers_ok t"
proof (cases "tm_reg t r")
  case (Some k)
  have "filter (\<lambda>(k, q, due). q \<noteq> r) (filter (\<lambda>a. fst a \<noteq> k) (tm_armed t)) = filter (\<lambda>(k, q, due). q \<noteq> r) (tm_armed t)"
    using timers_okD(3) [OF that _ Some] unfolding filter_filter by (intro filter_cong) auto
  then show ?thesis using Some by (simp add: arm_def)
qed (simp add: arm_def)

text \<open>A registered timer is the only armed one of its run.\<close>

definition sole :: "string \<Rightarrow> timers \<Rightarrow> bool" where
  "sole r t \<longleftrightarrow> (\<forall>(k, q, due)\<in>set (tm_armed t). q = r \<longrightarrow> tm_reg t r = Some k)"

lemma arm_sole:
  assumes "timers_ok t" "sole r t"
  shows "sole r (arm now r t)" "filter (\<lambda>(k, q, due). q = r) (tm_armed (arm now r t)) = [(the (tm_reg (arm now r t) r), r, now + debounce)]"
proof -
  have none: "filter (\<lambda>(k, q, due). q = r) (filter (\<lambda>a. fst a \<noteq> k) (tm_armed t)) = []" if "tm_reg t r = Some k" for k
    using assms(2) that by (auto simp: filter_eq_Nil_iff sole_def)
  have fresh: "filter (\<lambda>(k, q, due). q = r) (tm_armed t) = []" if "tm_reg t r = None"
    using assms(2) that by (auto simp: filter_eq_Nil_iff sole_def)
  show "filter (\<lambda>(k, q, due). q = r) (tm_armed (arm now r t)) = [(the (tm_reg (arm now r t) r), r, now + debounce)]"
    using none fresh by (auto simp: arm_def split: option.split)
  show "sole r (arm now r t)"
    using assms(2) by (auto simp: sole_def arm_def split: option.splits)
qed

lemma burst:
  assumes "timers_ok t" "sole r t"
  shows "timers_ok (fold (\<lambda>n. arm n r) ts t)" "sole r (fold (\<lambda>n. arm n r) ts t)"
    "filter (\<lambda>(k, q, due). q \<noteq> r) (tm_armed (fold (\<lambda>n. arm n r) ts t)) = filter (\<lambda>(k, q, due). q \<noteq> r) (tm_armed t)"
  using assms by (induction ts arbitrary: t) (simp_all add: arm_ok arm_sole(1) arm_others)

text \<open>
  C13. Debouncing loses no analysis: in every reachable state of the timer system, a run
  with an event request that no analysis has started after has a timer armed to fire two
  seconds after its last request, whatever fires, finishes or arrives in between.
\<close>

theorem differ_never_missed:
  "treach s \<Longrightarrow> ts_last s r = Some t \<Longrightarrow>
   t \<le> ts_now s \<and> (\<exists>k. (k, r, t + 2 * second) \<in> set (tm_armed (ts_timers s)))"
  using treach_covered [of s] by (simp add: covered_def debounce_def)

theorem differ_never_missed_witness:
  "\<exists>k. (k, ''r'', 7 + 2 * second) \<in> set (tm_armed (arm 7 ''r'' \<lparr>tm_next = 0, tm_reg = (\<lambda>_. None), tm_armed = []\<rparr>))"
  using differ_never_missed [OF treach.step [OF treach.init [of 7] tstep.post [of _ "''r''"]], of "''r''" 7]
  by (simp add: tsys_init_def)

text \<open>
  A burst of event requests for a run with no other timer of its own leaves exactly one
  armed timer for it, two seconds after the last request, and the timers of the other runs
  as they were.
\<close>

theorem differ_burst_once:
  assumes "timers_ok t" "sole r t"
  shows "(\<exists>k. filter (\<lambda>(k, q, due). q = r) (tm_armed (fold (\<lambda>n. arm n r) (ts @ [t']) t)) = [(k, r, t' + 2 * second)]) \<and>
    filter (\<lambda>(k, q, due). q \<noteq> r) (tm_armed (fold (\<lambda>n. arm n r) (ts @ [t']) t)) = filter (\<lambda>(k, q, due). q \<noteq> r) (tm_armed t)"
  using burst [OF assms] arm_sole(2) [OF burst(1,2) [OF assms]] by (simp add: arm_others debounce_def)

theorem differ_burst_once_witness:
  "\<exists>k. filter (\<lambda>(k, q, due). q = ''r'') (tm_armed (fold (\<lambda>n. arm n ''r'') ([1, 5] @ [9])
      \<lparr>tm_next = 0, tm_reg = (\<lambda>_. None), tm_armed = []\<rparr>)) = [(k, ''r'', 9 + 2 * second)]"
proof -
  have "sole ''r'' \<lparr>tm_next = 0, tm_reg = (\<lambda>_. None), tm_armed = []\<rparr>" by (simp add: sole_def)
  from differ_burst_once [OF timers_ok_init this, of "[1, 5]" 9] show ?thesis by (rule conjunct1)
qed

end
