(* ===== verification/Sqlite_Props.thy ===== *)
theory Sqlite_Props
  imports Differ_Demo
begin

text \<open>
  Properties of the SQLite backend: integrity in every reachable database, the effect of
  the operations the rest of the orchestrator relies on, and their behaviour when the
  engine fails.
\<close>

section \<open>Integrity\<close>

text \<open>
  C6. Every database reachable from an empty one by any sequence of backend operations,
  with engine failures at any point, keeps the integrity of its tables: primary keys are
  unique, foreign keys point to existing rows, run states and allowlist rows satisfy
  their checks, and event ids are positive, increasing and below the counter.
\<close>

theorem sqlite_integrity:
  "sqlite_reachable db \<Longrightarrow> tables_ok (db_tab db)"
  by (rule sqlite_reachable_ok)

theorem sqlite_integrity_witness:
  "tables_ok (db_tab (snd (be_AddWatchedPackage sqlite_Backend 5 ''left-pad'' \<lparr>db_tab = empty_tables, db_faults = [True]\<rparr>)))"
  by (rule sqlite_integrity [OF sqlite_reachable.stepped [OF sqlite_reachable.opened sqlite_step.AddWatchedPackage]])

section \<open>Events\<close>

definition numbered :: "string \<Rightarrow> int \<Rightarrow> EventRow list \<Rightarrow> EventRow list" where
  "numbered i n es = map (\<lambda>(k, e). e\<lparr>ev_ID := n + 1 + int k, ev_RunID := i\<rparr>) (enumerate 0 es)"

lemma numbered_Cons: "numbered i n (e # es) = e\<lparr>ev_ID := n + 1, ev_RunID := i\<rparr> # numbered i (n + 1) es"
  by (simp add: numbered_def enumerate_Suc_eq [of 0, symmetric] del: enumerate_simps)
     (simp add: enumerate_Suc_eq comp_def case_prod_beta add.commute add.left_commute)

lemma insert_events_fold:
  "i \<in> rn_id ` set (t_runs t) \<Longrightarrow>
   fold_rows (insert_event i) es t =
     Inr (t\<lparr>t_events := t_events t @ numbered i (t_seq t) es, t_seq := t_seq t + int (length es)\<rparr>)"
proof (induction es arbitrary: t)
  case Nil
  then show ?case by (simp add: numbered_def)
next
  case (Cons e es)
  then show ?case
    by (simp add: insert_event_def numbered_Cons add.commute add.left_commute)
qed

lemma insert_events_missing: "i \<notin> rn_id ` set (t_runs t) \<Longrightarrow> es \<noteq> [] \<Longrightarrow> \<exists>e. fold_rows (insert_event i) es t = Inl e"
  by (cases es) (auto simp: insert_event_def)

text \<open>
  C24. Appending a batch of events is all or nothing: on an error the tables are as
  before; on success the run exists, the batch stands at the end of the table in its
  order under consecutive ids above every earlier one, and nothing else changed. Without
  engine failures it succeeds exactly when the run exists or the batch is empty.
\<close>

theorem AppendEvents_atomic:
  assumes "sqlite_AppendEvents i es db = (res, db')"
  shows "(case res of
      Inl e \<Rightarrow> db_tab db' = db_tab db
    | Inr u \<Rightarrow> db_tab db' = (db_tab db)\<lparr>
        t_events := t_events (db_tab db) @ numbered i (t_seq (db_tab db)) es,
        t_seq := t_seq (db_tab db) + int (length es)\<rparr>) \<and>
    (reliable db \<longrightarrow> (res = Inr () \<longleftrightarrow> es = [] \<or> i \<in> rn_id ` set (t_runs (db_tab db))))"
proof (cases "es = []")
  case True
  then show ?thesis using assms by (auto simp: sqlite_AppendEvents_def numbered_def)
next
  case False
  then have tx: "in_tx (insert_event i) (\<lambda>_. ''insert event'') es db = (res, db')"
    using assms by (simp add: sqlite_AppendEvents_def)
  have run: "i \<in> rn_id ` set (t_runs (db_tab db))" if "fold_rows (insert_event i) es (db_tab db) = Inr t" for t
    using insert_events_missing [OF _ False] that by (metis Inl_Inr_False)
  have rel: "res = Inr () \<longleftrightarrow> i \<in> rn_id ` set (t_runs (db_tab db))" if "reliable db"
  proof
    assume "res = Inr ()"
    with tx show "i \<in> rn_id ` set (t_runs (db_tab db))"
      by (cases rule: in_tx_cases) (use run in auto)
  next
    assume "i \<in> rn_id ` set (t_runs (db_tab db))"
    then show "res = Inr ()" using in_tx_reliable [OF that insert_events_fold] tx by fastforce
  qed
  from tx show ?thesis
  proof (cases rule: in_tx_cases)
    case (err e)
    then show ?thesis using rel False by auto
  next
    case ok
    then have "db_tab db' = (db_tab db)\<lparr>t_events := t_events (db_tab db) @ numbered i (t_seq (db_tab db)) es,
        t_seq := t_seq (db_tab db) + int (length es)\<rparr>"
      using insert_events_fold [OF run [OF ok(2)]] by simp
    then show ?thesis using ok(1) rel False by auto
  qed
qed

theorem AppendEvents_atomic_witness:
  "db_tab (snd (sqlite_AppendEvents ''r2'' [demo_event 0 [] ''a'', demo_event 0 [] ''b'']
     \<lparr>db_tab = demo_tables [], db_faults = [False, False, False, True]\<rparr>)) = demo_tables []"
proof -
  let ?db = "\<lparr>db_tab = demo_tables [], db_faults = [False, False, False, True]\<rparr>"
  let ?es = "[demo_event 0 [] ''a'', demo_event 0 [] ''b'']"
  have "sqlite_AppendEvents ''r2'' ?es ?db =
      (Inl (Wrap ''insert event'' ErrIO), \<lparr>db_tab = demo_tables [], db_faults = []\<rparr>)"
    by (simp add: sqlite_AppendEvents_def in_tx_def insert_event_def demo_tables_def demo_run_def)
  from AppendEvents_atomic [OF this] show ?thesis
    by (simp add: sqlite_AppendEvents_def in_tx_def insert_event_def demo_tables_def demo_run_def)
qed

text \<open>
  Listing the events of a run returns them ordered by timestamp and then id, at most
  as many as the limit (10000 when it is not positive), and the ones left out come
  after those returned.
\<close>

theorem ListEventsByRun_ordered:
  assumes "reliable db"
  shows "let all = filter (\<lambda>e. ev_RunID e = i) (t_events (db_tab db)) in
    \<exists>es rest. sqlite_ListEventsByRun i lim db = (Inr es, db) \<and> mset (es @ rest) = mset all \<and>
    sorted (map (\<lambda>e. (ev_TsNS e, ev_ID e)) (es @ rest)) \<and>
    length es = min (if lim \<le> 0 then 10000 else nat lim) (length all)"
proof -
  define all where "all = filter (\<lambda>e. ev_RunID e = i) (t_events (db_tab db))"
  let ?n = "if lim \<le> 0 then 10000 else nat lim"
  let ?o = "order_by (\<lambda>e. (ev_TsNS e, ev_ID e)) all"
  have "sqlite_ListEventsByRun i lim db = (Inr (take ?n ?o), db)"
    using assms(1) by (simp add: sqlite_ListEventsByRun_def limit_rows_def all_def)
  moreover have "mset (take ?n ?o @ drop ?n ?o) = mset all"
    by (simp only: append_take_drop_id order_by_mset)
  moreover have "sorted (map (\<lambda>e. (ev_TsNS e, ev_ID e)) (take ?n ?o @ drop ?n ?o))"
    by (simp only: append_take_drop_id) (simp add: order_by_def)
  moreover have "length (take ?n ?o) = min ?n (length all)"
    using mset_eq_length [OF order_by_mset [of "\<lambda>e. (ev_TsNS e, ev_ID e)" all]] by simp
  ultimately show ?thesis unfolding Let_def all_def [symmetric] by blast
qed

theorem ListEventsByRun_ordered_witness:
  "\<exists>es rest. sqlite_ListEventsByRun ''r2'' 1 (demo_db []) = (Inr es, demo_db []) \<and>
     mset (es @ rest) = {#demo_event 2 ''r2'' ''npm.org'', demo_event 3 ''r2'' ''evil.org''#} \<and> length es = 1"
proof -
  have evs: "filter (\<lambda>e. ev_RunID e = ''r2'') (t_events (db_tab (demo_db []))) =
      [demo_event 2 ''r2'' ''npm.org'', demo_event 3 ''r2'' ''evil.org'']"
    by (simp add: demo_tables_def demo_event_def)
  show ?thesis
    using ListEventsByRun_ordered [of "demo_db []" "''r2''" 1]
    unfolding evs Let_def by (auto simp del: mset_append)
qed

lemma delete_events_effect:
  "delete_events c t =
     (let kept = filter (\<lambda>e. c \<le> ev_TsNS e \<or> ev_ID e \<in> de_evidence_event_id ` set (t_deviations t)) (t_events t)
      in Inr (int (length (t_events t)) - int (length kept), t\<lparr>t_events := kept\<rparr>))"
proof -
  let ?gone = "\<lambda>e. ev_TsNS e < c \<and> ev_ID e \<notin> de_evidence_event_id ` set (t_deviations t)"
  have kept: "(\<lambda>e. \<not> ?gone e) = (\<lambda>e. c \<le> ev_TsNS e \<or> ev_ID e \<in> de_evidence_event_id ` set (t_deviations t))"
    by auto
  have "int (length (filter ?gone (t_events t))) =
      int (length (t_events t)) - int (length (filter (\<lambda>e. \<not> ?gone e) (t_events t)))"
    using sum_length_filter_compl [of ?gone "t_events t"] by linarith
  then show ?thesis
    unfolding delete_events_def affected_def Let_def kept by (simp only:)
qed

text \<open>
  C25. Pruning keeps the evidence: whatever happens, every deviation still has its
  evidence event; a successful pruning removes exactly the events older than the
  cutoff that no deviation points to, reports their number, and touches nothing else.
\<close>

theorem PruneEvents_keeps_evidence:
  assumes "tables_ok (db_tab db)" "sqlite_PruneEvents c db = (res, db')"
  shows "(\<forall>d\<in>set (t_deviations (db_tab db')). de_evidence_event_id d \<in> ev_ID ` set (t_events (db_tab db'))) \<and>
    t_deviations (db_tab db') = t_deviations (db_tab db) \<and>
    (case res of
       Inl e \<Rightarrow> db_tab db' = db_tab db
     | Inr n \<Rightarrow>
         (let pinned = de_evidence_event_id ` set (t_deviations (db_tab db));
              kept = filter (\<lambda>e. c \<le> ev_TsNS e \<or> ev_ID e \<in> pinned) (t_events (db_tab db))
          in db_tab db' = (db_tab db)\<lparr>t_events := kept\<rparr> \<and>
             n = int (length (t_events (db_tab db))) - int (length kept)))"
proof -
  have ok: "tables_ok (db_tab db')"
    using other_ops_ok(2) [OF assms(1), of c] assms(2) by simp
  have ev: "\<forall>d\<in>set (t_deviations (db_tab db')). de_evidence_event_id d \<in> ev_ID ` set (t_events (db_tab db'))"
    using tables_okD(4) [OF ok] by (simp add: deviations_ok_def)
  obtain q where q: "stmt (delete_events c) db = (q, db')" "res = (case q of Inl e \<Rightarrow> Inl (Wrap ''prune events'' e) | Inr n \<Rightarrow> Inr n)"
    using assms(2) by (auto simp: sqlite_PruneEvents_def wrap_err_def split: prod.splits sum.splits)
  from q(1) show ?thesis
  proof (cases rule: stmt_cases)
    case (ok n)
    let ?kept = "filter (\<lambda>e. c \<le> ev_TsNS e \<or> ev_ID e \<in> de_evidence_event_id ` set (t_deviations (db_tab db))) (t_events (db_tab db))"
    have new: "db_tab db' = (db_tab db)\<lparr>t_events := ?kept\<rparr>" and n: "n = int (length (t_events (db_tab db))) - int (length ?kept)"
      using ok(1) by (simp_all add: delete_events_effect Let_def)
    have "t_deviations (db_tab db') = t_deviations (db_tab db)" by (simp add: new)
    then show ?thesis using ev q(2) ok(2) new n by (simp add: Let_def)
  qed (use q(2) ev in \<open>auto simp: delete_events_def Let_def\<close>)
qed

theorem PruneEvents_keeps_evidence_witness:
  "\<exists>res db'. sqlite_PruneEvents 100 (demo_db []) = (res, db') \<and>
    (\<forall>d\<in>set (t_deviations (db_tab db')). de_evidence_event_id d \<in> ev_ID ` set (t_events (db_tab db')))"
proof -
  obtain res db' where out: "sqlite_PruneEvents 100 (demo_db []) = (res, db')" by fastforce
  with PruneEvents_keeps_evidence [OF demo_db_facts(1) out] show ?thesis by blast
qed

section \<open>Runs\<close>

lemma CreateRun_reliable:
  assumes "reliable db"
  shows "\<not> RunState_IsValid (run_State r) \<Longrightarrow> \<exists>e. sqlite_CreateRun now r db = (Inl e, db)"
    and "RunState_IsValid (run_State r) \<Longrightarrow> run_ID r \<in> rn_id ` set (t_runs (db_tab db)) \<Longrightarrow>
      sqlite_CreateRun now r db = (Inl ErrConflict, db)"
    and "RunState_IsValid (run_State r) \<Longrightarrow> run_ID r \<notin> rn_id ` set (t_runs (db_tab db)) \<Longrightarrow>
      \<exists>db'. sqlite_CreateRun now r db = (Inr (), db') \<and> reliable db' \<and>
        sqlite_GetRun (run_ID r) db' = (Inr (r\<lparr>run_StartedAt := (case run_StartedAt r of None \<Rightarrow> Some now | Some t \<Rightarrow> Some t),
           run_EventsEmitted := 0, run_EventsDropped := 0, run_DurationNS := 0\<rparr>), db')"
proof -
  assume "\<not> RunState_IsValid (run_State r)"
  then show "\<exists>e. sqlite_CreateRun now r db = (Inl e, db)" by (simp add: sqlite_CreateRun_def)
next
  assume "RunState_IsValid (run_State r)" "run_ID r \<in> rn_id ` set (t_runs (db_tab db))"
  then show "sqlite_CreateRun now r db = (Inl ErrConflict, db)"
    using assms isUniqueViolation_cases(1)
    by (auto simp: sqlite_CreateRun_def stmt_reliable insert_run_def encode_run_def Let_def)
next
  let ?r = "if run_StartedAt r = None then r\<lparr>run_StartedAt := Some now\<rparr> else r"
  assume a: "RunState_IsValid (run_State r)" "run_ID r \<notin> rn_id ` set (t_runs (db_tab db))"
  have id: "rn_id (encode_run ?r) = run_ID r" by (simp add: encode_run_def)
  let ?db = "db\<lparr>db_tab := (db_tab db)\<lparr>t_runs := t_runs (db_tab db) @ [encode_run ?r]\<rparr>\<rparr>"
  have "find (\<lambda>x. rn_id x = run_ID r) (t_runs (db_tab db)) = None"
    using a(2) by (simp add: find_None_not_in)
  then have f: "find (\<lambda>x. rn_id x = run_ID r) (t_runs (db_tab db) @ [encode_run ?r]) = Some (encode_run ?r)"
    using id by (simp add: find_append)
  have "sqlite_CreateRun now r db = (Inr (), ?db)"
    using a assms id by (simp add: sqlite_CreateRun_def stmt_reliable insert_run_def Let_def del: if_split)
  moreover have "sqlite_GetRun (run_ID r) ?db = (Inr (scanRun (encode_run ?r)), ?db)"
    using assms f by (simp add: sqlite_GetRun_def del: if_split)
  moreover have "scanRun (encode_run ?r) = r\<lparr>run_StartedAt := (case run_StartedAt r of None \<Rightarrow> Some now | Some t \<Rightarrow> Some t),
           run_EventsEmitted := 0, run_EventsDropped := 0, run_DurationNS := 0\<rparr>"
    by (cases "run_StartedAt r") (simp_all add: scanRun_encode_run)
  ultimately show "\<exists>db'. sqlite_CreateRun now r db = (Inr (), db') \<and> reliable db' \<and>
        sqlite_GetRun (run_ID r) db' = (Inr (r\<lparr>run_StartedAt := (case run_StartedAt r of None \<Rightarrow> Some now | Some t \<Rightarrow> Some t),
           run_EventsEmitted := 0, run_EventsDropped := 0, run_DurationNS := 0\<rparr>), db')"
    using assms by (intro exI [of _ ?db]) (simp del: if_split)
qed

text \<open>
  Creating a run and reading it back: a run with a fresh id and a defined state is
  stored as given, its counters at zero and its start stamped when it had none; an id that
  is taken is a conflict and an undefined state an error, and both leave the tables as they
  were.
\<close>

theorem CreateRun_GetRun:
  assumes "reliable db"
  shows "(\<not> RunState_IsValid (run_State r) \<longrightarrow> (\<exists>e. sqlite_CreateRun now r db = (Inl e, db))) \<and>
    (RunState_IsValid (run_State r) \<longrightarrow> run_ID r \<in> rn_id ` set (t_runs (db_tab db)) \<longrightarrow>
      sqlite_CreateRun now r db = (Inl ErrConflict, db)) \<and>
    (RunState_IsValid (run_State r) \<longrightarrow> run_ID r \<notin> rn_id ` set (t_runs (db_tab db)) \<longrightarrow>
      (\<exists>db'. sqlite_CreateRun now r db = (Inr (), db') \<and> reliable db' \<and>
        sqlite_GetRun (run_ID r) db' = (Inr (r\<lparr>run_StartedAt := (case run_StartedAt r of None \<Rightarrow> Some now | Some t \<Rightarrow> Some t),
           run_EventsEmitted := 0, run_EventsDropped := 0, run_DurationNS := 0\<rparr>), db')))"
  using CreateRun_reliable [OF assms, of r now] by blast

theorem CreateRun_GetRun_witness:
  "sqlite_CreateRun 9 (scanRun (demo_run ''r2'')) (demo_db []) = (Inl ErrConflict, demo_db [])"
  using CreateRun_GetRun [of "demo_db []" "scanRun (demo_run ''r2'')" 9]
  by (auto simp: scanRun_def demo_run_def demo_tables_def RunState_IsValid_def)

section \<open>Short ids\<close>

text \<open>
  Resolving a non-empty short id without wildcard characters: the ids that agree with
  it, letters without regard to case, decide. One such run is returned, none is
  \<open>ErrNotFound\<close>, several are \<open>ErrAmbiguous\<close>.
\<close>

theorem ResolveRunPrefix_unique:
  assumes "reliable db" "p \<noteq> []" "CHR ''%'' \<notin> set p" "CHR ''_'' \<notin> set p"
  defines "ms \<equiv> filter (\<lambda>r. length p \<le> length (rn_id r) \<and> ToLower p = ToLower (take (length p) (rn_id r))) (t_runs (db_tab db))"
  shows "sqlite_ResolveRunPrefix p db =
    ((case ms of [] \<Rightarrow> Inl ErrNotFound | [r] \<Rightarrow> Inr (scanRun r) | _ \<Rightarrow> Inl ErrAmbiguous), db)"
proof -
  have "filter (\<lambda>r. like lower_char (p @ ''%'') (rn_id r)) (t_runs (db_tab db)) = ms"
    using like_prefix [OF assms(3,4), of lower_char] by (simp add: ms_def ToLower_def)
  then have "resolve_matches rn_id p (t_runs (db_tab db)) = take 2 ms"
    by (simp add: resolve_matches_def limit_rows_def)
  moreover have "(case take 2 ms of [] \<Rightarrow> a | [r] \<Rightarrow> f r | _ \<Rightarrow> c) = (case ms of [] \<Rightarrow> a | [r] \<Rightarrow> f r | _ \<Rightarrow> c)"
    for a :: "err + Run" and f c
    by (simp add: numeral_2_eq_2 split: list.split)
  ultimately show ?thesis
    using assms(1,2) by (auto simp: sqlite_ResolveRunPrefix_def resolve_def split: list.splits)
qed

theorem ResolveRunPrefix_unique_witness:
  "sqlite_ResolveRunPrefix ''R'' (demo_db []) = (Inl ErrAmbiguous, demo_db []) \<and>
   fst (sqlite_ResolveRunPrefix ''R2'' (demo_db [])) = Inr (scanRun (demo_run ''r2''))"
proof -
  have "ToLower ''R'' = ''r''" "ToLower ''R2'' = ''r2''" "ToLower ''r'' = ''r''" "ToLower ''r1'' = ''r1''" "ToLower ''r2'' = ''r2''"
    by (code_simp, code_simp, code_simp, code_simp, code_simp)
  then show ?thesis
    using ResolveRunPrefix_unique [of "demo_db []" "''R''"] ResolveRunPrefix_unique [of "demo_db []" "''R2''"]
    by (simp add: demo_tables_def demo_run_def)
qed

lemma like_percents: "like fc ''%%'' s"
  by (cases s) (simp_all add: like_percent [simplified])

text \<open>
  The prefix is used as a \<open>LIKE\<close> pattern unescaped: a percent sign resolves to
  the only run of a database although no run id starts with it.
\<close>

theorem ResolveRunPrefix_wildcard:
  "reliable db \<Longrightarrow> t_runs (db_tab db) = [r] \<Longrightarrow> sqlite_ResolveRunPrefix ''%'' db = (Inr (scanRun r), db)"
  by (simp add: sqlite_ResolveRunPrefix_def resolve_def resolve_matches_def limit_rows_def like_percents)

theorem ResolveRunPrefix_wildcard_witness:
  "fst (sqlite_ResolveRunPrefix ''%'' \<lparr>db_tab = empty_tables\<lparr>t_runs := [demo_run ''0a'']\<rparr>, db_faults = []\<rparr>) =
     Inr (scanRun (demo_run ''0a''))"
  using ResolveRunPrefix_wildcard [of "\<lparr>db_tab = empty_tables\<lparr>t_runs := [demo_run ''0a'']\<rparr>, db_faults = []\<rparr>" "demo_run ''0a''"]
  by simp

section \<open>Timestamps as text\<close>

text \<open>
  Instants survive the text columns, but their text order is not the order of time:
  the formatted fraction drops trailing zeros and the final \<open>Z\<close> sorts after digits, so
  an instant a microsecond later than a whole tenth sorts before it.
\<close>

theorem timestamp_text_order:
  "(\<forall>t. parse_time (format_time t) = t) \<and>
   (100000000 :: int) < 100001000 \<and> format_time 100001000 < format_time 100000000"
proof (intro conjI allI)
  show "format_time 100001000 < format_time 100000000" by code_simp
qed simp_all

end
