(* ===== verification/Api_Props.thy ===== *)
theory Api_Props
  imports Api_Timers Sqlite_Props
begin

text \<open>
  Properties of the orchestrator's server: what the ingestion of events leaves in the
  database, how a submitted scan reaches its runner, and who is registered.
\<close>

section \<open>Ingestion\<close>

definition stream_rows :: "(nat \<Rightarrow> time) \<Rightarrow> nat \<Rightarrow> string \<Rightarrow> EventEnvelope list \<Rightarrow> EventRow list" where
  "stream_rows clock n i es = map (\<lambda>(k, e). \<lparr>ev_ID = 0, ev_RunID = i, ev_TsNS = clock k,
      ev_Type = EventType_String (ee_Type e), ev_Data = Some (ee_Payload e)\<rparr>) (enumerate n es)"

lemma batch_rows_stream: "batch_rows clock n i b = stream_rows clock n i (eb_Events b)"
  unfolding batch_rows_def stream_rows_def
  by (rule nth_equalityI) (simp_all add: nth_enumerate_eq case_prod_beta)

lemma stream_rows_append:
  "stream_rows clock n i (xs @ ys) = stream_rows clock n i xs @ stream_rows clock (n + length xs) i ys"
  by (simp add: stream_rows_def enumerate_append_eq)

lemma length_stream_rows [simp]: "length (stream_rows clock n i es) = length es"
  by (simp add: stream_rows_def)

lemma numbered_Nil [simp]: "numbered i n [] = []"
  by (simp add: numbered_def)

lemma numbered_append: "numbered i n (xs @ ys) = numbered i n xs @ numbered i (n + int (length xs)) ys"
  by (induction xs arbitrary: n) (simp_all add: numbered_Cons add.assoc)

definition append_tab :: "string \<Rightarrow> EventRow list \<Rightarrow> tables \<Rightarrow> tables" where
  "append_tab i es t = t\<lparr>t_events := t_events t @ numbered i (t_seq t) es, t_seq := t_seq t + int (length es)\<rparr>"

lemma append_tab_runs [simp]: "t_runs (append_tab i es t) = t_runs t"
  by (simp add: append_tab_def)

lemma append_tab_append: "append_tab i ys (append_tab i xs t) = append_tab i (xs @ ys) t"
  by (simp add: append_tab_def numbered_append)

lemma append_tab_Nil [simp]: "append_tab i [] t = t"
  by (simp add: append_tab_def)

lemma AppendEvents_reliable:
  "reliable db \<Longrightarrow> i \<in> rn_id ` set (t_runs (db_tab db)) \<Longrightarrow>
   be_AppendEvents sqlite_Backend i es db = (Inr (), db\<lparr>db_tab := append_tab i es (db_tab db)\<rparr>)"
  by (simp add: sqlite_AppendEvents_def append_tab_def in_tx_reliable [OF _ insert_events_fold])

lemma ingest_reliable:
  assumes "sv_store s = Some sqlite_Backend" "reliable (sv_db s)" "i \<in> rn_id ` set (t_runs (db_tab (sv_db s)))"
  shows "\<exists>m. ingest clock i bs (nb, ne, np) n s =
    ((nb + int (length bs), ne + int (length (concat (map eb_Events bs))), np + int (length (concat (map eb_Events bs)))),
     s\<lparr>sv_db := (sv_db s)\<lparr>db_tab := append_tab i (stream_rows clock n i (concat (map eb_Events bs))) (db_tab (sv_db s))\<rparr>,
       sv_metrics := m\<rparr>)"
  using assms
proof (induction bs arbitrary: nb ne np n s)
  case Nil
  then show ?case by (intro exI [of _ "sv_metrics s"]) (simp add: stream_rows_def)
next
  case (Cons b bs)
  let ?s = "s\<lparr>sv_metrics := observe_batch b (sv_metrics s)\<rparr>"
  let ?rows = "stream_rows clock n i (eb_Events b)"
  let ?s' = "?s\<lparr>sv_db := (sv_db s)\<lparr>db_tab := append_tab i ?rows (db_tab (sv_db s))\<rparr>\<rparr>"
  let ?k = "int (length (eb_Events b))"
  have empty: "?s' = ?s" if "eb_Events b = []"
    using that by (simp add: stream_rows_def)
  have "ingest clock i (b # bs) (nb, ne, np) n s = ingest clock i bs (nb + 1, ne + ?k, np + ?k) (n + length (eb_Events b)) ?s'"
    using Cons.prems AppendEvents_reliable [OF Cons.prems(2,3), of ?rows] empty
    by (simp add: batch_rows_stream Let_def)
  moreover obtain m where "ingest clock i bs (nb + 1, ne + ?k, np + ?k) (n + length (eb_Events b)) ?s' =
    ((nb + 1 + int (length bs), ne + ?k + int (length (concat (map eb_Events bs))), np + ?k + int (length (concat (map eb_Events bs)))),
     ?s'\<lparr>sv_db := (sv_db ?s')\<lparr>db_tab := append_tab i (stream_rows clock (n + length (eb_Events b)) i (concat (map eb_Events bs))) (db_tab (sv_db ?s'))\<rparr>,
       sv_metrics := m\<rparr>)"
    using Cons.IH [of ?s'] Cons.prems by fastforce
  ultimately show ?case
    by (intro exI [of _ m]) (simp add: append_tab_append stream_rows_append add.assoc)
qed

definition events_done :: "time \<Rightarrow> string \<Rightarrow> EventRow list \<Rightarrow> tables \<Rightarrow> tables" where
  "events_done now i es t = (append_tab i es t)\<lparr>t_runs :=
     upd_where (\<lambda>r. rn_id r = i) (set_state (format_time now) RunStateDone []) (t_runs t)\<rparr>"

lemma handleEvents_reliable:
  assumes "sv_store s = Some sqlite_Backend" "reliable (sv_db s)" "i \<noteq> []"
    and "i \<in> rn_id ` set (t_runs (db_tab (sv_db s)))"
  shows "\<exists>m. handleEvents clock now i bs None s =
    ((200, BEvents (int (length bs)) (int (length (concat (map eb_Events bs)))) (int (length (concat (map eb_Events bs))))),
     s\<lparr>sv_db := (sv_db s)\<lparr>db_tab := events_done now i (stream_rows clock 0 i (concat (map eb_Events bs))) (db_tab (sv_db s))\<rparr>,
       sv_metrics := m, sv_timers := arm now i (sv_timers s)\<rparr>)"
proof -
  let ?es = "concat (map eb_Events bs)" and ?t = "db_tab (sv_db s)"
  let ?t' = "append_tab i (stream_rows clock 0 i ?es) ?t"
  obtain m where m: "ingest clock i bs (0, 0, 0) 0 s =
      ((int (length bs), int (length ?es), int (length ?es)), s\<lparr>sv_db := (sv_db s)\<lparr>db_tab := ?t'\<rparr>, sv_metrics := m\<rparr>)"
    using ingest_reliable [OF assms(1,2,4), of clock bs 0 0 0 0] by auto
  have valid: "RunState_IsValid RunStateDone" by (simp add: RunState_IsValid_def)
  have "snd (be_UpdateRunState sqlite_Backend now i RunStateDone [] ((sv_db s)\<lparr>db_tab := ?t'\<rparr>)) =
      (sv_db s)\<lparr>db_tab := events_done now i (stream_rows clock 0 i ?es) ?t\<rparr>"
    using assms(2) by (simp add: sqlite_UpdateRunState_def valid stmt_reliable update_runs_def events_done_def)
  then show ?thesis
    using assms(1,3) m by (intro exI [of _ m]) (simp add: handleEvents_def writeJSON_def scheduleDiffer_def)
qed


definition demo_envelope :: "string \<Rightarrow> EventEnvelope" where
  "demo_envelope q = \<lparr>ee_Type = 4, ee_Payload = JObj [(''QName'', JStr q)]\<rparr>"

definition demo_server :: "sqlite Server" where
  "demo_server = (new_Server \<lparr>op_OrchestratorID = [], op_Version = [], op_Dispatcher = None, op_Storage = Some sqlite_Backend,
     op_Notifier = False, op_DefaultWatchedPaths = []\<rparr> (demo_db []))"

lemma demo_server_simps [simp]:
  "sv_store demo_server = Some sqlite_Backend" "sv_db demo_server = demo_db []"
  by (simp_all add: demo_server_def new_Server_def)


section \<open>Results\<close>

lemma RecordScanResult_reliable:
  assumes "reliable db" "i \<in> rn_id ` set (t_runs (db_tab db))"
  shows "be_RecordScanResult sqlite_Backend now i w db = (Inr (), db\<lparr>db_tab := (db_tab db)\<lparr>t_runs :=
      upd_where (\<lambda>r. rn_id r = i) (set_result (format_time now) w) (t_runs (db_tab db))\<rparr>\<rparr>)"
proof -
  have "affected (\<lambda>r. rn_id r = i) (t_runs (db_tab db)) \<noteq> 0" using assms(2) by auto
  then show ?thesis
    using assms(1) by (simp add: sqlite_RecordScanResult_def must_affect_def wrap_err_def stmt_reliable update_runs_def del: affected_0_iff)
qed

text \<open>
  The state of a run follows the last request, not the outcome of the scan: a run
  whose result was recorded as failed is shown as done once an event request for it
  arrives afterwards, its failure reason still set.
\<close>

theorem failed_run_shown_done:
  assumes "sv_store s = Some sqlite_Backend" "reliable (sv_db s)" "i \<noteq> []"
    and "find (\<lambda>r. rn_id r = i) (t_runs (db_tab (sv_db s))) = Some r"
    and "ws_Status w = ''failed''" "ws_Reason w \<noteq> []"
    and "handleScanResult t1 i (Inr w) s = (a1, s1)"
    and "handleEvents clock t2 i bs None s1 = (a2, s2)"
  shows "map_option (\<lambda>x. (rn_state x, rn_failure_reason x)) (find (\<lambda>r. rn_id r = i) (t_runs (db_tab (sv_db s1)))) =
      Some (RunStateFailed, ws_Reason w) \<and>
    map_option (\<lambda>x. (rn_state x, rn_failure_reason x)) (find (\<lambda>r. rn_id r = i) (t_runs (db_tab (sv_db s2)))) =
      Some (RunStateDone, ws_Reason w)"
proof -
  note r = find_Some_in [OF assms(4)]
  then have "i \<in> rn_id ` set (t_runs (db_tab (sv_db s)))" by auto
  then have s1: "sv_store s1 = Some sqlite_Backend" "sv_db s1 = (sv_db s)\<lparr>db_tab := (db_tab (sv_db s))\<lparr>t_runs :=
      upd_where (\<lambda>r. rn_id r = i) (set_result (format_time t1) (to_storage_result w)) (t_runs (db_tab (sv_db s)))\<rparr>\<rparr>"
    using assms(1,2,3,5,7) RecordScanResult_reliable [OF assms(2)] by (auto simp: handleScanResult_def)
  let ?w = "set_result (format_time t1) (to_storage_result w)"
  let ?d = "set_state (format_time t2) RunStateDone []"
  have runs1: "t_runs (db_tab (sv_db s1)) = upd_where (\<lambda>r. rn_id r = i) ?w (t_runs (db_tab (sv_db s)))" by (simp add: s1(2))
  have 1: "find (\<lambda>r. rn_id r = i) (t_runs (db_tab (sv_db s1))) = Some (?w r)"
    using r assms(4) unfolding runs1 by (subst find_upd_where) (auto simp: set_result_def)
  then have "i \<in> rn_id ` set (t_runs (db_tab (sv_db s1)))" by (metis find_None_not_in option.distinct(1))
  moreover have "reliable (sv_db s1)" using assms(2) s1(2) by simp
  ultimately obtain m where "s2 = s1\<lparr>sv_db := (sv_db s1)\<lparr>db_tab := events_done t2 i (stream_rows clock 0 i (concat (map eb_Events bs))) (db_tab (sv_db s1))\<rparr>,
       sv_metrics := m, sv_timers := arm t2 i (sv_timers s1)\<rparr>"
    using handleEvents_reliable [OF s1(1) _ assms(3), of clock t2 bs] assms(8) by auto
  then have runs2: "t_runs (db_tab (sv_db s2)) = upd_where (\<lambda>r. rn_id r = i) ?d (t_runs (db_tab (sv_db s1)))"
    by (simp add: events_done_def)
  have 2: "find (\<lambda>r. rn_id r = i) (t_runs (db_tab (sv_db s2))) = Some (?d (?w r))"
    using r 1 unfolding runs2 by (subst find_upd_where) (auto simp: set_state_def set_result_def)
  show ?thesis
    using assms(5,6) by (simp add: 1 2 set_state_def set_result_def result_state_def to_storage_result_def)
qed

definition demo_failure :: WireScanResult where
  "demo_failure = \<lparr>ws_RunID = [], ws_Status = ''failed'', ws_Reason = ''exit 1'', ws_EventsEmitted = 0,
     ws_EventsDropped = 0, ws_Duration = 0\<rparr>"

theorem failed_run_shown_done_witness:
  "\<exists>s1 s2. s1 = snd (handleScanResult 5 ''r2'' (Inr demo_failure) demo_server) \<and>
     s2 = snd (handleEvents (\<lambda>_. 6) 7 ''r2'' [] None s1) \<and>
     map_option rn_state (find (\<lambda>r. rn_id r = ''r2'') (t_runs (db_tab (sv_db s2)))) = Some RunStateDone"
proof -
  have f: "find (\<lambda>r. rn_id r = ''r2'') (t_runs (db_tab (sv_db demo_server))) = Some (demo_run ''r2'')"
    by (simp add: demo_tables_def demo_run_def)
  obtain a1 s1 where 1: "handleScanResult 5 ''r2'' (Inr demo_failure) demo_server = (a1, s1)" by fastforce
  obtain a2 s2 where 2: "handleEvents (\<lambda>_. 6) 7 ''r2'' [] None s1 = (a2, s2)" by fastforce
  from failed_run_shown_done [OF _ _ _ f _ _ 1 2]
  show ?thesis using 1 2 by (intro exI [of _ s1] exI [of _ s2]) (auto simp: demo_failure_def)
qed

section \<open>Scans\<close>

fun poll_times :: "nat \<Rightarrow> string \<Rightarrow> 'db Server \<Rightarrow> response list \<times> 'db Server" where
  "poll_times 0 r s = ([], s)"
| "poll_times (Suc n) r s =
     (let (a, s1) = handlePollJob [] r s; (as, s2) = poll_times n r s1 in (a # as, s2))"

lemma handlePollJob_queued:
  assumes "r \<noteq> []" "map_of (sv_runners s) r \<noteq> None" "d_queues (sv_dispatcher s) r = j # js"
  shows "\<exists>d. handlePollJob arrivals r s = ((200, BJob j), s\<lparr>sv_dispatcher := d\<rparr>) \<and> d_queues d r = js"
proof -
  let ?d = "(sv_dispatcher s)\<lparr>d_queues := (d_queues (sv_dispatcher s))(r := js)\<rparr>"
  have "handlePollJob arrivals r s = ((200, BJob j), s\<lparr>sv_dispatcher := ?d\<rparr>)"
    using assms by (auto simp: handlePollJob_def PollJob.simps [of arrivals] try_take_def writeJSON_def)
  then show ?thesis by (intro exI [of _ ?d]) simp
qed

lemma poll_times_queued:
  assumes "r \<noteq> []" "map_of (sv_runners s) r \<noteq> None" "d_queues (sv_dispatcher s) r = js"
  shows "fst (poll_times (length js) r s) = map (\<lambda>j. (200, BJob j)) js"
  using assms(2,3)
proof (induction js arbitrary: s)
  case (Cons j js)
  then obtain d where "handlePollJob [] r s = ((200, BJob j), s\<lparr>sv_dispatcher := d\<rparr>)" "d_queues d r = js"
    using handlePollJob_queued [OF assms(1)] by metis
  with Cons show ?case by (simp add: case_prod_beta)
qed simp

text \<open>The answer to a submission, and the polls of the runner after it.\<close>

lemma queue_scan_unknown:
  "r \<noteq> [] \<Longrightarrow> map_of (sv_runners s) r = None \<Longrightarrow>
   handleQueueScan now (Inr (r, job)) s = ((404, BError (''target_runner '' @ Quote r @ '' not registered'')), s)"
  by (simp add: handleQueueScan_def SubmitScan_def writeError_def writeJSON_def)

lemma queue_scan_known:
  fixes s :: "'db Server" and now :: time and job :: Job
  assumes "r \<noteq> []" "map_of (sv_runners s) r \<noteq> None"
  defines "j \<equiv> fill_job now (sv_defaultWatchedPaths s) job"
  defines "js \<equiv> d_queues (sv_dispatcher s) r"
  shows "\<exists>s1. handleQueueScan now (Inr (r, job)) s = ((202, BQueued (hex_bytes (jb_RunID j))), s1) \<and>
    fst (poll_times (length js + 1) r s1) = map (\<lambda>j. (200, BJob j)) (js @ [j])"
proof -
  let ?s1 = "snd (handleQueueScan now (Inr (r, job)) s)"
  have ok: "fst (handleQueueScan now (Inr (r, job)) s) = (202, BQueued (hex_bytes (jb_RunID j)))"
      "map_of (sv_runners ?s1) r \<noteq> None" "d_queues (sv_dispatcher ?s1) r = js @ [j]"
    using assms(1,2) by (auto simp: handleQueueScan_def SubmitScan_def Let_def writeJSON_def j_def js_def)
  then show ?thesis
    using poll_times_queued [OF assms(1) ok(2,3)] by (intro exI [of _ ?s1]) (simp add: prod_eq_iff)
qed

text \<open>
  A scan queued for a registered runner is answered with the id of its run, and the
  runner's next polls return the jobs queued before it and then this one, complete: with
  a kind, a duration and an id, the configured paths when it named none, and the time of
  its dispatch. For a runner that is not registered nothing changes.
\<close>

theorem queued_scan_delivered:
  assumes "r \<noteq> []"
  shows "let (resp, s1) = handleQueueScan now (Inr (r, job)) s;
      job' = fill_job now (sv_defaultWatchedPaths s) job; js = d_queues (sv_dispatcher s) r
    in (map_of (sv_runners s) r = None \<longrightarrow> fst resp = 404 \<and> s1 = s) \<and>
       (map_of (sv_runners s) r \<noteq> None \<longrightarrow>
          resp = (202, BQueued (hex_bytes (jb_RunID job'))) \<and>
          fst (poll_times (length js + 1) r s1) = map (\<lambda>j. (200, BJob j)) (js @ [job'])) \<and>
       jb_Kind job' \<noteq> [] \<and> jb_Duration job' \<noteq> 0 \<and> jb_DispatchedAt job' = now"
proof -
  have "jb_Kind (fill_job now (sv_defaultWatchedPaths s) job) \<noteq> [] \<and> jb_Duration (fill_job now (sv_defaultWatchedPaths s) job) \<noteq> 0 \<and>
      jb_DispatchedAt (fill_job now (sv_defaultWatchedPaths s) job) = now"
    by (simp add: fill_job_def second_def)
  then show ?thesis
    using queue_scan_unknown [OF assms, of s now job] queue_scan_known [OF assms, of s now job]
    by (auto simp: Let_def case_prod_beta)
qed

definition demo_registration :: RunnerRegistration where
  "demo_registration = \<lparr>rr_RunnerID = ''a'', rr_Hostname = [], rr_Capabilities = [], rr_KernelVersion = [],
     rr_ProtoVersion = CurrentProtoVersion\<rparr>"

definition demo_job :: Job where
  "demo_job = \<lparr>jb_RunID = replicate 16 0, jb_Kind = [], jb_PackageName = ''left-pad'', jb_Version = ''1.0.0'',
     jb_CgroupPath = [], jb_WatchedPaths = [], jb_Duration = 0, jb_DispatchedAt = 0, jb_Sandbox = None\<rparr>"

definition demo_registered :: "sqlite Server" where
  "demo_registered = snd (handleRegister 1 (Inr demo_registration) demo_server)"

theorem queued_scan_delivered_witness:
  "fst (poll_times 1 ''a'' (snd (handleQueueScan 5 (Inr (''a'', demo_job)) demo_registered))) =
     [(200, BJob (fill_job 5 [] demo_job))]"
proof -
  have "map_of (sv_runners demo_registered) ''a'' \<noteq> None" "d_queues (sv_dispatcher demo_registered) ''a'' = []"
       "sv_defaultWatchedPaths demo_registered = []"
    by (simp_all add: demo_registered_def handleRegister_def demo_registration_def demo_server_def new_Server_def new_Dispatcher_def)
  then show ?thesis
    using queued_scan_delivered [of "''a''" 5 demo_job demo_registered] by (simp add: Let_def case_prod_beta)
qed

text \<open>
  Submitting a scan creates its run: on a database that does not fail, an id no run
  has yet is stored as a pending first attempt of the package, named by the image when the
  job names no package; with an id that is taken the database stays as it is and the job
  is queued all the same.
\<close>

theorem SubmitScan_creates_run:
  assumes "sv_store s = Some sqlite_Backend" "reliable (sv_db s)" "map_of (sv_runners s) r \<noteq> None"
    and "SubmitScan now r job s = (res, s')"
  shows "\<exists>i. res = Inr i \<and>
    (if i \<in> rn_id ` set (t_runs (db_tab (sv_db s))) then sv_db s' = sv_db s
     else \<exists>x. sqlite_GetRun i (sv_db s') = (Inr x, sv_db s') \<and> run_ID x = i \<and> run_State x = RunStatePending \<and>
       run_Attempt x = 1 \<and> run_StartedAt x = Some now \<and> run_Version x = jb_Version job \<and>
       (jb_PackageName job \<noteq> [] \<longrightarrow> run_PackageName x = jb_PackageName job) \<and>
       (\<forall>sb. jb_PackageName job = [] \<longrightarrow> jb_Sandbox job = Some sb \<longrightarrow> run_PackageName x = sb_Image sb))"
proof -
  let ?j = "fill_job now (sv_defaultWatchedPaths s) job"
  let ?run = "run_of_job ?j"
  define i where "i = hex_bytes (jb_RunID ?j)"
  have res: "res = Inr i" and db: "sv_db s' = snd (sqlite_CreateRun now ?run (sv_db s))"
    using assms(1,3,4) by (auto simp: SubmitScan_def Let_def i_def)
  have run: "run_ID ?run = i" "RunState_IsValid (run_State ?run)" "run_StartedAt ?run = None"
      "run_State ?run = RunStatePending" "run_Attempt ?run = 1" "run_Version ?run = jb_Version job"
      "jb_PackageName job \<noteq> [] \<Longrightarrow> run_PackageName ?run = jb_PackageName job"
      "jb_PackageName job = [] \<Longrightarrow> jb_Sandbox job = Some sb \<Longrightarrow> run_PackageName ?run = sb_Image sb" for sb
    by (auto simp: run_of_job_def i_def RunState_IsValid_def fill_job_def split: option.split)
  show ?thesis
  proof (cases "i \<in> rn_id ` set (t_runs (db_tab (sv_db s)))")
    case True
    then have "sv_db s' = sv_db s"
      using db CreateRun_reliable(2) [OF assms(2) run(2)] run(1) by simp
    then show ?thesis using res True by simp
  next
    case False
    then obtain db' where "sqlite_CreateRun now ?run (sv_db s) = (Inr (), db')"
        "sqlite_GetRun i db' = (Inr (?run\<lparr>run_StartedAt := Some now, run_EventsEmitted := 0, run_EventsDropped := 0, run_DurationNS := 0\<rparr>), db')"
      using CreateRun_reliable(3) [OF assms(2) run(2), of now] run(1,3) by auto
    then show ?thesis using res db False run by auto
  qed
qed

theorem SubmitScan_creates_run_witness:
  "\<exists>i s'. SubmitScan 5 ''a'' demo_job demo_registered = (Inr i, s') \<and>
     (i \<in> {''r1'', ''r2''} \<or> (\<exists>x. sqlite_GetRun i (sv_db s') = (Inr x, sv_db s') \<and> run_PackageName x = ''left-pad''))"
proof -
  have r: "sv_store demo_registered = Some sqlite_Backend" "sv_db demo_registered = demo_db []"
       "map_of (sv_runners demo_registered) ''a'' \<noteq> None"
    by (simp_all add: demo_registered_def handleRegister_def demo_registration_def update_conv')
  obtain res s' where out: "SubmitScan 5 ''a'' demo_job demo_registered = (res, s')" by fastforce
  have "rn_id ` set (t_runs (db_tab (sv_db demo_registered))) = {''r1'', ''r2''}"
    by (simp add: r(2) demo_tables_def demo_run_def)
  with SubmitScan_creates_run [OF r(1) _ r(3) out] out show ?thesis
    by (auto simp: r(2) demo_job_def split: if_splits)
qed

section \<open>The registry\<close>

text \<open>
  A request or background task of the server at an instant \<open>now\<close>; \<open>cutoff\<close> is the pruner's,
  90 seconds in \<open>ServeWith\<close>.
\<close>

inductive server_step :: "duration \<Rightarrow> time \<Rightarrow> 'db Server \<Rightarrow> 'db Server \<Rightarrow> bool" for cutoff now where
  health: "server_step cutoff now s (snd (handleHealth s))"
| register: "server_step cutoff now s (snd (handleRegister now reg s))"
| heartbeat: "server_step cutoff now s (snd (handleHeartbeat now i hb s))"
| poll: "server_step cutoff now s (snd (handlePollJob arrivals i s))"
| scan: "server_step cutoff now s (snd (handleQueueScan now q s))"
| events: "server_step cutoff now s (snd (handleEvents clock now i bs bad s))"
| result: "server_step cutoff now s (snd (handleScanResult now i w s))"
| prune: "server_step cutoff now s (prune_runners now cutoff s)"
| fire: "server_step cutoff now s (timer_fires ord newID clock a s)"

inductive server_run :: "duration \<Rightarrow> time \<Rightarrow> 'db Server \<Rightarrow> time \<Rightarrow> 'db Server \<Rightarrow> bool" for cutoff t0 s0 where
  start: "server_run cutoff t0 s0 t0 s0"
| step: "server_run cutoff t0 s0 t s \<Longrightarrow> t \<le> t' \<Longrightarrow> server_step cutoff t' s s' \<Longrightarrow> server_run cutoff t0 s0 t' s'"

definition registry_ok :: "time \<Rightarrow> 'db Server \<Rightarrow> bool" where
  "registry_ok now s \<longleftrightarrow> distinct (map fst (sv_runners s)) \<and>
     (\<forall>(i, rr)\<in>set (sv_runners s). i \<noteq> [] \<and> rr_RunnerID (rg_Registration rr) = i \<and>
        rr_ProtoVersion (rg_Registration rr) = CurrentProtoVersion \<and>
        rg_RegisteredAt rr \<le> rg_LastSeen rr \<and> rg_LastSeen rr \<le> now)"

lemma ingest_runners [simp]: "sv_runners (snd (ingest clock i bs c n s)) = sv_runners s"
proof (induction bs arbitrary: c n s)
  case (Cons b bs)
  obtain nb ne np where "c = (nb, ne, np)" by (metis prod_cases3)
  with Cons show ?case by (auto simp: Let_def split: option.splits prod.splits sum.splits)
qed simp

lemma runners_frame [simp]:
  "sv_runners (snd (handleHealth s)) = sv_runners s"
  "sv_runners (snd (handlePollJob arrivals i s)) = sv_runners s"
  "sv_runners (snd (handleQueueScan now q s)) = sv_runners s"
  "sv_runners (snd (handleEvents clock now i bs bad s)) = sv_runners s"
  "sv_runners (snd (handleScanResult now i w s)) = sv_runners s"
  "sv_runners (timer_fires ord newID clock' a s) = sv_runners s"
proof -
  show "sv_runners (snd (handleHealth s)) = sv_runners s" by (simp add: handleHealth_def)
  show "sv_runners (snd (handlePollJob arrivals i s)) = sv_runners s"
    by (auto simp: handlePollJob_def split: prod.splits option.splits)
  show "sv_runners (snd (handleQueueScan now q s)) = sv_runners s"
    by (auto simp: handleQueueScan_def SubmitScan_def Let_def split: sum.splits prod.splits if_splits)
  show "sv_runners (snd (handleEvents clock now i bs bad s)) = sv_runners s"
    using ingest_runners [of clock i bs "(0, 0, 0)" 0 s] unfolding split_beta
    by (auto simp del: ingest_runners simp: handleEvents_def scheduleDiffer_def Let_def split: option.splits prod.splits)
  show "sv_runners (snd (handleScanResult now i w s)) = sv_runners s"
    by (auto simp: handleScanResult_def split: sum.splits prod.splits option.splits)
  show "sv_runners (timer_fires ord newID clock' a s) = sv_runners s"
    by (auto simp: timer_fires_def timer_body_def Let_def split: option.splits prod.splits sum.splits)
qed

lemma registry_ok_later: "registry_ok t s \<Longrightarrow> t \<le> t' \<Longrightarrow> registry_ok t' s"
  by (fastforce simp: registry_ok_def)

lemma registry_ok_cong: "sv_runners s' = sv_runners s \<Longrightarrow> registry_ok t s' = registry_ok t s"
  by (simp add: registry_ok_def)

lemma set_update_cases: "x \<in> set (AList.update i rr xs) \<Longrightarrow> x \<in> set xs \<or> x = (i, rr)"
  by (induction xs) (auto split: if_splits)

lemma registry_ok_update:
  assumes "registry_ok now s" "i \<noteq> []" "rr_RunnerID (rg_Registration rr) = i"
    "rr_ProtoVersion (rg_Registration rr) = CurrentProtoVersion" "rg_RegisteredAt rr \<le> rg_LastSeen rr" "rg_LastSeen rr \<le> now"
  shows "registry_ok now (s\<lparr>sv_runners := AList.update i rr (sv_runners s)\<rparr>)"
proof -
  have "distinct (map fst (AList.update i rr (sv_runners s)))"
    using assms(1) distinct_update by (auto simp: registry_ok_def)
  moreover have "x \<in> set (sv_runners s) \<or> x = (i, rr)" if "x \<in> set (AList.update i rr (sv_runners s))" for x
    using that by (rule set_update_cases)
  ultimately show ?thesis using assms unfolding registry_ok_def by fastforce
qed

lemma register_ok: "registry_ok now s \<Longrightarrow> registry_ok now (snd (handleRegister now reg s))"
  by (auto simp: handleRegister_def intro!: registry_ok_update split: sum.split)

lemma heartbeat_ok:
  assumes "registry_ok now s"
  shows "registry_ok now (snd (handleHeartbeat now i req s))"
proof (cases "\<exists>hb rr. (case req of None \<Rightarrow> Inr zero_Heartbeat | Some r \<Rightarrow> r) = Inr hb \<and> map_of (sv_runners s) i = Some rr \<and> i \<noteq> []")
  case True
  then obtain hb rr where hb: "(case req of None \<Rightarrow> Inr zero_Heartbeat | Some r \<Rightarrow> r) = Inr hb"
      "map_of (sv_runners s) i = Some rr" "i \<noteq> []" by blast
  from map_of_SomeD [OF hb(2)] assms have "registry_ok now (s\<lparr>sv_runners := AList.update i (beat now hb rr) (sv_runners s)\<rparr>)"
    by (intro registry_ok_update) (auto simp: registry_ok_def beat_def)
  then show ?thesis using hb by (simp add: handleHeartbeat_def)
next
  case False
  then have "snd (handleHeartbeat now i req s) = s"
    by (auto simp: handleHeartbeat_def split: sum.splits option.splits)
  then show ?thesis using assms by simp
qed

lemma prune_ok: "registry_ok now s \<Longrightarrow> registry_ok now (prune_runners now cutoff s)"
  by (auto simp: registry_ok_def prune_runners_def distinct_map_filterI)

lemma server_step_ok: "server_step cutoff now s s' \<Longrightarrow> registry_ok now s \<Longrightarrow> registry_ok now s'"
  by (induction rule: server_step.induct) (simp_all add: register_ok heartbeat_ok prune_ok registry_ok_cong [OF runners_frame(1)]
     registry_ok_cong [OF runners_frame(2)] registry_ok_cong [OF runners_frame(3)] registry_ok_cong [OF runners_frame(4)]
     registry_ok_cong [OF runners_frame(5)] registry_ok_cong [OF runners_frame(6)])

lemma server_run_ok: "server_run cutoff t0 s0 t s \<Longrightarrow> registry_ok t0 s0 \<Longrightarrow> t0 \<le> t \<and> registry_ok t s"
  by (induction rule: server_run.induct) (auto intro: server_step_ok registry_ok_later)

text \<open>
  The registry of every server that has run from its start: each runner is there once,
  under the id of its own registration, which is not empty and has the orchestrator's
  protocol version, and was last seen no earlier than it registered and not in the future.
\<close>

theorem registry_invariant:
  assumes "server_run cutoff t0 (new_Server opts db) t s"
  shows "distinct (map fst (sv_runners s)) \<and>
     (\<forall>(i, rr)\<in>set (sv_runners s). i \<noteq> [] \<and> rr_RunnerID (rg_Registration rr) = i \<and>
        rr_ProtoVersion (rg_Registration rr) = CurrentProtoVersion \<and>
        rg_RegisteredAt rr \<le> rg_LastSeen rr \<and> rg_LastSeen rr \<le> t)"
proof -
  have "registry_ok t0 (new_Server opts db)" by (simp add: registry_ok_def new_Server_def)
  with server_run_ok [OF assms] show ?thesis by (simp add: registry_ok_def)
qed

theorem registry_invariant_witness:
  "distinct (map fst (sv_runners demo_registered))"
proof -
  have "server_run 90 0 demo_server 1 demo_registered"
    unfolding demo_registered_def by (rule server_run.step [OF server_run.start _ server_step.register]) simp
  from registry_invariant [OF this [unfolded demo_server_def]] show ?thesis by simp
qed

definition alive :: "time \<Rightarrow> string \<Rightarrow> 'db Server \<Rightarrow> bool" where
  "alive t i s \<longleftrightarrow> (\<exists>rr. map_of (sv_runners s) i = Some rr \<and> t \<le> rg_LastSeen rr)"

lemma alive_update: "alive t i s \<Longrightarrow> t \<le> rg_LastSeen rr \<Longrightarrow> alive t i (s\<lparr>sv_runners := AList.update j rr (sv_runners s)\<rparr>)"
  by (auto simp: alive_def update_conv')

lemma alive_cong: "sv_runners s' = sv_runners s \<Longrightarrow> alive t i s' = alive t i s"
  by (simp add: alive_def)

lemma alive_prune:
  assumes "alive t i s" "now \<le> t + cutoff"
  shows "alive t i (prune_runners now cutoff s)"
proof -
  obtain rr where rr: "map_of (sv_runners s) i = Some rr" "t \<le> rg_LastSeen rr" using assms(1) by (auto simp: alive_def)
  have "map_of (filter (\<lambda>(i, rr). \<not> now - rg_LastSeen rr > cutoff) xs) i = Some rr"
    if "map_of xs i = Some rr" for xs
    using that rr(2) assms(2) by (induction xs) (auto split: if_splits)
  with rr show ?thesis by (auto simp: alive_def prune_runners_def)
qed

lemma server_step_alive:
  "server_step cutoff now s s' \<Longrightarrow> alive t i s \<Longrightarrow> t \<le> now \<Longrightarrow> now \<le> t + cutoff \<Longrightarrow> alive t i s'"
proof (induction rule: server_step.induct)
  case (register s reg)
  then show ?case by (auto simp: handleRegister_def intro!: alive_update split: sum.split)
next
  case (heartbeat s j hb)
  then show ?case
    by (auto simp: handleHeartbeat_def beat_def intro!: alive_update split: sum.split option.split)
next
  case (prune s)
  then show ?case by (simp add: alive_prune)
qed (simp_all add: alive_cong [OF runners_frame(1)] alive_cong [OF runners_frame(2)] alive_cong [OF runners_frame(3)]
      alive_cong [OF runners_frame(4)] alive_cong [OF runners_frame(5)] alive_cong [OF runners_frame(6)])

lemma server_run_alive:
  "server_run cutoff t0 s0 t s \<Longrightarrow> alive t0 i s0 \<Longrightarrow> t \<le> t0 + cutoff \<Longrightarrow> t0 \<le> t \<and> alive t0 i s"
proof (induction rule: server_run.induct)
  case (step t s t' s')
  then have "t0 \<le> t" "alive t0 i s" by simp_all
  then show ?case using step server_step_alive by fastforce
qed simp

text \<open>
  A heartbeat keeps its runner registered: after one that is acknowledged, whatever
  requests and prunings follow, the runner is still there up to the pruner's cutoff
  later; and a runner unseen for longer than the cutoff is gone after a pruning, and its
  next heartbeat tells it so.
\<close>

theorem heartbeat_keeps_registered:
  assumes "handleHeartbeat t i (Some (Inr hb)) s = ((200, BHeartbeat ack), s1)"
  shows "(ha_OK ack \<longrightarrow> server_run cutoff t s1 t' s' \<longrightarrow> t' \<le> t + cutoff \<longrightarrow> map_of (sv_runners s') i \<noteq> None) \<and>
    (\<forall>now rr. registry_ok now s \<longrightarrow> map_of (sv_runners s) i = Some rr \<longrightarrow> rg_LastSeen rr + cutoff < now \<longrightarrow>
       fst (handleHeartbeat now i (Some (Inr hb)) (prune_runners now cutoff s)) =
         (200, BHeartbeat \<lparr>ha_OK = False, ha_UnknownRunner = True\<rparr>))"
proof (intro conjI impI allI)
  assume a: "ha_OK ack" "server_run cutoff t s1 t' s'" "t' \<le> t + cutoff"
  have "alive t i s1"
    using assms a(1) by (auto simp: handleHeartbeat_def alive_def update_conv' beat_def writeError_def writeJSON_def
        split: if_splits option.splits)
  from server_run_alive [OF a(2) this a(3)] show "map_of (sv_runners s') i \<noteq> None" by (auto simp: alive_def)
next
  fix now rr
  assume a: "registry_ok now s" "map_of (sv_runners s) i = Some rr" "rg_LastSeen rr + cutoff < now"
  have "i \<noteq> []" using map_of_SomeD [OF a(2)] a(1) by (auto simp: registry_ok_def)
  moreover have "map_of (sv_runners (prune_runners now cutoff s)) i = None"
  proof -
    have "distinct (map fst (sv_runners s))" using a(1) by (simp add: registry_ok_def)
    then have "rr' = rr" if "(i, rr') \<in> set (sv_runners s)" for rr'
      using that a(2) by (metis map_of_is_SomeI option.inject)
    then show ?thesis using a(3) by (force simp: prune_runners_def map_of_eq_None_iff)
  qed
  ultimately show "fst (handleHeartbeat now i (Some (Inr hb)) (prune_runners now cutoff s)) =
         (200, BHeartbeat \<lparr>ha_OK = False, ha_UnknownRunner = True\<rparr>)"
    by (simp add: handleHeartbeat_def writeJSON_def)
qed

theorem heartbeat_keeps_registered_witness:
  "map_of (sv_runners (prune_runners 9 5 (snd (handleHeartbeat 4 ''a'' (Some (Inr zero_Heartbeat)) demo_registered)))) ''a'' \<noteq> None"
proof -
  let ?s1 = "snd (handleHeartbeat 4 ''a'' (Some (Inr zero_Heartbeat)) demo_registered)"
  have hb: "handleHeartbeat 4 ''a'' (Some (Inr zero_Heartbeat)) demo_registered =
      ((200, BHeartbeat \<lparr>ha_OK = True, ha_UnknownRunner = False\<rparr>), ?s1)"
    by (simp add: demo_registered_def handleRegister_def demo_registration_def handleHeartbeat_def update_conv' writeJSON_def)
  have "server_run 5 4 ?s1 9 (prune_runners 9 5 ?s1)"
    by (rule server_run.step [OF server_run.start _ server_step.prune]) simp
  with heartbeat_keeps_registered [OF hb] show ?thesis by fastforce
qed

end
