(* ===== verification/Go_Url.thy ===== *)
theory Go_Url
  imports Storage
begin

text \<open>
  What the notifier uses of \<open>net/url\<close> and \<open>net/http\<close>: the scheme and host of a parsed
  URL with the errors of the parser, and the canonical form of a header name.
\<close>

section \<open>URLs\<close>

definition is_letter :: "char \<Rightarrow> bool" where
  "is_letter c \<longleftrightarrow> is_lower c \<or> is_upper c"

definition unhex_ok :: "char \<Rightarrow> bool" where
  "unhex_ok c \<longleftrightarrow> is_digit c \<or> c \<in> set ''abcdefABCDEF''"

text \<open>Every percent sign starts a two-digit escape.\<close>

fun escapes_ok :: "string \<Rightarrow> bool" where
  "escapes_ok [] = True"
| "escapes_ok (c # s) =
     (if c = CHR ''%'' then (case s of a # b # s' \<Rightarrow> unhex_ok a \<and> unhex_ok b | _ \<Rightarrow> False) \<and> escapes_ok (drop 2 s)
      else escapes_ok s)"

text \<open>
  \<open>getScheme\<close>: letters, then letters, digits, plus, minus and dot up to a colon; \<open>None\<close> is
  the error for a colon in front.
\<close>

fun scheme_at :: "nat \<Rightarrow> string \<Rightarrow> string \<Rightarrow> (string \<times> string) option" where
  "scheme_at i raw [] = Some ([], raw)"
| "scheme_at i raw (c # s) =
     (if is_letter c then scheme_at (Suc i) raw s
      else if is_digit c \<or> c \<in> set ''+-.'' then (if i = 0 then Some ([], raw) else scheme_at (Suc i) raw s)
      else if c = CHR '':'' then (if i = 0 then None else Some (take i raw, s))
      else Some ([], raw))"

definition cut :: "char \<Rightarrow> string \<Rightarrow> string \<times> string" where
  "cut c s = (takeWhile (\<lambda>x. x \<noteq> c) s, drop 1 (dropWhile (\<lambda>x. x \<noteq> c) s))"

definition valid_optional_port :: "string \<Rightarrow> bool" where
  "valid_optional_port p \<longleftrightarrow> (case p of [] \<Rightarrow> True | c # ds \<Rightarrow> c = CHR '':'' \<and> list_all is_digit ds)"

definition host_char :: "char \<Rightarrow> bool" where
  "host_char c \<longleftrightarrow> is_letter c \<or> is_digit c \<or> c \<in> set ''-_.~!$&()*+,;=:[]<>%'' \<or> c = CHR 0x27 \<or> c = CHR 0x22 \<or>
     128 \<le> (of_char c :: nat)"

text \<open>
  \<open>parseHost\<close>; a host with an escape is rejected here (the library decodes those of
  zones and of bytes beyond ASCII).
\<close>

definition parse_host :: "string \<Rightarrow> string option" where
  "parse_host h =
     (if h \<noteq> [] \<and> hd h = CHR ''['' then
        (case last_index_byte h (CHR '']'') of
           None \<Rightarrow> None
         | Some i \<Rightarrow> if valid_optional_port (drop (Suc i) h) \<and> list_all host_char h \<and> CHR ''%'' \<notin> set h then Some h else None)
      else (case last_index_byte h (CHR '':'') of
           Some i \<Rightarrow> if valid_optional_port (drop i h) \<and> list_all host_char h \<and> CHR ''%'' \<notin> set h then Some h else None
         | None \<Rightarrow> if list_all host_char h \<and> CHR ''%'' \<notin> set h then Some h else None))"

definition userinfo_char :: "char \<Rightarrow> bool" where
  "userinfo_char c \<longleftrightarrow> is_letter c \<or> is_digit c \<or> c \<in> set ''-._:~!$&()*+,;=%@'' \<or> c = CHR 0x27"

definition parse_authority :: "string \<Rightarrow> string option" where
  "parse_authority a =
     (case last_index_byte a (CHR ''@'') of
        None \<Rightarrow> parse_host a
      | Some i \<Rightarrow>
          if list_all userinfo_char (take i a) \<and> escapes_ok (take i a) then parse_host (drop (Suc i) a) else None)"

text \<open>\<open>url.Parse\<close>: scheme and host, or an error.\<close>

definition url_parse :: "string \<Rightarrow> (string \<times> string) option" where
  "url_parse raw =
     (let (u, frag) = cut (CHR ''#'') raw in
      if list_ex (\<lambda>c. (of_char c :: nat) < 32 \<or> c = CHR 0x7F) u \<or> \<not> escapes_ok frag then None
      else (case scheme_at 0 u u of
              None \<Rightarrow> None
            | Some (sch, rest0) \<Rightarrow>
                (let scheme = ToLower sch; rest = fst (cut (CHR ''?'') rest0) in
                 if \<not> HasPrefix rest ''/'' \<and> scheme \<noteq> [] then Some (scheme, [])
                 else if \<not> HasPrefix rest ''/'' \<and> CHR '':'' \<in> set (fst (cut (CHR ''/'') rest)) then None
                 else if HasPrefix rest ''//'' \<and> (scheme \<noteq> [] \<or> \<not> HasPrefix rest ''///'') then
                   (let a = drop 2 rest; auth = takeWhile (\<lambda>c. c \<noteq> CHR ''/'') a in
                    case parse_authority auth of
                      None \<Rightarrow> None
                    | Some host \<Rightarrow> if escapes_ok (drop (length auth) a) then Some (scheme, host) else None)
                 else if escapes_ok rest then Some (scheme, []) else None)))"

section \<open>Header names\<close>

definition token_char :: "char \<Rightarrow> bool" where
  "token_char c \<longleftrightarrow> is_letter c \<or> is_digit c \<or> c \<in> set ''!#$%&*+-.^_|~'' \<or> c = CHR 0x27 \<or> c = CHR 0x60"

definition upper_char :: "char \<Rightarrow> char" where
  "upper_char c = (if is_lower c then char_of (of_char c - 32 :: nat) else c)"

fun canonical_from :: "bool \<Rightarrow> string \<Rightarrow> string" where
  "canonical_from up [] = []"
| "canonical_from up (c # s) = (if up then upper_char c else lower_char c) # canonical_from (c = CHR ''-'') s"

definition CanonicalHeaderKey :: "string \<Rightarrow> string" where
  "CanonicalHeaderKey s = (if list_all token_char s then canonical_from True s else s)"

end
