(* ===== verification/Go_Time.thy ===== *)
theory Go_Time
  imports Go_Strings
begin

text \<open>
  What the program uses of \<open>time.Duration\<close>: arithmetic that wraps around at 64 bits, rounding
  and the text of a duration.
\<close>

definition wrap64 :: "int \<Rightarrow> int" where
  "wrap64 n = signed_take_bit 63 n"

lemma wrap64_id: "- (2 ^ 63) \<le> n \<Longrightarrow> n < 2 ^ 63 \<Longrightarrow> wrap64 n = n"
  unfolding wrap64_def by (rule signed_take_bit_int_eq_self) simp_all

lemma wrap64_nonneg: "0 \<le> n \<Longrightarrow> n < 2 ^ 63 \<Longrightarrow> wrap64 n = n"
  by (rule wrap64_id) simp_all

text \<open>\<open>Round\<close>: to the nearest multiple, half away from zero, saturating.\<close>

definition Round :: "int \<Rightarrow> int \<Rightarrow> int" where
  "Round d m =
     (if m \<le> 0 then d
      else
        (let r = \<bar>d\<bar> mod m in
         if d < 0 then
           (if r + r < m then d + r else if d - m + r \<ge> - (2 ^ 63) then d - m + r else - (2 ^ 63))
         else
           (if r + r < m then d - r else if d + m - r < 2 ^ 63 then d + m - r else 2 ^ 63 - 1)))"

text \<open>A number divided by a power of ten, without the zeros at the end of the fraction.\<close>

definition fmtFrac :: "int \<Rightarrow> nat \<Rightarrow> string" where
  "fmtFrac v prec =
     (let ds = Itoa (v mod 10 ^ prec); frac = trim_right_while (\<lambda>c. c = CHR ''0'') (replicate (prec - length ds) (CHR ''0'') @ ds) in
      if prec = 0 \<or> frac = [] then [] else CHR ''.'' # frac)"

definition Duration_String :: "int \<Rightarrow> string" where
  "Duration_String d =
     (let u = \<bar>d\<bar>; s = u div 10 ^ 9;
          text =
            (if u = 0 then ''0s''
             else if u < 10 ^ 3 then Itoa u @ ''ns''
             else if u < 10 ^ 6 then Itoa (u div 10 ^ 3) @ fmtFrac u 3 @ [CHR 0xC2, CHR 0xB5, CHR ''s'']
             else if u < 10 ^ 9 then Itoa (u div 10 ^ 6) @ fmtFrac u 6 @ ''ms''
             else (if s \<ge> 3600 then Itoa (s div 3600) @ ''h'' else []) @ (if s \<ge> 60 then Itoa (s div 60 mod 60) @ ''m'' else []) @
               Itoa (s mod 60) @ fmtFrac u 9 @ ''s'')
      in if d < 0 then CHR ''-'' # text else text)"

end
