(* ===== verification/Notifier.thy ===== *)
theory Notifier
  imports Go_Url Go_Time Metrics Proto "HOL-Library.AList" "HOL-Library.List_Lexorder" "HOL-Library.Char_ord"
begin

text \<open>
  \<open>notifier/notifier.go\<close>, \<open>notifier/templates.go\<close>, \<open>notifier/loader.go\<close>: the webhook
  targets of a run's deviations, the rendering of the body, the signed request, the retry
  loop with its log, and the targets file. What lies outside the program is the record
  \<open>outside\<close>: the environment variables, the HMAC, the JSON text codec, the HTTP exchange
  of an attempt, the clock and the random draws. A body is the JSON value that is
  marshalled. \<open>None\<close> in place of a result is a panic.
\<close>

section \<open>Severities\<close>

definition severityRank :: "string \<Rightarrow> int" where
  "severityRank s =
     (if s = ''critical'' then 4
      else if s = ''high'' then 3
      else if s = ''medium'' then 2
      else if s = ''low'' then 1
      else 0)"

fun highest_from :: "string \<Rightarrow> int \<Rightarrow> DeviationRow list \<Rightarrow> string" where
  "highest_from best bestRank [] = best"
| "highest_from best bestRank (d # ds) =
     (let r = severityRank (dv_Severity d) in
      if r > bestRank then highest_from (dv_Severity d) r ds else highest_from best bestRank ds)"

definition highestSeverity :: "DeviationRow list \<Rightarrow> string" where
  "highestSeverity devs = highest_from [] 0 devs"

section \<open>Templates\<close>

text \<open>The characters beyond ASCII of the templates, as the bytes of their encoding.\<close>

definition ellipsis :: string where "ellipsis = [CHR 0xE2, CHR 0x80, CHR 0xA6]"
definition em_dash :: string where "em_dash = [CHR 0xE2, CHR 0x80, CHR 0x94]"
definition bullet :: string where "bullet = [CHR 0xE2, CHR 0x80, CHR 0xA2]"
definition middle_dot :: string where "middle_dot = [CHR 0xC2, CHR 0xB7]"
definition siren :: string where "siren = [CHR 0xF0, CHR 0x9F, CHR 0x9A, CHR 0xA8]"
definition backtick :: string where "backtick = [CHR 0x60]"
definition newline :: string where "newline = [CHR 0x0A]"

definition discordColor :: "string \<Rightarrow> int" where
  "discordColor severity =
     (if severity = ''critical'' then 0xE3635D
      else if severity = ''high'' then 0xD3A851
      else if severity = ''medium'' then 0xD3A851
      else if severity = ''low'' then 0x6DA3D8
      else 0x808080)"

definition truncate :: "string \<Rightarrow> nat \<Rightarrow> string" where
  "truncate s n = (if length s \<le> n then s else take n s @ ellipsis)"

definition plural :: "nat \<Rightarrow> string" where
  "plural n = (if n = 1 then [] else ''s'')"

definition shortID :: "string \<Rightarrow> string" where
  "shortID i = (if length i > 12 then take 12 i else i)"

definition dev_item :: "DeviationRow \<Rightarrow> json" where
  "dev_item d = JObj [(''id'', JStr (dv_ID d)), (''category'', JStr (dv_Category d)), (''value'', JStr (dv_Value d)),
     (''severity'', JStr (dv_Severity d)), (''evidence_event_id'', JNum (dv_EvidenceEventID d))]"

definition renderGeneric :: "Run \<Rightarrow> DeviationRow list \<Rightarrow> json" where
  "renderGeneric run devs = JObj
     [(''source'', JStr ''fangs-orchestrator''), (''schema_version'', JStr ''v1''), (''run_id'', JStr (run_ID run)),
      (''package_name'', JStr (run_PackageName run)), (''version'', JStr (run_Version run)), (''state'', JStr (run_State run)),
      (''is_baseline'', JBool (run_IsBaseline run)), (''max_severity'', JStr (highestSeverity devs)),
      (''deviations'', JArr (map dev_item devs)), (''deviation_count'', JNum (int (length devs)))]"

text \<open>The first twelve findings and, when there are more, one entry with their number.\<close>

definition top_items :: "nat \<Rightarrow> (DeviationRow \<Rightarrow> 'a) \<Rightarrow> (nat \<Rightarrow> 'a) \<Rightarrow> DeviationRow list \<Rightarrow> 'a list" where
  "top_items k item rest devs =
     map item (take k devs) @ (if length devs > k then [rest (length devs - k)] else [])"

definition slack_line :: "DeviationRow \<Rightarrow> string" where
  "slack_line d = bullet @ '' *'' @ dv_Severity d @ ''* '' @ backtick @ truncate (dv_Value d) 80 @ backtick @ '' '' @ em_dash @ '' '' @ dv_Category d"

definition slack_more :: "nat \<Rightarrow> string" where
  "slack_more n = ''_'' @ ellipsis @ '' and '' @ Itoa (int n) @ '' more_''"

text \<open>Maps are marshalled with their keys in order.\<close>

definition renderSlack :: "Run \<Rightarrow> DeviationRow list \<Rightarrow> json" where
  "renderSlack run devs =
     (let headerText = siren @ '' FANGS deviation: '' @ run_PackageName run @ ''@'' @ run_Version run @ '' '' @ em_dash @ '' '' @
            Itoa (int (length devs)) @ '' finding'' @ plural (length devs) @ '' (max: '' @ highestSeverity devs @ '')'';
          lines = top_items 12 slack_line slack_more devs;
          section = (\<lambda>t. JObj [(''text'', JObj [(''text'', JStr t), (''type'', JStr ''mrkdwn'')]), (''type'', JStr ''section'')])
      in JObj [(''blocks'', JArr
                 [JObj [(''text'', JObj [(''emoji'', JBool True), (''text'', JStr headerText), (''type'', JStr ''plain_text'')]),
                        (''type'', JStr ''header'')],
                  section (''Run '' @ backtick @ shortID (run_ID run) @ backtick @ '' '' @ middle_dot @ '' package '' @ backtick @
                    run_PackageName run @ backtick @ '' '' @ middle_dot @ '' version '' @ backtick @ run_Version run @ backtick),
                  section (Join lines newline)]),
               (''text'', JStr headerText)])"

definition discord_field :: "DeviationRow \<Rightarrow> json" where
  "discord_field d = JObj [(''inline'', JBool False), (''name'', JStr (dv_Severity d @ '' '' @ middle_dot @ '' '' @ dv_Category d)),
     (''value'', JStr (backtick @ truncate (dv_Value d) 100 @ backtick))]"

definition discord_more :: "nat \<Rightarrow> json" where
  "discord_more n = JObj [(''inline'', JBool False), (''name'', JStr ellipsis),
     (''value'', JStr (''and '' @ Itoa (int n) @ '' more''))]"

definition renderDiscord :: "Run \<Rightarrow> DeviationRow list \<Rightarrow> json" where
  "renderDiscord run devs =
     (let maxSev = highestSeverity devs;
          embed = JObj
            [(''color'', JNum (discordColor maxSev)),
             (''description'', JStr (''**'' @ Itoa (int (length devs)) @ '' finding'' @ plural (length devs) @ ''** (max severity: **'' @
                maxSev @ ''**)'' @ newline @ ''Run '' @ backtick @ shortID (run_ID run) @ backtick)),
             (''fields'', JArr (top_items 12 discord_field discord_more devs)),
             (''title'', JStr (''FANGS deviation: '' @ run_PackageName run @ ''@'' @ run_Version run))]
      in JObj [(''embeds'', JArr [embed]), (''username'', JStr ''FANGS'')])"

definition renderers :: "string \<Rightarrow> (Run \<Rightarrow> DeviationRow list \<Rightarrow> json) option" where
  "renderers t =
     (if t = ''slack'' then Some renderSlack
      else if t = ''discord'' then Some renderDiscord
      else if t = ''generic'' then Some renderGeneric
      else None)"

section \<open>The request\<close>

record http_request =
  rq_URL :: string
  rq_Headers :: "(string \<times> string) list"
  rq_Body :: string

record outside =
  nv_getenv :: "string \<Rightarrow> string"
  nv_hmac :: "string \<Rightarrow> string \<Rightarrow> byte list"
  nv_marshal :: "json \<Rightarrow> string"
  nv_unmarshal :: "string \<Rightarrow> json option"
  nv_order :: "(string \<times> string) list \<Rightarrow> (string \<times> string) list"
  nv_do :: "http_request \<Rightarrow> nat \<Rightarrow> err + int \<times> string"
  nv_clock :: "nat \<Rightarrow> time"
  nv_rand :: "nat \<Rightarrow> int \<Rightarrow> int"
  nv_id :: "nat \<Rightarrow> byte list"

definition isLoopbackHost :: "string \<Rightarrow> bool" where
  "isLoopbackHost host0 =
     (let host = takeWhile (\<lambda>c. c \<noteq> CHR '':'') host0
      in host = ''127.0.0.1'' \<or> host = ''localhost'' \<or> host = ''::1'')"

text \<open>A JSON object of strings; a null value is the empty string.\<close>

fun as_string_or_null :: "json \<Rightarrow> string option" where
  "as_string_or_null (JStr s) = Some s"
| "as_string_or_null JNull = Some []"
| "as_string_or_null _ = None"

fun string_entries :: "(string \<times> json) list \<Rightarrow> (string \<times> string) list \<Rightarrow> (string \<times> string) list option" where
  "string_entries [] m = Some m"
| "string_entries ((k, j) # kvs) m =
     (case as_string_or_null j of None \<Rightarrow> None | Some v \<Rightarrow> string_entries kvs (AList.update k v m))"

definition as_string_map :: "json \<Rightarrow> (string \<times> string) list option" where
  "as_string_map j = (case unmarshal_object j of None \<Rightarrow> None | Some kvs \<Rightarrow> string_entries kvs [])"

definition parseJSONStringMap :: "outside \<Rightarrow> string \<Rightarrow> (string \<times> string) list" where
  "parseJSONStringMap nv raw =
     (case nv_unmarshal nv raw of
        None \<Rightarrow> []
      | Some j \<Rightarrow> (case as_string_map j of None \<Rightarrow> [] | Some m \<Rightarrow> m))"

definition parseHeaders :: "outside \<Rightarrow> string \<Rightarrow> (string \<times> string) list" where
  "parseHeaders nv raw = (if raw = [] then [] else parseJSONStringMap nv raw)"

definition Header_Set :: "string \<Rightarrow> string \<Rightarrow> (string \<times> string) list \<Rightarrow> (string \<times> string) list" where
  "Header_Set k v h = AList.update (CanonicalHeaderKey k) v h"

definition build_request :: "outside \<Rightarrow> NotifierRow \<Rightarrow> string \<Rightarrow> string \<Rightarrow> err + http_request" where
  "build_request nv target body contentType =
     (case url_parse (nt_URL target) of
        None \<Rightarrow> Inl (Wrap ''invalid url'' (Msg ''parse''))
      | Some (scheme, host) \<Rightarrow>
          if scheme \<noteq> ''https'' \<and> scheme \<noteq> ''http''
          then Inl (Msg (''unsupported scheme '' @ Quote scheme @ '' (https/http only)''))
          else if scheme = ''http'' \<and> \<not> isLoopbackHost host
          then Inl (Msg (''plain http only allowed for loopback hosts (got '' @ host @ '')''))
          else
            (let h = Header_Set ''User-Agent'' ''fangs-orchestrator'' (Header_Set ''Content-Type'' contentType []);
                 h' = fold (\<lambda>(k, v). Header_Set k v) (nv_order nv (parseHeaders nv (nt_Headers target))) h
             in if nt_SecretEnv target \<noteq> [] \<and> nt_Template target \<noteq> ''slack'' \<and> nt_Template target \<noteq> ''discord'' then
                  (let secret = nv_getenv nv (nt_SecretEnv target) in
                   if secret = [] then Inl (Msg (''secret env '' @ Quote (nt_SecretEnv target) @ '' is empty''))
                   else Inr \<lparr>rq_URL = nt_URL target,
                             rq_Headers = Header_Set ''X-FANGS-Signature'' (''sha256='' @ hex_bytes (nv_hmac nv secret body)) h',
                             rq_Body = body\<rparr>)
                else Inr \<lparr>rq_URL = nt_URL target, rq_Headers = h', rq_Body = body\<rparr>))"

text \<open>Status code, the first 2048 bytes of the response, error.\<close>

definition post :: "outside \<Rightarrow> NotifierRow \<Rightarrow> string \<Rightarrow> string \<Rightarrow> nat \<Rightarrow> int \<times> string \<times> err option" where
  "post nv target body contentType attempt =
     (case build_request nv target body contentType of
        Inl e \<Rightarrow> (0, [], Some e)
      | Inr req \<Rightarrow>
          (case nv_do nv req attempt of
             Inl e \<Rightarrow> (0, [], Some e)
           | Inr (code, resp) \<Rightarrow> (code, take 2048 resp, None)))"

definition classify :: "int \<Rightarrow> err option \<Rightarrow> string" where
  "classify code e =
     (if e \<noteq> None then ''failed''
      else if 200 \<le> code \<and> code < 300 then ''sent''
      else if code = 408 \<or> code = 429 then ''failed''
      else if 400 \<le> code \<and> code < 500 then ''permanent''
      else if 500 \<le> code then ''failed''
      else ''failed'')"

section \<open>Delivery\<close>

record 'db Notifier =
  nr_store :: "'db Backend"
  nr_httpTimeout :: duration
  nr_maxAttempt :: nat
  nr_baseDelay :: duration

record 'db NotifierOptions =
  np_Store :: "'db Backend"
  np_HTTPTimeout :: duration
  np_MaxAttempts :: nat
  np_BaseDelay :: duration

definition new_Notifier :: "'db NotifierOptions \<Rightarrow> 'db Notifier" where
  "new_Notifier opts =
     \<lparr>nr_store = np_Store opts,
      nr_httpTimeout = (if np_HTTPTimeout opts = 0 then 10 * second else np_HTTPTimeout opts),
      nr_maxAttempt = (if np_MaxAttempts opts = 0 then 5 else np_MaxAttempts opts),
      nr_baseDelay = (if np_BaseDelay opts = 0 then 1 * second else np_BaseDelay opts)\<rparr>"

text \<open>
  Durations are 64-bit: the product wraps around. A draw below a bound that is not
  positive panics.
\<close>

definition backoff :: "(int \<Rightarrow> int) \<Rightarrow> duration \<Rightarrow> nat \<Rightarrow> duration option" where
  "backoff draw base attempt =
     (let d = wrap64 (base * 2 ^ (attempt - 1)) in
      if d \<le> 1 then None else Some (wrap64 (d - d div 4 + draw (d div 2))))"

definition newNotificationID :: "byte list \<Rightarrow> nat \<Rightarrow> string" where
  "newNotificationID b attempt = hex_bytes b @ ''-'' @ Itoa (int attempt)"

definition attempt_row ::
  "outside \<Rightarrow> NotifierRow \<Rightarrow> Run \<Rightarrow> nat \<Rightarrow> string \<Rightarrow> int \<Rightarrow> string \<Rightarrow> err option \<Rightarrow> nat \<Rightarrow> time option \<Rightarrow> NotificationRow" where
  "attempt_row nv target run attempt status code respBody postErr devCount nextAt =
     \<lparr>nf_ID = newNotificationID (nv_id nv attempt) attempt, nf_RunID = run_ID run, nf_NotifierName = nt_Name target,
      nf_Attempt = int attempt, nf_Status = status, nf_LastAttemptedAt = Some (nv_clock nv attempt), nf_NextAttemptAt = nextAt,
      nf_ResponseCode = code, nf_ResponseBody = respBody,
      nf_ErrorMsg = (case postErr of None \<Rightarrow> [] | Some e \<Rightarrow> err_text e), nf_DeviationCount = int devCount,
      nf_CreatedAt = nv_clock nv attempt\<rparr>"

definition recordAttempt ::
  "'db Backend \<Rightarrow> outside \<Rightarrow> NotifierRow \<Rightarrow> Run \<Rightarrow> nat \<Rightarrow> string \<Rightarrow> int \<Rightarrow> string \<Rightarrow> err option \<Rightarrow> nat \<Rightarrow> time option \<Rightarrow> 'db \<Rightarrow> 'db" where
  "recordAttempt be nv target run attempt status code respBody postErr devCount nextAt db =
     snd (be_RecordNotification be (nv_clock nv attempt)
       (attempt_row nv target run attempt status code respBody postErr devCount nextAt) db)"

text \<open>
  The loop from an attempt on. Each retry draws the jitter twice: for the instant it
  records and for the time it sleeps. \<open>nv_rand nv (2 * attempt)\<close> is the first draw.
\<close>

function deliver_from ::
  "'db Notifier \<Rightarrow> outside \<Rightarrow> NotifierRow \<Rightarrow> Run \<Rightarrow> nat \<Rightarrow> string \<Rightarrow> string \<Rightarrow> nat \<Rightarrow> 'db \<times> Registry option \<Rightarrow> ('db \<times> Registry option) option" where
  "deliver_from n nv target run devCount body ct attempt (db, m) =
     (if attempt > nr_maxAttempt n then Some (db, m)
      else
        (let (code, respBody, postErr) = post nv target body ct attempt;
             status = classify code postErr;
             retry = (status = ''failed'' \<and> attempt < nr_maxAttempt n)
         in case (if retry then map_option (\<lambda>d. Some (nv_clock nv attempt + d)) (backoff (nv_rand nv (2 * attempt)) (nr_baseDelay n) attempt)
                  else Some None) of
              None \<Rightarrow> None
            | Some nextAt \<Rightarrow>
                (let db' = recordAttempt (nr_store n) nv target run attempt status code respBody postErr devCount nextAt db;
                     m' = ObserveNotification (nt_Name target) status m
                 in if status = ''sent'' \<or> status = ''permanent'' then Some (db', m')
                    else if retry \<and> backoff (nv_rand nv (2 * attempt + 1)) (nr_baseDelay n) attempt = None then None
                    else deliver_from n nv target run devCount body ct (Suc attempt) (db', m'))))"
  by pat_completeness auto
termination
  by (relation "measure (\<lambda>(n, nv, target, run, c, body, ct, attempt, st). Suc (nr_maxAttempt n) - attempt)") auto

declare deliver_from.simps [simp del]

definition deliverWithRetry ::
  "'db Notifier \<Rightarrow> outside \<Rightarrow> NotifierRow \<Rightarrow> Run \<Rightarrow> DeviationRow list \<Rightarrow> 'db \<times> Registry option \<Rightarrow> ('db \<times> Registry option) option" where
  "deliverWithRetry n nv target run devs st =
     (case renderers (nt_Template target) of
        None \<Rightarrow> Some (recordAttempt (nr_store n) nv target run 1 ''permanent'' 0 []
                  (Some (Msg (''unknown template '' @ Quote (nt_Template target)))) (length devs) None (fst st), snd st)
      | Some rend \<Rightarrow>
          deliver_from n nv target run (length devs) (nv_marshal nv (rend run devs)) ''application/json'' 1 st)"

text \<open>The targets \<open>Trigger\<close> starts a delivery for, with the run and deviations it hands them.\<close>

definition selected :: "string \<Rightarrow> NotifierRow \<Rightarrow> bool" where
  "selected maxSev t \<longleftrightarrow> nt_Enabled t \<and>
     \<not> (nt_MinSeverity t \<noteq> [] \<and> severityRank maxSev < severityRank (nt_MinSeverity t))"

definition Trigger ::
  "'db Notifier \<Rightarrow> string \<Rightarrow> 'db \<Rightarrow> (err + NotifierRow list \<times> Run option \<times> DeviationRow list) \<times> 'db" where
  "Trigger n runID db =
     (case be_GetRun (nr_store n) runID db of
        (Inl e, db1) \<Rightarrow> (Inl (Wrap ''notifier: load run'' e), db1)
      | (Inr run, db1) \<Rightarrow>
          (case be_ListDeviations (nr_store n) runID db1 of
             (Inl e, db2) \<Rightarrow> (Inl (Wrap ''notifier: load deviations'' e), db2)
           | (Inr devs, db2) \<Rightarrow>
               if devs = [] then (Inr ([], None, []), db2)
               else (case be_ListNotifiers (nr_store n) db2 of
                       (Inl e, db3) \<Rightarrow> (Inl (Wrap ''notifier: load notifiers'' e), db3)
                     | (Inr targets, db3) \<Rightarrow>
                         (Inr (filter (selected (highestSeverity devs)) targets, Some run, devs), db3))))"

section \<open>The targets file\<close>

record FileEntry =
  fe_Name :: string
  fe_URL :: string
  fe_Template :: string
  fe_SecretEnv :: string
  fe_Headers :: "(string \<times> string) list"
  fe_MinSeverity :: string
  fe_Enabled :: "bool option"

fun as_bool :: "json \<Rightarrow> bool option option" where
  "as_bool (JBool b) = Some (Some b)"
| "as_bool _ = None"

definition decode_entry :: "json \<Rightarrow> FileEntry option" where
  "decode_entry j =
     (case unmarshal_object j of
        None \<Rightarrow> None
      | Some kvs \<Rightarrow>
          (case (unmarshal_field as_string ''name'' kvs [], unmarshal_field as_string ''url'' kvs [],
                 unmarshal_field as_string ''template'' kvs [], unmarshal_field as_string ''secret_env'' kvs [],
                 unmarshal_field as_string_map ''headers'' kvs [], unmarshal_field as_string ''min_severity'' kvs [],
                 unmarshal_field as_bool ''enabled'' kvs None) of
             (Some n, Some u, Some t, Some s, Some h, Some m, Some b) \<Rightarrow>
               Some \<lparr>fe_Name = n, fe_URL = u, fe_Template = t, fe_SecretEnv = s, fe_Headers = h, fe_MinSeverity = m, fe_Enabled = b\<rparr>
           | _ \<Rightarrow> None))"

fun decode_entries :: "json \<Rightarrow> FileEntry list option" where
  "decode_entries (JArr js) = those (map decode_entry js)"
| "decode_entries JNull = Some []"
| "decode_entries _ = None"

definition decode_wrapped :: "json \<Rightarrow> FileEntry list option" where
  "decode_wrapped j =
     (case unmarshal_object j of
        None \<Rightarrow> None
      | Some kvs \<Rightarrow> unmarshal_field decode_entries ''notifiers'' kvs [])"

definition entry_row :: "outside \<Rightarrow> FileEntry \<Rightarrow> NotifierRow" where
  "entry_row nv e =
     \<lparr>nt_Name = fe_Name e, nt_URL = fe_URL e, nt_Template = fe_Template e, nt_SecretEnv = fe_SecretEnv e,
      nt_Headers = (if fe_Headers e = [] then [] else nv_marshal nv (JObj (map (\<lambda>(k, v). (k, JStr v)) (sort_key fst (fe_Headers e))))),
      nt_MinSeverity = fe_MinSeverity e,
      nt_Enabled = (case fe_Enabled e of None \<Rightarrow> True | Some b \<Rightarrow> b),
      nt_CreatedAt = zero_time, nt_UpdatedAt = zero_time\<rparr>"

fun load_entries ::
  "'db Backend \<Rightarrow> outside \<Rightarrow> (nat \<Rightarrow> time) \<Rightarrow> string \<Rightarrow> nat \<Rightarrow> FileEntry list \<Rightarrow> 'db \<Rightarrow> (err option) \<times> 'db" where
  "load_entries be nv clock path i [] db = (None, db)"
| "load_entries be nv clock path i (e # es) db =
     (if fe_Name e = [] \<or> fe_URL e = [] \<or> fe_Template e = []
      then (Some (Msg (path @ '' entry '' @ Itoa (int i) @ '': name/url/template are required'')), db)
      else (case be_UpsertNotifier be (clock i) (entry_row nv e) db of
              (Inl x, db') \<Rightarrow> (Some (Wrap (''upsert '' @ fe_Name e) x), db')
            | (Inr _, db') \<Rightarrow> load_entries be nv clock path (Suc i) es db'))"

text \<open>\<open>file\<close> is the content of the file or the error of reading it.\<close>

definition LoadFromFile ::
  "'db Backend \<Rightarrow> outside \<Rightarrow> (nat \<Rightarrow> time) \<Rightarrow> string \<Rightarrow> err + string \<Rightarrow> 'db \<Rightarrow> ((int \<times> err option) option) \<times> 'db" where
  "LoadFromFile be nv clock path file db =
     (if path = [] then (Some (0, None), db)
      else (case file of
        Inl e \<Rightarrow> (Some (0, Some (Wrap (''read '' @ path) e)), db)
      | Inr raw \<Rightarrow>
          (case TrimSpace raw of
             [] \<Rightarrow> (None, db)
           | c # _ \<Rightarrow>
               (case (case nv_unmarshal nv raw of
                        None \<Rightarrow> None
                      | Some j \<Rightarrow> if c = CHR 0x7B then decode_wrapped j else decode_entries j) of
                  None \<Rightarrow> (Some (0, Some (Wrap (''parse '' @ path) (Msg ''json''))), db)
                | Some es \<Rightarrow>
                    (case load_entries be nv clock path 0 es db of
                       (Some e, db') \<Rightarrow> (Some (0, Some e), db')
                     | (None, db') \<Rightarrow> (Some (int (length es), None), db'))))))"

end
