(* ===== verification/Notifier_Props.thy ===== *)
theory Notifier_Props
  imports Notifier Differ_Demo
begin

text \<open>
  Properties of the notifier: what a request may carry and where it may go, the retry
  loop, the delays, which targets fire, and the targets file.
\<close>

section \<open>Requests\<close>

lemma canonical_signature: "CanonicalHeaderKey ''X-FANGS-Signature'' = ''X-Fangs-Signature''"
  by code_simp

lemma isLoopbackHost_ipv4: "isLoopbackHost h \<longleftrightarrow> takeWhile (\<lambda>c. c \<noteq> CHR '':'') h \<in> {''127.0.0.1'', ''localhost''}"
proof -
  have "CHR '':'' \<notin> set (takeWhile (\<lambda>c. c \<noteq> CHR '':'') h)" by (auto dest: set_takeWhileD)
  then have "takeWhile (\<lambda>c. c \<noteq> CHR '':'') h \<noteq> ''::1''" by fastforce
  then show ?thesis by (auto simp: isLoopbackHost_def Let_def)
qed

lemma build_request_cases:
  assumes "build_request nv t body ct = Inr req"
  obtains scheme host h where "url_parse (nt_URL t) = Some (scheme, host)"
    "scheme = ''https'' \<or> scheme = ''http'' \<and> isLoopbackHost host" "rq_URL req = nt_URL t" "rq_Body req = body"
    "if nt_SecretEnv t \<noteq> [] \<and> nt_Template t \<noteq> ''slack'' \<and> nt_Template t \<noteq> ''discord''
     then nv_getenv nv (nt_SecretEnv t) \<noteq> [] \<and>
       rq_Headers req = Header_Set ''X-FANGS-Signature'' (''sha256='' @ hex_bytes (nv_hmac nv (nv_getenv nv (nt_SecretEnv t)) body)) h
     else rq_Headers req = h"
proof -
  obtain scheme host where u: "url_parse (nt_URL t) = Some (scheme, host)"
    using assms by (auto simp: build_request_def split: option.splits)
  let ?h = "fold (\<lambda>(k, v). Header_Set k v) (nv_order nv (parseHeaders nv (nt_Headers t)))
     (Header_Set ''User-Agent'' ''fangs-orchestrator'' (Header_Set ''Content-Type'' ct []))"
  have "scheme = ''https'' \<or> scheme = ''http'' \<and> isLoopbackHost host" "rq_URL req = nt_URL t" "rq_Body req = body"
    using assms u by (auto simp: build_request_def Let_def split: if_splits)
  moreover have "if nt_SecretEnv t \<noteq> [] \<and> nt_Template t \<noteq> ''slack'' \<and> nt_Template t \<noteq> ''discord''
     then nv_getenv nv (nt_SecretEnv t) \<noteq> [] \<and>
       rq_Headers req = Header_Set ''X-FANGS-Signature'' (''sha256='' @ hex_bytes (nv_hmac nv (nv_getenv nv (nt_SecretEnv t)) body)) ?h
     else rq_Headers req = ?h"
    using assms u by (auto simp: build_request_def Let_def split: if_splits)
  ultimately show ?thesis by (rule that [OF u])
qed


definition demo_outside :: outside where
  "demo_outside = \<lparr>nv_getenv = (\<lambda>_. ''key''), nv_hmac = (\<lambda>k b. [1, 2]), nv_marshal = (\<lambda>_. ''{}''),
     nv_unmarshal = (\<lambda>_. Some (JObj [(''x-fangs-signature'', JStr ''forged'')])), nv_order = (\<lambda>xs. xs),
     nv_do = (\<lambda>_ a. if a < 3 then Inr (503, []) else Inr (200, ''ok'')), nv_clock = int, nv_rand = (\<lambda>_ _. 0),
     nv_id = (\<lambda>_. [])\<rparr>"

definition demo_target :: NotifierRow where
  "demo_target = \<lparr>nt_Name = ''siem'', nt_URL = ''https://siem.org/in'', nt_Template = ''generic'', nt_SecretEnv = ''K'',
     nt_Headers = ''h'', nt_MinSeverity = [], nt_Enabled = True, nt_CreatedAt = 0, nt_UpdatedAt = 0\<rparr>"

lemma demo_request:
  "build_request demo_outside demo_target body ''application/json'' = Inr \<lparr>rq_URL = ''https://siem.org/in'',
     rq_Headers = [(''Content-Type'', ''application/json''), (''User-Agent'', ''fangs-orchestrator''),
       (''X-Fangs-Signature'', ''sha256=0102'')], rq_Body = body\<rparr>"
proof -
  have "url_parse ''https://siem.org/in'' = Some (''https'', ''siem.org'')"
    "CanonicalHeaderKey ''X-FANGS-Signature'' = ''X-Fangs-Signature''" "CanonicalHeaderKey ''x-fangs-signature'' = ''X-Fangs-Signature''"
    "CanonicalHeaderKey ''Content-Type'' = ''Content-Type''" "CanonicalHeaderKey ''User-Agent'' = ''User-Agent''"
    "hex_bytes [1, 2] = ''0102''"
    by code_simp+
  then show ?thesis
    by (simp add: build_request_def demo_outside_def demo_target_def Header_Set_def parseHeaders_def parseJSONStringMap_def
        as_string_map_def)
qed


section \<open>Delays\<close>

lemma jittered_range:
  fixes d j :: int
  assumes "0 \<le> j" "j < d div 2"
  shows "3 * d \<le> 4 * (d - d div 4 + j)" "4 * (d - d div 4 + j) < 5 * d"
  using assms by presburger+

lemma backoff_value:
  assumes "2 \<le> base" "base * 2 ^ (a - 1) < 2 ^ 62" "\<And>n. 0 < n \<Longrightarrow> 0 \<le> draw n \<and> draw n < n"
  defines "d \<equiv> base * 2 ^ (a - 1)"
  shows "backoff draw base a = Some (d - d div 4 + draw (d div 2))" "2 \<le> d"
    "0 \<le> draw (d div 2)" "draw (d div 2) < d div 2"
proof -
  have one: "(1 :: int) \<le> 2 ^ (a - 1)" by simp
  show d: "2 \<le> d" using mult_mono [OF assms(1) one] assms(1) by (simp add: d_def)
  show j: "0 \<le> draw (d div 2)" "draw (d div 2) < d div 2" using assms(3) [of "d div 2"] d by simp_all
  have "wrap64 d = d" using d assms(2) by (intro wrap64_nonneg) (simp_all add: d_def)
  moreover have "wrap64 (d - d div 4 + draw (d div 2)) = d - d div 4 + draw (d div 2)"
  proof (rule wrap64_nonneg)
    have "0 \<le> x" if "3 * d \<le> 4 * x" for x using that d by linarith
    then show "0 \<le> d - d div 4 + draw (d div 2)" using jittered_range(1) [OF j] by blast
    have "d < 2 ^ 62" using assms(2) by (simp add: d_def)
    then have "x < 2 ^ 63" if "4 * x < 5 * d" for x using that by simp
    then show "d - d div 4 + draw (d div 2) < 2 ^ 63" using jittered_range(2) [OF j] by blast
  qed
  ultimately show "backoff draw base a = Some (d - d div 4 + draw (d div 2))"
    using d by (simp add: backoff_def Let_def d_def)
qed

text \<open>
  C36. The delay after an attempt: with a base of at least two nanoseconds and as long as
  the doubled base stays in range, the draw does not panic and the delay lies between
  three and five quarters of the base doubled once per earlier attempt.
\<close>

theorem backoff_bounds:
  assumes "2 \<le> base" "base * 2 ^ (a - 1) < 2 ^ 62" "\<And>n. 0 < n \<Longrightarrow> 0 \<le> draw n \<and> draw n < n"
  shows "\<exists>d. backoff draw base a = Some d \<and> 3 * (base * 2 ^ (a - 1)) \<le> 4 * d \<and> 4 * d < 5 * (base * 2 ^ (a - 1))"
  using backoff_value(1) [OF assms] jittered_range [OF backoff_value(3,4) [OF assms]] by blast

theorem backoff_bounds_witness:
  "\<exists>d. backoff (\<lambda>n. n - 1) 1000000000 5 = Some d \<and> 3 * (1000000000 * 2 ^ 4) \<le> 4 * d \<and> 4 * d < 5 * (1000000000 * 2 ^ 4)"
  using backoff_bounds [of 1000000000 5 "\<lambda>n. n - 1"] by simp

section \<open>The retry loop\<close>

definition outcome :: "outside \<Rightarrow> NotifierRow \<Rightarrow> string \<Rightarrow> string \<Rightarrow> nat \<Rightarrow> string" where
  "outcome nv t body ct a = (let (code, resp, e) = post nv t body ct a in classify code e)"

text \<open>What the log gets for one attempt.\<close>

definition logged :: "'db Notifier \<Rightarrow> outside \<Rightarrow> NotifierRow \<Rightarrow> Run \<Rightarrow> nat \<Rightarrow> string \<Rightarrow> string \<Rightarrow> nat \<Rightarrow> 'db \<Rightarrow> 'db" where
  "logged n nv t run c body ct a =
     (let (code, resp, e) = post nv t body ct a;
          nextAt = (if outcome nv t body ct a = ''failed'' \<and> a < nr_maxAttempt n
                    then map_option (\<lambda>d. nv_clock nv a + d) (backoff (nv_rand nv (2 * a)) (nr_baseDelay n) a) else None)
      in recordAttempt (nr_store n) nv t run a (outcome nv t body ct a) code resp e c nextAt)"

lemma outcome_cases: "outcome nv t body ct a \<in> {''sent'', ''permanent'', ''failed''}"
  by (simp add: outcome_def classify_def case_prod_beta Let_def)

definition delays_ok :: "'db Notifier \<Rightarrow> outside \<Rightarrow> bool" where
  "delays_ok n nv \<longleftrightarrow> 2 \<le> nr_baseDelay n \<and> nr_baseDelay n * 2 ^ (nr_maxAttempt n) < 2 ^ 62 \<and>
     (\<forall>k m. 0 < m \<longrightarrow> 0 \<le> nv_rand nv k m \<and> nv_rand nv k m < m)"

lemma delays_ok_backoff:
  assumes "delays_ok n nv" "a \<le> nr_maxAttempt n"
  shows "\<exists>d. backoff (nv_rand nv k) (nr_baseDelay n) a = Some d"
proof -
  have "(2 :: int) ^ (a - 1) \<le> 2 ^ nr_maxAttempt n" using assms(2) by (intro power_increasing) auto
  then have "nr_baseDelay n * 2 ^ (a - 1) \<le> nr_baseDelay n * 2 ^ nr_maxAttempt n"
    using assms(1) by (intro mult_left_mono) (simp_all add: delays_ok_def)
  also have "\<dots> < 2 ^ 62" using assms(1) by (simp add: delays_ok_def)
  finally have "nr_baseDelay n * 2 ^ (a - 1) < 2 ^ 62" .
  then show ?thesis
    using backoff_value(1) [of "nr_baseDelay n" a "nv_rand nv k"] assms(1) by (auto simp: delays_ok_def)
qed

lemma deliver_step:
  assumes "delays_ok n nv" "a \<le> nr_maxAttempt n"
  shows "deliver_from n nv t run c body ct a (db, m) =
    (let st = (logged n nv t run c body ct a db, ObserveNotification (nt_Name t) (outcome nv t body ct a) m) in
     if outcome nv t body ct a = ''failed'' then deliver_from n nv t run c body ct (Suc a) st else Some st)"
proof -
  obtain code resp e where p: "post nv t body ct a = (code, resp, e)" by (metis prod_cases3)
  then have o: "outcome nv t body ct a = classify code e" by (simp add: outcome_def)
  obtain d d' where d: "backoff (nv_rand nv (2 * a)) (nr_baseDelay n) a = Some d"
      "backoff (nv_rand nv (Suc (2 * a))) (nr_baseDelay n) a = Some d'"
    using delays_ok_backoff [OF assms] by blast
  from outcome_cases [of nv t body ct a] show ?thesis
    using assms(2) by (subst deliver_from.simps) (auto simp: p o d logged_def Let_def)
qed

lemma deliver_from_logged:
  assumes "delays_ok n nv" "a \<le> nr_maxAttempt n"
  shows "\<exists>N\<in>{a..nr_maxAttempt n}. (\<forall>k\<in>{a..<N}. outcome nv t body ct k = ''failed'') \<and>
    (outcome nv t body ct N = ''failed'' \<longrightarrow> N = nr_maxAttempt n) \<and>
    deliver_from n nv t run c body ct a (db, m) =
      Some (fold (logged n nv t run c body ct) [a..<Suc N] db,
            fold (\<lambda>k. ObserveNotification (nt_Name t) (outcome nv t body ct k)) [a..<Suc N] m)"
  using assms(2)
proof (induction "nr_maxAttempt n - a" arbitrary: a db m)
  case 0
  then have a: "a = nr_maxAttempt n" by simp
  have "deliver_from n nv t run c body ct (Suc a) st = Some st" for st
    by (cases st) (simp add: a deliver_from.simps)
  then show ?case
    using deliver_step [OF assms(1), of a t run c body ct db m]
    by (intro bexI [of _ a]) (auto simp: a Let_def)
next
  case (Suc x)
  show ?case
  proof (cases "outcome nv t body ct a = ''failed''")
    case False
    then show ?thesis
      using deliver_step [OF assms(1) Suc.prems, of t run c body ct db m] Suc.prems
      by (intro bexI [of _ a]) (auto simp: Let_def)
  next
    case True
    let ?db = "logged n nv t run c body ct a db"
    let ?m = "ObserveNotification (nt_Name t) (outcome nv t body ct a) m"
    have "x = nr_maxAttempt n - Suc a" "Suc a \<le> nr_maxAttempt n" using Suc.hyps(2) by simp_all
    from Suc.hyps(1) [OF this, of ?db ?m] obtain N where N: "N \<in> {Suc a..nr_maxAttempt n}"
        "\<forall>k\<in>{Suc a..<N}. outcome nv t body ct k = ''failed''" "outcome nv t body ct N = ''failed'' \<longrightarrow> N = nr_maxAttempt n"
        "deliver_from n nv t run c body ct (Suc a) (?db, ?m) =
          Some (fold (logged n nv t run c body ct) [Suc a..<Suc N] ?db,
            fold (\<lambda>k. ObserveNotification (nt_Name t) (outcome nv t body ct k)) [Suc a..<Suc N] ?m)"
      by blast
    have up: "[a..<Suc N] = a # [Suc a..<Suc N]" using N(1) by (simp add: upt_conv_Cons)
    have "\<forall>k\<in>{a..<N}. outcome nv t body ct k = ''failed''"
      using N(2) True by (metis atLeastLessThan_iff le_antisym not_less_eq_eq)
    moreover have "deliver_from n nv t run c body ct a (db, m) = deliver_from n nv t run c body ct (Suc a) (?db, ?m)"
      using deliver_step [OF assms(1) Suc.prems, of t run c body ct db m] True by (simp add: Let_def)
    ultimately show ?thesis
      using N up by (intro bexI [of _ N]) (auto simp del: upt_Suc)
  qed
qed

text \<open>
  C32. A delivery makes its attempts one after the other and stops at the first that is
  delivered or permanently refused, at the latest after the maximum; it returns, and it
  has logged and counted exactly the attempts it made, each with its outcome.
\<close>

theorem delivery_attempts:
  assumes "delays_ok n nv" "1 \<le> nr_maxAttempt n" "renderers (nt_Template t) = Some rend"
  shows "let body = nv_marshal nv (rend run devs); ct = ''application/json'' in
    \<exists>N\<in>{1..nr_maxAttempt n}. (\<forall>k\<in>{1..<N}. outcome nv t body ct k = ''failed'') \<and>
      (outcome nv t body ct N = ''failed'' \<longrightarrow> N = nr_maxAttempt n) \<and>
      deliverWithRetry n nv t run devs (db, m) =
        Some (fold (logged n nv t run (length devs) body ct) [1..<Suc N] db,
              fold (\<lambda>k. ObserveNotification (nt_Name t) (outcome nv t body ct k)) [1..<Suc N] m)"
  using deliver_from_logged [OF assms(1,2), of t] assms(3) by (simp add: deliverWithRetry_def Let_def)

definition demo_notifier :: "sqlite Notifier" where
  "demo_notifier = new_Notifier \<lparr>np_Store = sqlite_Backend, np_HTTPTimeout = 0, np_MaxAttempts = 0, np_BaseDelay = 0\<rparr>"

theorem delivery_attempts_witness:
  "\<exists>N\<in>{1..5}. deliverWithRetry demo_notifier demo_outside demo_target (scanRun (demo_run ''r2'')) [] (demo_db [], None) =
     Some (fold (logged demo_notifier demo_outside demo_target (scanRun (demo_run ''r2'')) 0 ''{}'' ''application/json'') [1..<Suc N] (demo_db []),
           None)"
proof -
  have "delays_ok demo_notifier demo_outside"
    by (simp add: delays_ok_def demo_notifier_def new_Notifier_def demo_outside_def second_def)
  moreover have "renderers (nt_Template demo_target) = Some renderGeneric" by (simp add: renderers_def demo_target_def)
  moreover have "nr_maxAttempt demo_notifier = 5" by (simp add: demo_notifier_def new_Notifier_def)
  moreover have "fold (\<lambda>k. ObserveNotification (f k) (g k)) xs None = None" for f g and xs :: "nat list"
    by (induction xs) (simp_all add: ObserveNotification_def)
  moreover have "nv_marshal demo_outside j = ''{}''" for j by (simp add: demo_outside_def)
  moreover have "ObserveNotification x y None = None" for x y by (simp add: ObserveNotification_def)
  ultimately show ?thesis
    using delivery_attempts [of demo_notifier demo_outside demo_target renderGeneric "scanRun (demo_run ''r2'')" "[]" "demo_db []" None]
    by (auto simp: Let_def)
qed

section \<open>Which targets fire\<close>

lemma severityRank_default: "severityRank (defaultSeverity c) = 0"
  by (simp add: severityRank_def defaultSeverity_def)

lemma highest_from_rank:
  "severityRank best = r \<Longrightarrow>
   severityRank (highest_from best r ds) = fold max (map (\<lambda>d. severityRank (dv_Severity d)) ds) r"
  by (induction ds arbitrary: best r) (auto simp: Let_def max_def)

text \<open>The rank of the highest severity is the highest rank, at least that of no severity.\<close>

lemma highestSeverity_rank:
  "severityRank (highestSeverity ds) = fold max (map (\<lambda>d. severityRank (dv_Severity d)) ds) 0"
  unfolding highestSeverity_def by (rule highest_from_rank) (simp add: severityRank_def)

lemma highestSeverity_zero:
  "\<forall>d\<in>set ds. \<exists>c. dv_Severity d = defaultSeverity c \<Longrightarrow> severityRank (highestSeverity ds) = 0"
proof -
  assume a: "\<forall>d\<in>set ds. \<exists>c. dv_Severity d = defaultSeverity c"
  have "fold max (map (\<lambda>d. severityRank (dv_Severity d)) xs) 0 = 0" if "set xs \<subseteq> set ds" for xs
    using that
  proof (induction xs)
    case (Cons d xs)
    then obtain c where "dv_Severity d = defaultSeverity c" using a by auto
    then show ?case using Cons by (simp add: severityRank_default)
  qed simp
  then show ?thesis by (simp add: highestSeverity_rank)
qed

text \<open>
  The severities the differ gives have no rank with the notifier: when every deviation of
  the run has the severity of some category, an enabled target fires exactly when its
  minimum is none of low, medium, high and critical.
\<close>

theorem min_severity_never_met:
  assumes "Trigger n i db = (Inr (ts, run, devs), db')" "be_GetRun (nr_store n) i db = (Inr r, db1)"
    "be_ListDeviations (nr_store n) i db1 = (Inr ds, db2)" "be_ListNotifiers (nr_store n) db2 = (Inr targets, db3)"
    "ds \<noteq> []" "\<forall>d\<in>set ds. \<exists>c. dv_Severity d = defaultSeverity c"
  shows "ts = filter (\<lambda>t. nt_Enabled t \<and> nt_MinSeverity t \<notin> {''low'', ''medium'', ''high'', ''critical''}) targets"
proof -
  have "severityRank (highestSeverity ds) = 0" using assms(6) by (rule highestSeverity_zero)
  then have "selected (highestSeverity ds) t \<longleftrightarrow> nt_Enabled t \<and> nt_MinSeverity t \<notin> {''low'', ''medium'', ''high'', ''critical''}" for t
    by (auto simp: selected_def severityRank_def)
  then have "filter (selected (highestSeverity ds)) targets =
      filter (\<lambda>t. nt_Enabled t \<and> nt_MinSeverity t \<notin> {''low'', ''medium'', ''high'', ''critical''}) targets"
    by (intro filter_cong) simp_all
  then show ?thesis using assms(1-5) by (auto simp: Trigger_def)
qed

definition demo_alert_db :: "sqlite" where
  "demo_alert_db = (demo_db [])\<lparr>db_tab := (demo_tables [])\<lparr>t_deviations := [
     \<lparr>de_id = ''d'', de_run_id = ''r2'', de_category = CatNetDNS, de_value = ''evil.org'', de_evidence_event_id = 3,
      de_severity = SevWarn, de_detected_at = format_time 0, de_notified_at = None, de_suppressed = 0\<rparr>],
     t_notifiers := [encode_notifier 0 (demo_target\<lparr>nt_MinSeverity := ''low''\<rparr>)]\<rparr>\<rparr>"

theorem min_severity_never_met_witness:
  "\<exists>r devs. fst (Trigger demo_notifier ''r2'' demo_alert_db) = Inr ([], r, devs) \<and> devs \<noteq> []"
proof -
  let ?db = demo_alert_db
  let ?ts = "[scanNotifier (encode_notifier 0 (demo_target\<lparr>nt_MinSeverity := ''low''\<rparr>))]"
  have be: "nr_store demo_notifier = sqlite_Backend" by (simp add: demo_notifier_def new_Notifier_def)
  have 1: "be_GetRun (nr_store demo_notifier) ''r2'' ?db = (Inr (scanRun (demo_run ''r2'')), ?db)"
    by (simp add: be sqlite_GetRun_def demo_alert_db_def demo_tables_def demo_run_def)
  obtain ds where 2: "be_ListDeviations (nr_store demo_notifier) ''r2'' ?db = (Inr ds, ?db)" "ds \<noteq> []"
      "\<forall>d\<in>set ds. dv_Severity d = SevWarn"
    by (simp add: be sqlite_ListDeviations_def demo_alert_db_def demo_tables_def order_by_def scanDeviationRow_def)
  have 3: "be_ListNotifiers (nr_store demo_notifier) ?db = (Inr ?ts, ?db)"
    by (simp add: be sqlite_ListNotifiers_def demo_alert_db_def demo_tables_def order_by_def)
  obtain ts where t: "Trigger demo_notifier ''r2'' ?db = (Inr (ts, Some (scanRun (demo_run ''r2'')), ds), ?db)"
    using 1 2 3 by (auto simp: Trigger_def)
  have "\<forall>d\<in>set ds. \<exists>c. dv_Severity d = defaultSeverity c"
    using 2(3) by (auto simp: defaultSeverity_def intro: exI [of _ CatNetDNS])
  from min_severity_never_met [OF t 1 2(1) 3 2(2) this] have "ts = []"
    by (simp add: scanNotifier_def encode_notifier_def nullableString_def NullString_def)
  then show ?thesis using t 2(2) by simp
qed

section \<open>The targets file\<close>

text \<open>An empty file, or one of blanks only, makes the loader panic.\<close>

theorem LoadFromFile_blank_panics:
  "path \<noteq> [] \<Longrightarrow> TrimSpace raw = [] \<Longrightarrow> LoadFromFile be nv clock path (Inr raw) db = (None, db)"
  by (simp add: LoadFromFile_def)

definition stored_entry :: "outside \<Rightarrow> FileEntry \<Rightarrow> notifier_row \<Rightarrow> bool" where
  "stored_entry nv e r \<longleftrightarrow> no_name r = fe_Name e \<and> no_url r = fe_URL e \<and> no_template r = fe_Template e \<and>
     scanNotifier r = (entry_row nv e)\<lparr>nt_CreatedAt := parse_time (no_created_at r), nt_UpdatedAt := parse_time (no_updated_at r)\<rparr>"

lemma upsert_notifier_effect:
  assumes "reliable db" "sqlite_UpsertNotifier now n db = (res, db')"
  shows "res = Inr ()" "reliable db'"
    and "k \<noteq> nt_Name n \<Longrightarrow> find (\<lambda>r. no_name r = k) (t_notifiers (db_tab db')) = find (\<lambda>r. no_name r = k) (t_notifiers (db_tab db))"
    and "\<exists>c. find (\<lambda>r. no_name r = nt_Name n) (t_notifiers (db_tab db')) = Some ((encode_notifier now n)\<lparr>no_created_at := c\<rparr>)"
proof -
  let ?e = "encode_notifier now n" and ?t = "db_tab db"
  have name: "no_name ?e = nt_Name n" by (simp add: encode_notifier_def)
  show "res = Inr ()" "reliable db'"
    using assms by (auto simp: sqlite_UpsertNotifier_def stmt_reliable upsert_notifier_def split: if_splits)
  have tab: "t_notifiers (db_tab db') = (if nt_Name n \<in> no_name ` set (t_notifiers ?t)
      then upd_where (\<lambda>r. no_name r = nt_Name n) (\<lambda>r. ?e\<lparr>no_created_at := no_created_at r\<rparr>) (t_notifiers ?t)
      else t_notifiers ?t @ [?e])"
    using assms by (auto simp: sqlite_UpsertNotifier_def stmt_reliable upsert_notifier_def name split: if_splits)
  have found: "find (\<lambda>r. no_name r = j) (upd_where (\<lambda>r. no_name r = nt_Name n) (\<lambda>r. ?e\<lparr>no_created_at := no_created_at r\<rparr>) (t_notifiers ?t)) =
      map_option (\<lambda>r. if no_name r = nt_Name n then ?e\<lparr>no_created_at := no_created_at r\<rparr> else r) (find (\<lambda>r. no_name r = j) (t_notifiers ?t))" for j
    by (rule find_upd_where) (simp add: name)
  show "find (\<lambda>r. no_name r = k) (t_notifiers (db_tab db')) = find (\<lambda>r. no_name r = k) (t_notifiers ?t)" if "k \<noteq> nt_Name n"
    using that by (auto simp: tab found name find_append option.map_id0 dest: find_Some_in split: option.split
        intro!: option.map_ident_strong)
  show "\<exists>c. find (\<lambda>r. no_name r = nt_Name n) (t_notifiers (db_tab db')) = Some (?e\<lparr>no_created_at := c\<rparr>)"
  proof (cases "nt_Name n \<in> no_name ` set (t_notifiers ?t)")
    case True
    then obtain r where r: "find (\<lambda>r. no_name r = nt_Name n) (t_notifiers ?t) = Some r"
      by (metis find_None_not_in not_Some_eq)
    then show ?thesis using True find_Some_in [OF r] by (intro exI [of _ "no_created_at r"]) (simp add: tab found)
  next
    case False
    then have "find (\<lambda>r. no_name r = nt_Name n) (t_notifiers ?t) = None" by (simp add: find_None_not_in)
    then show ?thesis using False by (intro exI [of _ "no_created_at ?e"]) (simp add: tab find_append name)
  qed
qed

abbreviation entry_ok :: "FileEntry \<Rightarrow> bool" where
  "entry_ok e \<equiv> fe_Name e \<noteq> [] \<and> fe_URL e \<noteq> [] \<and> fe_Template e \<noteq> []"

definition find_notifier :: "string \<Rightarrow> sqlite \<Rightarrow> notifier_row option" where
  "find_notifier k db = find (\<lambda>r. no_name r = k) (t_notifiers (db_tab db))"

lemma encode_stored: "stored_entry nv e ((encode_notifier now (entry_row nv e))\<lparr>no_created_at := c\<rparr>)"
  by (simp add: stored_entry_def encode_notifier_def entry_row_def scanNotifier_def nullableString_def NullString_def boolInt_def)

lemma load_entries_step:
  assumes "reliable db" "entry_ok e"
  shows "\<exists>db1. load_entries sqlite_Backend nv clock path i (e # es) db = load_entries sqlite_Backend nv clock path (Suc i) es db1 \<and>
    reliable db1 \<and> (\<exists>r. find_notifier (fe_Name e) db1 = Some r \<and> stored_entry nv e r) \<and>
    (\<forall>k. k \<noteq> fe_Name e \<longrightarrow> find_notifier k db1 = find_notifier k db)"
proof -
  obtain res db1 where out: "sqlite_UpsertNotifier (clock i) (entry_row nv e) db = (res, db1)" by fastforce
  have name: "nt_Name (entry_row nv e) = fe_Name e" by (simp add: entry_row_def)
  note eff = upsert_notifier_effect [OF assms(1) out]
  have "load_entries sqlite_Backend nv clock path i (e # es) db = load_entries sqlite_Backend nv clock path (Suc i) es db1"
    using assms(2) out eff(1) by simp
  moreover have "\<exists>r. find_notifier (fe_Name e) db1 = Some r \<and> stored_entry nv e r"
    using eff(4) encode_stored [of nv e] by (auto simp: find_notifier_def name)
  ultimately show ?thesis using eff(2,3) by (auto simp: find_notifier_def name)
qed

lemma load_entries_prefix:
  assumes "reliable db" "\<forall>e\<in>set pre. entry_ok e" "distinct (map fe_Name pre)" "rest = [] \<or> \<not> entry_ok (hd rest)"
  shows "\<exists>db'. load_entries sqlite_Backend nv clock path i (pre @ rest) db =
      ((if rest = [] then None else Some (Msg (path @ '' entry '' @ Itoa (int (i + length pre)) @ '': name/url/template are required''))), db') \<and>
    (\<forall>e\<in>set pre. \<exists>r. find_notifier (fe_Name e) db' = Some r \<and> stored_entry nv e r) \<and>
    (\<forall>k. k \<notin> fe_Name ` set pre \<longrightarrow> find_notifier k db' = find_notifier k db)"
  using assms(1-3)
proof (induction pre arbitrary: db i)
  case Nil
  show ?case using assms(4) by (cases rest) auto
next
  case (Cons e pre)
  then obtain db1 where 1: "load_entries sqlite_Backend nv clock path i (e # (pre @ rest)) db = load_entries sqlite_Backend nv clock path (Suc i) (pre @ rest) db1"
      "reliable db1" "\<exists>r. find_notifier (fe_Name e) db1 = Some r \<and> stored_entry nv e r"
      "\<forall>k. k \<noteq> fe_Name e \<longrightarrow> find_notifier k db1 = find_notifier k db"
    using load_entries_step [of db e nv clock path i "pre @ rest"] by auto
  obtain db' where 2: "load_entries sqlite_Backend nv clock path (Suc i) (pre @ rest) db1 =
      ((if rest = [] then None else Some (Msg (path @ '' entry '' @ Itoa (int (Suc i + length pre)) @ '': name/url/template are required''))), db')"
      "\<forall>e\<in>set pre. \<exists>r. find_notifier (fe_Name e) db' = Some r \<and> stored_entry nv e r"
      "\<forall>k. k \<notin> fe_Name ` set pre \<longrightarrow> find_notifier k db' = find_notifier k db1"
    using Cons.IH [OF 1(2), of "Suc i"] Cons.prems by auto
  have "fe_Name e \<notin> fe_Name ` set pre" using Cons.prems(3) by simp
  then show ?case using 1 2 by (intro exI [of _ db']) auto
qed

text \<open>
  Loading the targets file on a database that does not fail, its entries with different
  names: the complete entries up to the first incomplete one are stored as the file has
  them, enabled unless it says otherwise, and no other target changes. The result counts the
  entries when all are complete; with an incomplete one it is zero and an error, although
  the entries before it are in force.
\<close>

theorem LoadFromFile_stores:
  assumes "reliable db" "path \<noteq> []" "TrimSpace raw = c # w" "nv_unmarshal nv raw = Some j"
    and "(if c = CHR 0x7B then decode_wrapped j else decode_entries j) = Some (pre @ rest)"
    and "\<forall>e\<in>set pre. entry_ok e" "distinct (map fe_Name pre)" "rest = [] \<or> \<not> entry_ok (hd rest)"
  shows "\<exists>db' e. LoadFromFile sqlite_Backend nv clock path (Inr raw) db =
      (Some (if rest = [] then (int (length pre), None) else (0, Some e)), db') \<and>
    (\<forall>e\<in>set pre. \<exists>r. find_notifier (fe_Name e) db' = Some r \<and> stored_entry nv e r) \<and>
    (\<forall>k. k \<notin> fe_Name ` set pre \<longrightarrow> find_notifier k db' = find_notifier k db)"
  using load_entries_prefix [OF assms(1,6-8), of nv clock path 0] assms(2-5)
  by (elim exE conjE) (auto simp: LoadFromFile_def)

definition demo_entry :: FileEntry where
  "demo_entry = \<lparr>fe_Name = ''siem'', fe_URL = ''https://siem.org/in'', fe_Template = ''generic'', fe_SecretEnv = [],
     fe_Headers = [], fe_MinSeverity = [], fe_Enabled = None\<rparr>"

definition demo_doc :: json where
  "demo_doc = JArr [JObj [(''name'', JStr ''siem''), (''url'', JStr ''https://siem.org/in''), (''template'', JStr ''generic'')]]"

theorem LoadFromFile_stores_witness:
  "\<exists>db' r. LoadFromFile sqlite_Backend (demo_outside\<lparr>nv_unmarshal := (\<lambda>_. Some demo_doc)\<rparr>) int ''n.json'' (Inr ''[x]'') (demo_db []) =
     (Some (1, None), db') \<and> find_notifier ''siem'' db' = Some r"
proof -
  have t: "TrimSpace ''[x]'' = CHR ''['' # ''x]''" by code_simp
  have d: "(if CHR ''['' = CHR 0x7B then decode_wrapped demo_doc else decode_entries demo_doc) = Some ([demo_entry] @ [])"
    by code_simp
  from LoadFromFile_stores [of "demo_db []" "''n.json''", OF _ _ t _ d, of "demo_outside\<lparr>nv_unmarshal := (\<lambda>_. Some demo_doc)\<rparr>" int]
  show ?thesis by (simp add: demo_entry_def) blast
qed

end
