(* ===== verification/Watcher.thy ===== *)
theory Watcher
  imports Api Go_Time
begin

text \<open>
  \<open>watcher/watcher.go\<close>, \<open>watcher/npm.go\<close> and the parts of \<open>cmd/fangs-orchestrator/main.go\<close>
  that drive them: the registry lookup, the poll of the watched packages, the submission
  of a scan for a new release, and the retention pruner. The state of a poll is the
  database and whatever else the submit function acts on.
\<close>

section \<open>The registry\<close>

definition ErrPackageNotFound :: err where
  "ErrPackageNotFound = Msg ''watcher: package not found on registry''"

definition ErrVersionNotFound :: err where
  "ErrVersionNotFound = Msg ''watcher: version not found for package''"

record PackageVersion =
  pv_Name :: string
  pv_Version :: string
  pv_TarballSHA :: string
  pv_Integrity :: string
  pv_PublishedAt :: time

record npm_dist =
  nd_Tarball :: string
  nd_SHASum :: string
  nd_Integrity :: string

record npmMetadata =
  nm_Latest :: string
  nm_Versions :: "(string \<times> npm_dist) list"
  nm_Time :: "(string \<times> string) list"

text \<open>
  What lies outside: a GET request gives a status and a body or fails, the body decodes
  to the metadata or not, and \<open>rg_parse\<close> is \<open>time.Parse(time.RFC3339, _)\<close>.
\<close>

record registry_net =
  rg_get :: "string \<Rightarrow> err + int \<times> string"
  rg_decode :: "string \<Rightarrow> err + npmMetadata"
  rg_parse :: "string \<Rightarrow> time option"

definition fetchMetadata :: "registry_net \<Rightarrow> string \<Rightarrow> string \<Rightarrow> err + npmMetadata" where
  "fetchMetadata net baseURL packageName =
     (let url = baseURL @ ''/'' @ packageName in
      case rg_get net url of
        Inl e \<Rightarrow> Inl (Wrap (''GET '' @ url) e)
      | Inr (status, body) \<Rightarrow>
          if status = 404 then Inl ErrPackageNotFound
          else if status \<noteq> 200
          then Inl (Msg (''registry '' @ url @ '' returned '' @ Itoa status @ '': '' @ take 512 body))
          else (case rg_decode net body of
                  Inl e \<Rightarrow> Inl (Wrap ''decode metadata'' e)
                | Inr meta \<Rightarrow> Inr meta))"

text \<open>The error for an unknown version wraps the sentinel; its text has the sentinel first.\<close>

definition Resolve :: "registry_net \<Rightarrow> string \<Rightarrow> string \<Rightarrow> string \<Rightarrow> err + PackageVersion" where
  "Resolve net baseURL packageName version =
     (case fetchMetadata net baseURL packageName of
        Inl e \<Rightarrow> Inl e
      | Inr meta \<Rightarrow>
          (let target = (if version = [] then nm_Latest meta else version) in
           if target = [] then Inl (Msg (''registry returned no dist-tags.latest for '' @ Quote packageName))
           else (case map_of (nm_Versions meta) target of
                   None \<Rightarrow> Inl (Wrap (packageName @ ''@'' @ target) ErrVersionNotFound)
                 | Some vd \<Rightarrow>
                     Inr \<lparr>pv_Name = packageName, pv_Version = target, pv_TarballSHA = nd_SHASum vd, pv_Integrity = nd_Integrity vd,
                          pv_PublishedAt = (case map_of (nm_Time meta) target of
                              None \<Rightarrow> zero_time
                            | Some ts \<Rightarrow> (case rg_parse net ts of None \<Rightarrow> zero_time | Some t \<Rightarrow> t))\<rparr>)))"

definition LatestVersion :: "registry_net \<Rightarrow> string \<Rightarrow> string \<Rightarrow> err + PackageVersion" where
  "LatestVersion net baseURL packageName = Resolve net baseURL packageName []"

definition NewNPMRegistry :: "registry_net \<Rightarrow> string \<Rightarrow> err + PackageVersion" where
  "NewNPMRegistry net = LatestVersion net ''https://registry.npmjs.org''"

section \<open>The poll\<close>

type_synonym ('db, 's) submit = "string \<Rightarrow> string \<Rightarrow> 'db \<times> 's \<Rightarrow> (err + string) \<times> ('db \<times> 's)"

record ('db, 's) Watcher =
  wa_store :: "'db Backend"
  wa_registry :: "string \<Rightarrow> err + PackageVersion"
  wa_submit :: "('db, 's) submit"
  wa_interval :: duration

definition new_Watcher ::
  "'db Backend \<Rightarrow> (string \<Rightarrow> err + PackageVersion) \<Rightarrow> ('db, 's) submit \<Rightarrow> duration \<Rightarrow> ('db, 's) Watcher" where
  "new_Watcher store registry submit interval =
     \<lparr>wa_store = store, wa_registry = registry, wa_submit = submit,
      wa_interval = (if interval \<le> 0 then 300 * second else interval)\<rparr>"

definition pollPackage :: "('db, 's) Watcher \<Rightarrow> time \<Rightarrow> WatchedPackage \<Rightarrow> 'db \<times> 's \<Rightarrow> 'db \<times> 's" where
  "pollPackage w now p st =
     (case wa_registry w (wp_Name p) of
        Inl e \<Rightarrow> st
      | Inr v \<Rightarrow>
          (let db1 = snd (be_UpdatePackageCheck (wa_store w) now (wp_Name p) (pv_Version v) (fst st)) in
           if pv_Version v = wp_LastSeenVersion p then (db1, snd st)
           else
             (let db2 = snd (be_RecordRelease (wa_store w)
                    \<lparr>rel_PackageName = wp_Name p, rel_Version = pv_Version v, rel_TarballSHA256 = pv_TarballSHA v,
                     rel_NPMIntegrity = pv_Integrity v, rel_PublishedAt = pv_PublishedAt v, rel_DiscoveredAt = now\<rparr> db1)
              in snd (wa_submit w (wp_Name p) (pv_Version v) (db2, snd st)))))"

text \<open>\<open>cancelled i\<close> tells whether the context is done before the \<open>i\<close>-th package, \<open>clock i\<close> the time then.\<close>

fun poll_all :: "('db, 's) Watcher \<Rightarrow> (nat \<Rightarrow> bool) \<Rightarrow> (nat \<Rightarrow> time) \<Rightarrow> nat \<Rightarrow> WatchedPackage list \<Rightarrow> 'db \<times> 's \<Rightarrow> 'db \<times> 's" where
  "poll_all w cancelled clock i [] st = st"
| "poll_all w cancelled clock i (p # ps) st =
     (if cancelled i then st else poll_all w cancelled clock (Suc i) ps (pollPackage w (clock i) p st))"

definition PollOnce :: "('db, 's) Watcher \<Rightarrow> (nat \<Rightarrow> bool) \<Rightarrow> (nat \<Rightarrow> time) \<Rightarrow> 'db \<times> 's \<Rightarrow> 'db \<times> 's" where
  "PollOnce w cancelled clock st =
     (case be_ListWatchedPackages (wa_store w) (fst st) of
        (Inl e, db) \<Rightarrow> (db, snd st)
      | (Inr pkgs, db) \<Rightarrow> poll_all w cancelled clock 0 pkgs (db, snd st))"

text \<open>\<open>Run\<close>: one poll at once and one per tick until the context is done; \<open>clocks\<close> are the ticks before that.\<close>

definition Watcher_Run :: "('db, 's) Watcher \<Rightarrow> (nat \<Rightarrow> bool) \<Rightarrow> (nat \<Rightarrow> time) \<Rightarrow> (nat \<Rightarrow> time) list \<Rightarrow> 'db \<times> 's \<Rightarrow> 'db \<times> 's" where
  "Watcher_Run w cancelled clock0 clocks st = fold (\<lambda>clock. PollOnce w cancelled clock) (clock0 # clocks) st"

section \<open>Submission\<close>

definition DefaultWatchedPaths :: "WatchedPath list" where
  "DefaultWatchedPaths =
     [\<lparr>wt_Prefix = ''/etc/'', wt_CredTagged = False\<rparr>,
      \<lparr>wt_Prefix = ''/etc/shadow'', wt_CredTagged = True\<rparr>,
      \<lparr>wt_Prefix = ''/etc/passwd'', wt_CredTagged = True\<rparr>,
      \<lparr>wt_Prefix = ''/root/'', wt_CredTagged = False\<rparr>,
      \<lparr>wt_Prefix = ''/root/.ssh/'', wt_CredTagged = True\<rparr>,
      \<lparr>wt_Prefix = ''/root/.aws/'', wt_CredTagged = True\<rparr>,
      \<lparr>wt_Prefix = ''/root/.npmrc'', wt_CredTagged = True\<rparr>,
      \<lparr>wt_Prefix = ''/root/.docker/'', wt_CredTagged = True\<rparr>,
      \<lparr>wt_Prefix = ''/root/.kube/'', wt_CredTagged = True\<rparr>,
      \<lparr>wt_Prefix = ''/root/.gnupg/'', wt_CredTagged = True\<rparr>,
      \<lparr>wt_Prefix = ''/proc/self/environ'', wt_CredTagged = True\<rparr>,
      \<lparr>wt_Prefix = ''/tmp/'', wt_CredTagged = False\<rparr>,
      \<lparr>wt_Prefix = ''/usr/'', wt_CredTagged = False\<rparr>,
      \<lparr>wt_Prefix = ''/dev/'', wt_CredTagged = False\<rparr>]"

definition BuildSandboxScan :: "string \<Rightarrow> string \<Rightarrow> SandboxSpec" where
  "BuildSandboxScan packageName version =
     \<lparr>sb_Image = ''node:20-slim'',
      sb_Command = [''sh'', ''-c'',
        ''cd /tmp && mkdir -p test && cd test && '' @ ''npm init -y >/dev/null 2>&1 && '' @
        ''npm install '' @ packageName @ ''@'' @ version @ '' 2>&1 | tail -3; '' @ ''sleep 2''],
      sb_Env = [], sb_WorkingDir = [], sb_User = ''0:0'', sb_NetworkMode = ''bridge'', sb_MemoryBytes = 0, sb_NanoCPUs = 0,
      sb_PidsLimit = 0, sb_PullPolicy = ''missing'', sb_GracePeriod = 2 * second, sb_CgroupParent = []\<rparr>"

definition watcher_job :: "string \<Rightarrow> string \<Rightarrow> Job" where
  "watcher_job pkg version =
     \<lparr>jb_RunID = replicate 16 0, jb_Kind = ''sandbox_scan'', jb_PackageName = pkg, jb_Version = version, jb_CgroupPath = [],
      jb_WatchedPaths = [], jb_Duration = 60 * second, jb_DispatchedAt = zero_time,
      jb_Sandbox = Some (BuildSandboxScan pkg version)\<rparr>"

text \<open>
  The submit function of the orchestrator: the first registered runner gets the job. The
  rest of the state is the server; its database is the one of the poll.
\<close>

definition submit_release :: "(string list \<Rightarrow> string list) \<Rightarrow> time \<Rightarrow> ('db, 'db Server) submit" where
  "submit_release ord now pkg version st =
     (let s = (snd st)\<lparr>sv_db := fst st\<rparr>; runner = FirstRegisteredRunner ord s in
      if runner = [] then (Inl (Msg ''no runners registered''), st)
      else (let (res, s') = SubmitScan now runner (watcher_job pkg version) s in (res, (sv_db s', s'))))"

section \<open>Retention\<close>

text \<open>The duration is a product of 64-bit numbers, and so is \<open>UnixNano\<close> of the instant.\<close>

definition retention_cutoff :: "time \<Rightarrow> int \<Rightarrow> int" where
  "retention_cutoff now retainDays = wrap64 (now + wrap64 (- retainDays * 24 * 3600 * second))"

definition prune :: "'db Backend \<Rightarrow> time \<Rightarrow> int \<Rightarrow> 'db \<Rightarrow> 'db" where
  "prune be now retainDays db = snd (be_PruneEvents be (retention_cutoff now retainDays) db)"

text \<open>\<open>nows\<close> are the instants of the prunings before the context is done.\<close>

definition pruneLoop :: "'db Backend \<Rightarrow> int \<Rightarrow> time list \<Rightarrow> 'db \<Rightarrow> 'db" where
  "pruneLoop be retainDays nows db = fold (\<lambda>now. prune be now retainDays) nows db"

end
