(* ===== verification/Parsing.thy ===== *)
theory Parsing
  imports Proto "HOL-Library.Monad_Syntax"
begin

text \<open>
  \<open>sensor/parsing.go\<close>: the DNS question and the TLS server name in captured bytes. Every
  index and slice expression of the code is a checked access, \<open>None\<close> if it is out of
  range (a panic of the runner); an error of the parser is \<open>Some (Inl _)\<close>.
\<close>

section \<open>Bytes\<close>

definition at :: "byte list \<Rightarrow> nat \<Rightarrow> byte option" where
  "at buf i = (if i < length buf then Some (buf ! i) else None)"

definition slice :: "byte list \<Rightarrow> nat \<Rightarrow> nat \<Rightarrow> byte list option" where
  "slice buf lo hi = (if lo \<le> hi \<and> hi \<le> length buf then Some (take (hi - lo) (drop lo buf)) else None)"

text \<open>\<open>int(buf[i])<<8 | int(buf[i+1])\<close>.\<close>

definition be16 :: "byte list \<Rightarrow> nat \<Rightarrow> nat option" where
  "be16 buf i = do { a \<leftarrow> at buf i; b \<leftarrow> at buf (i + 1); Some (unat a * 256 + unat b) }"

definition string_of_bytes :: "byte list \<Rightarrow> string" where
  "string_of_bytes bs = map (\<lambda>b. char_of (unat b)) bs"

definition bytes_of :: "string \<Rightarrow> byte list" where
  "bytes_of s = map (\<lambda>c. of_nat (of_char c)) s"

section \<open>DNS\<close>

function dns_labels :: "byte list \<Rightarrow> nat \<Rightarrow> string \<Rightarrow> (err + string \<times> nat) option" where
  "dns_labels buf i acc =
     (if i \<ge> length buf then Some (Inl (Msg ''dns name overruns payload''))
      else
        (let n = unat (buf ! i); j = i + 1 in
         if n = 0 then Some (Inr (acc, j))
         else if n \<ge> 64 then Some (Inl (Msg ''dns compression pointer in query''))
         else if j + n > length buf then Some (Inl (Msg ''dns label overruns payload''))
         else (case slice buf j (j + n) of
                 None \<Rightarrow> None
               | Some l \<Rightarrow> dns_labels buf (j + n) ((if acc = [] then [] else acc @ ''.'') @ string_of_bytes l))))"
  by pat_completeness auto
termination
  by (relation "measure (\<lambda>(buf, i, acc). length buf - i)") auto

declare dns_labels.simps [simp del]

text \<open>
  \<open>n&0xC0 != 0\<close> for a byte is \<open>n \<ge> 64\<close>; the test for a length above 63 after it never
  holds.
\<close>

definition parseDNSQuestion :: "byte list \<Rightarrow> (err + string \<times> nat) option" where
  "parseDNSQuestion buf =
     (if length buf < 12
      then Some (Inl (Msg (''dns header truncated ('' @ Itoa (int (length buf)) @ '' < 12)'')))
      else do {
        qdcount \<leftarrow> be16 buf 4;
        if qdcount = 0 then Some (Inl (Msg ''dns has no question (qdcount=0)''))
        else do {
          r \<leftarrow> dns_labels buf 12 [];
          (case r of
             Inl e \<Rightarrow> Some (Inl e)
           | Inr (name, i) \<Rightarrow>
               if i + 4 > length buf then Some (Inl (Msg ''dns qtype/qclass overruns payload''))
               else do { qtype \<leftarrow> be16 buf i; Some (Inr (name, qtype)) })
        }
      })"

section \<open>TLS\<close>

definition hex_byte :: "byte \<Rightarrow> string" where
  "hex_byte b = ''0x'' @ hex_bytes [b]"

function find_sni :: "byte list \<Rightarrow> nat \<Rightarrow> nat \<Rightarrow> (err + string) option" where
  "find_sni buf extEnd i =
     (if i + 4 > extEnd then Some (Inl (Msg ''no server_name extension found''))
      else (case (be16 buf i, be16 buf (i + 2)) of
              (Some extType, Some extLen) \<Rightarrow>
                (let j = i + 4 in
                 if j + extLen > length buf
                 then Some (Inl (Msg (''extension type '' @ Itoa (int extType) @ '' overruns payload'')))
                 else if extType = 0 then
                   (if extLen < 5 then Some (Inl (Msg ''server_name extension too short''))
                    else (case (at buf (j + 2), be16 buf (j + 3)) of
                            (Some nameType, Some nameLen) \<Rightarrow>
                              if nameType \<noteq> 0
                              then Some (Inl (Msg (''server_name nameType '' @ Itoa (uint nameType) @ '' not host_name'')))
                              else if j + 5 + nameLen > length buf then Some (Inl (Msg ''server_name overruns payload''))
                              else map_option (\<lambda>l. Inr (string_of_bytes l)) (slice buf (j + 5) (j + 5 + nameLen))
                          | _ \<Rightarrow> None))
                 else find_sni buf extEnd (j + extLen))
            | _ \<Rightarrow> None))"
  by pat_completeness auto
termination
  by (relation "measure (\<lambda>(buf, e, i). Suc e - i)") auto

declare find_sni.simps [simp del]

definition parseClientHelloSNI :: "byte list \<Rightarrow> (err + string) option" where
  "parseClientHelloSNI buf =
     (if length buf < 43
      then Some (Inl (Msg (''buffer too short for ClientHello ('' @ Itoa (int (length buf)) @ '' < 43)'')))
      else do {
        b0 \<leftarrow> at buf 0;
        b5 \<leftarrow> at buf 5;
        if b0 \<noteq> 0x16 then Some (Inl (Msg (''not a TLS handshake record (type '' @ hex_byte b0 @ '')'')))
        else if b5 \<noteq> 0x01 then Some (Inl (Msg (''not a ClientHello (handshake type '' @ hex_byte b5 @ '')'')))
        else if 43 \<ge> length buf then Some (Inl (Msg ''truncated at SessionID''))
        else do {
          sidLen \<leftarrow> at buf 43;
          (let i = 44 + unat sidLen in
           if i + 2 > length buf then Some (Inl (Msg ''truncated at CipherSuites length''))
           else do {
             csLen \<leftarrow> be16 buf i;
             (let i = i + 2 + csLen in
              if i \<ge> length buf then Some (Inl (Msg ''truncated at CompressionMethods length''))
              else do {
                cmLen \<leftarrow> at buf i;
                (let i = i + 1 + unat cmLen in
                 if i + 2 > length buf then Some (Inl (Msg ''truncated at Extensions length''))
                 else do {
                   extTotal \<leftarrow> be16 buf i;
                   (let i = i + 2 in find_sni buf (min (i + extTotal) (length buf)) i)
                 })
              })
           })
        }
      })"

section \<open>No access is out of range\<close>

lemma at_Some [simp]: "i < length buf \<Longrightarrow> at buf i = Some (buf ! i)"
  by (simp add: at_def)

lemma be16_Some: "i + 1 < length buf \<Longrightarrow> be16 buf i = Some (unat (buf ! i) * 256 + unat (buf ! (i + 1)))"
  by (simp add: be16_def)

lemma dns_labels_safe: "\<exists>r. dns_labels buf i acc = Some r"
proof (induction buf i acc rule: dns_labels.induct)
  case (1 buf i acc)
  then show ?case
    by (subst dns_labels.simps) (auto simp: Let_def slice_def)
qed

lemma find_sni_safe: "extEnd \<le> length buf \<Longrightarrow> \<exists>r. find_sni buf extEnd i = Some r"
proof (induction buf extEnd i rule: find_sni.induct)
  case (1 buf extEnd i)
  show ?case
  proof (cases "i + 4 > extEnd")
    case True
    then show ?thesis by (subst find_sni.simps) simp
  next
    case False
    then have "i + 3 < length buf" using "1.prems" by simp
    then obtain ty len where b: "be16 buf i = Some ty" "be16 buf (i + 2) = Some len" by (simp add: be16_Some)
    have step: "\<exists>r. find_sni buf extEnd (i + 4 + len) = Some r" if "i + 4 + len \<le> length buf" "ty \<noteq> 0"
      using "1.IH" [OF False _ _ _ refl] that b "1.prems" by simp
    show ?thesis
      using False b step by (subst find_sni.simps) (auto simp: Let_def slice_def be16_Some)
  qed
qed

lemma parsers_safe:
  "\<exists>r. parseDNSQuestion buf = Some r" "\<exists>r. parseClientHelloSNI buf = Some r"
proof -
  show "\<exists>r. parseDNSQuestion buf = Some r"
  proof (cases "length buf < 12")
    case False
    obtain r where r: "dns_labels buf 12 [] = Some r" using dns_labels_safe by blast
    then show ?thesis
      using False by (cases r) (auto simp: parseDNSQuestion_def be16_Some)
  qed (simp add: parseDNSQuestion_def)
  show "\<exists>r. parseClientHelloSNI buf = Some r"
  proof (cases "length buf < 44")
    case False
    have f: "\<exists>r. find_sni buf (min n (length buf)) i = Some r" for n i by (rule find_sni_safe) simp
    have "at buf 0 = Some (buf ! 0)" "at buf 5 = Some (buf ! 5)" "at buf 43 = Some (buf ! 43)"
      using False by (auto simp: at_def)
    then show ?thesis
      using False f by (auto simp: parseClientHelloSNI_def be16_Some Let_def)
  next
    case True
    then show ?thesis
      by (cases "length buf < 43") (auto simp: parseClientHelloSNI_def at_def)
  qed
qed

text \<open>
  The parsers of captured packets never read out of range: on every sequence of bytes,
  however truncated or malformed, both return a result or an error.
\<close>

theorem parsers_never_panic:
  "(\<exists>r. parseDNSQuestion buf = Some r) \<and> (\<exists>r. parseClientHelloSNI buf = Some r)"
  by (simp add: parsers_safe)

section \<open>Round trips\<close>

text \<open>A question with its labels, and the name it stands for.\<close>

definition label_ok :: "byte list \<Rightarrow> bool" where
  "label_ok l \<longleftrightarrow> l \<noteq> [] \<and> length l < 64"

definition encode_name :: "byte list list \<Rightarrow> byte list" where
  "encode_name ls = concat (map (\<lambda>l. of_nat (length l) # l) ls) @ [0]"

definition dotted :: "byte list list \<Rightarrow> string" where
  "dotted ls = Join (map string_of_bytes ls) ''.''"

lemma nth_append_at [simp]: "(xs @ y # ys) ! length xs = y"
  by (simp add: nth_append)

lemma unat_len: "n < 64 \<Longrightarrow> unat (of_nat n :: byte) = n"
  by (simp add: unat_of_nat take_bit_eq_mod)

lemma dns_labels_step:
  assumes "label_ok l"
  shows "dns_labels (pre @ (of_nat (length l) # l) @ post) (length pre) acc =
    dns_labels (pre @ (of_nat (length l) # l) @ post) (length (pre @ of_nat (length l) # l))
      ((if acc = [] then [] else acc @ ''.'') @ string_of_bytes l)"
  using assms by (subst dns_labels.simps) (simp add: label_ok_def unat_len Let_def slice_def)

lemma dns_labels_encode:
  assumes "list_all label_ok ls"
  shows "dns_labels (pre @ encode_name ls @ post) (length pre) acc =
    Some (Inr (fold (\<lambda>l acc. (if acc = [] then [] else acc @ ''.'') @ string_of_bytes l) ls acc, length pre + length (encode_name ls)))"
  using assms
proof (induction ls arbitrary: pre acc)
  case Nil
  show ?case by (subst dns_labels.simps) (simp add: encode_name_def Let_def)
next
  case (Cons l ls)
  let ?l = "of_nat (length l) # l :: byte list"
  have e: "encode_name (l # ls) = ?l @ encode_name ls" by (simp add: encode_name_def)
  have "dns_labels (pre @ ?l @ encode_name ls @ post) (length pre) acc =
      dns_labels (pre @ ?l @ encode_name ls @ post) (length (pre @ ?l)) ((if acc = [] then [] else acc @ ''.'') @ string_of_bytes l)"
    using dns_labels_step [of l pre "encode_name ls @ post" acc] Cons.prems by simp
  also have "\<dots> = dns_labels ((pre @ ?l) @ encode_name ls @ post) (length (pre @ ?l)) ((if acc = [] then [] else acc @ ''.'') @ string_of_bytes l)"
    by simp
  also have "\<dots> = Some (Inr (fold (\<lambda>l acc. (if acc = [] then [] else acc @ ''.'') @ string_of_bytes l) ls
      ((if acc = [] then [] else acc @ ''.'') @ string_of_bytes l), length (pre @ ?l) + length (encode_name ls)))"
    using Cons.prems by (intro Cons.IH) simp
  finally show ?case by (simp add: e)
qed

lemma string_of_bytes_Nil [simp]: "string_of_bytes l = [] \<longleftrightarrow> l = []"
  by (simp add: string_of_bytes_def)

lemma fold_dotted:
  "list_all label_ok ls \<Longrightarrow> acc \<noteq> [] \<Longrightarrow>
   fold (\<lambda>l acc. (if acc = [] then [] else acc @ ''.'') @ string_of_bytes l) ls acc =
     acc @ concat (map (\<lambda>l. ''.'' @ string_of_bytes l) ls)"
  by (induction ls arbitrary: acc) (simp_all add: label_ok_def)

lemma Join_concat: "Join (s # ss) ''.'' = s @ concat (map (\<lambda>t. ''.'' @ t) ss)"
  by (induction ss arbitrary: s) simp_all

lemma dotted_fold:
  assumes "list_all label_ok ls"
  shows "fold (\<lambda>l acc. (if acc = [] then [] else acc @ ''.'') @ string_of_bytes l) ls [] = dotted ls"
proof (cases ls)
  case Nil
  then show ?thesis by (simp add: dotted_def)
next
  case (Cons l ls')
  then have "string_of_bytes l \<noteq> []" using assms by (simp add: label_ok_def)
  then show ?thesis
    using Cons assms fold_dotted [of ls' "string_of_bytes l"] by (simp add: dotted_def Join_concat comp_def)
qed

text \<open>
  C33. The name in a DNS query is read back exactly: a twelve-byte header that announces a
  question, the labels of a name, each of 1 to 63 bytes, type and class give the labels
  joined by dots and the type, whatever follows.
\<close>

theorem parseDNSQuestion_roundtrip:
  assumes "length hdr = 12" "hdr ! 4 \<noteq> 0 \<or> hdr ! 5 \<noteq> 0" "list_all label_ok ls"
  shows "parseDNSQuestion (hdr @ encode_name ls @ [t1, t2, c1, c2] @ rest) =
    Some (Inr (dotted ls, unat t1 * 256 + unat t2))"
proof -
  let ?q = "[t1, t2, c1, c2] @ rest"
  let ?buf = "hdr @ encode_name ls @ ?q"
  have q: "be16 ?buf 4 = Some (unat (hdr ! 4) * 256 + unat (hdr ! 5))"
    using assms(1) by (simp add: be16_Some nth_append)
  have nz: "unat (hdr ! 4) * 256 + unat (hdr ! 5) \<noteq> 0" using assms(2) by (auto simp: unat_eq_zero)
  have l: "dns_labels ?buf 12 [] = Some (Inr (dotted ls, 12 + length (encode_name ls)))"
    using dns_labels_encode [OF assms(3), of hdr ?q "[]"] assms(1) by (simp add: dotted_fold [OF assms(3)])
  have "be16 ?buf (12 + length (encode_name ls)) = Some (unat t1 * 256 + unat t2)"
    using assms(1) by (simp add: be16_Some nth_append)
  then show ?thesis using assms(1) q nz l by (simp add: parseDNSQuestion_def)
qed

theorem parseDNSQuestion_roundtrip_witness:
  "parseDNSQuestion ([0, 1, 1, 0, 0, 1, 0, 0, 0, 0, 0, 0] @ encode_name [[110, 112, 109], [111, 114, 103]] @ [0, 28, 0, 1] @ []) =
     Some (Inr (''npm.org'', 28))"
proof -
  have "dotted [[110, 112, 109], [111, 114, 103]] = ''npm.org''" by code_simp
  then show ?thesis
    using parseDNSQuestion_roundtrip [of "[0, 1, 1, 0, 0, 1, 0, 0, 0, 0, 0, 0]" "[[110, 112, 109], [111, 114, 103]]" 0 28 0 1 "[]"]
    by (simp add: label_ok_def)
qed

text \<open>The parts of a ClientHello.\<close>

definition u16 :: "nat \<Rightarrow> byte list" where
  "u16 n = [of_nat (n div 256), of_nat (n mod 256)]"

definition ext_bytes :: "nat \<times> byte list \<Rightarrow> byte list" where
  "ext_bytes = (\<lambda>(ty, d). u16 ty @ u16 (length d) @ d)"

definition sni_data :: "byte list \<Rightarrow> byte list" where
  "sni_data h = u16 (length h + 3) @ [0] @ u16 (length h) @ h"

definition client_hello :: "byte list \<Rightarrow> byte list \<Rightarrow> byte list \<Rightarrow> byte list \<Rightarrow> (nat \<times> byte list) list \<Rightarrow> byte list" where
  "client_hello hdr sid cs cm exts =
     (let e = concat (map ext_bytes exts) in
      hdr @ [of_nat (length sid)] @ sid @ u16 (length cs) @ cs @ [of_nat (length cm)] @ cm @ u16 (length e) @ e)"

lemma unat_byte: "n < 256 \<Longrightarrow> unat (of_nat n :: byte) = n"
  by (simp add: unat_of_nat take_bit_eq_mod)

lemma length_u16 [simp]: "length (u16 n) = 2"
  by (simp add: u16_def)

lemma be16_u16: "n < 65536 \<Longrightarrow> be16 (pre @ u16 n @ post) (length pre) = Some n"
  by (simp add: be16_Some u16_def nth_append unat_byte)

lemma be16_u16_at: "n < 65536 \<Longrightarrow> i = length pre \<Longrightarrow> buf = pre @ u16 n @ post \<Longrightarrow> be16 buf i = Some n"
  by (simp add: be16_u16)

lemma at_at: "i = length pre \<Longrightarrow> buf = pre @ b # post \<Longrightarrow> at buf i = Some b"
  by (simp add: nth_append)

lemma ext_reads:
  assumes "ty < 65536" "length d < 65536" "buf = pre @ ext_bytes (ty, d) @ post"
  shows "be16 buf (length pre) = Some ty" "be16 buf (length pre + 2) = Some (length d)"
    "length pre + 4 + length d \<le> length buf"
proof -
  show "be16 buf (length pre) = Some ty"
    using assms by (intro be16_u16_at [where pre = pre and post = "u16 (length d) @ d @ post"]) (simp_all add: ext_bytes_def)
  show "be16 buf (length pre + 2) = Some (length d)"
    using assms by (intro be16_u16_at [where pre = "pre @ u16 ty" and post = "d @ post"]) (simp_all add: ext_bytes_def)
  show "length pre + 4 + length d \<le> length buf" using assms(3) by (simp add: ext_bytes_def)
qed

lemma find_sni_skip:
  assumes "ty < 65536" "ty \<noteq> 0" "length d < 65536" "buf = pre @ ext_bytes (ty, d) @ post" "length pre + 4 \<le> extEnd"
  shows "find_sni buf extEnd (length pre) = find_sni buf extEnd (length (pre @ ext_bytes (ty, d)))"
proof -
  have len: "length (pre @ ext_bytes (ty, d)) = length pre + 4 + length d" by (simp add: ext_bytes_def)
  show ?thesis
    unfolding len using ext_reads [OF assms(1,3,4)] assms(2,5)
    by (subst find_sni.simps) (simp add: Let_def del: One_nat_def add_2_eq_Suc add_2_eq_Suc')
qed

lemma find_sni_hit:
  assumes "length h + 5 < 65536" "buf = pre @ ext_bytes (0, sni_data h) @ post" "length pre + 4 \<le> extEnd"
  shows "find_sni buf extEnd (length pre) = Some (Inr (string_of_bytes h))"
proof -
  have len: "length (sni_data h) = length h + 5" by (simp add: sni_data_def)
  have e: "ext_bytes (0, sni_data h) = u16 0 @ u16 (length h + 5) @ u16 (length h + 3) @ [0] @ u16 (length h) @ h"
    by (simp only: ext_bytes_def len prod.case) (simp only: sni_data_def append_assoc)
  note r = ext_reads [of 0 "sni_data h", OF _ _ assms(2)]
  have t: "at buf (length pre + 6) = Some 0"
    using assms(2) by (intro at_at [where pre = "pre @ u16 0 @ u16 (length h + 5) @ u16 (length h + 3)" and post = "u16 (length h) @ h @ post"])
      (simp_all only: e length_append length_u16, simp_all)
  have n: "be16 buf (length pre + 7) = Some (length h)"
    using assms by (intro be16_u16_at [where pre = "pre @ u16 0 @ u16 (length h + 5) @ u16 (length h + 3) @ [0]" and post = "h @ post"])
      (simp_all only: e length_append length_u16, simp_all)
  have s: "slice buf (length pre + 9) (length pre + 9 + length h) = Some h"
    unfolding assms(2) e by (simp add: slice_def)
  show ?thesis
    using r assms(1,3) t n s by (subst find_sni.simps) (auto simp: len Let_def slice_def add.commute add.left_commute)
qed

lemma find_sni_first:
  assumes "\<forall>(ty, d)\<in>set es. ty < 65536 \<and> ty \<noteq> 0 \<and> length d < 65536" "length h + 5 < 65536"
    and "length pre + length (concat (map ext_bytes es)) + 4 \<le> extEnd"
  shows "find_sni (pre @ concat (map ext_bytes es) @ ext_bytes (0, sni_data h) @ post) extEnd (length pre) = Some (Inr (string_of_bytes h))"
  using assms(1,3)
proof (induction es arbitrary: pre)
  case Nil
  then show ?case using find_sni_hit [OF assms(2) refl, of pre extEnd post] by simp
next
  case (Cons e es)
  obtain ty d where e: "e = (ty, d)" by (cases e)
  let ?rest = "concat (map ext_bytes es) @ ext_bytes (0, sni_data h) @ post"
  have "find_sni (pre @ ext_bytes e @ ?rest) extEnd (length pre) = find_sni (pre @ ext_bytes e @ ?rest) extEnd (length (pre @ ext_bytes e))"
    unfolding e using Cons.prems by (intro find_sni_skip [OF _ _ _ refl]) (auto simp: e)
  also have "\<dots> = Some (Inr (string_of_bytes h))"
    using Cons.IH [of "pre @ ext_bytes e"] Cons.prems by (simp add: e)
  finally show ?case by simp
qed

text \<open>
  C34. The server name in a TLS ClientHello is read back exactly: for any session id,
  cipher suites, compression methods and other extensions in front, the host name of the
  first server name extension is returned.
\<close>

theorem parseClientHelloSNI_roundtrip:
  assumes "length hdr = 43" "hdr ! 0 = 0x16" "hdr ! 5 = 0x01" "length sid < 256" "length cs < 65536" "length cm < 256"
    and "\<forall>(ty, d)\<in>set es. ty < 65536 \<and> ty \<noteq> 0 \<and> length d < 65536" "length h + 5 < 65536"
    and "length (concat (map ext_bytes (es @ (0, sni_data h) # es'))) < 65536"
  shows "parseClientHelloSNI (client_hello hdr sid cs cm (es @ (0, sni_data h) # es')) = Some (Inr (string_of_bytes h))"
proof -
  let ?e = "concat (map ext_bytes (es @ (0, sni_data h) # es'))"
  let ?n = "u16 (length ?e) @ ?e"
  define p2 where "p2 = hdr @ [of_nat (length sid)] @ sid"
  define p3 where "p3 = p2 @ u16 (length cs) @ cs"
  define p4 where "p4 = p3 @ [of_nat (length cm)] @ cm"
  define buf where "buf = client_hello hdr sid cs cm (es @ (0, sni_data h) # es')"
  have b4: "buf = p4 @ ?n" by (simp add: buf_def client_hello_def p4_def p3_def p2_def Let_def)
  have b: "buf = hdr @ of_nat (length sid) # sid @ u16 (length cs) @ cs @ [of_nat (length cm)] @ cm @ ?n"
      "buf = p2 @ u16 (length cs) @ cs @ [of_nat (length cm)] @ cm @ ?n" "buf = p3 @ of_nat (length cm) # cm @ ?n"
    by (simp_all add: b4 p4_def p3_def p2_def)
  have len: "length p2 = 44 + length sid" "length p3 = length p2 + 2 + length cs" "length p4 = length p3 + 1 + length cm"
    using assms(1) by (simp_all add: p4_def p3_def p2_def)
  have total: "length buf = length p4 + 2 + length ?e" by (simp add: b4)
  have 1: "at buf 43 = Some (of_nat (length sid))" using assms(1) by (intro at_at [OF _ b(1)]) simp
  have 2: "be16 buf (length p2) = Some (length cs)" using assms(5) by (intro be16_u16_at [OF _ refl b(2)])
  have 3: "at buf (length p3) = Some (of_nat (length cm))" by (rule at_at [OF refl b(3)])
  have 4: "be16 buf (length p4) = Some (length ?e)" using assms(9) by (intro be16_u16_at [OF _ refl b4])
  have 0: "at buf 0 = Some 0x16" "at buf 5 = Some 0x01"
    using assms(1-3) by (simp_all add: b(1) at_def nth_append)
  have "find_sni ((p4 @ u16 (length ?e)) @ concat (map ext_bytes es) @ ext_bytes (0, sni_data h) @ concat (map ext_bytes es'))
      (length buf) (length (p4 @ u16 (length ?e))) = Some (Inr (string_of_bytes h))"
    by (rule find_sni_first [OF assms(7,8)]) (simp add: total ext_bytes_def)
  then have 5: "find_sni buf (length buf) (length p4 + 2) = Some (Inr (string_of_bytes h))" by (simp add: b4)
  have "parseClientHelloSNI buf = Some (Inr (string_of_bytes h))"
    unfolding parseClientHelloSNI_def
    using 0 1 2 3 4 5 len total assms(4,6) by (simp add: Let_def unat_byte)
  then show ?thesis by (simp add: buf_def)
qed

theorem parseClientHelloSNI_roundtrip_witness:
  "parseClientHelloSNI (client_hello (0x16 # replicate 4 0 @ 0x01 # replicate 37 0) [] [0, 1] [0]
     ([(16, [2, 104, 50])] @ (0, sni_data [110, 112, 109]) # [])) = Some (Inr ''npm'')"
proof -
  have "string_of_bytes [110, 112, 109] = ''npm''" by code_simp
  then show ?thesis
    using parseClientHelloSNI_roundtrip [of "0x16 # replicate 4 0 @ 0x01 # replicate 37 0" "[]" "[0, 1]" "[0]"
      "[(16, [2, 104, 50])]" "[110, 112, 109]" "[]"]
    by (simp add: nth_append ext_bytes_def sni_data_def)
qed

end
