(* ===== verification/Config.thy ===== *)
theory Config
  imports Parsing
begin

text \<open>
  \<open>config/config.go\<close>: the optional configuration file. Its YAML text is given by the value
  it parses to; \<open>sha256\<close> is the digest of the library. A section that is absent is an
  empty list.
\<close>

record WatchedPathEntry =
  we_Prefix :: string
  we_Cred :: bool

record AllowConfigEntry =
  ae_Value :: string
  ae_Note :: string

record AllowConfig =
  ac_CIDRs :: "AllowConfigEntry list"
  ac_SNIs :: "AllowConfigEntry list"
  ac_Paths :: "AllowConfigEntry list"

record Config =
  cf_WatchedPaths :: "WatchedPathEntry list"
  cf_Allow :: AllowConfig

definition empty_Config :: Config where
  "empty_Config = \<lparr>cf_WatchedPaths = [], cf_Allow = \<lparr>ac_CIDRs = [], ac_SNIs = [], ac_Paths = []\<rparr>\<rparr>"

definition AsProto :: "WatchedPathEntry \<Rightarrow> WatchedPath" where
  "AsProto e = \<lparr>wt_Prefix = we_Prefix e, wt_CredTagged = we_Cred e\<rparr>"

definition WatchedPathsAsProto :: "Config option \<Rightarrow> WatchedPath list" where
  "WatchedPathsAsProto c =
     (case c of None \<Rightarrow> [] | Some c \<Rightarrow> if cf_WatchedPaths c = [] then [] else map AsProto (cf_WatchedPaths c))"

definition configEntryID :: "(byte list \<Rightarrow> byte list) \<Rightarrow> string \<Rightarrow> string \<Rightarrow> string" where
  "configEntryID sha256 kind v = ''cfg'' @ hex_bytes (take 6 (sha256 (bytes_of (kind @ ''|'' @ v))))"

definition config_row :: "(byte list \<Rightarrow> byte list) \<Rightarrow> time \<Rightarrow> string \<Rightarrow> AllowConfigEntry \<Rightarrow> AllowEntry" where
  "config_row sha256 now kind e =
     \<lparr>al_ID = configEntryID sha256 kind (ae_Value e), al_Scope = AllowScopeGlobal, al_PackageName = [], al_Kind = kind,
      al_Value = ae_Value e, al_Note = ae_Note e, al_CreatedAt = now\<rparr>"

text \<open>The rows of the file, in the order they are inserted: addresses, server names, paths.\<close>

definition config_rows :: "(byte list \<Rightarrow> byte list) \<Rightarrow> time \<Rightarrow> AllowConfig \<Rightarrow> AllowEntry list" where
  "config_rows sha256 now a =
     concat (map (\<lambda>(kind, es). map (config_row sha256 now kind) (filter (\<lambda>e. ae_Value e \<noteq> []) es))
       [(AllowKindCIDR, ac_CIDRs a), (AllowKindSNI, ac_SNIs a), (AllowKindPath, ac_Paths a)])"

text \<open>An insertion that fails is logged and passed over.\<close>

definition ApplyAllowlist :: "(byte list \<Rightarrow> byte list) \<Rightarrow> time \<Rightarrow> Config option \<Rightarrow> 'db Backend option \<Rightarrow> 'db \<Rightarrow> 'db" where
  "ApplyAllowlist sha256 now c store db =
     (case (c, store) of
        (Some c, Some be) \<Rightarrow> fold (\<lambda>row db. snd (be_AddAllowEntry be now row db)) (config_rows sha256 now (cf_Allow c)) db
      | _ \<Rightarrow> db)"

text \<open>
  \<open>Load\<close>: the content of the file, that there is none, or the error of reading it;
  \<open>yaml\<close> parses.
\<close>

datatype config_file = NoFile | Unreadable err | Content string

definition Load :: "(string \<Rightarrow> err + Config) \<Rightarrow> string \<Rightarrow> config_file \<Rightarrow> err + Config" where
  "Load yaml path f =
     (if path = [] then Inr empty_Config
      else (case f of
              NoFile \<Rightarrow> Inr empty_Config
            | Unreadable e \<Rightarrow> Inl (Wrap (''read config '' @ path) e)
            | Content raw \<Rightarrow> (case yaml raw of Inl e \<Rightarrow> Inl (Wrap (''parse config '' @ path) e) | Inr c \<Rightarrow> Inr c)))"

end
