(* ===== verification/Watcher_Props.thy ===== *)
theory Watcher_Props
  imports Watcher Config Differ_Demo
begin

text \<open>Properties of the release watcher and of the configured allowlist, on SQLite.\<close>

section \<open>Polls\<close>

lemma UpdatePackageCheck_effect:
  assumes "reliable db" "v \<noteq> []"
  shows "snd (sqlite_UpdatePackageCheck now n v db) = db\<lparr>db_tab := (db_tab db)\<lparr>t_packages := upd_where (\<lambda>p. pk_name p = n)
      (\<lambda>p. p\<lparr>pk_last_checked_at := Some (format_time now), pk_last_seen_version := Some v\<rparr>) (t_packages (db_tab db))\<rparr>\<rparr>"
  using assms by (simp add: sqlite_UpdatePackageCheck_def stmt_reliable)

lemma RecordRelease_effect:
  assumes "reliable db"
  shows "reliable (snd (sqlite_RecordRelease r db))"
    "t_packages (db_tab (snd (sqlite_RecordRelease r db))) = t_packages (db_tab db)"
    "rel_PackageName r \<in> pk_name ` set (t_packages (db_tab db)) \<Longrightarrow>
       (rel_PackageName r, rel_Version r) \<in> rl_key ` set (t_releases (db_tab (snd (sqlite_RecordRelease r db))))"
  using assms by (auto simp: sqlite_RecordRelease_def stmt_reliable insert_release_def add_release_def encode_release_def)

text \<open>\<open>I\<close> is what the rest of the state keeps for the submit function to leave the packages alone.\<close>

definition keeps_packages :: "('s \<Rightarrow> bool) \<Rightarrow> (sqlite, 's) submit \<Rightarrow> bool" where
  "keeps_packages I f \<longleftrightarrow> (\<forall>pkg v db s res db' s'. reliable db \<longrightarrow> I s \<longrightarrow> f pkg v (db, s) = (res, db', s') \<longrightarrow>
     reliable db' \<and> t_packages (db_tab db') = t_packages (db_tab db) \<and> I s')"

lemma keeps_packagesD:
  "keeps_packages I f \<Longrightarrow> reliable db \<Longrightarrow> I s \<Longrightarrow> f pkg v (db, s) = (res, db', s') \<Longrightarrow>
   reliable db' \<and> t_packages (db_tab db') = t_packages (db_tab db) \<and> I s'"
  unfolding keeps_packages_def by blast

definition versioned :: "(string \<Rightarrow> err + PackageVersion) \<Rightarrow> bool" where
  "versioned reg \<longleftrightarrow> (\<forall>pkg v. reg pkg = Inr v \<longrightarrow> pv_Version v \<noteq> [])"

lemma Resolve_name: "Resolve net base pkg ver = Inr v \<Longrightarrow> pv_Version v \<noteq> [] \<and> pv_Name v = pkg \<and> (ver \<noteq> [] \<longrightarrow> pv_Version v = ver)"
  by (auto simp: Resolve_def Let_def split: sum.splits if_splits option.splits)

lemma versioned_npm: "versioned (NewNPMRegistry net)"
  using Resolve_name by (auto simp: versioned_def NewNPMRegistry_def LatestVersion_def)

text \<open>The last version seen of a package is the registry's.\<close>

definition seen :: "(string \<Rightarrow> err + PackageVersion) \<Rightarrow> package_row \<Rightarrow> bool" where
  "seen reg r \<longleftrightarrow> (\<forall>v. reg (pk_name r) = Inr v \<longrightarrow> pk_last_seen_version r = Some (pv_Version v))"

definition checked :: "(string \<Rightarrow> err + PackageVersion) \<Rightarrow> time \<Rightarrow> string \<Rightarrow> package_row list \<Rightarrow> package_row list" where
  "checked reg now n rs = (case reg n of
      Inl e \<Rightarrow> rs
    | Inr v \<Rightarrow> upd_where (\<lambda>r. pk_name r = n)
        (\<lambda>r. r\<lparr>pk_last_checked_at := Some (format_time now), pk_last_seen_version := Some (pv_Version v)\<rparr>) rs)"

lemma snd_eqE: "snd p = x \<Longrightarrow> (\<And>a. p = (a, x) \<Longrightarrow> thesis) \<Longrightarrow> thesis"
  by (cases p) simp

lemma pollPackage_packages:
  assumes "wa_store w = sqlite_Backend" "keeps_packages I (wa_submit w)" "reliable db" "I s" "versioned (wa_registry w)"
    "pollPackage w now p (db, s) = (db', s')"
  shows "reliable db' \<and> I s' \<and> t_packages (db_tab db') = checked (wa_registry w) now (wp_Name p) (t_packages (db_tab db))"
proof (cases "wa_registry w (wp_Name p)")
  case (Inl e)
  then show ?thesis using assms(3,4,6) by (simp add: pollPackage_def checked_def)
next
  case (Inr v)
  let ?db1 = "snd (sqlite_UpdatePackageCheck now (wp_Name p) (pv_Version v) db)"
  let ?r = "\<lparr>rel_PackageName = wp_Name p, rel_Version = pv_Version v, rel_TarballSHA256 = pv_TarballSHA v,
     rel_NPMIntegrity = pv_Integrity v, rel_PublishedAt = pv_PublishedAt v, rel_DiscoveredAt = now\<rparr>"
  have 1: "reliable ?db1" "t_packages (db_tab ?db1) = checked (wa_registry w) now (wp_Name p) (t_packages (db_tab db))"
    using assms(3,5) Inr by (simp_all add: UpdatePackageCheck_effect versioned_def checked_def)
  note 2 = RecordRelease_effect(1,2) [OF 1(1), of ?r]
  show ?thesis
  proof (cases "pv_Version v = wp_LastSeenVersion p")
    case True
    then show ?thesis using Inr 1 assms(1,4,6) by (auto simp: pollPackage_def Let_def)
  next
    case False
    then have "snd (wa_submit w (wp_Name p) (pv_Version v) (snd (sqlite_RecordRelease ?r ?db1), s)) = (db', s')"
      using Inr assms(1,6) by (simp add: pollPackage_def Let_def)
    then obtain res where "wa_submit w (wp_Name p) (pv_Version v) (snd (sqlite_RecordRelease ?r ?db1), s) = (res, db', s')"
      by (rule snd_eqE)
    from keeps_packagesD [OF assms(2) 2(1) assms(4) this] show ?thesis by (simp add: 2(2) 1(2))
  qed
qed

lemma poll_all_seen:
  assumes "wa_store w = sqlite_Backend" "keeps_packages I (wa_submit w)" "versioned (wa_registry w)"
  shows "reliable db \<Longrightarrow> I s \<Longrightarrow> \<forall>r\<in>set (t_packages (db_tab db)). seen (wa_registry w) r \<or> pk_name r \<in> wp_Name ` set ps \<Longrightarrow>
    poll_all w (\<lambda>_. False) clock i ps (db, s) = (db', s') \<Longrightarrow>
    reliable db' \<and> (\<forall>r\<in>set (t_packages (db_tab db')). seen (wa_registry w) r)"
proof (induction ps arbitrary: db s i)
  case (Cons p ps)
  obtain db1 s1 where out: "pollPackage w (clock i) p (db, s) = (db1, s1)" by fastforce
  note 1 = pollPackage_packages [OF assms(1,2) Cons.prems(1,2) assms(3) out]
  have "seen (wa_registry w) r \<or> pk_name r \<in> wp_Name ` set ps" if "r \<in> set (t_packages (db_tab db1))" for r
    using that Cons.prems(3) 1 by (cases "wa_registry w (wp_Name p)") (auto simp: set_upd_where seen_def checked_def)
  then show ?case using Cons.IH [of db1 s1 "Suc i"] Cons.prems(4) 1 out by simp
qed simp

lemma poll_all_idle:
  assumes "wa_store w = sqlite_Backend" "versioned (wa_registry w)"
  shows "\<forall>p\<in>set ps. \<forall>v. wa_registry w (wp_Name p) = Inr v \<longrightarrow> wp_LastSeenVersion p = pv_Version v \<Longrightarrow>
    snd (poll_all w c clock i ps (db, s)) = s"
proof (induction ps arbitrary: db s i)
  case (Cons p ps)
  have "\<exists>db'. pollPackage w (clock i) p (db, s) = (db', s)"
    using Cons.prems by (cases "wa_registry w (wp_Name p)") (auto simp: pollPackage_def Let_def)
  then obtain db' where "pollPackage w (clock i) p (db, s) = (db', s)" by blast
  with Cons show ?case by simp
qed simp

lemma polled_once:
  assumes "wa_store w = sqlite_Backend" "keeps_packages I (wa_submit w)" "versioned (wa_registry w)" "reliable db" "I s"
    "PollOnce w (\<lambda>_. False) clock (db, s) = (db1, s1)"
  shows "snd (PollOnce w c clock' (db1, s')) = s'"
proof -
  let ?ps = "map scan_package (order_by pk_name (t_packages (db_tab db)))"
  have all: "poll_all w (\<lambda>_. False) clock 0 ?ps (db, s) = (db1, s1)"
    using assms(1,4,6) by (simp add: PollOnce_def sqlite_ListWatchedPackages_def)
  have "pk_name r \<in> wp_Name ` set ?ps" if "r \<in> set (t_packages (db_tab db))" for r
    using that by (force simp: scan_package_def)
  then have 1: "reliable db1" "\<forall>r\<in>set (t_packages (db_tab db1)). seen (wa_registry w) r"
    using poll_all_seen [OF assms(1-5) _ all] by blast+
  have "PollOnce w c clock' (db1, s') = poll_all w c clock' 0 (map scan_package (order_by pk_name (t_packages (db_tab db1)))) (db1, s')"
    using assms(1) 1 by (simp add: PollOnce_def sqlite_ListWatchedPackages_def)
  moreover have "snd \<dots> = s'"
    using 1 by (intro poll_all_idle [OF assms(1,3)]) (auto simp: scan_package_def seen_def NullString_def)
  ultimately show ?thesis by simp
qed

lemma CreateRun_keeps:
  assumes "reliable db"
  shows "reliable (snd (sqlite_CreateRun now r db))" "t_packages (db_tab (snd (sqlite_CreateRun now r db))) = t_packages (db_tab db)"
proof -
  have "snd (stmt (insert_run x) db) = db \<or> snd (stmt (insert_run x) db) = db\<lparr>db_tab := (db_tab db)\<lparr>t_runs := t_runs (db_tab db) @ [x]\<rparr>\<rparr>" for x
    using assms by (simp add: stmt_reliable insert_run_def)
  then have "snd (sqlite_CreateRun now r db) = db \<or> (\<exists>x. snd (sqlite_CreateRun now r db) = db\<lparr>db_tab := (db_tab db)\<lparr>t_runs := t_runs (db_tab db) @ [x]\<rparr>\<rparr>)"
    by (cases "RunState_IsValid (run_State r)") (auto simp: CreateRun_snd simp del: if_split)
  then show "reliable (snd (sqlite_CreateRun now r db))" "t_packages (db_tab (snd (sqlite_CreateRun now r db))) = t_packages (db_tab db)"
    using assms by auto
qed

lemma SubmitScan_keeps:
  assumes "reliable (sv_db s)" "sv_store s = Some sqlite_Backend" "SubmitScan now r job s = (res, s')"
  shows "reliable (sv_db s') \<and> t_packages (db_tab (sv_db s')) = t_packages (db_tab (sv_db s)) \<and> sv_store s' = Some sqlite_Backend"
proof (cases "map_of (sv_runners s) r")
  case None
  then show ?thesis using assms by (simp add: SubmitScan_def)
next
  case (Some rr)
  let ?run = "run_of_job (fill_job now (sv_defaultWatchedPaths s) job)"
  have "sv_db s' = snd (sqlite_CreateRun now ?run (sv_db s))" "sv_store s' = sv_store s"
    using Some assms(2,3) by (auto simp: SubmitScan_def Let_def)
  then show ?thesis using CreateRun_keeps [OF assms(1), of now ?run] assms(2) by simp
qed

lemma submit_release_keeps: "keeps_packages (\<lambda>s. sv_store s = Some sqlite_Backend) (submit_release ord now)"
  unfolding keeps_packages_def
proof (intro allI impI)
  fix pkg v db s res db' s'
  assume a: "reliable db" "sv_store s = Some sqlite_Backend" "submit_release ord now pkg v (db, s) = (res, db', s')"
  show "reliable db' \<and> t_packages (db_tab db') = t_packages (db_tab db) \<and> sv_store s' = Some sqlite_Backend"
  proof (cases "FirstRegisteredRunner ord (s\<lparr>sv_db := db\<rparr>) = []")
    case True
    then show ?thesis using a by (simp add: submit_release_def)
  next
    case False
    obtain x y where xy: "SubmitScan now (FirstRegisteredRunner ord (s\<lparr>sv_db := db\<rparr>)) (watcher_job pkg v) (s\<lparr>sv_db := db\<rparr>) = (x, y)" by fastforce
    then have "db' = sv_db y" "s' = y" using False a(3) by (auto simp: submit_release_def)
    then show ?thesis using SubmitScan_keeps [OF _ _ xy] a(1,2) by simp
  qed
qed

text \<open>
  A release is submitted at most once: after an undisturbed poll of the watched packages,
  as long as the registry answers the same, no later poll submits anything, whatever
  happened to the server in between. So a release found while no runner was registered,
  or whose submission failed, is never scanned.
\<close>

theorem release_never_resubmitted:
  assumes "reliable db" "sv_store s = Some sqlite_Backend"
    and "w = new_Watcher sqlite_Backend (NewNPMRegistry net) (submit_release ord now) iv"
    and "PollOnce w (\<lambda>_. False) clock (db, s) = (db1, s1)"
  shows "snd (PollOnce w cancelled clock' (db1, s')) = s'"
  using polled_once [of w "\<lambda>s. sv_store s = Some sqlite_Backend"] assms submit_release_keeps versioned_npm
  by (simp add: new_Watcher_def)

definition demo_meta :: npmMetadata where
  "demo_meta = \<lparr>nm_Latest = ''1.0.1'', nm_Versions = [(''1.0.1'', \<lparr>nd_Tarball = [], nd_SHASum = [], nd_Integrity = []\<rparr>)], nm_Time = []\<rparr>"

definition demo_net :: registry_net where
  "demo_net = \<lparr>rg_get = (\<lambda>_. Inr (200, [])), rg_decode = (\<lambda>_. Inr demo_meta), rg_parse = (\<lambda>_. None)\<rparr>"

definition demo_watched :: sqlite where
  "demo_watched = (demo_db [])\<lparr>db_tab := (demo_tables [])\<lparr>t_packages :=
     [\<lparr>pk_name = ''left-pad'', pk_added_at = format_time 0, pk_last_checked_at = None, pk_last_seen_version = None\<rparr>]\<rparr>\<rparr>"

definition demo_watch_server :: "sqlite Server" where
  "demo_watch_server = new_Server \<lparr>op_OrchestratorID = [], op_Version = [], op_Dispatcher = None, op_Storage = Some sqlite_Backend,
     op_Notifier = False, op_DefaultWatchedPaths = []\<rparr> demo_watched"

definition demo_watcher :: "(sqlite, sqlite Server) Watcher" where
  "demo_watcher = new_Watcher sqlite_Backend (NewNPMRegistry demo_net) (submit_release (\<lambda>xs. xs) 1) 0"

theorem release_never_resubmitted_witness:
  "\<forall>s'. snd (PollOnce demo_watcher (\<lambda>_. False) int (fst (PollOnce demo_watcher (\<lambda>_. False) int (demo_watched, demo_watch_server)), s')) = s'"
proof (intro allI)
  fix s' :: "sqlite Server"
  obtain db1 s1 where out: "PollOnce demo_watcher (\<lambda>_. False) int (demo_watched, demo_watch_server) = (db1, s1)" by fastforce
  have "reliable demo_watched" "sv_store demo_watch_server = Some sqlite_Backend"
    by (simp_all add: demo_watched_def demo_watch_server_def new_Server_def)
  from release_never_resubmitted [OF this demo_watcher_def out] out
  show "snd (PollOnce demo_watcher (\<lambda>_. False) int (fst (PollOnce demo_watcher (\<lambda>_. False) int (demo_watched, demo_watch_server)), s')) = s'"
    by simp
qed

text \<open>
  A new release of a watched package: the poll records the release and its version as
  the last seen before it submits the scan, and submits exactly that version of that package.
\<close>

theorem new_release_recorded:
  assumes "wa_store w = sqlite_Backend" "reliable db" "wa_registry w (wp_Name p) = Inr v" "pv_Version v \<noteq> []"
    "pv_Version v \<noteq> wp_LastSeenVersion p" "wp_Name p \<in> pk_name ` set (t_packages (db_tab db))"
  shows "\<exists>db1. pollPackage w now p (db, s) = snd (wa_submit w (wp_Name p) (pv_Version v) (db1, s)) \<and> reliable db1 \<and>
    (wp_Name p, pv_Version v) \<in> rl_key ` set (t_releases (db_tab db1)) \<and>
    (\<forall>r\<in>set (t_packages (db_tab db1)). pk_name r = wp_Name p \<longrightarrow> pk_last_seen_version r = Some (pv_Version v))"
proof -
  let ?db = "snd (sqlite_UpdatePackageCheck now (wp_Name p) (pv_Version v) db)"
  let ?r = "\<lparr>rel_PackageName = wp_Name p, rel_Version = pv_Version v, rel_TarballSHA256 = pv_TarballSHA v,
     rel_NPMIntegrity = pv_Integrity v, rel_PublishedAt = pv_PublishedAt v, rel_DiscoveredAt = now\<rparr>"
  note upd = UpdatePackageCheck_effect [OF assms(2,4), of now "wp_Name p"]
  have rel: "reliable ?db" using assms(2) by (simp add: upd)
  have "wp_Name p \<in> pk_name ` set (t_packages (db_tab ?db))"
    using assms(6) by (simp add: upd set_upd_where_key)
  then have key: "(wp_Name p, pv_Version v) \<in> rl_key ` set (t_releases (db_tab (snd (sqlite_RecordRelease ?r ?db))))"
    using RecordRelease_effect(3) [OF rel, of ?r] by simp
  have last: "pk_last_seen_version r = Some (pv_Version v)"
    if "r \<in> set (t_packages (db_tab (snd (sqlite_RecordRelease ?r ?db))))" "pk_name r = wp_Name p" for r
    using that unfolding RecordRelease_effect(2) [OF rel] by (auto simp: upd set_upd_where)
  have "pollPackage w now p (db, s) = snd (wa_submit w (wp_Name p) (pv_Version v) (snd (sqlite_RecordRelease ?r ?db), s))"
    using assms(1,3,5) by (simp add: pollPackage_def Let_def)
  then show ?thesis using RecordRelease_effect(1) [OF rel, of ?r] key last by blast
qed

theorem new_release_recorded_witness:
  "\<exists>db1. pollPackage demo_watcher 5 (scan_package (hd (t_packages (db_tab demo_watched)))) (demo_watched, demo_watch_server) =
      snd (wa_submit demo_watcher ''left-pad'' ''1.0.1'' (db1, demo_watch_server)) \<and>
    (''left-pad'', ''1.0.1'') \<in> rl_key ` set (t_releases (db_tab db1))"
proof -
  let ?p = "scan_package (hd (t_packages (db_tab demo_watched)))"
  have p: "wp_Name ?p = ''left-pad''" "wp_LastSeenVersion ?p = []"
    by (simp_all add: scan_package_def demo_watched_def NullString_def)
  have "wa_registry demo_watcher ''left-pad'' = Inr \<lparr>pv_Name = ''left-pad'', pv_Version = ''1.0.1'', pv_TarballSHA = [], pv_Integrity = [],
      pv_PublishedAt = zero_time\<rparr>"
    by (simp add: demo_watcher_def new_Watcher_def NewNPMRegistry_def LatestVersion_def Resolve_def fetchMetadata_def demo_net_def
        demo_meta_def Let_def)
  moreover have "reliable demo_watched" "wa_store demo_watcher = sqlite_Backend"
      "''left-pad'' \<in> pk_name ` set (t_packages (db_tab demo_watched))"
    by (simp_all add: demo_watched_def demo_watcher_def new_Watcher_def)
  ultimately show ?thesis
    using new_release_recorded [of demo_watcher demo_watched ?p _ 5 demo_watch_server] unfolding p by fastforce
qed

section \<open>The configured allowlist\<close>

lemma config_row_id: "al_ID (config_row sha256 now kind e) = configEntryID sha256 kind (ae_Value e)"
  by (simp add: config_row_def)

lemma config_rows_ok: "r \<in> set (config_rows sha256 now a) \<Longrightarrow> allow_checks (encode_allow t r)"
  by (auto simp: config_rows_def config_row_def encode_allow_def allow_checks_def nullableString_def)

lemma AddAllowEntry_effect:
  assumes "reliable db" "allow_checks (encode_allow now r)"
  shows "snd (sqlite_AddAllowEntry now r db) =
    (if al_ID r \<in> aw_id ` set (t_allowlists (db_tab db)) then db
     else db\<lparr>db_tab := (db_tab db)\<lparr>t_allowlists := t_allowlists (db_tab db) @ [encode_allow now r]\<rparr>\<rparr>)"
  using assms by (simp add: sqlite_AddAllowEntry_def stmt_reliable insert_allow_def encode_allow_def)

lemma apply_rows_present:
  assumes "reliable db" "\<forall>r\<in>set rs. allow_checks (encode_allow now r)" "al_ID ` set rs \<subseteq> aw_id ` set (t_allowlists (db_tab db))"
  shows "fold (\<lambda>r db. snd (sqlite_AddAllowEntry now r db)) rs db = db"
  using assms by (induction rs) (simp_all add: AddAllowEntry_effect)

lemma apply_rows:
  assumes "reliable db" "\<forall>r\<in>set rs. allow_checks (encode_allow now r)"
  shows "\<exists>new. set new \<subseteq> encode_allow now ` set rs \<and>
    fold (\<lambda>r db. snd (sqlite_AddAllowEntry now r db)) rs db = db\<lparr>db_tab := (db_tab db)\<lparr>t_allowlists := t_allowlists (db_tab db) @ new\<rparr>\<rparr> \<and>
    al_ID ` set rs \<subseteq> aw_id ` set (t_allowlists (db_tab db) @ new)"
  using assms
proof (induction rs arbitrary: db)
  case Nil
  show ?case by (intro exI [of _ "[]"]) simp
next
  case (Cons r rs)
  show ?case
  proof (cases "al_ID r \<in> aw_id ` set (t_allowlists (db_tab db))")
    case True
    with Cons obtain new where "set new \<subseteq> encode_allow now ` set rs"
        "fold (\<lambda>r db. snd (sqlite_AddAllowEntry now r db)) rs db = db\<lparr>db_tab := (db_tab db)\<lparr>t_allowlists := t_allowlists (db_tab db) @ new\<rparr>\<rparr>"
        "al_ID ` set rs \<subseteq> aw_id ` set (t_allowlists (db_tab db) @ new)" by (meson list.set_intros(2))
    with True Cons.prems show ?thesis by (intro exI [of _ new]) (auto simp: AddAllowEntry_effect)
  next
    case False
    let ?db = "db\<lparr>db_tab := (db_tab db)\<lparr>t_allowlists := t_allowlists (db_tab db) @ [encode_allow now r]\<rparr>\<rparr>"
    have id: "aw_id (encode_allow now r) = al_ID r" by (simp add: encode_allow_def)
    obtain new where "set new \<subseteq> encode_allow now ` set rs"
        "fold (\<lambda>r db. snd (sqlite_AddAllowEntry now r db)) rs ?db = ?db\<lparr>db_tab := (db_tab ?db)\<lparr>t_allowlists := t_allowlists (db_tab ?db) @ new\<rparr>\<rparr>"
        "al_ID ` set rs \<subseteq> aw_id ` set (t_allowlists (db_tab ?db) @ new)"
      using Cons.IH [of ?db] Cons.prems by auto
    with False Cons.prems id show ?thesis by (intro exI [of _ "encode_allow now r # new"]) (auto simp: AddAllowEntry_effect)
  qed
qed

text \<open>
  Applying the configured allowlist: every entry with a value has its row afterwards,
  rows are only added, and applying it again, at any time and with any notes, changes
  nothing. So a note edited in the file never reaches the database.
\<close>

theorem config_allowlist_idempotent:
  assumes "reliable db" "ApplyAllowlist sha256 now (Some c) (Some sqlite_Backend) db = db'"
    and "map (map ae_Value) [ac_CIDRs (cf_Allow c'), ac_SNIs (cf_Allow c'), ac_Paths (cf_Allow c')] =
         map (map ae_Value) [ac_CIDRs (cf_Allow c), ac_SNIs (cf_Allow c), ac_Paths (cf_Allow c)]"
  shows "(\<exists>new. t_allowlists (db_tab db') = t_allowlists (db_tab db) @ new) \<and>
    (\<forall>r\<in>set (config_rows sha256 now (cf_Allow c)). al_ID r \<in> aw_id ` set (t_allowlists (db_tab db'))) \<and>
    ApplyAllowlist sha256 now' (Some c') (Some sqlite_Backend) db' = db'"
proof -
  let ?rs = "config_rows sha256 now (cf_Allow c)" and ?rs' = "config_rows sha256 now' (cf_Allow c')"
  have ok: "\<forall>r\<in>set ?rs. allow_checks (encode_allow now r)" "\<forall>r\<in>set ?rs'. allow_checks (encode_allow now' r)"
    using config_rows_ok by blast+
  obtain new where new: "db' = db\<lparr>db_tab := (db_tab db)\<lparr>t_allowlists := t_allowlists (db_tab db) @ new\<rparr>\<rparr>"
      "al_ID ` set ?rs \<subseteq> aw_id ` set (t_allowlists (db_tab db) @ new)"
    using apply_rows [OF assms(1) ok(1)] assms(2) by (auto simp: ApplyAllowlist_def)
  have ids: "(\<lambda>v. configEntryID sha256 k v) ` {v \<in> ae_Value ` set es. v \<noteq> []} =
      al_ID ` set (map (config_row sha256 t k) (filter (\<lambda>e. ae_Value e \<noteq> []) es))" for k t es
    by (auto simp: config_row_id image_iff)
  have vals: "ae_Value ` set (f (cf_Allow c')) = ae_Value ` set (f (cf_Allow c))" if "f \<in> {ac_CIDRs, ac_SNIs, ac_Paths}" for f
    using assms(3) that by (auto simp flip: set_map)
  have "al_ID ` set ?rs' = al_ID ` set ?rs"
    unfolding config_rows_def by (simp add: image_Un ids [symmetric] vals del: set_map)
  then have "fold (\<lambda>r db. snd (sqlite_AddAllowEntry now' r db)) ?rs' db' = db'"
    using new assms(1) ok(2) by (intro apply_rows_present) auto
  with new show ?thesis by (auto simp: ApplyAllowlist_def)
qed

definition demo_config :: "string \<Rightarrow> Config" where
  "demo_config note = \<lparr>cf_WatchedPaths = [], cf_Allow = \<lparr>ac_CIDRs = [\<lparr>ae_Value = ''10.0.0.0/8'', ae_Note = note\<rparr>],
     ac_SNIs = [], ac_Paths = []\<rparr>\<rparr>"

theorem config_allowlist_idempotent_witness:
  "ApplyAllowlist rev 9 (Some (demo_config ''edited'')) (Some sqlite_Backend)
      (ApplyAllowlist rev 5 (Some (demo_config ''lab'')) (Some sqlite_Backend) (demo_db [])) =
    ApplyAllowlist rev 5 (Some (demo_config ''lab'')) (Some sqlite_Backend) (demo_db [])"
  using config_allowlist_idempotent [of "demo_db []" rev 5 "demo_config ''lab''" _ "demo_config ''edited''" 9, OF _ refl]
  by (simp add: demo_config_def)

section \<open>Retention\<close>

text \<open>Up to 106751 days, about 292 years, the duration fits.\<close>

lemma retention_fits:
  assumes "0 \<le> days" "days \<le> 106751" "0 \<le> now" "now < 2 ^ 63"
  shows "retention_cutoff now days = now - days * 86400 * second"
proof -
  have "wrap64 (- days * 24 * 3600 * second) = - days * 24 * 3600 * second"
    using assms(1,2) by (intro wrap64_id) (simp_all add: second_def)
  moreover have "wrap64 (now + - days * 24 * 3600 * second) = now + - days * 24 * 3600 * second"
    using assms by (intro wrap64_id) (simp_all add: second_def)
  ultimately show ?thesis by (simp add: retention_cutoff_def)
qed

lemma prune_events:
  assumes "reliable db"
  shows "t_events (db_tab (prune sqlite_Backend now days db)) =
    filter (\<lambda>e. retention_cutoff now days \<le> ev_TsNS e \<or> ev_ID e \<in> de_evidence_event_id ` set (t_deviations (db_tab db)))
      (t_events (db_tab db))"
  using assms
  by (simp add: prune_def sqlite_PruneEvents_def wrap_err_snd stmt_reliable delete_events_def Let_def not_less)

text \<open>
  C31. A retention of up to 106751 days (292 years) does what it says: on a database that does
  not fail a pruning keeps exactly the events of that many days and the evidence of
  deviations.
\<close>

theorem retention_exact:
  assumes "reliable db" "0 \<le> now" "now < 2 ^ 63" "0 < days" "days \<le> 106751"
  shows "t_events (db_tab (prune sqlite_Backend now days db)) =
    filter (\<lambda>e. now - days * 86400 * second \<le> ev_TsNS e \<or> ev_ID e \<in> de_evidence_event_id ` set (t_deviations (db_tab db)))
      (t_events (db_tab db))"
  using prune_events [OF assms(1), of now days] retention_fits [of days now] assms(2-) by simp

theorem retention_exact_witness:
  "t_events (db_tab (prune sqlite_Backend (8000000 * second) 90 (demo_db []))) =
     filter (\<lambda>e. 224000 * second \<le> ev_TsNS e \<or> ev_ID e \<in> de_evidence_event_id ` set (t_deviations (db_tab (demo_db []))))
       (t_events (db_tab (demo_db [])))"
  using retention_exact [of "demo_db []" "8000000 * second" 90] by (simp add: second_def)

text \<open>
  Beyond that the 64-bit product wraps around. A retention of 200000 days, meant to keep
  everything, puts the cutoff into the future and deletes every event that is no evidence.
\<close>

theorem retention_overflow:
  assumes "reliable db" "0 \<le> now" "now < 2 ^ 62" "\<forall>e\<in>set (t_events (db_tab db)). ev_TsNS e \<le> now"
  shows "t_events (db_tab (prune sqlite_Backend now 200000 db)) =
    filter (\<lambda>e. ev_ID e \<in> de_evidence_event_id ` set (t_deviations (db_tab db))) (t_events (db_tab db))"
proof -
  have "wrap64 (- 200000 * 24 * 3600 * second) = 1166744073709551616" by (simp add: wrap64_def second_def)
  moreover have "wrap64 (now + 1166744073709551616) = now + 1166744073709551616" using assms(2,3) by (intro wrap64_id) simp_all
  ultimately have "now < retention_cutoff now 200000" by (simp add: retention_cutoff_def)
  then have "retention_cutoff now 200000 \<le> ev_TsNS e \<longleftrightarrow> False" if "e \<in> set (t_events (db_tab db))" for e
    using assms(4) that by fastforce
  then show ?thesis unfolding prune_events [OF assms(1)] by (auto intro!: filter_cong)
qed

end
