(* ===== verification/Agent.thy ===== *)
theory Agent
  imports Api
begin

text \<open>
  \<open>runner/agent\<close>: the runner's HTTP client (\<open>client.go\<close>) and the event streamer
  (\<open>events.go\<close>). The network is a record of round trips over a state \<open>'w\<close> that stands for
  everything beyond it: each call yields a transport error, or the status, the text of the
  body and what the body decodes to. Marshalling the messages cannot fail.
\<close>

section \<open>The client\<close>

type_synonym 'a answer = "err + int \<times> string \<times> (err + 'a)"

record 'w transport =
  tr_register :: "string \<Rightarrow> RunnerRegistration \<Rightarrow> 'w \<Rightarrow> RegistrationAck answer \<times> 'w"
  tr_poll :: "string \<Rightarrow> 'w \<Rightarrow> Job answer \<times> 'w"
  tr_heartbeat :: "string \<Rightarrow> Heartbeat \<Rightarrow> 'w \<Rightarrow> HeartbeatAck answer \<times> 'w"
  tr_result :: "string \<Rightarrow> WireScanResult \<Rightarrow> 'w \<Rightarrow> unit answer \<times> 'w"
  tr_events :: "string \<Rightarrow> EventBatch \<Rightarrow> 'w \<Rightarrow> unit answer \<times> 'w"

record Client =
  cl_baseURL :: string
  cl_runnerID :: string
  cl_orchestratorID :: string
  cl_jobPollInterval :: duration
  cl_heartbeatInterval :: duration

text \<open>The host the runner runs on: its name, the kernel release file, and the certificates.\<close>

record host =
  ho_Hostname :: "err + string"
  ho_osrelease :: "err + string"
  ho_ReadFile :: "string \<Rightarrow> err + string"
  ho_PEM_usable :: "string \<Rightarrow> bool"
  ho_LoadX509KeyPair :: "string \<Rightarrow> string \<Rightarrow> err option"

record ClientOptions =
  co_OrchestratorURL :: string
  co_RunnerID :: string
  co_Timeout :: duration
  co_TLSCAFile :: string
  co_TLSCertFile :: string
  co_TLSKeyFile :: string

text \<open>\<open>Some (ca, pair)\<close> is a transport with these trust anchors and client certificate.\<close>

definition buildClientTransport ::
  "host \<Rightarrow> string \<Rightarrow> string \<Rightarrow> string \<Rightarrow> err + (string option \<times> (string \<times> string) option) option" where
  "buildClientTransport h caFile certFile keyFile =
     (if caFile = [] \<and> certFile = [] \<and> keyFile = [] then Inr None
      else
        (case (if caFile = [] then Inr None
               else (case ho_ReadFile h caFile of
                       Inl e \<Rightarrow> Inl (Wrap (''read CA '' @ Quote caFile) e)
                     | Inr pem \<Rightarrow> if ho_PEM_usable h pem then Inr (Some pem)
                                  else Inl (Msg (''CA '' @ Quote caFile @ '' has no usable certs'')))) of
           Inl e \<Rightarrow> Inl e
         | Inr ca \<Rightarrow>
             if certFile = [] \<and> keyFile = [] then Inr (Some (ca, None))
             else if certFile = [] \<or> keyFile = [] then Inl (Msg ''both -tls-cert and -tls-key required for mTLS'')
             else (case ho_LoadX509KeyPair h certFile keyFile of
                     Some e \<Rightarrow> Inl (Wrap ''load client cert'' e)
                   | None \<Rightarrow> Inr (Some (ca, Some (certFile, keyFile))))))"

definition new_Client ::
  "host \<Rightarrow> ClientOptions \<Rightarrow> err + Client \<times> duration \<times> (string option \<times> (string \<times> string) option) option" where
  "new_Client h opts =
     (if co_OrchestratorURL opts = [] then Inl (Msg ''OrchestratorURL is required'')
      else
        (case (if co_RunnerID opts \<noteq> [] then Inr (co_RunnerID opts)
               else (case ho_Hostname h of
                       Inl e \<Rightarrow> Inl (Wrap ''default RunnerID from hostname'' e)
                     | Inr n \<Rightarrow> Inr n)) of
           Inl e \<Rightarrow> Inl e
         | Inr rid \<Rightarrow>
             (case buildClientTransport h (co_TLSCAFile opts) (co_TLSCertFile opts) (co_TLSKeyFile opts) of
                Inl e \<Rightarrow> Inl (Wrap ''tls transport'' e)
              | Inr t \<Rightarrow>
                  Inr (\<lparr>cl_baseURL = co_OrchestratorURL opts, cl_runnerID = rid, cl_orchestratorID = [],
                        cl_jobPollInterval = 0, cl_heartbeatInterval = 0\<rparr>,
                       (if co_Timeout opts = 0 then 30 * second else co_Timeout opts), t))))"

definition hostname :: "host \<Rightarrow> string" where
  "hostname h = (case ho_Hostname h of Inl e \<Rightarrow> [] | Inr n \<Rightarrow> n)"

definition kernelVersion :: "host \<Rightarrow> string" where
  "kernelVersion h = (case ho_osrelease h of Inl e \<Rightarrow> ''linux-unknown'' | Inr b \<Rightarrow> TrimSpace b)"

definition registration :: "host \<Rightarrow> Client \<Rightarrow> RunnerRegistration" where
  "registration h c =
     \<lparr>rr_RunnerID = cl_runnerID c, rr_Hostname = hostname h, rr_Capabilities = [''sensor''],
      rr_KernelVersion = kernelVersion h, rr_ProtoVersion = CurrentProtoVersion\<rparr>"

definition bad_status :: "string \<Rightarrow> int \<Rightarrow> string \<Rightarrow> err" where
  "bad_status pre code text = Msg (pre @ ''orchestrator returned '' @ Itoa code @ '': '' @ text)"

definition Register :: "host \<Rightarrow> 'w transport \<Rightarrow> Client \<Rightarrow> 'w \<Rightarrow> err option \<times> Client \<times> 'w" where
  "Register h tr c w =
     (case tr_register tr (cl_baseURL c @ ''/v1/runners/register'') (registration h c) w of
        (Inl e, w') \<Rightarrow> (Some (Wrap ''POST /v1/runners/register'' e), c, w')
      | (Inr (code, text, reply), w') \<Rightarrow>
          if code \<noteq> 200 then (Some (bad_status ''register: '' code text), c, w')
          else (case reply of
                  Inl e \<Rightarrow> (Some (Wrap ''decode RegistrationAck'' e), c, w')
                | Inr ack \<Rightarrow>
                    if \<not> ra_OK ack then (Some (Msg ''register: orchestrator returned ok=false''), c, w')
                    else (None, c\<lparr>cl_orchestratorID := ra_OrchestratorID ack,
                                  cl_jobPollInterval := ra_JobPollInterval ack,
                                  cl_heartbeatInterval := ra_HeartbeatInterval ack\<rparr>, w')))"

definition poll_url :: "Client \<Rightarrow> string" where
  "poll_url c = cl_baseURL c @ ''/v1/runners/'' @ cl_runnerID c @ ''/jobs''"

definition Client_PollJob :: "'w transport \<Rightarrow> Client \<Rightarrow> 'w \<Rightarrow> (err + Job option) \<times> 'w" where
  "Client_PollJob tr c w =
     (case tr_poll tr (poll_url c) w of
        (Inl e, w') \<Rightarrow> (Inl (Wrap (''GET '' @ poll_url c) e), w')
      | (Inr (code, text, reply), w') \<Rightarrow>
          if code = 204 then (Inr None, w')
          else if code = 200 then
            (case reply of
               Inl e \<Rightarrow> (Inl (Wrap ''decode Job'' e), w')
             | Inr job \<Rightarrow> (Inr (Some job), w'))
          else if code = 404 then (Inl (Msg ''runner not registered; re-register before polling''), w')
          else (Inl (bad_status [] code text), w'))"

definition result_url :: "Client \<Rightarrow> string \<Rightarrow> string" where
  "result_url c runIDHex = cl_baseURL c @ ''/v1/runs/'' @ runIDHex @ ''/result''"

definition SendScanResult :: "'w transport \<Rightarrow> Client \<Rightarrow> string \<Rightarrow> WireScanResult \<Rightarrow> 'w \<Rightarrow> err option \<times> 'w" where
  "SendScanResult tr c runIDHex result w =
     (case tr_result tr (result_url c runIDHex) result w of
        (Inl e, w') \<Rightarrow> (Some (Wrap (''POST '' @ result_url c runIDHex) e), w')
      | (Inr (code, text, reply), w') \<Rightarrow>
          (if code < 200 \<or> code \<ge> 300 then Some (bad_status [] code (take 512 text)) else None, w'))"

definition heartbeat_url :: "Client \<Rightarrow> string" where
  "heartbeat_url c = cl_baseURL c @ ''/v1/runners/'' @ cl_runnerID c @ ''/heartbeat''"

definition SendHeartbeat :: "'w transport \<Rightarrow> Client \<Rightarrow> Heartbeat \<Rightarrow> 'w \<Rightarrow> (err + bool) \<times> 'w" where
  "SendHeartbeat tr c hb w =
     (case tr_heartbeat tr (heartbeat_url c) (hb\<lparr>hb_RunnerID := cl_runnerID c\<rparr>) w of
        (Inl e, w') \<Rightarrow> (Inl (Wrap (''POST '' @ heartbeat_url c) e), w')
      | (Inr (code, text, reply), w') \<Rightarrow>
          if code \<noteq> 200 then (Inl (bad_status [] code (take 512 text)), w')
          else (case reply of
                  Inl e \<Rightarrow> (Inl (Wrap ''decode HeartbeatAck'' e), w')
                | Inr ack \<Rightarrow> (Inr (if ha_UnknownRunner ack then False else ha_OK ack), w')))"

section \<open>The event streamer\<close>

record StreamStats =
  ss_BatchesSent :: "64 word"
  ss_EventsSent :: "64 word"
  ss_BatchSendErrors :: "64 word"

text \<open>
  \<open>es_in\<close> is the channel with its 1024 slots, \<open>es_closed\<close> whether it is closed; \<open>es_done\<close> tells
  that \<open>loop\<close> has returned, and \<open>es_pending\<close> is its local slice.
\<close>

record EventStreamer =
  es_baseURL :: string
  es_runID :: "byte list"
  es_maxBatch :: nat
  es_in :: "EventEnvelope list"
  es_closed :: bool
  es_done :: bool
  es_seq :: "64 word"
  es_pending :: "EventEnvelope list"
  es_stats :: StreamStats

definition in_capacity :: nat where
  "in_capacity = 1024"

definition NewEventStreamer :: "string \<Rightarrow> byte list \<Rightarrow> EventStreamer" where
  "NewEventStreamer baseURL runID =
     \<lparr>es_baseURL = baseURL, es_runID = runID, es_maxBatch = 64, es_in = [], es_closed = False, es_done = False,
      es_seq = 0, es_pending = [], es_stats = \<lparr>ss_BatchesSent = 0, ss_EventsSent = 0, ss_BatchSendErrors = 0\<rparr>\<rparr>"

text \<open>Sending on a closed channel panics, also in a \<open>select\<close> with a default: \<open>None\<close>.\<close>

definition Send :: "EventEnvelope \<Rightarrow> EventStreamer \<Rightarrow> EventStreamer option" where
  "Send e s =
     (if es_closed s then None
      else if length (es_in s) < in_capacity then Some (s\<lparr>es_in := es_in s @ [e]\<rparr>)
      else Some s)"

definition close_in :: "EventStreamer \<Rightarrow> EventStreamer option" where
  "close_in s = (if es_closed s then None else Some (s\<lparr>es_closed := True\<rparr>))"

definition events_url :: "EventStreamer \<Rightarrow> string" where
  "events_url s = es_baseURL s @ ''/v1/runs/'' @ hex_bytes (es_runID s) @ ''/events''"

text \<open>A request made with a context that is done fails and is not sent.\<close>

definition post_batch :: "bool \<Rightarrow> 'w transport \<Rightarrow> EventStreamer \<Rightarrow> EventBatch \<Rightarrow> 'w \<Rightarrow> err option \<times> 'w" where
  "post_batch cancelled tr s b w =
     (if cancelled then (Some (Wrap ''POST'' (Msg ''context canceled'')), w)
      else (case tr_events tr (events_url s) b w of
              (Inl e, w') \<Rightarrow> (Some (Wrap ''POST'' e), w')
            | (Inr (code, text, reply), w') \<Rightarrow> (if code \<ge> 300 then Some (bad_status [] code text) else None, w')))"

definition batch_of :: "EventStreamer \<Rightarrow> EventBatch" where
  "batch_of s = \<lparr>eb_RunID = es_runID s, eb_Seq = es_seq s + 1, eb_Events = es_pending s\<rparr>"

definition flush :: "bool \<Rightarrow> 'w transport \<Rightarrow> EventStreamer \<times> 'w \<Rightarrow> EventStreamer \<times> 'w" where
  "flush cancelled tr sw =
     (let (s, w) = sw in
      if es_pending s = [] then (s, w)
      else
        (let b = batch_of s; (r, w') = post_batch cancelled tr s b w; st = es_stats s in
         (s\<lparr>es_seq := es_seq s + 1, es_pending := [],
            es_stats := (case r of
               Some e \<Rightarrow> st\<lparr>ss_BatchSendErrors := ss_BatchSendErrors st + 1\<rparr>
             | None \<Rightarrow> st\<lparr>ss_BatchesSent := ss_BatchesSent st + 1,
                          ss_EventsSent := ss_EventsSent st + of_nat (length (eb_Events b))\<rparr>)\<rparr>, w')))"

text \<open>
  One turn of \<open>loop\<close>: a receive from the channel, a tick, or the end of the context. A receive
  blocks on an open empty channel: \<open>None\<close>.
\<close>

definition on_receive :: "bool \<Rightarrow> 'w transport \<Rightarrow> EventStreamer \<times> 'w \<Rightarrow> (EventStreamer \<times> 'w) option" where
  "on_receive cancelled tr sw =
     (let (s, w) = sw in
      case es_in s of
        [] \<Rightarrow> if es_closed s then (let (s', w') = flush cancelled tr (s, w) in Some (s'\<lparr>es_done := True\<rparr>, w')) else None
      | e # es \<Rightarrow>
          (let s' = s\<lparr>es_in := es, es_pending := es_pending s @ [e]\<rparr> in
           Some (if length (es_pending s') \<ge> es_maxBatch s' then flush cancelled tr (s', w) else (s', w))))"

definition on_done :: "'w transport \<Rightarrow> EventStreamer \<times> 'w \<Rightarrow> EventStreamer \<times> 'w" where
  "on_done tr sw = (let (s', w') = flush True tr sw in (s'\<lparr>es_done := True\<rparr>, w'))"

text \<open>
  The streamer among its callers, its context and the network: \<open>select\<close> may take any case
  that is ready. \<open>None\<close> is an action that cannot happen now, or a panic of the caller.
\<close>

datatype stream_action = DoSend EventEnvelope | DoClose | Cancel | Receive | Tick | CtxDone

record 'w stream_sys =
  sy_streamer :: EventStreamer
  sy_cancelled :: bool
  sy_world :: 'w

fun stream_step :: "'w transport \<Rightarrow> stream_action \<Rightarrow> 'w stream_sys \<Rightarrow> 'w stream_sys option" where
  "stream_step tr (DoSend e) y = map_option (\<lambda>s. y\<lparr>sy_streamer := s\<rparr>) (Send e (sy_streamer y))"
| "stream_step tr DoClose y = map_option (\<lambda>s. y\<lparr>sy_streamer := s\<rparr>) (close_in (sy_streamer y))"
| "stream_step tr Cancel y = Some (y\<lparr>sy_cancelled := True\<rparr>)"
| "stream_step tr Receive y =
     (if es_done (sy_streamer y) then None
      else map_option (\<lambda>(s, w). y\<lparr>sy_streamer := s, sy_world := w\<rparr>)
             (on_receive (sy_cancelled y) tr (sy_streamer y, sy_world y)))"
| "stream_step tr Tick y =
     (if es_done (sy_streamer y) then None
      else (let (s, w) = flush (sy_cancelled y) tr (sy_streamer y, sy_world y) in
            Some (y\<lparr>sy_streamer := s, sy_world := w\<rparr>)))"
| "stream_step tr CtxDone y =
     (if es_done (sy_streamer y) \<or> \<not> sy_cancelled y then None
      else (let (s, w) = on_done tr (sy_streamer y, sy_world y) in
            Some (y\<lparr>sy_streamer := s, sy_world := w\<rparr>)))"

end
