(* ===== verification/Sensor_Events.thy ===== *)
theory Sensor_Events
  imports Parsing Net
begin

text \<open>
  \<open>sensor/events.go\<close> and \<open>decodeRecord\<close> of \<open>sensor/sensor.go\<close>: the records of the ring
  buffer. \<open>binary.Read\<close> takes the fields of a struct from the front of the record, little
  endian and without gaps, skips blank fields, fails on a record that is too short and
  ignores what follows the struct.
\<close>

section \<open>Reading\<close>

definition u8 :: "byte list \<Rightarrow> nat \<Rightarrow> byte" where
  "u8 raw off = raw ! off"

definition le :: "byte list \<Rightarrow> nat \<Rightarrow> nat \<Rightarrow> nat" where
  "le raw off n = foldr (\<lambda>b acc. unat b + 256 * acc) (take n (drop off raw)) 0"

definition le16 :: "byte list \<Rightarrow> nat \<Rightarrow> 16 word" where
  "le16 raw off = of_nat (le raw off 2)"

definition le32 :: "byte list \<Rightarrow> nat \<Rightarrow> 32 word" where
  "le32 raw off = of_nat (le raw off 4)"

definition le64 :: "byte list \<Rightarrow> nat \<Rightarrow> 64 word" where
  "le64 raw off = of_nat (le raw off 8)"

definition bytes_at :: "byte list \<Rightarrow> nat \<Rightarrow> nat \<Rightarrow> byte list" where
  "bytes_at raw off n = take n (drop off raw)"

definition short :: "string \<Rightarrow> byte list \<Rightarrow> err" where
  "short what raw = Wrap (''binary.Read '' @ what) (Msg (''unexpected EOF (got '' @ Itoa (int (length raw)) @ '' bytes)''))"

definition read_header :: "byte list \<Rightarrow> EventHeader" where
  "read_header raw =
     \<lparr>eh_TsNs = le64 raw 0, eh_CgroupID = le64 raw 8, eh_RunID = bytes_at raw 16 16, eh_PID = le32 raw 32, eh_TID = le32 raw 36,
      eh_PPID = le32 raw 40, eh_UID = le32 raw 44, eh_GID = le32 raw 48, eh_Comm = bytes_at raw 52 16,
      eh_Type = u8 raw 68, eh_Tags = u8 raw 69\<rparr>"

definition read_openat :: "byte list \<Rightarrow> err + OpenatEvent" where
  "read_openat raw =
     (if length raw < 340 then Inl (short ''OpenatEvent'' raw)
      else Inr \<lparr>oa_Header = read_header raw, oa_DFD = le32 raw 72, oa_Flags = le32 raw 76, oa_PathLen = le16 raw 80,
                oa_Truncated = u8 raw 82, oa_Path = bytes_at raw 84 256\<rparr>)"

definition read_ancestor :: "byte list \<Rightarrow> nat \<Rightarrow> Ancestor" where
  "read_ancestor raw off = \<lparr>an_PID = le32 raw off, an_PPID = le32 raw (off + 4), an_Comm = bytes_at raw (off + 8) 16\<rparr>"

definition read_exec :: "byte list \<Rightarrow> err + ExecEvent" where
  "read_exec raw =
     (if length raw < 972 then Inl (short ''ExecEvent'' raw)
      else Inr \<lparr>ex_Header = read_header raw, ex_Argc = u8 raw 72, ex_ArgvLens = bytes_at raw 76 8, ex_Argv = bytes_at raw 84 512,
                ex_BinaryPath = bytes_at raw 596 256,
                ex_Ancestors = map (\<lambda>i. read_ancestor raw (852 + 24 * i)) [0..<5]\<rparr>)"

definition read_connect :: "byte list \<Rightarrow> err + NetConnectEvent" where
  "read_connect raw =
     (if length raw < 96 then Inl (short ''NetConnectEvent'' raw)
      else Inr \<lparr>nc_Header = read_header raw, nc_Family = u8 raw 72, nc_Source = u8 raw 73, nc_DestPort = le16 raw 74,
                nc_Sockfd = le32 raw 76, nc_DestAddr = bytes_at raw 80 16\<rparr>)"

definition read_dns :: "byte list \<Rightarrow> err + DnsQueryEvent" where
  "read_dns raw =
     (if length raw < 296 then Inl (short ''DnsQueryEvent'' raw)
      else Inr \<lparr>dq_Header = read_header raw, dq_Family = u8 raw 72, dq_DestPort = le16 raw 74, dq_QueryLen = le16 raw 76,
                dq_DestAddr = bytes_at raw 80 16, dq_Query = bytes_at raw 96 200\<rparr>)"

definition read_sni :: "byte list \<Rightarrow> err + TLSSniEvent" where
  "read_sni raw =
     (if length raw < 848 then Inl (short ''TLSSniEvent'' raw)
      else Inr \<lparr>ts_Header = read_header raw, ts_Source = u8 raw 72, ts_SniLen = le16 raw 74, ts_RawPayloadLen = le16 raw 76,
                ts_SNI = bytes_at raw 80 256, ts_RawPayload = bytes_at raw 336 512\<rparr>)"

section \<open>Strings and addresses\<close>

definition cstring :: "byte list \<Rightarrow> string" where
  "cstring b = string_of_bytes (takeWhile (\<lambda>c. c \<noteq> 0) b)"

text \<open>
  \<open>net.IP.String\<close>: four bytes, or sixteen of the form ::ffff:a.b.c.d, are printed dotted;
  other addresses as eight groups, the leftmost longest run of at least two zero groups
  as two colons.
\<close>

definition v6_fields :: "byte list \<Rightarrow> nat list" where
  "v6_fields b = map (\<lambda>i. unat (b ! (2 * i)) * 256 + unat (b ! (2 * i + 1))) [0..<8]"

fun hex_nat :: "nat \<Rightarrow> string" where
  "hex_nat n = (if n < 16 then [hex_digit n] else hex_nat (n div 16) @ [hex_digit (n mod 16)])"

definition zero_run :: "nat list \<Rightarrow> nat \<Rightarrow> nat" where
  "zero_run gs i = length (takeWhile (\<lambda>g. g = 0) (drop i gs))"

definition best_run :: "nat list \<Rightarrow> (nat \<times> nat) option" where
  "best_run gs =
     fold (\<lambda>i best. let l = zero_run gs i in
        if l \<ge> 2 \<and> (case best of None \<Rightarrow> True | Some (_, l') \<Rightarrow> l' < l) then Some (i, l) else best) [0..<8] None"

definition format_ipv6 :: "byte list \<Rightarrow> string" where
  "format_ipv6 b =
     (let gs = v6_fields b in
      case best_run gs of
        None \<Rightarrow> Join (map hex_nat gs) '':''
      | Some (i, l) \<Rightarrow> Join (map hex_nat (take i gs)) '':'' @ ''::'' @ Join (map hex_nat (drop (i + l) gs)) '':'')"

definition ip_string :: "byte list \<Rightarrow> string" where
  "ip_string b =
     (if length b = 4 then format_ipv4 b
      else if length b = 16 then
        (if take 12 b = replicate 10 0 @ [0xFF, 0xFF] then format_ipv4 (drop 12 b) else format_ipv6 b)
      else ''?'' @ hex_bytes b)"

definition formatDestIP :: "byte \<Rightarrow> byte list \<Rightarrow> string" where
  "formatDestIP family addr =
     (if family = AFInet then ip_string (take 4 addr)
      else if family = AFInet6 then ip_string addr
      else [])"

section \<open>Events\<close>

record FileAccessEvent =
  fa_Raw :: OpenatEvent
  fa_PathName :: string
  fa_CommStr :: string

record ExecEventS =
  xe_Raw :: ExecEvent
  xe_BinaryPathStr :: string
  xe_ArgvStrs :: "string list"
  xe_CommStr :: string
  xe_AncestorComms :: "string list"

record NetConnectEventS =
  ne_Raw :: NetConnectEvent
  ne_DestIP :: string
  ne_CommStr :: string

record DNSQueryEventS =
  de_Raw :: DnsQueryEvent
  de_QName :: string
  de_QType :: nat
  de_DestIP :: string
  de_CommStr :: string
  de_ParseErr :: "err option"

record TLSSniEventS =
  te_Raw :: TLSSniEvent
  te_SNI :: string
  te_DuplicateOf :: string
  te_SourceName :: string
  te_CommStr :: string
  te_ParseErr :: "err option"

datatype Event =
    FileAccess FileAccessEvent
  | Exec ExecEventS
  | NetConnect NetConnectEventS
  | DNSQuery DNSQueryEventS
  | TLSSni TLSSniEventS

fun Event_EventType :: "Event \<Rightarrow> byte" where
  "Event_EventType (FileAccess e) = EventTypeFileAccess"
| "Event_EventType (Exec e) = EventTypeExec"
| "Event_EventType (NetConnect e) = EventTypeNetConnect"
| "Event_EventType (DNSQuery e) = EventTypeDNSQuery"
| "Event_EventType (TLSSni e) = EventTypeTLSSNI"

fun Event_EventHeader :: "Event \<Rightarrow> EventHeader" where
  "Event_EventHeader (FileAccess e) = oa_Header (fa_Raw e)"
| "Event_EventHeader (Exec e) = ex_Header (xe_Raw e)"
| "Event_EventHeader (NetConnect e) = nc_Header (ne_Raw e)"
| "Event_EventHeader (DNSQuery e) = dq_Header (de_Raw e)"
| "Event_EventHeader (TLSSni e) = ts_Header (te_Raw e)"

section \<open>Decoders\<close>

text \<open>Slices are checked: \<open>None\<close> is a panic.\<close>

definition capped :: "nat \<Rightarrow> byte list \<Rightarrow> byte list option" where
  "capped n b = slice b 0 (if n > length b then length b else n)"

definition decodeOpenatEvent :: "byte list \<Rightarrow> (err + FileAccessEvent) option" where
  "decodeOpenatEvent raw =
     (case read_openat raw of
        Inl e \<Rightarrow> Some (Inl e)
      | Inr ev \<Rightarrow>
          map_option (\<lambda>p. Inr \<lparr>fa_Raw = ev, fa_PathName = cstring p, fa_CommStr = cstring (eh_Comm (oa_Header ev))\<rparr>)
            (capped (unat (oa_PathLen ev)) (oa_Path ev)))"

definition argv_slot :: "ExecEvent \<Rightarrow> nat \<Rightarrow> byte list option" where
  "argv_slot ev i =
     (case at (ex_ArgvLens ev) i of
        None \<Rightarrow> None
      | Some n \<Rightarrow>
          (let off = i * 64; fin = off + unat n in
           slice (ex_Argv ev) off (if fin > length (ex_Argv ev) then length (ex_Argv ev) else fin)))"

definition decodeExecEvent :: "byte list \<Rightarrow> (err + ExecEventS) option" where
  "decodeExecEvent raw =
     (case read_exec raw of
        Inl e \<Rightarrow> Some (Inl e)
      | Inr ev \<Rightarrow>
          map_option (\<lambda>argv. Inr
             \<lparr>xe_Raw = ev, xe_BinaryPathStr = cstring (ex_BinaryPath ev), xe_ArgvStrs = map cstring argv,
              xe_CommStr = cstring (eh_Comm (ex_Header ev)),
              xe_AncestorComms = map (\<lambda>a. cstring (an_Comm a)) (takeWhile (\<lambda>a. an_PID a \<noteq> 0) (ex_Ancestors ev))\<rparr>)
            (those (map (argv_slot ev) [0..<min (unat (ex_Argc ev)) 8])))"

definition decodeNetConnectEvent :: "byte list \<Rightarrow> (err + NetConnectEventS) option" where
  "decodeNetConnectEvent raw =
     (case read_connect raw of
        Inl e \<Rightarrow> Some (Inl e)
      | Inr ev \<Rightarrow> Some (Inr \<lparr>ne_Raw = ev, ne_DestIP = formatDestIP (nc_Family ev) (nc_DestAddr ev),
                             ne_CommStr = cstring (eh_Comm (nc_Header ev))\<rparr>))"

definition decodeDNSQueryEvent :: "byte list \<Rightarrow> (err + DNSQueryEventS) option" where
  "decodeDNSQueryEvent raw =
     (case read_dns raw of
        Inl e \<Rightarrow> Some (Inl e)
      | Inr ev \<Rightarrow>
          (case capped (unat (dq_QueryLen ev)) (dq_Query ev) of
             None \<Rightarrow> None
           | Some q \<Rightarrow>
               map_option (\<lambda>r. Inr
                  (let out = \<lparr>de_Raw = ev, de_QName = [], de_QType = 0, de_DestIP = formatDestIP (dq_Family ev) (dq_DestAddr ev),
                              de_CommStr = cstring (eh_Comm (dq_Header ev)), de_ParseErr = None\<rparr>
                   in case r of
                        Inl e \<Rightarrow> out\<lparr>de_ParseErr := Some e\<rparr>
                      | Inr (qname, qtype) \<Rightarrow> out\<lparr>de_QName := qname, de_QType := qtype\<rparr>))
                 (parseDNSQuestion q)))"

definition decodeTLSSniEvent :: "byte list \<Rightarrow> (err + TLSSniEventS) option" where
  "decodeTLSSniEvent raw =
     (case read_sni raw of
        Inl e \<Rightarrow> Some (Inl e)
      | Inr ev \<Rightarrow>
          (let out = \<lparr>te_Raw = ev, te_SNI = [], te_DuplicateOf = [], te_SourceName = TLSSourceName (ts_Source ev),
                      te_CommStr = cstring (eh_Comm (ts_Header ev)), te_ParseErr = None\<rparr>
           in if ts_Source ev = TLSSourceLibSSL \<or> ts_Source ev = TLSSourceNodeInternal then
                map_option (\<lambda>s. Inr (out\<lparr>te_SNI := cstring s\<rparr>)) (capped (unat (ts_SniLen ev)) (ts_SNI ev))
              else if ts_Source ev = TLSSourceTCPClientHello then
                (case capped (unat (ts_RawPayloadLen ev)) (ts_RawPayload ev) of
                   None \<Rightarrow> None
                 | Some p \<Rightarrow>
                     map_option (\<lambda>r. Inr (case r of Inl e \<Rightarrow> out\<lparr>te_ParseErr := Some e\<rparr> | Inr sni \<Rightarrow> out\<lparr>te_SNI := sni\<rparr>))
                       (parseClientHelloSNI p))
              else Some (Inr out)))"

definition decodeRecord :: "byte list \<Rightarrow> (err + Event) option" where
  "decodeRecord raw =
     (case at raw 68 of
        None \<Rightarrow> None
      | Some t \<Rightarrow>
          if t = EventTypeFileAccess then map_option (map_sum id FileAccess) (decodeOpenatEvent raw)
          else if t = EventTypeExec then map_option (map_sum id Exec) (decodeExecEvent raw)
          else if t = EventTypeNetConnect then map_option (map_sum id NetConnect) (decodeNetConnectEvent raw)
          else if t = EventTypeDNSQuery then map_option (map_sum id DNSQuery) (decodeDNSQueryEvent raw)
          else if t = EventTypeTLSSNI then map_option (map_sum id TLSSni) (decodeTLSSniEvent raw)
          else Some (Inl (Msg (''unknown event type '' @ Itoa (uint t)))))"

section \<open>Every record is decoded or refused\<close>

lemma capped_safe: "\<exists>p. capped n b = Some p"
  by (simp add: capped_def slice_def)

lemma argv_slot_safe:
  assumes "read_exec raw = Inr ev" "i < 8"
  shows "\<exists>p. argv_slot ev i = Some p"
proof -
  have len: "length (ex_ArgvLens ev) = 8" "length (ex_Argv ev) = 512"
    using assms(1) by (auto simp: read_exec_def bytes_at_def split: if_splits)
  then show ?thesis using assms(2) by (simp add: argv_slot_def slice_def Let_def)
qed

lemma those_safe: "\<forall>x\<in>set xs. \<exists>y. f x = Some y \<Longrightarrow> \<exists>ys. those (map f xs) = Some ys"
  by (induction xs) auto

lemma decoders_safe:
  "\<exists>r. decodeOpenatEvent raw = Some r" "\<exists>r. decodeExecEvent raw = Some r" "\<exists>r. decodeNetConnectEvent raw = Some r"
  "\<exists>r. decodeDNSQueryEvent raw = Some r" "\<exists>r. decodeTLSSniEvent raw = Some r"
proof -
  show "\<exists>r. decodeOpenatEvent raw = Some r"
    using capped_safe by (fastforce simp: decodeOpenatEvent_def split: sum.split)
  show "\<exists>r. decodeExecEvent raw = Some r"
  proof (cases "read_exec raw")
    case (Inr ev)
    then have "\<forall>i\<in>set [0..<min (unat (ex_Argc ev)) 8]. \<exists>p. argv_slot ev i = Some p" using argv_slot_safe by simp
    from those_safe [OF this] Inr show ?thesis by (auto simp: decodeExecEvent_def)
  qed (simp add: decodeExecEvent_def)
  show "\<exists>r. decodeNetConnectEvent raw = Some r" by (simp add: decodeNetConnectEvent_def split: sum.split)
  show "\<exists>r. decodeDNSQueryEvent raw = Some r"
  proof (cases "read_dns raw")
    case (Inr ev)
    obtain p r where "capped (unat (dq_QueryLen ev)) (dq_Query ev) = Some p" "parseDNSQuestion p = Some r"
      using capped_safe parsers_safe(1) by metis
    with Inr show ?thesis by (simp add: decodeDNSQueryEvent_def)
  qed (simp add: decodeDNSQueryEvent_def)
  show "\<exists>r. decodeTLSSniEvent raw = Some r"
  proof (cases "read_sni raw")
    case (Inr ev)
    obtain p q r where "capped (unat (ts_RawPayloadLen ev)) (ts_RawPayload ev) = Some p" "parseClientHelloSNI p = Some r"
        "capped (unat (ts_SniLen ev)) (ts_SNI ev) = Some q"
      using capped_safe parsers_safe(2) by metis
    with Inr show ?thesis by (simp add: decodeTLSSniEvent_def Let_def)
  qed (simp add: decodeTLSSniEvent_def)
qed

lemma decoded_header:
  "decodeOpenatEvent raw = Some (Inr e1) \<Longrightarrow> oa_Header (fa_Raw e1) = read_header raw"
  "decodeExecEvent raw = Some (Inr e2) \<Longrightarrow> ex_Header (xe_Raw e2) = read_header raw"
  "decodeNetConnectEvent raw = Some (Inr e3) \<Longrightarrow> nc_Header (ne_Raw e3) = read_header raw"
  "decodeDNSQueryEvent raw = Some (Inr e4) \<Longrightarrow> dq_Header (de_Raw e4) = read_header raw"
  "decodeTLSSniEvent raw = Some (Inr e5) \<Longrightarrow> ts_Header (te_Raw e5) = read_header raw"
proof -
  show "decodeOpenatEvent raw = Some (Inr e1) \<Longrightarrow> oa_Header (fa_Raw e1) = read_header raw"
    by (auto simp: decodeOpenatEvent_def read_openat_def split: sum.splits if_splits)
  show "decodeExecEvent raw = Some (Inr e2) \<Longrightarrow> ex_Header (xe_Raw e2) = read_header raw"
    by (auto simp: decodeExecEvent_def read_exec_def split: sum.splits if_splits)
  show "decodeNetConnectEvent raw = Some (Inr e3) \<Longrightarrow> nc_Header (ne_Raw e3) = read_header raw"
    by (auto simp: decodeNetConnectEvent_def read_connect_def split: sum.splits if_splits)
  show "dq_Header (de_Raw e4) = read_header raw" if d: "decodeDNSQueryEvent raw = Some (Inr e4)"
  proof -
    obtain ev where ev: "read_dns raw = Inr ev" using d by (auto simp: decodeDNSQueryEvent_def split: sum.splits)
    obtain p r where "capped (unat (dq_QueryLen ev)) (dq_Query ev) = Some p" "parseDNSQuestion p = Some r"
      using capped_safe parsers_safe(1) by metis
    then have "de_Raw e4 = ev" using d ev by (cases r) (auto simp: decodeDNSQueryEvent_def)
    moreover have "dq_Header ev = read_header raw" using ev by (auto simp: read_dns_def split: if_splits)
    ultimately show ?thesis by simp
  qed
  show "ts_Header (te_Raw e5) = read_header raw" if d: "decodeTLSSniEvent raw = Some (Inr e5)"
  proof -
    obtain ev where ev: "read_sni raw = Inr ev" using d by (auto simp: decodeTLSSniEvent_def split: sum.splits)
    obtain p q r where "capped (unat (ts_RawPayloadLen ev)) (ts_RawPayload ev) = Some p" "parseClientHelloSNI p = Some r"
        "capped (unat (ts_SniLen ev)) (ts_SNI ev) = Some q"
      using capped_safe parsers_safe(2) by metis
    then have "te_Raw e5 = ev" using d ev by (cases r) (auto simp: decodeTLSSniEvent_def Let_def split: if_splits)
    moreover have "ts_Header ev = read_header raw" using ev by (auto simp: read_sni_def split: if_splits)
    ultimately show ?thesis by simp
  qed
qed

text \<open>
  Decoding a record of the ring buffer that is long enough to hold its type never
  panics, whatever the kernel wrote into it: it is refused with an error, or it gives an
  event of exactly that type with the header of the record.
\<close>

theorem decodeRecord_total:
  assumes "69 \<le> length raw"
  shows "\<exists>r. decodeRecord raw = Some r \<and>
    (\<forall>ev. r = Inr ev \<longrightarrow> Event_EventType ev = raw ! 68 \<and> Event_EventHeader ev = read_header raw)"
proof -
  have a: "at raw 68 = Some (raw ! 68)" using assms by (simp add: at_def)
  obtain r1 r2 r3 r4 r5 where d: "decodeOpenatEvent raw = Some r1" "decodeExecEvent raw = Some r2" "decodeNetConnectEvent raw = Some r3"
      "decodeDNSQueryEvent raw = Some r4" "decodeTLSSniEvent raw = Some r5"
    using decoders_safe by blast
  have h: "r1 = Inr e1 \<Longrightarrow> oa_Header (fa_Raw e1) = read_header raw" "r2 = Inr e2 \<Longrightarrow> ex_Header (xe_Raw e2) = read_header raw"
      "r3 = Inr e3 \<Longrightarrow> nc_Header (ne_Raw e3) = read_header raw" "r4 = Inr e4 \<Longrightarrow> dq_Header (de_Raw e4) = read_header raw"
      "r5 = Inr e5 \<Longrightarrow> ts_Header (te_Raw e5) = read_header raw" for e1 e2 e3 e4 e5
    using decoded_header d by auto
  show ?thesis
    by (auto simp: decodeRecord_def a d h map_sum_def split: sum.splits)
qed

theorem decodeRecord_total_witness:
  "\<exists>r. decodeRecord (replicate 68 0 @ [3]) = Some r \<and> (\<forall>ev. r = Inr ev \<longrightarrow> Event_EventType ev = 3)"
  using decodeRecord_total [of "replicate 68 0 @ [3]"] by (auto simp: nth_append)

end
