(* ===== verification/Sensor.thy ===== *)
theory Sensor
  imports Sensor_Events
begin

text \<open>
  \<open>sensor/sensor.go\<close>: the kernel maps the sensor keeps for the watched cgroups, the
  deduplication of TLS and connect events, and the stream of decoded events. A map
  operation may fail: \<open>sn_faults\<close> tells for each coming operation whether it does, none
  beyond its end; the result of a delete is discarded by every caller. Of \<open>New\<close> the
  sequence of attachments and its failures are modelled, with the kernel's answers as
  parameters.
\<close>

section \<open>Kernel maps\<close>

record Sensor =
  sn_cgmap :: "64 word \<Rightarrow> CgmapValue option"
  sn_paths :: "PathFilterKey \<Rightarrow> byte option"
  sn_registered :: "64 word \<Rightarrow> WatchedPath list option"
  sn_faults :: "bool list"

record AddCgroupOptions =
  ao_CgroupID :: "64 word"
  ao_RunID :: "byte list"
  ao_WatchedPaths :: "WatchedPath list"

definition new_Sensor :: "bool list \<Rightarrow> Sensor" where
  "new_Sensor fs = \<lparr>sn_cgmap = (\<lambda>_. None), sn_paths = (\<lambda>_. None), sn_registered = (\<lambda>_. None), sn_faults = fs\<rparr>"

text \<open>One map operation: its effect unless it fails.\<close>

definition map_op :: "(Sensor \<Rightarrow> Sensor) \<Rightarrow> Sensor \<Rightarrow> err option \<times> Sensor" where
  "map_op f s =
     (case sn_faults s of
        [] \<Rightarrow> (None, f s)
      | b # fs \<Rightarrow> if b then (Some ErrIO, s\<lparr>sn_faults := fs\<rparr>) else (None, f (s\<lparr>sn_faults := fs\<rparr>)))"

definition Cgmap_Put :: "64 word \<Rightarrow> CgmapValue \<Rightarrow> Sensor \<Rightarrow> err option \<times> Sensor" where
  "Cgmap_Put k v = map_op (\<lambda>s. s\<lparr>sn_cgmap := (sn_cgmap s)(k \<mapsto> v)\<rparr>)"

definition Cgmap_Delete :: "64 word \<Rightarrow> Sensor \<Rightarrow> err option \<times> Sensor" where
  "Cgmap_Delete k = map_op (\<lambda>s. s\<lparr>sn_cgmap := (sn_cgmap s)(k := None)\<rparr>)"

definition PathFilter_Put :: "PathFilterKey \<Rightarrow> byte \<Rightarrow> Sensor \<Rightarrow> err option \<times> Sensor" where
  "PathFilter_Put k v = map_op (\<lambda>s. s\<lparr>sn_paths := (sn_paths s)(k \<mapsto> v)\<rparr>)"

definition PathFilter_Delete :: "PathFilterKey \<Rightarrow> Sensor \<Rightarrow> err option \<times> Sensor" where
  "PathFilter_Delete k = map_op (\<lambda>s. s\<lparr>sn_paths := (sn_paths s)(k := None)\<rparr>)"

definition buildPathFilterKey :: "string \<Rightarrow> err + PathFilterKey" where
  "buildPathFilterKey p =
     (if length p = 0 \<or> length p > 256
      then Inl (Msg (''prefix length '' @ Itoa (int (length p)) @ '' out of range (1..256)''))
      else Inr \<lparr>pk_PrefixLenBits = of_nat (length p) * 8, pk_Path = bytes_of p @ replicate (256 - length p) 0\<rparr>)"

fun delete_paths :: "WatchedPath list \<Rightarrow> Sensor \<Rightarrow> Sensor" where
  "delete_paths [] s = s"
| "delete_paths (w # ws) s =
     (case buildPathFilterKey (wt_Prefix w) of
        Inl e \<Rightarrow> delete_paths ws s
      | Inr k \<Rightarrow> delete_paths ws (snd (PathFilter_Delete k s)))"

definition rollbackPaths :: "64 word \<Rightarrow> WatchedPath list \<Rightarrow> Sensor \<Rightarrow> Sensor" where
  "rollbackPaths cg added s = delete_paths added (snd (Cgmap_Delete cg s))"

definition path_action :: "WatchedPath \<Rightarrow> byte" where
  "path_action w = (if wt_CredTagged w then PathActionKeepCredTagged else PathActionKeep)"

fun add_paths :: "64 word \<Rightarrow> WatchedPath list \<Rightarrow> WatchedPath list \<Rightarrow> Sensor \<Rightarrow> err option \<times> Sensor" where
  "add_paths cg added [] s = (None, s\<lparr>sn_registered := (sn_registered s)(cg \<mapsto> added)\<rparr>)"
| "add_paths cg added (w # ws) s =
     (case buildPathFilterKey (wt_Prefix w) of
        Inl e \<Rightarrow> (Some (Wrap (''path_filter key for '' @ Quote (wt_Prefix w)) e), rollbackPaths cg added s)
      | Inr k \<Rightarrow>
          (case PathFilter_Put k (path_action w) s of
             (Some e, s') \<Rightarrow> (Some (Wrap (''path_filter.Put '' @ Quote (wt_Prefix w)) e), rollbackPaths cg added s')
           | (None, s') \<Rightarrow> add_paths cg (added @ [w]) ws s'))"

definition AddCgroup :: "AddCgroupOptions \<Rightarrow> Sensor \<Rightarrow> err option \<times> Sensor" where
  "AddCgroup opts s =
     (if ao_WatchedPaths opts = []
      then (Some (Msg ''at least one WatchedPath is required for file events to fire''), s)
      else if sn_registered s (ao_CgroupID opts) \<noteq> None
      then (Some (Msg (''cgroup '' @ Itoa (uint (ao_CgroupID opts)) @ '' already registered'')), s)
      else (case Cgmap_Put (ao_CgroupID opts) \<lparr>cv_RunID = ao_RunID opts, cv_Flags = 0\<rparr> s of
              (Some e, s') \<Rightarrow> (Some (Wrap ''CGMAP.Put'' e), s')
            | (None, s') \<Rightarrow> add_paths (ao_CgroupID opts) [] (ao_WatchedPaths opts) s'))"

definition RemoveCgroup :: "64 word \<Rightarrow> Sensor \<Rightarrow> Sensor" where
  "RemoveCgroup cg s =
     (case sn_registered s cg of
        None \<Rightarrow> s
      | Some ws \<Rightarrow> delete_paths ws (snd (Cgmap_Delete cg (s\<lparr>sn_registered := (sn_registered s)(cg := None)\<rparr>))))"

section \<open>Diagnostics\<close>

record MissEntry =
  me_CgroupID :: "64 word"
  me_Count :: "64 word"

text \<open>
  The inner loop carries the largest entry to position \<open>i\<close>, swapping it with each larger
  one it meets.
\<close>

fun exchange :: "MissEntry \<Rightarrow> MissEntry list \<Rightarrow> MissEntry \<times> MissEntry list" where
  "exchange x [] = (x, [])"
| "exchange x (y # ys) =
     (if me_Count y > me_Count x then (let (m, zs) = exchange y ys in (m, x # zs))
      else (let (m, zs) = exchange x ys in (m, y # zs)))"

lemma length_exchange [simp]: "length (snd (exchange x ys)) = length ys"
  by (induction ys arbitrary: x) (simp_all add: case_prod_beta Let_def)

function exchange_sort :: "MissEntry list \<Rightarrow> MissEntry list" where
  "exchange_sort [] = []"
| "exchange_sort (x # xs) = fst (exchange x xs) # exchange_sort (snd (exchange x xs))"
  by pat_completeness auto
termination by (relation "measure length") simp_all

definition DumpMisses :: "MissEntry list option \<Rightarrow> int \<Rightarrow> MissEntry list" where
  "DumpMisses entries n =
     (case entries of
        None \<Rightarrow> []
      | Some es \<Rightarrow>
          (let out = exchange_sort es in
           if n > 0 \<and> int (length out) > n then take (nat n) out else out))"

text \<open>The per-CPU drop counters are summed up in 64 bits.\<close>

definition Drops :: "(err + 64 word list) option \<Rightarrow> err + 64 word" where
  "Drops lookup =
     (case lookup of
        None \<Rightarrow> Inr 0
      | Some (Inl e) \<Rightarrow> Inl (Wrap ''drops_counter.Lookup'' e)
      | Some (Inr perCPU) \<Rightarrow> Inr (fold (\<lambda>c total. total + c) perCPU 0))"

section \<open>Deduplication\<close>

record tlsDedup =
  td_window :: duration
  td_seen :: "string \<Rightarrow> (string \<times> time) option"

definition newTLSDedup :: "duration \<Rightarrow> tlsDedup" where
  "newTLSDedup window = \<lparr>td_window = window, td_seen = (\<lambda>_. None)\<rparr>"

definition tls_key :: "32 word \<Rightarrow> string \<Rightarrow> string" where
  "tls_key pid sni = Itoa (uint pid) @ ''|'' @ sni"

definition tls_observe :: "32 word \<Rightarrow> string \<Rightarrow> string \<Rightarrow> time \<Rightarrow> tlsDedup \<Rightarrow> string \<times> tlsDedup" where
  "tls_observe pid sni source now d =
     (if sni = [] then ([], d)
      else
        (let seen = (\<lambda>k. case td_seen d k of None \<Rightarrow> None | Some v \<Rightarrow> if now - snd v > td_window d then None else Some v);
             key = tls_key pid sni
         in case seen key of
              Some e \<Rightarrow> if now - snd e \<le> td_window d then (fst e, d\<lparr>td_seen := seen\<rparr>)
                        else ([], d\<lparr>td_seen := seen(key \<mapsto> (source, now))\<rparr>)
            | None \<Rightarrow> ([], d\<lparr>td_seen := seen(key \<mapsto> (source, now))\<rparr>)))"

record connectDedup =
  cd_window :: duration
  cd_pending :: "string \<Rightarrow> time option"

definition newConnectDedup :: "duration \<Rightarrow> connectDedup" where
  "newConnectDedup window = \<lparr>cd_window = window, cd_pending = (\<lambda>_. None)\<rparr>"

definition conn_key :: "32 word \<Rightarrow> byte \<Rightarrow> string \<Rightarrow> 16 word \<Rightarrow> string" where
  "conn_key pid family ip port =
     Itoa (uint pid) @ ''|'' @ Itoa (uint family) @ ''|'' @ ip @ ''|'' @ Itoa (uint port)"

definition conn_observe ::
  "32 word \<Rightarrow> byte \<Rightarrow> byte \<Rightarrow> string \<Rightarrow> 16 word \<Rightarrow> time \<Rightarrow> connectDedup \<Rightarrow> bool \<times> connectDedup" where
  "conn_observe pid family source ip port now d =
     (if ip = [] then (False, d)
      else
        (let pending = (\<lambda>k. case cd_pending d k of None \<Rightarrow> None | Some ts \<Rightarrow> if now - ts > cd_window d then None else Some ts);
             key = conn_key pid family ip port
         in if source = NetSourceSyscall then (False, d\<lparr>cd_pending := pending(key \<mapsto> now)\<rparr>)
            else if source = NetSourceKprobe then
              (case pending key of
                 Some ts \<Rightarrow> if now - ts \<le> cd_window d then (True, d\<lparr>cd_pending := pending(key := None)\<rparr>)
                            else (False, d\<lparr>cd_pending := pending\<rparr>)
               | None \<Rightarrow> (False, d\<lparr>cd_pending := pending\<rparr>))
            else (False, d\<lparr>cd_pending := pending\<rparr>)))"

record dedups =
  dd_tls :: "tlsDedup option"
  dd_conn :: connectDedup

definition new_dedups :: "duration \<Rightarrow> dedups" where
  "new_dedups window =
     \<lparr>dd_tls = (if window > 0 then Some (newTLSDedup window) else None), dd_conn = newConnectDedup 100000000\<rparr>"

section \<open>Attaching the probes\<close>

text \<open>
  What the kernel and the file system answer: the load of the BPF objects, the attachment
  of each probe by name, the files that exist, the mount of tracefs and the ring buffer.
\<close>

record kernel =
  kn_RemoveMemlock :: "err option"
  kn_Stat :: "string \<Rightarrow> err option"
  kn_Mount :: "err option"
  kn_StatMounted :: "err option"
  kn_loadSensorObjects :: "err option"
  kn_verifier_error :: bool
  kn_Tracepoint :: "string \<times> string \<Rightarrow> err option"
  kn_Kprobe :: "string \<Rightarrow> err option"
  kn_OpenExecutable :: "string \<Rightarrow> err option"
  kn_Uprobe :: "string \<Rightarrow> err option"
  kn_NewReader :: "err option"

datatype probe = Tracepoint string string | Kprobe string | Uprobe string string

record SensorOptions =
  so_EnsureTracefs :: bool
  so_DedupWindow :: duration
  so_LibSSLPath :: string

definition tracefsPath :: string where
  "tracefsPath = ''/sys/kernel/tracing''"

definition ensureTracefs :: "kernel \<Rightarrow> err option" where
  "ensureTracefs k =
     (if kn_Stat k (tracefsPath @ ''/events'') = None then None
      else (case kn_Mount k of
              Some e \<Rightarrow> Some (Wrap (''mount tracefs at '' @ tracefsPath) e)
            | None \<Rightarrow> (case kn_StatMounted k of
                        Some e \<Rightarrow> Some (Wrap (''tracefs mounted but '' @ tracefsPath @ ''/events still missing'') e)
                      | None \<Rightarrow> None)))"

definition libssl_paths :: "string list" where
  "libssl_paths =
     [''/usr/lib/x86_64-linux-gnu/libssl.so.3'', ''/usr/lib/x86_64-linux-gnu/libssl.so.1.1'',
      ''/lib/x86_64-linux-gnu/libssl.so.3'', ''/lib/x86_64-linux-gnu/libssl.so.1.1'',
      ''/usr/lib64/libssl.so.3'', ''/usr/lib64/libssl.so.1.1'', ''/usr/lib/libssl.so.3'']"

definition findLibSSL :: "kernel \<Rightarrow> string" where
  "findLibSSL k = (case List.find (\<lambda>p. kn_Stat k p = None) libssl_paths of None \<Rightarrow> [] | Some p \<Rightarrow> p)"

definition tracepoints :: "(string \<times> string) list" where
  "tracepoints =
     [(''syscalls'', ''sys_enter_openat''), (''syscalls'', ''sys_enter_execve''),
      (''syscalls'', ''sys_enter_connect''), (''syscalls'', ''sys_enter_sendto''),
      (''syscalls'', ''sys_enter_sendmmsg''), (''syscalls'', ''sys_enter_sendmsg''),
      (''syscalls'', ''sys_enter_write'')]"

definition kprobes :: "string list" where
  "kprobes = [''tcp_v4_connect'', ''tcp_v6_connect'']"

fun attach_tracepoints :: "kernel \<Rightarrow> (string \<times> string) list \<Rightarrow> probe list \<Rightarrow> err + probe list" where
  "attach_tracepoints k [] ls = Inr ls"
| "attach_tracepoints k (tp # tps) ls =
     (case kn_Tracepoint k tp of
        Some e \<Rightarrow> Inl (Wrap (''attach tracepoint '' @ fst tp @ ''/'' @ snd tp) e)
      | None \<Rightarrow> attach_tracepoints k tps (ls @ [Tracepoint (fst tp) (snd tp)]))"

fun attach_kprobes :: "kernel \<Rightarrow> string list \<Rightarrow> probe list \<Rightarrow> probe list" where
  "attach_kprobes k [] ls = ls"
| "attach_kprobes k (kp # kps) ls =
     (case kn_Kprobe k kp of
        Some e \<Rightarrow> attach_kprobes k kps ls
      | None \<Rightarrow> attach_kprobes k kps (ls @ [Kprobe kp]))"

definition attach_libssl :: "kernel \<Rightarrow> string \<Rightarrow> probe list \<Rightarrow> probe list" where
  "attach_libssl k path ls =
     (if path = [] then ls
      else if kn_OpenExecutable k path \<noteq> None then ls
      else if kn_Uprobe k path \<noteq> None then ls
      else ls @ [Uprobe path ''SSL_ctrl''])"

text \<open>
  The attached probes and the deduplication state. On every failure the links made so far
  are closed by \<open>tearDownAll\<close> and nothing is returned.
\<close>

definition New :: "SensorOptions \<Rightarrow> kernel \<Rightarrow> err + probe list \<times> dedups" where
  "New opts k =
     (case kn_RemoveMemlock k of
        Some e \<Rightarrow> Inl (Wrap ''rlimit.RemoveMemlock'' e)
      | None \<Rightarrow>
     (case (if so_EnsureTracefs opts then ensureTracefs k else None) of
        Some e \<Rightarrow> Inl (Wrap ''tracefs'' e)
      | None \<Rightarrow>
     (case kn_loadSensorObjects k of
        Some e \<Rightarrow> if kn_verifier_error k then Inl (Msg (''verifier rejected program:'' @ [CHR 0x0A] @ err_text e))
                  else Inl (Wrap ''load BPF objects'' e)
      | None \<Rightarrow>
     (case attach_tracepoints k tracepoints [] of
        Inl e \<Rightarrow> Inl e
      | Inr ls \<Rightarrow>
          (let libsslPath = (if so_LibSSLPath opts = [] then findLibSSL k else so_LibSSLPath opts);
               links = attach_libssl k libsslPath (attach_kprobes k kprobes ls)
           in case kn_NewReader k of
                Some e \<Rightarrow> Inl (Wrap ''ringbuf reader'' e)
              | None \<Rightarrow> Inr (links, new_dedups (so_DedupWindow opts)))))))"

section \<open>The event stream\<close>

text \<open>One record: the event sent to the channel, if any; \<open>None\<close> outside is a panic.\<close>

definition handle_record :: "time \<Rightarrow> byte list \<Rightarrow> dedups \<Rightarrow> (Event option \<times> dedups) option" where
  "handle_record now raw d =
     (if length raw < 69 then Some (None, d)
      else (case decodeRecord raw of
        None \<Rightarrow> None
      | Some (Inl e) \<Rightarrow> Some (None, d)
      | Some (Inr (TLSSni t)) \<Rightarrow>
          (case dd_tls d of
             None \<Rightarrow> Some (Some (TLSSni t), d)
           | Some td \<Rightarrow>
               if te_SNI t = [] then Some (Some (TLSSni t), d)
               else (let (first, td') = tls_observe (eh_PID (ts_Header (te_Raw t))) (te_SNI t) (TLSSourceName (ts_Source (te_Raw t))) now td
                     in Some (Some (TLSSni (if first = [] then t else t\<lparr>te_DuplicateOf := first\<rparr>)), d\<lparr>dd_tls := Some td'\<rparr>)))
      | Some (Inr (NetConnect c)) \<Rightarrow>
          if ne_DestIP c = [] then Some (Some (NetConnect c), d)
          else (let (dup, cd) = conn_observe (eh_PID (nc_Header (ne_Raw c))) (nc_Family (ne_Raw c)) (nc_Source (ne_Raw c))
                      (ne_DestIP c) (nc_DestPort (ne_Raw c)) now (dd_conn d)
                in Some (if dup then None else Some (NetConnect c), d\<lparr>dd_conn := cd\<rparr>))
      | Some (Inr ev) \<Rightarrow> Some (Some ev, d)))"

text \<open>The reader goroutine on the records it reads until the context is done.\<close>

fun Events :: "(time \<times> byte list) list \<Rightarrow> dedups \<Rightarrow> (Event list \<times> dedups) option" where
  "Events [] d = Some ([], d)"
| "Events ((now, raw) # rs) d =
     (case handle_record now raw d of
        None \<Rightarrow> None
      | Some (e, d') \<Rightarrow> map_option (\<lambda>(es, d''). ((case e of None \<Rightarrow> es | Some ev \<Rightarrow> ev # es), d'')) (Events rs d'))"

end
