(* ===== verification/Go_Path.thy ===== *)
theory Go_Path
  imports Net
begin

text \<open>
  What the program uses of Go's \<open>path\<close> and \<open>path/filepath\<close>: \<open>Clean\<close>, \<open>Join\<close> and \<open>Dir\<close>.
\<close>

fun clean_comps :: "bool \<Rightarrow> string list \<Rightarrow> string list \<Rightarrow> string list" where
  "clean_comps rooted acc [] = rev acc"
| "clean_comps rooted acc (c # cs) =
     (if c = [] \<or> c = ''.'' then clean_comps rooted acc cs
      else if c = ''..'' then
        (case acc of
           [] \<Rightarrow> clean_comps rooted (if rooted then [] else [''..'']) cs
         | a # as \<Rightarrow> clean_comps rooted (if a = ''..'' then ''..'' # acc else as) cs)
      else clean_comps rooted (c # acc) cs)"

definition Clean :: "string \<Rightarrow> string" where
  "Clean p =
     (let rooted = HasPrefix p ''/''; body = Join (clean_comps rooted [] (split_on (CHR ''/'') p)) ''/'' in
      if rooted then ''/'' @ body else if body = [] then ''.'' else body)"

definition Join_path :: "string list \<Rightarrow> string" where
  "Join_path es = (let es' = dropWhile (\<lambda>e. e = []) es in if es' = [] then [] else Clean (Join es' ''/''))"

definition Dir :: "string \<Rightarrow> string" where
  "Dir p = Clean (take (case last_index_byte p (CHR ''/'') of None \<Rightarrow> 0 | Some i \<Rightarrow> Suc i) p)"

end
