(* ===== verification/Sandbox.thy ===== *)
theory Sandbox
  imports Proto Go_Path
begin

text \<open>
  \<open>runner/sandbox\<close>: the defaults of a sandbox specification (\<open>sandbox.go\<close>), the cgroup
  directories (\<open>cgroup.go\<close>) and the Docker driver (\<open>docker.go\<close>). The daemon, the file system
  and the clock are the record \<open>engine\<close> over a state \<open>'w\<close>; an answer of the daemon is a
  transport error, or the status, the text of the body and what the body decodes to.
\<close>

section \<open>Specifications\<close>

definition ErrImageRequired :: err where
  "ErrImageRequired = Msg ''sandbox: SandboxSpec.Image is required''"

definition ErrDaemonUnreachable :: err where
  "ErrDaemonUnreachable = Msg ''sandbox: docker daemon unreachable (check /var/run/docker.sock permissions)''"

definition ErrLaunchTimeout :: err where
  "ErrLaunchTimeout = Msg ''sandbox: container did not enter Running state before deadline''"

definition ErrCgroupV2Required :: err where
  "ErrCgroupV2Required = Msg ''sandbox: cgroup v2 with systemd driver required (see https://github.com/irchaosclub/FANGS/wiki/Installation)''"

definition FilledSpec :: "SandboxSpec \<Rightarrow> SandboxSpec" where
  "FilledSpec s =
     s\<lparr>sb_MemoryBytes := (if sb_MemoryBytes s = 0 then 512 * 1024 * 1024 else sb_MemoryBytes s),
       sb_NanoCPUs := (if sb_NanoCPUs s = 0 then 1000000000 else sb_NanoCPUs s),
       sb_PidsLimit := (if sb_PidsLimit s = 0 then 256 else sb_PidsLimit s),
       sb_NetworkMode := (if sb_NetworkMode s = [] then ''bridge'' else sb_NetworkMode s),
       sb_PullPolicy := (if sb_PullPolicy s = [] then ''missing'' else sb_PullPolicy s),
       sb_User := (if sb_User s = [] then ''1000:1000'' else sb_User s)\<rparr>"

text \<open>\<open>envSlice\<close>: the pairs in the order the map is ranged over; none gives \<open>nil\<close>.\<close>

definition envSlice :: "(string \<times> string) list \<Rightarrow> json" where
  "envSlice env = (if env = [] then JNull else JArr (map (\<lambda>(k, v). JStr (k @ ''='' @ v)) env))"

definition ulimit :: "string \<Rightarrow> int \<Rightarrow> int \<Rightarrow> json" where
  "ulimit name soft hard = JObj [(''Hard'', JNum hard), (''Name'', JStr name), (''Soft'', JNum soft)]"

definition host_config :: "SandboxSpec \<Rightarrow> (string \<times> json) list" where
  "host_config spec =
     [(''CapDrop'', JArr [JStr ''ALL'']),
      (''CgroupParent'', JStr (sb_CgroupParent spec)),
      (''IpcMode'', JStr []),
      (''LogConfig'', JObj [(''Config'', JObj [(''max-file'', JStr ''3''), (''max-size'', JStr ''10m'')]), (''Type'', JStr ''json-file'')]),
      (''Memory'', JNum (sb_MemoryBytes spec)),
      (''NanoCpus'', JNum (sb_NanoCPUs spec)),
      (''NetworkMode'', JStr (sb_NetworkMode spec)),
      (''PidMode'', JStr []),
      (''PidsLimit'', JNum (sb_PidsLimit spec)),
      (''RestartPolicy'', JObj [(''Name'', JStr ''no'')]),
      (''SecurityOpt'', JArr [JStr ''no-new-privileges:true'']),
      (''Tmpfs'', JObj [(''/run'', JStr ''rw,nosuid,nodev,size=16m''), (''/tmp'', JStr ''rw,nosuid,nodev,noexec,size=256m'')]),
      (''UTSMode'', JStr []),
      (''Ulimits'', JArr [ulimit ''nofile'' 1024 2048, ulimit ''nproc'' 256 256, ulimit ''fsize'' 268435456 268435456])]"

text \<open>The keys of a marshalled map are sorted; a \<open>nil\<close> command is \<open>null\<close>.\<close>

definition buildCreatePayload :: "SandboxSpec \<Rightarrow> string \<Rightarrow> json" where
  "buildCreatePayload spec digestRef =
     JObj [(''Cmd'', if sb_Command spec = [] then JNull else JArr (map JStr (sb_Command spec))),
           (''Env'', envSlice (sb_Env spec)),
           (''HostConfig'', JObj (host_config spec)),
           (''Image'', JStr (if digestRef \<noteq> [] then digestRef else sb_Image spec)),
           (''Labels'', JObj [(''io.fangs.role'', JStr ''sandbox'')]),
           (''User'', JStr (sb_User spec)),
           (''WorkingDir'', JStr (sb_WorkingDir spec))]"

definition splitImageTag :: "string \<Rightarrow> string \<times> string" where
  "splitImageTag img =
     (case last_index_byte img (CHR ''@'') of
        Some i \<Rightarrow> (take i img, [])
      | None \<Rightarrow>
          (case last_index_byte img (CHR '':'') of
             None \<Rightarrow> (img, ''latest'')
           | Some colon \<Rightarrow>
               if (case last_index_byte img (CHR ''/'') of None \<Rightarrow> True | Some slash \<Rightarrow> colon > slash)
               then (take colon img, drop (Suc colon) img)
               else (img, ''latest'')))"

section \<open>The engine\<close>

type_synonym 'a reply = "err + int \<times> string \<times> (err + 'a)"

record image_info =
  im_Id :: string
  im_RepoDigests :: "string list"

record 'w engine =
  en_pull :: "string \<Rightarrow> string \<Rightarrow> 'w \<Rightarrow> unit reply \<times> 'w"
  en_image :: "string \<Rightarrow> 'w \<Rightarrow> image_info reply \<times> 'w"
  en_create :: "json \<Rightarrow> 'w \<Rightarrow> string reply \<times> 'w"
  en_start :: "string \<Rightarrow> 'w \<Rightarrow> unit reply \<times> 'w"
  en_inspect :: "string \<Rightarrow> 'w \<Rightarrow> (int \<times> string) reply \<times> 'w"
  en_wait :: "string \<Rightarrow> 'w \<Rightarrow> (int \<times> string option) reply \<times> 'w"
  en_stop :: "string \<Rightarrow> int \<Rightarrow> 'w \<Rightarrow> unit reply \<times> 'w"
  en_remove :: "string \<Rightarrow> bool \<Rightarrow> 'w \<Rightarrow> unit reply \<times> 'w"
  en_lines :: "string \<Rightarrow> 'w \<Rightarrow> err + string list \<times> err option"
  en_stat :: "string \<Rightarrow> 'w \<Rightarrow> (bool \<times> err) + 64 word"
  en_mkdir :: "string \<Rightarrow> 'w \<Rightarrow> (bool \<times> err) option \<times> 'w"
  en_mkdirall :: "string \<Rightarrow> 'w \<Rightarrow> err option \<times> 'w"
  en_rmdir :: "string \<Rightarrow> 'w \<Rightarrow> err option \<times> 'w"

text \<open>
  \<open>do\<close> on the answer to a request: transport errors are passed on, the common ones of the
  socket with a hint, and an unexpected status is an error with the text of the body.
\<close>

definition docker_do :: "string \<Rightarrow> string \<Rightarrow> int list \<Rightarrow> 'a reply \<Rightarrow> err + (err + 'a)" where
  "docker_do meth path accepted r =
     (case r of
        Inl e \<Rightarrow>
          Inl (if Contains_str (err_text e) ''connect: permission denied'' \<or> Contains_str (err_text e) ''connect: no such file''
               then Wrap (err_text ErrDaemonUnreachable) e else e)
      | Inr (code, text, r) \<Rightarrow>
          if code \<in> set accepted then Inr r
          else Inl (Msg (''docker API '' @ meth @ '' '' @ path @ '' returned '' @ Itoa code @ '': '' @ TrimSpace text)))"

definition done_of :: "err + (err + 'a) \<Rightarrow> err option" where
  "done_of r = (case r of Inl e \<Rightarrow> Some e | Inr _ \<Rightarrow> None)"

definition decoded_of :: "err + (err + 'a) \<Rightarrow> err + 'a" where
  "decoded_of r = (case r of Inl e \<Rightarrow> Inl e | Inr d \<Rightarrow> d)"

definition imageExists :: "'w engine \<Rightarrow> string \<Rightarrow> 'w \<Rightarrow> bool \<times> 'w" where
  "imageExists en img w =
     (let (r, w') = en_image en img w in (done_of (docker_do ''GET'' (''/images/'' @ img @ ''/json'') [200] r) = None, w'))"

definition pull :: "'w engine \<Rightarrow> string \<Rightarrow> 'w \<Rightarrow> err option \<times> 'w" where
  "pull en img w =
     (let (fromImage, tag) = splitImageTag img; (r, w') = en_pull en fromImage tag w
      in (done_of (docker_do ''POST'' ''/images/create'' [200] r), w'))"

definition pullIfNeeded :: "'w engine \<Rightarrow> string \<Rightarrow> string \<Rightarrow> 'w \<Rightarrow> err option \<times> 'w" where
  "pullIfNeeded en img policy w =
     (if policy = ''never'' then (None, w)
      else if policy = ''missing'' then
        (let (present, w') = imageExists en img w in if present then (None, w') else pull en img w')
      else if policy = ''always'' then pull en img w
      else (Some (Msg (''unknown PullPolicy '' @ Quote policy)), w))"

definition resolveDigest :: "'w engine \<Rightarrow> string \<Rightarrow> 'w \<Rightarrow> (err + string) \<times> 'w" where
  "resolveDigest en img w =
     (let (r, w') = en_image en img w in
      (case decoded_of (docker_do ''GET'' (''/images/'' @ img @ ''/json'') [200] r) of
         Inl e \<Rightarrow> Inl e
       | Inr info \<Rightarrow>
           (case im_RepoDigests info of
              [] \<Rightarrow> Inr (im_Id info)
            | d # ds \<Rightarrow>
                (case find (\<lambda>rd. HasPrefix rd (fst (splitImageTag img) @ ''@'')) (d # ds) of
                   Some rd \<Rightarrow> Inr rd
                 | None \<Rightarrow> Inr d)), w'))"

definition createContainer :: "'w engine \<Rightarrow> json \<Rightarrow> 'w \<Rightarrow> (err + string) \<times> 'w" where
  "createContainer en payload w =
     (let (r, w') = en_create en payload w in (decoded_of (docker_do ''POST'' ''/containers/create'' [201] r), w'))"

definition startContainer :: "'w engine \<Rightarrow> string \<Rightarrow> 'w \<Rightarrow> err option \<times> 'w" where
  "startContainer en i w =
     (let (r, w') = en_start en i w in (done_of (docker_do ''POST'' (''/containers/'' @ i @ ''/start'') [204, 304] r), w'))"

definition stopContainer :: "'w engine \<Rightarrow> string \<Rightarrow> duration \<Rightarrow> 'w \<Rightarrow> err option \<times> 'w" where
  "stopContainer en i timeout w =
     (let (r, w') = en_stop en i (timeout div second) w in
      (done_of (docker_do ''POST'' (''/containers/'' @ i @ ''/stop'') [204, 304] r), w'))"

definition removeContainer :: "'w engine \<Rightarrow> string \<Rightarrow> bool \<Rightarrow> 'w \<Rightarrow> err option \<times> 'w" where
  "removeContainer en i force w =
     (let (r, w') = en_remove en i force w in (done_of (docker_do ''DELETE'' (''/containers/'' @ i) [204, 404] r), w'))"

definition inspectPID :: "'w engine \<Rightarrow> string \<Rightarrow> 'w \<Rightarrow> (err + int \<times> string) \<times> 'w" where
  "inspectPID en i w =
     (let (r, w') = en_inspect en i w in (decoded_of (docker_do ''GET'' (''/containers/'' @ i @ ''/json'') [200] r), w'))"

record WaitResult =
  wr_ExitCode :: int
  wr_OOMKilled :: bool
  wr_Err :: "err option"

text \<open>The second inspection changes nothing in the result.\<close>

definition waitContainer :: "'w engine \<Rightarrow> string \<Rightarrow> 'w \<Rightarrow> (err + WaitResult) \<times> 'w" where
  "waitContainer en i w =
     (let (r, w') = en_wait en i w in
      case decoded_of (docker_do ''POST'' (''/containers/'' @ i @ ''/wait'') [200] r) of
        Inl e \<Rightarrow> (Inl e, w')
      | Inr (code, msg) \<Rightarrow>
          (Inr \<lparr>wr_ExitCode = code, wr_OOMKilled = False,
                wr_Err = (case msg of None \<Rightarrow> None | Some m \<Rightarrow> Some (Msg (''container error: '' @ m)))\<rparr>,
           snd (inspectPID en i w')))"

definition runWait :: "'w engine \<Rightarrow> string \<Rightarrow> 'w \<Rightarrow> WaitResult \<times> 'w" where
  "runWait en i w =
     (let (r, w') = waitContainer en i w in
      (case r of Inl e \<Rightarrow> \<lparr>wr_ExitCode = 0, wr_OOMKilled = False, wr_Err = Some e\<rparr> | Inr res \<Rightarrow> res, w'))"

section \<open>Cgroup directories\<close>

text \<open>\<open>strings.Fields\<close> and \<open>strings.Index(s, " - ")\<close>.\<close>

fun Fields_from :: "string \<Rightarrow> string \<Rightarrow> string list" where
  "Fields_from acc [] = (if acc = [] then [] else [rev acc])"
| "Fields_from acc (c # cs) =
     (if is_space c then (if acc = [] then Fields_from [] cs else rev acc # Fields_from [] cs)
      else Fields_from (c # acc) cs)"

definition Fields :: "string \<Rightarrow> string list" where
  "Fields s = Fields_from [] s"

fun cut_at :: "string \<Rightarrow> string \<Rightarrow> (string \<times> string) option" where
  "cut_at sep [] = None"
| "cut_at sep (c # cs) =
     (if HasPrefix (c # cs) sep then Some ([], drop (length sep) (c # cs))
      else map_option (\<lambda>(h, t). (c # h, t)) (cut_at sep cs))"

text \<open>The mount point of the unified hierarchy: field 4 of the first \<open>cgroup2\<close> line that has one.\<close>

fun find_cgroup2 :: "string list \<Rightarrow> string option" where
  "find_cgroup2 [] = None"
| "find_cgroup2 (l # ls) =
     (case cut_at '' - '' l of
        None \<Rightarrow> find_cgroup2 ls
      | Some (head, tail) \<Rightarrow>
          if HasPrefix tail ''cgroup2 '' \<and> length (Fields head) \<ge> 5 then Some (Fields head ! 4) else find_cgroup2 ls)"

definition cgroupV2Root :: "'w engine \<Rightarrow> 'w \<Rightarrow> err + string" where
  "cgroupV2Root en w =
     (case en_lines en ''/proc/self/mountinfo'' w of
        Inl e \<Rightarrow> Inl (Wrap ''open mountinfo'' e)
      | Inr (ls, scan_err) \<Rightarrow>
          (case find_cgroup2 ls of
             Some p \<Rightarrow> Inr p
           | None \<Rightarrow> (case scan_err of Some e \<Rightarrow> Inl e | None \<Rightarrow> Inl ErrCgroupV2Required)))"

text \<open>\<open>strings.SplitN(line, ":", 3)\<close> on a line with at least two colons.\<close>

definition split3 :: "string \<Rightarrow> (string \<times> string \<times> string) option" where
  "split3 l =
     (case cut_at '':'' l of
        None \<Rightarrow> None
      | Some (a, r) \<Rightarrow> (case cut_at '':'' r of None \<Rightarrow> None | Some (b, c) \<Rightarrow> Some (a, b, c)))"

fun find_unified :: "string list \<Rightarrow> string option" where
  "find_unified [] = None"
| "find_unified (l # ls) =
     (case split3 l of
        None \<Rightarrow> find_unified ls
      | Some (a, b, c) \<Rightarrow> if a = ''0'' \<and> b = [] then Some (TrimSpace c) else find_unified ls)"

definition parseCgroupReader :: "string list \<times> err option \<Rightarrow> err + string" where
  "parseCgroupReader sc =
     (case find_unified (fst sc) of
        Some p \<Rightarrow> Inr p
      | None \<Rightarrow> (case snd sc of Some e \<Rightarrow> Inl e | None \<Rightarrow> Inl ErrCgroupV2Required))"

definition cgroupPathForPID :: "'w engine \<Rightarrow> int \<Rightarrow> 'w \<Rightarrow> err + string" where
  "cgroupPathForPID en pid w =
     (let f = ''/proc/'' @ Itoa pid @ ''/cgroup'' in
      case en_lines en f w of
        Inl e \<Rightarrow> Inl (Wrap (''open '' @ f) e)
      | Inr sc \<Rightarrow>
          (case parseCgroupReader sc of
             Inl e \<Rightarrow> Inl e
           | Inr rel \<Rightarrow> (case cgroupV2Root en w of Inl e \<Rightarrow> Inl e | Inr root \<Rightarrow> Inr (Join_path [root, rel]))))"

text \<open>A failed \<open>stat\<close> tells whether the path does not exist.\<close>

definition cgroupIDForPath :: "'w engine \<Rightarrow> string \<Rightarrow> 'w \<Rightarrow> err + 64 word" where
  "cgroupIDForPath en path w =
     (case en_stat en path w of
        Inl (missing, e) \<Rightarrow>
          if missing then Inl (Msg (err_text ErrCgroupV2Required @ '' (resolved path '' @ Quote path @ '' does not exist)''))
          else Inl (Wrap (''stat '' @ Quote path) e)
      | Inr ino \<Rightarrow> Inr ino)"

definition CreateParentCgroup :: "'w engine \<Rightarrow> string \<Rightarrow> 'w \<Rightarrow> (err + string \<times> string \<times> 64 word) \<times> 'w" where
  "CreateParentCgroup en runIDHex w =
     (case cgroupV2Root en w of
        Inl e \<Rightarrow> (Inl e, w)
      | Inr root \<Rightarrow>
          (let fangsRoot = Join_path [root, ''fangs'']; absPath = Join_path [root, ''fangs'', runIDHex] in
           case en_mkdirall en fangsRoot w of
             (Some e, w1) \<Rightarrow> (Inl (Wrap (''mkdir '' @ fangsRoot) e), w1)
           | (None, w1) \<Rightarrow>
               (case en_mkdir en absPath w1 of
                  (Some (False, e), w2) \<Rightarrow> (Inl (Wrap (''mkdir '' @ absPath) e), w2)
                | (_, w2) \<Rightarrow>
                    (case cgroupIDForPath en absPath w2 of
                       Inl e \<Rightarrow> (Inl e, snd (en_rmdir en absPath w2))
                     | Inr i \<Rightarrow> (Inr (''/fangs/'' @ runIDHex, absPath, i), w2)))))"

definition RemoveParentCgroup :: "'w engine \<Rightarrow> string \<Rightarrow> 'w \<Rightarrow> err option \<times> 'w" where
  "RemoveParentCgroup en absPath w = en_rmdir en absPath w"

section \<open>Launching\<close>

text \<open>
  The polling loops. Each turn of a loop has a clock reading and knows whether the context is
  done when it sleeps; the loop stops at the first reading after its deadline. \<open>None\<close> is a loop
  that is still waiting when the readings given end.
\<close>

type_synonym turn = "time \<times> bool"

fun waitForRunning ::
  "'w engine \<Rightarrow> string \<Rightarrow> time \<Rightarrow> turn list \<Rightarrow> 'w \<Rightarrow> ((err + int) \<times> 'w) option" where
  "waitForRunning en i deadline [] w = None"
| "waitForRunning en i deadline ((now, cancelled) # turns) w =
     (case inspectPID en i w of
        (Inl e, w') \<Rightarrow> Some (Inl e, w')
      | (Inr (pid, status), w') \<Rightarrow>
          if pid > 0 \<and> status = ''running'' then Some (Inr pid, w')
          else if status = ''exited'' \<or> status = ''dead''
          then Some (Inl (Msg (''container entered '' @ status @ '' before becoming running'')), w')
          else if now > deadline then Some (Inl (Msg (err_text ErrLaunchTimeout @ '' (status='' @ status @ '')'')), w')
          else if cancelled then Some (Inl (Msg ''context canceled''), w')
          else waitForRunning en i deadline turns w')"

text \<open>Each turn has its own state of the file system: it changes while the loop sleeps.\<close>

definition cgroup_found :: "'w engine \<Rightarrow> int \<Rightarrow> 'w \<Rightarrow> (string \<times> 64 word) option" where
  "cgroup_found en pid w =
     (case cgroupPathForPID en pid w of
        Inl e \<Rightarrow> None
      | Inr path \<Rightarrow>
          if path = [] \<or> HasSuffix path ''/sys/fs/cgroup'' then None
          else (case cgroupIDForPath en path w of Inl e \<Rightarrow> None | Inr i \<Rightarrow> Some (path, i)))"

fun stableCgroup ::
  "'w engine \<Rightarrow> int \<Rightarrow> time \<Rightarrow> (turn \<times> 'w) list \<Rightarrow> (err + string \<times> 64 word) option" where
  "stableCgroup en pid deadline [] = None"
| "stableCgroup en pid deadline (((now, cancelled), w) # turns) =
     (case cgroup_found en pid w of
        Some r \<Rightarrow> Some (Inr r)
      | None \<Rightarrow>
          if now > deadline
          then Some (Inl (Msg (''cgroup placement did not stabilize for pid '' @ Itoa pid @ '' within 5s'')))
          else if cancelled then Some (Inl (Msg ''context canceled''))
          else stableCgroup en pid deadline turns)"

record dockerHandle =
  dh_containerID :: string
  dh_cgroupID :: "64 word"
  dh_cgroupPath :: string
  dh_imageDigest :: string
  dh_spec :: SandboxSpec

text \<open>
  \<open>start\<close> is the reading when a loop begins, \<open>turns\<close> its turns. Logging the first twelve
  characters of the container id panics on a shorter one: \<open>None\<close>, as when a loop does not end.
\<close>

record 'w schedule =
  sc_start1 :: time
  sc_turns1 :: "turn list"
  sc_start2 :: time
  sc_turns2 :: "'w \<Rightarrow> (turn \<times> 'w) list"

definition await_container ::
  "'w engine \<Rightarrow> 'w schedule \<Rightarrow> string \<Rightarrow> 'w \<Rightarrow> ((err + string \<times> 64 word) \<times> 'w) option" where
  "await_container en sc i w =
     (case waitForRunning en i (sc_start1 sc + 10 * second) (sc_turns1 sc) w of
        None \<Rightarrow> None
      | Some (Inl e, w1) \<Rightarrow> Some (Inl (Wrap ''resolve container PID'' e), w1)
      | Some (Inr pid, w1) \<Rightarrow>
          (case stableCgroup en pid (sc_start2 sc + 5 * second) (sc_turns2 sc w1) of
             None \<Rightarrow> None
           | Some (Inl e) \<Rightarrow> Some (Inl (Wrap (''resolve cgroup for pid '' @ Itoa pid) e), w1)
           | Some (Inr r) \<Rightarrow> Some (Inr r, w1)))"

definition Launch ::
  "'w engine \<Rightarrow> 'w schedule \<Rightarrow> SandboxSpec \<Rightarrow> 'w \<Rightarrow> ((err + dockerHandle) \<times> 'w) option" where
  "Launch en sc spec w =
     (if sb_Image spec = [] then Some (Inl ErrImageRequired, w)
      else if EqualFold (sb_NetworkMode spec) ''host''
      then Some (Inl (Msg (''sandbox: NetworkMode='' @ Quote (sb_NetworkMode spec) @ '' forbidden'')), w)
      else
        (let filled = FilledSpec spec in
         case pullIfNeeded en (sb_Image filled) (sb_PullPolicy filled) w of
           (Some e, w1) \<Rightarrow> Some (Inl (Wrap ''pull image'' e), w1)
         | (None, w1) \<Rightarrow>
             (let (d, w2) = resolveDigest en (sb_Image filled) w1; digest = (case d of Inl e \<Rightarrow> [] | Inr x \<Rightarrow> x) in
              case createContainer en (buildCreatePayload filled digest) w2 of
                (Inl e, w3) \<Rightarrow> Some (Inl (Wrap ''create container'' e), w3)
              | (Inr i, w3) \<Rightarrow>
                  (case startContainer en i w3 of
                     (Some e, w4) \<Rightarrow> Some (Inl (Wrap ''start container'' e), snd (removeContainer en i True w4))
                   | (None, w4) \<Rightarrow>
                       (case await_container en sc i w4 of
                          None \<Rightarrow> None
                        | Some (Inl e, w5) \<Rightarrow> Some (Inl e, snd (removeContainer en i True w5))
                        | Some (Inr (path, cg), w5) \<Rightarrow>
                            if length i < 12 then None
                            else Some (Inr \<lparr>dh_containerID = i, dh_cgroupID = cg, dh_cgroupPath = path,
                                            dh_imageDigest = digest, dh_spec = filled\<rparr>, w5))))))"

definition Handle_Stop :: "'w engine \<Rightarrow> dockerHandle \<Rightarrow> 'w \<Rightarrow> err option \<times> 'w" where
  "Handle_Stop en h w =
     (let (r, w1) = stopContainer en (dh_containerID h) (5 * second) w in removeContainer en (dh_containerID h) True w1)"

end
