(* ===== verification/Runner.thy ===== *)
theory Runner
  imports Agent Sensor Sandbox
begin

text \<open>
  \<open>fangs-runner/main.go\<close>: the heartbeat, the poll loop and one job from its start to the
  posting of its result. The job's steps act on the models of the sensor and of the
  sandbox engine; how long the container runs, what the streamer has sent and what the
  kernel has dropped by then are the job's environment. The steps are kept in a trace, with
  the deferred ones in the order they run.
\<close>

section \<open>Control loops\<close>

definition heartbeat_interval :: "Client \<Rightarrow> duration" where
  "heartbeat_interval c = (if cl_heartbeatInterval c \<le> 0 then 30 * second else cl_heartbeatInterval c)"

definition heartbeat_of :: "string \<Rightarrow> Heartbeat" where
  "heartbeat_of runHex =
     \<lparr>hb_RunnerID = [], hb_ActiveRunID = runHex,
      hb_Status = (if runHex \<noteq> [] then ''running'' else ''idle''), hb_EventsQueued = 0\<rparr>"

definition heartbeat_tick :: "host \<Rightarrow> 'w transport \<Rightarrow> string \<Rightarrow> Client \<times> 'w \<Rightarrow> Client \<times> 'w" where
  "heartbeat_tick h tr runHex cw =
     (let (c, w) = cw in
      case SendHeartbeat tr c (heartbeat_of runHex) w of
        (Inl e, w') \<Rightarrow> (c, w')
      | (Inr alive, w') \<Rightarrow>
          if alive then (c, w')
          else (let (r, c', w'') = Register h tr c w' in (c', w'')))"

datatype poll_next = Sleep duration | Work Job

definition poll_turn :: "'w transport \<Rightarrow> Client \<Rightarrow> 'w \<Rightarrow> poll_next \<times> 'w" where
  "poll_turn tr c w =
     (case Client_PollJob tr c w of
        (Inl e, w') \<Rightarrow> (Sleep (2 * second), w')
      | (Inr None, w') \<Rightarrow> (Sleep (cl_jobPollInterval c), w')
      | (Inr (Some job), w') \<Rightarrow> (Work job, w'))"

section \<open>One job\<close>

text \<open>
  What the job meets: \<open>je_exit\<close> is the result of the container if it ends before the deadline
  of the job, \<open>je_interrupted\<close> tells that the runner is shut down before it. \<open>je_sent\<close> is the
  streamer's count when it is closed, \<open>je_drops\<close> the sensor's count when the result is posted.
\<close>

record 'w job_env =
  je_engine :: "'w engine"
  je_schedule :: "'w schedule"
  je_exit :: "WaitResult option"
  je_interrupted :: bool
  je_sent :: "64 word"
  je_drops :: "err + 64 word"
  je_elapsed :: duration

datatype job_step =
    StreamerOn string
  | CgroupMade string
  | Watched "64 word"
  | Launched string
  | Stopped string
  | Unwatched "64 word"
  | CgroupRemoved
  | CgroupLeaked
  | StreamerOff
  | Posted WireScanResult

definition cgroupIDFromPath :: "'w engine \<Rightarrow> string \<Rightarrow> 'w \<Rightarrow> err + 64 word" where
  "cgroupIDFromPath en path w =
     (case en_stat en path w of
        Inl (missing, e) \<Rightarrow> Inl (Wrap (''stat '' @ Quote path) e)
      | Inr ino \<Rightarrow> Inr ino)"

fun retry_rmdir :: "'w engine \<Rightarrow> string \<Rightarrow> nat \<Rightarrow> 'w \<Rightarrow> bool \<times> 'w" where
  "retry_rmdir en p 0 w = (False, w)"
| "retry_rmdir en p (Suc n) w =
     (case RemoveParentCgroup en p w of
        (None, w') \<Rightarrow> (True, w')
      | (Some e, w') \<Rightarrow> retry_rmdir en p n w')"

text \<open>The status when the job's context ends, with a container or without one.\<close>

definition exit_status :: "WaitResult \<Rightarrow> string \<times> string" where
  "exit_status r =
     (if wr_ExitCode r \<noteq> 0 \<or> wr_Err r \<noteq> None
      then (''failed'', ''container exit_code='' @ Itoa (wr_ExitCode r) @ '' err='' @
              (case wr_Err r of None \<Rightarrow> ''<nil>'' | Some e \<Rightarrow> err_text e))
      else (''ok'', []))"

definition final_status :: "'w job_env \<Rightarrow> bool \<Rightarrow> string \<times> string" where
  "final_status env has_handle =
     (case (if has_handle then je_exit env else None) of
        Some r \<Rightarrow> exit_status r
      | None \<Rightarrow> if je_interrupted env then (''ok'', [])
                else (''timeout'', ''job duration exceeded before container exit''))"

type_synonym 'w job_state = "Sensor \<times> 'w"

definition watch_opts :: "Job \<Rightarrow> 64 word \<Rightarrow> AddCgroupOptions" where
  "watch_opts job cg = \<lparr>ao_CgroupID = cg, ao_RunID = jb_RunID job, ao_WatchedPaths = jb_WatchedPaths job\<rparr>"

text \<open>
  The sandboxed job after its cgroup is registered: launch and run, with the deferred stop;
  then the deferred deregistration and the removal of the directory.
\<close>

definition run_container ::
  "'w job_env \<Rightarrow> SandboxSpec \<Rightarrow> string \<Rightarrow> 'w \<Rightarrow> ((string \<times> string) \<times> job_step list \<times> 'w) option" where
  "run_container env sb parentRel w =
     (case Launch (je_engine env) (je_schedule env) (sb\<lparr>sb_CgroupParent := parentRel\<rparr>) w of
        None \<Rightarrow> None
      | Some (Inl e, w1) \<Rightarrow> Some ((''failed'', ''sandbox launch: '' @ err_text e), [], w1)
      | Some (Inr h, w1) \<Rightarrow>
          Some (final_status env True, [Launched (dh_containerID h), Stopped (dh_containerID h)],
                snd (Handle_Stop (je_engine env) h w1)))"

definition sandbox_job ::
  "'w job_env \<Rightarrow> Job \<Rightarrow> SandboxSpec \<Rightarrow> 'w job_state \<Rightarrow> ((string \<times> string) \<times> job_step list \<times> 'w job_state) option" where
  "sandbox_job env job sb st =
     (let (s, w) = st; en = je_engine env in
      case CreateParentCgroup en (hex_bytes (jb_RunID job)) w of
        (Inl e, w1) \<Rightarrow> Some ((''failed'', ''create cgroup parent: '' @ err_text e), [], (s, w1))
      | (Inr (rel, absPath, cg), w1) \<Rightarrow>
          (case AddCgroup (watch_opts job cg) s of
             (Some e, s1) \<Rightarrow>
               Some ((''failed'', ''AddCgroup: '' @ err_text e), [CgroupMade absPath], (s1, snd (RemoveParentCgroup en absPath w1)))
           | (None, s1) \<Rightarrow>
               (case run_container env sb rel w1 of
                  None \<Rightarrow> None
                | Some (status, steps, w2) \<Rightarrow>
                    (let s2 = RemoveCgroup cg s1; (removed, w3) = retry_rmdir en absPath 20 w2 in
                     Some (status, [CgroupMade absPath, Watched cg] @ steps @ [Unwatched cg, if removed then CgroupRemoved else CgroupLeaked],
                           (s2, w3))))))"

definition cgroup_job ::
  "'w job_env \<Rightarrow> Job \<Rightarrow> 'w job_state \<Rightarrow> (string \<times> string) \<times> job_step list \<times> 'w job_state" where
  "cgroup_job env job st =
     (let (s, w) = st in
      case cgroupIDFromPath (je_engine env) (jb_CgroupPath job) w of
        Inl e \<Rightarrow> ((''failed'', ''resolve cgroup id: '' @ err_text e), [], (s, w))
      | Inr cg \<Rightarrow>
          (case AddCgroup (watch_opts job cg) s of
             (Some e, s1) \<Rightarrow> ((''failed'', ''AddCgroup: '' @ err_text e), [], (s1, w))
           | (None, s1) \<Rightarrow> (final_status env False, [Watched cg, Unwatched cg], (RemoveCgroup cg s1, w))))"

definition scan_result :: "'w job_env \<Rightarrow> Job \<Rightarrow> string \<times> string \<Rightarrow> WireScanResult" where
  "scan_result env job status =
     \<lparr>ws_RunID = jb_RunID job, ws_Status = fst status, ws_Reason = snd status, ws_EventsEmitted = sint (je_sent env),
      ws_EventsDropped = (case je_drops env of Inl e \<Rightarrow> 0 | Inr n \<Rightarrow> n), ws_Duration = je_elapsed env\<rparr>"

definition runJob :: "'w job_env \<Rightarrow> Job \<Rightarrow> 'w job_state \<Rightarrow> (job_step list \<times> 'w job_state) option" where
  "runJob env job st =
     (case (case jb_Sandbox job of Some sb \<Rightarrow> sandbox_job env job sb st | None \<Rightarrow> Some (cgroup_job env job st)) of
        None \<Rightarrow> None
      | Some (status, steps, st') \<Rightarrow>
          Some ([StreamerOn (hex_bytes (jb_RunID job))] @ steps @ [StreamerOff, Posted (scan_result env job status)], st'))"

end
