(* ===== verification/Agent_Props.thy ===== *)
theory Agent_Props
  imports Agent Api_Props
begin

text \<open>
  What the streamer makes of the events it accepts, against any network and any order in
  which the loop, its callers and its context take turns; and the whole way of an event
  from the streamer into the orchestrator's database.
\<close>

section \<open>Histories of the streamer\<close>

text \<open>The event an action puts into the channel, and the state \<open>flush\<close> is called on.\<close>

fun accepted_by :: "stream_action \<Rightarrow> EventStreamer \<Rightarrow> EventEnvelope list" where
  "accepted_by (DoSend e) s = (if length (es_in s) < in_capacity then [e] else [])"
| "accepted_by _ s = []"

fun flushed_by :: "stream_action \<Rightarrow> EventStreamer \<Rightarrow> EventStreamer option" where
  "flushed_by Receive s =
     (case es_in s of
        [] \<Rightarrow> Some s
      | e # es \<Rightarrow>
          (let s' = s\<lparr>es_in := es, es_pending := es_pending s @ [e]\<rparr> in
           if length (es_pending s') \<ge> es_maxBatch s' then Some s' else None))"
| "flushed_by Tick s = Some s"
| "flushed_by CtxDone s = Some s"
| "flushed_by _ s = None"

definition posted_by ::
  "'w transport \<Rightarrow> stream_action \<Rightarrow> 'w stream_sys \<Rightarrow> (EventBatch \<times> err option) list" where
  "posted_by tr a y =
     (case flushed_by a (sy_streamer y) of
        None \<Rightarrow> []
      | Some s \<Rightarrow>
          if es_pending s = [] then []
          else [(batch_of s, fst (post_batch (sy_cancelled y) tr s (batch_of s) (sy_world y)))])"

text \<open>The states a streamer reaches, with the events accepted and the batches posted so far.\<close>

inductive streamed ::
  "'w transport \<Rightarrow> 'w stream_sys \<Rightarrow> EventEnvelope list \<Rightarrow> (EventBatch \<times> err option) list \<Rightarrow> 'w stream_sys \<Rightarrow> bool"
  for tr y0 where
  start: "streamed tr y0 [] [] y0"
| step: "streamed tr y0 acc ps y \<Longrightarrow> stream_step tr a y = Some y' \<Longrightarrow>
     streamed tr y0 (acc @ accepted_by a (sy_streamer y)) (ps @ posted_by tr a y) y'"

definition delivered :: "(EventBatch \<times> err option) list \<Rightarrow> EventBatch list" where
  "delivered ps = map fst (filter (\<lambda>p. snd p = None) ps)"

definition batches_ok :: "byte list \<Rightarrow> (EventBatch \<times> err option) list \<Rightarrow> bool" where
  "batches_ok runID ps \<longleftrightarrow>
     (\<forall>k<length ps. eb_Seq (fst (ps ! k)) = of_nat (k + 1) \<and> eb_RunID (fst (ps ! k)) = runID
        \<and> 0 < length (eb_Events (fst (ps ! k))) \<and> length (eb_Events (fst (ps ! k))) \<le> 64)"

definition stats_ok :: "(EventBatch \<times> err option) list \<Rightarrow> StreamStats \<Rightarrow> bool" where
  "stats_ok ps st \<longleftrightarrow>
     ss_BatchesSent st = of_nat (length (delivered ps))
     \<and> ss_EventsSent st = of_nat (length (concat (map eb_Events (delivered ps))))
     \<and> ss_BatchSendErrors st = of_nat (length ps - length (delivered ps))"

definition linked :: "byte list \<Rightarrow> EventEnvelope list \<Rightarrow> (EventBatch \<times> err option) list \<Rightarrow> EventStreamer \<Rightarrow> bool" where
  "linked runID acc ps s \<longleftrightarrow>
     acc = concat (map (eb_Events \<circ> fst) ps) @ es_pending s @ es_in s
     \<and> length (es_pending s) \<le> 64 \<and> es_seq s = of_nat (length ps) \<and> es_runID s = runID
     \<and> batches_ok runID ps \<and> stats_ok ps (es_stats s)"

lemma length_delivered_le: "length (delivered ps) \<le> length ps"
  by (simp add: delivered_def)

lemma delivered_simps [simp]:
  "delivered [] = []" "delivered (ps @ qs) = delivered ps @ delivered qs"
  "delivered [(b, r)] = (if r = None then [b] else [])"
  by (simp_all add: delivered_def)

lemma batches_ok_snoc:
  "batches_ok runID ps \<Longrightarrow> eb_Seq b = of_nat (length ps + 1) \<Longrightarrow> eb_RunID b = runID \<Longrightarrow>
   0 < length (eb_Events b) \<Longrightarrow> length (eb_Events b) \<le> 64 \<Longrightarrow> batches_ok runID (ps @ [(b, r)])"
  by (auto simp: batches_ok_def nth_append less_Suc_eq)

text \<open>What a flush does to the streamer, for any outcome \<open>r\<close> of the request.\<close>

definition flush_result :: "err option \<Rightarrow> EventStreamer \<Rightarrow> EventStreamer" where
  "flush_result r s = s\<lparr>es_seq := es_seq s + 1, es_pending := [],
     es_stats := (case r of
        Some e \<Rightarrow> (es_stats s)\<lparr>ss_BatchSendErrors := ss_BatchSendErrors (es_stats s) + 1\<rparr>
      | None \<Rightarrow> (es_stats s)\<lparr>ss_BatchesSent := ss_BatchesSent (es_stats s) + 1,
                   ss_EventsSent := ss_EventsSent (es_stats s) + of_nat (length (es_pending s))\<rparr>)\<rparr>"

lemma flush_eq:
  "flush c tr (s, w) =
     (if es_pending s = [] then (s, w)
      else (flush_result (fst (post_batch c tr s (batch_of s) w)) s, snd (post_batch c tr s (batch_of s) w)))"
  by (simp add: flush_def flush_result_def Let_def case_prod_beta batch_of_def split: option.split)

lemma flush_result_simps [simp]:
  "es_pending (flush_result r s) = []" "es_in (flush_result r s) = es_in s" "es_runID (flush_result r s) = es_runID s"
  "es_maxBatch (flush_result r s) = es_maxBatch s" "es_closed (flush_result r s) = es_closed s"
  "es_done (flush_result r s) = es_done s" "es_seq (flush_result r s) = es_seq s + 1"
  by (simp_all add: flush_result_def)

lemma linked_flush_result:
  assumes "linked runID acc ps s" "es_pending s \<noteq> []"
  shows "linked runID acc (ps @ [(batch_of s, r)]) (flush_result r s)"
proof -
  have "batches_ok runID (ps @ [(batch_of s, r)])"
    using assms by (intro batches_ok_snoc) (auto simp: linked_def batch_of_def)
  moreover have "stats_ok (ps @ [(batch_of s, r)]) (es_stats (flush_result r s))"
  proof (cases r)
    case None
    then show ?thesis using assms by (simp add: linked_def stats_ok_def flush_result_def batch_of_def)
  next
    case (Some e)
    then show ?thesis using assms length_delivered_le [of ps]
      by (simp add: linked_def stats_ok_def flush_result_def Suc_diff_le add.commute)
  qed
  ultimately show ?thesis using assms by (simp add: linked_def batch_of_def)
qed

text \<open>The streamer after an action that calls \<open>flush\<close> on \<open>s\<close>.\<close>

definition after_flush :: "bool \<Rightarrow> 'w transport \<Rightarrow> EventStreamer \<Rightarrow> 'w \<Rightarrow> EventStreamer" where
  "after_flush c tr s w = fst (flush c tr (s, w))"

lemma linked_after_flush:
  assumes "linked runID acc ps s"
  shows "linked runID acc
           (ps @ (if es_pending s = [] then [] else [(batch_of s, fst (post_batch c tr s (batch_of s) w))]))
           (after_flush c tr s w)"
  using assms linked_flush_result [OF assms] by (simp add: after_flush_def flush_eq)

lemma after_flush_simps [simp]:
  "es_pending (after_flush c tr s w) = []" "es_in (after_flush c tr s w) = es_in s"
  "es_maxBatch (after_flush c tr s w) = es_maxBatch s" "es_closed (after_flush c tr s w) = es_closed s"
  "es_done (after_flush c tr s w) = es_done s"
  by (simp_all add: after_flush_def flush_eq)

lemma linked_upd_done [simp]: "linked runID acc ps (s\<lparr>es_done := b\<rparr>) = linked runID acc ps s"
  by (simp add: linked_def)

lemma linked_upd_closed [simp]: "linked runID acc ps (s\<lparr>es_closed := b\<rparr>) = linked runID acc ps s"
  by (simp add: linked_def)

lemma linked_send: "linked runID acc ps s \<Longrightarrow> linked runID (acc @ [e]) ps (s\<lparr>es_in := es_in s @ [e]\<rparr>)"
  by (simp add: linked_def)

lemma linked_take:
  "linked runID acc ps s \<Longrightarrow> es_in s = e # es \<Longrightarrow> length (es_pending s) < 64 \<Longrightarrow>
   linked runID acc ps (s\<lparr>es_in := es, es_pending := es_pending s @ [e]\<rparr>)"
  by (simp add: linked_def)

text \<open>The invariant of the whole system.\<close>

definition stream_ok ::
  "byte list \<Rightarrow> EventEnvelope list \<Rightarrow> (EventBatch \<times> err option) list \<Rightarrow> 'w stream_sys \<Rightarrow> bool" where
  "stream_ok runID acc ps y \<longleftrightarrow>
     (let s = sy_streamer y in
      linked runID acc ps s \<and> es_maxBatch s = 64 \<and> length (es_pending s) < 64 \<and> length (es_in s) \<le> in_capacity
      \<and> (es_done s \<longrightarrow> es_pending s = [] \<and> (es_closed s \<and> es_in s = [] \<or> sy_cancelled y)))"

lemma stream_ok_receive:
  assumes "stream_ok runID acc ps y" "stream_step tr Receive y = Some y'"
  shows "stream_ok runID acc (ps @ posted_by tr Receive y) y'"
proof -
  let ?s = "sy_streamer y" and ?c = "sy_cancelled y" and ?w = "sy_world y"
  have l: "linked runID acc ps ?s" and m: "es_maxBatch ?s = 64" "length (es_pending ?s) < 64" "length (es_in ?s) \<le> in_capacity"
    using assms(1) by (simp_all add: stream_ok_def Let_def)
  have nd: "\<not> es_done ?s" using assms(2) by (simp split: if_splits)
  show ?thesis
  proof (cases "es_in ?s")
    case Nil
    then have "sy_streamer y' = (after_flush ?c tr ?s ?w)\<lparr>es_done := True\<rparr>" "es_closed ?s"
      using assms(2) nd by (auto simp: on_receive_def after_flush_def Let_def case_prod_beta split: if_splits)
    moreover have "posted_by tr Receive y = (if es_pending ?s = [] then [] else [(batch_of ?s, fst (post_batch ?c tr ?s (batch_of ?s) ?w))])"
      using Nil by (simp add: posted_by_def)
    ultimately show ?thesis using linked_after_flush [OF l, of ?c tr ?w] m Nil
      by (simp add: stream_ok_def Let_def)
  next
    case (Cons e es)
    let ?t = "?s\<lparr>es_in := es, es_pending := es_pending ?s @ [e]\<rparr>"
    have lt: "linked runID acc ps ?t" by (rule linked_take [OF l Cons m(2)])
    show ?thesis
    proof (cases "length (es_pending ?t) \<ge> es_maxBatch ?t")
      case True
      then have "sy_streamer y' = after_flush ?c tr ?t ?w"
        using assms(2) nd Cons by (auto simp: on_receive_def after_flush_def Let_def case_prod_beta)
      moreover have "posted_by tr Receive y = (if es_pending ?t = [] then [] else [(batch_of ?t, fst (post_batch ?c tr ?t (batch_of ?t) ?w))])"
        using Cons True by (simp add: posted_by_def Let_def)
      ultimately show ?thesis using linked_after_flush [OF lt, of ?c tr ?w] m Cons nd
        by (simp add: stream_ok_def Let_def)
    next
      case False
      then have "sy_streamer y' = ?t" using assms(2) nd Cons by (auto simp: on_receive_def Let_def)
      moreover have "posted_by tr Receive y = []" using Cons False by (simp add: posted_by_def Let_def)
      ultimately show ?thesis using lt m Cons nd False by (simp add: stream_ok_def Let_def)
    qed
  qed
qed

lemma stream_ok_step:
  assumes "stream_ok runID acc ps y" "stream_step tr a y = Some y'"
  shows "stream_ok runID (acc @ accepted_by a (sy_streamer y)) (ps @ posted_by tr a y) y'"
proof (cases a)
  case (DoSend e)
  then show ?thesis using assms
    by (auto simp: stream_ok_def Let_def Send_def posted_by_def in_capacity_def linked_send split: if_splits)
next
  case DoClose
  then show ?thesis using assms
    by (auto simp: stream_ok_def Let_def close_in_def posted_by_def split: if_splits)
next
  case Cancel
  then show ?thesis using assms by (auto simp: stream_ok_def Let_def posted_by_def)
next
  case Receive
  then show ?thesis using stream_ok_receive [of runID acc ps y tr y'] assms by simp
next
  case Tick
  then have "\<not> es_done (sy_streamer y)" "sy_streamer y' = after_flush (sy_cancelled y) tr (sy_streamer y) (sy_world y)"
    using assms(2) by (auto simp: after_flush_def Let_def case_prod_beta split: if_splits)
  then show ?thesis using assms(1) linked_after_flush [of runID acc ps "sy_streamer y" "sy_cancelled y" tr "sy_world y"]
    by (simp add: Tick stream_ok_def Let_def posted_by_def)
next
  case CtxDone
  then have "sy_cancelled y" "sy_cancelled y'"
    "sy_streamer y' = (after_flush True tr (sy_streamer y) (sy_world y))\<lparr>es_done := True\<rparr>"
    using assms(2) by (auto simp: on_done_def after_flush_def Let_def case_prod_beta split: if_splits)
  then show ?thesis using assms(1) linked_after_flush [of runID acc ps "sy_streamer y" True tr "sy_world y"]
    by (simp add: CtxDone stream_ok_def Let_def posted_by_def split: if_splits)
qed

definition new_stream :: "string \<Rightarrow> byte list \<Rightarrow> 'w \<Rightarrow> 'w stream_sys" where
  "new_stream base runID w = \<lparr>sy_streamer = NewEventStreamer base runID, sy_cancelled = False, sy_world = w\<rparr>"

lemma streamed_ok:
  assumes "streamed tr (new_stream base runID w) acc ps y"
  shows "stream_ok runID acc ps y"
  using assms
proof (induction rule: streamed.induct)
  case start
  show ?case
    by (simp add: stream_ok_def new_stream_def NewEventStreamer_def linked_def batches_ok_def stats_ok_def in_capacity_def)
qed (rule stream_ok_step)

text \<open>
  C15. Nothing the streamer accepts is lost, repeated or reordered inside the runner:
  against any network and in any order of turns, the accepted events are the events of the
  posted batches, then the pending ones, then the ones in the channel. Batches carry
  the run's id, consecutive sequence numbers from 1, and 1 to 64 events; the statistics
  count, modulo their width, exactly the batches that were acknowledged and those that
  were not. A streamer that has ended while its context was alive has posted everything.
\<close>

theorem streamer_accounts:
  assumes "streamed tr (new_stream base runID w) acc ps y"
  shows "acc = concat (map (eb_Events \<circ> fst) ps) @ es_pending (sy_streamer y) @ es_in (sy_streamer y)
    \<and> batches_ok runID ps \<and> stats_ok ps (es_stats (sy_streamer y))
    \<and> length (es_pending (sy_streamer y)) < 64 \<and> length (es_in (sy_streamer y)) \<le> 1024
    \<and> (es_done (sy_streamer y) \<and> \<not> sy_cancelled y \<longrightarrow> acc = concat (map (eb_Events \<circ> fst) ps))"
  using streamed_ok [OF assms] by (auto simp: stream_ok_def Let_def linked_def in_capacity_def)

definition demo_transport :: "unit transport" where
  "demo_transport = \<lparr>tr_register = (\<lambda>u r w. (Inl ErrIO, w)), tr_poll = (\<lambda>u w. (Inl ErrIO, w)),
     tr_heartbeat = (\<lambda>u h w. (Inl ErrIO, w)), tr_result = (\<lambda>u r w. (Inl ErrIO, w)),
     tr_events = (\<lambda>u b w. (Inr (200, [], Inr ()), w))\<rparr>"

lemma one_event_stream:
  "\<exists>ps y. streamed tr (new_stream base runID w) [e] ps y \<and> es_done (sy_streamer y) \<and> \<not> sy_cancelled y"
proof -
  let ?n = "NewEventStreamer base runID" and ?y0 = "new_stream base runID w"
  define y1 where "y1 = ?y0\<lparr>sy_streamer := ?n\<lparr>es_in := [e]\<rparr>\<rparr>"
  define y2 where "y2 = y1\<lparr>sy_streamer := ?n\<lparr>es_in := [e], es_closed := True\<rparr>\<rparr>"
  define y3 where "y3 = y1\<lparr>sy_streamer := ?n\<lparr>es_in := [], es_closed := True, es_pending := [e]\<rparr>\<rparr>"
  note defs = y1_def y2_def y3_def new_stream_def NewEventStreamer_def
  have 1: "stream_step tr (DoSend e) ?y0 = Some y1"
    by (simp add: defs Send_def in_capacity_def)
  have 2: "stream_step tr DoClose y1 = Some y2"
    by (simp add: defs close_in_def)
  have 3: "stream_step tr Receive y2 = Some y3"
    by (simp add: defs on_receive_def Let_def)
  obtain y4 where 4: "stream_step tr Receive y3 = Some y4" "es_done (sy_streamer y4)" "\<not> sy_cancelled y4"
    by (simp add: defs on_receive_def Let_def case_prod_beta)
  from streamed.step [OF streamed.step [OF streamed.step [OF streamed.step [OF streamed.start 1] 2] 3] 4(1)]
  have "\<exists>ps. streamed tr ?y0 [e] ps y4"
    by (simp add: new_stream_def NewEventStreamer_def in_capacity_def) blast
  with 4 show ?thesis by blast
qed

theorem streamer_accounts_witness:
  "\<exists>ps y. streamed demo_transport (new_stream ''http://o'' [7] ()) [demo_envelope ''a''] ps y
     \<and> concat (map (eb_Events \<circ> fst) ps) = [demo_envelope ''a'']"
proof -
  obtain ps y where y: "streamed demo_transport (new_stream ''http://o'' [7] ()) [demo_envelope ''a''] ps y"
      "es_done (sy_streamer y)" "\<not> sy_cancelled y"
    using one_event_stream [of demo_transport "''http://o''" "[7]" "()" "demo_envelope ''a''"] by blast
  from streamer_accounts [OF y(1)] y show ?thesis by metis
qed

text \<open>
  Once its context is done, a streamer delivers nothing any more: every later batch, the
  last flush included, fails. A job's streamer has the job's own deadline as its context.
\<close>

lemma cancelled_stays: "stream_step tr a y = Some y' \<Longrightarrow> sy_cancelled y \<Longrightarrow> sy_cancelled y'"
  by (cases a) (auto simp: Let_def case_prod_beta split: if_splits)

theorem cancelled_never_delivers:
  assumes "streamed tr y0 acc ps y" "sy_cancelled y0"
  shows "delivered ps = [] \<and> sy_world y = sy_world y0"
  using assms
proof (induction rule: streamed.induct)
  case (step acc ps y a y')
  have c: "sy_cancelled y" using step.hyps(1) assms(2)
    by (induction rule: streamed.induct) (auto dest: cancelled_stays)
  then have "delivered (posted_by tr a y) = []"
    by (auto simp: posted_by_def post_batch_def split: option.splits)
  moreover have "sy_world y' = sy_world y"
    using step.hyps(2) c
    by (cases a) (auto simp: on_receive_def on_done_def Let_def case_prod_beta flush_eq post_batch_def split: if_splits list.splits)
  ultimately show ?case using step.IH step.prems by simp
qed simp

text \<open>
  A send after the channel was closed panics: the forwarder of the runner, which reads the
  current streamer under a lock but sends after releasing it, can meet a closed one.
\<close>

theorem Send_after_Close_panics:
  "close_in s = Some s' \<Longrightarrow> Send e s' = None"
  by (auto simp: close_in_def Send_def split: if_splits)

section \<open>From the streamer into the database\<close>

text \<open>
  The orchestrator at the other end of the network: a request for \<open>base\<close>/v1/runs/\<open>id\<close>/events
  reaches \<open>handleEvents\<close> for the run \<open>id\<close>, and so on for the other routes. The ids are taken
  as they stand in the path: those of runs are hexadecimal, those of runners are assumed to
  need no escaping. The state counts the requests, so that each has its own clock readings.
\<close>

definition between :: "string \<Rightarrow> string \<Rightarrow> string \<Rightarrow> string option" where
  "between pre suf u =
     (if HasPrefix u pre \<and> HasSuffix u suf \<and> length pre + length suf \<le> length u
      then Some (take (length u - length pre - length suf) (drop (length pre) u)) else None)"

lemma between_middle [simp]: "between pre suf (pre @ x @ suf) = Some x"
  by (auto simp: between_def HasPrefix_def HasSuffix_def suffix_def)

text \<open>The text of an error response; a body of the wrong kind does not occur and does not decode.\<close>

fun body_text :: "body \<Rightarrow> string" where
  "body_text (BError m) = CHR ''{'' # CHR 0x22 # ''error'' @ [CHR 0x22, CHR '':''] @ Quote m @ ''}''"
| "body_text b = []"

definition answer_of :: "(body \<Rightarrow> 'a option) \<Rightarrow> response \<Rightarrow> 'a answer" where
  "answer_of pick r = Inr (fst r, body_text (snd r), case pick (snd r) of None \<Rightarrow> Inl (Msg ''unexpected body'') | Some a \<Rightarrow> Inr a)"

definition routed ::
  "(body \<Rightarrow> 'a option) \<Rightarrow> string option \<Rightarrow> (nat \<Rightarrow> string \<Rightarrow> 'db Server \<Rightarrow> response \<times> 'db Server) \<Rightarrow> nat \<times> 'db Server
    \<Rightarrow> 'a answer \<times> nat \<times> 'db Server" where
  "routed pick route handler w =
     (case route of
        None \<Rightarrow> (Inr (404, ''404 page not found'', Inl (Msg ''unexpected body'')), w)
      | Some i \<Rightarrow> (let (r, s') = handler (fst w) i (snd w) in (answer_of pick r, Suc (fst w), s')))"

definition server_events ::
  "string \<Rightarrow> (nat \<Rightarrow> nat \<Rightarrow> time) \<Rightarrow> (nat \<Rightarrow> time) \<Rightarrow> string \<Rightarrow> EventBatch \<Rightarrow> nat \<times> 'db Server \<Rightarrow> unit answer \<times> nat \<times> 'db Server" where
  "server_events base clock now url b =
     routed (\<lambda>_. Some ()) (between (base @ ''/v1/runs/'') ''/events'' url) (\<lambda>n i. handleEvents (clock n) (now n) i [b] None)"

fun pick_registration :: "body \<Rightarrow> RegistrationAck option" where
  "pick_registration (BRegistration a) = Some a"
| "pick_registration b = None"

fun pick_heartbeat :: "body \<Rightarrow> HeartbeatAck option" where
  "pick_heartbeat (BHeartbeat a) = Some a"
| "pick_heartbeat b = None"

fun pick_job :: "body \<Rightarrow> Job option" where
  "pick_job (BJob j) = Some j"
| "pick_job b = None"

definition server_transport ::
  "string \<Rightarrow> (nat \<Rightarrow> nat \<Rightarrow> time) \<Rightarrow> (nat \<Rightarrow> time) \<Rightarrow> (nat \<times> 'db Server) transport" where
  "server_transport base clock now =
     \<lparr>tr_register = (\<lambda>u r. routed pick_registration (if u = base @ ''/v1/runners/register'' then Some [] else None)
         (\<lambda>n i. handleRegister (now n) (Inr r))),
      tr_poll = (\<lambda>u. routed pick_job (between (base @ ''/v1/runners/'') ''/jobs'' u) (\<lambda>n i. handlePollJob [] i)),
      tr_heartbeat = (\<lambda>u h. routed pick_heartbeat (between (base @ ''/v1/runners/'') ''/heartbeat'' u)
         (\<lambda>n i. handleHeartbeat (now n) i (Some (Inr h)))),
      tr_result = (\<lambda>u r. routed (\<lambda>_. Some ()) (between (base @ ''/v1/runs/'') ''/result'' u) (\<lambda>n i. handleScanResult (now n) i (Inr r))),
      tr_events = server_events base clock now\<rparr>"

text \<open>What the database holds of the events, their ids and timestamps aside.\<close>

definition stored :: "tables \<Rightarrow> (string \<times> string \<times> json option) list" where
  "stored t = map (\<lambda>r. (ev_RunID r, ev_Type r, ev_Data r)) (t_events t)"

definition as_stored :: "string \<Rightarrow> EventEnvelope \<Rightarrow> string \<times> string \<times> json option" where
  "as_stored i e = (i, EventType_String (ee_Type e), Some (ee_Payload e))"

lemma stored_append:
  "stored (append_tab i (stream_rows clock n i es) t) = stored t @ map (as_stored i) es"
proof -
  have "map (\<lambda>r. (ev_RunID r, ev_Type r, ev_Data r)) (numbered i k (stream_rows clock n i es)) = map (as_stored i) es" for k
    by (rule nth_equalityI) (simp_all add: numbered_def stream_rows_def nth_enumerate_eq as_stored_def case_prod_beta)
  then show ?thesis by (simp add: stored_def append_tab_def)
qed

definition fed :: "string \<Rightarrow> tables \<Rightarrow> EventBatch list \<Rightarrow> sqlite Server \<Rightarrow> bool" where
  "fed i t0 bs s \<longleftrightarrow>
     sv_store s = Some sqlite_Backend \<and> reliable (sv_db s) \<and> i \<in> rn_id ` set (t_runs (db_tab (sv_db s)))
     \<and> stored (db_tab (sv_db s)) = stored t0 @ map (as_stored i) (concat (map eb_Events bs))"

lemma fed_handleEvents:
  assumes "fed i t0 bs s" "i \<noteq> []"
  shows "fst (fst (handleEvents clock now i [b] None s)) = 200 \<and> fed i t0 (bs @ [b]) (snd (handleEvents clock now i [b] None s))"
proof -
  have a: "sv_store s = Some sqlite_Backend" "reliable (sv_db s)" "i \<in> rn_id ` set (t_runs (db_tab (sv_db s)))"
    "stored (db_tab (sv_db s)) = stored t0 @ map (as_stored i) (concat (map eb_Events bs))"
    using assms(1) by (simp_all add: fed_def)
  from handleEvents_reliable [OF a(1,2) assms(2) a(3), of clock now "[b]"]
  obtain m where m: "handleEvents clock now i [b] None s = ((200, BEvents 1 (int (length (eb_Events b))) (int (length (eb_Events b)))),
     s\<lparr>sv_db := (sv_db s)\<lparr>db_tab := events_done now i (stream_rows clock 0 i (eb_Events b)) (db_tab (sv_db s))\<rparr>,
       sv_metrics := m, sv_timers := arm now i (sv_timers s)\<rparr>)"
    by auto
  have "stored (events_done now i (stream_rows clock 0 i (eb_Events b)) (db_tab (sv_db s)))
      = stored (append_tab i (stream_rows clock 0 i (eb_Events b)) (db_tab (sv_db s)))"
    by (simp add: events_done_def stored_def append_tab_def)
  moreover have "rn_id (set_state x st re r) = rn_id r" for x st re and r :: run_row by (simp add: set_state_def)
  then have "map rn_id (upd_where (\<lambda>r. rn_id r = i) (set_state x st re) rs) = map rn_id rs" for x st re and rs :: "run_row list"
    by (simp add: upd_where_def)
  then have "rn_id ` set (upd_where (\<lambda>r. rn_id r = i) (set_state x st re) rs) = rn_id ` set rs" for x st re and rs :: "run_row list"
    by (metis list.set_map)
  ultimately show ?thesis using a by (simp add: m fed_def stored_append) (simp add: events_done_def)
qed

text \<open>The state beyond the network after an action, by the flush it makes.\<close>

lemma world_step:
  assumes "stream_step tr a y = Some y'"
  shows "sy_world y' =
    (case flushed_by a (sy_streamer y) of
       None \<Rightarrow> sy_world y
     | Some s \<Rightarrow> if es_pending s = [] then sy_world y
                else snd (post_batch (sy_cancelled y) tr s (batch_of s) (sy_world y)))"
  using assms
  by (cases a) (auto simp: on_receive_def on_done_def Let_def case_prod_beta flush_eq split: if_splits list.splits)

lemma flushed_by_url:
  "flushed_by a s = Some s' \<Longrightarrow> es_baseURL s' = es_baseURL s \<and> es_runID s' = es_runID s"
  by (cases a) (auto simp: Let_def split: list.splits if_splits)

lemma flush_result_url: "es_baseURL (flush_result r s) = es_baseURL s"
  by (simp add: flush_result_def)

lemma stream_step_url:
  "stream_step tr a y = Some y' \<Longrightarrow>
     es_baseURL (sy_streamer y') = es_baseURL (sy_streamer y) \<and> es_runID (sy_streamer y') = es_runID (sy_streamer y)"
  by (cases a) (auto simp: Send_def close_in_def on_receive_def on_done_def Let_def case_prod_beta flush_eq flush_result_url
      split: if_splits list.splits)

lemma streamed_url:
  "streamed tr (new_stream base runID w) acc ps y \<Longrightarrow>
     es_baseURL (sy_streamer y) = base \<and> es_runID (sy_streamer y) = runID"
  by (induction rule: streamed.induct) (auto simp: new_stream_def NewEventStreamer_def dest: stream_step_url)

lemma post_batch_fed:
  assumes "fed i t0 bs (snd w)" "i = hex_bytes (es_runID s)" "i \<noteq> []" "es_baseURL s = base"
  shows "fst (post_batch False (server_transport base clock now) s b w) = None
    \<and> fed i t0 (bs @ [b]) (snd (snd (post_batch False (server_transport base clock now) s b w)))"
proof -
  have "events_url s = (base @ ''/v1/runs/'') @ i @ ''/events''" using assms(2,4) by (simp add: events_url_def)
  then have "between (base @ ''/v1/runs/'') ''/events'' (events_url s) = Some i" by (simp only: between_middle)
  then show ?thesis
    using fed_handleEvents [OF assms(1,3), of "clock (fst w)" "now (fst w)" b]
    by (simp add: post_batch_def server_transport_def server_events_def routed_def answer_of_def case_prod_beta Let_def)
qed

lemma streamed_fed:
  assumes "streamed (server_transport base clock now) (new_stream base runID (0, s0)) acc ps y"
    and "fed (hex_bytes runID) t0 [] s0" "hex_bytes runID \<noteq> []"
  shows "\<not> sy_cancelled y \<longrightarrow> (\<forall>p\<in>set ps. snd p = None) \<and> fed (hex_bytes runID) t0 (map fst ps) (snd (sy_world y))"
  using assms(1)
proof (induction rule: streamed.induct)
  case start
  show ?case using assms(2) by (simp add: new_stream_def)
next
  case (step acc ps y a y')
  let ?tr = "server_transport base clock now" and ?i = "hex_bytes runID"
  show ?case
  proof
    assume "\<not> sy_cancelled y'"
    then have c: "\<not> sy_cancelled y" using cancelled_stays [OF step.hyps(2)] by blast
    then have ih: "\<forall>p\<in>set ps. snd p = None" "fed ?i t0 (map fst ps) (snd (sy_world y))" using step.IH by auto
    show "(\<forall>p\<in>set (ps @ posted_by ?tr a y). snd p = None) \<and> fed ?i t0 (map fst (ps @ posted_by ?tr a y)) (snd (sy_world y'))"
    proof (cases "\<exists>s. flushed_by a (sy_streamer y) = Some s \<and> es_pending s \<noteq> []")
      case True
      then obtain s where s: "flushed_by a (sy_streamer y) = Some s" "es_pending s \<noteq> []" by blast
      have u: "es_baseURL s = base" "?i = hex_bytes (es_runID s)"
        using flushed_by_url [OF s(1)] streamed_url [OF step.hyps(1)] by simp_all
      from post_batch_fed [OF ih(2) u(2) assms(3) u(1)] s c ih(1) show ?thesis
        by (simp add: posted_by_def world_step [OF step.hyps(2)])
    next
      case False
      then have "posted_by ?tr a y = []" "sy_world y' = sy_world y"
        by (auto simp: posted_by_def world_step [OF step.hyps(2)] split: option.splits)
      then show ?thesis using ih by simp
    qed
  qed
qed

lemma hex_bytes_nonempty: "r \<noteq> [] \<Longrightarrow> hex_bytes r \<noteq> []"
  by (cases r) (simp_all add: hex_bytes_def)

lemma closed_stream:
  assumes "sv_store s0 = Some sqlite_Backend" "reliable (sv_db s0)" "runID \<noteq> []"
    and "hex_bytes runID \<in> rn_id ` set (t_runs (db_tab (sv_db s0)))"
    and "streamed (server_transport base clock now) (new_stream base runID (0, s0)) acc ps y"
    and "es_done (sy_streamer y)" "\<not> sy_cancelled y"
  shows "\<forall>p\<in>set ps. snd p = None" "fed (hex_bytes runID) (db_tab (sv_db s0)) (map fst ps) (snd (sy_world y))"
    "acc = concat (map (eb_Events \<circ> fst) ps)"
proof -
  have fed0: "fed (hex_bytes runID) (db_tab (sv_db s0)) [] s0" using assms(1,2,4) by (simp add: fed_def)
  from streamed_fed [OF assms(5) fed0 hex_bytes_nonempty [OF assms(3)]] assms(7)
  show "\<forall>p\<in>set ps. snd p = None" "fed (hex_bytes runID) (db_tab (sv_db s0)) (map fst ps) (snd (sy_world y))"
    by simp_all
  show "acc = concat (map (eb_Events \<circ> fst) ps)"
    using streamed_ok [OF assms(5)] assms(6,7) by (simp add: stream_ok_def Let_def linked_def)
qed


definition demo_stream_server :: "sqlite Server" where
  "demo_stream_server = demo_server\<lparr>sv_db := (demo_db [])\<lparr>db_tab := (demo_tables [])\<lparr>t_runs := [demo_run ''07'']\<rparr>\<rparr>\<rparr>"


end
