(* ===== verification/Sensor_Props.thy ===== *)
theory Sensor_Props
  imports Sensor "HOL-Library.Sublist" "HOL-Library.Multiset"
begin

text \<open>
  What the sensor guarantees: cgroups are added and removed without a trace, a partial
  addition is rolled back, the connect deduplication meets its specification on the whole
  history of observations, the diagnostics are sorted, and the event stream delivers every
  record it can decode except the suppressed connect duplicates.
\<close>

section \<open>Cgroups\<close>

lemma map_op_reliable [simp]: "sn_faults s = [] \<Longrightarrow> map_op f s = (None, f s)"
  by (simp add: map_op_def)

lemma Sensor_faults_upd [simp]:
  "sn_faults s = [] \<Longrightarrow> sn_faults (snd (Cgmap_Delete cg s)) = []"
  by (simp add: Cgmap_Delete_def)

text \<open>The keys of a list of watched paths, the invalid ones left out.\<close>

definition path_keys :: "WatchedPath list \<Rightarrow> PathFilterKey set" where
  "path_keys ws = {k. \<exists>w\<in>set ws. buildPathFilterKey (wt_Prefix w) = Inr k}"

lemma path_keys_simps [simp]:
  "path_keys [] = {}"
  "path_keys (w # ws) =
     (case buildPathFilterKey (wt_Prefix w) of Inl e \<Rightarrow> path_keys ws | Inr k \<Rightarrow> insert k (path_keys ws))"
  by (auto simp: path_keys_def split: sum.splits)

lemma path_keys_append [simp]: "path_keys (vs @ ws) = path_keys vs \<union> path_keys ws"
  by (auto simp: path_keys_def)

definition without :: "PathFilterKey set \<Rightarrow> (PathFilterKey \<Rightarrow> byte option) \<Rightarrow> PathFilterKey \<Rightarrow> byte option" where
  "without ks m = (\<lambda>k. if k \<in> ks then None else m k)"

lemma delete_paths_reliable:
  "sn_faults s = [] \<Longrightarrow> delete_paths ws s = s\<lparr>sn_paths := without (path_keys ws) (sn_paths s)\<rparr>"
proof (induction ws arbitrary: s)
  case Nil
  then show ?case by (simp add: without_def)
next
  case (Cons w ws)
  show ?case
  proof (cases "buildPathFilterKey (wt_Prefix w)")
    case (Inr k)
    have "without (path_keys ws) ((sn_paths s)(k := None)) = without (insert k (path_keys ws)) (sn_paths s)"
      by (auto simp: without_def)
    then show ?thesis using Inr Cons.prems by (simp add: PathFilter_Delete_def Cons.IH del: fun_upd_apply)
  qed (simp add: Cons)
qed

lemma RemoveCgroup_reliable:
  assumes "sn_faults s = []" "sn_registered s cg = Some ws"
  shows "RemoveCgroup cg s = s\<lparr>sn_registered := (sn_registered s)(cg := None),
           sn_cgmap := (sn_cgmap s)(cg := None), sn_paths := without (path_keys ws) (sn_paths s)\<rparr>"
  using assms by (simp add: RemoveCgroup_def Cgmap_Delete_def delete_paths_reliable)

text \<open>The path filter after watching a list of paths: the last entry for a key counts.\<close>

fun watching :: "WatchedPath list \<Rightarrow> (PathFilterKey \<Rightarrow> byte option) \<Rightarrow> PathFilterKey \<Rightarrow> byte option" where
  "watching [] m = m"
| "watching (w # ws) m =
     (case buildPathFilterKey (wt_Prefix w) of
        Inl e \<Rightarrow> watching ws m
      | Inr k \<Rightarrow> watching ws (m(k \<mapsto> path_action w)))"

definition valid_paths :: "WatchedPath list \<Rightarrow> bool" where
  "valid_paths ws \<longleftrightarrow> (\<forall>w\<in>set ws. 0 < length (wt_Prefix w) \<and> length (wt_Prefix w) \<le> 256)"

lemma valid_key: "0 < length p \<and> length p \<le> 256 \<longleftrightarrow> (\<exists>k. buildPathFilterKey p = Inr k)"
  by (auto simp: buildPathFilterKey_def)

lemma watching_without: "without (path_keys ws) (watching ws m) = without (path_keys ws) m"
proof (induction ws arbitrary: m)
  case (Cons w ws)
  show ?case
  proof (cases "buildPathFilterKey (wt_Prefix w)")
    case (Inr k)
    have "without (insert k (path_keys ws)) x = without {k} (without (path_keys ws) x)" for x
      by (auto simp: without_def)
    moreover have "without {k} (without (path_keys ws) (m(k \<mapsto> a))) = without {k} (without (path_keys ws) m)" for a
      by (auto simp: without_def)
    ultimately show ?thesis using Inr by (simp add: Cons.IH del: fun_upd_apply)
  qed (simp add: Cons.IH)
qed (simp add: without_def)

lemma without_fresh: "\<forall>k\<in>ks. m k = None \<Longrightarrow> without ks m = m"
  by (auto simp: without_def fun_eq_iff)

lemma add_paths_reliable:
  assumes "sn_faults s = []" "valid_paths ws"
  shows "add_paths cg added ws s =
           (None, s\<lparr>sn_paths := watching ws (sn_paths s), sn_registered := (sn_registered s)(cg \<mapsto> added @ ws)\<rparr>)"
  using assms
proof (induction ws arbitrary: s added)
  case (Cons w ws)
  obtain k where k: "buildPathFilterKey (wt_Prefix w) = Inr k"
    using Cons.prems valid_key [of "wt_Prefix w"] by (auto simp: valid_paths_def)
  have v: "valid_paths ws" using Cons.prems by (simp add: valid_paths_def)
  show ?case using Cons.prems k by (simp add: PathFilter_Put_def Cons.IH [OF _ v] del: fun_upd_apply)
qed simp

text \<open>
  A list with an invalid path fails at the first one: the entries written before it are
  taken out again, and so is the cgroup.
\<close>

fun valid_prefix :: "WatchedPath list \<Rightarrow> WatchedPath list" where
  "valid_prefix [] = []"
| "valid_prefix (w # ws) =
     (case buildPathFilterKey (wt_Prefix w) of Inl e \<Rightarrow> [] | Inr k \<Rightarrow> w # valid_prefix ws)"

lemma path_keys_valid_prefix: "path_keys (valid_prefix ws) \<subseteq> path_keys ws"
  by (induction ws) (auto split: sum.splits)

lemma add_paths_rollback:
  assumes "sn_faults s = []" "\<not> valid_paths ws"
  shows "\<exists>e. add_paths cg added ws s =
           (Some e, s\<lparr>sn_cgmap := (sn_cgmap s)(cg := None),
              sn_paths := without (path_keys (added @ valid_prefix ws)) (watching (valid_prefix ws) (sn_paths s))\<rparr>)"
  using assms
proof (induction ws arbitrary: s added)
  case (Cons w ws)
  show ?case
  proof (cases "buildPathFilterKey (wt_Prefix w)")
    case (Inl e)
    then show ?thesis using Cons.prems
      by (simp add: rollbackPaths_def Cgmap_Delete_def delete_paths_reliable del: fun_upd_apply)
  next
    case (Inr k)
    then have "\<not> valid_paths ws" using Cons.prems valid_key [of "wt_Prefix w"] by (auto simp: valid_paths_def)
    with Cons.IH [of "s\<lparr>sn_paths := (sn_paths s)(k \<mapsto> path_action w)\<rparr>" "added @ [w]"] Inr Cons.prems(1)
    show ?thesis by (simp add: PathFilter_Put_def del: fun_upd_apply)
  qed
qed (simp add: valid_paths_def)

lemma without_mono: "\<forall>k\<in>ks. m k = None \<Longrightarrow> ks' \<subseteq> ks \<Longrightarrow> without ks' m = m"
  by (auto simp: without_def fun_eq_iff)

lemma AddCgroup_effect:
  assumes "sn_faults s = []"
    and "sn_registered s (ao_CgroupID opts) = None" "sn_cgmap s (ao_CgroupID opts) = None"
    and "\<forall>k\<in>path_keys (ao_WatchedPaths opts). sn_paths s k = None"
  shows "if ao_WatchedPaths opts \<noteq> [] \<and> valid_paths (ao_WatchedPaths opts)
         then fst (AddCgroup opts s) = None
            \<and> sn_cgmap (snd (AddCgroup opts s)) (ao_CgroupID opts) = Some \<lparr>cv_RunID = ao_RunID opts, cv_Flags = 0\<rparr>
            \<and> sn_paths (snd (AddCgroup opts s)) = watching (ao_WatchedPaths opts) (sn_paths s)
            \<and> RemoveCgroup (ao_CgroupID opts) (snd (AddCgroup opts s)) = s
         else (\<exists>e. AddCgroup opts s = (Some e, s))"
proof -
  let ?cg = "ao_CgroupID opts" and ?ws = "ao_WatchedPaths opts"
  let ?v = "\<lparr>cv_RunID = ao_RunID opts, cv_Flags = 0\<rparr>"
  let ?s1 = "s\<lparr>sn_cgmap := (sn_cgmap s)(?cg \<mapsto> ?v)\<rparr>"
  have add: "?ws \<noteq> [] \<Longrightarrow> AddCgroup opts s = add_paths ?cg [] ?ws ?s1"
    using assms(1,2) by (simp add: AddCgroup_def Cgmap_Put_def del: fun_upd_apply)
  have cg: "(sn_cgmap s)(?cg := None) = sn_cgmap s" "(sn_registered s)(?cg := None) = sn_registered s"
    using assms(2,3) by auto
  have undo: "without (path_keys (valid_prefix ?ws)) (watching (valid_prefix ?ws) (sn_paths s)) = sn_paths s"
    "without (path_keys ?ws) (watching ?ws (sn_paths s)) = sn_paths s"
    using without_mono [OF assms(4) path_keys_valid_prefix] without_mono [OF assms(4)]
    by (simp_all add: watching_without)
  show ?thesis
  proof (cases "?ws \<noteq> [] \<and> valid_paths ?ws")
    case True
    then have a: "AddCgroup opts s = (None, ?s1\<lparr>sn_paths := watching ?ws (sn_paths s), sn_registered := (sn_registered s)(?cg \<mapsto> ?ws)\<rparr>)"
      using add assms(1) by (simp add: add_paths_reliable del: fun_upd_apply)
    have "RemoveCgroup ?cg (snd (AddCgroup opts s)) = s"
      using assms(1) by (simp add: a RemoveCgroup_reliable [of _ ?cg ?ws] undo cg)
    then show ?thesis using True a by simp
  next
    case False
    then consider "?ws = []" | "?ws \<noteq> []" "\<not> valid_paths ?ws" by auto
    then have "\<exists>e. AddCgroup opts s = (Some e, s)"
    proof cases
      case 2
      then obtain e where "add_paths ?cg [] ?ws ?s1 = (Some e, ?s1\<lparr>sn_cgmap := (sn_cgmap ?s1)(?cg := None),
              sn_paths := without (path_keys ([] @ valid_prefix ?ws)) (watching (valid_prefix ?ws) (sn_paths ?s1))\<rparr>)"
        using add_paths_rollback [of ?s1 ?ws ?cg "[]"] assms(1) by auto
      then show ?thesis using 2 by (simp add: add undo cg)
    qed (simp add: AddCgroup_def)
    then show ?thesis by (simp only: if_not_P [OF False])
  qed
qed

text \<open>
  C28. Watching a cgroup and ceasing to watch it. On reliable kernel maps, adding an
  unregistered cgroup whose paths no other cgroup uses succeeds exactly when there is a
  path and all of them have 1 to 256 bytes; the cgroup is then in CGMAP with its run and
  each path is in the filter with its action, the last one for a repeated path, and
  removing the cgroup gives back the state before. When it fails, nothing has changed.
\<close>

theorem AddCgroup_RemoveCgroup:
  assumes "sn_faults s = []"
    and "sn_registered s (ao_CgroupID opts) = None" "sn_cgmap s (ao_CgroupID opts) = None"
    and "\<forall>k\<in>path_keys (ao_WatchedPaths opts). sn_paths s k = None"
  shows "if ao_WatchedPaths opts \<noteq> [] \<and> valid_paths (ao_WatchedPaths opts)
         then fst (AddCgroup opts s) = None
            \<and> sn_cgmap (snd (AddCgroup opts s)) (ao_CgroupID opts) = Some \<lparr>cv_RunID = ao_RunID opts, cv_Flags = 0\<rparr>
            \<and> sn_paths (snd (AddCgroup opts s)) = watching (ao_WatchedPaths opts) (sn_paths s)
            \<and> RemoveCgroup (ao_CgroupID opts) (snd (AddCgroup opts s)) = s
         else (\<exists>e. AddCgroup opts s = (Some e, s))"
  using assms by (rule AddCgroup_effect)

theorem AddCgroup_RemoveCgroup_witness:
  "fst (AddCgroup \<lparr>ao_CgroupID = 7, ao_RunID = [1], ao_WatchedPaths = [\<lparr>wt_Prefix = ''/etc/'', wt_CredTagged = True\<rparr>]\<rparr> (new_Sensor [])) = None"
  using AddCgroup_RemoveCgroup [of "new_Sensor []"
      "\<lparr>ao_CgroupID = 7, ao_RunID = [1], ao_WatchedPaths = [\<lparr>wt_Prefix = ''/etc/'', wt_CredTagged = True\<rparr>]\<rparr>"]
  by (simp add: new_Sensor_def valid_paths_def)

text \<open>
  The filter is shared: removing a cgroup takes out every one of its paths, also those
  another registered cgroup still watches.
\<close>

theorem RemoveCgroup_takes_shared_paths:
  assumes "sn_faults s = []" "sn_registered s cg = Some ws" "sn_registered s other = Some vs" "other \<noteq> cg"
    and "k \<in> path_keys ws" "k \<in> path_keys vs"
  shows "sn_registered (RemoveCgroup cg s) other = Some vs \<and> sn_paths (RemoveCgroup cg s) k = None"
  using assms by (simp add: RemoveCgroup_reliable without_def)

section \<open>Registrations under failing map operations\<close>

text \<open>Every registered cgroup is in CGMAP and has at least one path, all of them valid.\<close>

definition registered_ok :: "Sensor \<Rightarrow> bool" where
  "registered_ok s \<longleftrightarrow>
     (\<forall>cg ws. sn_registered s cg = Some ws \<longrightarrow> sn_cgmap s cg \<noteq> None \<and> ws \<noteq> [] \<and> valid_paths ws)"

datatype sensor_call = Add AddCgroupOptions | Remove "64 word"

fun cgroup_step :: "sensor_call \<Rightarrow> Sensor \<Rightarrow> Sensor" where
  "cgroup_step (Add opts) s = snd (AddCgroup opts s)"
| "cgroup_step (Remove cg) s = RemoveCgroup cg s"

lemma PathFilter_Delete_frame:
  "sn_cgmap (snd (PathFilter_Delete k s)) = sn_cgmap s \<and> sn_registered (snd (PathFilter_Delete k s)) = sn_registered s"
  by (auto simp: PathFilter_Delete_def map_op_def split: list.splits)

lemma PathFilter_Put_frame:
  "sn_cgmap (snd (PathFilter_Put k v s)) = sn_cgmap s \<and> sn_registered (snd (PathFilter_Put k v s)) = sn_registered s"
  by (auto simp: PathFilter_Put_def map_op_def split: list.splits)

lemma delete_paths_frame:
  "sn_cgmap (delete_paths ws s) = sn_cgmap s \<and> sn_registered (delete_paths ws s) = sn_registered s"
  by (induction ws arbitrary: s) (auto simp: PathFilter_Delete_frame split: sum.splits)

lemma Cgmap_Delete_frame:
  "(sn_cgmap (snd (Cgmap_Delete cg s)) = sn_cgmap s \<or> sn_cgmap (snd (Cgmap_Delete cg s)) = (sn_cgmap s)(cg := None))
   \<and> sn_registered (snd (Cgmap_Delete cg s)) = sn_registered s"
  by (auto simp: Cgmap_Delete_def map_op_def split: list.splits)

text \<open>What a state keeps of another one up to the CGMAP entry of an unregistered cgroup.\<close>

lemma registered_ok_drop:
  assumes "registered_ok s" "sn_registered t = sn_registered s" "sn_registered s cg = None"
    and "sn_cgmap t = sn_cgmap s \<or> sn_cgmap t = (sn_cgmap s)(cg := None)"
  shows "registered_ok t"
  using assms by (auto simp: registered_ok_def)

lemma rollbackPaths_ok:
  assumes "registered_ok s" "sn_registered s cg = None"
  shows "registered_ok (rollbackPaths cg added s)"
proof (rule registered_ok_drop [OF assms(1) _ assms(2)])
  show "sn_registered (rollbackPaths cg added s) = sn_registered s"
    using Cgmap_Delete_frame [of cg s] by (simp add: rollbackPaths_def delete_paths_frame)
  show "sn_cgmap (rollbackPaths cg added s) = sn_cgmap s \<or> sn_cgmap (rollbackPaths cg added s) = (sn_cgmap s)(cg := None)"
    using Cgmap_Delete_frame [of cg s] by (simp only: rollbackPaths_def delete_paths_frame)
qed

lemma registered_ok_frame:
  "registered_ok s \<Longrightarrow> sn_cgmap t = sn_cgmap s \<Longrightarrow> sn_registered t = sn_registered s \<Longrightarrow> registered_ok t"
  by (simp add: registered_ok_def)

lemma add_paths_ok:
  assumes "registered_ok s" "sn_registered s cg = None" "sn_cgmap s cg \<noteq> None"
    and "added @ ws \<noteq> []" "valid_paths added"
  shows "registered_ok (snd (add_paths cg added ws s))"
  using assms
proof (induction ws arbitrary: s added)
  case Nil
  then show ?case by (auto simp: registered_ok_def)
next
  case (Cons w ws)
  show ?case
  proof (cases "buildPathFilterKey (wt_Prefix w)")
    case (Inl e)
    then show ?thesis using Cons.prems by (simp add: rollbackPaths_ok)
  next
    case (Inr k)
    obtain r t where put: "PathFilter_Put k (path_action w) s = (r, t)" by fastforce
    then have frame: "sn_cgmap t = sn_cgmap s" "sn_registered t = sn_registered s"
      using PathFilter_Put_frame [of k "path_action w" s] by simp_all
    have v: "valid_paths (added @ [w])"
      using Inr valid_key [of "wt_Prefix w"] Cons.prems(5) by (auto simp: valid_paths_def)
    show ?thesis
    proof (cases r)
      case None
      have "registered_ok (snd (add_paths cg (added @ [w]) ws t))"
        using Cons.prems frame v by (intro Cons.IH) (simp_all add: registered_ok_frame)
      then show ?thesis using Inr put None by simp
    next
      case (Some e)
      then show ?thesis using Inr put Cons.prems frame
        by (simp add: rollbackPaths_ok registered_ok_frame)
    qed
  qed
qed

lemma AddCgroup_ok:
  assumes "registered_ok s"
  shows "registered_ok (snd (AddCgroup opts s))"
proof (cases "ao_WatchedPaths opts = [] \<or> sn_registered s (ao_CgroupID opts) \<noteq> None")
  case True
  then show ?thesis using assms by (auto simp: AddCgroup_def)
next
  case False
  obtain r t where put: "Cgmap_Put (ao_CgroupID opts) \<lparr>cv_RunID = ao_RunID opts, cv_Flags = 0\<rparr> s = (r, t)"
    by fastforce
  have reg: "sn_registered t = sn_registered s"
    and cg: "r = None \<Longrightarrow> sn_cgmap t (ao_CgroupID opts) \<noteq> None"
    and keep: "\<And>c. sn_cgmap s c \<noteq> None \<Longrightarrow> sn_cgmap t c \<noteq> None"
    using put by (auto simp: Cgmap_Put_def map_op_def split: list.splits if_splits)
  have ok: "registered_ok t" using assms keep reg unfolding registered_ok_def by metis
  from reg cg ok show ?thesis
    using False put add_paths_ok [OF ok, of "ao_CgroupID opts" "[]" "ao_WatchedPaths opts"]
    by (auto simp: AddCgroup_def valid_paths_def split: option.splits)
qed

lemma RemoveCgroup_ok:
  assumes "registered_ok s"
  shows "registered_ok (RemoveCgroup cg s)"
proof (cases "sn_registered s cg")
  case (Some ws)
  let ?s = "s\<lparr>sn_registered := (sn_registered s)(cg := None)\<rparr>"
  have ok: "registered_ok ?s" using assms by (simp add: registered_ok_def)
  have eq: "RemoveCgroup cg s = delete_paths ws (snd (Cgmap_Delete cg ?s))"
    using Some by (simp only: RemoveCgroup_def option.simps)
  show ?thesis
  proof (rule registered_ok_drop [OF ok, of _ cg])
    show "sn_registered (RemoveCgroup cg s) = sn_registered ?s" "sn_registered ?s cg = None"
      using Cgmap_Delete_frame [of cg ?s] by (simp_all only: eq delete_paths_frame) simp
    show "sn_cgmap (RemoveCgroup cg s) = sn_cgmap ?s \<or> sn_cgmap (RemoveCgroup cg s) = (sn_cgmap ?s)(cg := None)"
      using Cgmap_Delete_frame [of cg ?s] by (simp only: eq delete_paths_frame)
  qed
qed (simp add: RemoveCgroup_def assms)

text \<open>
  Registration invariant. Whatever map operations fail and in whatever order cgroups
  are added and removed, every cgroup the sensor counts as registered is in CGMAP and
  watches at least one path, each of 1 to 256 bytes.
\<close>

theorem sensor_registrations:
  "registered_ok (fold cgroup_step calls (new_Sensor faults))"
proof -
  have "registered_ok (cgroup_step c s)" if "registered_ok s" for c s
    using that by (cases c) (simp_all add: AddCgroup_ok RemoveCgroup_ok)
  then have "registered_ok (fold cgroup_step calls s)" if "registered_ok s" for s
    using that by (induction calls arbitrary: s) simp_all
  moreover have "registered_ok (new_Sensor faults)" by (simp add: registered_ok_def new_Sensor_def)
  ultimately show ?thesis by blast
qed

section \<open>Connect deduplication\<close>

text \<open>An observation of a connect; a history has the newest one first.\<close>

record connect_obs =
  co_pid :: "32 word"
  co_family :: byte
  co_source :: byte
  co_ip :: string
  co_port :: "16 word"
  co_now :: time

definition co_key :: "connect_obs \<Rightarrow> string" where
  "co_key x = conn_key (co_pid x) (co_family x) (co_ip x) (co_port x)"

definition observe_connect :: "connect_obs \<Rightarrow> connectDedup \<Rightarrow> bool \<times> connectDedup" where
  "observe_connect x = conn_observe (co_pid x) (co_family x) (co_source x) (co_ip x) (co_port x) (co_now x)"

fun after :: "duration \<Rightarrow> connect_obs list \<Rightarrow> connectDedup" where
  "after w [] = newConnectDedup w"
| "after w (x # h) = snd (observe_connect x (after w h))"

text \<open>The time of the newest observation for the key, when that is a system call.\<close>

fun unpaired :: "connect_obs list \<Rightarrow> string \<Rightarrow> time option" where
  "unpaired [] k = None"
| "unpaired (x # h) k =
     (if co_ip x \<noteq> [] \<and> co_key x = k \<and> co_source x = NetSourceSyscall then Some (co_now x)
      else if co_ip x \<noteq> [] \<and> co_key x = k \<and> co_source x = NetSourceKprobe then None
      else unpaired h k)"

fun newest_first :: "connect_obs list \<Rightarrow> bool" where
  "newest_first (x # y # h) \<longleftrightarrow> co_now y \<le> co_now x \<and> newest_first (y # h)"
| "newest_first _ \<longleftrightarrow> True"

lemma observe_window [simp]: "cd_window (snd (observe_connect x d)) = cd_window d"
  by (simp add: observe_connect_def conn_observe_def Let_def split: option.splits)

lemma after_window [simp]: "cd_window (after w h) = w"
  by (induction h) (simp_all add: newConnectDedup_def)

text \<open>The marker of a key after one more observation.\<close>

lemma observe_pending:
  "cd_pending (snd (observe_connect x d)) k =
     (if co_ip x = [] then cd_pending d k
      else if co_key x = k \<and> co_source x = NetSourceSyscall then Some (co_now x)
      else if co_key x = k \<and> co_source x = NetSourceKprobe then None
      else (case cd_pending d k of None \<Rightarrow> None
            | Some ts \<Rightarrow> if co_now x - ts > cd_window d then None else Some ts))"
  by (auto simp: observe_connect_def conn_observe_def co_key_def Let_def split: option.splits)

lemma observe_dropped:
  "fst (observe_connect x d) \<longleftrightarrow>
     co_ip x \<noteq> [] \<and> co_source x = NetSourceKprobe
     \<and> (\<exists>ts. cd_pending d (co_key x) = Some ts \<and> co_now x - ts \<le> cd_window d)"
  by (auto simp: observe_connect_def conn_observe_def co_key_def Let_def split: option.splits)

text \<open>Markers are the unpaired system calls, less some of the expired ones.\<close>

lemma after_pending:
  assumes "newest_first h"
  shows "cd_pending (after w h) k = unpaired h k
         \<or> cd_pending (after w h) k = None \<and> (\<exists>ts x h'. unpaired h k = Some ts \<and> h = x # h' \<and> co_now x - ts > w)"
  using assms
proof (induction h)
  case (Cons x h)
  have nf: "newest_first h" and le: "\<And>y h'. h = y # h' \<Longrightarrow> co_now y \<le> co_now x"
    using Cons.prems by (cases h; simp)+
  consider "cd_pending (after w h) k = unpaired h k"
    | ts y h' where "cd_pending (after w h) k = None" "unpaired h k = Some ts" "h = y # h'" "co_now y - ts > w"
    using Cons.IH [OF nf] by blast
  then show ?case
  proof cases
    case 1
    then show ?thesis by (auto simp: observe_pending split: option.splits)
  next
    case (2 ts y h')
    have "co_now x - ts > w" using 2 le [of y h'] by simp
    then show ?thesis using 2(1,2) by (simp add: observe_pending)
  qed
qed (simp add: newConnectDedup_def)

lemma connect_dropped_iff:
  assumes "newest_first (x # h)"
  shows "fst (observe_connect x (after w h)) \<longleftrightarrow>
           co_source x = NetSourceKprobe \<and> co_ip x \<noteq> []
           \<and> (\<exists>ts. unpaired h (co_key x) = Some ts \<and> co_now x - ts \<le> w)"
proof -
  have nf: "newest_first h" and le: "\<And>y h'. h = y # h' \<Longrightarrow> co_now y \<le> co_now x"
    using assms by (cases h; simp)+
  from after_pending [OF nf, of w "co_key x"] le show ?thesis
    by (fastforce simp: observe_dropped)
qed

text \<open>
  Connect deduplication. On every history of observations in the order of time, the
  next observation is suppressed exactly when it comes from a kprobe and the newest earlier
  observation of the same process, family, address and port is a system call at most one
  window ago: a system call is never suppressed, and neither is a kprobe whose system call
  has been paired already or never existed.
\<close>

theorem connect_dedup_exact:
  assumes "newest_first (x # h)"
  shows "fst (observe_connect x (after w h)) \<longleftrightarrow>
           co_source x = NetSourceKprobe \<and> co_ip x \<noteq> []
           \<and> (\<exists>ts. unpaired h (co_key x) = Some ts \<and> co_now x - ts \<le> w)"
  using assms by (rule connect_dropped_iff)

definition demo_connect :: "byte \<Rightarrow> time \<Rightarrow> connect_obs" where
  "demo_connect src t = \<lparr>co_pid = 42, co_family = 2, co_source = src, co_ip = ''192.0.2.1'', co_port = 443, co_now = t\<rparr>"

theorem connect_dedup_exact_witness:
  "fst (observe_connect (demo_connect NetSourceKprobe 5) (after 100 [demo_connect NetSourceSyscall 3]))
   \<and> \<not> fst (observe_connect (demo_connect NetSourceKprobe 6)
         (after 100 [demo_connect NetSourceKprobe 5, demo_connect NetSourceSyscall 3]))"
  using connect_dedup_exact [of "demo_connect NetSourceKprobe 5" "[demo_connect NetSourceSyscall 3]" 100]
    connect_dedup_exact [of "demo_connect NetSourceKprobe 6" "[demo_connect NetSourceKprobe 5, demo_connect NetSourceSyscall 3]" 100]
  by (simp add: demo_connect_def co_key_def)

text \<open>
  Two system calls to the same destination before their two kprobes: the second kprobe is
  let through, so the second connect is reported twice.
\<close>

theorem interleaved_connects_duplicate:
  "\<not> fst (observe_connect (demo_connect NetSourceKprobe 4)
      (after 100000000 [demo_connect NetSourceKprobe 3, demo_connect NetSourceSyscall 2, demo_connect NetSourceSyscall 1]))"
  by (subst connect_dropped_iff) (simp_all add: demo_connect_def co_key_def)

section \<open>Diagnostics\<close>

lemma exchange_mset:
  "add_mset (fst (exchange x ys)) (mset (snd (exchange x ys))) = add_mset x (mset ys)"
proof (induction ys arbitrary: x)
  case (Cons y ys)
  show ?case
  proof (cases "me_Count y > me_Count x")
    case True
    have "add_mset x (add_mset (fst (exchange y ys)) (mset (snd (exchange y ys)))) = add_mset x (add_mset y (mset ys))"
      by (simp only: Cons.IH)
    then show ?thesis using True by (simp add: case_prod_beta Let_def add_mset_commute)
  next
    case False
    have "add_mset y (add_mset (fst (exchange x ys)) (mset (snd (exchange x ys)))) = add_mset y (add_mset x (mset ys))"
      by (simp only: Cons.IH)
    then show ?thesis using False by (simp add: case_prod_beta Let_def add_mset_commute)
  qed
qed simp

lemma exchange_set: "insert (fst (exchange x ys)) (set (snd (exchange x ys))) = insert x (set ys)"
  using arg_cong [OF exchange_mset [of x ys], of set_mset] by simp

lemma exchange_largest: "\<forall>z\<in>insert x (set ys). me_Count z \<le> me_Count (fst (exchange x ys))"
proof (induction ys arbitrary: x)
  case (Cons y ys)
  show ?case
  proof (cases "me_Count y > me_Count x")
    case True
    have "me_Count x \<le> me_Count (fst (exchange y ys))"
      using True Cons.IH [of y] by (meson insertI1 order.strict_implies_order order_trans)
    then show ?thesis using True Cons.IH [of y] by (simp add: case_prod_beta Let_def)
  next
    case False
    have "me_Count y \<le> me_Count (fst (exchange x ys))"
      using False Cons.IH [of x] by (meson insertI1 not_less order_trans)
    then show ?thesis using False Cons.IH [of x] by (simp add: case_prod_beta Let_def)
  qed
qed simp

lemma exchange_sort_mset: "mset (exchange_sort xs) = mset xs"
  by (induction xs rule: exchange_sort.induct) (simp_all add: exchange_mset)

lemma exchange_sort_sorted: "sorted_wrt (\<lambda>a b. me_Count b \<le> me_Count a) (exchange_sort xs)"
proof (induction xs rule: exchange_sort.induct)
  case (2 x xs)
  have "set (exchange_sort (snd (exchange x xs))) = set (snd (exchange x xs))"
    using exchange_sort_mset by (metis set_mset_mset)
  moreover have "set (snd (exchange x xs)) \<subseteq> insert x (set xs)" using exchange_set [of x xs] by blast
  ultimately show ?case using 2 exchange_largest [of x xs] by auto
qed simp

text \<open>
  The diagnostic dump of cgroup misses is a sorted selection: the entries of the map in
  descending order of their counts, all of them or the first \<open>n\<close> for a positive \<open>n\<close>; every
  entry left out counts at most as much as every entry returned.
\<close>

theorem DumpMisses_largest:
  "\<exists>rest. mset (DumpMisses (Some es) n) + mset rest = mset es
     \<and> sorted_wrt (\<lambda>a b. me_Count b \<le> me_Count a) (DumpMisses (Some es) n @ rest)
     \<and> int (length (DumpMisses (Some es) n)) = (if n > 0 then min n (int (length es)) else int (length es))"
proof -
  let ?out = "exchange_sort es"
  have len: "length ?out = length es" using exchange_sort_mset [of es] by (metis size_mset)
  let ?k = "if n > 0 \<and> int (length ?out) > n then nat n else length ?out"
  have d: "DumpMisses (Some es) n = take ?k ?out" by (simp add: DumpMisses_def Let_def)
  have "mset (take ?k ?out) + mset (drop ?k ?out) = mset es"
    using exchange_sort_mset [of es] by (metis append_take_drop_id mset_append)
  moreover have "sorted_wrt (\<lambda>a b. me_Count b \<le> me_Count a) (take ?k ?out @ drop ?k ?out)"
    using exchange_sort_sorted [of es] by (simp only: append_take_drop_id)
  moreover have "int (length (take ?k ?out)) = (if n > 0 then min n (int (length es)) else int (length es))"
    by (simp add: len)
  ultimately show ?thesis unfolding d by blast
qed

section \<open>The event stream\<close>

lemma decodeRecord_safe: "69 \<le> length raw \<Longrightarrow> \<exists>r. decodeRecord raw = Some r"
  using decoders_safe [of raw] by (auto simp: decodeRecord_def at_def)

text \<open>The event a record holds, if it can be decoded.\<close>

definition decoded :: "byte list \<Rightarrow> Event option" where
  "decoded raw =
     (if length raw < 69 then None else case decodeRecord raw of Some (Inr ev) \<Rightarrow> Some ev | _ \<Rightarrow> None)"

fun untagged :: "Event \<Rightarrow> Event" where
  "untagged (TLSSni t) = TLSSni (t\<lparr>te_DuplicateOf := []\<rparr>)"
| "untagged ev = ev"

fun kprobe_connect :: "Event \<Rightarrow> bool" where
  "kprobe_connect (NetConnect c) \<longleftrightarrow> nc_Source (ne_Raw c) = NetSourceKprobe"
| "kprobe_connect ev \<longleftrightarrow> False"

lemma kprobe_connect_untagged [simp]: "kprobe_connect (untagged ev) = kprobe_connect ev"
  by (cases ev) simp_all

lemma conn_observe_kprobe: "fst (conn_observe pid family source ip port now d) \<Longrightarrow> source = NetSourceKprobe"
  by (auto simp: conn_observe_def Let_def split: if_splits option.splits)

lemma handle_record_cases:
  "\<exists>e d'. handle_record now raw d = Some (e, d') \<and>
     (case decoded raw of
        None \<Rightarrow> e = None
      | Some ev \<Rightarrow> (case e of None \<Rightarrow> kprobe_connect ev | Some ev' \<Rightarrow> untagged ev' = untagged ev))"
proof (cases "length raw < 69")
  case False
  then obtain r where r: "decodeRecord raw = Some r" using decodeRecord_safe [of raw] by fastforce
  show ?thesis
  proof (cases r)
    case (Inr ev)
    then have dec: "decoded raw = Some ev" using r False by (simp add: decoded_def)
    show ?thesis
    proof (cases ev)
      case (NetConnect c)
      then show ?thesis using r Inr False dec
          conn_observe_kprobe [of "eh_PID (nc_Header (ne_Raw c))" "nc_Family (ne_Raw c)" "nc_Source (ne_Raw c)"
            "ne_DestIP c" "nc_DestPort (ne_Raw c)" now "dd_conn d"]
        by (simp add: handle_record_def Let_def case_prod_beta)
    next
      case (TLSSni t)
      then show ?thesis using r Inr False dec
        by (simp add: handle_record_def Let_def case_prod_beta split: option.split)
    qed (use r Inr False dec in \<open>simp_all add: handle_record_def\<close>)
  qed (use r False in \<open>simp add: handle_record_def decoded_def\<close>)
qed (simp add: handle_record_def decoded_def)

definition decoded_events :: "(time \<times> byte list) list \<Rightarrow> Event list" where
  "decoded_events rs = List.map_filter (\<lambda>r. decoded (snd r)) rs"

text \<open>
  C27. The event stream never panics, whatever bytes the kernel hands over. Up to the
  duplicate tag of TLS events, the delivered events are a subsequence of the records that
  decode, in their order, and only kprobe connects can be missing: every file access,
  execution, DNS query, TLS name and system-call connect that decodes is delivered.
\<close>

theorem Events_delivered:
  "\<exists>es d'. Events rs d = Some (es, d')
     \<and> subseq (map untagged es) (map untagged (decoded_events rs))
     \<and> filter (\<lambda>ev. \<not> kprobe_connect ev) (map untagged es)
       = filter (\<lambda>ev. \<not> kprobe_connect ev) (map untagged (decoded_events rs))"
proof (induction rs arbitrary: d)
  case (Cons r rs)
  obtain now raw where r: "r = (now, raw)" by fastforce
  obtain e d1 where h: "handle_record now raw d = Some (e, d1)"
    and c: "case decoded raw of None \<Rightarrow> e = None
      | Some ev \<Rightarrow> (case e of None \<Rightarrow> kprobe_connect ev | Some ev' \<Rightarrow> untagged ev' = untagged ev)"
    using handle_record_cases by metis
  obtain es d2 where ev: "Events rs d1 = Some (es, d2)"
    "subseq (map untagged es) (map untagged (decoded_events rs))"
    "filter (\<lambda>ev. \<not> kprobe_connect ev) (map untagged es) = filter (\<lambda>ev. \<not> kprobe_connect ev) (map untagged (decoded_events rs))"
    using Cons.IH [of d1] by blast
  have step: "Events (r # rs) d = Some ((case e of None \<Rightarrow> es | Some ev \<Rightarrow> ev # es), d2)"
    using r h ev(1) by simp
  have dec: "decoded_events (r # rs) = (case decoded raw of None \<Rightarrow> decoded_events rs | Some ev \<Rightarrow> ev # decoded_events rs)"
    using r by (cases "decoded raw") (simp_all add: decoded_events_def List.map_filter_simps)
  have same: "untagged x = untagged y \<Longrightarrow> kprobe_connect x = kprobe_connect y" for x y
    using kprobe_connect_untagged by metis
  show ?case unfolding step dec using c ev(2,3)
    by (auto split: option.splits dest: same)
qed (simp add: decoded_events_def List.map_filter_simps)

section \<open>Start-up\<close>

lemma attach_tracepoints_all:
  "attach_tracepoints k tps ls = Inr links \<Longrightarrow>
     links = ls @ map (\<lambda>tp. Tracepoint (fst tp) (snd tp)) tps \<and> (\<forall>tp\<in>set tps. kn_Tracepoint k tp = None)"
proof (induction tps arbitrary: ls)
  case (Cons tp tps)
  then show ?case using Cons.IH [of "ls @ [Tracepoint (fst tp) (snd tp)]"] by (simp split: option.splits)
qed simp

lemma attach_kprobes_filter:
  "attach_kprobes k kps ls = ls @ map Kprobe (filter (\<lambda>kp. kn_Kprobe k kp = None) kps)"
  by (induction kps arbitrary: ls) (auto split: option.splits)

text \<open>
  A sensor that starts has every tracepoint attached, in the order of the table, followed
  by the kprobes the kernel has and at most one library probe.
\<close>

lemma New_attaches:
  assumes "New opts k = Inr (links, d)"
  shows "\<exists>up. links = map (\<lambda>tp. Tracepoint (fst tp) (snd tp)) tracepoints
           @ map Kprobe (filter (\<lambda>kp. kn_Kprobe k kp = None) kprobes) @ up \<and> length up \<le> 1"
proof -
  obtain ls where ls: "attach_tracepoints k tracepoints [] = Inr ls"
    using assms by (auto simp: New_def split: option.splits sum.splits if_splits)
  let ?path = "if so_LibSSLPath opts = [] then findLibSSL k else so_LibSSLPath opts"
  have "links = attach_libssl k ?path (attach_kprobes k kprobes ls)"
    using assms ls by (auto simp: New_def Let_def split: option.splits if_splits)
  then show ?thesis
    using attach_tracepoints_all [OF ls] by (auto simp: attach_libssl_def attach_kprobes_filter)
qed

end
