(* ===== verification/Sandbox_Props.thy ===== *)
theory Sandbox_Props
  imports Sandbox
begin

text \<open>
  What the sandbox driver guarantees: the containers it asks for are confined, a failed
  launch leaves no container behind, its waiting loops end, and image references split as
  they should.
\<close>

section \<open>Confinement\<close>

definition host_field :: "json \<Rightarrow> string \<Rightarrow> json option" where
  "host_field p k =
     (case p of
        JObj kvs \<Rightarrow> (case map_of kvs ''HostConfig'' of Some (JObj hs) \<Rightarrow> map_of hs k | _ \<Rightarrow> None)
      | _ \<Rightarrow> None)"

definition nonzero :: "json option \<Rightarrow> bool" where
  "nonzero j \<longleftrightarrow> (case j of Some (JNum n) \<Rightarrow> n \<noteq> 0 | _ \<Rightarrow> False)"

definition confined :: "json \<Rightarrow> bool" where
  "confined p \<longleftrightarrow>
     host_field p ''CapDrop'' = Some (JArr [JStr ''ALL''])
     \<and> host_field p ''SecurityOpt'' = Some (JArr [JStr ''no-new-privileges:true''])
     \<and> (case host_field p ''NetworkMode'' of Some (JStr m) \<Rightarrow> m \<noteq> [] \<and> \<not> EqualFold m ''host'' | _ \<Rightarrow> False)
     \<and> host_field p ''PidMode'' = Some (JStr []) \<and> host_field p ''IpcMode'' = Some (JStr []) \<and> host_field p ''UTSMode'' = Some (JStr [])
     \<and> nonzero (host_field p ''Memory'') \<and> nonzero (host_field p ''NanoCpus'') \<and> nonzero (host_field p ''PidsLimit'')
     \<and> host_field p ''Privileged'' = None \<and> host_field p ''Binds'' = None \<and> host_field p ''Devices'' = None \<and> host_field p ''CapAdd'' = None
     \<and> host_field p ''RestartPolicy'' = Some (JObj [(''Name'', JStr ''no'')])"

lemma host_field_payload: "host_field (buildCreatePayload spec d) k = map_of (host_config spec) k"
  by (simp add: host_field_def buildCreatePayload_def)

lemma payload_confined:
  assumes "\<not> EqualFold (sb_NetworkMode spec) ''host''"
  shows "confined (buildCreatePayload (FilledSpec spec) d)"
proof -
  have "\<not> EqualFold ''bridge'' ''host''" by (simp add: EqualFold_def ToLower_def lower_char_def is_upper_def)
  then show ?thesis
    using assms by (simp add: confined_def host_field_payload host_config_def nonzero_def FilledSpec_def)
qed


section \<open>No container is left behind\<close>

text \<open>
  The containers of a daemon that answers a successful creation with a new container's id and
  whose forced removals succeed; its other operations neither create nor remove any.
\<close>

definition created :: "string reply \<Rightarrow> string option" where
  "created r = (case r of Inr (code, text, Inr i) \<Rightarrow> if code = 201 then Some i else None | _ \<Rightarrow> None)"

definition daemon_ok :: "'w engine \<Rightarrow> ('w \<Rightarrow> string set) \<Rightarrow> bool" where
  "daemon_ok en cs \<longleftrightarrow>
     (\<forall>p w. case created (fst (en_create en p w)) of
        None \<Rightarrow> cs (snd (en_create en p w)) = cs w
      | Some i \<Rightarrow> i \<notin> cs w \<and> cs (snd (en_create en p w)) = insert i (cs w))
     \<and> (\<forall>i w. cs (snd (en_remove en i True w)) = cs w - {i})
     \<and> (\<forall>a b w. cs (snd (en_pull en a b w)) = cs w) \<and> (\<forall>a w. cs (snd (en_image en a w)) = cs w)
     \<and> (\<forall>i w. cs (snd (en_start en i w)) = cs w) \<and> (\<forall>i w. cs (snd (en_inspect en i w)) = cs w)
     \<and> (\<forall>i t w. cs (snd (en_stop en i t w)) = cs w)"

lemma daemon_keeps:
  assumes "daemon_ok en cs"
  shows "cs (snd (pullIfNeeded en img pol w)) = cs w" "cs (snd (resolveDigest en img w)) = cs w"
    "cs (snd (startContainer en i w)) = cs w" "cs (snd (inspectPID en i w)) = cs w"
    "cs (snd (stopContainer en i t w)) = cs w" "cs (snd (removeContainer en i True w)) = cs w - {i}"
  using assms
  by (simp_all add: daemon_ok_def pullIfNeeded_def imageExists_def pull_def resolveDigest_def startContainer_def
      inspectPID_def stopContainer_def removeContainer_def Let_def case_prod_beta)

lemma created_iff: "decoded_of (docker_do m q [201] r) = Inr i \<longleftrightarrow> created r = Some i"
proof (cases r)
  case (Inr t)
  obtain code tx d where "t = (code, tx, d)" by (cases t) auto
  then show ?thesis using Inr by (cases d) (simp_all add: decoded_of_def docker_do_def created_def)
qed (simp add: decoded_of_def docker_do_def created_def)

lemma createContainer_keeps:
  assumes "daemon_ok en cs"
  shows "case fst (createContainer en p w) of
      Inl e \<Rightarrow> cs (snd (createContainer en p w)) = cs w
    | Inr i \<Rightarrow> i \<notin> cs w \<and> cs (snd (createContainer en p w)) = insert i (cs w)"
proof -
  have law: "case created (fst (en_create en p w)) of None \<Rightarrow> cs (snd (en_create en p w)) = cs w
      | Some i \<Rightarrow> i \<notin> cs w \<and> cs (snd (en_create en p w)) = insert i (cs w)"
    using assms by (simp add: daemon_ok_def)
  have iff: "fst (createContainer en p w) = Inr i \<longleftrightarrow> created (fst (en_create en p w)) = Some i" for i
    by (simp add: createContainer_def case_prod_beta created_iff)
  have snd: "snd (createContainer en p w) = snd (en_create en p w)"
    by (simp add: createContainer_def case_prod_beta)
  show ?thesis
  proof (cases "fst (createContainer en p w)")
    case (Inl e)
    then have "created (fst (en_create en p w)) = None" using iff by (metis Inl_Inr_False option.exhaust)
    then show ?thesis using law Inl snd by simp
  next
    case (Inr i)
    then show ?thesis using law iff [of i] snd by simp
  qed
qed

lemma waitForRunning_keeps:
  assumes "daemon_ok en cs" "waitForRunning en i dl ts w = Some (r, w')"
  shows "cs w' = cs w"
  using assms(2)
proof (induction ts arbitrary: w)
  case (Cons t ts)
  obtain now c where t: "t = (now, c)" by fastforce
  obtain q v where q: "inspectPID en i w = (q, v)" by fastforce
  then have "cs v = cs w" using daemon_keeps(4) [OF assms(1), of i w] by simp
  then show ?case using Cons q t by (auto split: sum.splits if_splits)
qed simp

lemma await_container_keeps:
  assumes "daemon_ok en cs" "await_container en sc i w = Some (r, w')"
  shows "cs w' = cs w"
  using assms(2) waitForRunning_keeps [OF assms(1)]
  by (auto simp: await_container_def split: option.splits sum.splits)

lemma Launch_containers:
  assumes "daemon_ok en cs" "Launch en sc spec w = Some (r, w')"
  shows "case r of Inl e \<Rightarrow> cs w' = cs w | Inr h \<Rightarrow> dh_containerID h \<notin> cs w \<and> cs w' = insert (dh_containerID h) (cs w)"
proof (cases "sb_Image spec = [] \<or> EqualFold (sb_NetworkMode spec) ''host''")
  case True
  then show ?thesis using assms(2) by (auto simp: Launch_def split: if_splits)
next
  case False
  let ?f = "FilledSpec spec"
  obtain q w1 where q: "pullIfNeeded en (sb_Image ?f) (sb_PullPolicy ?f) w = (q, w1)" by fastforce
  have k1: "cs w1 = cs w" using daemon_keeps(1) [OF assms(1), of "sb_Image ?f" "sb_PullPolicy ?f" w] q by simp
  show ?thesis
  proof (cases q)
    case (Some e)
    then show ?thesis using assms(2) False q k1 by (simp add: Launch_def Let_def) auto
  next
    case None
    obtain d w2 where d: "resolveDigest en (sb_Image ?f) w1 = (d, w2)" by fastforce
    have k2: "cs w2 = cs w" using daemon_keeps(2) [OF assms(1), of "sb_Image ?f" w1] d k1 by simp
    let ?dig = "case d of Inl e \<Rightarrow> [] | Inr x \<Rightarrow> x"
    obtain c w3 where c: "createContainer en (buildCreatePayload ?f ?dig) w2 = (c, w3)" by fastforce
    have k3: "case c of Inl e \<Rightarrow> cs w3 = cs w | Inr i \<Rightarrow> i \<notin> cs w \<and> cs w3 = insert i (cs w)"
      using createContainer_keeps [OF assms(1), of "buildCreatePayload ?f ?dig" w2] c k2 by (cases c) simp_all
    note L = assms(2) [unfolded Launch_def Let_def, simplified False if_False q None d c prod.case option.case]
    show ?thesis
    proof (cases c)
      case (Inl e)
      then show ?thesis using L False k3 q None d c by (auto simp: Let_def)
    next
      case (Inr i)
      obtain st w4 where st: "startContainer en i w3 = (st, w4)" by fastforce
      have k4: "i \<notin> cs w" "cs w4 = insert i (cs w)" using daemon_keeps(3) [OF assms(1), of i w3] st k3 Inr by auto
      have rm: "cs (snd (removeContainer en i True v)) = cs w" if "cs v = insert i (cs w)" for v
        using daemon_keeps(6) [OF assms(1), of i v] that k4(1) by simp
      show ?thesis
      proof (cases st)
        case (Some e)
        then have "r = Inl (Wrap ''start container'' e)" "w' = snd (removeContainer en i True w4)"
          using L Inr st False q None d c by (auto simp: Let_def)
        then show ?thesis using rm [OF k4(2)] by simp
      next
        case st: None
        then obtain a w5 where a: "await_container en sc i w4 = Some (a, w5)"
          using L Inr \<open>startContainer en i w3 = (st, w4)\<close> False q None d c by (auto simp: Let_def split: option.splits)
        have k5: "cs w5 = insert i (cs w)" using await_container_keeps [OF assms(1) a] k4(2) by simp
        show ?thesis
          using L Inr \<open>startContainer en i w3 = (st, w4)\<close> st a False q None d c k4 k5 rm [OF k5]
          by (auto simp: Let_def split: sum.splits if_splits)
      qed
    qed
  qed
qed

text \<open>
  C17. No container is left behind. With a daemon whose forced removals succeed, a launch that
  fails at any point leaves the containers as they were, a launch that succeeds adds exactly
  the container of its handle, and stopping the handle takes it away again.
\<close>

theorem Launch_leaves_nothing:
  assumes "daemon_ok en cs" "Launch en sc spec w = Some (r, w')"
  shows "case r of
      Inl e \<Rightarrow> cs w' = cs w
    | Inr h \<Rightarrow> dh_containerID h \<notin> cs w \<and> cs w' = insert (dh_containerID h) (cs w) \<and> cs (snd (Handle_Stop en h w')) = cs w"
proof -
  have stop: "cs (snd (Handle_Stop en h v)) = cs v - {dh_containerID h}" for h v
    using daemon_keeps(5) [OF assms(1), of "dh_containerID h" "5 * second" v]
    by (simp add: Handle_Stop_def case_prod_beta daemon_keeps(6) [OF assms(1)])
  from Launch_containers [OF assms] show ?thesis by (cases r) (simp_all add: stop)
qed

text \<open>A daemon that numbers its containers, all of them running at once under one cgroup.\<close>

definition demo_engine :: "string list engine" where
  "demo_engine =
     \<lparr>en_pull = (\<lambda>a b w. (Inr (200, [], Inr ()), w)),
      en_image = (\<lambda>a w. (Inr (200, [], Inr \<lparr>im_Id = ''sha256:1'', im_RepoDigests = []\<rparr>), w)),
      en_create = (\<lambda>p w. let i = replicate (12 + length (concat w)) (CHR ''a'') in (Inr (201, [], Inr i), i # w)),
      en_start = (\<lambda>i w. (Inr (204, [], Inr ()), w)),
      en_inspect = (\<lambda>i w. (Inr (200, [], Inr (7, ''running'')), w)),
      en_wait = (\<lambda>i w. (Inr (200, [], Inr (0, None)), w)),
      en_stop = (\<lambda>i t w. (Inr (204, [], Inr ()), w)),
      en_remove = (\<lambda>i f w. (Inr (204, [], Inr ()), filter (\<lambda>j. j \<noteq> i) w)),
      en_lines = (\<lambda>f w. Inr ([if f = ''/proc/self/mountinfo'' then ''1 2 0:1 / /cg rw - cgroup2 none rw'' else ''0::/fangs/x''], None)),
      en_stat = (\<lambda>p w. Inr 99),
      en_mkdir = (\<lambda>p w. (None, w)), en_mkdirall = (\<lambda>p w. (None, w)), en_rmdir = (\<lambda>p w. (None, w))\<rparr>"

lemma demo_engine_ok: "daemon_ok demo_engine set"
proof -
  have "length i \<le> length (concat w)" if "i \<in> set w" for i :: string and w
    using that by (induction w) auto
  then have "replicate (12 + length (concat w)) c \<notin> set w" for c :: char and w
    by fastforce
  then show ?thesis
    by (auto simp: daemon_ok_def demo_engine_def created_def Let_def)
qed

definition demo_spec :: SandboxSpec where
  "demo_spec = \<lparr>sb_Image = ''node:20'', sb_Command = [''npm''], sb_Env = [], sb_WorkingDir = [], sb_User = [], sb_NetworkMode = [],
     sb_MemoryBytes = 0, sb_NanoCPUs = 0, sb_PidsLimit = 0, sb_PullPolicy = [], sb_GracePeriod = 0, sb_CgroupParent = []\<rparr>"

definition demo_schedule :: "string list schedule" where
  "demo_schedule = \<lparr>sc_start1 = 0, sc_turns1 = [(1, False)], sc_start2 = 2, sc_turns2 = (\<lambda>w. [((3, False), w)])\<rparr>"

lemma demo_launch:
  "\<exists>h w'. Launch demo_engine demo_schedule demo_spec [] = Some (Inr h, w')"
proof -
  have path: "cgroupPathForPID demo_engine 7 w = Inr ''/cg/fangs/x''" for w
    by code_simp
  have found: "cgroup_found demo_engine 7 w = Some (''/cg/fangs/x'', 99)" for w
    unfolding cgroup_found_def path by (simp add: HasSuffix_def suffix_def cgroupIDForPath_def demo_engine_def)
  have wait: "waitForRunning demo_engine i dl [(1, False)] w = Some (Inr 7, w)" for i dl w
    by (simp add: inspectPID_def demo_engine_def docker_do_def decoded_of_def)
  have await: "await_container demo_engine demo_schedule i w = Some (Inr (''/cg/fangs/x'', 99), w)" for i w
    by (simp add: await_container_def demo_schedule_def wait found del: waitForRunning.simps)
  have net: "\<not> EqualFold [] ''host''" by (simp add: EqualFold_def ToLower_def)
  have pulled: "pullIfNeeded demo_engine img ''missing'' w = (None, w)" for img w
    by (simp add: pullIfNeeded_def imageExists_def demo_engine_def docker_do_def done_of_def)
  have digest: "resolveDigest demo_engine img w = (Inr ''sha256:1'', w)" for img w
    by (simp add: resolveDigest_def demo_engine_def docker_do_def decoded_of_def)
  have create: "createContainer demo_engine p [] = (Inr (replicate 12 (CHR ''a'')), [replicate 12 (CHR ''a'')])" for p
    by (simp add: createContainer_def demo_engine_def docker_do_def decoded_of_def Let_def)
  have start: "startContainer demo_engine i w = (None, w)" for i w
    by (simp add: startContainer_def demo_engine_def docker_do_def done_of_def)
  have fields: "sb_Image demo_spec = ''node:20''" "sb_NetworkMode demo_spec = []" "sb_PullPolicy (FilledSpec demo_spec) = ''missing''"
    by (simp_all add: demo_spec_def FilledSpec_def)
  show ?thesis by (simp add: Launch_def fields net pulled digest create start await Let_def)
qed

theorem Launch_leaves_nothing_witness:
  "\<exists>h w'. Launch demo_engine demo_schedule demo_spec [] = Some (Inr h, w') \<and> set (snd (Handle_Stop demo_engine h w')) = {}"
proof -
  obtain h w' where l: "Launch demo_engine demo_schedule demo_spec [] = Some (Inr h, w')" using demo_launch by blast
  from Launch_leaves_nothing [OF demo_engine_ok l] l show ?thesis by auto
qed

section \<open>The waiting loops end\<close>

text \<open>A clock whose readings advance by the five milliseconds each turn sleeps.\<close>

definition paced :: "time \<Rightarrow> time list \<Rightarrow> bool" where
  "paced start ts \<longleftrightarrow> (\<forall>k<length ts. start + 5000000 * int k \<le> ts ! k)"

lemma waitForRunning_ends:
  "\<exists>t\<in>set turns. fst t > deadline \<Longrightarrow> waitForRunning en i deadline turns w \<noteq> None"
proof (induction turns arbitrary: w)
  case (Cons t ts)
  obtain now c where t: "t = (now, c)" by fastforce
  obtain q v where q: "inspectPID en i w = (q, v)" by fastforce
  show ?case
  proof (cases q)
    case (Inl e)
    then show ?thesis using t q by simp
  next
    case (Inr r)
    obtain pid st where r: "r = (pid, st)" by fastforce
    have "now > deadline \<or> waitForRunning en i deadline ts v \<noteq> None" using Cons.IH [of v] Cons.prems t by force
    then show ?thesis unfolding t waitForRunning.simps q Inr r by (simp, blast)
  qed
qed simp

lemma stableCgroup_ends:
  "\<exists>t\<in>set turns. fst (fst t) > deadline \<Longrightarrow> stableCgroup en pid deadline turns \<noteq> None"
proof (induction turns)
  case (Cons t ts)
  obtain now c v where t: "t = ((now, c), v)" by (metis prod.exhaust)
  have "now > deadline \<or> stableCgroup en pid deadline ts \<noteq> None" using Cons t by force
  then show ?case unfolding t stableCgroup.simps by (simp split: option.split, blast)
qed simp

lemma paced_reaches:
  assumes "paced start ts" "length ts > n" "5000000 * int n > span"
  shows "\<exists>t\<in>set ts. t > start + span"
proof -
  have "start + 5000000 * int n \<le> ts ! n" using assms(1,2) by (simp add: paced_def)
  then have "ts ! n > start + span" using assms(3) by simp
  then show ?thesis using assms(2) nth_mem by blast
qed

text \<open>
  C35. A launch returns. With a clock that advances by the five milliseconds a turn sleeps, 2002
  turns are enough for the ten seconds a container has to start and 1002 for the five seconds
  its cgroup has to settle, whatever the daemon and the file system show; with container ids
  of at least twelve characters nothing panics either.
\<close>

theorem Launch_returns:
  assumes "paced (sc_start1 sc) (map fst (sc_turns1 sc))" "length (sc_turns1 sc) \<ge> 2002"
    and "\<forall>v. paced (sc_start2 sc) (map (fst \<circ> fst) (sc_turns2 sc v)) \<and> length (sc_turns2 sc v) \<ge> 1002"
    and "\<forall>p v i. created (fst (en_create en p v)) = Some i \<longrightarrow> length i \<ge> 12"
  shows "\<exists>r w'. Launch en sc spec w = Some (r, w')"
proof -
  have 1: "\<exists>t\<in>set (sc_turns1 sc). fst t > sc_start1 sc + 10 * second"
    using paced_reaches [OF assms(1), of 2001 "10 * second"] assms(2) by (simp add: second_def)
  have 2: "\<exists>t\<in>set (sc_turns2 sc v). fst (fst t) > sc_start2 sc + 5 * second" for v
    using paced_reaches [of "sc_start2 sc" "map (fst \<circ> fst) (sc_turns2 sc v)" 1001 "5 * second"] spec [OF assms(3), of v]
    by (simp add: second_def)
  have await: "\<exists>r v. await_container en sc i u = Some (r, v)" for i u
  proof -
    obtain q v where q: "waitForRunning en i (sc_start1 sc + 10 * second) (sc_turns1 sc) u = Some (q, v)"
      using waitForRunning_ends [OF 1, of en i u] by auto
    show ?thesis
    proof (cases q)
      case (Inr pid)
      obtain c where "stableCgroup en pid (sc_start2 sc + 5 * second) (sc_turns2 sc v) = Some c"
        using stableCgroup_ends [OF 2, of en pid v] by blast
      then show ?thesis using q Inr by (cases c) (simp_all add: await_container_def)
    qed (use q in \<open>simp add: await_container_def\<close>)
  qed
  have long: "length i \<ge> 12" if "createContainer en p v = (Inr i, v')" for p v i v'
    using that assms(4) created_iff [of "''POST''" "''/containers/create''" "fst (en_create en p v)" i]
    by (auto simp: createContainer_def case_prod_beta)
  let ?f = "FilledSpec spec"
  obtain q w1 where q: "pullIfNeeded en (sb_Image ?f) (sb_PullPolicy ?f) w = (q, w1)" by fastforce
  obtain d w2 where d: "resolveDigest en (sb_Image ?f) w1 = (d, w2)" by fastforce
  obtain c w3 where c: "createContainer en (buildCreatePayload ?f (case d of Inl e \<Rightarrow> [] | Inr x \<Rightarrow> x)) w2 = (c, w3)" by fastforce
  show ?thesis
  proof (cases c)
    case (Inl e)
    then show ?thesis using q d c by (cases q) (simp_all add: Launch_def Let_def)
  next
    case (Inr i)
    obtain st w4 where st: "startContainer en i w3 = (st, w4)" by fastforce
    obtain a w5 where a: "await_container en sc i w4 = Some (a, w5)" using await by blast
    show ?thesis using q d c Inr st a long [of _ w2 i w3]
      by (cases q; cases st; cases a) (auto simp: Launch_def Let_def)
  qed
qed

definition demo_long_schedule :: "string list schedule" where
  "demo_long_schedule = \<lparr>sc_start1 = 0, sc_turns1 = map (\<lambda>k. (5000000 * int k, False)) [0..<2002], sc_start2 = 0,
     sc_turns2 = (\<lambda>w. map (\<lambda>k. ((5000000 * int k, False), w)) [0..<1002])\<rparr>"

theorem Launch_returns_witness:
  "\<exists>r w'. Launch (demo_engine\<lparr>en_inspect := (\<lambda>i w. (Inr (200, [], Inr (0, ''created'')), w))\<rparr>) demo_long_schedule demo_spec [] = Some (r, w')"
proof (rule Launch_returns)
  show "paced (sc_start1 demo_long_schedule) (map fst (sc_turns1 demo_long_schedule))"
    by (simp add: demo_long_schedule_def paced_def comp_def del: upt_rec_numeral)
  show "2002 \<le> length (sc_turns1 demo_long_schedule)"
    by (simp add: demo_long_schedule_def del: upt_rec_numeral)
  show "\<forall>v. paced (sc_start2 demo_long_schedule) (map (fst \<circ> fst) (sc_turns2 demo_long_schedule v)) \<and> 1002 \<le> length (sc_turns2 demo_long_schedule v)"
    by (simp add: demo_long_schedule_def paced_def comp_def del: upt_rec_numeral)
  show "\<forall>p v i. created (fst (en_create (demo_engine\<lparr>en_inspect := (\<lambda>i w. (Inr (200, [], Inr (0, ''created'')), w))\<rparr>) p v)) = Some i \<longrightarrow> 12 \<le> length i"
    by (auto simp: demo_engine_def created_def Let_def)
qed

section \<open>Image references\<close>

text \<open>A repository and a tag are told apart, also when the registry has a port.\<close>

lemma splitImageTag_tag:
  assumes "CHR ''@'' \<notin> set (repo @ tag)" "CHR ''/'' \<notin> set tag" "CHR '':'' \<notin> set tag"
  shows "splitImageTag (repo @ '':'' @ tag) = (repo, tag)"
proof -
  have at: "last_index_byte (repo @ '':'' @ tag) (CHR ''@'') = None" using assms(1) by (simp add: last_index_byte_None)
  have colon: "last_index_byte (repo @ '':'' @ tag) (CHR '':'') = Some (length repo)"
    using last_index_byte_append [of "CHR '':''" tag repo] assms(3) by simp
  have "slash < length repo" if s: "last_index_byte (repo @ '':'' @ tag) (CHR ''/'') = Some slash" for slash
  proof -
    have "last_index_byte (u @ v) c = last_index_byte u c" if "c \<notin> set v" for u v and c :: char
      using that by (induction u) (simp_all add: last_index_byte_None)
    then have "last_index_byte repo (CHR ''/'') = Some slash" using s assms(2) by simp
    moreover have "last_index_byte u c = Some k \<Longrightarrow> k < length u" for u k and c :: char
      by (induction u arbitrary: k) (auto split: option.splits if_splits)
    ultimately show ?thesis by blast
  qed
  then show ?thesis using at colon by (auto simp: splitImageTag_def split: option.split)
qed

text \<open>
  An image pinned by digest is pulled without tag or digest: the daemon is asked for every
  tag of the repository instead of the pinned image.
\<close>

theorem pinned_image_pulls_all_tags:
  assumes "CHR ''@'' \<notin> set digest"
  shows "pull en (repo @ ''@'' @ digest) w =
    (done_of (docker_do ''POST'' ''/images/create'' [200] (fst (en_pull en repo [] w))), snd (en_pull en repo [] w))"
proof -
  have "splitImageTag (repo @ ''@'' @ digest) = (repo, [])"
    using last_index_byte_append [of "CHR ''@''" digest repo] assms by (simp add: splitImageTag_def)
  then show ?thesis by (simp add: pull_def case_prod_beta)
qed

text \<open>
  On a host with a hybrid hierarchy the process may still be in the root cgroup when the loop
  takes its path as final: only the pure hierarchy's mount point is excluded.
\<close>

definition hybrid_engine :: "unit engine" where
  "hybrid_engine =
     \<lparr>en_pull = (\<lambda>a b w. (Inl ErrIO, w)), en_image = (\<lambda>a w. (Inl ErrIO, w)), en_create = (\<lambda>p w. (Inl ErrIO, w)),
      en_start = (\<lambda>i w. (Inl ErrIO, w)), en_inspect = (\<lambda>i w. (Inl ErrIO, w)), en_wait = (\<lambda>i w. (Inl ErrIO, w)),
      en_stop = (\<lambda>i t w. (Inl ErrIO, w)), en_remove = (\<lambda>i f w. (Inl ErrIO, w)),
      en_lines = (\<lambda>f w. Inr ([if f = ''/proc/self/mountinfo'' then ''33 24 0:29 / /sys/fs/cgroup/unified rw - cgroup2 cgroup2 rw'' else ''0::/''], None)),
      en_stat = (\<lambda>p w. Inr 1), en_mkdir = (\<lambda>p w. (None, w)), en_mkdirall = (\<lambda>p w. (None, w)), en_rmdir = (\<lambda>p w. (None, w))\<rparr>"

theorem hybrid_root_taken: "cgroup_found hybrid_engine 7 () = Some (''/sys/fs/cgroup/unified'', 1)"
proof -
  have path: "cgroupPathForPID hybrid_engine 7 () = Inr ''/sys/fs/cgroup/unified''" by code_simp
  show ?thesis unfolding cgroup_found_def path
    by (simp add: HasSuffix_def suffix_def cgroupIDForPath_def hybrid_engine_def append_eq_Cons_conv Cons_eq_append_conv)
qed

end
