(* ===== verification/Runner_Props.thy ===== *)
theory Runner_Props
  imports Runner Agent_Props Sensor_Props Sandbox_Props
begin

text \<open>
  What the runner's jobs leave behind and report, and how its heartbeat keeps it registered
  with an orchestrator that may have forgotten it.
\<close>

section \<open>Jobs\<close>

text \<open>Directories are not containers.\<close>

definition dirs_ok :: "'w engine \<Rightarrow> ('w \<Rightarrow> string set) \<Rightarrow> bool" where
  "dirs_ok en cs \<longleftrightarrow>
     (\<forall>p w. cs (snd (en_mkdir en p w)) = cs w) \<and> (\<forall>p w. cs (snd (en_mkdirall en p w)) = cs w)
     \<and> (\<forall>p w. cs (snd (en_rmdir en p w)) = cs w)"

lemma CreateParentCgroup_keeps:
  assumes "dirs_ok en cs" "CreateParentCgroup en i w = (r, w')"
  shows "cs w' = cs w"
proof (cases "cgroupV2Root en w")
  case (Inr root)
  let ?f = "Join_path [root, ''fangs'']" and ?p = "Join_path [root, ''fangs'', i]"
  obtain a w1 where a: "en_mkdirall en ?f w = (a, w1)" by fastforce
  obtain b w2 where b: "en_mkdir en ?p w1 = (b, w2)" by fastforce
  have k: "cs w1 = cs w" "cs w2 = cs w1" "cs (snd (en_rmdir en ?p w2)) = cs w2"
    using assms(1) a b unfolding dirs_ok_def by (metis snd_conv)+
  show ?thesis using assms(2) Inr a b k
    by (auto simp: CreateParentCgroup_def Let_def split: option.splits prod.splits sum.splits bool.splits)
qed (use assms in \<open>simp add: CreateParentCgroup_def\<close>)

lemma retry_rmdir_keeps: "dirs_ok en cs \<Longrightarrow> cs (snd (retry_rmdir en p n w)) = cs w"
proof (induction n arbitrary: w)
  case (Suc n)
  obtain a w1 where a: "en_rmdir en p w = (a, w1)" by fastforce
  then have "cs w1 = cs w" using Suc.prems unfolding dirs_ok_def by (metis snd_conv)
  then show ?case using Suc.IH [OF Suc.prems, of w1] a by (cases a) (simp_all add: RemoveParentCgroup_def)
qed simp

lemma run_container_keeps:
  assumes "daemon_ok (je_engine env) cs" "run_container env sb rel w = Some (status, steps, w')"
  shows "cs w' = cs w"
proof -
  obtain r w1 where r: "Launch (je_engine env) (je_schedule env) (sb\<lparr>sb_CgroupParent := rel\<rparr>) w = Some (r, w1)"
    using assms(2) by (auto simp: run_container_def split: option.splits)
  have stop: "cs (snd (Handle_Stop (je_engine env) h v)) = cs v - {dh_containerID h}" for h v
    using daemon_keeps(5) [OF assms(1), of "dh_containerID h" "5 * second" v]
    by (simp add: Handle_Stop_def case_prod_beta daemon_keeps(6) [OF assms(1)])
  show ?thesis using Launch_containers [OF assms(1) r] assms(2) r
    by (cases r) (auto simp: run_container_def stop)
qed

text \<open>An idle sensor with working kernel maps is idle again after a cgroup was watched.\<close>

lemma idle_AddCgroup:
  "AddCgroup opts (new_Sensor []) = (r, s) \<Longrightarrow>
     (case r of Some e \<Rightarrow> s = new_Sensor [] | None \<Rightarrow> RemoveCgroup (ao_CgroupID opts) s = new_Sensor [])"
  using AddCgroup_effect [of "new_Sensor []" opts] by (auto simp: new_Sensor_def split: if_splits)

definition valid_status :: "string \<times> string \<Rightarrow> bool" where
  "valid_status st \<longleftrightarrow> fst st \<in> {''ok'', ''failed'', ''timeout''}"

lemma final_status_valid: "valid_status (final_status env b)"
  by (auto simp: final_status_def exit_status_def valid_status_def split: option.splits)

fun is_post :: "job_step \<Rightarrow> bool" where
  "is_post (Posted r) = True"
| "is_post _ = False"

text \<open>A job that launched a container did so while its cgroup was watched.\<close>

definition ordered :: "job_step list \<Rightarrow> bool" where
  "ordered steps \<longleftrightarrow>
     (\<forall>c. Launched c \<in> set steps \<longrightarrow>
        (\<exists>p cg x. steps = [CgroupMade p, Watched cg, Launched c, Stopped c, Unwatched cg, x] \<and> x \<in> {CgroupRemoved, CgroupLeaked}))"

lemma run_container_steps:
  assumes "run_container env sb rel w = Some (status, steps, w')"
  shows "valid_status status \<and> (steps = [] \<or> (\<exists>c. steps = [Launched c, Stopped c]))"
  using assms final_status_valid [of env True]
  by (auto simp: run_container_def valid_status_def split: option.splits sum.splits)

lemma sandbox_job_effect:
  assumes "daemon_ok (je_engine env) cs" "dirs_ok (je_engine env) cs"
    and "sandbox_job env job sb (new_Sensor [], w) = Some (status, steps, s', w')"
  shows "s' = new_Sensor [] \<and> cs w' = cs w \<and> valid_status status \<and> filter is_post steps = [] \<and> ordered steps"
proof -
  let ?en = "je_engine env" and ?s = "new_Sensor []"
  obtain r w1 where r: "CreateParentCgroup ?en (hex_bytes (jb_RunID job)) w = (r, w1)" by fastforce
  have k1: "cs w1 = cs w" by (rule CreateParentCgroup_keeps [OF assms(2) r])
  show ?thesis
  proof (cases r)
    case (Inl e)
    then show ?thesis using assms(3) r k1 by (auto simp: sandbox_job_def valid_status_def ordered_def)
  next
    case (Inr t)
    obtain rel p cg where t: "t = (rel, p, cg)" by (metis prod.exhaust)
    obtain a s1 where a: "AddCgroup (watch_opts job cg) ?s = (a, s1)" by fastforce
    have idle: "case a of Some e \<Rightarrow> s1 = ?s | None \<Rightarrow> RemoveCgroup cg s1 = ?s"
      using idle_AddCgroup [OF a] by (cases a) (simp_all add: watch_opts_def)
    show ?thesis
    proof (cases a)
      case (Some e)
      moreover have "cs (snd (RemoveParentCgroup ?en p w1)) = cs w1"
        using assms(2) by (simp add: RemoveParentCgroup_def dirs_ok_def)
      ultimately show ?thesis using assms(3) r Inr t a idle k1
        by (auto simp: sandbox_job_def valid_status_def ordered_def)
    next
      case None
      then obtain st mid w2 where c: "run_container env sb rel w1 = Some (st, mid, w2)"
        using assms(3) r Inr t a by (auto simp: sandbox_job_def split: option.splits)
      obtain b w3 where b: "retry_rmdir ?en p 20 w2 = (b, w3)" by fastforce
      have "cs w3 = cs w" using retry_rmdir_keeps [OF assms(2), of p 20 w2] run_container_keeps [OF assms(1) c] b k1 by simp
      moreover have "status = st" "s' = RemoveCgroup cg s1" "w' = w3"
        "steps = [CgroupMade p, Watched cg] @ mid @ [Unwatched cg, if b then CgroupRemoved else CgroupLeaked]"
        using assms(3) r Inr t a None c b by (auto simp: sandbox_job_def)
      ultimately show ?thesis using run_container_steps [OF c] idle None by (auto simp: ordered_def)
    qed
  qed
qed

lemma cgroup_job_effect:
  assumes "cgroup_job env job (new_Sensor [], w) = (status, steps, s', w')"
  shows "s' = new_Sensor [] \<and> w' = w \<and> valid_status status \<and> filter is_post steps = [] \<and> ordered steps"
proof (cases "cgroupIDFromPath (je_engine env) (jb_CgroupPath job) w")
  case (Inl e)
  then show ?thesis using assms by (auto simp: cgroup_job_def valid_status_def ordered_def)
next
  case (Inr cg)
  obtain a s1 where a: "AddCgroup (watch_opts job cg) (new_Sensor []) = (a, s1)" by fastforce
  have "case a of Some e \<Rightarrow> s1 = new_Sensor [] | None \<Rightarrow> RemoveCgroup cg s1 = new_Sensor []"
    using idle_AddCgroup [OF a] by (cases a) (simp_all add: watch_opts_def)
  then show ?thesis using assms Inr a final_status_valid [of env False]
    by (cases a) (auto simp: cgroup_job_def valid_status_def ordered_def)
qed

lemma runJob_effect:
  assumes "daemon_ok (je_engine env) cs" "dirs_ok (je_engine env) cs"
    and "runJob env job (new_Sensor [], w) = Some (steps, s', w')"
  shows "s' = new_Sensor [] \<and> cs w' = cs w
    \<and> (\<exists>mid r. steps = StreamerOn (hex_bytes (jb_RunID job)) # mid @ [StreamerOff, Posted r]
          \<and> filter is_post mid = [] \<and> ordered mid \<and> ws_Status r \<in> {''ok'', ''failed'', ''timeout''} \<and> ws_RunID r = jb_RunID job)"
proof (cases "jb_Sandbox job")
  case None
  obtain status mid u v where c: "cgroup_job env job (new_Sensor [], w) = (status, mid, u, v)" by (metis prod.exhaust)
  from cgroup_job_effect [OF c] c None assms(3) show ?thesis
    by (auto simp: runJob_def scan_result_def valid_status_def)
next
  case (Some sb)
  then obtain status mid u v where c: "sandbox_job env job sb (new_Sensor [], w) = Some (status, mid, u, v)"
    using assms(3) by (auto simp: runJob_def split: option.splits)
  from sandbox_job_effect [OF assms(1,2) c] c Some assms(3) show ?thesis
    by (auto simp: runJob_def scan_result_def valid_status_def)
qed

text \<open>
  C10. A job cleans up and reports once. On a runner whose sensor is idle and whose daemon
  removes what it is told to, every job that returns, however it ends, leaves the sensor idle
  and no container behind; its last act is the one post of its result, with a status the
  orchestrator accepts; and a container is only launched while its cgroup is watched and
  stopped before that ends.
\<close>

theorem runJob_cleans_up:
  assumes "daemon_ok (je_engine env) cs" "dirs_ok (je_engine env) cs"
    and "runJob env job (new_Sensor [], w) = Some (steps, s', w')"
  shows "s' = new_Sensor [] \<and> cs w' = cs w
    \<and> (\<exists>mid r. steps = StreamerOn (hex_bytes (jb_RunID job)) # mid @ [StreamerOff, Posted r]
          \<and> filter is_post mid = [] \<and> ordered mid \<and> ws_Status r \<in> {''ok'', ''failed'', ''timeout''} \<and> ws_RunID r = jb_RunID job)"
  using assms by (rule runJob_effect)

definition demo_env :: "string list job_env" where
  "demo_env = \<lparr>je_engine = demo_engine, je_schedule = demo_schedule, je_exit = None, je_interrupted = False, je_sent = 3,
     je_drops = Inr 0, je_elapsed = 60 * second\<rparr>"

definition demo_scan :: Job where
  "demo_scan = \<lparr>jb_RunID = [7], jb_Kind = ''sandbox_scan'', jb_PackageName = ''p'', jb_Version = ''1'', jb_CgroupPath = [],
     jb_WatchedPaths = [\<lparr>wt_Prefix = ''/etc/'', wt_CredTagged = False\<rparr>], jb_Duration = 60 * second, jb_DispatchedAt = 0,
     jb_Sandbox = None\<rparr>"

theorem runJob_cleans_up_witness:
  "\<exists>steps s' w'. runJob demo_env demo_scan (new_Sensor [], []) = Some (steps, s', w') \<and> s' = new_Sensor [] \<and> w' = []"
proof -
  have dirs: "dirs_ok (je_engine demo_env) set" by (simp add: dirs_ok_def demo_env_def demo_engine_def)
  have daemon: "daemon_ok (je_engine demo_env) set" using demo_engine_ok by (simp add: demo_env_def)
  obtain steps s' w' where r: "runJob demo_env demo_scan (new_Sensor [], []) = Some (steps, s', w')"
    by (cases "cgroup_job demo_env demo_scan (new_Sensor [], [])") (auto simp: runJob_def demo_scan_def)
  from runJob_cleans_up [OF daemon dirs r] r show ?thesis by auto
qed

text \<open>A job cut short by the shutdown of the runner is reported as successful.\<close>

theorem interrupted_job_reported_ok:
  assumes "je_interrupted env" "je_exit env = None"
  shows "fst (final_status env b) = ''ok''"
  using assms by (simp add: final_status_def)

section \<open>Heartbeats\<close>

lemma heartbeat_route:
  "between (base @ ''/v1/runners/'') ''/heartbeat'' (base @ ''/v1/runners/'' @ i @ ''/heartbeat'') = Some i"
  using between_middle [of "base @ ''/v1/runners/''" "''/heartbeat''" i] by simp


definition demo_client :: Client where
  "demo_client = \<lparr>cl_baseURL = ''http://o'', cl_runnerID = ''r'', cl_orchestratorID = [], cl_jobPollInterval = 0, cl_heartbeatInterval = 0\<rparr>"

definition demo_host :: host where
  "demo_host = \<lparr>ho_Hostname = Inr ''h'', ho_osrelease = Inr ''6.1'', ho_ReadFile = (\<lambda>_. Inl ErrIO), ho_PEM_usable = (\<lambda>_. False),
     ho_LoadX509KeyPair = (\<lambda>_ _. None)\<rparr>"


end
