(* ===== verification/Lineage.thy ===== *)
theory Lineage
  imports Storage "HOL-Library.AList" "HOL-Library.Word" "HOL-Library.List_Lexorder" "HOL-Library.Char_ord"
begin

text \<open>
  \<open>ui/lineage.go\<close>: the process forest of a run, built from its events, and the page that
  shows it, with the helpers of \<open>ui.go\<close> it uses. A decoded payload is the list of its
  members, of which the last one for a key counts. Children are given by their process ids;
  the map of nodes is an association list in the order of first appearance, and what Go
  builds by ranging over that map is sorted by process id afterwards. Numbers are the integers
  a payload is written with; those of the sensor's events are below \<open>2 ^ 53\<close>, where \<open>float64\<close>
  is exact.
\<close>

section \<open>Decoded payloads\<close>

type_synonym members = "(string \<times> json) list"

definition member :: "members \<Rightarrow> string \<Rightarrow> json option" where
  "member m k = map_of (rev m) k"

fun asUint32 :: "json option \<Rightarrow> 32 word" where
  "asUint32 (Some (JNum n)) = word_of_int n"
| "asUint32 (Some (JFrac n)) = word_of_int n"
| "asUint32 _ = 0"

fun asInt :: "json option \<Rightarrow> int" where
  "asInt (Some (JNum n)) = n"
| "asInt (Some (JFrac n)) = n"
| "asInt _ = 0"

definition bodyString :: "members \<Rightarrow> string \<Rightarrow> string" where
  "bodyString m field = (case member m field of Some (JStr s) \<Rightarrow> s | _ \<Rightarrow> [])"

definition readCommBytes :: "json option \<Rightarrow> string" where
  "readCommBytes v =
     (case v of
        Some (JArr arr) \<Rightarrow> map (\<lambda>j. char_of (nat (asInt (Some j) mod 256))) (takeWhile (\<lambda>j. asInt (Some j) \<noteq> 0) arr)
      | _ \<Rightarrow> [])"

record lineageHeader =
  lh_PID :: "32 word"
  lh_PPID :: "32 word"
  lh_Tags :: int
  lh_Comm :: string

definition headerFromBody :: "members \<Rightarrow> lineageHeader" where
  "headerFromBody m =
     (case member m ''Header'' of
        Some (JObj h) \<Rightarrow>
          \<lparr>lh_PID = asUint32 (member h ''PID''), lh_PPID = asUint32 (member h ''PPID''), lh_Tags = asInt (member h ''Tags''),
           lh_Comm = (if bodyString m ''CommStr'' \<noteq> [] then bodyString m ''CommStr'' else readCommBytes (member h ''Comm''))\<rparr>
      | _ \<Rightarrow> \<lparr>lh_PID = 0, lh_PPID = 0, lh_Tags = 0, lh_Comm = []\<rparr>)"

definition summarizeFromBody :: "string \<Rightarrow> members \<Rightarrow> string" where
  "summarizeFromBody t m =
     (if t = ''file_access'' then bodyString m ''PathName''
      else if t = ''exec'' then bodyString m ''BinaryPathStr''
      else if t = ''net_connect'' then
        (case member m ''DestPort'' of
           Some (JNum p) \<Rightarrow> bodyString m ''DestIP'' @ '':'' @ Itoa p
         | Some (JFrac p) \<Rightarrow> bodyString m ''DestIP'' @ '':'' @ Itoa p
         | _ \<Rightarrow> bodyString m ''DestIP'')
      else if t = ''dns_query'' then bodyString m ''QName''
      else if t = ''tls_sni'' then bodyString m ''SNI''
      else [])"

record lineageAncestor =
  la_PID :: "32 word"
  la_PPID :: "32 word"
  la_Comm :: string

fun ancestor_entry :: "json \<Rightarrow> lineageAncestor list" where
  "ancestor_entry (JObj a) =
     [\<lparr>la_PID = asUint32 (member a ''PID''), la_PPID = asUint32 (member a ''PPID''), la_Comm = readCommBytes (member a ''Comm'')\<rparr>]"
| "ancestor_entry _ = []"

fun comm_entry :: "json \<Rightarrow> lineageAncestor list" where
  "comm_entry (JStr s) = [\<lparr>la_PID = 0, la_PPID = 0, la_Comm = s\<rparr>]"
| "comm_entry _ = []"

definition ancestorsFromBody :: "members \<Rightarrow> lineageAncestor list" where
  "ancestorsFromBody m =
     (case member m ''Ancestors'' of
        Some (JArr raw) \<Rightarrow> concat (map ancestor_entry raw)
      | _ \<Rightarrow>
          (case member m ''AncestorComms'' of
             Some (JArr comms) \<Rightarrow> concat (map comm_entry comms)
           | _ \<Rightarrow> []))"

text \<open>The two extractors that decode the payload themselves.\<close>

definition extractHeader :: "json option \<Rightarrow> lineageHeader" where
  "extractHeader d =
     (case d of Some (JObj m) \<Rightarrow> headerFromBody m | _ \<Rightarrow> \<lparr>lh_PID = 0, lh_PPID = 0, lh_Tags = 0, lh_Comm = []\<rparr>)"

definition extractAncestors :: "json option \<Rightarrow> lineageAncestor list" where
  "extractAncestors d = (case d of Some (JObj m) \<Rightarrow> ancestorsFromBody m | _ \<Rightarrow> [])"

section \<open>Nodes\<close>

record eventMarker =
  em_ID :: int
  em_Type :: string
  em_Summary :: string
  em_Tags :: int
  em_IsTarget :: bool

record procNode =
  pn_PID :: "32 word"
  pn_PPID :: "32 word"
  pn_Comm :: string
  pn_Binary :: string
  pn_Events :: "eventMarker list"
  pn_IsTarget :: bool
  pn_EventCounts :: "(string \<times> int) list"

type_synonym nodes = "(32 word \<times> procNode) list"

definition new_node :: "32 word \<Rightarrow> 32 word \<Rightarrow> string \<Rightarrow> procNode" where
  "new_node pid ppid comm =
     \<lparr>pn_PID = pid, pn_PPID = ppid, pn_Comm = comm, pn_Binary = [], pn_Events = [], pn_IsTarget = False, pn_EventCounts = []\<rparr>"

definition upsert :: "32 word \<Rightarrow> 32 word \<Rightarrow> string \<Rightarrow> nodes \<Rightarrow> nodes" where
  "upsert pid ppid comm ns =
     (case map_of ns pid of
        None \<Rightarrow> ns @ [(pid, new_node pid ppid comm)]
      | Some n \<Rightarrow>
          AList.update pid
            (n\<lparr>pn_Comm := (if pn_Comm n = [] \<and> comm \<noteq> [] then comm else pn_Comm n),
               pn_PPID := (if pn_PPID n = 0 \<and> ppid \<noteq> 0 then ppid else pn_PPID n)\<rparr>) ns)"

definition bump :: "string \<Rightarrow> int \<Rightarrow> (string \<times> int) list \<Rightarrow> (string \<times> int) list" where
  "bump t k cs = AList.update t (k + (case map_of cs t of None \<Rightarrow> 0 | Some n \<Rightarrow> n)) cs"

definition mark_event :: "int \<Rightarrow> string \<Rightarrow> EventRow \<Rightarrow> members \<Rightarrow> lineageHeader \<Rightarrow> procNode \<Rightarrow> procNode" where
  "mark_event targetID typeFilter ev body hdr n =
     (let n1 = n\<lparr>pn_EventCounts := bump (ev_Type ev) 1 (pn_EventCounts n)\<rparr>;
          isTarget = (ev_ID ev = targetID \<and> targetID \<noteq> 0);
          marker = \<lparr>em_ID = ev_ID ev, em_Type = ev_Type ev, em_Summary = summarizeFromBody (ev_Type ev) body,
                    em_Tags = lh_Tags hdr, em_IsTarget = isTarget\<rparr>;
          n2 = (if typeFilter = [] \<or> ev_Type ev = typeFilter \<or> isTarget
                then n1\<lparr>pn_Events := pn_Events n1 @ [marker], pn_IsTarget := pn_IsTarget n1 \<or> isTarget\<rparr> else n1)
      in if ev_Type ev = ''exec'' \<and> bodyString body ''BinaryPathStr'' \<noteq> []
         then n2\<lparr>pn_Binary := bodyString body ''BinaryPathStr''\<rparr> else n2)"

definition add_ancestors :: "lineageAncestor list \<Rightarrow> nodes \<Rightarrow> nodes" where
  "add_ancestors as ns = fold (\<lambda>a. if la_PID a = 0 then id else upsert (la_PID a) (la_PPID a) (la_Comm a)) as ns"

text \<open>A payload that is not an object decodes with an error, or to the empty map.\<close>

definition add_event :: "int \<Rightarrow> string \<Rightarrow> EventRow \<Rightarrow> nodes \<Rightarrow> nodes" where
  "add_event targetID typeFilter ev ns =
     (case ev_Data ev of
        Some (JObj body) \<Rightarrow>
          (let hdr = headerFromBody body in
           if lh_PID hdr = 0 then ns
           else
             (let ns1 = upsert (lh_PID hdr) (lh_PPID hdr) (lh_Comm hdr) ns;
                  ns2 = (case map_of ns1 (lh_PID hdr) of
                           None \<Rightarrow> ns1
                         | Some n \<Rightarrow> AList.update (lh_PID hdr) (mark_event targetID typeFilter ev body hdr n) ns1)
              in if ev_Type ev = ''exec'' then add_ancestors (ancestorsFromBody body) ns2 else ns2))
      | _ \<Rightarrow> ns)"

definition collect :: "EventRow list \<Rightarrow> int \<Rightarrow> string \<Rightarrow> nodes" where
  "collect events targetID typeFilter = fold (add_event targetID typeFilter) events []"

section \<open>The forest\<close>

definition pids :: "nodes \<Rightarrow> 32 word list" where
  "pids ns = map fst ns"

definition children :: "nodes \<Rightarrow> 32 word \<Rightarrow> 32 word list" where
  "children ns p = sort (map fst (filter (\<lambda>(c, n). pn_PPID n = p \<and> c \<noteq> p) ns))"

definition is_root :: "nodes \<Rightarrow> procNode \<Rightarrow> bool" where
  "is_root ns n \<longleftrightarrow> pn_PPID n \<notin> set (pids ns) \<or> pn_PPID n = 0"

definition roots :: "nodes \<Rightarrow> 32 word list" where
  "roots ns = sort (map fst (filter (\<lambda>(c, n). is_root ns n) ns))"

definition unvisited :: "nodes \<Rightarrow> 32 word list \<Rightarrow> nat" where
  "unvisited ns vis = length (filter (\<lambda>p. p \<notin> set vis) (remdups (pids ns)))"

lemma unvisited_less:
  assumes "p \<in> set (pids ns)" "p \<notin> set vis"
  shows "unvisited ns (p # vis) < unvisited ns vis"
proof -
  have "set (filter (\<lambda>q. q \<notin> set (p # vis)) (remdups (pids ns))) \<subset> set (filter (\<lambda>q. q \<notin> set vis) (remdups (pids ns)))"
    using assms by auto
  then have "card (set (filter (\<lambda>q. q \<notin> set (p # vis)) (remdups (pids ns)))) < card (set (filter (\<lambda>q. q \<notin> set vis) (remdups (pids ns))))"
    by (intro psubset_card_mono) simp_all
  then show ?thesis by (simp add: unvisited_def distinct_card del: set_filter)
qed

text \<open>
  \<open>visit\<close>, with the pending calls as a stack: a node already visited is skipped, a new one is
  listed with its depth and its children are visited before what was pending. An id without
  a node does not occur.
\<close>

function visit :: "nodes \<Rightarrow> (32 word \<times> nat) list \<Rightarrow> 32 word list \<Rightarrow> (32 word \<times> nat) list" where
  "visit ns [] vis = []"
| "visit ns ((p, d) # st) vis =
     (if p \<in> set vis \<or> p \<notin> set (pids ns) then visit ns st vis
      else (p, d) # visit ns (map (\<lambda>c. (c, Suc d)) (children ns p) @ st) (p # vis))"
  by pat_completeness auto
termination
  by (relation "measures [\<lambda>(ns, st, vis). unvisited ns vis, \<lambda>(ns, st, vis). length st]") (auto simp: unvisited_less)

definition flatten :: "nodes \<Rightarrow> (32 word \<times> nat) list" where
  "flatten ns = visit ns (map (\<lambda>r. (r, 0)) (roots ns)) []"

text \<open>\<open>dive\<close>: whether the target is at the node or below it, and the nodes it marks on the way.\<close>

definition target_at :: "nodes \<Rightarrow> 32 word \<Rightarrow> bool" where
  "target_at ns p \<longleftrightarrow> (case map_of ns p of None \<Rightarrow> False | Some n \<Rightarrow> pn_IsTarget n)"

function dive :: "nodes \<Rightarrow> 32 word list \<Rightarrow> 32 word \<Rightarrow> bool \<times> 32 word list" where
  "dive ns visiting p =
     (if p \<in> set visiting \<or> p \<notin> set (pids ns) then (False, [])
      else
        (let rs = map (dive ns (p # visiting)) (children ns p);
             found = (target_at ns p \<or> list_ex fst rs)
         in (found, concat (map snd rs) @ (if found then [p] else []))))"
  by pat_completeness auto
termination
  by (relation "measure (\<lambda>(ns, visiting, p). unvisited ns visiting)") (auto simp: unvisited_less)

declare dive.simps [simp del]

definition marked :: "nodes \<Rightarrow> int \<Rightarrow> 32 word list" where
  "marked ns targetID = (if targetID = 0 then [] else concat (map (\<lambda>r. snd (dive ns [] r)) (roots ns)))"

definition float_target :: "int \<Rightarrow> eventMarker list \<Rightarrow> eventMarker list" where
  "float_target targetID es =
     (if targetID \<noteq> 0 \<and> length es > 1 then filter em_IsTarget es @ filter (\<lambda>e. \<not> em_IsTarget e) es else es)"

record lineage_row =
  lr_node :: procNode
  lr_children :: "32 word list"
  lr_Depth :: nat
  lr_HasTargetIn :: bool

definition row_of :: "nodes \<Rightarrow> int \<Rightarrow> 32 word \<times> nat \<Rightarrow> lineage_row option" where
  "row_of ns targetID pd =
     map_option (\<lambda>n. \<lparr>lr_node = n\<lparr>pn_Events := float_target targetID (pn_Events n)\<rparr>, lr_children = children ns (fst pd),
                     lr_Depth = snd pd, lr_HasTargetIn = fst pd \<in> set (marked ns targetID)\<rparr>)
       (map_of ns (fst pd))"

definition buildLineage :: "EventRow list \<Rightarrow> int \<Rightarrow> string \<Rightarrow> 32 word list \<times> lineage_row list" where
  "buildLineage events targetID typeFilter =
     (let ns = collect events targetID typeFilter
      in (roots ns, List.map_filter (row_of ns targetID) (flatten ns)))"

section \<open>The page\<close>

definition chipOrderRank :: "string \<Rightarrow> int" where
  "chipOrderRank t =
     (if t = ''exec'' then 1 else if t = ''net_connect'' then 2 else if t = ''dns_query'' then 3
      else if t = ''tls_sni'' then 4 else if t = ''file_access'' then 5 else 99)"

text \<open>The keys of the map are different, so that the order does not depend on how it is ranged over.\<close>

definition sortedCounts :: "(string \<times> int) list \<Rightarrow> (string \<times> int) list" where
  "sortedCounts m = sort_key (\<lambda>e. chipOrderRank (fst e)) (sort_key fst m)"

record lineageView =
  lv_Run :: Run
  lv_Roots :: "32 word list"
  lv_Flat :: "lineage_row list"
  lv_NodeCount :: nat
  lv_TargetID :: int
  lv_TypeFilter :: string
  lv_AllTypes :: "(string \<times> int) list"
  lv_TotalEvents :: int
  lv_FilteredEvents :: nat

datatype 'v page = PageNotFound | PageError int string | Rendered 'v

definition find_run :: "'db Backend \<Rightarrow> string \<Rightarrow> 'db \<Rightarrow> Run page \<times> 'db" where
  "find_run be i db =
     (let (r, db1) = be_GetRun be i db;
          (r', db2) = (case r of
             Inl e \<Rightarrow> if errors_Is e ErrNotFound then be_ResolveRunPrefix be i db1 else (r, db1)
           | Inr _ \<Rightarrow> (r, db1));
          prefixed = (case r of Inl e \<Rightarrow> errors_Is e ErrNotFound | Inr _ \<Rightarrow> False)
      in (case r' of
            Inr run \<Rightarrow> Rendered run
          | Inl e \<Rightarrow>
              if prefixed \<and> errors_Is e ErrAmbiguous then PageError 400 ''ambiguous run id prefix''
              else if prefixed \<and> errors_Is e ErrNotFound then PageNotFound
              else PageError 500 ''storage error'', db2))"

text \<open>\<open>event\<close> is the parsed query parameter, 0 when it is missing or not a number.\<close>

definition handleLineage ::
  "'db Backend \<Rightarrow> string \<Rightarrow> int \<Rightarrow> string \<Rightarrow> 'db \<Rightarrow> lineageView page \<times> 'db" where
  "handleLineage be i targetID typeFilter db =
     (if i = [] then (PageNotFound, db)
      else
        (case find_run be i db of
           (PageNotFound, db1) \<Rightarrow> (PageNotFound, db1)
         | (PageError c m, db1) \<Rightarrow> (PageError c m, db1)
         | (Rendered run, db1) \<Rightarrow>
             (let (r, db2) = be_ListEventsByRun be (run_ID run) 5000 db1;
                  events = (case r of Inl e \<Rightarrow> [] | Inr es \<Rightarrow> es);
                  (rs, flat) = buildLineage events targetID typeFilter;
                  totals = fold (\<lambda>n. fold (\<lambda>(t, c). bump t c) (pn_EventCounts (lr_node n))) flat []
              in (Rendered
                    \<lparr>lv_Run = run, lv_Roots = rs, lv_Flat = flat, lv_NodeCount = length flat, lv_TargetID = targetID,
                     lv_TypeFilter = typeFilter, lv_AllTypes = sortedCounts totals,
                     lv_TotalEvents = sum_list (map snd totals),
                     lv_FilteredEvents = sum_list (map (\<lambda>n. length (pn_Events (lr_node n))) flat)\<rparr>, db2))))"

end
