(* ===== verification/Flags.thy ===== *)
theory Flags
  imports Sql
begin

text \<open>
  What the command line uses of Go's standard library: the \<open>flag\<close> package with flags of four
  kinds, the number and duration syntaxes it accepts, and \<open>time.Format\<close> with the layouts of
  the tables. What \<open>flag\<close> itself prints after an error is left out.
\<close>

section \<open>Integers\<close>

text \<open>The value of a digit or letter in \<open>strconv.ParseInt\<close>.\<close>

definition digit_of :: "char \<Rightarrow> nat option" where
  "digit_of c =
     (if is_digit c then Some (digit_val c)
      else let n = of_char (lower_char c) :: nat in if 97 \<le> n \<and> n \<le> 122 then Some (n - 87) else None)"

definition base_prefix :: "string \<Rightarrow> nat \<times> string" where
  "base_prefix s =
     (case s of
        [] \<Rightarrow> (10, [])
      | z # t \<Rightarrow>
          if z \<noteq> CHR ''0'' then (10, s)
          else (case t of
                  b # c # u \<Rightarrow>
                    if lower_char b = CHR ''b'' then (2, c # u)
                    else if lower_char b = CHR ''o'' then (8, c # u)
                    else if lower_char b = CHR ''x'' then (16, c # u)
                    else (8, t)
                | _ \<Rightarrow> (8, t)))"

fun read_base :: "nat \<Rightarrow> string \<Rightarrow> int \<Rightarrow> int option" where
  "read_base b [] n = Some n"
| "read_base b (c # s) n =
     (if c = CHR ''_'' then read_base b s n
      else (case digit_of c of
              None \<Rightarrow> None
            | Some d \<Rightarrow> if d < b then read_base b s (int b * n + int d) else None))"

text \<open>
  Underscores stand between digits, or after the prefix of the base. \<open>seen\<close> is the kind of
  the character before: a digit, an underscore, or neither.
\<close>

datatype seen_char = SeenDigit | SeenUnderscore | SeenOther

fun underscores_from :: "bool \<Rightarrow> seen_char \<Rightarrow> string \<Rightarrow> bool" where
  "underscores_from hex seen [] = (seen \<noteq> SeenUnderscore)"
| "underscores_from hex seen (c # s) =
     (if is_digit c \<or> hex \<and> (let n = of_char (lower_char c) :: nat in 97 \<le> n \<and> n \<le> 102)
      then underscores_from hex SeenDigit s
      else if c = CHR ''_'' then seen = SeenDigit \<and> underscores_from hex SeenUnderscore s
      else seen \<noteq> SeenUnderscore \<and> underscores_from hex SeenOther s)"

definition underscoreOK :: "string \<Rightarrow> bool" where
  "underscoreOK s =
     (case s of
        z # b # t \<Rightarrow>
          if z = CHR ''0'' \<and> lower_char b \<in> {CHR ''b'', CHR ''o'', CHR ''x''}
          then underscores_from (lower_char b = CHR ''x'') SeenDigit t
          else underscores_from False SeenOther s
      | _ \<Rightarrow> underscores_from False SeenOther s)"

definition split_sign :: "string \<Rightarrow> bool \<times> string" where
  "split_sign s =
     (case s of [] \<Rightarrow> (False, [])
      | c # t \<Rightarrow> if c = CHR ''-'' then (True, t) else if c = CHR ''+'' then (False, t) else (False, s))"

definition parse_error :: err where "parse_error = Msg ''parse error''"
definition range_error :: err where "range_error = Msg ''value out of range''"

text \<open>\<open>strconv.ParseInt(s, 0, 64)\<close> with the errors as the flag package words them.\<close>

definition ParseInt :: "string \<Rightarrow> err + int" where
  "ParseInt s =
     (let (neg, t) = split_sign s; (b, ds) = base_prefix t in
      if t = [] then Inl parse_error
      else (case read_base b ds 0 of
              None \<Rightarrow> Inl parse_error
            | Some n \<Rightarrow>
                if CHR ''_'' \<in> set t \<and> \<not> underscoreOK t then Inl parse_error
                else let i = (if neg then - n else n) in
                     if - (2 ^ 63) \<le> i \<and> i < 2 ^ 63 then Inr i else Inl range_error))"

section \<open>Booleans and durations\<close>

definition ParseBool :: "string \<Rightarrow> err + bool" where
  "ParseBool s =
     (if s \<in> set [''1'', ''t'', ''T'', ''TRUE'', ''true'', ''True''] then Inr True
      else if s \<in> set [''0'', ''f'', ''F'', ''FALSE'', ''false'', ''False''] then Inr False
      else Inl parse_error)"

definition micro_sign :: string where "micro_sign = [CHR 0xC2, CHR 0xB5, CHR ''s'']"
definition greek_mu :: string where "greek_mu = [CHR 0xCE, CHR 0xBC, CHR ''s'']"

definition unitMap :: "(string \<times> int) list" where
  "unitMap = [(''ns'', 1), (''us'', 10 ^ 3), (micro_sign, 10 ^ 3), (greek_mu, 10 ^ 3), (''ms'', 10 ^ 6),
     (''s'', 10 ^ 9), (''m'', 60 * 10 ^ 9), (''h'', 3600 * 10 ^ 9)]"

lemma duration_shrinks:
  assumes "s2 = (if P then dropWhile is_digit (tl (dropWhile is_digit s)) else dropWhile is_digit s)"
    and "takeWhile Q s2 \<noteq> []"
  shows "length (dropWhile Q s2) < length s"
proof -
  have "length s2 \<le> length s"
    using assms(1) length_dropWhile_le [of is_digit s] length_dropWhile_le [of is_digit "tl (dropWhile is_digit s)"]
    by (auto simp: not_le)
  moreover have "length (dropWhile Q s2) < length s2"
    using assms(2) by (metis length_append length_greater_0_conv less_add_same_cancel2 takeWhile_dropWhile_id)
  ultimately show ?thesis by simp
qed

text \<open>
  \<open>time.ParseDuration\<close>: numbers with units. The part after the point is multiplied exactly
  here and in floating point by the library.
\<close>

function duration_from :: "string \<Rightarrow> int \<Rightarrow> int option" where
  "duration_from s d =
     (if s = [] then Some d
      else
        (let ds = takeWhile is_digit s; s1 = dropWhile is_digit s; point = (s1 \<noteq> [] \<and> hd s1 = CHR ''.'');
             fs = (if point then takeWhile is_digit (tl s1) else []);
             s2 = (if point then dropWhile is_digit (tl s1) else s1);
             u = takeWhile (\<lambda>c. \<not> is_digit c \<and> c \<noteq> CHR ''.'') s2; s3 = dropWhile (\<lambda>c. \<not> is_digit c \<and> c \<noteq> CHR ''.'') s2;
             v = int (read_dec ds)
         in if ds = [] \<and> fs = [] then None
            else if v > 2 ^ 63 then None
            else (case map_of unitMap u of
                    None \<Rightarrow> None
                  | Some unit \<Rightarrow>
                      (let w = v * unit + int (read_dec fs) * unit div 10 ^ length fs in
                       if u = [] \<or> w > 2 ^ 63 \<or> d + w > 2 ^ 63 then None else duration_from s3 (d + w)))))"
  by pat_completeness auto

termination
  by (relation "measure (\<lambda>(s, d). length s)") (simp, force simp: duration_shrinks)

declare duration_from.simps [simp del]

definition ParseDuration :: "string \<Rightarrow> err + int" where
  "ParseDuration s =
     (let (neg, t) = split_sign s in
      if t = ''0'' then Inr 0
      else if t = [] then Inl parse_error
      else (case duration_from t 0 of
              None \<Rightarrow> Inl parse_error
            | Some d \<Rightarrow> if neg then Inr (- d) else if d > 2 ^ 63 - 1 then Inl parse_error else Inr d))"

section \<open>Flags\<close>

datatype flag_kind = StringFlag | BoolFlag | IntFlag | DurationFlag
datatype flag_value = FString string | FBool bool | FInt int | FDuration int

definition ErrHelp :: err where "ErrHelp = Msg ''flag: help requested''"

definition Set_flag :: "flag_kind \<Rightarrow> string \<Rightarrow> err + flag_value" where
  "Set_flag k v =
     (case k of
        StringFlag \<Rightarrow> Inr (FString v)
      | BoolFlag \<Rightarrow> map_sum id FBool (ParseBool v)
      | IntFlag \<Rightarrow> map_sum id FInt (ParseInt v)
      | DurationFlag \<Rightarrow> map_sum id FDuration (ParseDuration v))"

text \<open>\<open>-name\<close> or \<open>--name\<close>, perhaps with \<open>=value\<close>: the name and the value.\<close>

definition flag_token :: "string \<Rightarrow> string \<times> string option" where
  "flag_token s =
     (let t = (if HasPrefix s ''--'' then drop 2 s else drop 1 s) in
      case t of
        [] \<Rightarrow> ([], None)
      | c # r \<Rightarrow>
          (case index_byte r CHR ''='' of
             None \<Rightarrow> (t, None)
           | Some i \<Rightarrow> (c # take i r, Some (drop (Suc i) r))))"

text \<open>
  \<open>FlagSet.Parse\<close>: the flags set, in order, and the arguments from the first that is not a
  flag. A boolean flag takes a value only after an equals sign.
\<close>

type_synonym settings = "(string \<times> flag_value) list"

definition invalid_value :: "string \<Rightarrow> string \<Rightarrow> err \<Rightarrow> err" where
  "invalid_value v n e = Wrap (''invalid value '' @ Quote v @ '' for flag -'' @ n) e"

definition invalid_boolean :: "string \<Rightarrow> string \<Rightarrow> err \<Rightarrow> err" where
  "invalid_boolean v n e = Wrap (''invalid boolean value '' @ Quote v @ '' for -'' @ n) e"

fun parse_flags :: "(string \<times> flag_kind) list \<Rightarrow> string list \<Rightarrow> settings \<Rightarrow> err + settings \<times> string list" where
  "parse_flags fl [] acc = Inr (acc, [])"
| "parse_flags fl (s # args) acc =
     (if length s < 2 \<or> hd s \<noteq> CHR ''-'' then Inr (acc, s # args)
      else if s = ''--'' then Inr (acc, args)
      else
        (let (n, v) = flag_token s in
         if n = [] \<or> hd n = CHR ''-'' \<or> hd n = CHR ''='' then Inl (Msg (''bad flag syntax: '' @ s))
         else (case map_of fl n of
                 None \<Rightarrow> if n = ''help'' \<or> n = ''h'' then Inl ErrHelp
                          else Inl (Msg (''flag provided but not defined: -'' @ n))
               | Some BoolFlag \<Rightarrow>
                   (case Set_flag BoolFlag (case v of None \<Rightarrow> ''true'' | Some x \<Rightarrow> x) of
                      Inl e \<Rightarrow> Inl (invalid_boolean (case v of None \<Rightarrow> [] | Some x \<Rightarrow> x) n e)
                    | Inr y \<Rightarrow> parse_flags fl args (acc @ [(n, y)]))
               | Some k \<Rightarrow>
                   (case v of
                      Some x \<Rightarrow> (case Set_flag k x of
                                   Inl e \<Rightarrow> Inl (invalid_value x n e)
                                 | Inr y \<Rightarrow> parse_flags fl args (acc @ [(n, y)]))
                    | None \<Rightarrow>
                        (case args of
                           [] \<Rightarrow> Inl (Msg (''flag needs an argument: -'' @ n))
                         | x # args' \<Rightarrow> (case Set_flag k x of
                                           Inl e \<Rightarrow> Inl (invalid_value x n e)
                                         | Inr y \<Rightarrow> parse_flags fl args' (acc @ [(n, y)])))))))"

definition Parse :: "(string \<times> flag_kind) list \<Rightarrow> string list \<Rightarrow> err + settings \<times> string list" where
  "Parse fl args = parse_flags fl args []"

text \<open>The value of a flag: the last one set, or its default.\<close>

definition flag_string :: "settings \<Rightarrow> string \<Rightarrow> string \<Rightarrow> string" where
  "flag_string st n def = (case map_of (rev st) n of Some (FString s) \<Rightarrow> s | _ \<Rightarrow> def)"

definition flag_bool :: "settings \<Rightarrow> string \<Rightarrow> bool \<Rightarrow> bool" where
  "flag_bool st n def = (case map_of (rev st) n of Some (FBool b) \<Rightarrow> b | _ \<Rightarrow> def)"

definition flag_int :: "settings \<Rightarrow> string \<Rightarrow> int \<Rightarrow> int" where
  "flag_int st n def = (case map_of (rev st) n of Some (FInt i) \<Rightarrow> i | _ \<Rightarrow> def)"

definition flag_duration :: "settings \<Rightarrow> string \<Rightarrow> int \<Rightarrow> int" where
  "flag_duration st n def = (case map_of (rev st) n of Some (FDuration i) \<Rightarrow> i | _ \<Rightarrow> def)"

section \<open>Dates\<close>

text \<open>The civil date of a day counted from the first of January 1970, by eras of 400 years that start in March.\<close>

definition civil :: "int \<Rightarrow> int \<times> int \<times> int" where
  "civil n =
     (let z = n + 719468; era = z div 146097; doe = z mod 146097;
          yoe = (doe - doe div 1460 + doe div 36524 - doe div 146096) div 365;
          doy = doe - (365 * yoe + yoe div 4 - yoe div 100);
          mp = (5 * doy + 2) div 153; d = doy - (153 * mp + 2) div 5 + 1; m = (if mp < 10 then mp + 3 else mp - 9)
      in (yoe + era * 400 + (if m \<le> 2 then 1 else 0), m, d))"

definition pad_left :: "nat \<Rightarrow> string \<Rightarrow> string" where
  "pad_left k s = replicate (k - length s) CHR ''0'' @ s"

definition date_text :: "time \<Rightarrow> string" where
  "date_text t =
     (case civil (t div (86400 * 10 ^ 9)) of (y, m, d) \<Rightarrow>
        pad_left 4 (Itoa y) @ ''-'' @ pad_left 2 (Itoa m) @ ''-'' @ pad_left 2 (Itoa d))"

definition clock_text :: "time \<Rightarrow> string" where
  "clock_text t =
     (let s = t div 10 ^ 9 mod 86400 in
      pad_left 2 (Itoa (s div 3600)) @ '':'' @ pad_left 2 (Itoa (s div 60 mod 60)) @ '':'' @ pad_left 2 (Itoa (s mod 60)))"

text \<open>The layouts \<open>2006-01-02 15:04:05\<close>, \<open>time.RFC3339\<close> and \<open>time.RFC3339Nano\<close> of an instant in UTC.\<close>

definition table_time :: "time \<Rightarrow> string" where
  "table_time t = date_text t @ '' '' @ clock_text t"

definition rfc3339 :: "time \<Rightarrow> string" where
  "rfc3339 t = date_text t @ ''T'' @ clock_text t @ ''Z''"

definition rfc3339_nano :: "time \<Rightarrow> string" where
  "rfc3339_nano t = date_text t @ ''T'' @ clock_text t @ snd (format_time t)"

end
