(* ===== verification/Ui.thy ===== *)
theory Ui
  imports Lineage Api Flags Go_Time
begin

text \<open>
  The pages of \<open>ui\<close> apart from the lineage: runs, deviations, packages, the triage queue, the
  allowlist, the overview, notifiers and configuration, each as the data its template is
  given. A storage error that the code only logs leaves the data empty.
\<close>

section \<open>Parameters\<close>

text \<open>\<open>strconv.Atoi\<close>.\<close>

definition Atoi :: "string \<Rightarrow> int option" where
  "Atoi s =
     (let (neg, ds) = (case s of c # cs \<Rightarrow> if c = CHR ''-'' then (True, cs) else if c = CHR ''+'' then (False, cs) else (False, s) | [] \<Rightarrow> (False, []));
          n = (if neg then - int (read_dec ds) else int (read_dec ds))
      in if ds = [] \<or> \<not> list_all is_digit ds \<or> n < - (2 ^ 63) \<or> n \<ge> 2 ^ 63 then None else Some n)"

definition parseLimit :: "string \<Rightarrow> int \<Rightarrow> int \<Rightarrow> int" where
  "parseLimit raw def mx =
     (if raw = [] then def
      else (case Atoi raw of
              None \<Rightarrow> def
            | Some n \<Rightarrow> if n < 1 then def else if n > mx then mx else n))"

text \<open>The digits are added up in 64 bits without a check.\<close>

fun parse_digits :: "64 word \<Rightarrow> string \<Rightarrow> err + 64 word" where
  "parse_digits n [] = Inr n"
| "parse_digits n (c # cs) =
     (if \<not> is_digit c then Inl (Msg ''not a number'') else parse_digits (n * 10 + of_nat (digit_val c)) cs)"

definition parseInt64 :: "string \<Rightarrow> err + int" where
  "parseInt64 s = map_sum id sint (parse_digits 0 s)"

section \<open>Runs\<close>

definition decoded_members :: "json option \<Rightarrow> members" where
  "decoded_members d = (case d of Some (JObj m) \<Rightarrow> m | _ \<Rightarrow> [])"

definition extractField :: "json option \<Rightarrow> string \<Rightarrow> string" where
  "extractField d field = bodyString (decoded_members d) field"

definition extractTags :: "json option \<Rightarrow> int" where
  "extractTags d = (case member (decoded_members d) ''Header'' of Some (JObj h) \<Rightarrow> asInt (member h ''Tags'') | _ \<Rightarrow> 0)"

definition asNumberStr :: "json option \<Rightarrow> string" where
  "asNumberStr v = (case v of Some (JNum n) \<Rightarrow> Itoa n | Some (JFrac n) \<Rightarrow> Itoa n | _ \<Rightarrow> [])"

definition asString :: "json option \<Rightarrow> string" where
  "asString v = (case v of Some (JStr s) \<Rightarrow> s | _ \<Rightarrow> [])"

definition summarizeEvent :: "string \<Rightarrow> json option \<Rightarrow> string" where
  "summarizeEvent t d =
     (let m = decoded_members d in
      if t = ''file_access'' then asString (member m ''PathName'')
      else if t = ''exec'' then asString (member m ''BinaryPathStr'')
      else if t = ''net_connect'' then
        (let ip = asString (member m ''DestIP''); port = asNumberStr (member m ''DestPort'') in
         if port \<noteq> [] then ip @ '':'' @ port else ip)
      else if t = ''dns_query'' then asString (member m ''QName'')
      else if t = ''tls_sni'' then asString (member m ''SNI'')
      else [])"

record runsView =
  rv_Runs :: "Run list"
  rv_Filter :: string
  rv_Limit :: int

definition listed :: "(err + 'a list) \<times> 'db \<Rightarrow> 'a list \<times> 'db" where
  "listed r = (case r of (Inl e, db) \<Rightarrow> ([], db) | (Inr xs, db) \<Rightarrow> (xs, db))"

definition handleRuns :: "'db Backend \<Rightarrow> string \<Rightarrow> string \<Rightarrow> 'db \<Rightarrow> runsView page \<times> 'db" where
  "handleRuns be pkg limit db =
     (let lim = parseLimit limit 100 1000;
          (runs, db') = listed (if pkg \<noteq> [] then be_ListRunsByPackage be pkg lim db else be_ListRuns be lim db)
      in (Rendered \<lparr>rv_Runs = runs, rv_Filter = pkg, rv_Limit = lim\<rparr>, db'))"

record formattedEvent =
  fe_ID :: int
  fe_Type :: string
  fe_Comm :: string
  fe_Summary :: string
  fe_Tags :: int

definition format_event :: "EventRow \<Rightarrow> formattedEvent" where
  "format_event ev = \<lparr>fe_ID = ev_ID ev, fe_Type = ev_Type ev, fe_Comm = extractField (ev_Data ev) ''CommStr'',
     fe_Summary = summarizeEvent (ev_Type ev) (ev_Data ev), fe_Tags = extractTags (ev_Data ev)\<rparr>"

record runDetail =
  rd_Run :: Run
  rd_Events :: "formattedEvent list"
  rd_TotalEvents :: nat
  rd_Summary :: "(string \<times> int) list"
  rd_TypeFilter :: string
  rd_Deviations :: "DeviationRow list"

text \<open>\<open>ord\<close> is the order in which the map of counts is ranged over.\<close>

definition handleRunDetail ::
  "((string \<times> int) list \<Rightarrow> (string \<times> int) list) \<Rightarrow> 'db Backend \<Rightarrow> string \<Rightarrow> string \<Rightarrow> 'db \<Rightarrow> runDetail page \<times> 'db" where
  "handleRunDetail ord be i typeFilter db =
     (if i = [] then (PageNotFound, db)
      else
        (case find_run be i db of
           (PageNotFound, db1) \<Rightarrow> (PageNotFound, db1)
         | (PageError c m, db1) \<Rightarrow> (PageError c m, db1)
         | (Rendered run, db1) \<Rightarrow>
             (let (events, db2) = listed (be_ListEventsByRun be (run_ID run) 500 db1);
                  summary = sort_key (\<lambda>e. chipOrderRank (fst e)) (ord (fold (\<lambda>ev. bump (ev_Type ev) 1) events []));
                  shown = filter (\<lambda>ev. typeFilter = [] \<or> ev_Type ev = typeFilter) events;
                  (devs, db3) = listed (be_ListDeviations be (run_ID run) db2)
              in (Rendered \<lparr>rd_Run = run, rd_Events = map format_event shown, rd_TotalEvents = length events, rd_Summary = summary,
                            rd_TypeFilter = typeFilter, rd_Deviations = devs\<rparr>, db3))))"

section \<open>Deviations and events\<close>

text \<open>\<open>bytesToHex\<close> keeps the numbers, without the zeros at the end.\<close>

definition number_byte :: "json \<Rightarrow> byte list" where
  "number_byte v = (case v of JNum n \<Rightarrow> [word_of_int n] | JFrac n \<Rightarrow> [word_of_int n] | _ \<Rightarrow> [])"

definition bytesToHex :: "json list \<Rightarrow> string" where
  "bytesToHex arr = hex_bytes (rev (dropWhile (\<lambda>b. b = 0) (rev (concat (map number_byte arr)))))"

definition without_keys :: "string list \<Rightarrow> members \<Rightarrow> members" where
  "without_keys ks m = filter (\<lambda>e. fst e \<notin> set ks) m"

definition strip_header :: "members \<Rightarrow> members" where
  "strip_header h =
     map (\<lambda>(k, v). (k, case v of JArr arr \<Rightarrow> if k = ''RunID'' then JStr (bytesToHex arr) else v | _ \<Rightarrow> v))
       (without_keys [''Comm'', ''Type''] h)"

definition strip_ancestor :: "json \<Rightarrow> json" where
  "strip_ancestor e = (case e of JObj a \<Rightarrow> JObj (without_keys [''Comm''] a) | _ \<Rightarrow> e)"

definition strip_member :: "string \<times> json \<Rightarrow> string \<times> json" where
  "strip_member e =
     (case e of (k, v) \<Rightarrow>
        (k, if k = ''Header'' then (case v of JObj h \<Rightarrow> JObj (strip_header h) | _ \<Rightarrow> v)
            else if k = ''Ancestors'' then (case v of JArr as \<Rightarrow> JArr (map strip_ancestor as) | _ \<Rightarrow> v)
            else v))"

definition stripEventNoise :: "members \<Rightarrow> members" where
  "stripEventNoise m =
     map strip_member (without_keys [''Path'', ''BinaryPath'', ''Argv'', ''ArgvLens'', ''DestAddr'', ''Query'', ''RawPayload''] m)"

text \<open>
  Decoding into \<open>any\<close> makes every number a \<open>float64\<close>: an integer with more than 53 significant
  bits is rounded to the nearest one with 53, ties to even.
\<close>

definition float64_int :: "int \<Rightarrow> int" where
  "float64_int n =
     (let m = nat \<bar>n\<bar>; k = length (takeWhile (\<lambda>i. 2 ^ (53 + i) \<le> m) [0..<1024]); q = m div 2 ^ k; r = m mod 2 ^ k;
          q' = (if 2 * r > 2 ^ k \<or> 2 * r = 2 ^ k \<and> odd q then q + 1 else q)
      in if k = 0 then n else sgn n * int (q' * 2 ^ k))"

fun decode_any :: "json \<Rightarrow> json" where
  "decode_any (JNum n) = JNum (float64_int n)"
| "decode_any (JArr js) = JArr (map decode_any js)"
| "decode_any (JObj m) = JObj (map (\<lambda>(k, v). (k, decode_any v)) m)"
| "decode_any j = j"

text \<open>The value that is pretty-printed; a payload that does not parse (\<open>None\<close>) is shown as it is.\<close>

definition rawPrettyJSON :: "json option \<Rightarrow> json option" where
  "rawPrettyJSON d = map_option decode_any d"

definition prettyJSON :: "json option \<Rightarrow> json option" where
  "prettyJSON d =
     (case rawPrettyJSON d of Some (JObj m) \<Rightarrow> Some (JObj (stripEventNoise m)) | j \<Rightarrow> j)"

record deviationDetail =
  dd_Deviation :: DeviationRow
  dd_Run :: "Run option"
  dd_Evidence :: "EventRow option"
  dd_EvidenceJSON :: "json option"

definition handleDeviations ::
  "'db Backend \<Rightarrow> string \<Rightarrow> string \<Rightarrow> string \<Rightarrow> string \<Rightarrow> 'db \<Rightarrow> (DeviationRow list \<times> DeviationFilter) page \<times> 'db" where
  "handleDeviations be pkg sev runID limit db =
     (let f = \<lparr>df_PackageName = pkg, df_Severity = sev, df_RunID = runID, df_Limit = parseLimit limit 100 1000\<rparr>;
          (devs, db') = listed (be_ListDeviationsFiltered be f db)
      in (Rendered (devs, f), db'))"

definition find_deviation :: "'db Backend \<Rightarrow> string \<Rightarrow> 'db \<Rightarrow> DeviationRow page \<times> 'db" where
  "find_deviation be i db =
     (let (r, db1) = be_GetDeviation be i db;
          prefixed = (case r of Inl e \<Rightarrow> errors_Is e ErrNotFound | Inr _ \<Rightarrow> False);
          (r', db2) = (if prefixed then be_ResolveDeviationPrefix be i db1 else (r, db1))
      in (case r' of
            Inr dev \<Rightarrow> Rendered dev
          | Inl e \<Rightarrow>
              if prefixed \<and> errors_Is e ErrAmbiguous then PageError 400 ''ambiguous deviation id prefix''
              else if prefixed \<and> errors_Is e ErrNotFound then PageNotFound
              else PageError 500 ''storage error'', db2))"

definition handleDeviationDetail :: "'db Backend \<Rightarrow> string \<Rightarrow> 'db \<Rightarrow> deviationDetail page \<times> 'db" where
  "handleDeviationDetail be i db =
     (if i = [] then (PageNotFound, db)
      else
        (case find_deviation be i db of
           (PageNotFound, db1) \<Rightarrow> (PageNotFound, db1)
         | (PageError c m, db1) \<Rightarrow> (PageError c m, db1)
         | (Rendered dev, db1) \<Rightarrow>
             (let (evidence, db2) =
                    (if dv_EvidenceEventID dev > 0
                     then (case be_GetEvent be (dv_EvidenceEventID dev) db1 of (Inl e, d) \<Rightarrow> (None, d) | (Inr ev, d) \<Rightarrow> (Some ev, d))
                     else (None, db1));
                  (run, db3) = (case be_GetRun be (dv_RunID dev) db2 of (Inl e, d) \<Rightarrow> (None, d) | (Inr r, d) \<Rightarrow> (Some r, d))
              in (Rendered \<lparr>dd_Deviation = dev, dd_Run = run, dd_Evidence = evidence,
                            dd_EvidenceJSON = (case evidence of Some ev \<Rightarrow> if ev_ID ev > 0 then prettyJSON (ev_Data ev) else None | None \<Rightarrow> None)\<rparr>,
                  db3))))"

definition handleEventDetail :: "'db Backend \<Rightarrow> string \<Rightarrow> 'db \<Rightarrow> (EventRow \<times> json option) page \<times> 'db" where
  "handleEventDetail be idStr db =
     (if idStr = [] then (PageNotFound, db)
      else (case parseInt64 idStr of
              Inl e \<Rightarrow> (PageError 400 ''invalid event id'', db)
            | Inr i \<Rightarrow>
                (case be_GetEvent be i db of
                   (Inl e, db') \<Rightarrow> (if errors_Is e ErrNotFound then PageNotFound else PageError 500 ''storage error'', db')
                 | (Inr ev, db') \<Rightarrow> (Rendered (ev, prettyJSON (ev_Data ev)), db'))))"

section \<open>The triage queue\<close>

definition ui_severityRank :: "string \<Rightarrow> int" where
  "ui_severityRank s =
     (if s = ''critical'' then 4 else if s = ''high'' then 3 else if s = ''medium'' then 2 else if s = ''low'' then 1 else 0)"

record pendingRow =
  pr_Run :: Run
  pr_DevCount :: int
  pr_MaxSeverity :: string
  pr_FirstDetected :: time
  pr_LastDetected :: time

definition count_deviation :: "DeviationRow \<Rightarrow> pendingRow \<Rightarrow> pendingRow" where
  "count_deviation d r =
     r\<lparr>pr_DevCount := pr_DevCount r + 1,
       pr_MaxSeverity := (if ui_severityRank (dv_Severity d) > ui_severityRank (pr_MaxSeverity r) then dv_Severity d else pr_MaxSeverity r),
       pr_FirstDetected := (if dv_DetectedAt d < pr_FirstDetected r then dv_DetectedAt d else pr_FirstDetected r),
       pr_LastDetected := (if dv_DetectedAt d > pr_LastDetected r then dv_DetectedAt d else pr_LastDetected r)\<rparr>"

definition new_pending :: "Run \<Rightarrow> DeviationRow \<Rightarrow> pendingRow" where
  "new_pending run d = \<lparr>pr_Run = run, pr_DevCount = 0, pr_MaxSeverity = [], pr_FirstDetected = dv_DetectedAt d, pr_LastDetected = dv_DetectedAt d\<rparr>"

fun group_pending ::
  "'db Backend \<Rightarrow> DeviationRow list \<Rightarrow> (string \<times> pendingRow) list \<Rightarrow> 'db \<Rightarrow> (string \<times> pendingRow) list \<times> 'db" where
  "group_pending be [] rows db = (rows, db)"
| "group_pending be (d # ds) rows db =
     (case map_of rows (dv_RunID d) of
        Some r \<Rightarrow> group_pending be ds (AList.update (dv_RunID d) (count_deviation d r) rows) db
      | None \<Rightarrow>
          (case be_GetRun be (dv_RunID d) db of
             (Inl e, db') \<Rightarrow> group_pending be ds rows db'
           | (Inr run, db') \<Rightarrow>
               if run_IsBaseline run then group_pending be ds rows db'
               else group_pending be ds (AList.update (dv_RunID d) (count_deviation d (new_pending run d)) rows) db'))"

text \<open>
  \<open>sort.Slice\<close> is not stable and the rows come in the order of a map: \<open>ord\<close> is the order that
  rows with equal keys end up in.
\<close>

definition sort_pending :: "(pendingRow list \<Rightarrow> pendingRow list) \<Rightarrow> pendingRow list \<Rightarrow> pendingRow list" where
  "sort_pending ord rs =
     sort_key (\<lambda>r. - ui_severityRank (pr_MaxSeverity r)) (sort_key (\<lambda>r. - pr_LastDetected r) (ord rs))"

definition handlePending ::
  "(pendingRow list \<Rightarrow> pendingRow list) \<Rightarrow> 'db Backend \<Rightarrow> 'db \<Rightarrow> pendingRow list page \<times> 'db" where
  "handlePending ord be db =
     (let (devs, db1) = listed (be_ListDeviationsFiltered be \<lparr>df_PackageName = [], df_Severity = [], df_RunID = [], df_Limit = 1000\<rparr> db);
          (rows, db2) = group_pending be devs [] db1
      in (Rendered (sort_pending ord (map snd rows)), db2))"

section \<open>Packages, allowlist and overview\<close>

definition handlePackages :: "'db Backend \<Rightarrow> 'db \<Rightarrow> (PackageSummary list \<times> string list) page \<times> 'db" where
  "handlePackages be db =
     (let (pkgs, db1) = listed (be_ListPackages be db); (watched, db2) = listed (be_ListWatchedPackages be db1)
      in (Rendered (sort_key ps_Name pkgs, map wp_Name watched), db2))"

record packageDetail =
  pd_PackageName :: string
  pd_Runs :: "Run list"
  pd_Releases :: "ReleaseRow list"
  pd_Baseline :: "BaselineRow list"

definition handlePackageDetail :: "'db Backend \<Rightarrow> string \<Rightarrow> 'db \<Rightarrow> packageDetail page \<times> 'db" where
  "handlePackageDetail be name db =
     (if name = [] then (PageNotFound, db)
      else
        (let (runs, db1) = listed (be_ListRunsByPackage be name 50 db); (rels, db2) = listed (be_ListReleasesByPackage be name 50 db1);
             (base, db3) = listed (be_LoadBaseline be name db2)
         in (Rendered \<lparr>pd_PackageName = name, pd_Runs = runs, pd_Releases = rels, pd_Baseline = base\<rparr>, db3)))"

text \<open>\<open>sortStrings\<close>: insertion sort; the inner loop moves an element left past the larger ones.\<close>

fun sift :: "string list \<Rightarrow> string \<Rightarrow> string list" where
  "sift [] x = [x]"
| "sift (y # ys) x = (if y > x then y # sift ys x else x # y # ys)"

definition sortStrings :: "string list \<Rightarrow> string list" where
  "sortStrings s = rev (foldl sift [] s)"

record allowlistView =
  av_Global :: "AllowEntry list"
  av_ByPkg :: "(string \<times> AllowEntry list) list"
  av_PkgList :: "string list"
  av_Total :: nat
  av_Filtered :: nat

definition shown_entries :: "string \<Rightarrow> AllowEntry list \<Rightarrow> AllowEntry list" where
  "shown_entries pkg es = filter (\<lambda>e. \<not> (pkg \<noteq> [] \<and> al_PackageName e \<noteq> [] \<and> al_PackageName e \<noteq> pkg)) es"

definition add_bucket :: "AllowEntry \<Rightarrow> (string \<times> AllowEntry list) list \<Rightarrow> (string \<times> AllowEntry list) list" where
  "add_bucket e m = AList.update (al_PackageName e) ((case map_of m (al_PackageName e) of None \<Rightarrow> [] | Some es \<Rightarrow> es) @ [e]) m"

definition sumLens :: "(string \<times> AllowEntry list) list \<Rightarrow> nat" where
  "sumLens m = sum_list (map (\<lambda>e. length (snd e)) m)"

definition handleAllowlist ::
  "(string list \<Rightarrow> string list) \<Rightarrow> 'db Backend \<Rightarrow> string \<Rightarrow> 'db \<Rightarrow> allowlistView page \<times> 'db" where
  "handleAllowlist ord be pkg db =
     (let (all, db') = listed (be_ListAllowEntries be db); es = shown_entries pkg all;
          globals = filter (\<lambda>e. al_PackageName e = []) es;
          byPkg = fold add_bucket (filter (\<lambda>e. al_PackageName e \<noteq> []) es) []
      in (Rendered \<lparr>av_Global = globals, av_ByPkg = byPkg, av_PkgList = sortStrings (ord (map fst byPkg)), av_Total = length all,
                    av_Filtered = length globals + sumLens byPkg\<rparr>, db'))"

record overviewStats =
  os_WatchedCount :: nat
  os_PackagesTotal :: nat
  os_RunsTotal :: int
  os_RunsBaseline :: int
  os_DeviationsTotal :: nat
  os_DeviationsPackages :: nat
  os_EventsDropped :: int

record runnerView =
  ru_Snapshot :: RunnerSnapshot
  ru_IsStale :: bool

record overviewView =
  ov_Stats :: overviewStats
  ov_Runners :: "runnerView list"
  ov_RecentRuns :: "Run list"
  ov_RecentDeviations :: "DeviationRow list"

definition all_deviations :: "int \<Rightarrow> DeviationFilter" where
  "all_deviations n = \<lparr>df_PackageName = [], df_Severity = [], df_RunID = [], df_Limit = n\<rparr>"

definition runner_view :: "time \<Rightarrow> RunnerSnapshot \<Rightarrow> runnerView" where
  "runner_view now r =
     \<lparr>ru_Snapshot = r, ru_IsStale = (sn_LastSeen r \<noteq> zero_time \<and> now - sn_LastSeen r > 60 * second)\<rparr>"

definition handleOverview ::
  "time \<Rightarrow> RunnerSnapshot list \<Rightarrow> 'db Backend \<Rightarrow> string \<Rightarrow> 'db \<Rightarrow> overviewView page \<times> 'db" where
  "handleOverview now runners be path db =
     (if path \<noteq> ''/ui/'' then (PageNotFound, db)
      else
        (let (watched, db1) = listed (be_ListWatchedPackages be db);
             (pkgs, db2) = listed (be_ListPackages be db1);
             (dropped, db3) = (case be_EventsDroppedTotal be db2 of (Inl e, d) \<Rightarrow> (0, d) | (Inr n, d) \<Rightarrow> (n, d));
             (devs, db4) = listed (be_ListDeviationsFiltered be (all_deviations 0) db3);
             (recent, db5) = listed (be_ListRuns be 10 db4);
             (recentDevs, db6) = listed (be_ListDeviationsFiltered be (all_deviations 10) db5)
         in (Rendered
               \<lparr>ov_Stats = \<lparr>os_WatchedCount = length watched, os_PackagesTotal = length pkgs,
                            os_RunsTotal = sum_list (map ps_RunsTotal pkgs), os_RunsBaseline = sum_list (map ps_RunsBaseline pkgs),
                            os_DeviationsTotal = length devs, os_DeviationsPackages = 0, os_EventsDropped = dropped\<rparr>,
                ov_Runners = map (runner_view now) (sort_key sn_ID runners),
                ov_RecentRuns = recent, ov_RecentDeviations = recentDevs\<rparr>, db6)))"

section \<open>Notifiers, configuration and the root\<close>

definition handleNotifiers :: "'db Backend \<Rightarrow> 'db \<Rightarrow> NotifierRow list page \<times> 'db" where
  "handleNotifiers be db = (let (rows, db') = listed (be_ListNotifiers be db) in (Rendered rows, db'))"

text \<open>What reading the configuration file may give.\<close>

datatype file_read = FileContent string | FileMissing | FileFailed err

record configView =
  cv_WatchedPaths :: "WatchedPath list"
  cv_ConfigPath :: string
  cv_YAML :: string
  cv_YAMLExists :: "bool option"
  cv_YAMLError :: string
  cv_AllowEntries :: "AllowEntry list option"

definition handleConfig ::
  "(string \<Rightarrow> file_read) \<Rightarrow> WatchedPath list \<Rightarrow> string \<Rightarrow> 'db Backend \<Rightarrow> 'db \<Rightarrow> configView page \<times> 'db" where
  "handleConfig ReadFile effectivePaths configPath be db =
     (let v0 = \<lparr>cv_WatchedPaths = effectivePaths, cv_ConfigPath = configPath, cv_YAML = [], cv_YAMLExists = None,
                cv_YAMLError = [], cv_AllowEntries = None\<rparr>;
          v1 = (if configPath \<noteq> [] then
                  (case ReadFile configPath of
                     FileContent raw \<Rightarrow> v0\<lparr>cv_YAML := raw, cv_YAMLExists := Some True\<rparr>
                   | FileMissing \<Rightarrow> v0\<lparr>cv_YAMLExists := Some False\<rparr>
                   | FileFailed e \<Rightarrow> v0\<lparr>cv_YAMLError := err_text e\<rparr>)
                else v0);
          (r, db') = be_ListAllowEntries be db
      in (Rendered (case r of Inl e \<Rightarrow> v1 | Inr es \<Rightarrow> v1\<lparr>cv_AllowEntries := Some es\<rparr>), db'))"

text \<open>The root redirects to the overview (\<open>Inl\<close> is the target), every other path is not found.\<close>

definition handleRoot :: "string \<Rightarrow> string + unit page" where
  "handleRoot path = (if path = ''/'' then Inl ''/ui/'' else Inr PageNotFound)"

section \<open>Display helpers\<close>

definition chipColorClass :: "string \<Rightarrow> string" where
  "chipColorClass t =
     (if t = ''file_access'' then ''chip-file'' else if t = ''exec'' then ''chip-exec'' else if t = ''net_connect'' then ''chip-net''
      else if t = ''dns_query'' then ''chip-dns'' else if t = ''tls_sni'' then ''chip-tls'' else ''chip-info'')"

definition severityClass :: "string \<Rightarrow> string" where
  "severityClass s =
     (if s = ''critical'' then ''sev-critical'' else if s = ''high'' then ''sev-high'' else if s = ''medium'' then ''sev-medium''
      else if s = ''low'' then ''sev-low'' else ''sev-info'')"

definition relTime :: "time \<Rightarrow> time \<Rightarrow> string" where
  "relTime now t =
     (let d = now - t in
      if t = zero_time then [char_of (0xE2 :: nat), char_of (0x80 :: nat), char_of (0x94 :: nat)]
      else if d < 0 then ''future''
      else if d < 60 * second then Itoa (d div second) @ ''s ago''
      else if d < 3600 * second then Itoa (d div (60 * second)) @ ''m ago''
      else if d < 24 * 3600 * second then Itoa (d div (3600 * second)) @ ''h ago''
      else Itoa (d div (24 * 3600 * second)) @ ''d ago'')"

definition nsToDuration :: "int \<Rightarrow> string" where
  "nsToDuration d =
     (if d = 0 then [char_of (0xE2 :: nat), char_of (0x80 :: nat), char_of (0x94 :: nat)]
      else if d < 10 ^ 6 then Duration_String d
      else if d < second then Duration_String (Round d (10 ^ 6))
      else if d < 60 * second then Duration_String (Round d (100 * 10 ^ 6))
      else Duration_String (Round d second))"

definition formatTS :: "time \<Rightarrow> string" where
  "formatTS t =
     (if t = zero_time then [char_of (0xE2 :: nat), char_of (0x80 :: nat), char_of (0x94 :: nat)] else table_time t)"

definition shortID :: "string \<Rightarrow> string" where
  "shortID i = (if length i > 12 then take 12 i else i)"

definition derefTime :: "time option \<Rightarrow> time" where
  "derefTime t = (case t of None \<Rightarrow> zero_time | Some t \<Rightarrow> t)"

text \<open>Cut at a byte, with the three bytes of an ellipsis; \<open>n\<close> is a length, not negative.\<close>

definition truncate_str :: "string \<Rightarrow> nat \<Rightarrow> string" where
  "truncate_str s n =
     (if length s \<le> n then s else take n s @ [char_of (0xE2 :: nat), char_of (0x80 :: nat), char_of (0xA6 :: nat)])"

fun joinStrings :: "string \<Rightarrow> string list \<Rightarrow> string" where
  "joinStrings sep [] = []"
| "joinStrings sep [s] = s"
| "joinStrings sep (s # t # ss) = s @ sep @ joinStrings sep (t # ss)"

end
