(* ===== verification/Lineage_Props.thy ===== *)
theory Lineage_Props
  imports Lineage "HOL-Library.Multiset"
begin

text \<open>
  The process forest shows every process exactly once, below its parent, when the recorded
  parents form no cycle; the emphasised nodes are exactly the ancestors of the target.
\<close>

section \<open>Nodes\<close>

definition nodes_ok :: "nodes \<Rightarrow> bool" where
  "nodes_ok ns \<longleftrightarrow> distinct (map fst ns) \<and> (\<forall>(p, n)\<in>set ns. pn_PID n = p \<and> p \<noteq> 0)"

lemma nodes_ok_update:
  assumes "nodes_ok ns" "pn_PID n = p" "p \<noteq> 0"
  shows "nodes_ok (AList.update p n ns)"
proof -
  have "set (AList.update p n ns) \<subseteq> insert (p, n) (set ns)"
    by (induction ns) auto
  then show ?thesis using assms distinct_update [of ns p n] unfolding nodes_ok_def by fastforce
qed

lemma nodes_ok_upsert:
  assumes "nodes_ok ns" "pid \<noteq> 0"
  shows "nodes_ok (upsert pid ppid comm ns)"
proof (cases "map_of ns pid")
  case None
  then have "pid \<notin> fst ` set ns" by (simp add: map_of_eq_None_iff)
  then show ?thesis using assms None by (auto simp: upsert_def nodes_ok_def new_node_def)
next
  case (Some n)
  then have "pn_PID n = pid" using assms(1) map_of_SomeD by (fastforce simp: nodes_ok_def)
  then show ?thesis using Some assms by (simp add: upsert_def nodes_ok_update)
qed

lemma nodes_ok_ancestors: "nodes_ok ns \<Longrightarrow> nodes_ok (add_ancestors as ns)"
  unfolding add_ancestors_def by (induction as arbitrary: ns) (auto simp: nodes_ok_upsert)

lemma mark_event_PID [simp]: "pn_PID (mark_event t f ev body hdr n) = pn_PID n"
  by (simp add: mark_event_def Let_def)

lemma nodes_ok_event:
  assumes "nodes_ok ns"
  shows "nodes_ok (add_event t f ev ns)"
proof (cases "ev_Data ev")
  case (Some j)
  show ?thesis
  proof (cases j)
    case (JObj body)
    let ?h = "headerFromBody body"
    let ?ns = "upsert (lh_PID ?h) (lh_PPID ?h) (lh_Comm ?h) ns"
    let ?ns2 = "case map_of ?ns (lh_PID ?h) of None \<Rightarrow> ?ns | Some n \<Rightarrow> AList.update (lh_PID ?h) (mark_event t f ev body ?h n) ?ns"
    have "nodes_ok ?ns2" if nz: "lh_PID ?h \<noteq> 0"
    proof (cases "map_of ?ns (lh_PID ?h)")
      case None
      then show ?thesis using nodes_ok_upsert [OF assms nz] by simp
    next
      case (Some n)
      have ok: "nodes_ok ?ns" by (rule nodes_ok_upsert [OF assms nz])
      then have "pn_PID n = lh_PID ?h" using map_of_SomeD [OF Some] by (fastforce simp: nodes_ok_def)
      then show ?thesis using nodes_ok_update [OF ok _ nz, of "mark_event t f ev body ?h n"] Some by simp
    qed
    then show ?thesis using assms Some JObj nodes_ok_ancestors
      by (simp add: add_event_def Let_def)
  qed (use assms Some in \<open>simp_all add: add_event_def\<close>)
qed (use assms in \<open>simp add: add_event_def\<close>)

lemma collect_ok: "nodes_ok (collect events t f)"
proof -
  have "nodes_ok ns \<Longrightarrow> nodes_ok (fold (add_event t f) events ns)" for ns
    by (induction events arbitrary: ns) (simp_all add: nodes_ok_event)
  moreover have "nodes_ok []" by (simp add: nodes_ok_def)
  ultimately show ?thesis unfolding collect_def by blast
qed

section \<open>The walk\<close>

lemma set_children: "set (children ns p) = {c. \<exists>n. (c, n) \<in> set ns \<and> pn_PPID n = p \<and> c \<noteq> p}"
  by (force simp: children_def)

lemma set_roots: "set (roots ns) = {c. \<exists>n. (c, n) \<in> set ns \<and> is_root ns n}"
  by (force simp: roots_def)

lemma children_pids: "c \<in> set (children ns p) \<Longrightarrow> c \<in> set (pids ns)"
  by (force simp: set_children pids_def)

lemma visit_distinct: "distinct (map fst (visit ns st vis)) \<and> set (map fst (visit ns st vis)) \<inter> set vis = {}
    \<and> set (map fst (visit ns st vis)) \<subseteq> set (pids ns)"
  by (induction ns st vis rule: visit.induct) auto

lemma visit_closed:
  "set (map fst st) \<inter> set (pids ns) \<subseteq> set vis \<union> set (map fst (visit ns st vis))
   \<and> (\<forall>p\<in>set (map fst (visit ns st vis)). set (children ns p) \<subseteq> set vis \<union> set (map fst (visit ns st vis)))"
proof (induction ns st vis rule: visit.induct)
  case (2 ns p d st vis)
  show ?case
  proof (cases "p \<in> set vis \<or> p \<notin> set (pids ns)")
    case True
    then show ?thesis using 2(1) by auto
  next
    case False
    let ?st = "map (\<lambda>c. (c, Suc d)) (children ns p) @ st"
    let ?V = "set (map fst (visit ns ?st (p # vis)))"
    have IH: "set (map fst ?st) \<inter> set (pids ns) \<subseteq> set (p # vis) \<union> ?V"
      "\<forall>q\<in>?V. set (children ns q) \<subseteq> set (p # vis) \<union> ?V"
      using 2(2) [OF False] by blast+
    have "set (children ns p) \<subseteq> set (p # vis) \<union> ?V"
      using IH(1) children_pids by fastforce
    moreover have "set (map fst st) \<inter> set (pids ns) \<subseteq> set (p # vis) \<union> ?V" using IH(1) by auto
    moreover have "set (map fst (visit ns ((p, d) # st) vis)) = insert p ?V" using False by simp
    ultimately show ?thesis using IH(2) by auto
  qed
qed simp

text \<open>The recorded parents form no cycle: a rank grows from each process to its children.\<close>

definition acyclic_parents :: "nodes \<Rightarrow> (32 word \<Rightarrow> nat) \<Rightarrow> bool" where
  "acyclic_parents ns rank \<longleftrightarrow>
     (\<forall>(p, n)\<in>set ns. pn_PPID n \<in> set (pids ns) \<longrightarrow> rank (pn_PPID n) < rank p)"

lemma flatten_all:
  assumes "acyclic_parents ns rank"
  shows "set (map fst (flatten ns)) = set (pids ns)"
proof -
  let ?V = "set (map fst (flatten ns))"
  have sub: "?V \<subseteq> set (pids ns)" using visit_distinct unfolding flatten_def by blast
  have closed: "set (roots ns) \<inter> set (pids ns) \<subseteq> ?V" "\<forall>p\<in>?V. set (children ns p) \<subseteq> ?V"
    using visit_closed [of "map (\<lambda>r. (r, 0)) (roots ns)" ns "[]"] by (simp_all add: flatten_def comp_def)
  have "p \<in> ?V" if "(p, n) \<in> set ns" for p n
    using that
  proof (induction "rank p" arbitrary: p n rule: less_induct)
    case less
    have p: "p \<in> set (pids ns)" using less.prems by (force simp: pids_def)
    show ?case
    proof (cases "is_root ns n")
      case True
      then show ?thesis using closed(1) less.prems p by (auto simp: set_roots)
    next
      case False
      then obtain m where m: "(pn_PPID n, m) \<in> set ns" by (auto simp: is_root_def pids_def)
      have r: "rank (pn_PPID n) < rank p" using assms less.prems False by (force simp: acyclic_parents_def is_root_def)
      then have "pn_PPID n \<in> ?V" by (rule less.hyps [OF _ m])
      moreover have "p \<in> set (children ns (pn_PPID n))" using less.prems r by (auto simp: set_children)
      ultimately show ?thesis using closed(2) by blast
    qed
  qed
  then show ?thesis using sub by (auto simp: pids_def)
qed

text \<open>Depths: a root is at depth 0, any other node one below its parent, which comes before it.\<close>

definition placed :: "nodes \<Rightarrow> (32 word \<times> nat) list \<Rightarrow> 32 word \<times> nat \<Rightarrow> bool" where
  "placed ns before pd \<longleftrightarrow>
     (\<exists>n. (fst pd, n) \<in> set ns \<and> (if snd pd = 0 then is_root ns n else (pn_PPID n, snd pd - 1) \<in> set before))"

lemma placed_mono: "placed ns before pd \<Longrightarrow> set before \<subseteq> set after \<Longrightarrow> placed ns after pd"
  by (auto simp: placed_def split: if_splits)

lemma visit_placed:
  assumes "\<forall>pd\<in>set st. placed ns before pd"
  shows "visit ns st vis = us @ pd # vs \<Longrightarrow> placed ns (before @ us) pd"
  using assms
proof (induction ns st vis arbitrary: before us rule: visit.induct)
  case (2 ns p d st vis)
  show ?case
  proof (cases "p \<in> set vis \<or> p \<notin> set (pids ns)")
    case True
    then show ?thesis using 2(1) [OF True, of us before] 2(3,4) by simp
  next
    case False
    let ?st = "map (\<lambda>c. (c, Suc d)) (children ns p) @ st"
    have eq: "(p, d) # visit ns ?st (p # vis) = us @ pd # vs" using 2(3) False by simp
    show ?thesis
    proof (cases us)
      case Nil
      then show ?thesis using eq 2(4) by simp
    next
      case (Cons u us')
      then have u: "u = (p, d)" "visit ns ?st (p # vis) = us' @ pd # vs" using eq by simp_all
      have "placed ns (before @ [(p, d)]) (c, Suc d)" if "c \<in> set (children ns p)" for c
        using that by (auto simp: placed_def set_children)
      moreover have "placed ns (before @ [(p, d)]) x" if "x \<in> set st" for x
        using 2(4) that placed_mono [of ns before x "before @ [(p, d)]"] by auto
      ultimately have "\<forall>x\<in>set ?st. placed ns (before @ [(p, d)]) x" by auto
      from 2(2) [OF False u(2) this] show ?thesis using Cons u by simp
    qed
  qed
qed simp


definition demo_exec :: "int \<Rightarrow> int \<Rightarrow> int \<Rightarrow> EventRow" where
  "demo_exec i pid ppid = \<lparr>ev_ID = i, ev_RunID = ''r'', ev_TsNS = i, ev_Type = ''exec'',
     ev_Data = Some (JObj [(''Header'', JObj [(''PID'', JNum pid), (''PPID'', JNum ppid)]), (''BinaryPathStr'', JStr ''/bin/sh'')])\<rparr>"

lemma demo_forest:
  "map (\<lambda>(p, n). (p, pn_PPID n)) (collect [demo_exec 1 10 1, demo_exec 2 11 10, demo_exec 3 12 11] 3 []) = [(10, 1), (11, 10), (12, 11)]"
  by code_simp

abbreviation "demo_nodes \<equiv> collect [demo_exec 1 10 1, demo_exec 2 11 10, demo_exec 3 12 11] 3 []"

lemma demo_pids: "pids demo_nodes = [10, 11, 12]"
  using arg_cong [OF demo_forest, of "map fst"] by (simp add: pids_def comp_def case_prod_beta)

lemma demo_acyclic: "acyclic_parents demo_nodes unat"
proof -
  have "(p, pn_PPID n) \<in> {(10, 1), (11, 10), (12, 11)}" if "(p, n) \<in> set demo_nodes" for p n
  proof -
    have "(p, pn_PPID n) \<in> set (map (\<lambda>(p, n). (p, pn_PPID n)) demo_nodes)" using that by force
    then show ?thesis unfolding demo_forest by simp
  qed
  then show ?thesis unfolding acyclic_parents_def demo_pids by fastforce
qed


text \<open>
  A process recorded as its own parent, or as part of a cycle of parents, is neither a root
  nor below one: it is missing from the page with all its events.
\<close>

theorem self_parent_vanishes:
  "flatten (collect [demo_exec 1 10 1, demo_exec 2 77 77] 0 []) = [(10, 0)]
   \<and> snd (buildLineage [demo_exec 2 77 77] 2 []) = []"
  by code_simp

section \<open>The path to the target\<close>

definition below :: "nodes \<Rightarrow> (32 word \<times> 32 word) set" where
  "below ns = {(p, c). p \<in> set (pids ns) \<and> c \<in> set (children ns p)}"

definition leads_to_target :: "nodes \<Rightarrow> 32 word \<Rightarrow> bool" where
  "leads_to_target ns p \<longleftrightarrow> (\<exists>q. (p, q) \<in> (below ns)\<^sup>* \<and> target_at ns q)"

lemma child_rank:
  assumes "acyclic_parents ns rank" "p \<in> set (pids ns)" "c \<in> set (children ns p)"
  shows "rank p < rank c"
  using assms by (force simp: acyclic_parents_def set_children)

lemma leads_to_target_step:
  assumes "p \<in> set (pids ns)"
  shows "leads_to_target ns p \<longleftrightarrow> target_at ns p \<or> (\<exists>c\<in>set (children ns p). leads_to_target ns c)"
proof
  assume "leads_to_target ns p"
  then obtain q where q: "(p, q) \<in> (below ns)\<^sup>*" "target_at ns q" by (auto simp: leads_to_target_def)
  from q(1) show "target_at ns p \<or> (\<exists>c\<in>set (children ns p). leads_to_target ns c)"
  proof (cases rule: converse_rtranclE)
    case base
    then show ?thesis using q(2) by simp
  next
    case (step c)
    then show ?thesis using q(2) by (auto simp: below_def leads_to_target_def)
  qed
next
  assume "target_at ns p \<or> (\<exists>c\<in>set (children ns p). leads_to_target ns c)"
  then show "leads_to_target ns p"
  proof
    assume "\<exists>c\<in>set (children ns p). leads_to_target ns c"
    then obtain c q where "c \<in> set (children ns p)" "(c, q) \<in> (below ns)\<^sup>*" "target_at ns q"
      by (auto simp: leads_to_target_def)
    moreover from this have "(p, c) \<in> below ns" using assms by (simp add: below_def)
    ultimately show ?thesis unfolding leads_to_target_def by (meson converse_rtrancl_into_rtrancl)
  qed (auto simp: leads_to_target_def)
qed

lemma dive_correct:
  assumes "acyclic_parents ns rank" "p \<in> set (pids ns)" "\<forall>v\<in>set visiting. rank v < rank p"
  shows "fst (dive ns visiting p) = leads_to_target ns p
    \<and> set (snd (dive ns visiting p)) = {x. (p, x) \<in> (below ns)\<^sup>* \<and> leads_to_target ns x}"
  using assms
proof (induction ns visiting p rule: dive.induct)
  case (1 ns visiting p)
  have new: "\<not> (p \<in> set visiting \<or> p \<notin> set (pids ns))" using "1.prems"(2,3) by auto
  have IH: "fst (dive ns (p # visiting) c) = leads_to_target ns c
      \<and> set (snd (dive ns (p # visiting) c)) = {x. (c, x) \<in> (below ns)\<^sup>* \<and> leads_to_target ns x}"
    if c: "c \<in> set (children ns p)" for c
  proof (rule "1.IH" [OF new c "1.prems"(1) children_pids [OF c]])
    show "\<forall>v\<in>set (p # visiting). rank v < rank c"
      using child_rank [OF "1.prems"(1,2) c] "1.prems"(3) by auto
  qed
  have found: "fst (dive ns visiting p) = leads_to_target ns p"
    using new IH leads_to_target_step [OF "1.prems"(2)]
    by (subst dive.simps) (auto simp: Let_def list_ex_iff)
  have below: "(p, x) \<in> (below ns)\<^sup>* \<longleftrightarrow> x = p \<or> (\<exists>c\<in>set (children ns p). (c, x) \<in> (below ns)\<^sup>*)" for x
  proof
    assume "(p, x) \<in> (below ns)\<^sup>*"
    then show "x = p \<or> (\<exists>c\<in>set (children ns p). (c, x) \<in> (below ns)\<^sup>*)"
      by (cases rule: converse_rtranclE) (auto simp: below_def)
  next
    assume "x = p \<or> (\<exists>c\<in>set (children ns p). (c, x) \<in> (below ns)\<^sup>*)"
    then show "(p, x) \<in> (below ns)\<^sup>*"
      using "1.prems"(2) by (auto simp: below_def intro: converse_rtrancl_into_rtrancl)
  qed
  have "snd (dive ns visiting p) = concat (map snd (map (dive ns (p # visiting)) (children ns p)))
      @ (if fst (dive ns visiting p) then [p] else [])"
    using new by (subst (1 2) dive.simps) (simp add: Let_def)
  then have "set (snd (dive ns visiting p)) = (\<Union>c\<in>set (children ns p). set (snd (dive ns (p # visiting) c)))
      \<union> (if leads_to_target ns p then {p} else {})"
    by (simp add: found)
  also have "\<dots> = {x. (p, x) \<in> (below ns)\<^sup>* \<and> leads_to_target ns x}"
    using IH by (auto simp: below)
  finally show ?case using found by simp
qed

text \<open>
  The emphasised path. When the recorded parents form no cycle and a target is asked for,
  the page emphasises exactly the processes from which one gets down to the process of the
  target event.
\<close>

theorem lineage_path:
  assumes "acyclic_parents ns rank" "targetID \<noteq> 0" "p \<in> set (pids ns)"
  shows "p \<in> set (marked ns targetID) \<longleftrightarrow> leads_to_target ns p"
proof -
  have root: "set (snd (dive ns [] r)) = {x. (r, x) \<in> (below ns)\<^sup>* \<and> leads_to_target ns x}" if "r \<in> set (roots ns)" for r
    using dive_correct [OF assms(1), of r "[]"] that by (force simp: set_roots pids_def)
  have "\<exists>r\<in>set (roots ns). (r, q) \<in> (below ns)\<^sup>*" if "(q, n) \<in> set ns" for q n
    using that
  proof (induction "rank q" arbitrary: q n rule: less_induct)
    case less
    show ?case
    proof (cases "is_root ns n")
      case True
      then show ?thesis using less.prems by (auto simp: set_roots)
    next
      case False
      then obtain m where m: "(pn_PPID n, m) \<in> set ns" and par: "pn_PPID n \<in> set (pids ns)"
        by (auto simp: is_root_def pids_def)
      have r: "rank (pn_PPID n) < rank q" using assms(1) less.prems par by (force simp: acyclic_parents_def)
      then obtain z where "z \<in> set (roots ns)" "(z, pn_PPID n) \<in> (below ns)\<^sup>*" using less.hyps [OF r m] by blast
      moreover have "(pn_PPID n, q) \<in> below ns" using par less.prems r by (auto simp: below_def set_children)
      ultimately show ?thesis by (meson rtrancl.rtrancl_into_rtrancl)
    qed
  qed
  then have "\<exists>r\<in>set (roots ns). (r, p) \<in> (below ns)\<^sup>*" using assms(3) by (auto simp: pids_def)
  then show ?thesis using root assms(2) by (auto simp: marked_def)
qed

theorem lineage_path_witness:
  "10 \<in> set (marked demo_nodes 3) \<longleftrightarrow> leads_to_target demo_nodes 10"
  using lineage_path [OF demo_acyclic, of 3 10] by (simp add: demo_pids)

end
