(* ===== verification/Ui_Props.thy ===== *)
theory Ui_Props
  imports Ui Lineage_Props Sqlite_Props
begin

text \<open>
  What the pages show of the database: the triage queue holds exactly the outstanding runs,
  with their deviations summed up, in its order; lists of names are sorted.
\<close>

section \<open>The triage queue\<close>

definition run_of :: "sqlite \<Rightarrow> string \<Rightarrow> Run option" where
  "run_of db i = map_option scanRun (find (\<lambda>r. rn_id r = i) (t_runs (db_tab db)))"

lemma GetRun_reliable:
  "reliable db \<Longrightarrow> sqlite_GetRun i db = (case run_of db i of None \<Rightarrow> Inl ErrNotFound | Some r \<Rightarrow> Inr r, db)"
  by (simp add: sqlite_GetRun_def run_of_def split: option.split)

definition of_run :: "string \<Rightarrow> DeviationRow list \<Rightarrow> DeviationRow list" where
  "of_run i ds = filter (\<lambda>d. dv_RunID d = i) ds"

text \<open>The row of one run, from its deviations alone.\<close>

definition summary_row :: "sqlite \<Rightarrow> DeviationRow list \<Rightarrow> string \<Rightarrow> pendingRow option" where
  "summary_row db ds i =
     (case (of_run i ds, run_of db i) of
        (d # _, Some run) \<Rightarrow> if run_IsBaseline run then None else Some (fold count_deviation (of_run i ds) (new_pending run d))
      | _ \<Rightarrow> None)"

lemma of_run_Cons [simp]: "of_run i (d # ds) = (if dv_RunID d = i then d # of_run i ds else of_run i ds)"
  by (simp add: of_run_def)

lemma of_run_Nil [simp]: "of_run i [] = []"
  by (simp add: of_run_def)

lemma group_pending_spec:
  assumes "reliable db" "distinct (map fst rows)"
  shows "\<exists>rows'. group_pending sqlite_Backend ds rows db = (rows', db) \<and> distinct (map fst rows')
    \<and> (\<forall>i. map_of rows' i = (case map_of rows i of
          Some r \<Rightarrow> Some (fold count_deviation (of_run i ds) r)
        | None \<Rightarrow> summary_row db ds i))"
  using assms(2)
proof (induction ds arbitrary: rows)
  case Nil
  then show ?case by (auto simp: summary_row_def split: option.split)
next
  case (Cons d ds)
  let ?i = "dv_RunID d"
  have other: "summary_row db (d # ds) j = summary_row db ds j" if "j \<noteq> ?i" for j
  proof -
    have "of_run j (d # ds) = of_run j ds" using that by simp
    then show ?thesis by (simp only: summary_row_def)
  qed
  show ?case
  proof (cases "map_of rows ?i")
    case (Some r)
    let ?rows = "AList.update ?i (count_deviation d r) rows"
    have "distinct (map fst ?rows)" using Cons.prems by (simp add: distinct_update)
    from Cons.IH [OF this] obtain rows' where IH: "group_pending sqlite_Backend ds ?rows db = (rows', db)" "distinct (map fst rows')"
      "\<forall>i. map_of rows' i = (case map_of ?rows i of Some r \<Rightarrow> Some (fold count_deviation (of_run i ds) r) | None \<Rightarrow> summary_row db ds i)"
      by blast
    have "map_of rows' j = (case map_of rows j of Some r \<Rightarrow> Some (fold count_deviation (of_run j (d # ds)) r) | None \<Rightarrow> summary_row db (d # ds) j)" for j
      using IH(3) Some other [of j] by (cases "j = ?i") (simp_all add: update_conv' split: option.split)
    then show ?thesis using IH(1,2) Some by auto
  next
    case None
    show ?thesis
    proof (cases "\<exists>run. run_of db ?i = Some run \<and> \<not> run_IsBaseline run")
      case True
      then obtain run where run: "run_of db ?i = Some run" "\<not> run_IsBaseline run" by blast
      let ?rows = "AList.update ?i (count_deviation d (new_pending run d)) rows"
      have "distinct (map fst ?rows)" using Cons.prems by (simp add: distinct_update)
      from Cons.IH [OF this] obtain rows' where IH: "group_pending sqlite_Backend ds ?rows db = (rows', db)" "distinct (map fst rows')"
        "\<forall>i. map_of rows' i = (case map_of ?rows i of Some r \<Rightarrow> Some (fold count_deviation (of_run i ds) r) | None \<Rightarrow> summary_row db ds i)"
        by blast
      have "map_of rows' j = (case map_of rows j of Some r \<Rightarrow> Some (fold count_deviation (of_run j (d # ds)) r) | None \<Rightarrow> summary_row db (d # ds) j)" for j
        using IH(3) None run other [of j] by (cases "j = ?i") (simp_all add: update_conv' summary_row_def split: option.split)
      then show ?thesis using IH(1,2) None run assms(1) by (auto simp: GetRun_reliable)
    next
      case False
      from Cons.IH [OF Cons.prems] obtain rows' where IH: "group_pending sqlite_Backend ds rows db = (rows', db)" "distinct (map fst rows')"
        "\<forall>i. map_of rows' i = (case map_of rows i of Some r \<Rightarrow> Some (fold count_deviation (of_run i ds) r) | None \<Rightarrow> summary_row db ds i)"
        by blast
      have "summary_row db (d # ds) ?i = None" "summary_row db ds ?i = None"
        using False by (auto simp: summary_row_def split: option.splits list.splits)
      then have "map_of rows' j = (case map_of rows j of Some r \<Rightarrow> Some (fold count_deviation (of_run j (d # ds)) r) | None \<Rightarrow> summary_row db (d # ds) j)" for j
        using IH(3) None other [of j] by (cases "j = ?i") (simp_all split: option.split)
      then show ?thesis using IH(1,2) None False assms(1) by (auto simp: GetRun_reliable split: option.splits)
    qed
  qed
qed

text \<open>What a row sums up.\<close>

lemma fold_count_deviation:
  "pr_Run (fold count_deviation ds r) = pr_Run r
   \<and> pr_DevCount (fold count_deviation ds r) = pr_DevCount r + int (length ds)
   \<and> pr_FirstDetected (fold count_deviation ds r) = Min (insert (pr_FirstDetected r) (dv_DetectedAt ` set ds))
   \<and> pr_LastDetected (fold count_deviation ds r) = Max (insert (pr_LastDetected r) (dv_DetectedAt ` set ds))"
proof (induction ds arbitrary: r)
  case (Cons d ds)
  have first: "pr_FirstDetected (count_deviation d r) = min (pr_FirstDetected r) (dv_DetectedAt d)"
    and last: "pr_LastDetected (count_deviation d r) = max (pr_LastDetected r) (dv_DetectedAt d)"
    by (simp_all add: count_deviation_def min_def max_def)
  have "Min (insert (min a b) A) = Min (insert a (insert b A))" "Max (insert (max a b) A) = Max (insert a (insert b A))"
    if "finite A" for a b :: int and A
    using that by (cases "A = {}"; simp add: min.assoc max.assoc)+
  then show ?case using Cons [of "count_deviation d r"] first last
    by (simp add: count_deviation_def)
qed simp

definition queue_order :: "pendingRow \<Rightarrow> pendingRow \<Rightarrow> bool" where
  "queue_order a b \<longleftrightarrow>
     ui_severityRank (pr_MaxSeverity a) > ui_severityRank (pr_MaxSeverity b)
     \<or> ui_severityRank (pr_MaxSeverity a) = ui_severityRank (pr_MaxSeverity b) \<and> pr_LastDetected a \<ge> pr_LastDetected b"

lemma sorted_lex:
  fixes f :: "'a \<Rightarrow> int" and g :: "'a \<Rightarrow> int"
  assumes "sorted (map f ys)" "\<forall>k. sorted (map g (filter (\<lambda>y. f y = k) ys))"
  shows "sorted_wrt (\<lambda>a b. f a < f b \<or> f a = f b \<and> g a \<le> g b) ys"
  using assms
proof (induction ys)
  case (Cons y ys)
  have "sorted (map g (filter (\<lambda>z. f z = k) ys))" for k
    using Cons.prems(2)[rule_format, of k] by (auto split: if_splits)
  moreover have "f y < f z \<or> f y = f z \<and> g y \<le> g z" if "z \<in> set ys" for z
  proof (cases "f y = f z")
    case True
    then show ?thesis using Cons.prems(2)[rule_format, of "f y"] that by auto
  next
    case False
    then show ?thesis using Cons.prems(1) that by force
  qed
  ultimately show ?case using Cons by simp
qed simp

lemma sort_pending_sorted: "sorted_wrt queue_order (sort_pending ord rs)"
proof -
  let ?f = "\<lambda>r. - ui_severityRank (pr_MaxSeverity r)" and ?g = "\<lambda>r. - pr_LastDetected r"
  have "sorted (map ?g (filter (\<lambda>y. ?f y = k) (sort_pending ord rs)))" for k
  proof -
    have "filter (\<lambda>y. ?f y = k) (sort_pending ord rs) = filter (\<lambda>y. ?f y = k) (sort_key ?g (ord rs))"
      unfolding sort_pending_def by (rule sort_key_stable)
    then show ?thesis by (simp add: sorted_filter)
  qed
  moreover have "sorted (map ?f (sort_pending ord rs))" by (simp add: sort_pending_def)
  ultimately have "sorted_wrt (\<lambda>a b. ?f a < ?f b \<or> ?f a = ?f b \<and> ?g a \<le> ?g b) (sort_pending ord rs)"
    by (intro sorted_lex) auto
  then show ?thesis by (rule sorted_wrt_mono_rel [rotated]) (auto simp: queue_order_def)
qed

definition queue_deviations :: "sqlite \<Rightarrow> DeviationRow list" where
  "queue_deviations db = fst (listed (be_ListDeviationsFiltered sqlite_Backend (all_deviations 1000) db))"

lemma pending_rows:
  assumes "reliable db"
  shows "\<exists>rows. handlePending ord sqlite_Backend db = (Rendered (sort_pending ord (map snd rows)), db)
    \<and> distinct (map fst rows) \<and> (\<forall>i. map_of rows i = summary_row db (queue_deviations db) i)"
proof -
  have l: "listed (be_ListDeviationsFiltered sqlite_Backend (all_deviations 1000) db) = (queue_deviations db, db)"
    using assms by (simp add: queue_deviations_def listed_def sqlite_Backend_def sqlite_ListDeviationsFiltered_def Let_def)
  obtain rows where "group_pending sqlite_Backend (queue_deviations db) [] db = (rows, db)" "distinct (map fst rows)"
    "\<forall>i. map_of rows i = summary_row db (queue_deviations db) i"
    using group_pending_spec [OF assms, of "[]" "queue_deviations db"] by auto
  then show ?thesis using l by (auto simp: handlePending_def all_deviations_def)
qed


definition demo_queue :: sqlite where
  "demo_queue = (demo_db [])\<lparr>db_tab := (demo_tables [])\<lparr>t_deviations :=
     [\<lparr>de_id = ''d'', de_run_id = ''r2'', de_category = CatNetDNS, de_value = ''evil.org'', de_evidence_event_id = 3,
       de_severity = ''warn'', de_detected_at = format_time 5, de_notified_at = None, de_suppressed = 0\<rparr>]\<rparr>\<rparr>"


text \<open>
  The severities of the differ mean nothing to the queue: with them no row has a severity, and
  the order is by time alone.
\<close>

theorem pending_without_severity:
  assumes "\<forall>d\<in>set ds. dv_Severity d \<in> {''info'', ''warn'', ''crit''}" "pr_MaxSeverity r = []"
  shows "pr_MaxSeverity (fold count_deviation ds r) = []"
  using assms by (induction ds arbitrary: r) (auto simp: count_deviation_def ui_severityRank_def)

section \<open>Names and numbers\<close>

lemma sift_sorted: "sorted_wrt (\<ge>) ys \<Longrightarrow> sorted_wrt (\<ge>) (sift ys x) \<and> mset (sift ys x) = add_mset x (mset ys)"
proof (induction ys)
  case (Cons y ys)
  then have "set (sift ys x) = insert x (set ys)" by (metis set_mset_add_mset_insert set_mset_mset sorted_wrt.simps(2))
  then show ?case using Cons by (auto simp: add_mset_commute)
qed simp

lemma sortStrings_sorts: "sorted (sortStrings s) \<and> mset (sortStrings s) = mset s"
proof -
  have "sorted_wrt (\<ge>) ys \<Longrightarrow> sorted_wrt (\<ge>) (foldl sift ys s) \<and> mset (foldl sift ys s) = mset ys + mset s" for ys
    by (induction s arbitrary: ys) (auto simp: sift_sorted)
  from this [of "[]"] show ?thesis by (simp add: sortStrings_def sorted_wrt_rev)
qed

text \<open>An event id beyond 64 bits wraps around and shows another event.\<close>

theorem event_id_wraps: "parseInt64 ''18446744073709551617'' = Inr 1"
  by code_simp

end
