(* ===== verification/Postgres.thy ===== *)
theory Postgres
  imports Schema "HOL-Library.AList"
begin

text \<open>
  \<open>storage/postgres/postgres.go\<close> over the schema of \<open>storage/migrations/postgres\<close>: every method
  of the backend on the shared tables, with what its engine does differently from SQLite.
  Instants are whole microseconds and booleans are booleans. A text parameter must be UTF-8
  without the zero character, an \<open>INTEGER\<close> must fit 32 bits, an event's payload is \<open>jsonb\<close>.
  Text is ordered by the collation of the database: \<open>coll\<close> gives the key of a text in it, and
  texts with equal keys are ordered by their bytes. The sequence behind the ids of events is
  not part of the transaction. Where a query leaves the order of rows open, they come in the
  order of their insertion.
\<close>

section \<open>The engine\<close>

type_synonym pg_tables = "(int, bool) db_tables"
type_synonym postgres = "pg_tables sdb"

text \<open>The well-formed UTF-8 byte sequences of two, three and four bytes.\<close>

definition utf8_2 :: "nat \<Rightarrow> nat \<Rightarrow> bool" where
  "utf8_2 a b \<longleftrightarrow> 0xC2 \<le> a \<and> a \<le> 0xDF \<and> 0x80 \<le> b \<and> b \<le> 0xBF"

definition utf8_3 :: "nat \<Rightarrow> nat \<Rightarrow> nat \<Rightarrow> bool" where
  "utf8_3 a b c \<longleftrightarrow> 0xE0 \<le> a \<and> a \<le> 0xEF \<and> (if a = 0xE0 then 0xA0 else 0x80) \<le> b \<and>
     b \<le> (if a = 0xED then 0x9F else 0xBF) \<and> 0x80 \<le> c \<and> c \<le> 0xBF"

definition utf8_4 :: "nat \<Rightarrow> nat \<Rightarrow> nat \<Rightarrow> nat \<Rightarrow> bool" where
  "utf8_4 a b c d \<longleftrightarrow> 0xF0 \<le> a \<and> a \<le> 0xF4 \<and> (if a = 0xF0 then 0x90 else 0x80) \<le> b \<and>
     b \<le> (if a = 0xF4 then 0x8F else 0xBF) \<and> 0x80 \<le> c \<and> c \<le> 0xBF \<and> 0x80 \<le> d \<and> d \<le> 0xBF"

fun pg_codes :: "nat list \<Rightarrow> bool" where
  "pg_codes [] = True"
| "pg_codes (a # s) =
     (if 0 < a \<and> a < 0x80 then pg_codes s
      else (case s of
              [] \<Rightarrow> False
            | b # s1 \<Rightarrow>
                if utf8_2 a b then pg_codes s1
                else (case s1 of
                        [] \<Rightarrow> False
                      | c # s2 \<Rightarrow>
                          if utf8_3 a b c then pg_codes s2
                          else (case s2 of [] \<Rightarrow> False | d # s3 \<Rightarrow> if utf8_4 a b c d then pg_codes s3 else False))))"

definition pg_text :: "string \<Rightarrow> bool" where
  "pg_text s = pg_codes (map of_char s)"

definition int4 :: "int \<Rightarrow> bool" where
  "int4 n \<longleftrightarrow> - (2 ^ 31) \<le> n \<and> n < 2 ^ 31"

text \<open>Errors of the engine end with their code.\<close>

abbreviation bad_text :: err where
  "bad_text \<equiv> Msg ''ERROR: invalid byte sequence for encoding \"UTF8\" (SQLSTATE 22021)''"

abbreviation out_of_range :: err where
  "out_of_range \<equiv> Msg ''ERROR: integer out of range (SQLSTATE 22003)''"

abbreviation bad_json :: err where
  "bad_json \<equiv> Msg ''ERROR: invalid input syntax for type json (SQLSTATE 22P02)''"

abbreviation bad_escape :: err where
  "bad_escape \<equiv> Msg ''ERROR: unsupported Unicode escape sequence (SQLSTATE 22P05)''"

definition pg_error :: "err \<Rightarrow> err" where
  "pg_error e =
     (if e = unique_failed then Msg ''ERROR: duplicate key value violates unique constraint (SQLSTATE 23505)''
      else if e = foreign_key_failed then Msg ''ERROR: insert or update violates foreign key constraint (SQLSTATE 23503)''
      else if e = check_failed then Msg ''ERROR: new row violates check constraint (SQLSTATE 23514)''
      else e)"

definition pg_code :: "err \<Rightarrow> string option" where
  "pg_code e =
     (let s = err_text e; n = length s in
      if HasPrefix (drop (n - 16) s) ''(SQLSTATE '' then Some (take 5 (drop (n - 6) s)) else None)"

definition pg_isUniqueViolation :: "err \<Rightarrow> bool" where
  "pg_isUniqueViolation e =
     (case pg_code e of Some c \<Rightarrow> c = ''23505'' | None \<Rightarrow> Contains_str (err_text e) ''duplicate key'')"

text \<open>One statement with its text and its \<open>INTEGER\<close> parameters.\<close>

definition pg_stmt :: "string list \<Rightarrow> int list \<Rightarrow> (pg_tables \<Rightarrow> err + 'a \<times> pg_tables) \<Rightarrow> (postgres, 'a) op" where
  "pg_stmt ps ns f =
     stmt (\<lambda>t. if \<not> list_all pg_text ps then Inl bad_text
               else if \<not> list_all int4 ns then Inl out_of_range
               else map_sum pg_error id (f t))"

definition pg_query :: "string list \<Rightarrow> (pg_tables \<Rightarrow> 'a) \<Rightarrow> (postgres, 'a) op" where
  "pg_query ps g = pg_stmt ps [] (\<lambda>t. Inr (g t, t))"

definition pg_query_row :: "string list \<Rightarrow> (pg_tables \<Rightarrow> 'a option) \<Rightarrow> (postgres, 'a) op" where
  "pg_query_row ps g = pg_stmt ps [] (\<lambda>t. case g t of None \<Rightarrow> Inl ErrNotFound | Some x \<Rightarrow> Inr (x, t))"

text \<open>
  A prepared statement executed for each row in a transaction. A row's execution gives the
  tables it leaves also when it fails, for the sequence keeps its value when the transaction
  is rolled back.
\<close>

fun pg_tx_loop ::
  "(pg_tables \<Rightarrow> 'r \<Rightarrow> err option \<times> pg_tables) \<Rightarrow> ('r \<Rightarrow> string) \<Rightarrow> 'r list \<Rightarrow> pg_tables \<Rightarrow> bool list
    \<Rightarrow> err option \<times> pg_tables \<times> bool list" where
  "pg_tx_loop f m [] t fs = (case next_fault fs of (b, fs') \<Rightarrow> (if b then Some ErrIO else None, t, fs'))"
| "pg_tx_loop f m (r # rs) t fs =
     (case next_fault fs of (b, fs') \<Rightarrow>
        if b then (Some (Wrap (m r) ErrIO), t, fs')
        else (case f t r of
                (Some e, t') \<Rightarrow> (Some (Wrap (m r) e), t', fs')
              | (None, t') \<Rightarrow> pg_tx_loop f m rs t' fs'))"

definition pg_in_tx ::
  "(pg_tables \<Rightarrow> 'r \<Rightarrow> err option \<times> pg_tables) \<Rightarrow> ('r \<Rightarrow> string) \<Rightarrow> 'r list \<Rightarrow> (postgres, unit) op" where
  "pg_in_tx f m rs db =
     (case next_fault (db_faults db) of (b, fs) \<Rightarrow>
        if b then (Inl ErrIO, db\<lparr>db_faults := fs\<rparr>)
        else (case next_fault fs of (b', fs') \<Rightarrow>
          if b' then (Inl ErrIO, db\<lparr>db_faults := fs'\<rparr>)
          else (case pg_tx_loop f m rs (db_tab db) fs' of
                  (Some e, t, fs'') \<Rightarrow> (Inl e, db\<lparr>db_tab := (db_tab db)\<lparr>t_seq := t_seq t\<rparr>, db_faults := fs''\<rparr>)
                | (None, t, fs'') \<Rightarrow> (Inr (), db\<lparr>db_tab := t, db_faults := fs''\<rparr>))))"

definition failing :: "(pg_tables \<Rightarrow> 'r \<Rightarrow> err + pg_tables) \<Rightarrow> pg_tables \<Rightarrow> 'r \<Rightarrow> err option \<times> pg_tables" where
  "failing f t r = (case f t r of Inl e \<Rightarrow> (Some (pg_error e), t) | Inr t' \<Rightarrow> (None, t'))"

text \<open>
  \<open>jsonb\<close>: a payload must parse and its texts must be storable. Of equal keys the last one
  counts; keys are kept in the order of their lengths, then of their bytes.
\<close>

fun json_texts :: "json \<Rightarrow> string list" where
  "json_texts (JStr s) = [s]"
| "json_texts (JArr js) = concat (map json_texts js)"
| "json_texts (JObj m) = concat (map (\<lambda>(k, v). k # json_texts v) m)"
| "json_texts j = []"

fun jsonb_value :: "json \<Rightarrow> json" where
  "jsonb_value (JArr js) = JArr (map jsonb_value js)"
| "jsonb_value (JObj m) =
     JObj (sort_key (\<lambda>e. (length (fst e), fst e)) (AList.clearjunk (rev (map (\<lambda>(k, v). (k, jsonb_value v)) m))))"
| "jsonb_value j = j"

definition jsonb :: "json option \<Rightarrow> err + json" where
  "jsonb d =
     (case d of
        None \<Rightarrow> Inl bad_json
      | Some j \<Rightarrow> if list_all pg_text (json_texts j) then Inr (jsonb_value j) else Inl bad_escape)"

text \<open>\<open>LIKE\<close>: a backslash takes the next character literally; case matters.\<close>

function pg_like :: "string \<Rightarrow> string \<Rightarrow> bool" where
  "pg_like [] s = (s = [])"
| "pg_like (p # ps) s =
     (if p = CHR ''%'' then pg_like ps s \<or> (case s of [] \<Rightarrow> False | c # s' \<Rightarrow> pg_like (p # ps) s')
      else (case s of
              [] \<Rightarrow> False
            | c # s' \<Rightarrow>
                if p = CHR ''_'' then pg_like ps (dropWhile utf8_cont s')
                else if p = CHR 0x5C \<and> ps \<noteq> [] then c = hd ps \<and> pg_like (tl ps) s'
                else c = p \<and> pg_like ps s'))"
  by pat_completeness auto
termination
  by (relation "measure (\<lambda>(p, s). length p + length s)") (auto simp: less_Suc_eq_le le_SucI length_dropWhile_le)

declare pg_like.simps(2) [simp del]

definition pg_key :: "(string \<Rightarrow> string) \<Rightarrow> string \<Rightarrow> string \<times> string" where
  "pg_key coll s = (coll s, s)"

section \<open>Columns\<close>

definition pg_time :: "time \<Rightarrow> int" where
  "pg_time t = t div 1000"

definition pg_read_time :: "int \<Rightarrow> time" where
  "pg_read_time us = us * 1000"

definition pg_nullableTime :: "time option \<Rightarrow> int option" where
  "pg_nullableTime t = (case t of None \<Rightarrow> None | Some t \<Rightarrow> Some (pg_time t))"

definition nullableStringPg :: "string \<Rightarrow> string option" where
  "nullableStringPg s = (if s = [] then None else Some s)"

definition pg_scanRun :: "(int, bool) run_cols \<Rightarrow> Run" where
  "pg_scanRun r =
     \<lparr>run_ID = rn_id r, run_PackageName = rn_package_name r, run_Version = rn_version r,
      run_TarballSHA256 = rn_tarball_sha256 r, run_LockfileSHA256 = rn_lockfile_sha256 r,
      run_NodeVersion = rn_node_version r, run_NPMVersion = rn_npm_version r,
      run_State = rn_state r, run_Attempt = rn_attempt r, run_IsBaseline = rn_is_baseline r,
      run_StartedAt = map_option pg_read_time (rn_started_at r),
      run_FinishedAt = map_option pg_read_time (rn_finished_at r),
      run_FailureReason = rn_failure_reason r, run_EventsEmitted = rn_events_emitted r,
      run_EventsDropped = rn_events_dropped r, run_DurationNS = rn_duration_ns r\<rparr>"

definition pg_scanDeviationRow :: "(int, bool) deviation_cols \<Rightarrow> DeviationRow" where
  "pg_scanDeviationRow d =
     \<lparr>dv_ID = de_id d, dv_RunID = de_run_id d, dv_Category = de_category d, dv_Value = de_value d,
      dv_EvidenceEventID = de_evidence_event_id d, dv_Severity = de_severity d,
      dv_DetectedAt = pg_read_time (de_detected_at d),
      dv_NotifiedAt = map_option pg_read_time (de_notified_at d), dv_Suppressed = de_suppressed d\<rparr>"

definition pg_scanDeviationRows :: "(int, bool) deviation_cols list \<Rightarrow> DeviationRow list" where
  "pg_scanDeviationRows ds = map pg_scanDeviationRow ds"

definition scanAllowEntryPg :: "int allow_cols \<Rightarrow> AllowEntry" where
  "scanAllowEntryPg e =
     \<lparr>al_ID = aw_id e, al_Scope = aw_scope e, al_PackageName = NullString (aw_package_name e),
      al_Kind = aw_kind e, al_Value = aw_value e, al_Note = aw_note e,
      al_CreatedAt = pg_read_time (aw_created_at e)\<rparr>"

definition scanNotifierPg :: "(int, bool) notifier_cols \<Rightarrow> NotifierRow" where
  "scanNotifierPg n =
     \<lparr>nt_Name = no_name n, nt_URL = no_url n, nt_Template = no_template n,
      nt_SecretEnv = NullString (no_secret_env n), nt_Headers = NullString (no_headers n),
      nt_MinSeverity = NullString (no_min_severity n), nt_Enabled = no_enabled n,
      nt_CreatedAt = pg_read_time (no_created_at n), nt_UpdatedAt = pg_read_time (no_updated_at n)\<rparr>"

definition scanNotificationPg :: "int notification_cols \<Rightarrow> NotificationRow" where
  "scanNotificationPg n =
     \<lparr>nf_ID = nn_id n, nf_RunID = nn_run_id n, nf_NotifierName = nn_notifier_name n,
      nf_Attempt = nn_attempt n, nf_Status = nn_status n,
      nf_LastAttemptedAt = map_option pg_read_time (nn_last_attempted_at n),
      nf_NextAttemptAt = map_option pg_read_time (nn_next_attempt_at n),
      nf_ResponseCode = nn_response_code n, nf_ResponseBody = NullString (nn_response_body n),
      nf_ErrorMsg = NullString (nn_error_msg n), nf_DeviationCount = nn_deviation_count n,
      nf_CreatedAt = pg_read_time (nn_created_at n)\<rparr>"

section \<open>Runs\<close>

definition pg_encode_run :: "Run \<Rightarrow> (int, bool) run_cols" where
  "pg_encode_run r =
     \<lparr>rn_id = run_ID r, rn_package_name = run_PackageName r, rn_version = run_Version r,
      rn_tarball_sha256 = run_TarballSHA256 r, rn_lockfile_sha256 = run_LockfileSHA256 r,
      rn_node_version = run_NodeVersion r, rn_npm_version = run_NPMVersion r,
      rn_state = run_State r, rn_attempt = run_Attempt r, rn_is_baseline = run_IsBaseline r,
      rn_started_at = pg_nullableTime (run_StartedAt r), rn_finished_at = pg_nullableTime (run_FinishedAt r),
      rn_failure_reason = run_FailureReason r,
      rn_events_emitted = 0, rn_events_dropped = 0, rn_duration_ns = 0\<rparr>"

definition run_texts :: "Run \<Rightarrow> string list" where
  "run_texts r =
     [run_ID r, run_PackageName r, run_Version r, run_TarballSHA256 r, run_LockfileSHA256 r,
      run_NodeVersion r, run_NPMVersion r, run_State r, run_FailureReason r]"

definition postgres_CreateRun :: "time \<Rightarrow> Run \<Rightarrow> (postgres, unit) op" where
  "postgres_CreateRun now r db =
     (if \<not> RunState_IsValid (run_State r) then (Inl (Msg ''invalid run state''), db)
      else
        (let r' = (if run_StartedAt r = None then r\<lparr>run_StartedAt := Some now\<rparr> else r) in
         case pg_stmt (run_texts r') [run_Attempt r'] (insert_run (pg_encode_run r')) db of
           (Inl e, db') \<Rightarrow>
             (if pg_isUniqueViolation e then (Inl ErrConflict, db') else (Inl (Wrap ''insert run'' e), db'))
         | (Inr _, db') \<Rightarrow> (Inr (), db')))"

text \<open>\<open>now()\<close> is the clock of the server.\<close>

definition postgres_UpdateRunState :: "time \<Rightarrow> string \<Rightarrow> RunState \<Rightarrow> string \<Rightarrow> (postgres, unit) op" where
  "postgres_UpdateRunState now runID st reason db =
     (if \<not> RunState_IsValid st then (Inl (Msg ''invalid run state''), db)
      else must_affect
             (wrap_err ''update run state''
               (pg_stmt [st, reason, runID] [] (update_runs runID (set_state (pg_time now) st reason)))) db)"

definition postgres_GetRun :: "string \<Rightarrow> (postgres, Run) op" where
  "postgres_GetRun runID =
     pg_query_row [runID] (\<lambda>t. map_option pg_scanRun (find (\<lambda>r. rn_id r = runID) (t_runs t)))"

definition postgres_ListRuns :: "int \<Rightarrow> (postgres, Run list) op" where
  "postgres_ListRuns lim =
     (let n = (if lim \<le> 0 then 100 else lim) in
      pg_query [] (\<lambda>t. map pg_scanRun (limit_rows n (order_by_desc rn_started_at (t_runs t)))))"

definition postgres_MarkRunBaseline :: "string \<Rightarrow> bool \<Rightarrow> (postgres, unit) op" where
  "postgres_MarkRunBaseline runID b =
     must_affect (pg_stmt [runID] [] (update_runs runID (\<lambda>r. r\<lparr>rn_is_baseline := b\<rparr>)))"

section \<open>Events\<close>

text \<open>The next value of the sequence is drawn before the foreign key is checked.\<close>

definition pg_insert_event :: "string \<Rightarrow> pg_tables \<Rightarrow> EventRow \<Rightarrow> err option \<times> pg_tables" where
  "pg_insert_event runID t e =
     (if \<not> list_all pg_text [runID, ev_Type e] then (Some bad_text, t)
      else (case jsonb (ev_Data e) of
              Inl er \<Rightarrow> (Some er, t)
            | Inr d \<Rightarrow>
                (case insert_event runID t (e\<lparr>ev_Data := Some d\<rparr>) of
                   Inl er \<Rightarrow> (Some (pg_error er), t\<lparr>t_seq := t_seq t + 1\<rparr>)
                 | Inr t' \<Rightarrow> (None, t'))))"

definition postgres_AppendEvents :: "string \<Rightarrow> EventRow list \<Rightarrow> (postgres, unit) op" where
  "postgres_AppendEvents runID events db =
     (if events = [] then (Inr (), db)
      else pg_in_tx (pg_insert_event runID) (\<lambda>_. ''insert event'') events db)"

definition postgres_ListEventsByRun :: "string \<Rightarrow> int \<Rightarrow> (postgres, EventRow list) op" where
  "postgres_ListEventsByRun runID lim =
     (let n = (if lim \<le> 0 then 10000 else lim) in
      pg_query [runID] (\<lambda>t. limit_rows n
        (order_by (\<lambda>e. (ev_TsNS e, ev_ID e)) (filter (\<lambda>e. ev_RunID e = runID) (t_events t)))))"

definition postgres_EventCount :: "string \<Rightarrow> (postgres, int) op" where
  "postgres_EventCount runID =
     pg_query [runID] (\<lambda>t. int (length (filter (\<lambda>e. ev_RunID e = runID) (t_events t))))"

definition postgres_GetEvent :: "int \<Rightarrow> (postgres, EventRow) op" where
  "postgres_GetEvent i = pg_query_row [] (\<lambda>t. find (\<lambda>e. ev_ID e = i) (t_events t))"

definition postgres_PruneEvents :: "int \<Rightarrow> (postgres, int) op" where
  "postgres_PruneEvents olderThanNS = wrap_err ''prune events'' (pg_stmt [] [] (delete_events olderThanNS))"

section \<open>Baseline\<close>

definition postgres_LoadBaseline :: "string \<Rightarrow> (postgres, BaselineRow list) op" where
  "postgres_LoadBaseline pkg = pg_query [pkg] (\<lambda>t. filter (\<lambda>b. bl_PackageName b = pkg) (t_baseline t))"

definition pg_upsert_baseline :: "string \<Rightarrow> pg_tables \<Rightarrow> BaselineRow \<Rightarrow> err + pg_tables" where
  "pg_upsert_baseline runID t r0 =
     (let r = fill_baseline_row runID r0 in
      if \<not> list_all pg_text [bl_PackageName r, bl_Category r, bl_Value r, bl_FirstSeenRunID r, bl_LastSeenRunID r]
      then Inl bad_text
      else if \<not> int4 (bl_OccurrenceCount r) then Inl out_of_range
      else (case find (\<lambda>b. bl_key b = bl_key r) (t_baseline t) of
              Some b \<Rightarrow> (if int4 (bl_OccurrenceCount b + bl_OccurrenceCount r) then upsert_baseline runID t r0
                         else Inl out_of_range)
            | None \<Rightarrow> upsert_baseline runID t r0))"

definition postgres_MergeBaseline :: "string \<Rightarrow> BaselineRow list \<Rightarrow> (postgres, unit) op" where
  "postgres_MergeBaseline runID rows db =
     (if rows = [] then (Inr (), db)
      else pg_in_tx (failing (pg_upsert_baseline runID))
             (\<lambda>r. ''merge baseline '' @ bl_Category r @ ''/'' @ bl_Value r) rows db)"

section \<open>Deviations\<close>

definition pg_encode_deviation :: "DeviationRow \<Rightarrow> (int, bool) deviation_cols" where
  "pg_encode_deviation r =
     \<lparr>de_id = dv_ID r, de_run_id = dv_RunID r, de_category = dv_Category r, de_value = dv_Value r,
      de_evidence_event_id = dv_EvidenceEventID r, de_severity = dv_Severity r,
      de_detected_at = pg_time (dv_DetectedAt r), de_notified_at = None, de_suppressed = dv_Suppressed r\<rparr>"

definition pg_insert_deviation :: "pg_tables \<Rightarrow> DeviationRow \<Rightarrow> err + pg_tables" where
  "pg_insert_deviation t r =
     (if \<not> list_all pg_text [dv_ID r, dv_RunID r, dv_Category r, dv_Value r, dv_Severity r] then Inl bad_text
      else add_deviation (pg_encode_deviation r) t)"

definition postgres_WriteDeviations :: "DeviationRow list \<Rightarrow> (postgres, unit) op" where
  "postgres_WriteDeviations rows db =
     (if rows = [] then (Inr (), db) else pg_in_tx (failing pg_insert_deviation) (\<lambda>_. ''insert deviation'') rows db)"

definition postgres_DeleteDeviationsForRun :: "string \<Rightarrow> (postgres, unit) op" where
  "postgres_DeleteDeviationsForRun runID =
     pg_stmt [runID] [] (\<lambda>t. Inr ((), t\<lparr>t_deviations := filter (\<lambda>d. de_run_id d \<noteq> runID) (t_deviations t)\<rparr>))"

definition postgres_ListDeviations :: "(string \<Rightarrow> string) \<Rightarrow> string \<Rightarrow> (postgres, DeviationRow list) op" where
  "postgres_ListDeviations coll runID =
     pg_query [runID] (\<lambda>t. map pg_scanDeviationRow (order_by (\<lambda>d. (de_detected_at d, pg_key coll (de_id d)))
        (filter (\<lambda>d. de_run_id d = runID) (t_deviations t))))"

text \<open>Only the conditions that are asked for become parameters.\<close>

definition filter_texts :: "DeviationFilter \<Rightarrow> string list" where
  "filter_texts f = filter (\<lambda>s. s \<noteq> []) [df_PackageName f, df_Severity f, df_RunID f]"

definition postgres_ListDeviationsFiltered ::
  "(string \<Rightarrow> string) \<Rightarrow> DeviationFilter \<Rightarrow> (postgres, DeviationRow list) op" where
  "postgres_ListDeviationsFiltered coll f =
     pg_query (filter_texts f)
       (\<lambda>t. let ds = order_by_desc (\<lambda>d. (de_detected_at d, pg_key coll (de_id d)))
                       (filter (deviation_selected f t) (t_deviations t))
            in pg_scanDeviationRows (if df_Limit f > 0 then limit_rows (df_Limit f) ds else ds))"

definition postgres_GetDeviation :: "string \<Rightarrow> (postgres, DeviationRow) op" where
  "postgres_GetDeviation i =
     pg_query_row [i] (\<lambda>t. map_option pg_scanDeviationRow (find (\<lambda>d. de_id d = i) (t_deviations t)))"

section \<open>Packages\<close>

definition pg_package_totals :: "(string \<Rightarrow> string) \<Rightarrow> pg_tables \<Rightarrow> PackageSummary list" where
  "pg_package_totals coll t =
     map (\<lambda>p. let rs = filter (\<lambda>r. rn_package_name r = p) (t_runs t) in
        \<lparr>ps_Name = p, ps_RunsTotal = int (length rs),
         ps_RunsBaseline = int (length (filter rn_is_baseline rs)),
         ps_DeviationsLatest = 0, ps_LatestRunID = [], ps_LatestVersion = []\<rparr>)
       (sort_key (pg_key coll) (remdups (filter (\<lambda>p. p \<noteq> []) (map rn_package_name (t_runs t)))))"

definition pg_latest_run :: "(string \<Rightarrow> string) \<Rightarrow> string \<Rightarrow> pg_tables \<Rightarrow> (int, bool) run_cols option" where
  "pg_latest_run coll p t =
     (case order_by_desc (\<lambda>r. (rn_started_at r, pg_key coll (rn_id r)))
             (filter (\<lambda>r. rn_package_name r = p) (t_runs t)) of
        [] \<Rightarrow> None
      | r # _ \<Rightarrow> Some r)"

definition pg_decorate :: "(string \<Rightarrow> string) \<Rightarrow> PackageSummary \<Rightarrow> postgres \<Rightarrow> PackageSummary \<times> postgres" where
  "pg_decorate coll p db =
     (case pg_query_row [ps_Name p] (pg_latest_run coll (ps_Name p)) db of
        (Inl e, db1) \<Rightarrow> (p, db1)
      | (Inr r, db1) \<Rightarrow>
          (case pg_query [rn_id r] (\<lambda>t. int (length (filter (\<lambda>d. de_run_id d = rn_id r) (t_deviations t)))) db1 of
             (q, db2) \<Rightarrow>
               (p\<lparr>ps_LatestRunID := rn_id r, ps_LatestVersion := rn_version r,
                  ps_DeviationsLatest := (case q of Inl e \<Rightarrow> 0 | Inr n \<Rightarrow> n)\<rparr>, db2)))"

fun pg_decorate_all :: "(string \<Rightarrow> string) \<Rightarrow> PackageSummary list \<Rightarrow> postgres \<Rightarrow> PackageSummary list \<times> postgres" where
  "pg_decorate_all coll [] db = ([], db)"
| "pg_decorate_all coll (p # ps) db =
     (let (p', db1) = pg_decorate coll p db; (ps', db2) = pg_decorate_all coll ps db1 in (p' # ps', db2))"

definition postgres_ListPackages :: "(string \<Rightarrow> string) \<Rightarrow> (postgres, PackageSummary list) op" where
  "postgres_ListPackages coll db =
     (case pg_query [] (pg_package_totals coll) db of
        (Inl e, db1) \<Rightarrow> (Inl e, db1)
      | (Inr ps, db1) \<Rightarrow> (let (ps', db2) = pg_decorate_all coll ps db1 in (Inr ps', db2)))"

definition postgres_ListRunsByPackage :: "(string \<Rightarrow> string) \<Rightarrow> string \<Rightarrow> int \<Rightarrow> (postgres, Run list) op" where
  "postgres_ListRunsByPackage coll pkg lim =
     (let n = (if lim \<le> 0 then 100 else lim) in
      pg_query [pkg] (\<lambda>t. map pg_scanRun (limit_rows n
        (order_by_desc (\<lambda>r. (rn_started_at r, pg_key coll (rn_id r))) (filter (\<lambda>r. rn_package_name r = pkg) (t_runs t))))))"

definition postgres_AddWatchedPackage :: "time \<Rightarrow> string \<Rightarrow> (postgres, unit) op" where
  "postgres_AddWatchedPackage now name = pg_stmt [name] [] (insert_package (pg_time now) name)"

definition postgres_RemoveWatchedPackage :: "string \<Rightarrow> (postgres, unit) op" where
  "postgres_RemoveWatchedPackage name = must_affect (pg_stmt [name] [] (delete_package name))"

definition pg_scan_package :: "int package_cols \<Rightarrow> WatchedPackage" where
  "pg_scan_package p =
     \<lparr>wp_Name = pk_name p, wp_AddedAt = pg_read_time (pk_added_at p),
      wp_LastCheckedAt = map_option pg_read_time (pk_last_checked_at p),
      wp_LastSeenVersion = NullString (pk_last_seen_version p)\<rparr>"

definition postgres_ListWatchedPackages :: "(string \<Rightarrow> string) \<Rightarrow> (postgres, WatchedPackage list) op" where
  "postgres_ListWatchedPackages coll =
     pg_query [] (\<lambda>t. map pg_scan_package (order_by (\<lambda>p. pg_key coll (pk_name p)) (t_packages t)))"

definition postgres_UpdatePackageCheck :: "time \<Rightarrow> string \<Rightarrow> string \<Rightarrow> (postgres, unit) op" where
  "postgres_UpdatePackageCheck now name version =
     (if version \<noteq> [] then
        pg_stmt [version, name] [] (\<lambda>t. Inr ((), t\<lparr>t_packages := upd_where (\<lambda>p. pk_name p = name)
          (\<lambda>p. p\<lparr>pk_last_checked_at := Some (pg_time now), pk_last_seen_version := Some version\<rparr>)
          (t_packages t)\<rparr>))
      else
        pg_stmt [name] [] (\<lambda>t. Inr ((), t\<lparr>t_packages := upd_where (\<lambda>p. pk_name p = name)
          (\<lambda>p. p\<lparr>pk_last_checked_at := Some (pg_time now)\<rparr>) (t_packages t)\<rparr>)))"

definition pg_encode_release :: "ReleaseRow \<Rightarrow> int release_cols" where
  "pg_encode_release r =
     \<lparr>rl_package_name = rel_PackageName r, rl_version = rel_Version r,
      rl_tarball_sha256 = rel_TarballSHA256 r, rl_npm_integrity = rel_NPMIntegrity r,
      rl_published_at = pg_time (rel_PublishedAt r), rl_discovered_at = pg_time (rel_DiscoveredAt r)\<rparr>"

definition postgres_RecordRelease :: "ReleaseRow \<Rightarrow> (postgres, unit) op" where
  "postgres_RecordRelease r =
     pg_stmt [rel_PackageName r, rel_Version r, rel_TarballSHA256 r, rel_NPMIntegrity r] []
       (add_release (pg_encode_release r))"

definition pg_scan_release :: "int release_cols \<Rightarrow> ReleaseRow" where
  "pg_scan_release r =
     \<lparr>rel_PackageName = rl_package_name r, rel_Version = rl_version r,
      rel_TarballSHA256 = rl_tarball_sha256 r, rel_NPMIntegrity = rl_npm_integrity r,
      rel_PublishedAt = pg_read_time (rl_published_at r), rel_DiscoveredAt = pg_read_time (rl_discovered_at r)\<rparr>"

definition postgres_ListReleasesByPackage :: "string \<Rightarrow> int \<Rightarrow> (postgres, ReleaseRow list) op" where
  "postgres_ListReleasesByPackage name lim =
     (let n = (if lim \<le> 0 then 100 else lim) in
      pg_query [name] (\<lambda>t. map pg_scan_release (limit_rows n (order_by_desc rl_discovered_at
        (filter (\<lambda>r. rl_package_name r = name) (t_releases t))))))"

section \<open>Short ids\<close>

definition pg_resolve :: "string \<Rightarrow> (pg_tables \<Rightarrow> 'a list) \<Rightarrow> (postgres, 'a) op" where
  "pg_resolve p g db =
     (if p = [] then (Inl ErrNotFound, db)
      else (case pg_query [p @ ''%''] g db of
              (Inl e, db') \<Rightarrow> (Inl e, db')
            | (Inr [], db') \<Rightarrow> (Inl ErrNotFound, db')
            | (Inr [m], db') \<Rightarrow> (Inr m, db')
            | (Inr (m # m' # ms), db') \<Rightarrow> (Inl ErrAmbiguous, db')))"

definition pg_matches :: "('r \<Rightarrow> string) \<Rightarrow> string \<Rightarrow> 'r list \<Rightarrow> 'r list" where
  "pg_matches idf p rs = limit_rows 2 (filter (\<lambda>r. pg_like (p @ ''%'') (idf r)) rs)"

definition postgres_ResolveRunPrefix :: "string \<Rightarrow> (postgres, Run) op" where
  "postgres_ResolveRunPrefix p = pg_resolve p (\<lambda>t. map pg_scanRun (pg_matches rn_id p (t_runs t)))"

definition postgres_ResolveDeviationPrefix :: "string \<Rightarrow> (postgres, DeviationRow) op" where
  "postgres_ResolveDeviationPrefix p =
     pg_resolve p (\<lambda>t. map pg_scanDeviationRow (pg_matches de_id p (t_deviations t)))"

definition postgres_ResolveAllowPrefix :: "string \<Rightarrow> (postgres, AllowEntry) op" where
  "postgres_ResolveAllowPrefix p =
     pg_resolve p (\<lambda>t. map scanAllowEntryPg (pg_matches aw_id p (t_allowlists t)))"

section \<open>Allowlists\<close>

definition pg_encode_allow :: "time \<Rightarrow> AllowEntry \<Rightarrow> int allow_cols" where
  "pg_encode_allow now e =
     \<lparr>aw_id = al_ID e, aw_scope = al_Scope e, aw_package_name = nullableStringPg (al_PackageName e),
      aw_kind = al_Kind e, aw_value = al_Value e, aw_note = al_Note e,
      aw_created_at = (if al_CreatedAt e = zero_time then pg_time now else pg_time (al_CreatedAt e))\<rparr>"

definition postgres_AddAllowEntry :: "time \<Rightarrow> AllowEntry \<Rightarrow> (postgres, unit) op" where
  "postgres_AddAllowEntry now e =
     wrap_err ''insert allowlist''
       (pg_stmt [al_ID e, al_Scope e, al_PackageName e, al_Kind e, al_Value e, al_Note e] []
          (insert_allow (pg_encode_allow now e)))"

definition postgres_ListAllowEntries :: "(string \<Rightarrow> string) \<Rightarrow> (postgres, AllowEntry list) op" where
  "postgres_ListAllowEntries coll =
     pg_query [] (\<lambda>t. map scanAllowEntryPg (order_by
       (\<lambda>r. (pg_key coll (aw_scope r), pg_key coll (NullString (aw_package_name r)), pg_key coll (aw_kind r),
             pg_key coll (aw_value r))) (t_allowlists t)))"

definition postgres_DeleteAllowEntry :: "string \<Rightarrow> (postgres, unit) op" where
  "postgres_DeleteAllowEntry i =
     pg_stmt [i] [] (\<lambda>t. Inr ((), t\<lparr>t_allowlists := filter (\<lambda>r. aw_id r \<noteq> i) (t_allowlists t)\<rparr>))"

section \<open>Run results\<close>

text \<open>The sum of a \<open>BIGINT\<close> column is unbounded; it is scanned into 64 bits.\<close>

definition postgres_EventsDroppedTotal :: "(postgres, int) op" where
  "postgres_EventsDroppedTotal =
     wrap_err ''events_dropped total''
       (pg_stmt [] [] (\<lambda>t. let n = sum_list (map rn_events_dropped (t_runs t)) in
          if - (2 ^ 63) \<le> n \<and> n < 2 ^ 63 then Inr (n, t) else Inl (Msg ''value out of range'')))"

definition postgres_RecordScanResult :: "time \<Rightarrow> string \<Rightarrow> ScanResult \<Rightarrow> (postgres, unit) op" where
  "postgres_RecordScanResult now runID s =
     must_affect (wrap_err ''record scan result''
       (pg_stmt [result_state s, sr_Reason s, runID] [] (update_runs runID (set_result (pg_time now) s))))"

section \<open>Notifier targets and the delivery log\<close>

definition pg_encode_notifier :: "time \<Rightarrow> NotifierRow \<Rightarrow> (int, bool) notifier_cols" where
  "pg_encode_notifier now n =
     \<lparr>no_name = nt_Name n, no_url = nt_URL n, no_template = nt_Template n,
      no_secret_env = nullableStringPg (nt_SecretEnv n), no_headers = nullableStringPg (nt_Headers n),
      no_min_severity = nullableStringPg (nt_MinSeverity n), no_enabled = nt_Enabled n,
      no_created_at = (if nt_CreatedAt n = zero_time then pg_time now else pg_time (nt_CreatedAt n)),
      no_updated_at = pg_time now\<rparr>"

definition postgres_UpsertNotifier :: "time \<Rightarrow> NotifierRow \<Rightarrow> (postgres, unit) op" where
  "postgres_UpsertNotifier now n =
     pg_stmt [nt_Name n, nt_URL n, nt_Template n, nt_SecretEnv n, nt_Headers n, nt_MinSeverity n] []
       (upsert_notifier (pg_encode_notifier now n))"

definition postgres_ListNotifiers :: "(string \<Rightarrow> string) \<Rightarrow> (postgres, NotifierRow list) op" where
  "postgres_ListNotifiers coll =
     pg_query [] (\<lambda>t. map scanNotifierPg (order_by (\<lambda>n. pg_key coll (no_name n)) (t_notifiers t)))"

definition postgres_GetNotifier :: "string \<Rightarrow> (postgres, NotifierRow) op" where
  "postgres_GetNotifier name =
     pg_query_row [name] (\<lambda>t. map_option scanNotifierPg (find (\<lambda>n. no_name n = name) (t_notifiers t)))"

definition postgres_DeleteNotifier :: "string \<Rightarrow> (postgres, unit) op" where
  "postgres_DeleteNotifier name = pg_stmt [name] [] (\<lambda>t. Inr ((), delete_notifier name t))"

definition pg_encode_notification :: "time \<Rightarrow> NotificationRow \<Rightarrow> int notification_cols" where
  "pg_encode_notification now n =
     \<lparr>nn_id = nf_ID n, nn_run_id = nf_RunID n, nn_notifier_name = nf_NotifierName n,
      nn_attempt = nf_Attempt n, nn_status = nf_Status n,
      nn_last_attempted_at = pg_nullableTime (nf_LastAttemptedAt n),
      nn_next_attempt_at = pg_nullableTime (nf_NextAttemptAt n),
      nn_response_code = nf_ResponseCode n, nn_response_body = nullableStringPg (nf_ResponseBody n),
      nn_error_msg = nullableStringPg (nf_ErrorMsg n), nn_deviation_count = nf_DeviationCount n,
      nn_created_at = (if nf_CreatedAt n = zero_time then pg_time now else pg_time (nf_CreatedAt n))\<rparr>"

definition postgres_RecordNotification :: "time \<Rightarrow> NotificationRow \<Rightarrow> (postgres, unit) op" where
  "postgres_RecordNotification now n =
     pg_stmt [nf_ID n, nf_RunID n, nf_NotifierName n, nf_Status n, nf_ResponseBody n, nf_ErrorMsg n]
       [nf_Attempt n, nf_ResponseCode n, nf_DeviationCount n]
       (insert_notification (pg_encode_notification now n))"

definition postgres_ListNotificationsByRun :: "string \<Rightarrow> (postgres, NotificationRow list) op" where
  "postgres_ListNotificationsByRun runID =
     pg_query [runID] (\<lambda>t. map scanNotificationPg (order_by nn_attempt
       (filter (\<lambda>n. nn_run_id n = runID) (t_notifications t))))"

section \<open>The backend\<close>

definition postgres_Backend :: "(string \<Rightarrow> string) \<Rightarrow> postgres Backend" where
  "postgres_Backend coll =
     \<lparr>be_CreateRun = postgres_CreateRun, be_UpdateRunState = postgres_UpdateRunState,
      be_GetRun = postgres_GetRun, be_ListRuns = postgres_ListRuns,
      be_AppendEvents = postgres_AppendEvents, be_ListEventsByRun = postgres_ListEventsByRun,
      be_EventCount = postgres_EventCount, be_LoadBaseline = postgres_LoadBaseline,
      be_MergeBaseline = postgres_MergeBaseline, be_MarkRunBaseline = postgres_MarkRunBaseline,
      be_WriteDeviations = postgres_WriteDeviations,
      be_DeleteDeviationsForRun = postgres_DeleteDeviationsForRun,
      be_ListDeviations = postgres_ListDeviations coll,
      be_ListDeviationsFiltered = postgres_ListDeviationsFiltered coll,
      be_GetDeviation = postgres_GetDeviation, be_GetEvent = postgres_GetEvent,
      be_ListPackages = postgres_ListPackages coll, be_ListRunsByPackage = postgres_ListRunsByPackage coll,
      be_ResolveRunPrefix = postgres_ResolveRunPrefix,
      be_ResolveDeviationPrefix = postgres_ResolveDeviationPrefix,
      be_AddWatchedPackage = postgres_AddWatchedPackage,
      be_RemoveWatchedPackage = postgres_RemoveWatchedPackage,
      be_ListWatchedPackages = postgres_ListWatchedPackages coll,
      be_UpdatePackageCheck = postgres_UpdatePackageCheck,
      be_RecordRelease = postgres_RecordRelease,
      be_ListReleasesByPackage = postgres_ListReleasesByPackage,
      be_RecordScanResult = postgres_RecordScanResult,
      be_EventsDroppedTotal = postgres_EventsDroppedTotal, be_PruneEvents = postgres_PruneEvents,
      be_AddAllowEntry = postgres_AddAllowEntry, be_ListAllowEntries = postgres_ListAllowEntries coll,
      be_DeleteAllowEntry = postgres_DeleteAllowEntry, be_ResolveAllowPrefix = postgres_ResolveAllowPrefix,
      be_UpsertNotifier = postgres_UpsertNotifier, be_ListNotifiers = postgres_ListNotifiers coll,
      be_GetNotifier = postgres_GetNotifier, be_DeleteNotifier = postgres_DeleteNotifier,
      be_RecordNotification = postgres_RecordNotification,
      be_ListNotificationsByRun = postgres_ListNotificationsByRun\<rparr>"

lemma postgres_Backend_sel [simp]:
  "be_CreateRun (postgres_Backend coll) = postgres_CreateRun"
  "be_UpdateRunState (postgres_Backend coll) = postgres_UpdateRunState"
  "be_GetRun (postgres_Backend coll) = postgres_GetRun"
  "be_ListRuns (postgres_Backend coll) = postgres_ListRuns"
  "be_AppendEvents (postgres_Backend coll) = postgres_AppendEvents"
  "be_ListEventsByRun (postgres_Backend coll) = postgres_ListEventsByRun"
  "be_EventCount (postgres_Backend coll) = postgres_EventCount"
  "be_LoadBaseline (postgres_Backend coll) = postgres_LoadBaseline"
  "be_MergeBaseline (postgres_Backend coll) = postgres_MergeBaseline"
  "be_MarkRunBaseline (postgres_Backend coll) = postgres_MarkRunBaseline"
  "be_WriteDeviations (postgres_Backend coll) = postgres_WriteDeviations"
  "be_DeleteDeviationsForRun (postgres_Backend coll) = postgres_DeleteDeviationsForRun"
  "be_ListDeviations (postgres_Backend coll) = postgres_ListDeviations coll"
  "be_ListDeviationsFiltered (postgres_Backend coll) = postgres_ListDeviationsFiltered coll"
  "be_GetDeviation (postgres_Backend coll) = postgres_GetDeviation"
  "be_GetEvent (postgres_Backend coll) = postgres_GetEvent"
  "be_ListPackages (postgres_Backend coll) = postgres_ListPackages coll"
  "be_ListRunsByPackage (postgres_Backend coll) = postgres_ListRunsByPackage coll"
  "be_ResolveRunPrefix (postgres_Backend coll) = postgres_ResolveRunPrefix"
  "be_ResolveDeviationPrefix (postgres_Backend coll) = postgres_ResolveDeviationPrefix"
  "be_AddWatchedPackage (postgres_Backend coll) = postgres_AddWatchedPackage"
  "be_RemoveWatchedPackage (postgres_Backend coll) = postgres_RemoveWatchedPackage"
  "be_ListWatchedPackages (postgres_Backend coll) = postgres_ListWatchedPackages coll"
  "be_UpdatePackageCheck (postgres_Backend coll) = postgres_UpdatePackageCheck"
  "be_RecordRelease (postgres_Backend coll) = postgres_RecordRelease"
  "be_ListReleasesByPackage (postgres_Backend coll) = postgres_ListReleasesByPackage"
  "be_RecordScanResult (postgres_Backend coll) = postgres_RecordScanResult"
  "be_EventsDroppedTotal (postgres_Backend coll) = postgres_EventsDroppedTotal"
  "be_PruneEvents (postgres_Backend coll) = postgres_PruneEvents"
  "be_AddAllowEntry (postgres_Backend coll) = postgres_AddAllowEntry"
  "be_ListAllowEntries (postgres_Backend coll) = postgres_ListAllowEntries coll"
  "be_DeleteAllowEntry (postgres_Backend coll) = postgres_DeleteAllowEntry"
  "be_ResolveAllowPrefix (postgres_Backend coll) = postgres_ResolveAllowPrefix"
  "be_UpsertNotifier (postgres_Backend coll) = postgres_UpsertNotifier"
  "be_ListNotifiers (postgres_Backend coll) = postgres_ListNotifiers coll"
  "be_GetNotifier (postgres_Backend coll) = postgres_GetNotifier"
  "be_DeleteNotifier (postgres_Backend coll) = postgres_DeleteNotifier"
  "be_RecordNotification (postgres_Backend coll) = postgres_RecordNotification"
  "be_ListNotificationsByRun (postgres_Backend coll) = postgres_ListNotificationsByRun"
  by (simp_all add: postgres_Backend_def)

end
