(* ===== verification/Postgres_Inv.thy ===== *)
theory Postgres_Inv
  imports Postgres Schema_Inv
begin

text \<open>
  Every operation of the Postgres backend keeps the integrity of the tables, the validity of
  the texts runs are found by, the range of the counts and the form of the payloads, whatever
  fails underneath; the reachable databases.
\<close>

section \<open>Integrity\<close>

definition pg_rows_ok :: "pg_tables \<Rightarrow> bool" where
  "pg_rows_ok t \<longleftrightarrow>
     (\<forall>r\<in>set (t_runs t). pg_text (rn_id r) \<and> pg_text (rn_package_name r)) \<and>
     (\<forall>b\<in>set (t_baseline t). int4 (bl_OccurrenceCount b)) \<and>
     (\<forall>e\<in>set (t_events t). ev_Data e \<noteq> None)"

definition pg_ok :: "pg_tables \<Rightarrow> bool" where
  "pg_ok t \<longleftrightarrow> tables_ok t \<and> pg_rows_ok t"

lemma empty_pg_ok: "pg_ok empty_tables"
  by (simp add: pg_ok_def pg_rows_ok_def empty_tables_ok) (simp add: empty_tables_def)

lemma pg_ok_seq: "pg_ok t \<Longrightarrow> t_seq t \<le> n \<Longrightarrow> pg_ok (t\<lparr>t_seq := n\<rparr>)"
  by (fastforce simp: pg_ok_def pg_rows_ok_def tables_ok_def ok_defs)

text \<open>A statement that leaves runs, baseline and events alone.\<close>

lemma pg_ok_other:
  "tables_ok t' \<Longrightarrow> t_runs t' = t_runs t \<Longrightarrow> t_baseline t' = t_baseline t \<Longrightarrow> t_events t' = t_events t \<Longrightarrow>
   pg_ok t \<Longrightarrow> pg_ok t'"
  by (simp add: pg_ok_def pg_rows_ok_def)

section \<open>Running a statement\<close>

lemma pg_stmt_ok:
  assumes "pg_ok (db_tab db)"
    and "\<And>x t'. list_all pg_text ps \<Longrightarrow> list_all int4 ns \<Longrightarrow> f (db_tab db) = Inr (x, t') \<Longrightarrow> pg_ok t'"
  shows "pg_ok (db_tab (snd (pg_stmt ps ns f db)))"
proof -
  obtain res db' where s: "pg_stmt ps ns f db = (res, db')" by fastforce
  then show ?thesis
    using assms unfolding pg_stmt_def
    by (auto elim!: stmt_cases split: if_splits) (cases "f (db_tab db)"; auto)
qed

lemma pg_query_tab [simp]: "db_tab (snd (pg_query ps g db)) = db_tab db"
  by (auto simp: pg_query_def pg_stmt_def stmt_def Let_def split: prod.splits)

lemma pg_query_row_tab [simp]: "db_tab (snd (pg_query_row ps g db)) = db_tab db"
  by (auto simp: pg_query_row_def pg_stmt_def stmt_def Let_def split: prod.splits option.splits sum.splits)

definition keeps_seq :: "(pg_tables \<Rightarrow> 'r \<Rightarrow> err option \<times> pg_tables) \<Rightarrow> bool" where
  "keeps_seq f \<longleftrightarrow> (\<forall>t r. t_seq t \<le> t_seq (snd (f t r)))"

lemma pg_tx_loop_seq:
  "keeps_seq f \<Longrightarrow> pg_tx_loop f m rs t fs = (e, t', fs') \<Longrightarrow> t_seq t \<le> t_seq t'"
proof (induction rs arbitrary: t fs)
  case (Cons r rs)
  have "t_seq t \<le> t_seq (snd (f t r))" using Cons.prems(1) by (simp add: keeps_seq_def)
  then show ?case
    using Cons.prems(2) Cons.IH [OF Cons.prems(1), of "snd (f t r)"]
    by (auto split: prod.splits if_splits option.splits intro: order_trans)
qed (auto split: prod.splits)

lemma pg_tx_loop_ok:
  "pg_ok t \<Longrightarrow> (\<And>t r t'. r \<in> set rs \<Longrightarrow> pg_ok t \<Longrightarrow> f t r = (None, t') \<Longrightarrow> pg_ok t') \<Longrightarrow>
   pg_tx_loop f m rs t fs = (None, t', fs') \<Longrightarrow> pg_ok t'"
proof (induction rs arbitrary: t fs)
  case (Cons r rs)
  then obtain u fs1 where u: "f t r = (None, u)" "pg_tx_loop f m rs u fs1 = (None, t', fs')"
    by (auto split: prod.splits if_splits option.splits)
  moreover have "pg_ok u" using Cons.prems(1,2) u(1) by (meson list.set_intros(1))
  ultimately show ?case using Cons.IH Cons.prems(2) by (meson list.set_intros(2))
qed (auto split: prod.splits if_splits)

lemma pg_in_tx_ok:
  assumes "pg_ok (db_tab db)" "keeps_seq f"
    and "\<And>t r t'. r \<in> set rs \<Longrightarrow> pg_ok t \<Longrightarrow> f t r = (None, t') \<Longrightarrow> pg_ok t'"
  shows "pg_ok (db_tab (snd (pg_in_tx f m rs db)))"
proof -
  have "pg_ok (t\<lparr>t_seq := t_seq t'\<rparr>)" if "t = db_tab db" "pg_tx_loop f m rs t fs = (e, t', fs')" for t e t' fs fs'
    using pg_ok_seq [OF assms(1)] pg_tx_loop_seq [OF assms(2) that(2)] that(1) by simp
  moreover have "pg_ok t'" if "pg_tx_loop f m rs (db_tab db) fs = (None, t', fs')" for t' fs fs'
    using pg_tx_loop_ok [OF assms(1) assms(3) that] .
  ultimately show ?thesis
    using assms(1) by (auto simp: pg_in_tx_def split: prod.splits option.splits)
qed

lemma failing_None: "failing f t r = (None, t') \<longleftrightarrow> f t r = Inr t'"
  by (auto simp: failing_def split: sum.splits)

lemma keeps_seq_failing: "(\<And>t r t'. f t r = Inr t' \<Longrightarrow> t_seq t' = t_seq t) \<Longrightarrow> keeps_seq (failing f)"
  by (auto simp: keeps_seq_def failing_def split: sum.splits)

section \<open>Operations keep it\<close>

lemma pg_update_runs_ok:
  assumes "pg_ok (db_tab db)" "\<And>r. rn_id (f r) = rn_id r" "\<And>r. rn_package_name (f r) = rn_package_name r"
    and "\<And>r. RunState_IsValid (rn_state r) \<Longrightarrow> RunState_IsValid (rn_state (f r))"
  shows "pg_ok (db_tab (snd (pg_stmt ps ns (update_runs i f) db)))"
proof (rule pg_stmt_ok [OF assms(1)])
  fix x t' assume u: "update_runs i f (db_tab db) = Inr (x, t')"
  then have "tables_ok t'" using assms by (auto simp: pg_ok_def intro: update_runs_ok)
  then show "pg_ok t'"
    using u assms(1) by (auto simp: update_runs_def pg_ok_def pg_rows_ok_def set_upd_where assms(2,3))
qed

lemma pg_CreateRun_ok: "pg_ok (db_tab db) \<Longrightarrow> pg_ok (db_tab (snd (postgres_CreateRun now r db)))"
proof -
  assume a: "pg_ok (db_tab db)"
  define q where "q = (if run_StartedAt r = None then r\<lparr>run_StartedAt := Some now\<rparr> else r)"
  have "pg_ok (db_tab (snd (pg_stmt (run_texts q) [run_Attempt q] (insert_run (pg_encode_run q)) db)))"
    if "RunState_IsValid (run_State r)"
  proof (rule pg_stmt_ok [OF a])
    fix x t' assume t: "list_all pg_text (run_texts q)" "insert_run (pg_encode_run q) (db_tab db) = Inr (x, t')"
    have "RunState_IsValid (rn_state (pg_encode_run q))" using that by (simp add: pg_encode_run_def q_def)
    then have "tables_ok t'" using t(2) a insert_run_ok by (simp add: pg_ok_def) blast
    then show "pg_ok t'"
      using t a by (auto simp: insert_run_def pg_ok_def pg_rows_ok_def run_texts_def pg_encode_run_def split: if_splits)
  qed
  then show ?thesis
    using a by (simp add: postgres_CreateRun_def q_def [symmetric] Let_def case_prod_beta split: sum.split)
qed

lemma pg_UpdateRunState_ok: "pg_ok (db_tab db) \<Longrightarrow> pg_ok (db_tab (snd (postgres_UpdateRunState now i st reason db)))"
  by (simp add: postgres_UpdateRunState_def set_state_def pg_update_runs_ok)

lemma pg_RecordScanResult_ok: "pg_ok (db_tab db) \<Longrightarrow> pg_ok (db_tab (snd (postgres_RecordScanResult now i sr db)))"
  by (simp add: postgres_RecordScanResult_def set_result_def pg_update_runs_ok)

lemma pg_MarkRunBaseline_ok: "pg_ok (db_tab db) \<Longrightarrow> pg_ok (db_tab (snd (postgres_MarkRunBaseline i b db)))"
  by (simp add: postgres_MarkRunBaseline_def pg_update_runs_ok)

lemma pg_insert_event_keeps:
  "keeps_seq (pg_insert_event i)"
  "pg_ok t \<Longrightarrow> pg_insert_event i t e = (None, t') \<Longrightarrow> pg_ok t'"
proof -
  show "keeps_seq (pg_insert_event i)"
    by (auto simp: keeps_seq_def pg_insert_event_def insert_event_def split: sum.split)
  assume a: "pg_ok t" "pg_insert_event i t e = (None, t')"
  then obtain d where d: "insert_event i t (e\<lparr>ev_Data := Some d\<rparr>) = Inr t'"
    by (auto simp: pg_insert_event_def split: if_splits sum.splits)
  then have "tables_ok t'" using a(1) insert_event_ok by (simp add: pg_ok_def) blast
  then show "pg_ok t'"
    using d a(1) by (auto simp: pg_ok_def pg_rows_ok_def insert_event_def split: if_splits)
qed

lemma ball_upd_where:
  "\<forall>r\<in>set rs. Q r \<Longrightarrow> (\<And>r. r \<in> set rs \<Longrightarrow> p r \<Longrightarrow> Q (f r)) \<Longrightarrow> \<forall>r\<in>set (upd_where p f rs). Q r"
  by (auto simp: set_upd_where)

lemma pg_upsert_cases:
  assumes "pg_upsert_baseline i t r = Inr t'"
  shows "upsert_baseline i t r = Inr t'" "t_seq t' = t_seq t"
    "\<forall>b\<in>set (t_baseline t). int4 (bl_OccurrenceCount b) \<Longrightarrow> distinct (map bl_key (t_baseline t)) \<Longrightarrow>
     \<forall>b\<in>set (t_baseline t'). int4 (bl_OccurrenceCount b)"
proof -
  show u: "upsert_baseline i t r = Inr t'"
    using assms by (auto simp: pg_upsert_baseline_def Let_def split: if_splits option.splits)
  then show "t_seq t' = t_seq t"
    by (auto simp: upsert_baseline_def Let_def split: if_splits)
  assume a: "\<forall>b\<in>set (t_baseline t). int4 (bl_OccurrenceCount b)" "distinct (map bl_key (t_baseline t))"
  let ?r = "fill_baseline_row i r"
  have c: "int4 (bl_OccurrenceCount ?r)"
    using assms by (auto simp: pg_upsert_baseline_def Let_def split: if_splits)
  show "\<forall>b\<in>set (t_baseline t'). int4 (bl_OccurrenceCount b)"
  proof (cases "find (\<lambda>b. bl_key b = bl_key ?r) (t_baseline t)")
    case None
    then have "bl_key ?r \<notin> bl_key ` set (t_baseline t)" using find_None_not_in [of "\<lambda>b. bl_key b" "bl_key ?r" "t_baseline t"] by blast
    then have "t' = t\<lparr>t_baseline := t_baseline t @ [?r]\<rparr>"
      using u unfolding upsert_baseline_def Let_def by simp
    then show ?thesis using a(1) c by simp
  next
    case (Some b0)
    then have m: "b0 \<in> set (t_baseline t)" "bl_key b0 = bl_key ?r"
      using find_Some_in [OF Some] by blast+
    have n: "int4 (bl_OccurrenceCount b0 + bl_OccurrenceCount ?r)"
      using assms Some unfolding pg_upsert_baseline_def Let_def by (simp split: if_splits)
    have one: "b = b0" if "b \<in> set (t_baseline t)" "bl_key b = bl_key ?r" for b
      using inj_on_key [OF a(2) that(1) m(1)] that(2) m(2) by argo
    have "bl_key ?r \<in> bl_key ` set (t_baseline t)" unfolding m(2) [symmetric] using m(1) by (rule imageI)
    then have t': "t' = t\<lparr>t_baseline := upd_where (\<lambda>b. bl_key b = bl_key ?r)
        (\<lambda>b. b\<lparr>bl_LastSeenRunID := bl_LastSeenRunID ?r,
               bl_OccurrenceCount := bl_OccurrenceCount b + bl_OccurrenceCount ?r\<rparr>) (t_baseline t)\<rparr>"
      using u unfolding upsert_baseline_def Let_def by simp
    have "int4 (bl_OccurrenceCount b + bl_OccurrenceCount ?r)" if "b \<in> set (t_baseline t)" "bl_key b = bl_key ?r" for b
      using one [OF that] n by simp
    then have "\<forall>b\<in>set (upd_where (\<lambda>b. bl_key b = bl_key ?r) (\<lambda>b. b\<lparr>bl_LastSeenRunID := bl_LastSeenRunID ?r,
        bl_OccurrenceCount := bl_OccurrenceCount b + bl_OccurrenceCount ?r\<rparr>) (t_baseline t)). int4 (bl_OccurrenceCount b)"
      by (intro ball_upd_where [OF a(1)]) simp
    then show ?thesis by (simp add: t')
  qed
qed

lemma pg_upsert_ok: "pg_ok t \<Longrightarrow> pg_upsert_baseline i t r = Inr t' \<Longrightarrow> pg_ok t'"
proof -
  assume a: "pg_ok t" "pg_upsert_baseline i t r = Inr t'"
  note c = pg_upsert_cases [OF a(2)]
  have ok: "tables_ok t'" using a(1) upsert_baseline_ok [OF _ c(1)] by (simp add: pg_ok_def)
  have "t_runs t' = t_runs t" "t_events t' = t_events t"
    using c(1) by (auto simp: upsert_baseline_def Let_def split: if_splits)
  then show "pg_ok t'"
    using ok a(1) c(3) by (auto simp: pg_ok_def pg_rows_ok_def tables_ok_def baseline_ok_def)
qed

lemma pg_insert_deviation_ok: "pg_ok t \<Longrightarrow> pg_insert_deviation t r = Inr t' \<Longrightarrow> pg_ok t'"
proof -
  assume a: "pg_ok t" "pg_insert_deviation t r = Inr t'"
  then have d: "add_deviation (pg_encode_deviation r) t = Inr t'"
    by (auto simp: pg_insert_deviation_def split: if_splits)
  then have "tables_ok t'" using a(1) add_deviation_ok by (simp add: pg_ok_def) blast
  then show "pg_ok t'"
    by (rule pg_ok_other) (use d a(1) in \<open>auto simp: add_deviation_def split: if_splits\<close>)
qed

lemma pg_tx_ops_ok:
  assumes "pg_ok (db_tab db)"
  shows "pg_ok (db_tab (snd (postgres_AppendEvents i es db)))"
    and "pg_ok (db_tab (snd (postgres_MergeBaseline i bs db)))"
    and "pg_ok (db_tab (snd (postgres_WriteDeviations ds db)))"
proof -
  have "pg_ok (db_tab (snd (pg_in_tx (pg_insert_event i) m es db)))" for m
    by (rule pg_in_tx_ok [OF assms pg_insert_event_keeps(1)]) (rule pg_insert_event_keeps(2))
  then show "pg_ok (db_tab (snd (postgres_AppendEvents i es db)))"
    using assms by (simp add: postgres_AppendEvents_def)
  have "keeps_seq (failing (pg_upsert_baseline i))" by (rule keeps_seq_failing) (rule pg_upsert_cases(2))
  from pg_in_tx_ok [OF assms this] have "pg_ok (db_tab (snd (pg_in_tx (failing (pg_upsert_baseline i)) m bs db)))" for m
    using pg_upsert_ok by (auto simp: failing_None)
  then show "pg_ok (db_tab (snd (postgres_MergeBaseline i bs db)))"
    using assms by (simp add: postgres_MergeBaseline_def)
  have "keeps_seq (failing pg_insert_deviation)"
    by (rule keeps_seq_failing) (auto simp: pg_insert_deviation_def add_deviation_def split: if_splits)
  from pg_in_tx_ok [OF assms this] have "pg_ok (db_tab (snd (pg_in_tx (failing pg_insert_deviation) m ds db)))" for m
    using pg_insert_deviation_ok by (auto simp: failing_None)
  then show "pg_ok (db_tab (snd (postgres_WriteDeviations ds db)))"
    using assms by (simp add: postgres_WriteDeviations_def)
qed

text \<open>The statements that touch other tables only.\<close>

lemma pg_other_stmt_ok:
  assumes "pg_ok (db_tab db)"
    and "\<And>x t'. f (db_tab db) = Inr (x, t') \<Longrightarrow> tables_ok t' \<and> t_runs t' = t_runs (db_tab db) \<and>
      t_baseline t' = t_baseline (db_tab db) \<and> t_events t' = t_events (db_tab db)"
  shows "pg_ok (db_tab (snd (pg_stmt ps ns f db)))"
  using assms by (intro pg_stmt_ok) (auto intro: pg_ok_other [OF _ _ _ _ assms(1)])

lemma pg_package_ops_ok:
  assumes "pg_ok (db_tab db)"
  shows "pg_ok (db_tab (snd (postgres_AddWatchedPackage now p db)))"
    and "pg_ok (db_tab (snd (postgres_RemoveWatchedPackage p db)))"
    and "pg_ok (db_tab (snd (postgres_UpdatePackageCheck now p v db)))"
    and "pg_ok (db_tab (snd (postgres_RecordRelease r db)))"
proof -
  have ok: "tables_ok (db_tab db)" using assms by (simp add: pg_ok_def)
  show "pg_ok (db_tab (snd (postgres_AddWatchedPackage now p db)))"
    unfolding postgres_AddWatchedPackage_def using ok insert_package_ok
    by (intro pg_other_stmt_ok [OF assms]) (fastforce simp: insert_package_def split: if_splits)
  show "pg_ok (db_tab (snd (postgres_RemoveWatchedPackage p db)))"
    unfolding postgres_RemoveWatchedPackage_def must_affect_snd
  proof (rule pg_other_stmt_ok [OF assms])
    fix x t' assume d: "delete_package p (db_tab db) = Inr (x, t')"
    then show "tables_ok t' \<and> t_runs t' = t_runs (db_tab db) \<and> t_baseline t' = t_baseline (db_tab db) \<and> t_events t' = t_events (db_tab db)"
      using delete_package_ok [OF ok d] by (simp add: delete_package_def split: if_splits) auto
  qed
  show "pg_ok (db_tab (snd (postgres_UpdatePackageCheck now p v db)))"
    unfolding postgres_UpdatePackageCheck_def using ok
    by (auto intro!: pg_other_stmt_ok [OF assms] update_packages_ok)
  show "pg_ok (db_tab (snd (postgres_RecordRelease r db)))"
    unfolding postgres_RecordRelease_def
  proof (rule pg_other_stmt_ok [OF assms])
    fix x t' assume d: "add_release (pg_encode_release r) (db_tab db) = Inr (x, t')"
    then show "tables_ok t' \<and> t_runs t' = t_runs (db_tab db) \<and> t_baseline t' = t_baseline (db_tab db) \<and> t_events t' = t_events (db_tab db)"
      using add_release_ok [OF ok d] by (auto simp: add_release_def split: if_splits)
  qed
qed

lemma pg_other_ops_ok:
  assumes "pg_ok (db_tab db)"
  shows "pg_ok (db_tab (snd (postgres_DeleteDeviationsForRun i db)))"
    and "pg_ok (db_tab (snd (postgres_AddAllowEntry now al db)))"
    and "pg_ok (db_tab (snd (postgres_DeleteAllowEntry i db)))"
    and "pg_ok (db_tab (snd (postgres_UpsertNotifier now nt db)))"
    and "pg_ok (db_tab (snd (postgres_DeleteNotifier p db)))"
    and "pg_ok (db_tab (snd (postgres_RecordNotification now nf db)))"
proof -
  have ok: "tables_ok (db_tab db)" using assms by (simp add: pg_ok_def)
  show "pg_ok (db_tab (snd (postgres_DeleteDeviationsForRun i db)))"
    unfolding postgres_DeleteDeviationsForRun_def using ok
    by (auto intro!: pg_other_stmt_ok [OF assms] delete_deviations_ok)
  show "pg_ok (db_tab (snd (postgres_AddAllowEntry now al db)))"
    unfolding postgres_AddAllowEntry_def wrap_err_snd using ok insert_allow_ok
    by (intro pg_other_stmt_ok [OF assms]) (fastforce simp: insert_allow_def split: if_splits)
  show "pg_ok (db_tab (snd (postgres_DeleteAllowEntry i db)))"
    unfolding postgres_DeleteAllowEntry_def using ok
    by (auto intro!: pg_other_stmt_ok [OF assms] delete_allow_ok)
  show "pg_ok (db_tab (snd (postgres_UpsertNotifier now nt db)))"
    unfolding postgres_UpsertNotifier_def using ok upsert_notifier_ok
    by (intro pg_other_stmt_ok [OF assms]) (fastforce simp: upsert_notifier_def split: if_splits)
  show "pg_ok (db_tab (snd (postgres_DeleteNotifier p db)))"
    unfolding postgres_DeleteNotifier_def using ok
    by (intro pg_other_stmt_ok [OF assms]) (auto simp: delete_notifier_ok, auto simp: delete_notifier_def)
  show "pg_ok (db_tab (snd (postgres_RecordNotification now nf db)))"
    unfolding postgres_RecordNotification_def using ok insert_notification_ok
    by (intro pg_other_stmt_ok [OF assms]) (fastforce simp: insert_notification_def split: if_splits)
qed

lemma pg_PruneEvents_ok: "pg_ok (db_tab db) \<Longrightarrow> pg_ok (db_tab (snd (postgres_PruneEvents c db)))"
  unfolding postgres_PruneEvents_def wrap_err_snd
proof (rule pg_stmt_ok, assumption)
  fix x t' assume a: "pg_ok (db_tab db)" "delete_events c (db_tab db) = Inr (x, t')"
  then have "tables_ok t'" using delete_events_ok by (simp add: pg_ok_def) blast
  then show "pg_ok t'"
    using a by (auto simp: delete_events_def Let_def pg_ok_def pg_rows_ok_def)
qed

lemma pg_EventsDroppedTotal_ok: "pg_ok (db_tab db) \<Longrightarrow> pg_ok (db_tab (snd (postgres_EventsDroppedTotal db)))"
  unfolding postgres_EventsDroppedTotal_def wrap_err_snd
  by (rule pg_stmt_ok, assumption) (auto simp: Let_def split: if_splits)

lemma pg_resolve_tab [simp]: "db_tab (snd (pg_resolve p g db)) = db_tab db"
proof -
  obtain q db1 where q: "pg_query [p @ ''%''] g db = (q, db1)" by (metis prod.exhaust)
  then have "db_tab db1 = db_tab db" using pg_query_tab by (metis snd_conv)
  with q show ?thesis by (auto simp: pg_resolve_def split: sum.split list.split)
qed

lemma pg_decorate_tab: "db_tab (snd (pg_decorate coll p db)) = db_tab db"
proof -
  obtain q db1 where q: "pg_query_row [ps_Name p] (pg_latest_run coll (ps_Name p)) db = (q, db1)" by (metis prod.exhaust)
  then have 1: "db_tab db1 = db_tab db" using pg_query_row_tab by (metis snd_conv)
  show ?thesis
  proof (cases q)
    case (Inr r)
    then show ?thesis
      using q 1 pg_query_tab [of "[rn_id r]" "\<lambda>t. int (length (filter (\<lambda>d. de_run_id d = rn_id r) (t_deviations t)))" db1]
      by (simp add: pg_decorate_def case_prod_beta)
  qed (use q 1 in \<open>simp add: pg_decorate_def\<close>)
qed

lemma pg_decorate_all_tab: "db_tab (snd (pg_decorate_all coll ps db)) = db_tab db"
  by (induction ps arbitrary: db) (simp_all add: pg_decorate_tab case_prod_beta Let_def)

lemma pg_ListPackages_tab: "db_tab (snd (postgres_ListPackages coll db)) = db_tab db"
proof -
  obtain q db1 where q: "pg_query [] (pg_package_totals coll) db = (q, db1)" by (metis prod.exhaust)
  then have "db_tab db1 = db_tab db" using pg_query_tab by (metis snd_conv)
  with q show ?thesis
    by (cases q) (simp_all add: postgres_ListPackages_def case_prod_beta Let_def pg_decorate_all_tab)
qed

section \<open>Reachable databases\<close>

inductive postgres_step :: "(string \<Rightarrow> string) \<Rightarrow> postgres \<Rightarrow> postgres \<Rightarrow> bool" where
  PgCreateRun: "postgres_step coll db (snd (be_CreateRun (postgres_Backend coll) now r db))"
| PgUpdateRunState: "postgres_step coll db (snd (be_UpdateRunState (postgres_Backend coll) now i st reason db))"
| PgGetRun: "postgres_step coll db (snd (be_GetRun (postgres_Backend coll) i db))"
| PgListRuns: "postgres_step coll db (snd (be_ListRuns (postgres_Backend coll) n db))"
| PgAppendEvents: "postgres_step coll db (snd (be_AppendEvents (postgres_Backend coll) i es db))"
| PgListEventsByRun: "postgres_step coll db (snd (be_ListEventsByRun (postgres_Backend coll) i n db))"
| PgEventCount: "postgres_step coll db (snd (be_EventCount (postgres_Backend coll) i db))"
| PgLoadBaseline: "postgres_step coll db (snd (be_LoadBaseline (postgres_Backend coll) p db))"
| PgMergeBaseline: "postgres_step coll db (snd (be_MergeBaseline (postgres_Backend coll) i bs db))"
| PgMarkRunBaseline: "postgres_step coll db (snd (be_MarkRunBaseline (postgres_Backend coll) i b db))"
| PgWriteDeviations: "postgres_step coll db (snd (be_WriteDeviations (postgres_Backend coll) ds db))"
| PgDeleteDeviationsForRun: "postgres_step coll db (snd (be_DeleteDeviationsForRun (postgres_Backend coll) i db))"
| PgListDeviations: "postgres_step coll db (snd (be_ListDeviations (postgres_Backend coll) i db))"
| PgListDeviationsFiltered: "postgres_step coll db (snd (be_ListDeviationsFiltered (postgres_Backend coll) f db))"
| PgGetDeviation: "postgres_step coll db (snd (be_GetDeviation (postgres_Backend coll) i db))"
| PgGetEvent: "postgres_step coll db (snd (be_GetEvent (postgres_Backend coll) ei db))"
| PgListPackages: "postgres_step coll db (snd (be_ListPackages (postgres_Backend coll) db))"
| PgListRunsByPackage: "postgres_step coll db (snd (be_ListRunsByPackage (postgres_Backend coll) p n db))"
| PgResolveRunPrefix: "postgres_step coll db (snd (be_ResolveRunPrefix (postgres_Backend coll) p db))"
| PgResolveDeviationPrefix: "postgres_step coll db (snd (be_ResolveDeviationPrefix (postgres_Backend coll) p db))"
| PgAddWatchedPackage: "postgres_step coll db (snd (be_AddWatchedPackage (postgres_Backend coll) now p db))"
| PgRemoveWatchedPackage: "postgres_step coll db (snd (be_RemoveWatchedPackage (postgres_Backend coll) p db))"
| PgListWatchedPackages: "postgres_step coll db (snd (be_ListWatchedPackages (postgres_Backend coll) db))"
| PgUpdatePackageCheck: "postgres_step coll db (snd (be_UpdatePackageCheck (postgres_Backend coll) now p v db))"
| PgRecordRelease: "postgres_step coll db (snd (be_RecordRelease (postgres_Backend coll) rel db))"
| PgListReleasesByPackage: "postgres_step coll db (snd (be_ListReleasesByPackage (postgres_Backend coll) p n db))"
| PgRecordScanResult: "postgres_step coll db (snd (be_RecordScanResult (postgres_Backend coll) now i sr db))"
| PgEventsDroppedTotal: "postgres_step coll db (snd (be_EventsDroppedTotal (postgres_Backend coll) db))"
| PgPruneEvents: "postgres_step coll db (snd (be_PruneEvents (postgres_Backend coll) c db))"
| PgAddAllowEntry: "postgres_step coll db (snd (be_AddAllowEntry (postgres_Backend coll) now al db))"
| PgListAllowEntries: "postgres_step coll db (snd (be_ListAllowEntries (postgres_Backend coll) db))"
| PgDeleteAllowEntry: "postgres_step coll db (snd (be_DeleteAllowEntry (postgres_Backend coll) i db))"
| PgResolveAllowPrefix: "postgres_step coll db (snd (be_ResolveAllowPrefix (postgres_Backend coll) p db))"
| PgUpsertNotifier: "postgres_step coll db (snd (be_UpsertNotifier (postgres_Backend coll) now nt db))"
| PgListNotifiers: "postgres_step coll db (snd (be_ListNotifiers (postgres_Backend coll) db))"
| PgGetNotifier: "postgres_step coll db (snd (be_GetNotifier (postgres_Backend coll) p db))"
| PgDeleteNotifier: "postgres_step coll db (snd (be_DeleteNotifier (postgres_Backend coll) p db))"
| PgRecordNotification: "postgres_step coll db (snd (be_RecordNotification (postgres_Backend coll) now nf db))"
| PgListNotificationsByRun: "postgres_step coll db (snd (be_ListNotificationsByRun (postgres_Backend coll) i db))"

lemmas pg_op_ok = pg_CreateRun_ok pg_UpdateRunState_ok pg_RecordScanResult_ok pg_MarkRunBaseline_ok
  pg_tx_ops_ok pg_package_ops_ok pg_other_ops_ok pg_PruneEvents_ok pg_EventsDroppedTotal_ok pg_ListPackages_tab

lemmas pg_read_ops = postgres_GetRun_def postgres_ListRuns_def postgres_ListEventsByRun_def postgres_EventCount_def
  postgres_GetEvent_def postgres_LoadBaseline_def postgres_ListDeviations_def postgres_ListDeviationsFiltered_def
  postgres_GetDeviation_def postgres_ListRunsByPackage_def postgres_ListWatchedPackages_def
  postgres_ListReleasesByPackage_def postgres_ResolveRunPrefix_def postgres_ResolveDeviationPrefix_def
  postgres_ResolveAllowPrefix_def postgres_ListAllowEntries_def postgres_ListNotifiers_def
  postgres_GetNotifier_def postgres_ListNotificationsByRun_def

lemma postgres_step_ok: "postgres_step coll db db' \<Longrightarrow> pg_ok (db_tab db) \<Longrightarrow> pg_ok (db_tab db')"
  by (induction rule: postgres_step.induct) (simp_all add: pg_op_ok, simp_all add: pg_read_ops Let_def)

inductive postgres_reachable :: "(string \<Rightarrow> string) \<Rightarrow> postgres \<Rightarrow> bool" where
  pg_opened: "postgres_reachable coll \<lparr>db_tab = empty_tables, db_faults = fs\<rparr>"
| pg_stepped: "postgres_reachable coll db \<Longrightarrow> postgres_step coll db db' \<Longrightarrow> postgres_reachable coll db'"

lemma postgres_reachable_ok: "postgres_reachable coll db \<Longrightarrow> pg_ok (db_tab db)"
  by (induction rule: postgres_reachable.induct) (auto simp: empty_pg_ok intro: postgres_step_ok)

end
