(* ===== verification/Postgres_Store.thy ===== *)
theory Postgres_Store
  imports Schema_View Postgres_Inv
begin

text \<open>
  The Postgres backend keeps the differ's contract too, for every collation: it takes the
  texts its encoding takes and the counts an \<open>INTEGER\<close> column holds.
\<close>

abbreviation pg_allow :: "(string \<Rightarrow> string) \<Rightarrow> int allow_cols list \<Rightarrow> AllowEntry list" where
  "pg_allow coll as \<equiv> map scanAllowEntryPg (order_by
     (\<lambda>r. (pg_key coll (aw_scope r), pg_key coll (NullString (aw_package_name r)), pg_key coll (aw_kind r),
           pg_key coll (aw_value r))) as)"

abbreviation pg_view :: "(string \<Rightarrow> string) \<Rightarrow> pg_tables \<Rightarrow> store_view" where
  "pg_view coll \<equiv> tables_view pg_scanRun (pg_allow coll)"

abbreviation pg_integ :: "postgres \<Rightarrow> bool" where
  "pg_integ db \<equiv> pg_ok (db_tab db)"

lemma pg_encodes_deviation: "encodes_dev pg_encode_deviation"
  by (simp add: encodes_dev_def dev_cols_def dev_entry_def pg_encode_deviation_def)

lemma pg_view_seq [simp]: "tables_view scan al (t\<lparr>t_seq := n\<rparr>) = tables_view scan al t"
  by (simp add: tables_view_def)

section \<open>Statements\<close>

lemma pg_stmt_outcome:
  assumes "pg_stmt ps ns f db = (res, db')"
  shows "reliable db \<Longrightarrow> reliable db'"
    and "case res of
        Inr x \<Rightarrow> list_all pg_text ps \<and> list_all int4 ns \<and> f (db_tab db) = Inr (x, db_tab db')
      | Inl e \<Rightarrow> db_tab db' = db_tab db \<and> (reliable db \<longrightarrow> list_all pg_text ps \<longrightarrow> list_all int4 ns \<longrightarrow> (\<exists>e'. f (db_tab db) = Inl e'))"
proof -
  show "reliable db \<Longrightarrow> reliable db'"
    using assms stmt_keeps_reliable unfolding pg_stmt_def by blast
  show "case res of
        Inr x \<Rightarrow> list_all pg_text ps \<and> list_all int4 ns \<and> f (db_tab db) = Inr (x, db_tab db')
      | Inl e \<Rightarrow> db_tab db' = db_tab db \<and> (reliable db \<longrightarrow> list_all pg_text ps \<longrightarrow> list_all int4 ns \<longrightarrow> (\<exists>e'. f (db_tab db) = Inl e'))"
    using assms unfolding pg_stmt_def
  proof (cases rule: stmt_cases)
    case (ok x)
    then show ?thesis by (cases "f (db_tab db)") (auto split: if_splits)
  next
    case (err e)
    then show ?thesis by (cases "f (db_tab db)") (auto split: if_splits)
  qed simp
qed

lemma pg_query_outcome:
  assumes "pg_query ps g db = (res, db')"
  shows "db_tab db' = db_tab db" "reliable db \<Longrightarrow> reliable db'"
    "case res of Inr x \<Rightarrow> x = g (db_tab db) | Inl e \<Rightarrow> reliable db \<longrightarrow> \<not> list_all pg_text ps"
  using pg_query_tab [of ps g db] pg_stmt_outcome [of ps "[]" "\<lambda>t. Inr (g t, t)" db res db'] assms
  by (auto simp: pg_query_def split: sum.splits)

lemma pg_query_row_outcome:
  assumes "pg_query_row ps g db = (res, db')"
  shows "db_tab db' = db_tab db" "reliable db \<Longrightarrow> reliable db'"
    "case res of Inr x \<Rightarrow> g (db_tab db) = Some x | Inl e \<Rightarrow> reliable db \<longrightarrow> list_all pg_text ps \<longrightarrow> g (db_tab db) = None"
  using pg_query_row_tab [of ps g db] assms
    pg_stmt_outcome [of ps "[]" "\<lambda>t. case g t of None \<Rightarrow> Inl ErrNotFound | Some x \<Rightarrow> Inr (x, t)" db res db']
  by (auto simp: pg_query_row_def split: sum.splits option.splits)

section \<open>Transactions\<close>

lemma pg_tx_loop_failing:
  "pg_tx_loop (failing f) m rs t fs = (None, t', fs') \<Longrightarrow> fold_rows f rs t = Inr t'"
proof (induction rs arbitrary: t fs)
  case (Cons r rs)
  then obtain u fs1 where "failing f t r = (None, u)" "pg_tx_loop (failing f) m rs u fs1 = (None, t', fs')"
    by (auto split: prod.splits if_splits option.splits)
  then show ?case using Cons.IH by (simp add: failing_None)
qed (auto split: prod.splits if_splits)

lemma pg_tx_loop_reliable:
  "fold_rows f rs t = Inr t' \<Longrightarrow> pg_tx_loop (failing f) m rs t [] = (None, t', [])"
  by (induction rs arbitrary: t) (auto simp: failing_def split: sum.splits)

lemma pg_tx_loop_faults: "pg_tx_loop f m rs t [] = (e, t', fs') \<Longrightarrow> fs' = []"
  by (induction rs arbitrary: t) (auto split: prod.splits option.splits)

lemma pg_in_tx_cases:
  assumes "pg_in_tx (failing f) m rs db = (res, db')"
  obtains (err) e n where "res = Inl e" "db_tab db' = (db_tab db)\<lparr>t_seq := n\<rparr>"
  | (ok) "res = Inr ()" "fold_rows f rs (db_tab db) = Inr (db_tab db')"
proof (cases res)
  case (Inl e)
  then have "\<exists>n. db_tab db' = (db_tab db)\<lparr>t_seq := n\<rparr>"
    using assms by (auto simp: pg_in_tx_def split: prod.splits if_splits option.splits intro: exI [of _ "t_seq (db_tab db)"])
  then show ?thesis using Inl err by blast
next
  case (Inr u)
  then have "fold_rows f rs (db_tab db) = Inr (db_tab db')"
    using assms pg_tx_loop_failing [of f m rs "db_tab db"]
    by (auto simp: pg_in_tx_def split: prod.splits if_splits option.splits)
  then show ?thesis using Inr ok by simp
qed

lemma pg_in_tx_reliable:
  "reliable db \<Longrightarrow> fold_rows f rs (db_tab db) = Inr t \<Longrightarrow> pg_in_tx (failing f) m rs db = (Inr (), db\<lparr>db_tab := t\<rparr>)"
  using pg_tx_loop_reliable [of f rs "db_tab db" t m] by (simp add: pg_in_tx_def)

lemma pg_in_tx_keeps_reliable: "reliable db \<Longrightarrow> pg_in_tx f m rs db = (res, db') \<Longrightarrow> reliable db'"
  using pg_tx_loop_faults [of f m rs "db_tab db"]
  by (auto simp: pg_in_tx_def split: prod.splits option.splits)

section \<open>The operations of the differ\<close>

lemma pg_merge_rows:
  "fold_rows (pg_upsert_baseline i) rows t = Inr t' \<Longrightarrow>
   tables_view scan al t' = (tables_view scan al t)\<lparr>v_baseline := foldl (merge_entry i) (v_baseline (tables_view scan al t)) rows\<rparr>"
proof (induction rows arbitrary: t)
  case (Cons r rows)
  then obtain u where u: "pg_upsert_baseline i t r = Inr u" "fold_rows (pg_upsert_baseline i) rows u = Inr t'"
    by (auto split: sum.splits)
  have "tables_view scan al u = (tables_view scan al t)\<lparr>v_baseline := merge_entry i (v_baseline (tables_view scan al t)) r\<rparr>"
    using upsert_baseline_view [of i t r scan al] pg_upsert_cases(1) [OF u(1)] by simp
  then show ?case using Cons.IH [OF u(2)] by simp
qed simp

lemma pg_upsert_mergeable:
  assumes "mergeable pg_text int4 i (v_baseline (tables_view scan al t)) (r # rows)"
  shows "\<exists>u. pg_upsert_baseline i t r = Inr u \<and> mergeable pg_text int4 i (v_baseline (tables_view scan al u)) rows"
proof -
  let ?r = "fill_baseline_row i r"
  let ?m = "v_baseline (tables_view scan al t)"
  have row: "pg_text i" "pg_text (bl_PackageName r)" "pg_text (bl_Category r)" "pg_text (bl_Value r)"
    "pg_text (bl_FirstSeenRunID r)" "pg_text (bl_LastSeenRunID r)" "int4 (snd (snd (merged_entry i None r)))"
    "int4 (snd (snd (merged_entry i (?m (row_key r)) r)))"
    using assms by (simp_all add: mergeable_def)
  have texts: "list_all pg_text [bl_PackageName ?r, bl_Category ?r, bl_Value ?r, bl_FirstSeenRunID ?r, bl_LastSeenRunID ?r]"
    using row by (simp add: fill_baseline_row_def)
  have n: "int4 (bl_OccurrenceCount ?r)"
    using row(7) by (simp add: merged_entry_def fill_baseline_row_def Let_def)
  have k: "bl_key ?r = row_key r" "\<And>b. bl_key b = row_key b"
    by (simp_all add: row_key_def fill_baseline_row_def)
  have old: "int4 (bl_OccurrenceCount b + bl_OccurrenceCount ?r)" if "find (\<lambda>b. bl_key b = bl_key ?r) (t_baseline t) = Some b" for b
  proof -
    have "?m (row_key r) = Some (bl_cols b)"
      using that unfolding k by (simp add: tables_view_def)
    then show ?thesis using row(8) by (simp add: merged_entry_def bl_cols_def fill_baseline_row_def Let_def)
  qed
  obtain u where u: "upsert_baseline i t r = Inr u"
    "tables_view scan al u = (tables_view scan al t)\<lparr>v_baseline := merge_entry i ?m r\<rparr>"
    using upsert_baseline_view by blast
  have "pg_upsert_baseline i t r = Inr u"
    using texts n old u(1) unfolding pg_upsert_baseline_def Let_def by (simp split: option.split)
  moreover have "mergeable pg_text int4 i (merge_entry i ?m r) rows"
  proof -
    have "row_key q \<noteq> row_key r" if "q \<in> set rows" for q
      using assms that by (auto simp: mergeable_def rev_image_eqI)
    then show ?thesis using assms by (simp add: mergeable_def merge_entry_def)
  qed
  ultimately show ?thesis using u(2) by auto
qed

lemma pg_mergeable_rows:
  "mergeable pg_text int4 i (v_baseline (tables_view scan al t)) rows \<Longrightarrow> \<exists>t'. fold_rows (pg_upsert_baseline i) rows t = Inr t'"
proof (induction rows arbitrary: t)
  case (Cons r rows)
  then show ?case using pg_upsert_mergeable by fastforce
qed simp

lemma pg_MergeBaseline_outcome:
  assumes "postgres_MergeBaseline i rows db = (res, db')"
  shows "(reliable db \<longrightarrow> reliable db') \<and> (case res of
      Inr u \<Rightarrow> pg_view coll (db_tab db') = (pg_view coll (db_tab db))\<lparr>v_baseline :=
        foldl (merge_entry i) (v_baseline (pg_view coll (db_tab db))) rows\<rparr>
    | Inl e \<Rightarrow> (reliable db \<longrightarrow> \<not> mergeable pg_text int4 i (v_baseline (pg_view coll (db_tab db))) rows) \<and>
        pg_view coll (db_tab db') = pg_view coll (db_tab db))"
proof (cases "rows = []")
  case True
  then show ?thesis using assms by (auto simp: postgres_MergeBaseline_def)
next
  case False
  then have tx: "pg_in_tx (failing (pg_upsert_baseline i)) (\<lambda>r. ''merge baseline '' @ bl_Category r @ ''/'' @ bl_Value r) rows db = (res, db')"
    using assms by (simp add: postgres_MergeBaseline_def)
  have rel: "reliable db \<Longrightarrow> reliable db'" using pg_in_tx_keeps_reliable [OF _ tx] .
  have good: "res = Inr ()" if r: "reliable db" and m: "mergeable pg_text int4 i (v_baseline (pg_view coll (db_tab db))) rows"
  proof -
    obtain t' where "fold_rows (pg_upsert_baseline i) rows (db_tab db) = Inr t'"
      using pg_mergeable_rows [OF m] by blast
    then have "pg_in_tx (failing (pg_upsert_baseline i)) l rows db = (Inr (), db\<lparr>db_tab := t'\<rparr>)" for l
      by (rule pg_in_tx_reliable [OF r])
    then show ?thesis using tx by simp
  qed
  from tx show ?thesis
  proof (cases rule: pg_in_tx_cases)
    case (err e n)
    then show ?thesis using rel good by auto
  next
    case ok
    then show ?thesis using rel pg_merge_rows by auto
  qed
qed

lemma pg_insert_deviations:
  "fold_rows pg_insert_deviation ds t = Inr t' \<Longrightarrow> fold_rows (\<lambda>t d. add_deviation (pg_encode_deviation d) t) ds t = Inr t'"
  "\<forall>d\<in>set ds. dev_admitted pg_text d \<Longrightarrow> fold_rows (\<lambda>t d. add_deviation (pg_encode_deviation d) t) ds t = Inr t' \<Longrightarrow>
   fold_rows pg_insert_deviation ds t = Inr t'"
  by (induction ds arbitrary: t) (auto simp: pg_insert_deviation_def dev_admitted_def split: sum.splits if_splits)

lemma pg_WriteDeviations_outcome:
  assumes "postgres_WriteDeviations ds db = (res, db')"
  shows "(reliable db \<longrightarrow> reliable db') \<and> (case res of
      Inr u \<Rightarrow> pg_view coll (db_tab db') = (pg_view coll (db_tab db))\<lparr>v_devs :=
        (\<lambda>r. v_devs (pg_view coll (db_tab db)) r @ map dev_entry (filter (\<lambda>d. dv_RunID d = r) ds))\<rparr>
    | Inl e \<Rightarrow> (reliable db \<longrightarrow> \<not> (writable (pg_view coll (db_tab db)) ds \<and> (\<forall>d\<in>set ds. dev_admitted pg_text d))) \<and>
        pg_view coll (db_tab db') = pg_view coll (db_tab db))"
proof (cases "ds = []")
  case True
  then show ?thesis using assms by (auto simp: postgres_WriteDeviations_def)
next
  case False
  then have tx: "pg_in_tx (failing pg_insert_deviation) (\<lambda>_. ''insert deviation'') ds db = (res, db')"
    using assms by (simp add: postgres_WriteDeviations_def)
  have rel: "reliable db \<Longrightarrow> reliable db'" using pg_in_tx_keeps_reliable [OF _ tx] .
  have good: "res = Inr ()"
    if r: "reliable db" and w: "writable (pg_view coll (db_tab db)) ds" "\<forall>d\<in>set ds. dev_admitted pg_text d"
  proof -
    obtain t' where "fold_rows pg_insert_deviation ds (db_tab db) = Inr t'"
      using writable_add_all [OF pg_encodes_deviation w(1)] pg_insert_deviations(2) [OF w(2)] by blast
    then have "pg_in_tx (failing pg_insert_deviation) l ds db = (Inr (), db\<lparr>db_tab := t'\<rparr>)" for l
      by (rule pg_in_tx_reliable [OF r])
    then show ?thesis using tx by simp
  qed
  from tx show ?thesis
  proof (cases rule: pg_in_tx_cases)
    case (err e n)
    then show ?thesis using rel good by auto
  next
    case ok
    then show ?thesis
      using rel add_deviations_view [OF pg_encodes_deviation pg_insert_deviations(1) [OF ok(2)]] by simp
  qed
qed

lemma pg_DeleteDeviations_outcome:
  assumes "postgres_DeleteDeviationsForRun i db = (res, db')"
  shows "(reliable db \<longrightarrow> reliable db') \<and> (case res of
      Inr u \<Rightarrow> pg_view coll (db_tab db') = (pg_view coll (db_tab db))\<lparr>v_devs := (v_devs (pg_view coll (db_tab db)))(i := [])\<rparr>
    | Inl e \<Rightarrow> (reliable db \<longrightarrow> \<not> pg_text i) \<and> pg_view coll (db_tab db') = pg_view coll (db_tab db))"
  using assms pg_stmt_outcome [of "[i]" "[]" "\<lambda>t. Inr ((), t\<lparr>t_deviations := filter (\<lambda>d. de_run_id d \<noteq> i) (t_deviations t)\<rparr>)" db res db']
    delete_deviations_view [where scan = pg_scanRun and al = "pg_allow coll" and t = "db_tab db" and i = i]
  unfolding postgres_DeleteDeviationsForRun_def
  by (cases res) auto

lemma pg_run_listed: "pg_ok t \<Longrightarrow> v_run (pg_view coll t) i = Some r \<Longrightarrow> pg_text i \<and> pg_text (run_PackageName r)"
  by (auto simp: tables_view_def pg_ok_def pg_rows_ok_def pg_scanRun_def dest!: find_Some_in)

lemma pg_MarkRunBaseline_outcome:
  assumes "pg_ok (db_tab db)" "postgres_MarkRunBaseline i b db = (res, db')"
  shows "(reliable db \<longrightarrow> reliable db') \<and> (case res of
      Inr u \<Rightarrow> (\<exists>r. v_run (pg_view coll (db_tab db)) i = Some r \<and> pg_view coll (db_tab db') =
        (pg_view coll (db_tab db))\<lparr>v_run := (v_run (pg_view coll (db_tab db)))(i \<mapsto> r\<lparr>run_IsBaseline := b\<rparr>)\<rparr>)
    | Inl e \<Rightarrow> (reliable db \<longrightarrow> v_run (pg_view coll (db_tab db)) i = None) \<and>
        pg_view coll (db_tab db') = pg_view coll (db_tab db))"
proof -
  let ?f = "\<lambda>r. r\<lparr>rn_is_baseline := b\<rparr>"
  let ?v = "pg_view coll (db_tab db)"
  obtain q db1 where q: "pg_stmt [i] [] (update_runs i ?f) db = (q, db1)" by fastforce
  then have db1: "db1 = db'" using assms(2) by (auto simp: postgres_MarkRunBaseline_def must_affect_def split: sum.splits)
  note o = pg_stmt_outcome [OF q]
  show ?thesis
  proof (cases q)
    case (Inl e)
    then have "\<not> pg_text i" if "reliable db" using that o(2) by (auto simp: update_runs_def)
    then have "v_run ?v i = None" if "reliable db"
      using that pg_run_listed [OF assms(1), of coll i] by (cases "v_run ?v i") auto
    then show ?thesis
      using Inl o q db1 assms(2) by (auto simp: postgres_MarkRunBaseline_def must_affect_def)
  next
    case (Inr n)
    then have u: "update_runs i ?f (db_tab db) = Inr (n, db_tab db1)" using o(2) by simp
    note w = update_runs_view [OF u, where scan = pg_scanRun and al = "pg_allow coll"]
    show ?thesis
    proof (cases "v_run ?v i")
      case None
      then have "pg_view coll (db_tab db1) = ?v"
        using w(1) by (auto simp: tables_view_def fun_eq_iff)
      then show ?thesis
        using None w(2) Inr o(1) q db1 assms(2) by (auto simp: postgres_MarkRunBaseline_def must_affect_def)
    next
      case (Some r)
      then obtain z where z: "find (\<lambda>r. rn_id r = i) (t_runs (db_tab db)) = Some z" "r = pg_scanRun z"
        by (auto simp: tables_view_def)
      have "(\<lambda>j. if j = i then map_option (pg_scanRun \<circ> ?f) (find (\<lambda>r. rn_id r = i) (t_runs (db_tab db))) else v_run ?v j) =
          (v_run ?v)(i \<mapsto> r\<lparr>run_IsBaseline := b\<rparr>)"
        using z by (simp add: fun_eq_iff pg_scanRun_def)
      then have "pg_view coll (db_tab db1) = ?v\<lparr>v_run := (v_run ?v)(i \<mapsto> r\<lparr>run_IsBaseline := b\<rparr>)\<rparr>"
        using w(1) by simp
      then show ?thesis
        using Some w(2) Inr o(1) q db1 assms(2) by (auto simp: postgres_MarkRunBaseline_def must_affect_def)
    qed
  qed
qed

section \<open>The contract\<close>

lemma pg_category: "c \<in> set AllCategories \<Longrightarrow> pg_text c"
  by (auto simp: AllCategories_def pg_text_def)

lemma pg_severity: "pg_text (defaultSeverity c)"
  by (simp add: defaultSeverity_def pg_text_def)

interpretation pg: differ_store "postgres_Backend coll" pg_integ reliable "\<lambda>db. pg_view coll (db_tab db)" pg_text int4
  for coll
proof unfold_locales
  fix db db' :: postgres and i :: string and r :: Run and res :: "err + Run"
  show "pg_ok (db_tab db) \<Longrightarrow> v_run (pg_view coll (db_tab db)) i = Some r \<Longrightarrow> pg_text i \<and> pg_text (run_PackageName r)"
    by (rule pg_run_listed)
  assume a: "pg_ok (db_tab db)" "be_GetRun (postgres_Backend coll) i db = (res, db')"
  then have "pg_query_row [i] (\<lambda>t. map_option pg_scanRun (find (\<lambda>r. rn_id r = i) (t_runs t))) db = (res, db')"
    by (simp add: postgres_GetRun_def)
  note o = pg_query_row_outcome [OF this]
  have "v_run (pg_view coll (db_tab db)) i = None" if "\<not> pg_text i"
    using that pg_run_listed [OF a(1), of coll i] by (cases "v_run (pg_view coll (db_tab db)) i") auto
  then show "kept pg_integ reliable (\<lambda>db. pg_view coll (db_tab db)) (pg_view coll (db_tab db)) db db' \<and>
      (case res of Inl e \<Rightarrow> reliable db \<longrightarrow> v_run (pg_view coll (db_tab db)) i = None
       | Inr r \<Rightarrow> v_run (pg_view coll (db_tab db)) i = Some r)"
    using o a(1) by (cases res) (auto simp: kept_def tables_view_def)
next
  fix db db' :: postgres and i :: string and evs :: "err + EventRow list"
  assume a: "pg_ok (db_tab db)" "be_ListEventsByRun (postgres_Backend coll) i 0 db = (evs, db')"
  have q: "pg_query [i] (\<lambda>t. limit_rows 10000 (order_by (\<lambda>e. (ev_TsNS e, ev_ID e)) (filter (\<lambda>e. ev_RunID e = i) (t_events t)))) db = (evs, db')"
    using a(2) by (simp add: postgres_ListEventsByRun_def)
  show "kept pg_integ reliable (\<lambda>db. pg_view coll (db_tab db)) (pg_view coll (db_tab db)) db db' \<and>
      (case evs of Inl e \<Rightarrow> reliable db \<longrightarrow> \<not> pg_text i | Inr es \<Rightarrow> es = take 10000 (v_events (pg_view coll (db_tab db)) i))"
    using pg_query_outcome [OF q] a(1)
    by (cases evs) (auto simp: kept_def tables_view_def limit_rows_def)
next
  fix db db' :: postgres and als :: "err + AllowEntry list"
  assume a: "pg_ok (db_tab db)" "be_ListAllowEntries (postgres_Backend coll) db = (als, db')"
  have q: "pg_query [] (\<lambda>t. pg_allow coll (t_allowlists t)) db = (als, db')"
    using a(2) by (simp add: postgres_ListAllowEntries_def)
  show "kept pg_integ reliable (\<lambda>db. pg_view coll (db_tab db)) (pg_view coll (db_tab db)) db db' \<and>
      (case als of Inl e \<Rightarrow> \<not> reliable db | Inr es \<Rightarrow> es = v_allow (pg_view coll (db_tab db)))"
    using pg_query_outcome [OF q] a(1) by (cases als) (auto simp: kept_def tables_view_def)
next
  fix db db' :: postgres and pkg :: string and bls :: "err + BaselineRow list"
  assume a: "pg_ok (db_tab db)" "be_LoadBaseline (postgres_Backend coll) pkg db = (bls, db')"
  have q: "pg_query [pkg] (\<lambda>t. filter (\<lambda>b. bl_PackageName b = pkg) (t_baseline t)) db = (bls, db')"
    using a(2) by (simp add: postgres_LoadBaseline_def)
  show "kept pg_integ reliable (\<lambda>db. pg_view coll (db_tab db)) (pg_view coll (db_tab db)) db db' \<and>
      (case bls of Inl e \<Rightarrow> reliable db \<longrightarrow> \<not> pg_text pkg | Inr bs \<Rightarrow> baseline_listed (pg_view coll (db_tab db)) pkg bs)"
    using pg_query_outcome [OF q] a(1) LoadBaseline_listed by (cases bls) (auto simp: kept_def)
next
  fix db db' :: postgres and i :: string and rows :: "BaselineRow list" and ures :: "err + unit"
  assume a: "pg_ok (db_tab db)" "be_MergeBaseline (postgres_Backend coll) i rows db = (ures, db')"
  then have "pg_ok (db_tab db')" using pg_tx_ops_ok(2) [OF a(1), of i rows] by simp
  then show "case ures of
      Inl e \<Rightarrow> (reliable db \<longrightarrow> \<not> mergeable pg_text int4 i (v_baseline (pg_view coll (db_tab db))) rows) \<and>
        kept pg_integ reliable (\<lambda>db. pg_view coll (db_tab db)) (pg_view coll (db_tab db)) db db'
    | Inr u \<Rightarrow> kept pg_integ reliable (\<lambda>db. pg_view coll (db_tab db))
        ((pg_view coll (db_tab db))\<lparr>v_baseline := foldl (merge_entry i) (v_baseline (pg_view coll (db_tab db))) rows\<rparr>) db db'"
    using pg_MergeBaseline_outcome [of i rows db ures db' coll] a by (cases ures) (auto simp: kept_def)
next
  fix db db' :: postgres and i :: string and b :: bool and ures :: "err + unit"
  assume a: "pg_ok (db_tab db)" "be_MarkRunBaseline (postgres_Backend coll) i b db = (ures, db')"
  then have "pg_ok (db_tab db')" using pg_MarkRunBaseline_ok [OF a(1), of i b] by simp
  then show "case ures of
      Inl e \<Rightarrow> (reliable db \<longrightarrow> v_run (pg_view coll (db_tab db)) i = None) \<and>
        kept pg_integ reliable (\<lambda>db. pg_view coll (db_tab db)) (pg_view coll (db_tab db)) db db'
    | Inr u \<Rightarrow> \<exists>r. v_run (pg_view coll (db_tab db)) i = Some r \<and> kept pg_integ reliable (\<lambda>db. pg_view coll (db_tab db))
        ((pg_view coll (db_tab db))\<lparr>v_run := (v_run (pg_view coll (db_tab db)))(i \<mapsto> r\<lparr>run_IsBaseline := b\<rparr>)\<rparr>) db db'"
    using pg_MarkRunBaseline_outcome [OF a(1), of i b ures db' coll] a(2) by (cases ures) (auto simp: kept_def)
next
  fix db db' :: postgres and i :: string and ures :: "err + unit"
  assume a: "pg_ok (db_tab db)" "be_DeleteDeviationsForRun (postgres_Backend coll) i db = (ures, db')"
  then have "pg_ok (db_tab db')" using pg_other_ops_ok(1) [OF a(1), of i] by simp
  then show "case ures of
      Inl e \<Rightarrow> (reliable db \<longrightarrow> \<not> pg_text i) \<and>
        kept pg_integ reliable (\<lambda>db. pg_view coll (db_tab db)) (pg_view coll (db_tab db)) db db'
    | Inr u \<Rightarrow> kept pg_integ reliable (\<lambda>db. pg_view coll (db_tab db))
        ((pg_view coll (db_tab db))\<lparr>v_devs := (v_devs (pg_view coll (db_tab db)))(i := [])\<rparr>) db db'"
    using pg_DeleteDeviations_outcome [of i db ures db' coll] a by (cases ures) (auto simp: kept_def)
next
  fix db db' :: postgres and ds :: "DeviationRow list" and ures :: "err + unit"
  assume a: "pg_ok (db_tab db)" "be_WriteDeviations (postgres_Backend coll) ds db = (ures, db')"
  then have "pg_ok (db_tab db')" using pg_tx_ops_ok(3) [OF a(1), of ds] by simp
  then show "case ures of
      Inl e \<Rightarrow> (reliable db \<longrightarrow> \<not> (writable (pg_view coll (db_tab db)) ds \<and> (\<forall>d\<in>set ds. dev_admitted pg_text d))) \<and>
        kept pg_integ reliable (\<lambda>db. pg_view coll (db_tab db)) (pg_view coll (db_tab db)) db db'
    | Inr u \<Rightarrow> kept pg_integ reliable (\<lambda>db. pg_view coll (db_tab db))
        ((pg_view coll (db_tab db))\<lparr>v_devs := (\<lambda>r. v_devs (pg_view coll (db_tab db)) r @ map dev_entry (filter (\<lambda>d. dv_RunID d = r) ds))\<rparr>) db db'"
    using pg_WriteDeviations_outcome [of ds db ures db' coll] a by (cases ures) (auto simp: kept_def)
qed (auto simp: pg_category pg_severity)

end
