(* ===== verification/Postgres_Props.thy ===== *)
theory Postgres_Props
  imports Postgres_Store Sqlite_Props Parsing
begin

text \<open>
  Properties of the Postgres backend: integrity in every reachable database, batches of
  events, the differ on it, and where it agrees with the SQLite backend and where not.
\<close>

section \<open>Integrity\<close>

text \<open>
  C7. Every Postgres database reachable from an empty one by any sequence of backend
  operations, with engine failures at any point, keeps the integrity of its tables (keys,
  references, checks); the texts its runs are found by are valid, every baseline count fits
  its 32-bit column and every event has a payload.
\<close>

theorem postgres_integrity:
  "postgres_reachable coll db \<Longrightarrow> tables_ok (db_tab db) \<and>
     (\<forall>r\<in>set (t_runs (db_tab db)). pg_text (rn_id r) \<and> pg_text (rn_package_name r)) \<and>
     (\<forall>b\<in>set (t_baseline (db_tab db)). int4 (bl_OccurrenceCount b)) \<and>
     (\<forall>e\<in>set (t_events (db_tab db)). ev_Data e \<noteq> None)"
  using postgres_reachable_ok [of coll db] by (simp add: pg_ok_def pg_rows_ok_def)

theorem postgres_integrity_witness:
  "tables_ok (db_tab (snd (postgres_AddWatchedPackage 5 ''left-pad'' \<lparr>db_tab = empty_tables, db_faults = [True]\<rparr>)))"
  using postgres_integrity [OF pg_stepped [OF pg_opened [of "\<lambda>s. s" "[True]"] PgAddWatchedPackage [of _ _ 5 "''left-pad''"]]] by simp

section \<open>A small database\<close>

text \<open>The database of the SQLite examples, in Postgres.\<close>

definition pg_demo_tables :: "BaselineRow list \<Rightarrow> pg_tables" where
  "pg_demo_tables bs = empty_tables\<lparr>
     t_runs := [pg_encode_run (scanRun (demo_run ''r1'')), pg_encode_run (scanRun (demo_run ''r2''))],
     t_seq := 3, t_events := t_events (demo_tables bs), t_baseline := bs\<rparr>"

abbreviation pg_demo_db :: "BaselineRow list \<Rightarrow> postgres" where
  "pg_demo_db bs \<equiv> \<lparr>db_tab = pg_demo_tables bs, db_faults = []\<rparr>"

lemma pg_demo_ok: "pg_ok (pg_demo_tables [demo_row])"
  by code_simp

lemma pg_demo_scan: "pg_scanRun (pg_encode_run (scanRun (demo_run i))) = scanRun (demo_run i)"
  by (simp add: pg_scanRun_def pg_encode_run_def pg_nullableTime_def scanRun_def demo_run_def)

lemma pg_demo_view: "pg_view coll (pg_demo_tables bs) = sqlite_view (demo_tables bs)"
proof -
  have "find (\<lambda>r. rn_id r = i) (t_runs (pg_demo_tables bs)) =
      map_option (\<lambda>r. pg_encode_run (scanRun r)) (find (\<lambda>r. rn_id r = i) (t_runs (demo_tables bs)))" for i
    by (simp add: pg_demo_tables_def demo_tables_def pg_encode_run_def scanRun_def demo_run_def)
  moreover have "map_option (pg_scanRun \<circ> (\<lambda>r. pg_encode_run (scanRun r))) (find (\<lambda>r. rn_id r = i) (t_runs (demo_tables bs))) =
      map_option scanRun (find (\<lambda>r. rn_id r = i) (t_runs (demo_tables bs)))" for i
    by (simp add: demo_tables_def pg_demo_scan)
  ultimately show ?thesis
    by (simp add: tables_view_def fun_eq_iff option.map_comp)
       (simp add: pg_demo_tables_def demo_tables_def empty_tables_def order_by_def)
qed

section \<open>Batches of events\<close>

definition pg_storable :: "EventRow \<Rightarrow> bool" where
  "pg_storable e \<longleftrightarrow> pg_text (ev_Type e) \<and> (\<exists>d. jsonb (ev_Data e) = Inr d)"

definition jsonb_data :: "EventRow \<Rightarrow> EventRow" where
  "jsonb_data e = e\<lparr>ev_Data := (case jsonb (ev_Data e) of Inr d \<Rightarrow> Some d | Inl _ \<Rightarrow> None)\<rparr>"

lemma pg_insert_event_Inr:
  "pg_insert_event i t e = (None, t') \<Longrightarrow> pg_storable e \<and> pg_text i \<and> i \<in> rn_id ` set (t_runs t)"
  by (auto simp: pg_insert_event_def pg_storable_def insert_event_def split: if_splits sum.splits)

lemma pg_insert_event_stored:
  "pg_text i \<Longrightarrow> pg_storable e \<Longrightarrow> i \<in> rn_id ` set (t_runs t) \<Longrightarrow>
   pg_insert_event i t e = (None, t\<lparr>t_events := t_events t @ [(jsonb_data e)\<lparr>ev_ID := t_seq t + 1, ev_RunID := i\<rparr>], t_seq := t_seq t + 1\<rparr>)"
  by (auto simp: pg_insert_event_def pg_storable_def insert_event_def jsonb_data_def)

lemma pg_insert_events_run:
  "pg_tx_loop (pg_insert_event i) m es t fs = (None, t', fs') \<Longrightarrow> es \<noteq> [] \<Longrightarrow>
   list_all pg_storable es \<and> pg_text i \<and> i \<in> rn_id ` set (t_runs t)"
proof (induction es arbitrary: t fs)
  case (Cons e es)
  then obtain u fs1 where u: "pg_insert_event i t e = (None, u)" "pg_tx_loop (pg_insert_event i) m es u fs1 = (None, t', fs')"
    by (auto split: prod.splits if_splits option.splits)
  note first = pg_insert_event_Inr [OF u(1)]
  show ?case
  proof (cases "es = []")
    case False
    then show ?thesis using Cons.IH [OF u(2)] first by simp
  qed (use first in simp)
qed simp

lemma pg_insert_events_loop:
  assumes "pg_text i"
  shows "list_all pg_storable es \<Longrightarrow> i \<in> rn_id ` set (t_runs t) \<Longrightarrow>
   (case pg_tx_loop (pg_insert_event i) m es t fs of (None, t', fs') \<Rightarrow>
      t' = t\<lparr>t_events := t_events t @ numbered i (t_seq t) (map jsonb_data es), t_seq := t_seq t + int (length es)\<rparr>
    | (Some e, t', fs') \<Rightarrow> fs \<noteq> [])"
proof (induction es arbitrary: t fs)
  case Nil
  then show ?case by (cases fs) (auto simp: numbered_def)
next
  case (Cons e es)
  let ?u = "t\<lparr>t_events := t_events t @ [(jsonb_data e)\<lparr>ev_ID := t_seq t + 1, ev_RunID := i\<rparr>], t_seq := t_seq t + 1\<rparr>"
  have s: "pg_insert_event i t e = (None, ?u)"
    using pg_insert_event_stored [OF assms] Cons.prems by simp
  have "list_all pg_storable es" "i \<in> rn_id ` set (t_runs ?u)" using Cons.prems by simp_all
  then have ih: "case pg_tx_loop (pg_insert_event i) m es ?u fs' of (None, t', fs'') \<Rightarrow>
      t' = ?u\<lparr>t_events := t_events ?u @ numbered i (t_seq ?u) (map jsonb_data es), t_seq := t_seq ?u + int (length es)\<rparr>
    | (Some e, t', fs'') \<Rightarrow> fs' \<noteq> []" for fs'
    by (rule Cons.IH)
  show ?case
  proof (cases fs)
    case Nil
    then show ?thesis using ih [of "[]"]
      by (simp add: s numbered_Cons algebra_simps split: prod.splits option.splits)
  next
    case (Cons b fs')
    then show ?thesis using ih [of fs']
      by (simp add: s numbered_Cons algebra_simps split: prod.splits option.splits)
  qed
qed

text \<open>
  Appending a batch of events to a Postgres database is all or nothing: on an error no
  event is added (only the id sequence may have moved on); on success the run exists, every
  event of the batch was storable, and the batch stands at the end of the table in its order
  under consecutive ids, each payload in its \<open>jsonb\<close> form. Without engine failures it
  succeeds exactly when the batch is empty or the run exists and every event is storable.
\<close>

theorem postgres_AppendEvents_atomic:
  assumes "pg_ok (db_tab db)" "postgres_AppendEvents i es db = (res, db')"
  shows "(case res of
      Inl e \<Rightarrow> \<exists>n. db_tab db' = (db_tab db)\<lparr>t_seq := n\<rparr>
    | Inr u \<Rightarrow> db_tab db' = (db_tab db)\<lparr>
        t_events := t_events (db_tab db) @ numbered i (t_seq (db_tab db)) (map jsonb_data es),
        t_seq := t_seq (db_tab db) + int (length es)\<rparr>) \<and>
    (reliable db \<longrightarrow> (res = Inr () \<longleftrightarrow> es = [] \<or> i \<in> rn_id ` set (t_runs (db_tab db)) \<and> list_all pg_storable es))"
proof (cases "es = []")
  case True
  then show ?thesis using assms by (auto simp: postgres_AppendEvents_def numbered_def)
next
  case False
  let ?m = "\<lambda>e :: EventRow. ''insert event''"
  have tx: "pg_in_tx (pg_insert_event i) ?m es db = (res, db')"
    using assms False by (simp add: postgres_AppendEvents_def)
  have run: "pg_text i" if "i \<in> rn_id ` set (t_runs (db_tab db))"
    using assms(1) that by (auto simp: pg_ok_def pg_rows_ok_def)
  show ?thesis
  proof (cases res)
    case (Inl e)
    have "res = Inr ()" if "reliable db" "i \<in> rn_id ` set (t_runs (db_tab db))" "list_all pg_storable es"
      using pg_insert_events_loop [OF run [OF that(2)] that(3) that(2), where m = ?m and fs = "[]"] tx that(1)
      by (auto simp: pg_in_tx_def split: prod.splits option.splits)
    moreover have "\<exists>n. db_tab db' = (db_tab db)\<lparr>t_seq := n\<rparr>"
      using tx Inl by (auto simp: pg_in_tx_def split: prod.splits if_splits option.splits intro: exI [of _ "t_seq (db_tab db)"])
    ultimately show ?thesis using Inl False by auto
  next
    case (Inr u)
    then obtain fs fs' where l: "pg_tx_loop (pg_insert_event i) ?m es (db_tab db) fs = (None, db_tab db', fs')"
      using tx by (auto simp: pg_in_tx_def split: prod.splits if_splits option.splits)
    note ok = pg_insert_events_run [OF l False]
    then show ?thesis
      using pg_insert_events_loop [where i = i and es = es and t = "db_tab db" and m = ?m and fs = fs] l Inr by simp
  qed
qed

theorem postgres_AppendEvents_atomic_witness:
  "\<exists>db'. postgres_AppendEvents ''r2'' [demo_event 0 [] ''a'', demo_event 0 [] ''b''] (pg_demo_db [demo_row]) = (Inr (), db') \<and>
     map ev_ID (t_events (db_tab db')) = [1, 2, 3, 4, 5]"
proof -
  let ?es = "[demo_event 0 [] ''a'', demo_event 0 [] ''b'']"
  obtain res db' where r: "postgres_AppendEvents ''r2'' ?es (pg_demo_db [demo_row]) = (res, db')" by fastforce
  have "list_all pg_storable ?es"
    by (simp add: pg_storable_def demo_event_def jsonb_def pg_text_def)
  moreover have "''r2'' \<in> rn_id ` set (t_runs (pg_demo_tables [demo_row]))"
    by (simp add: pg_demo_tables_def pg_encode_run_def scanRun_def demo_run_def)
  moreover note a = postgres_AppendEvents_atomic [OF _ r]
  ultimately have "res = Inr ()" using pg_demo_ok by simp
  with a r pg_demo_ok show ?thesis
    by (auto simp: numbered_def pg_demo_tables_def demo_tables_def demo_event_def)
qed

lemma pg_codes_Cons:
  assumes "pg_codes (a # s)"
  obtains "0 < a" "pg_codes s"
  | b s1 where "s = b # s1" "utf8_2 a b" "pg_codes s1"
  | b c s2 where "s = b # c # s2" "utf8_3 a b c" "pg_codes s2"
  | b c d s3 where "s = b # c # d # s3" "utf8_4 a b c d" "pg_codes s3"
proof (cases "0 < a \<and> a < 0x80")
  case True
  then show ?thesis using assms that(1) by simp
next
  case False
  then have 0: "(0 < a \<and> a < 0x80) = False" by blast
  obtain b s1 where 1: "s = b # s1" using assms by (cases s) (simp_all add: 0)
  show ?thesis
  proof (cases "utf8_2 a b")
    case True
    then show ?thesis using assms 1 that(2) by (simp add: 0)
  next
    case no2: False
    then obtain c s2 where 2: "s1 = c # s2" using assms 1 by (cases s1) (simp_all add: 0)
    show ?thesis
    proof (cases "utf8_3 a b c")
      case True
      then show ?thesis using assms no2 1 2 that(3) by (simp add: 0)
    next
      case no3: False
      then obtain d s3 where "s2 = d # s3" using assms no2 1 2 by (cases s2) (simp_all add: 0)
      then show ?thesis using assms no2 no3 1 2 that(4) by (simp add: 0 split: if_split_asm)
    qed
  qed
qed

lemma pg_codes_zero: "pg_codes s \<Longrightarrow> 0 \<notin> set s"
proof (induction s rule: measure_induct_rule [of length])
  case (less s)
  show ?case
  proof (cases s)
    case (Cons a s')
    from less.prems [unfolded Cons] show ?thesis
      by (cases rule: pg_codes_Cons) (use less.IH in \<open>auto simp: Cons utf8_2_def utf8_3_def utf8_4_def split: if_split_asm\<close>)
  qed simp
qed

lemma pg_text_zero: "CHR 0x00 \<in> set s \<Longrightarrow> \<not> pg_text s"
  using pg_codes_zero [of "map of_char s"] unfolding pg_text_def by force

text \<open>
  One event whose payload holds a text with the zero character makes Postgres reject the
  whole batch it came in: the other events of the batch are lost with it. A program under
  observation can bring this about with a single DNS query, because the sensor's parser hands
  the bytes of a label on as they are.
\<close>

theorem zero_character_loses_batch:
  assumes "pg_ok (db_tab db)" "reliable db" "e \<in> set es" "ev_Data e = Some j"
    and "x \<in> set (json_texts j)" "CHR 0x00 \<in> set x"
  shows "\<exists>er db' n. postgres_AppendEvents i es db = (Inl er, db') \<and> db_tab db' = (db_tab db)\<lparr>t_seq := n\<rparr>"
proof -
  obtain res db' where r: "postgres_AppendEvents i es db = (res, db')" by fastforce
  have "\<not> pg_text x" using pg_text_zero assms(6) by blast
  then have "\<not> pg_storable e"
    using assms(4,5) by (auto simp: pg_storable_def jsonb_def list_all_iff split: if_splits)
  then have "res \<noteq> Inr ()"
    using postgres_AppendEvents_atomic [OF assms(1) r] assms(2,3) by (auto simp: list_all_iff)
  then show ?thesis
    using postgres_AppendEvents_atomic [OF assms(1) r] r by (cases res) auto
qed

definition zero_query :: "byte list" where
  "zero_query = [0, 0, 1, 0, 0, 1, 0, 0, 0, 0, 0, 0, 1, 0, 0, 0, 1, 0, 1]"

theorem zero_character_loses_batch_witness:
  "\<exists>x. parseDNSQuestion zero_query = Some (Inr (x, 1)) \<and>
    (\<exists>er db' n. postgres_AppendEvents ''r2'' [demo_event 0 [] ''a'', demo_event 0 [] x] (pg_demo_db [demo_row]) = (Inl er, db') \<and>
      db_tab db' = (pg_demo_tables [demo_row])\<lparr>t_seq := n\<rparr>)"
proof -
  have "parseDNSQuestion zero_query = Some (Inr ([CHR 0x00], 1))" by code_simp
  moreover note zero_character_loses_batch [of "pg_demo_db [demo_row]" "demo_event 0 [] [CHR 0x00]"
    "[demo_event 0 [] ''a'', demo_event 0 [] [CHR 0x00]]" "JObj [(''QName'', JStr [CHR 0x00])]" "[CHR 0x00]" "''r2''"]
  ultimately show ?thesis using pg_demo_ok by (auto simp: demo_event_def)
qed

section \<open>The differ on both backends\<close>

lemma demo_analysable:
  "analysable pg_text int4 (sqlite_view (demo_tables [demo_row])) ''r2'' ''left-pad''
     (run_fps (sqlite_view (demo_tables [demo_row])) al ''left-pad'' ''r2'')"
proof -
  have "pg_text ''npm.org''" "pg_text ''evil.org''" "int4 1" "int4 2"
    by (code_simp, code_simp, code_simp, code_simp)
  then show ?thesis
    by (simp add: analysable_def recordable_def demo_fps demo_baseline known_fp_def merged_entry_def baseline_row_def)
qed

lemma demo_ids_text: "\<forall>j. pg_text (demo_ids j)"
proof
  fix j
  have "pg_codes (replicate k 97)" for k by (induction k) simp_all
  then show "pg_text (demo_ids j)" by (simp add: pg_text_def map_replicate_const del: replicate_Suc)
qed

text \<open>
  C5. The two backends agree on the differ: on a SQLite and a Postgres database that show
  the same runs, events, allowlist, baseline and deviations, neither failing, the analysis of
  a later run returns the same number and leaves databases that again show the same, up to
  the ids and the order of the run's deviations. On Postgres this needs the values that are
  recorded to be storable texts and the counts to stay within 32 bits.
\<close>

theorem AnalyzeRun_backends_agree:
  assumes "tables_ok (db_tab sdb)" "reliable sdb" "pg_ok (db_tab pdb)" "reliable pdb"
    and same: "sqlite_view (db_tab sdb) = v" "pg_view coll (db_tab pdb) = v"
    and "v_run v i = Some r" "run_PackageName r = pkg" "pkg \<noteq> []"
    and "has_baseline v pkg" "clean_baseline v"
    and "permuting ord1" "inj id1" "\<forall>j s. id1 j \<notin> fst ` set (v_devs v s)"
    and "permuting ord2" "inj id2" "\<forall>j s. id2 j \<notin> fst ` set (v_devs v s)"
    and "\<forall>j. pg_text (id2 j)" "analysable pg_text int4 v i pkg (run_fps v (v_allow v) pkg i)"
  shows "\<exists>n sdb' pdb' s' p'. AnalyzeRun sqlite_Backend ord1 id1 now1 sink i (sdb, s) = (Inr n, sdb', s') \<and>
    AnalyzeRun (postgres_Backend coll) ord2 id2 now2 sink i (pdb, p) = (Inr n, pdb', p') \<and>
    (let v1 = sqlite_view (db_tab sdb'); v2 = pg_view coll (db_tab pdb')
     in mset (map snd (v_devs v1 i)) = mset (map snd (v_devs v2 i)) \<and>
        v1\<lparr>v_devs := (v_devs v1)(i := [])\<rparr> = v2\<lparr>v_devs := (v_devs v2)(i := [])\<rparr>)"
proof -
  note same' = same [symmetric]
  obtain sdb' s' d1 where 1: "AnalyzeRun sqlite_Backend ord1 id1 now1 sink i (sdb, s) =
      (Inr (int (length (novel_fps v (v_allow v) pkg i))), sdb', s')"
    "mset (map snd d1) = mset (map dev_of_fp (novel_fps v (v_allow v) pkg i))"
    "sqlite_view (db_tab sdb') = diff_view v i pkg r (run_fps v (v_allow v) pkg i) d1"
    using sq.AnalyzeRun_later [OF assms(1,2) _ _ _ _ _ _ _ _ allI [OF TrueI] unrestricted(2), of i r pkg ord1 id1 now1 sink s]
      assms(7-14) unfolding same by blast
  obtain pdb' p' d2 where 2: "AnalyzeRun (postgres_Backend coll) ord2 id2 now2 sink i (pdb, p) =
      (Inr (int (length (novel_fps v (v_allow v) pkg i))), pdb', p')"
    "mset (map snd d2) = mset (map dev_of_fp (novel_fps v (v_allow v) pkg i))"
    "pg_view coll (db_tab pdb') = diff_view v i pkg r (run_fps v (v_allow v) pkg i) d2"
    using pg.AnalyzeRun_later [of pdb coll i r pkg ord2 id2 now2 sink p]
      assms(3,4,7-11,15-19) unfolding same by blast
  show ?thesis
    using 1 2 by (intro exI [of _ "int (length (novel_fps v (v_allow v) pkg i))"] exI [of _ sdb'] exI [of _ pdb']
        exI [of _ s'] exI [of _ p']) (simp add: diff_view_def Let_def)
qed

theorem AnalyzeRun_backends_agree_witness:
  "\<exists>n sdb' pdb' s' p'. demo_analysis [demo_row] = (Inr n, sdb', s') \<and>
    AnalyzeRun (postgres_Backend (\<lambda>s. s)) rev demo_ids (\<lambda>j. 0) (\<lambda>ds n. n + length ds) ''r2'' (pg_demo_db [demo_row], 0 :: nat) =
      (Inr n, pdb', p') \<and>
    mset (map snd (v_devs (sqlite_view (db_tab sdb')) ''r2'')) = mset (map snd (v_devs (pg_view (\<lambda>s. s) (db_tab pdb')) ''r2''))"
proof -
  have p: "permuting rev" by (simp add: permuting_def)
  have "v_run (sqlite_view (demo_tables [demo_row])) ''r2'' = Some (scanRun (demo_run ''r2''))"
    by (rule demo_run_view)
  from AnalyzeRun_backends_agree [where sdb = "demo_db [demo_row]" and pdb = "pg_demo_db [demo_row]" and coll = "\<lambda>s. s"
      and v = "sqlite_view (demo_tables [demo_row])", OF _ _ _ _ _ _ this demo_run_pkg _ _ _ permuting_id demo_ids(1)
      demo_ids(2) p demo_ids(1) demo_ids(2) demo_ids_text demo_analysable,
      of "\<lambda>j. 0" "\<lambda>ds n. n + length ds" 0 "\<lambda>j. 0" 0]
    pg_demo_ok pg_demo_view demo_db_facts(2,6,7)
  show ?thesis by (simp add: Let_def) blast
qed

end
