(* ===== verification/Cli_Format.thy ===== *)
theory Cli_Format
  imports Flags Ui Notifier
begin

text \<open>
  \<open>cmd/fangs-cli/internal/cli/format.go\<close> and what the commands print. Output is a sequence of
  items: a line, a table by its header and rows (the alignment of the columns is
  \<open>tabwriter\<close>'s), a JSON document by its value, a stored payload as it is. A Go struct becomes
  an object of its exported fields in their order, a nil slice \<open>null\<close>. Instants are printed in
  UTC; where the code formats an instant in the zone it came with, which for Postgres is the
  host's, the host's zone is taken to be UTC.
\<close>

datatype printed =
    Line string
  | Table "string list" "string list list"
  | Doc json
  | Raw "json option"

definition renderTable :: "string list \<Rightarrow> string list list \<Rightarrow> printed list" where
  "renderTable header rows = (if rows = [] then [Line ''(none)''] else [Table header rows])"

definition renderJSON :: "json \<Rightarrow> printed list" where
  "renderJSON v = [Doc v]"

definition cli_truncate :: "string \<Rightarrow> nat \<Rightarrow> string" where
  "cli_truncate s n =
     (if length s \<le> n then s else if n \<le> 1 then take n s else take (n - 1) s @ ellipsis)"

definition cli_shortID :: "string \<Rightarrow> string" where
  "cli_shortID i = (if length i \<le> 12 then i else take 12 i)"

definition star :: string where "star = [CHR 0xE2, CHR 0x98, CHR 0x85]"
definition right_arrow :: string where "right_arrow = [CHR 0xE2, CHR 0x86, CHR 0x92]"
definition check_mark :: string where "check_mark = [CHR 0xE2, CHR 0x9C, CHR 0x93]"

definition bool_text :: "bool \<Rightarrow> string" where
  "bool_text b = (if b then ''true'' else ''false'')"

section \<open>JSON values of the rows\<close>

definition json_time :: "time \<Rightarrow> json" where
  "json_time t = JStr (rfc3339_nano t)"

definition json_time_opt :: "time option \<Rightarrow> json" where
  "json_time_opt t = (case t of None \<Rightarrow> JNull | Some t \<Rightarrow> json_time t)"

definition nil_slice :: "('a \<Rightarrow> json) \<Rightarrow> 'a list \<Rightarrow> json" where
  "nil_slice f xs = (if xs = [] then JNull else JArr (map f xs))"

definition json_Run :: "Run \<Rightarrow> json" where
  "json_Run r = JObj
     [(''ID'', JStr (run_ID r)), (''PackageName'', JStr (run_PackageName r)), (''Version'', JStr (run_Version r)),
      (''TarballSHA256'', JStr (run_TarballSHA256 r)), (''LockfileSHA256'', JStr (run_LockfileSHA256 r)),
      (''NodeVersion'', JStr (run_NodeVersion r)), (''NPMVersion'', JStr (run_NPMVersion r)),
      (''State'', JStr (run_State r)), (''Attempt'', JNum (run_Attempt r)), (''IsBaseline'', JBool (run_IsBaseline r)),
      (''StartedAt'', json_time_opt (run_StartedAt r)), (''FinishedAt'', json_time_opt (run_FinishedAt r)),
      (''FailureReason'', JStr (run_FailureReason r)), (''EventsEmitted'', JNum (run_EventsEmitted r)),
      (''EventsDropped'', JNum (run_EventsDropped r)), (''DurationNS'', JNum (run_DurationNS r))]"

definition json_DeviationRow :: "DeviationRow \<Rightarrow> json" where
  "json_DeviationRow d = JObj
     [(''ID'', JStr (dv_ID d)), (''RunID'', JStr (dv_RunID d)), (''Category'', JStr (dv_Category d)),
      (''Value'', JStr (dv_Value d)), (''EvidenceEventID'', JNum (dv_EvidenceEventID d)), (''Severity'', JStr (dv_Severity d)),
      (''DetectedAt'', json_time (dv_DetectedAt d)), (''NotifiedAt'', json_time_opt (dv_NotifiedAt d)),
      (''Suppressed'', JBool (dv_Suppressed d))]"

definition json_BaselineRow :: "BaselineRow \<Rightarrow> json" where
  "json_BaselineRow b = JObj
     [(''PackageName'', JStr (bl_PackageName b)), (''Category'', JStr (bl_Category b)), (''Value'', JStr (bl_Value b)),
      (''FirstSeenRunID'', JStr (bl_FirstSeenRunID b)), (''LastSeenRunID'', JStr (bl_LastSeenRunID b)),
      (''OccurrenceCount'', JNum (bl_OccurrenceCount b))]"

definition json_AllowEntry :: "AllowEntry \<Rightarrow> json" where
  "json_AllowEntry e = JObj
     [(''ID'', JStr (al_ID e)), (''Scope'', JStr (al_Scope e)), (''PackageName'', JStr (al_PackageName e)),
      (''Kind'', JStr (al_Kind e)), (''Value'', JStr (al_Value e)), (''Note'', JStr (al_Note e)),
      (''CreatedAt'', json_time (al_CreatedAt e))]"

definition json_NotifierRow :: "NotifierRow \<Rightarrow> json" where
  "json_NotifierRow n = JObj
     [(''Name'', JStr (nt_Name n)), (''URL'', JStr (nt_URL n)), (''Template'', JStr (nt_Template n)),
      (''SecretEnv'', JStr (nt_SecretEnv n)), (''Headers'', JStr (nt_Headers n)), (''MinSeverity'', JStr (nt_MinSeverity n)),
      (''Enabled'', JBool (nt_Enabled n)), (''CreatedAt'', json_time (nt_CreatedAt n)), (''UpdatedAt'', json_time (nt_UpdatedAt n))]"

definition json_NotificationRow :: "NotificationRow \<Rightarrow> json" where
  "json_NotificationRow n = JObj
     [(''ID'', JStr (nf_ID n)), (''RunID'', JStr (nf_RunID n)), (''NotifierName'', JStr (nf_NotifierName n)),
      (''Attempt'', JNum (nf_Attempt n)), (''Status'', JStr (nf_Status n)), (''LastAttemptedAt'', json_time_opt (nf_LastAttemptedAt n)),
      (''NextAttemptAt'', json_time_opt (nf_NextAttemptAt n)), (''ResponseCode'', JNum (nf_ResponseCode n)),
      (''ResponseBody'', JStr (nf_ResponseBody n)), (''ErrorMsg'', JStr (nf_ErrorMsg n)),
      (''DeviationCount'', JNum (nf_DeviationCount n)), (''CreatedAt'', json_time (nf_CreatedAt n))]"

definition json_PackageSummary :: "PackageSummary \<Rightarrow> json" where
  "json_PackageSummary p = JObj
     [(''Name'', JStr (ps_Name p)), (''RunsTotal'', JNum (ps_RunsTotal p)), (''RunsBaseline'', JNum (ps_RunsBaseline p)),
      (''DeviationsLatest'', JNum (ps_DeviationsLatest p)), (''LatestRunID'', JStr (ps_LatestRunID p)),
      (''LatestVersion'', JStr (ps_LatestVersion p))]"

definition json_WatchedPackage :: "WatchedPackage \<Rightarrow> json" where
  "json_WatchedPackage p = JObj
     [(''Name'', JStr (wp_Name p)), (''AddedAt'', json_time (wp_AddedAt p)), (''LastCheckedAt'', json_time_opt (wp_LastCheckedAt p)),
      (''LastSeenVersion'', JStr (wp_LastSeenVersion p))]"

definition json_ReleaseRow :: "ReleaseRow \<Rightarrow> json" where
  "json_ReleaseRow r = JObj
     [(''PackageName'', JStr (rel_PackageName r)), (''Version'', JStr (rel_Version r)), (''TarballSHA256'', JStr (rel_TarballSHA256 r)),
      (''NPMIntegrity'', JStr (rel_NPMIntegrity r)), (''PublishedAt'', json_time (rel_PublishedAt r)),
      (''DiscoveredAt'', json_time (rel_DiscoveredAt r))]"

definition json_pendingRow :: "pendingRow \<Rightarrow> json" where
  "json_pendingRow r = JObj
     [(''Run'', json_Run (pr_Run r)), (''DevCount'', JNum (pr_DevCount r)), (''MaxSeverity'', JStr (pr_MaxSeverity r)),
      (''FirstDetected'', json_time (pr_FirstDetected r)), (''LastDetected'', json_time (pr_LastDetected r))]"

end
