(* ===== verification/Cli.thy ===== *)
theory Cli
  imports Cli_Format Watcher
begin

text \<open>
  \<open>cmd/fangs-cli/internal/cli\<close>: the commands of the operator console over the same storage
  interface the orchestrator uses. A command takes its arguments and returns an error or
  nothing, with the database, the rest of the world and what it printed. What lies outside is
  the record \<open>Cli\<close>: the backend, the registry, the host name, the clock (its \<open>i\<close>-th reading
  in a command), random bytes, the orders of maps, the codec of JSON texts and the HTTP
  exchanges, of which a submission may change the database and the world.
\<close>

record ('db, 'w) Cli =
  cl_store :: "'db Backend"
  cl_json :: bool
  cl_registry :: registry_net
  cl_hostname :: string
  cl_clock :: "nat \<Rightarrow> time"
  cl_rand :: "byte list"
  cl_order :: "bucket \<Rightarrow> bucket"
  cl_rows_order :: "pendingRow list \<Rightarrow> pendingRow list"
  cl_unmarshal :: "string \<Rightarrow> json option"
  cl_post :: "http_request \<Rightarrow> err + int"
  cl_submit :: "string \<Rightarrow> string \<times> Job \<Rightarrow> 'db \<times> 'w \<Rightarrow> (err + int \<times> string) \<times> 'db \<times> 'w"

record ('db, 'w) app =
  ap_db :: 'db
  ap_world :: 'w
  ap_out :: "printed list"
  ap_err :: "string list"

type_synonym ('db, 'w) act = "(('db, 'w) app, unit) op"

text \<open>Calling the store, going on unless there was an error, printing, giving up.\<close>

definition call :: "('db, 'a) op \<Rightarrow> (('db, 'w) app, 'a) op" where
  "call f a = (case f (ap_db a) of (r, db) \<Rightarrow> (r, a\<lparr>ap_db := db\<rparr>))"

definition on :: "(('db, 'w) app, 'a) op \<Rightarrow> ('a \<Rightarrow> (('db, 'w) app, 'b) op) \<Rightarrow> (('db, 'w) app, 'b) op" where
  "on f k a = (case f a of (Inl e, a') \<Rightarrow> (Inl e, a') | (Inr x, a') \<Rightarrow> k x a')"

definition say :: "printed list \<Rightarrow> ('db, 'w) act" where
  "say ps a = (Inr (), a\<lparr>ap_out := ap_out a @ ps\<rparr>)"

definition warn :: "string \<Rightarrow> ('db, 'w) app \<Rightarrow> ('db, 'w) app" where
  "warn s a = a\<lparr>ap_err := ap_err a @ [s]\<rparr>"

definition give_up :: "err \<Rightarrow> (('db, 'w) app, 'a) op" where
  "give_up e a = (Inl e, a)"

definition lift_err :: "err + 'a \<Rightarrow> (('db, 'w) app, 'a) op" where
  "lift_err r a = (r, a)"

section \<open>Runs and deviations\<close>

definition run_cells :: "Run \<Rightarrow> string list" where
  "run_cells r =
     [cli_shortID (run_ID r), cli_truncate (run_PackageName r) 24, run_Version r, run_State r,
      if run_IsBaseline r then star else middle_dot,
      case run_StartedAt r of None \<Rightarrow> ''-'' | Some t \<Rightarrow> table_time t]"

definition runList :: "('db, 'w) Cli \<Rightarrow> string list \<Rightarrow> ('db, 'w) act" where
  "runList c args =
     on (lift_err (Parse [(''package'', StringFlag), (''limit'', IntFlag)] args)) (\<lambda>(st, _).
       let pkg = flag_string st ''package'' []; lim = flag_int st ''limit'' 50 in
       on (call (if pkg \<noteq> [] then be_ListRunsByPackage (cl_store c) pkg lim else be_ListRuns (cl_store c) lim)) (\<lambda>runs.
         say (if cl_json c then renderJSON (nil_slice json_Run runs)
              else renderTable [''RUN_ID'', ''PACKAGE'', ''VERSION'', ''STATE'', ''BASE'', ''STARTED''] (map run_cells runs))))"

definition run_lines :: "Run \<Rightarrow> int \<Rightarrow> DeviationRow list \<Rightarrow> string list" where
  "run_lines run n devs =
     [''Run '' @ run_ID run,
      ''  package:    '' @ run_PackageName run,
      ''  version:    '' @ run_Version run,
      ''  state:      '' @ run_State run,
      ''  attempt:    '' @ Itoa (run_Attempt run),
      ''  baseline:   '' @ bool_text (run_IsBaseline run)] @
     (case run_StartedAt run of None \<Rightarrow> [] | Some t \<Rightarrow> [''  started_at: '' @ table_time t @ '' UTC'']) @
     (case run_FinishedAt run of None \<Rightarrow> [] | Some t \<Rightarrow> [''  finished_at: '' @ table_time t @ '' UTC'']) @
     (if run_FailureReason run \<noteq> [] then [''  failure:    '' @ run_FailureReason run] else []) @
     [''  events:     '' @ Itoa n, ''  deviations: '' @ Itoa (int (length devs))] @
     (if devs \<noteq> [] then [[]] else [])"

definition runShow :: "('db, 'w) Cli \<Rightarrow> string list \<Rightarrow> ('db, 'w) act" where
  "runShow c args =
     (case args of
        [] \<Rightarrow> give_up (Msg ''run show: missing run_id argument'')
      | p # _ \<Rightarrow>
          on (call (be_ResolveRunPrefix (cl_store c) p)) (\<lambda>run.
          on (call (be_ListDeviations (cl_store c) (run_ID run))) (\<lambda>devs.
          on (call (be_EventCount (cl_store c) (run_ID run))) (\<lambda>n.
            say (if cl_json c
                 then renderJSON (JObj [(''deviations'', nil_slice json_DeviationRow devs), (''event_count'', JNum n), (''run'', json_Run run)])
                 else map Line (run_lines run n devs) @
                      (if devs \<noteq> []
                       then renderTable [''DEV_ID'', ''SEV'', ''CATEGORY'', ''VALUE'']
                              (map (\<lambda>d. [cli_shortID (dv_ID d), dv_Severity d, dv_Category d, cli_truncate (dv_Value d) 60]) devs)
                       else []))))))"

definition runCmd :: "('db, 'w) Cli \<Rightarrow> string list \<Rightarrow> ('db, 'w) act" where
  "runCmd c args =
     (case args of
        [] \<Rightarrow> give_up (Msg ''run: missing subcommand (list|show)'')
      | s # rest \<Rightarrow>
          if s = ''list'' then runList c rest
          else if s = ''show'' then runShow c rest
          else give_up (Msg (''run: unknown subcommand '' @ Quote s)))"

definition deviation_cells :: "DeviationRow \<Rightarrow> string list" where
  "deviation_cells d =
     [cli_shortID (dv_ID d), if dv_DetectedAt d = zero_time then ''-'' else table_time (dv_DetectedAt d),
      dv_Severity d, dv_Category d, cli_truncate (dv_Value d) 60, cli_shortID (dv_RunID d)]"

definition deviationList :: "('db, 'w) Cli \<Rightarrow> string list \<Rightarrow> ('db, 'w) act" where
  "deviationList c args =
     on (lift_err (Parse [(''package'', StringFlag), (''severity'', StringFlag), (''run-id'', StringFlag), (''limit'', IntFlag)] args))
       (\<lambda>(st, _).
       on (call (be_ListDeviationsFiltered (cl_store c)
             \<lparr>df_PackageName = flag_string st ''package'' [], df_Severity = flag_string st ''severity'' [],
              df_RunID = flag_string st ''run-id'' [], df_Limit = flag_int st ''limit'' 50\<rparr>)) (\<lambda>devs.
         say (if cl_json c then renderJSON (nil_slice json_DeviationRow devs)
              else renderTable [''DEV_ID'', ''DETECTED'', ''SEV'', ''CATEGORY'', ''VALUE'', ''RUN_ID''] (map deviation_cells devs))))"

text \<open>A payload that is an object or \<open>null\<close> is decoded and printed again, another one as it is.\<close>

definition payload_shown :: "json option \<Rightarrow> printed" where
  "payload_shown d =
     (case d of Some (JObj m) \<Rightarrow> Doc (decode_any (JObj m)) | Some JNull \<Rightarrow> Doc JNull | _ \<Rightarrow> Raw d)"

definition deviation_lines :: "DeviationRow \<Rightarrow> string list" where
  "deviation_lines d =
     [''Deviation '' @ dv_ID d,
      ''  run_id:    '' @ dv_RunID d,
      ''  category:  '' @ dv_Category d,
      ''  value:     '' @ dv_Value d,
      ''  severity:  '' @ dv_Severity d] @
     (if dv_DetectedAt d \<noteq> zero_time then [''  detected:  '' @ table_time (dv_DetectedAt d) @ '' UTC''] else []) @
     [''  suppressed: '' @ bool_text (dv_Suppressed d), []]"

text \<open>A payload that is no JSON text cannot be embedded in the document.\<close>

definition deviation_document :: "DeviationRow \<Rightarrow> err + EventRow \<Rightarrow> json option" where
  "deviation_document d r =
     (case r of
        Inl e \<Rightarrow> Some (JObj [(''deviation'', json_DeviationRow d)])
      | Inr ev \<Rightarrow> map_option (\<lambda>j. JObj [(''deviation'', json_DeviationRow d),
          (''evidence_event'', JObj [(''data'', j), (''id'', JNum (ev_ID ev)), (''ts_ns'', JNum (ev_TsNS ev)), (''type'', JStr (ev_Type ev))])])
          (ev_Data ev))"

definition deviationShow :: "('db, 'w) Cli \<Rightarrow> string list \<Rightarrow> ('db, 'w) act" where
  "deviationShow c args =
     (case args of
        [] \<Rightarrow> give_up (Msg ''deviation show: missing deviation_id argument'')
      | p # _ \<Rightarrow>
          on (call (be_ResolveDeviationPrefix (cl_store c) p)) (\<lambda>d a.
            case call (be_GetEvent (cl_store c) (dv_EvidenceEventID d)) a of (r, a') \<Rightarrow>
              if cl_json c then
                (case deviation_document d r of None \<Rightarrow> give_up (Msg ''json: invalid payload'') a' | Some j \<Rightarrow> say (renderJSON j) a')
              else
                say (map Line (deviation_lines d) @
                  (case r of
                     Inl e \<Rightarrow> [Line (''evidence event (id='' @ Itoa (dv_EvidenceEventID d) @ ''): '' @ err_text e)]
                   | Inr ev \<Rightarrow> [Line (''Evidence event #'' @ Itoa (ev_ID ev) @ '' (type='' @ ev_Type ev @ '', ts_ns='' @ Itoa (ev_TsNS ev) @ ''):''),
                                payload_shown (ev_Data ev)])) a'))"

definition deviationCmd :: "('db, 'w) Cli \<Rightarrow> string list \<Rightarrow> ('db, 'w) act" where
  "deviationCmd c args =
     (case args of
        [] \<Rightarrow> give_up (Msg ''deviation: missing subcommand (list|show)'')
      | s # rest \<Rightarrow>
          if s = ''list'' then deviationList c rest
          else if s = ''show'' then deviationShow c rest
          else give_up (Msg (''deviation: unknown subcommand '' @ Quote s)))"

section \<open>Baselines\<close>

definition baselineList :: "('db, 'w) Cli \<Rightarrow> string list \<Rightarrow> ('db, 'w) act" where
  "baselineList c args =
     on (lift_err (Parse [(''package'', StringFlag)] args)) (\<lambda>(st, _).
       let pkg = flag_string st ''package'' [] in
       if pkg = [] then give_up (Msg ''baseline list: -package is required'')
       else on (call (be_LoadBaseline (cl_store c) pkg)) (\<lambda>bs.
         say (if cl_json c then renderJSON (nil_slice json_BaselineRow bs)
              else renderTable [''CATEGORY'', ''VALUE'', ''COUNT'', ''FIRST_SEEN'', ''LAST_SEEN'']
                (map (\<lambda>b. [bl_Category b, cli_truncate (bl_Value b) 60, Itoa (bl_OccurrenceCount b),
                           cli_shortID (bl_FirstSeenRunID b), cli_shortID (bl_LastSeenRunID b)]) bs))))"

text \<open>The fingerprints of the run, as the differ sees them; an error of the allowlist query is dropped.\<close>

definition promoted_rows :: "('db, 'w) Cli \<Rightarrow> Run \<Rightarrow> EventRow list \<Rightarrow> err + AllowEntry list \<Rightarrow> BaselineRow list" where
  "promoted_rows c run events r =
     (let filter = NewFilter (EntriesForPackage (case r of Inl e \<Rightarrow> [] | Inr es \<Rightarrow> es) (run_PackageName run)) in
      map (\<lambda>fp. baseline_row (run_PackageName run) (run_ID run) (fp_Count fp) fp)
        (ExtractFingerprintsWith (cl_order c) events (Some filter)))"

definition baselinePromote :: "('db, 'w) Cli \<Rightarrow> string list \<Rightarrow> ('db, 'w) act" where
  "baselinePromote c args =
     (case args of
        [] \<Rightarrow> give_up (Msg ''baseline promote: missing run_id argument'')
      | p # _ \<Rightarrow>
          on (call (be_ResolveRunPrefix (cl_store c) p)) (\<lambda>run.
            if run_PackageName run = [] then give_up (Msg ''baseline promote: run has empty package_name'')
            else on (call (be_ListEventsByRun (cl_store c) (run_ID run) 0)) (\<lambda>events a.
              case call (be_ListAllowEntries (cl_store c)) a of (al, a1) \<Rightarrow>
                (let rows = promoted_rows c run events al in
                 on (call (be_MergeBaseline (cl_store c) (run_ID run) rows)) (\<lambda>_.
                 on (call (be_MarkRunBaseline (cl_store c) (run_ID run) True)) (\<lambda>_ a2.
                   case call (be_DeleteDeviationsForRun (cl_store c) (run_ID run)) a2 of (r, a3) \<Rightarrow>
                     say (if cl_json c
                          then renderJSON (JObj [(''fingerprints_merged'', JNum (int (length rows))), (''package'', JStr (run_PackageName run)),
                                 (''promoted'', JBool True), (''run_id'', JStr (run_ID run))])
                          else [Line (''Promoted run '' @ cli_shortID (run_ID run) @ '' (package='' @ run_PackageName run @ '') to baseline.''),
                                Line (''Merged '' @ Itoa (int (length rows)) @ '' fingerprints into baseline_fingerprints.'')])
                       (case r of Inl e \<Rightarrow> warn (''warning: could not clear deviations: '' @ err_text e) a3 | Inr _ \<Rightarrow> a3))) a1))))"

definition baselineCmd :: "('db, 'w) Cli \<Rightarrow> string list \<Rightarrow> ('db, 'w) act" where
  "baselineCmd c args =
     (case args of
        [] \<Rightarrow> give_up (Msg ''baseline: missing subcommand (list|promote)'')
      | s # rest \<Rightarrow>
          if s = ''list'' then baselineList c rest
          else if s = ''promote'' then baselinePromote c rest
          else give_up (Msg (''baseline: unknown subcommand '' @ Quote s)))"

end
