(* ===== verification/Cli_Commands.thy ===== *)
theory Cli_Commands
  imports Cli
begin

text \<open>
  The commands of \<open>cmd/fangs-cli/internal/cli\<close> on scans, packages and releases. A submission
  sends a job to the orchestrator; the registry is asked first unless told otherwise.
\<close>

section \<open>Scans\<close>

fun as_flag :: "json \<Rightarrow> bool option" where
  "as_flag (JBool b) = Some b"
| "as_flag _ = None"

text \<open>The \<open>run_id\<close> of the orchestrator's answer.\<close>

definition decode_queued :: "json option \<Rightarrow> string option" where
  "decode_queued d =
     (case d of
        None \<Rightarrow> None
      | Some j \<Rightarrow>
          (case unmarshal_object j of
             None \<Rightarrow> None
           | Some kvs \<Rightarrow>
               (case (unmarshal_field as_flag ''queued'' kvs False, unmarshal_field as_string ''run_id'' kvs []) of
                  (Some q, Some i) \<Rightarrow> Some i
                | _ \<Rightarrow> None)))"

definition submitScan ::
  "('db, 'w) Cli \<Rightarrow> string \<Rightarrow> string \<Rightarrow> string \<Rightarrow> string \<Rightarrow> duration \<Rightarrow> (('db, 'w) app, string) op" where
  "submitScan c orchestratorURL runnerID0 pkg version dur a =
     (let runnerID = (if runnerID0 = [] then cl_hostname c else runnerID0);
          job = (watcher_job pkg version)\<lparr>jb_Duration := dur\<rparr>;
          url = orchestratorURL @ ''/v1/scans''
      in if url_parse url = None then (Inl (Msg ''parse''), a)
         else (case cl_submit c url (runnerID, job) (ap_db a, ap_world a) of
                 (Inl e, db, w) \<Rightarrow> (Inl (Wrap (''POST '' @ url) e), a\<lparr>ap_db := db, ap_world := w\<rparr>)
               | (Inr (status, body), db, w) \<Rightarrow>
                   (let a' = a\<lparr>ap_db := db, ap_world := w\<rparr>; respBody = take 4096 body in
                    if status < 200 \<or> status \<ge> 300
                    then (Inl (Msg (''orchestrator returned '' @ Itoa status @ '': '' @ respBody)), a')
                    else (case decode_queued (cl_unmarshal c respBody) of
                            None \<Rightarrow> (Inl (Wrap ''decode orchestrator response'' (Msg ''json'')), a')
                          | Some i \<Rightarrow> (Inr i, a')))))"

definition reportSubmit :: "('db, 'w) Cli \<Rightarrow> string \<Rightarrow> string \<Rightarrow> string \<Rightarrow> string \<Rightarrow> ('db, 'w) act" where
  "reportSubmit c orchestratorURL pkg version runID =
     say (if cl_json c
          then renderJSON (JObj [(''package'', JStr pkg), (''queued'', JBool True), (''run_id'', JStr runID), (''version'', JStr version)])
          else [Line (''queued scan run_id='' @ cli_shortID runID @ '' package='' @ pkg @ '' version='' @ version),
                Line (''watch: '' @ orchestratorURL @ ''/ui/runs/'' @ runID),
                Line (''  or:  fangs run show '' @ cli_shortID runID)])"

abbreviation default_orchestrator :: string where "default_orchestrator \<equiv> ''http://127.0.0.1:8443''"
abbreviation npm_registry :: string where "npm_registry \<equiv> ''https://registry.npmjs.org''"

definition scanSubmit :: "('db, 'w) Cli \<Rightarrow> string list \<Rightarrow> ('db, 'w) act" where
  "scanSubmit c args =
     on (lift_err (Parse [(''package'', StringFlag), (''version'', StringFlag), (''orchestrator'', StringFlag), (''runner'', StringFlag),
           (''duration'', DurationFlag), (''skip-registry-validate'', BoolFlag)] args)) (\<lambda>(st, _).
       let pkg = flag_string st ''package'' []; version = flag_string st ''version'' [];
           url = flag_string st ''orchestrator'' default_orchestrator in
       if pkg = [] \<or> version = [] then give_up (Msg ''scan submit: -package and -version required'')
       else on (if flag_bool st ''skip-registry-validate'' False then lift_err (Inr ())
                else (case Resolve (cl_registry c) npm_registry pkg version of
                        Inr _ \<Rightarrow> lift_err (Inr ())
                      | Inl e \<Rightarrow>
                          if errors_Is e ErrPackageNotFound
                          then give_up (Msg (''scan submit: package '' @ Quote pkg @ '' not found on registry.npmjs.org''))
                          else if errors_Is e ErrVersionNotFound
                          then give_up (Msg (''scan submit: version '' @ Quote version @ '' not found for package '' @ Quote pkg @
                                 '' on registry.npmjs.org''))
                          else give_up (Wrap ''scan submit: registry lookup failed'' e))) (\<lambda>_.
            on (submitScan c url (flag_string st ''runner'' []) pkg version (flag_duration st ''duration'' (60 * second)))
              (reportSubmit c url pkg version)))"

definition scanCmd :: "('db, 'w) Cli \<Rightarrow> string list \<Rightarrow> ('db, 'w) act" where
  "scanCmd c args =
     (case args of
        [] \<Rightarrow> give_up (Msg ''scan: expected subcommand (submit)'')
      | s # rest \<Rightarrow> if s = ''submit'' then scanSubmit c rest else give_up (Msg (''scan: unknown subcommand '' @ Quote s)))"

section \<open>Packages and releases\<close>

text \<open>The registry lookup of \<open>package add\<close>: the latest version, empty when it is not looked up.\<close>

definition latest_of :: "('db, 'w) Cli \<Rightarrow> bool \<Rightarrow> string \<Rightarrow> err + string" where
  "latest_of c skipValidate name =
     (if skipValidate then Inr []
      else (case Resolve (cl_registry c) npm_registry name [] of
              Inr v \<Rightarrow> Inr (pv_Version v)
            | Inl e \<Rightarrow>
                if errors_Is e ErrPackageNotFound
                then Inl (Msg (''package add: '' @ Quote name @ '' not found on registry.npmjs.org''))
                else Inl (Wrap ''package add: registry lookup failed'' e)))"

definition added_lines :: "string \<Rightarrow> string \<Rightarrow> string \<Rightarrow> string \<Rightarrow> bool \<Rightarrow> string list" where
  "added_lines url name version runID skipScan =
     [''added '' @ Quote name @ '' to watched packages'' @ (if version \<noteq> [] then '' (latest: '' @ version @ '')'' else [])] @
     (if runID \<noteq> [] then [''kickoff scan queued: run_id='' @ cli_shortID runID, ''watch: '' @ url @ ''/ui/runs/'' @ runID]
      else if skipScan then [''kickoff scan skipped (-skip-initial-scan).'']
      else if version = [] then [''kickoff scan skipped (registry validation off, no version known).''] else [])"

definition kickoff ::
  "('db, 'w) Cli \<Rightarrow> string \<Rightarrow> string \<Rightarrow> string \<Rightarrow> string \<Rightarrow> duration \<Rightarrow> bool \<Rightarrow> ('db, 'w) app \<Rightarrow> string \<times> ('db, 'w) app" where
  "kickoff c url runner name version dur skipScan a =
     (if \<not> skipScan \<and> version \<noteq> [] then
        (case submitScan c url runner name version dur a of
           (Inr i, a') \<Rightarrow> (i, a')
         | (Inl e, a') \<Rightarrow> ([], warn (''warning: added watch but kickoff scan failed: '' @ err_text e) a'))
      else ([], a))"

text \<open>What follows once the package is watched: its version is noted, the first scan submitted, the outcome printed.\<close>

definition watch_added ::
  "('db, 'w) Cli \<Rightarrow> string \<Rightarrow> string \<Rightarrow> duration \<Rightarrow> bool \<Rightarrow> string \<Rightarrow> string \<Rightarrow> ('db, 'w) act" where
  "watch_added c url runner dur skipScan name version a =
     (let a1 = (if version \<noteq> [] then snd (call (be_UpdatePackageCheck (cl_store c) (cl_clock c 1) name version) a) else a);
          (runID, a2) = kickoff c url runner name version dur skipScan a1
      in say (if cl_json c
              then renderJSON (JObj ([(''added'', JBool True)] @ (if runID \<noteq> [] then [(''kickoff_run_id'', JStr runID)] else []) @
                     [(''latest_version'', JStr version), (''package'', JStr name)]))
              else map Line (added_lines url name version runID skipScan)) a2)"

definition packageAdd :: "('db, 'w) Cli \<Rightarrow> string list \<Rightarrow> ('db, 'w) act" where
  "packageAdd c args =
     on (lift_err (Parse [(''orchestrator'', StringFlag), (''runner'', StringFlag), (''skip-initial-scan'', BoolFlag),
           (''skip-registry-validate'', BoolFlag), (''duration'', DurationFlag)] args)) (\<lambda>(st, posArgs).
       let url = flag_string st ''orchestrator'' default_orchestrator; skipScan = flag_bool st ''skip-initial-scan'' False in
       case posArgs of
         [] \<Rightarrow> give_up (Msg ''package add: missing package name'')
       | name # _ \<Rightarrow>
           on (\<lambda>a. case call (be_ListWatchedPackages (cl_store c)) a of
                  (Inl e, a') \<Rightarrow> (Inl (Wrap ''list watched'' e), a')
                | (Inr ws, a') \<Rightarrow> (Inr ws, a')) (\<lambda>watched.
           case find (\<lambda>w. wp_Name w = name) watched of
             Some w \<Rightarrow> give_up (Msg (''package '' @ Quote name @ '' is already watched (added '' @ rfc3339 (wp_AddedAt w) @ '')''))
           | None \<Rightarrow>
               on (lift_err (latest_of c (flag_bool st ''skip-registry-validate'' False) name)) (\<lambda>version.
               on (call (be_AddWatchedPackage (cl_store c) (cl_clock c 0) name)) (\<lambda>_.
                 watch_added c url (flag_string st ''runner'' []) (flag_duration st ''duration'' (60 * second)) skipScan name version))))"

definition packageRemove :: "('db, 'w) Cli \<Rightarrow> string list \<Rightarrow> ('db, 'w) act" where
  "packageRemove c args =
     (case args of
        [] \<Rightarrow> give_up (Msg ''package remove: missing package name'')
      | name # _ \<Rightarrow>
          on (call (be_RemoveWatchedPackage (cl_store c) name)) (\<lambda>_.
            say (if cl_json c then renderJSON (JObj [(''package'', JStr name), (''removed'', JBool True)])
                 else [Line (''removed '' @ Quote name @ '' from watched packages'')])))"

definition packageWatched :: "('db, 'w) Cli \<Rightarrow> ('db, 'w) act" where
  "packageWatched c =
     on (call (be_ListWatchedPackages (cl_store c))) (\<lambda>ps.
       say (if cl_json c then renderJSON (nil_slice json_WatchedPackage ps)
            else renderTable [''PACKAGE'', ''ADDED'', ''LAST_CHECKED'', ''LAST_SEEN'']
              (map (\<lambda>p. [wp_Name p, table_time (wp_AddedAt p),
                         case wp_LastCheckedAt p of None \<Rightarrow> ''(never)'' | Some t \<Rightarrow> table_time t,
                         if wp_LastSeenVersion p = [] then ''-'' else wp_LastSeenVersion p]) ps)))"

definition packageList :: "('db, 'w) Cli \<Rightarrow> ('db, 'w) act" where
  "packageList c =
     on (call (be_ListPackages (cl_store c))) (\<lambda>ps.
       say (if cl_json c then renderJSON (nil_slice json_PackageSummary ps)
            else renderTable [''PACKAGE'', ''RUNS'', ''BASELINES'', ''LATEST_VERSION'', ''LATEST_DEVS'', ''LATEST_RUN'']
              (map (\<lambda>p. [ps_Name p, Itoa (ps_RunsTotal p), Itoa (ps_RunsBaseline p), ps_LatestVersion p,
                         Itoa (ps_DeviationsLatest p), cli_shortID (ps_LatestRunID p)]) ps)))"

definition packageCmd :: "('db, 'w) Cli \<Rightarrow> string list \<Rightarrow> ('db, 'w) act" where
  "packageCmd c args =
     (case args of
        [] \<Rightarrow> give_up (Msg ''package: missing subcommand (list|add|remove|watched)'')
      | s # rest \<Rightarrow>
          if s = ''list'' then packageList c
          else if s = ''add'' then packageAdd c rest
          else if s = ''remove'' \<or> s = ''rm'' then packageRemove c rest
          else if s = ''watched'' then packageWatched c
          else give_up (Msg (''package: unknown subcommand '' @ Quote s)))"

definition releaseList :: "('db, 'w) Cli \<Rightarrow> string list \<Rightarrow> ('db, 'w) act" where
  "releaseList c args =
     on (lift_err (Parse [(''package'', StringFlag), (''limit'', IntFlag)] args)) (\<lambda>(st, _).
       let pkg = flag_string st ''package'' [] in
       if pkg = [] then give_up (Msg ''release list: -package is required'')
       else on (call (be_ListReleasesByPackage (cl_store c) pkg (flag_int st ''limit'' 50))) (\<lambda>rels.
         say (if cl_json c then renderJSON (nil_slice json_ReleaseRow rels)
              else renderTable [''PACKAGE'', ''VERSION'', ''PUBLISHED'', ''DISCOVERED'', ''TARBALL_SHA'']
                (map (\<lambda>r. [rel_PackageName r, rel_Version r,
                           if rel_PublishedAt r = zero_time then ''-'' else table_time (rel_PublishedAt r),
                           table_time (rel_DiscoveredAt r), cli_truncate (rel_TarballSHA256 r) 16]) rels))))"

definition releaseCmd :: "('db, 'w) Cli \<Rightarrow> string list \<Rightarrow> ('db, 'w) act" where
  "releaseCmd c args =
     (case args of
        [] \<Rightarrow> give_up (Msg ''release: missing subcommand (list)'')
      | s # rest \<Rightarrow> if s = ''list'' then releaseList c rest else give_up (Msg (''release: unknown subcommand '' @ Quote s)))"

end
