(* ===== verification/Cli_Main.thy ===== *)
theory Cli_Main
  imports Cli_Commands
begin

text \<open>
  The allowlist, notifier and triage commands of \<open>cmd/fangs-cli/internal/cli\<close>, and \<open>Run\<close>,
  which parses the global flags, opens the storage and dispatches.
\<close>

section \<open>Allowlist\<close>

definition allow_cells :: "AllowEntry \<Rightarrow> string list" where
  "allow_cells e =
     [cli_shortID (al_ID e), al_Scope e, if al_PackageName e = [] then em_dash else al_PackageName e, al_Kind e,
      cli_truncate (al_Value e) 40, cli_truncate (al_Note e) 30, rfc3339 (al_CreatedAt e)]"

definition allowList :: "('db, 'w) Cli \<Rightarrow> string list \<Rightarrow> ('db, 'w) act" where
  "allowList c args =
     on (lift_err (Parse [(''package'', StringFlag)] args)) (\<lambda>(st, _).
     on (call (be_ListAllowEntries (cl_store c))) (\<lambda>all.
       let pkg = flag_string st ''package'' []; rows = (if pkg \<noteq> [] then EntriesForPackage all pkg else all) in
       say (if cl_json c then renderJSON (if pkg \<noteq> [] then JArr (map json_AllowEntry rows) else nil_slice json_AllowEntry rows)
            else if rows = []
            then [Line ''no allowlist entries.'',
                  Line (''  fangs allow add -kind cidr  -value 10.0.0.0/8 -note '' @ [CHR 0x27] @ ''internal net'' @ [CHR 0x27]),
                  Line ''  fangs allow add -kind sni   -value telemetry.internal -package my-pkg'']
            else renderTable [''ID'', ''SCOPE'', ''PACKAGE'', ''KIND'', ''VALUE'', ''NOTE'', ''CREATED''] (map allow_cells rows))))"

definition allow_value_error :: "string \<Rightarrow> string \<Rightarrow> err option" where
  "allow_value_error kind value =
     (if kind = AllowKindCIDR then
        (case ParseCIDR value of
           None \<Rightarrow> Some (Wrap ''allow add: -value is not a valid CIDR'' (Msg (''invalid CIDR address: '' @ value)))
         | Some n \<Rightarrow> None)
      else if kind = AllowKindPath then
        (if \<not> HasPrefix value ''/'' then Some (Msg ''allow add: path values should be absolute (start with /)'') else None)
      else if kind = AllowKindSNI then None
      else Some (Msg (''allow add: unknown -kind '' @ Quote kind @ '' (cidr|path|sni)'')))"

definition newAllowID :: "('db, 'w) Cli \<Rightarrow> string" where
  "newAllowID c = hex_bytes (cl_rand c)"

definition allow_entry :: "('db, 'w) Cli \<Rightarrow> string \<Rightarrow> string \<Rightarrow> string \<Rightarrow> string \<Rightarrow> AllowEntry" where
  "allow_entry c kind value pkg note =
     \<lparr>al_ID = newAllowID c, al_Scope = (if pkg \<noteq> [] then AllowScopePackage else AllowScopeGlobal), al_PackageName = pkg,
      al_Kind = kind, al_Value = value, al_Note = note, al_CreatedAt = cl_clock c 0\<rparr>"

definition allowAdd :: "('db, 'w) Cli \<Rightarrow> string list \<Rightarrow> ('db, 'w) act" where
  "allowAdd c args =
     on (lift_err (Parse [(''kind'', StringFlag), (''value'', StringFlag), (''package'', StringFlag), (''note'', StringFlag)] args))
       (\<lambda>(st, _).
       let kind = flag_string st ''kind'' []; value = flag_string st ''value'' []; pkg = flag_string st ''package'' [];
           e = allow_entry c kind value pkg (flag_string st ''note'' []) in
       if kind = [] \<or> value = [] then give_up (Msg ''allow add: -kind and -value required'')
       else (case allow_value_error kind value of
               Some er \<Rightarrow> give_up er
             | None \<Rightarrow>
                 on (call (be_AddAllowEntry (cl_store c) (cl_clock c 1) e)) (\<lambda>_.
                   say [Line ((if al_Scope e = AllowScopeGlobal then ''added global '' @ kind else ''added '' @ pkg @ ''/'' @ kind) @
                          '' allowlist entry '' @ cli_shortID (al_ID e) @ '' '' @ em_dash @ '' '' @ value)])))"

definition allowRemove :: "('db, 'w) Cli \<Rightarrow> string list \<Rightarrow> ('db, 'w) act" where
  "allowRemove c args =
     (case args of
        [] \<Rightarrow> give_up (Msg ''allow remove: expected <id_prefix>'')
      | p # _ \<Rightarrow>
          on (\<lambda>a. case call (be_ResolveAllowPrefix (cl_store c) p) a of
                 (Inl e, a') \<Rightarrow>
                   (Inl (if errors_Is e ErrAmbiguous
                         then Msg (''allow remove: prefix '' @ Quote p @ '' matches more than one entry; use a longer prefix'')
                         else if errors_Is e ErrNotFound then Msg (''allow remove: no entry matches '' @ Quote p)
                         else e), a')
               | (Inr e, a') \<Rightarrow> (Inr e, a')) (\<lambda>e.
          on (call (be_DeleteAllowEntry (cl_store c) (al_ID e))) (\<lambda>_.
            say [Line (''removed '' @ al_Kind e @ '' allowlist entry '' @ cli_shortID (al_ID e))])))"

definition allowCmd :: "('db, 'w) Cli \<Rightarrow> string list \<Rightarrow> ('db, 'w) act" where
  "allowCmd c args =
     (case args of
        [] \<Rightarrow> give_up (Msg ''allow: expected subcommand (list|add|remove)'')
      | s # rest \<Rightarrow>
          if s = ''list'' then allowList c rest
          else if s = ''add'' then allowAdd c rest
          else if s = ''remove'' \<or> s = ''rm'' then allowRemove c rest
          else give_up (Msg (''allow: unknown subcommand '' @ Quote s)))"

section \<open>Notifiers\<close>

definition notifier_cells :: "NotifierRow \<Rightarrow> string list" where
  "notifier_cells n =
     [nt_Name n, nt_Template n, cli_truncate (nt_URL n) 50, if nt_Enabled n then ''yes'' else ''no'',
      if nt_MinSeverity n = [] then ''any'' else nt_MinSeverity n,
      if nt_SecretEnv n \<noteq> [] then ''$'' @ nt_SecretEnv n else ''no'', rfc3339 (nt_UpdatedAt n)]"

definition notifierList :: "('db, 'w) Cli \<Rightarrow> string list \<Rightarrow> ('db, 'w) act" where
  "notifierList c args =
     on (call (be_ListNotifiers (cl_store c))) (\<lambda>rows.
       say (if cl_json c then renderJSON (nil_slice json_NotifierRow rows)
            else if rows = []
            then [Line ''no notifiers configured. add one:'',
                  Line ''  fangs notifier add -name soc-slack -url https://hooks.slack.com/... -template slack'']
            else renderTable [''NAME'', ''TEMPLATE'', ''URL'', ''ENABLED'', ''MIN_SEV'', ''HMAC'', ''UPDATED''] (map notifier_cells rows)))"

definition notifier_row_error :: "('db, 'w) Cli \<Rightarrow> NotifierRow \<Rightarrow> err option" where
  "notifier_row_error c n =
     (if nt_Name n = [] \<or> nt_URL n = [] then Some (Msg ''notifier add: -name and -url required'')
      else if nt_Template n \<notin> set [''slack'', ''discord'', ''generic'']
      then Some (Msg (''notifier add: unknown -template '' @ Quote (nt_Template n) @ '' (slack|discord|generic)''))
      else if nt_MinSeverity n \<noteq> [] \<and> nt_MinSeverity n \<notin> set [''low'', ''medium'', ''high'', ''critical'']
      then Some (Msg (''notifier add: invalid -min-severity '' @ Quote (nt_MinSeverity n)))
      else if nt_Headers n \<noteq> [] \<and> (case cl_unmarshal c (nt_Headers n) of None \<Rightarrow> True | Some j \<Rightarrow> as_string_map j = None)
      then Some (Wrap (''notifier add: -headers isn'' @ [CHR 0x27] @ ''t a valid JSON string-map'') (Msg ''json''))
      else None)"

definition notifierAdd :: "('db, 'w) Cli \<Rightarrow> string list \<Rightarrow> ('db, 'w) act" where
  "notifierAdd c args =
     on (lift_err (Parse [(''name'', StringFlag), (''url'', StringFlag), (''template'', StringFlag), (''secret-env'', StringFlag),
           (''min-severity'', StringFlag), (''headers'', StringFlag), (''enabled'', BoolFlag)] args)) (\<lambda>(st, _).
       let n = \<lparr>nt_Name = flag_string st ''name'' [], nt_URL = flag_string st ''url'' [],
                nt_Template = flag_string st ''template'' ''generic'', nt_SecretEnv = flag_string st ''secret-env'' [],
                nt_Headers = flag_string st ''headers'' [], nt_MinSeverity = flag_string st ''min-severity'' [],
                nt_Enabled = flag_bool st ''enabled'' True, nt_CreatedAt = zero_time, nt_UpdatedAt = zero_time\<rparr> in
       case notifier_row_error c n of
         Some e \<Rightarrow> give_up e
       | None \<Rightarrow>
           on (call (be_UpsertNotifier (cl_store c) (cl_clock c 0) n)) (\<lambda>_.
             say [Line (''notifier '' @ Quote (nt_Name n) @ '' saved'')]))"

definition notifierRemove :: "('db, 'w) Cli \<Rightarrow> string list \<Rightarrow> ('db, 'w) act" where
  "notifierRemove c args =
     (case args of
        [] \<Rightarrow> give_up (Msg ''notifier remove: expected <name>'')
      | name # _ \<Rightarrow>
          on (call (be_DeleteNotifier (cl_store c) name)) (\<lambda>_.
            say [Line (''notifier '' @ Quote name @ '' removed'')]))"

text \<open>The text of the body for each template.\<close>

definition buildTestPayload :: "string \<Rightarrow> err + string \<times> string" where
  "buildTestPayload template =
     (let q = [CHR 0x22] in
      if template = ''slack''
      then Inr (''{'' @ q @ ''text'' @ q @ '':'' @ q @ ''FANGS notifier test '' @ em_dash @
                '' if you see this, your Slack webhook is wired correctly.'' @ q @ ''}'', ''application/json'')
      else if template = ''discord''
      then Inr (''{'' @ q @ ''username'' @ q @ '':'' @ q @ ''FANGS'' @ q @ '','' @ q @ ''embeds'' @ q @ '':[{'' @
                q @ ''title'' @ q @ '':'' @ q @ ''FANGS notifier test'' @ q @ '','' @ q @ ''description'' @ q @ '':'' @
                q @ ''If you see this, your Discord webhook is wired correctly.'' @ q @ '','' @ q @ ''color'' @ q @ '':6266213}]}'',
                ''application/json'')
      else if template = ''generic''
      then Inr (''{'' @ q @ ''source'' @ q @ '':'' @ q @ ''fangs-orchestrator'' @ q @ '','' @ q @ ''schema_version'' @ q @ '':'' @
                q @ ''v1'' @ q @ '','' @ q @ ''test'' @ q @ '':true,'' @ q @ ''message'' @ q @ '':'' @
                q @ ''notifier test from fangs CLI'' @ q @ ''}'', ''application/json'')
      else Inl (Msg (''unknown template '' @ Quote template)))"

definition notifierTest :: "('db, 'w) Cli \<Rightarrow> string list \<Rightarrow> ('db, 'w) act" where
  "notifierTest c args =
     (case args of
        [] \<Rightarrow> give_up (Msg ''notifier test: expected <name>'')
      | name # _ \<Rightarrow>
          on (\<lambda>a. case call (be_GetNotifier (cl_store c) name) a of
                 (Inl e, a') \<Rightarrow> (Inl (Wrap ''notifier test'' e), a')
               | (Inr t, a') \<Rightarrow> (Inr t, a')) (\<lambda>target.
          on (lift_err (buildTestPayload (nt_Template target))) (\<lambda>(body, contentType).
            if url_parse (nt_URL target) = None then give_up (Msg ''parse'')
            else (case cl_post c \<lparr>rq_URL = nt_URL target,
                      rq_Headers = Header_Set ''User-Agent'' ''fangs-cli (notifier test)'' (Header_Set ''Content-Type'' contentType []),
                      rq_Body = body\<rparr> of
                    Inl e \<Rightarrow> give_up (Wrap ''notifier test: POST failed'' e)
                  | Inr status \<Rightarrow>
                      on (say [Line (right_arrow @ '' POST '' @ nt_URL target), Line (''  HTTP '' @ Itoa status)]) (\<lambda>_.
                        if status \<ge> 200 \<and> status < 300 then say [Line (check_mark @ '' test notification accepted'')]
                        else give_up (Msg (''test notification rejected with HTTP '' @ Itoa status)))))))"

definition notification_cells :: "NotificationRow \<Rightarrow> string list" where
  "notification_cells n =
     [nf_NotifierName n, Itoa (nf_Attempt n), nf_Status n,
      if nf_ResponseCode n > 0 then Itoa (nf_ResponseCode n) else em_dash, Itoa (nf_DeviationCount n),
      case nf_LastAttemptedAt n of None \<Rightarrow> em_dash | Some t \<Rightarrow> rfc3339 t, cli_truncate (nf_ErrorMsg n) 40]"

definition notifierHistory :: "('db, 'w) Cli \<Rightarrow> string list \<Rightarrow> ('db, 'w) act" where
  "notifierHistory c args =
     on (lift_err (Parse [(''run'', StringFlag)] args)) (\<lambda>(st, _).
       let runID = flag_string st ''run'' [] in
       if runID = [] then give_up (Msg ''notifier history: -run required'')
       else on (\<lambda>a. case call (be_GetRun (cl_store c) runID) a of
                  (Inl e, a') \<Rightarrow> (if errors_Is e ErrNotFound then call (be_ResolveRunPrefix (cl_store c) runID) a' else (Inl e, a'))
                | (Inr run, a') \<Rightarrow> (Inr run, a')) (\<lambda>run.
            on (call (be_ListNotificationsByRun (cl_store c) (run_ID run))) (\<lambda>rows.
              say (if cl_json c then renderJSON (nil_slice json_NotificationRow rows)
                   else if rows = [] then [Line (''no notification attempts recorded for run '' @ cli_shortID (run_ID run))]
                   else renderTable [''NOTIFIER'', ''ATTEMPT'', ''STATUS'', ''HTTP'', ''DEVS'', ''LAST_AT'', ''ERROR'']
                          (map notification_cells rows)))))"

definition notifierCmd :: "('db, 'w) Cli \<Rightarrow> string list \<Rightarrow> ('db, 'w) act" where
  "notifierCmd c args =
     (case args of
        [] \<Rightarrow> give_up (Msg ''notifier: expected subcommand (list|add|remove|test|history)'')
      | s # rest \<Rightarrow>
          if s = ''list'' then notifierList c rest
          else if s = ''add'' then notifierAdd c rest
          else if s = ''remove'' \<or> s = ''rm'' then notifierRemove c rest
          else if s = ''test'' then notifierTest c rest
          else if s = ''history'' then notifierHistory c rest
          else give_up (Msg (''notifier: unknown subcommand '' @ Quote s)))"

section \<open>The triage queue\<close>

definition pendingSeverityRank :: "string \<Rightarrow> int" where
  "pendingSeverityRank s =
     (if s = ''critical'' then 4 else if s = ''high'' then 3 else if s = ''medium'' then 2 else if s = ''low'' then 1 else 0)"

definition pluralS :: "nat \<Rightarrow> string" where
  "pluralS n = (if n = 1 then [] else ''s'')"

definition cli_relTime :: "time \<Rightarrow> time \<Rightarrow> string" where
  "cli_relTime now t =
     (let d = now - t in
      if t = zero_time then em_dash
      else if d < 0 then ''future''
      else if d < 60 * second then Itoa (d div second) @ ''s ago''
      else if d < 3600 * second then Itoa (d div (60 * second)) @ ''m ago''
      else if d < 24 * 3600 * second then Itoa (d div (3600 * second)) @ ''h ago''
      else Itoa (d div (24 * 3600 * second)) @ ''d ago'')"

definition cli_count_deviation :: "DeviationRow \<Rightarrow> pendingRow \<Rightarrow> pendingRow" where
  "cli_count_deviation d r =
     r\<lparr>pr_DevCount := pr_DevCount r + 1,
       pr_MaxSeverity := (if pendingSeverityRank (dv_Severity d) > pendingSeverityRank (pr_MaxSeverity r) then dv_Severity d
                          else pr_MaxSeverity r),
       pr_FirstDetected := (if dv_DetectedAt d < pr_FirstDetected r then dv_DetectedAt d else pr_FirstDetected r),
       pr_LastDetected := (if dv_DetectedAt d > pr_LastDetected r then dv_DetectedAt d else pr_LastDetected r)\<rparr>"

fun cli_group_pending ::
  "'db Backend \<Rightarrow> DeviationRow list \<Rightarrow> (string \<times> pendingRow) list \<Rightarrow> 'db \<Rightarrow> (string \<times> pendingRow) list \<times> 'db" where
  "cli_group_pending be [] rows db = (rows, db)"
| "cli_group_pending be (d # ds) rows db =
     (case map_of rows (dv_RunID d) of
        Some r \<Rightarrow> cli_group_pending be ds (AList.update (dv_RunID d) (cli_count_deviation d r) rows) db
      | None \<Rightarrow>
          (case be_GetRun be (dv_RunID d) db of
             (Inl e, db') \<Rightarrow> cli_group_pending be ds rows db'
           | (Inr run, db') \<Rightarrow>
               if run_IsBaseline run then cli_group_pending be ds rows db'
               else cli_group_pending be ds (AList.update (dv_RunID d) (cli_count_deviation d (new_pending run d)) rows) db'))"

text \<open>\<open>cl_rows_order\<close> is the order that rows with equal keys end up in.\<close>

definition pending_rows_shown :: "('db, 'w) Cli \<Rightarrow> string \<Rightarrow> int \<Rightarrow> pendingRow list \<Rightarrow> pendingRow list" where
  "pending_rows_shown c minSev lim rs =
     (let kept = filter (\<lambda>r. \<not> pendingSeverityRank (pr_MaxSeverity r) < pendingSeverityRank minSev) (cl_rows_order c rs);
          rows = sort_key (\<lambda>r. - pendingSeverityRank (pr_MaxSeverity r)) (sort_key (\<lambda>r. - pr_LastDetected r) kept)
      in if lim > 0 \<and> int (length rows) > lim then take (nat lim) rows else rows)"

definition pending_cells :: "('db, 'w) Cli \<Rightarrow> nat \<Rightarrow> pendingRow \<Rightarrow> string list" where
  "pending_cells c i r =
     [pr_MaxSeverity r, cli_shortID (run_ID (pr_Run r)), run_PackageName (pr_Run r), run_Version (pr_Run r),
      Itoa (pr_DevCount r), cli_relTime (cl_clock c i) (pr_LastDetected r), ''fangs baseline promote '' @ cli_shortID (run_ID (pr_Run r))]"

definition pending_printed :: "('db, 'w) Cli \<Rightarrow> pendingRow list \<Rightarrow> printed list" where
  "pending_printed c rows =
     (if cl_json c then renderJSON (JArr (map json_pendingRow rows))
      else if rows = [] then [Line ''no runs awaiting review.'']
      else renderTable [''SEVERITY'', ''RUN'', ''PACKAGE'', ''VERSION'', ''FINDINGS'', ''DETECTED'', ''PROMOTE'']
             (map (\<lambda>(i, r). pending_cells c i r) (enumerate 0 rows)) @
           [Line [], Line (Itoa (int (length rows)) @ '' run'' @ pluralS (length rows) @ '' awaiting review.'')])"

definition pendingCmd :: "('db, 'w) Cli \<Rightarrow> string list \<Rightarrow> ('db, 'w) act" where
  "pendingCmd c args =
     on (lift_err (Parse [(''package'', StringFlag), (''min-severity'', StringFlag), (''limit'', IntFlag)] args)) (\<lambda>(st, _).
     on (\<lambda>a. case call (be_ListDeviationsFiltered (cl_store c)
                \<lparr>df_PackageName = flag_string st ''package'' [], df_Severity = [], df_RunID = [], df_Limit = 5000\<rparr>) a of
            (Inl e, a') \<Rightarrow> (Inl (Wrap ''list deviations'' e), a')
          | (Inr ds, a') \<Rightarrow> (Inr ds, a')) (\<lambda>devs a.
       (let (byRun, db) = cli_group_pending (cl_store c) devs [] (ap_db a);
            rows = pending_rows_shown c (flag_string st ''min-severity'' []) (flag_int st ''limit'' 0) (map snd byRun)
        in say (pending_printed c rows) (a\<lparr>ap_db := db\<rparr>))))"

section \<open>Run\<close>

definition usage :: "string list" where
  "usage =
     [''fangs - operator console for the FANGS NPM supply-chain monitor'',
      [],
      ''Usage:'',
      ''  fangs [global flags] <subcommand> [args]'',
      [],
      ''Subcommands:'',
      ''  run list [-package P] [-limit N]'',
      ''  run show <run_id>'',
      ''  deviation list [-package P] [-severity S] [-run-id R] [-limit N]'',
      ''  deviation show <deviation_id>'',
      ''  baseline list [-package P]'',
      ''  baseline promote <run_id>'',
      ''  package list                       all packages with run summaries'',
      ''  package watched                    just the watched packages'',
      ''  package add <name>                 add a package to the watcher'',
      ''  package remove <name>              remove from the watcher'',
      ''  release list -package P [-limit N] releases captured by the watcher'',
      ''  notifier list                      configured webhook targets'',
      ''  notifier add -name N -url U -template slack|discord|generic [-secret-env E] [-min-severity S] [-headers JSON]'',
      ''  notifier remove <name>             delete a target'',
      ''  notifier test <name>               fire a synthetic test notification'',
      ''  notifier history -run R            delivery attempts for a run'',
      ''  allow list [-package P]            allowlist entries (global + per-package)'',
      ''  allow add -kind cidr|path|sni -value V [-package P] [-note N]'',
      ''                                     scope = package when -package set, else global'',
      ''  allow remove <id_prefix>           delete an entry by id (or unique prefix)'',
      ''  scan submit -package P -version V [-orchestrator URL] [-runner ID]'',
      ''                                     queue a one-off sandbox scan'',
      ''  pending [-package P] [-min-severity S] [-limit N]'',
      ''                                     runs awaiting baseline-promote (the triage queue)'',
      [],
      ''Global flags:'',
      ''  -storage      sqlite|postgres   (default: sqlite)'',
      ''  -sqlite-path  PATH               (default: var/lib/fangs/fangs.db)'',
      ''  -postgres-dsn DSN                (also reads $FANGS_PG_DSN)'',
      ''  -json                            emit JSON instead of table'',
      [],
      ''Examples:'',
      ''  fangs package list'',
      ''  fangs run list -package chalk -limit 10'',
      ''  fangs deviation list -severity warn -limit 20'',
      ''  fangs baseline promote 18b1f8...'']"

text \<open>\<open>op_mkdir\<close> makes the directory of a path; opening a backend also applies its schema.\<close>

record 'db openers =
  op_mkdir :: "string \<Rightarrow> err option"
  op_sqlite :: "string \<Rightarrow> err + 'db Backend"
  op_postgres :: "string \<Rightarrow> err + 'db Backend"
  op_getenv :: "string \<Rightarrow> string"

definition openStore :: "'db openers \<Rightarrow> string \<Rightarrow> string \<Rightarrow> string \<Rightarrow> err + 'db Backend" where
  "openStore os kind sqlitePath pgDSN =
     (if kind = ''sqlite'' then
        (case op_mkdir os sqlitePath of Some e \<Rightarrow> Inl (Wrap ''create sqlite dir'' e) | None \<Rightarrow> op_sqlite os sqlitePath)
      else if kind = ''postgres'' then
        (let dsn = (if pgDSN = [] then op_getenv os ''FANGS_PG_DSN'' else pgDSN) in
         if dsn = [] then Inl (Msg ''postgres backend requires -postgres-dsn or $FANGS_PG_DSN'') else op_postgres os dsn)
      else Inl (Msg (''unknown -storage '' @ Quote kind)))"

definition dispatch :: "('db, 'w) Cli \<Rightarrow> string list \<Rightarrow> ('db, 'w) act" where
  "dispatch c args =
     (case args of
        [] \<Rightarrow> give_up (Msg ''no subcommand provided'')
      | s # rest \<Rightarrow>
          if s = ''run'' then runCmd c rest
          else if s = ''deviation'' then deviationCmd c rest
          else if s = ''baseline'' then baselineCmd c rest
          else if s = ''package'' then packageCmd c rest
          else if s = ''release'' then releaseCmd c rest
          else if s = ''notifier'' then notifierCmd c rest
          else if s = ''allow'' then allowCmd c rest
          else if s = ''scan'' then scanCmd c rest
          else if s = ''pending'' then pendingCmd c rest
          else if s \<in> set [''help'', ''-h'', ''--help''] then say (map Line usage)
          else (\<lambda>a. (Inl (Msg (''unknown subcommand '' @ Quote s)), a\<lparr>ap_err := ap_err a @ usage\<rparr>)))"

text \<open>The store and the output format of \<open>c0\<close> are set here. The usage is printed for \<open>-help\<close> and after a flag error.\<close>

definition cli_Run :: "'db openers \<Rightarrow> ('db, 'w) Cli \<Rightarrow> string list \<Rightarrow> ('db, 'w) act" where
  "cli_Run os c0 args a =
     (case Parse [(''storage'', StringFlag), (''sqlite-path'', StringFlag), (''postgres-dsn'', StringFlag), (''json'', BoolFlag)] args of
        Inl e \<Rightarrow> ((if errors_Is e ErrHelp then Inr () else Inl e), a\<lparr>ap_err := ap_err a @ usage\<rparr>)
      | Inr (st, rest) \<Rightarrow>
          if rest = [] then (Inl (Msg ''no subcommand provided''), a\<lparr>ap_err := ap_err a @ usage\<rparr>)
          else (case openStore os (flag_string st ''storage'' ''sqlite'') (flag_string st ''sqlite-path'' ''var/lib/fangs/fangs.db'')
                       (flag_string st ''postgres-dsn'' []) of
                  Inl e \<Rightarrow> (Inl (Wrap ''storage'' e), a)
                | Inr be \<Rightarrow> dispatch (c0\<lparr>cl_store := be, cl_json := flag_bool st ''json'' False\<rparr>) rest a))"

text \<open>\<open>cmd/fangs-cli/main.go\<close>: the exit status.\<close>

definition fangs_main :: "'db openers \<Rightarrow> ('db, 'w) Cli \<Rightarrow> string list \<Rightarrow> ('db, 'w) app \<Rightarrow> int \<times> ('db, 'w) app" where
  "fangs_main os c args a =
     (case cli_Run os c args a of
        (Inl e, a') \<Rightarrow> (1, warn (''fangs: '' @ err_text e) a')
      | (Inr _, a') \<Rightarrow> (0, a'))"

end
