(* ===== verification/Storage_Keeps.thy ===== *)
theory Storage_Keeps
  imports Sqlite_Inv Postgres_Inv
begin

text \<open>
  What the clients of the storage interface rely on when they must not lose a property of the
  database: \<open>backend_reads\<close> asks it of the operations that only read, \<open>backend_ops\<close> of all. Both
  backends provide the first for the content of their tables and the second for the databases
  that are reachable; clients prove in these locales that they keep the property.
\<close>

locale backend_reads =
  fixes be :: "'db Backend" and I :: "'db \<Rightarrow> bool"
  assumes GetRun_keeps: "I db \<Longrightarrow> I (snd (be_GetRun be i db))"
    and ListRuns_keeps: "I db \<Longrightarrow> I (snd (be_ListRuns be n db))"
    and ListEventsByRun_keeps: "I db \<Longrightarrow> I (snd (be_ListEventsByRun be i n db))"
    and EventCount_keeps: "I db \<Longrightarrow> I (snd (be_EventCount be i db))"
    and LoadBaseline_keeps: "I db \<Longrightarrow> I (snd (be_LoadBaseline be p db))"
    and ListDeviations_keeps: "I db \<Longrightarrow> I (snd (be_ListDeviations be i db))"
    and ListDeviationsFiltered_keeps: "I db \<Longrightarrow> I (snd (be_ListDeviationsFiltered be f db))"
    and GetDeviation_keeps: "I db \<Longrightarrow> I (snd (be_GetDeviation be i db))"
    and GetEvent_keeps: "I db \<Longrightarrow> I (snd (be_GetEvent be ei db))"
    and ListPackages_keeps: "I db \<Longrightarrow> I (snd (be_ListPackages be db))"
    and ListRunsByPackage_keeps: "I db \<Longrightarrow> I (snd (be_ListRunsByPackage be p n db))"
    and ResolveRunPrefix_keeps: "I db \<Longrightarrow> I (snd (be_ResolveRunPrefix be p db))"
    and ResolveDeviationPrefix_keeps: "I db \<Longrightarrow> I (snd (be_ResolveDeviationPrefix be p db))"
    and ListWatchedPackages_keeps: "I db \<Longrightarrow> I (snd (be_ListWatchedPackages be db))"
    and ListReleasesByPackage_keeps: "I db \<Longrightarrow> I (snd (be_ListReleasesByPackage be p n db))"
    and EventsDroppedTotal_keeps: "I db \<Longrightarrow> I (snd (be_EventsDroppedTotal be db))"
    and ListAllowEntries_keeps: "I db \<Longrightarrow> I (snd (be_ListAllowEntries be db))"
    and ResolveAllowPrefix_keeps: "I db \<Longrightarrow> I (snd (be_ResolveAllowPrefix be p db))"
    and ListNotifiers_keeps: "I db \<Longrightarrow> I (snd (be_ListNotifiers be db))"
    and GetNotifier_keeps: "I db \<Longrightarrow> I (snd (be_GetNotifier be p db))"
    and ListNotificationsByRun_keeps: "I db \<Longrightarrow> I (snd (be_ListNotificationsByRun be i db))"
begin

lemmas reads_keep =
  GetRun_keeps ListRuns_keeps ListEventsByRun_keeps EventCount_keeps LoadBaseline_keeps ListDeviations_keeps
  ListDeviationsFiltered_keeps GetDeviation_keeps GetEvent_keeps ListPackages_keeps ListRunsByPackage_keeps ResolveRunPrefix_keeps
  ResolveDeviationPrefix_keeps ListWatchedPackages_keeps ListReleasesByPackage_keeps EventsDroppedTotal_keeps ListAllowEntries_keeps
  ResolveAllowPrefix_keeps ListNotifiers_keeps GetNotifier_keeps ListNotificationsByRun_keeps

end

locale backend_ops = backend_reads be I for be :: "'db Backend" and I +
  assumes CreateRun_keeps: "I db \<Longrightarrow> I (snd (be_CreateRun be now r db))"
    and UpdateRunState_keeps: "I db \<Longrightarrow> I (snd (be_UpdateRunState be now i st reason db))"
    and AppendEvents_keeps: "I db \<Longrightarrow> I (snd (be_AppendEvents be i es db))"
    and MergeBaseline_keeps: "I db \<Longrightarrow> I (snd (be_MergeBaseline be i bs db))"
    and MarkRunBaseline_keeps: "I db \<Longrightarrow> I (snd (be_MarkRunBaseline be i b db))"
    and WriteDeviations_keeps: "I db \<Longrightarrow> I (snd (be_WriteDeviations be ds db))"
    and DeleteDeviationsForRun_keeps: "I db \<Longrightarrow> I (snd (be_DeleteDeviationsForRun be i db))"
    and AddWatchedPackage_keeps: "I db \<Longrightarrow> I (snd (be_AddWatchedPackage be now p db))"
    and RemoveWatchedPackage_keeps: "I db \<Longrightarrow> I (snd (be_RemoveWatchedPackage be p db))"
    and UpdatePackageCheck_keeps: "I db \<Longrightarrow> I (snd (be_UpdatePackageCheck be now p ver db))"
    and RecordRelease_keeps: "I db \<Longrightarrow> I (snd (be_RecordRelease be rel db))"
    and RecordScanResult_keeps: "I db \<Longrightarrow> I (snd (be_RecordScanResult be now i sr db))"
    and PruneEvents_keeps: "I db \<Longrightarrow> I (snd (be_PruneEvents be c db))"
    and AddAllowEntry_keeps: "I db \<Longrightarrow> I (snd (be_AddAllowEntry be now al db))"
    and DeleteAllowEntry_keeps: "I db \<Longrightarrow> I (snd (be_DeleteAllowEntry be i db))"
    and UpsertNotifier_keeps: "I db \<Longrightarrow> I (snd (be_UpsertNotifier be now nt db))"
    and DeleteNotifier_keeps: "I db \<Longrightarrow> I (snd (be_DeleteNotifier be p db))"
    and RecordNotification_keeps: "I db \<Longrightarrow> I (snd (be_RecordNotification be now nf db))"
begin

lemmas ops_keep = reads_keep
  CreateRun_keeps UpdateRunState_keeps AppendEvents_keeps MergeBaseline_keeps MarkRunBaseline_keeps WriteDeviations_keeps
  DeleteDeviationsForRun_keeps AddWatchedPackage_keeps RemoveWatchedPackage_keeps UpdatePackageCheck_keeps RecordRelease_keeps
  RecordScanResult_keeps PruneEvents_keeps AddAllowEntry_keeps DeleteAllowEntry_keeps UpsertNotifier_keeps DeleteNotifier_keeps
  RecordNotification_keeps

end

lemma pg_EventsDroppedTotal_tab: "db_tab (snd (postgres_EventsDroppedTotal db)) = db_tab db"
  by (auto simp: postgres_EventsDroppedTotal_def wrap_err_snd pg_stmt_def stmt_def Let_def split: prod.splits sum.splits if_splits)

interpretation sqt: backend_reads sqlite_Backend "\<lambda>db. db_tab db = t" for t
  by unfold_locales (simp_all add: sqlite_Backend_def read_ops ListPackages_tab Let_def)

interpretation pgt: backend_reads "postgres_Backend coll" "\<lambda>db. db_tab db = t" for coll t
  by unfold_locales (simp_all add: postgres_Backend_def pg_read_ops pg_ListPackages_tab pg_EventsDroppedTotal_tab Let_def)

interpretation any: backend_ops be "\<lambda>db. True" for be
  by unfold_locales simp_all

interpretation sqs: backend_ops sqlite_Backend sqlite_reachable
  by unfold_locales (blast intro: sqlite_reachable.stepped sqlite_step.intros)+

interpretation pgs: backend_ops "postgres_Backend coll" "postgres_reachable coll" for coll
  by unfold_locales (blast intro: pg_stepped postgres_step.intros)+

end
