(* ===== verification/Cli_Safe.thy ===== *)
theory Cli_Safe
  imports Cli_Main Storage_Keeps
begin

text \<open>
  Whatever the command line, the console changes the database by operations of the backend
  and submissions only, and it only prints tables whose rows have a cell for each column.
  The argument is one about the interface, in the locale \<open>backend_ops\<close>: any property of databases
  that the operations and the submissions keep is kept by every command.
\<close>

definition rectangular :: "printed \<Rightarrow> bool" where
  "rectangular p \<longleftrightarrow> (case p of Table h rows \<Rightarrow> list_all (\<lambda>r. length r = length h) rows | _ \<Rightarrow> True)"

lemma rectangular_simps [simp]:
  "rectangular (Line s)" "rectangular (Doc j)" "rectangular (Raw d)"
  "rectangular (Table h rows) \<longleftrightarrow> list_all (\<lambda>r. length r = length h) rows"
  by (simp_all add: rectangular_def)

lemma list_all_rows [simp]: "list_all P (map f xs) \<longleftrightarrow> list_all (\<lambda>x. P (f x)) xs" "list_all (\<lambda>x. True) xs"
  by (simp_all add: list_all_iff)

lemma rectangular_lines [simp]: "list_all rectangular (map Line ls)"
  by simp

lemma rectangular_payload [simp]: "rectangular (payload_shown d)"
  by (simp add: payload_shown_def split: option.split json.split)

lemma rectangular_rendered [simp]:
  "list_all rectangular (renderJSON j)"
  "list_all rectangular (renderTable h rows) \<longleftrightarrow> list_all (\<lambda>r. length r = length h) rows"
  by (simp_all add: renderJSON_def renderTable_def)

definition behaves :: "('db \<Rightarrow> bool) \<Rightarrow> (('db, 'w) app, 'a) op \<Rightarrow> bool" where
  "behaves I f \<longleftrightarrow> (\<forall>a. I (ap_db a) \<longrightarrow> I (ap_db (snd (f a))) \<and>
     (\<exists>ps. ap_out (snd (f a)) = ap_out a @ ps \<and> list_all rectangular ps))"

lemma behaves_call: "(\<And>db. I db \<Longrightarrow> I (snd (g db))) \<Longrightarrow> behaves I (call g)"
  by (simp add: behaves_def call_def split: prod.split) (metis snd_conv)

lemma behaves_if: "behaves I f \<Longrightarrow> behaves I g \<Longrightarrow> behaves I (if P then f else g)"
  by simp

lemma behaves_call_if:
  "(\<And>db. I db \<Longrightarrow> I (snd (f db))) \<Longrightarrow> (\<And>db. I db \<Longrightarrow> I (snd (g db))) \<Longrightarrow> behaves I (call (if P then f else g))"
  by (simp add: behaves_call)

lemma behaves_say: "list_all rectangular ps \<Longrightarrow> behaves I (say ps)"
  by (simp add: behaves_def say_def)

lemma behaves_stop: "behaves I (give_up e)" "behaves I (lift_err r)"
  by (simp_all add: behaves_def give_up_def lift_err_def)

lemma behaves_pair:
  fixes f :: "(('db, 'w) app, 'a) op" and k :: "err + 'a \<Rightarrow> (('db, 'w) app, 'b) op"
  assumes "behaves I f" "\<And>r. behaves I (k r)"
  shows "behaves I (\<lambda>a. case f a of (r, a') \<Rightarrow> k r a')"
  unfolding behaves_def
proof (intro allI impI)
  fix a :: "('db, 'w) app" assume i: "I (ap_db a)"
  obtain r a' where f: "f a = (r, a')" by fastforce
  then obtain ps where 1: "I (ap_db a')" "ap_out a' = ap_out a @ ps" "list_all rectangular ps"
    using assms(1) i unfolding behaves_def by (metis snd_conv)
  then obtain qs where 2: "I (ap_db (snd (k r a')))" "ap_out (snd (k r a')) = ap_out a' @ qs" "list_all rectangular qs"
    using assms(2) unfolding behaves_def by blast
  show "I (ap_db (snd (case f a of (r, a') \<Rightarrow> k r a'))) \<and>
      (\<exists>ps. ap_out (snd (case f a of (r, a') \<Rightarrow> k r a')) = ap_out a @ ps \<and> list_all rectangular ps)"
    using 1 2 by (simp add: f)
qed

lemma behaves_on:
  assumes "behaves I f" "\<And>x. behaves I (k x)"
  shows "behaves I (on f k)"
proof -
  have eq: "on f k = (\<lambda>a. case f a of (r, a') \<Rightarrow> (case r of Inl e \<Rightarrow> give_up e | Inr x \<Rightarrow> k x) a')"
    by (auto simp: on_def give_up_def fun_eq_iff split: sum.split prod.split)
  show ?thesis
    unfolding eq by (rule behaves_pair [OF assms(1)]) (auto simp: behaves_stop assms(2) split: sum.split)
qed

lemma behaves_result:
  "behaves I f \<Longrightarrow> behaves I (\<lambda>a. case f a of (Inl e, a') \<Rightarrow> (Inl (h e), a') | (Inr x, a') \<Rightarrow> (Inr x, a'))"
  by (auto simp: behaves_def split: prod.split sum.split)

lemma behaves_warned: "list_all rectangular ps \<Longrightarrow> behaves I (\<lambda>a. say ps (warn (s a) a))"
  by (auto simp: behaves_def say_def warn_def)

lemma length_cells [simp]:
  "length (run_cells r) = 6" "length (deviation_cells d) = 6" "length (allow_cells e) = 7" "length (notifier_cells n) = 7"
  "length (notification_cells nf) = 7" "length (pending_cells c i pr) = 7"
  by (simp_all add: run_cells_def deviation_cells_def allow_cells_def notifier_cells_def notification_cells_def pending_cells_def)

lemmas behaviour = behaves_on behaves_stop behaves_say

context backend_ops
begin

lemma run_behaves: "cl_store c = be \<Longrightarrow> behaves I (runCmd c args)"
proof -
  assume c: "cl_store c = be"
  have "behaves I (runList c rest)" for rest
    unfolding runList_def Let_def case_prod_beta c
    by (intro behaviour behaves_call_if ops_keep) simp_all
  moreover have "behaves I (runShow c rest)" for rest
    unfolding runShow_def c
    by (auto intro!: behaviour behaves_call ops_keep split: list.split)
  ultimately show ?thesis
    unfolding runCmd_def by (auto intro: behaviour split: list.split)
qed

lemma deviation_behaves: "cl_store c = be \<Longrightarrow> behaves I (deviationCmd c args)"
proof -
  assume c: "cl_store c = be"
  have body: "behaves I (\<lambda>a'. if cl_json c then
         (case deviation_document d r of None \<Rightarrow> give_up e a' | Some j \<Rightarrow> say (renderJSON j) a')
       else say ps a')" if "list_all rectangular ps" for d r e ps
    using that behaves_stop(1) behaves_say [of ps I] behaves_say [of "renderJSON j" I for j]
    by (cases "cl_json c"; cases "deviation_document d r") simp_all
  have "behaves I (deviationShow c rest)" for rest
    unfolding deviationShow_def
    by (auto intro!: behaviour behaves_pair behaves_call body ops_keep simp: c
        split: list.split sum.split)
  moreover have "behaves I (deviationList c rest)" for rest
    unfolding deviationList_def case_prod_beta
    by (auto intro!: behaviour behaves_call ops_keep simp: c)
  ultimately show ?thesis
    unfolding deviationCmd_def by (auto intro: behaviour split: list.split)
qed

lemma baseline_behaves: "cl_store c = be \<Longrightarrow> behaves I (baselineCmd c args)"
proof -
  assume c: "cl_store c = be"
  have said: "behaves I (\<lambda>a. say ps (case r of Inl e \<Rightarrow> warn (m @ err_text e) a | Inr x \<Rightarrow> a))" if "list_all rectangular ps"
    for ps r and m :: string
    using that behaves_say [of ps I] by (cases r) (simp_all add: behaves_warned behaves_say)
  have "behaves I (baselinePromote c rest)" for rest
    unfolding baselinePromote_def Let_def
    by (auto intro!: behaviour behaves_pair behaves_call said ops_keep simp: c split: list.split)
  moreover have "behaves I (baselineList c rest)" for rest
    unfolding baselineList_def Let_def case_prod_beta
    by (auto intro!: behaviour behaves_call ops_keep simp: c)
  ultimately show ?thesis
    unfolding baselineCmd_def by (auto intro: behaviour split: list.split)
qed

lemma release_behaves: "cl_store c = be \<Longrightarrow> behaves I (releaseCmd c args)"
proof -
  assume c: "cl_store c = be"
  have "behaves I (releaseList c rest)" for rest
    unfolding releaseList_def Let_def case_prod_beta c
    by (auto intro!: behaviour behaves_call ops_keep)
  then show ?thesis
    unfolding releaseCmd_def by (auto intro: behaviour split: list.split)
qed

lemma allow_behaves: "cl_store c = be \<Longrightarrow> behaves I (allowCmd c args)"
proof -
  assume c: "cl_store c = be"
  have "behaves I (allowList c rest)" for rest
    unfolding allowList_def Let_def case_prod_beta c
    by (auto intro!: behaviour behaves_call ops_keep)
  moreover have "behaves I (allowAdd c rest)" for rest
    unfolding allowAdd_def Let_def case_prod_beta c
    by (auto intro!: behaviour behaves_call ops_keep split: option.split)
  moreover have "behaves I (allowRemove c rest)" for rest
    unfolding allowRemove_def c
    by (auto intro!: behaviour behaves_result behaves_call ops_keep split: list.split)
  ultimately show ?thesis
    unfolding allowCmd_def by (auto intro: behaviour split: list.split)
qed

lemma notifier_behaves: "cl_store c = be \<Longrightarrow> behaves I (notifierCmd c args)"
proof -
  assume c: "cl_store c = be"
  have "behaves I (notifierList c rest)" for rest
    unfolding notifierList_def c
    by (auto intro!: behaviour behaves_call ops_keep)
  moreover have "behaves I (notifierAdd c rest)" for rest
    unfolding notifierAdd_def Let_def case_prod_beta c
    by (auto intro!: behaviour behaves_call ops_keep split: option.split)
  moreover have "behaves I (notifierRemove c rest)" for rest
    unfolding notifierRemove_def c
    by (auto intro!: behaviour behaves_call ops_keep split: list.split)
  moreover have "behaves I (notifierTest c rest)" for rest
    unfolding notifierTest_def c
    by (auto intro!: behaviour behaves_result behaves_call ops_keep split: list.split sum.split prod.split)
  moreover have "behaves I (notifierHistory c rest)" for rest
  proof -
    have run: "behaves I (\<lambda>a. case call (be_GetRun be i) a of
           (Inl e, a') \<Rightarrow> (if errors_Is e ErrNotFound then call (be_ResolveRunPrefix be i) a' else (Inl e, a'))
         | (Inr run, a') \<Rightarrow> (Inr run, a'))" for i
    proof -
      have eq: "(\<lambda>a. case call (be_GetRun be i) a of
           (Inl e, a') \<Rightarrow> (if errors_Is e ErrNotFound then call (be_ResolveRunPrefix be i) a' else (Inl e, a'))
         | (Inr run, a') \<Rightarrow> (Inr run, a')) =
         (\<lambda>a. case call (be_GetRun be i) a of (r, a') \<Rightarrow>
            (case r of Inl e \<Rightarrow> if errors_Is e ErrNotFound then call (be_ResolveRunPrefix be i) else give_up e
             | Inr run \<Rightarrow> lift_err (Inr run)) a')"
        by (auto simp: fun_eq_iff give_up_def lift_err_def split: sum.split prod.split)
      show ?thesis
        unfolding eq by (rule behaves_pair) (auto intro!: behaviour behaves_call ops_keep split: sum.split)
    qed
    show ?thesis
      unfolding notifierHistory_def Let_def c
      by (rule behaves_on [OF behaves_stop(2)]) (auto intro!: behaviour run behaves_call ops_keep split: prod.split)
  qed
  ultimately show ?thesis
    unfolding notifierCmd_def by (auto intro: behaviour split: list.split)
qed

text \<open>Submissions must keep the property too.\<close>

lemma submit_behaves:
  assumes "\<And>url q db w. I db \<Longrightarrow> I (fst (snd (cl_submit c url q (db, w))))"
  shows "I (ap_db a) \<Longrightarrow> I (ap_db (snd (submitScan c url rn pkg version dur a)))"
    and "ap_out (snd (submitScan c url rn pkg version dur a)) = ap_out a"
proof -
  let ?q = "(if rn = [] then cl_hostname c else rn, (watcher_job pkg version)\<lparr>jb_Duration := dur\<rparr>)"
  obtain r db w where s: "cl_submit c (url @ ''/v1/scans'') ?q (ap_db a, ap_world a) = (r, db, w)" by (metis prod_cases3)
  then have "I (ap_db a) \<Longrightarrow> I db" using assms by (metis fst_conv snd_conv)
  then show "I (ap_db a) \<Longrightarrow> I (ap_db (snd (submitScan c url rn pkg version dur a)))"
    and "ap_out (snd (submitScan c url rn pkg version dur a)) = ap_out a"
    using s by (simp_all add: submitScan_def Let_def split: sum.split prod.split option.split)
qed

lemma scan_behaves:
  assumes "\<And>url q db w. I db \<Longrightarrow> I (fst (snd (cl_submit c url q (db, w))))"
  shows "behaves I (scanCmd c args)"
proof -
  have sub: "behaves I (submitScan c url rn pkg version dur)" for url rn pkg version dur
    using submit_behaves [OF assms] by (simp add: behaves_def)
  have rep: "behaves I (reportSubmit c url pkg version i)" for url pkg version i
    unfolding reportSubmit_def by (rule behaves_say) simp
  have "behaves I (scanSubmit c rest)" for rest
    unfolding scanSubmit_def Let_def case_prod_beta
    by (auto intro!: behaviour sub rep split: sum.split)
  then show ?thesis
    unfolding scanCmd_def by (auto intro: behaviour split: list.split)
qed

lemma packageAdd_behaves:
  fixes c :: "('db, 'w) Cli"
  assumes c: "cl_store c = be" and sub: "\<And>url q db w. I db \<Longrightarrow> I (fst (snd (cl_submit c url q (db, w))))"
  shows "behaves I (packageAdd c args)"
proof -
  have kick: "I (ap_db a) \<Longrightarrow> I (ap_db (snd (kickoff c url rn name version dur sk a)))"
    "ap_out (snd (kickoff c url rn name version dur sk a)) = ap_out a" for url rn name version dur sk a
    using submit_behaves [OF sub, where a = a and url = url and rn = rn and pkg = name and version = version and dur = dur]
    by (auto simp: kickoff_def warn_def split: prod.split sum.split)
  have "behaves I (watch_added c url runner dur sk name version)" for url runner dur sk name version
  proof -
    have "I (ap_db a) \<Longrightarrow> I (ap_db (snd (call (be_UpdatePackageCheck be now name version) a)))"
      "ap_out (snd (call (be_UpdatePackageCheck be now name version) a)) = ap_out a" for now and a :: "('db, 'w) app"
      by (simp_all add: call_def ops_keep case_prod_beta)
    then show ?thesis using kick
      by (auto simp: behaves_def watch_added_def say_def c Let_def case_prod_beta)
  qed
  then show ?thesis
    unfolding packageAdd_def Let_def c
    by (auto intro!: behaviour behaves_result behaves_call ops_keep split: list.split option.split prod.split)
qed

lemma package_behaves:
  assumes c: "cl_store c = be" and sub: "\<And>url q db w. I db \<Longrightarrow> I (fst (snd (cl_submit c url q (db, w))))"
  shows "behaves I (packageCmd c args)"
proof -
  have "behaves I (packageRemove c rest)" for rest
    unfolding packageRemove_def c
    by (auto intro!: behaviour behaves_call ops_keep split: list.split)
  moreover have "behaves I (packageWatched c)" "behaves I (packageList c)"
    unfolding packageWatched_def packageList_def c
    by (auto intro!: behaviour behaves_call ops_keep)
  ultimately show ?thesis
    unfolding packageCmd_def using packageAdd_behaves [OF c sub]
    by (auto intro: behaviour split: list.split)
qed

lemma group_keeps: "I db \<Longrightarrow> I (snd (cli_group_pending be ds rows db))"
proof (induction ds arbitrary: rows db)
  case (Cons d ds)
  have "I (snd (be_GetRun be (dv_RunID d) db))" using Cons.prems by (rule ops_keep)
  then show ?case
    using Cons by (auto split: option.split prod.split sum.split)
qed simp

lemma pending_behaves: "cl_store c = be \<Longrightarrow> behaves I (pendingCmd c args)"
proof -
  assume c: "cl_store c = be"
  have printed: "list_all rectangular (pending_printed c rows)" for rows
    by (auto simp: pending_printed_def list_all_iff renderTable_def renderJSON_def)
  have "behaves I (\<lambda>a. let (byRun, db) = cli_group_pending be ds [] (ap_db a) in
      say (pending_printed c (rs byRun)) (a\<lparr>ap_db := db\<rparr>))" for ds rs
    using group_keeps printed by (simp add: behaves_def say_def Let_def case_prod_beta)
  then show ?thesis
    unfolding pendingCmd_def Let_def case_prod_beta c
    by (auto intro!: behaviour behaves_call ops_keep behaves_result [unfolded case_prod_beta])
qed

lemma dispatch_behaves:
  assumes "cl_store c = be" "\<And>url q db w. I db \<Longrightarrow> I (fst (snd (cl_submit c url q (db, w))))"
  shows "behaves I (dispatch c args)"
proof -
  have "behaves I (\<lambda>a. (Inl e, a\<lparr>ap_err := ap_err a @ usage\<rparr>))" for e
    by (simp add: behaves_def)
  moreover have "behaves I (say (map Line usage))" by (rule behaves_say) simp
  ultimately have known: "behaves I (runCmd c rest)" "behaves I (deviationCmd c rest)" "behaves I (baselineCmd c rest)"
    "behaves I (packageCmd c rest)" "behaves I (releaseCmd c rest)" "behaves I (notifierCmd c rest)" "behaves I (allowCmd c rest)"
    "behaves I (scanCmd c rest)" "behaves I (pendingCmd c rest)" "behaves I (say (map Line usage))"
    "behaves I (\<lambda>a. (Inl e, a\<lparr>ap_err := ap_err a @ usage\<rparr>))" for rest e
    using run_behaves deviation_behaves baseline_behaves release_behaves allow_behaves notifier_behaves pending_behaves
      package_behaves [OF assms] scan_behaves [OF assms(2)] assms(1) by blast+
  show ?thesis
  proof (cases args)
    case Nil
    then show ?thesis by (simp add: dispatch_def behaves_stop)
  next
    case (Cons s rest)
    show ?thesis
      unfolding dispatch_def Cons list.case by (intro behaves_if known)
  qed
qed

end

section \<open>The command line\<close>

lemma behaves_apply:
  "behaves I f \<Longrightarrow> I (ap_db a) \<Longrightarrow> I (ap_db (snd (f a)))"
  "behaves I f \<Longrightarrow> I (ap_db a) \<Longrightarrow> \<exists>ps. ap_out (snd (f a)) = ap_out a @ ps \<and> list_all rectangular ps"
  by (auto simp: behaves_def)

lemma cli_Run_cases:
  obtains (stopped) e where "snd (cli_Run os c args a) = a\<lparr>ap_err := e\<rparr>"
  | (unopened) "snd (cli_Run os c args a) = a"
  | (dispatched) k p d be js rest where "openStore os k p d = Inr be"
      "cli_Run os c args a = dispatch (c\<lparr>cl_store := be, cl_json := js\<rparr>) rest a"
proof -
  let ?p = "Parse [(''storage'', StringFlag), (''sqlite-path'', StringFlag), (''postgres-dsn'', StringFlag), (''json'', BoolFlag)] args"
  show ?thesis
  proof (cases ?p)
    case (Inl e)
    then show ?thesis by (intro stopped) (simp add: cli_Run_def)
  next
    case (Inr x)
    obtain st rest where x: "x = (st, rest)" by (cases x)
    let ?o = "openStore os (flag_string st ''storage'' ''sqlite'') (flag_string st ''sqlite-path'' ''var/lib/fangs/fangs.db'')
      (flag_string st ''postgres-dsn'' [])"
    show ?thesis
    proof (cases "rest = []")
      case True
      then show ?thesis using Inr x by (intro stopped) (simp add: cli_Run_def)
    next
      case False
      show ?thesis
      proof (cases ?o)
        case (Inl e)
        then show ?thesis using Inr x False by (intro unopened) (simp add: cli_Run_def)
      next
        case o: (Inr be)
        have "cli_Run os c args a = dispatch (c\<lparr>cl_store := be, cl_json := flag_bool st ''json'' False\<rparr>) rest a"
          using Inr x False o by (simp add: cli_Run_def)
        then show ?thesis by (rule dispatched [OF o])
      qed
    qed
  qed
qed

lemma opened_from: "openStore os k p d = Inr be \<Longrightarrow> (\<exists>x. op_sqlite os x = Inr be) \<or> (\<exists>x. op_postgres os x = Inr be)"
  by (auto simp: openStore_def Let_def split: if_splits option.splits)

context backend_ops
begin

lemma cli_Run_keeps:
  assumes "\<And>x b. op_sqlite os x = Inr b \<Longrightarrow> b = be" "\<And>x b. op_postgres os x = Inr b \<Longrightarrow> b = be"
    and "\<And>url q db w. I db \<Longrightarrow> I (fst (snd (cl_submit c url q (db, w))))" "I (ap_db a)"
  shows "I (ap_db (snd (cli_Run os c args a)))"
proof (cases rule: cli_Run_cases [where os = os and c = c and args = args and a = a])
  case (dispatched k p d b js rest)
  have "b = be" using opened_from [OF dispatched(1)] assms(1,2) by blast
  then have "behaves I (dispatch (c\<lparr>cl_store := b, cl_json := js\<rparr>) rest)"
    by (intro dispatch_behaves) (simp_all add: assms(3))
  then show ?thesis using behaves_apply(1) dispatched(2) assms(4) by metis
qed (use assms(4) in simp_all)

end

end
