(* ===== verification/Cli_Store.thy ===== *)
theory Cli_Store
  imports Cli_Main Sqlite_Store Postgres_Store
begin

text \<open>
  What the console's promotion relies on: the contract of the differ and that a short id
  resolves to a run that is there. The promotion of a run is proved against this contract,
  which both backends keep.
\<close>

definition promoted_view :: "store_view \<Rightarrow> string \<Rightarrow> Run \<Rightarrow> Fingerprint list \<Rightarrow> store_view" where
  "promoted_view v pkg r fps =
     v\<lparr>v_baseline := merged_baseline (run_ID r) pkg fp_Count fps (v_baseline v),
       v_run := (v_run v)(run_ID r \<mapsto> r\<lparr>run_IsBaseline := True\<rparr>),
       v_devs := (v_devs v)(run_ID r := [])\<rparr>"

lemma promoted_view_sel [simp]:
  "v_events (promoted_view v pkg r fps) = v_events v" "v_allow (promoted_view v pkg r fps) = v_allow v"
  "v_run (promoted_view v pkg r fps) (run_ID r) = Some (r\<lparr>run_IsBaseline := True\<rparr>)"
  "v_devs (promoted_view v pkg r fps) (run_ID r) = []"
  by (simp_all add: promoted_view_def)

lemma promoted_run_fps [simp]: "run_fps (promoted_view v pkg r gps) al p i = run_fps v al p i"
  by (simp add: run_fps_def)

lemma promoted_known: "fp \<in> set gps \<Longrightarrow> known_fp (promoted_view v pkg r gps) pkg fp"
  by (auto simp: known_fp_def promoted_view_def merged_baseline_dom simp del: not_None_eq)

lemma promoted_clean:
  "clean_baseline v \<Longrightarrow> \<forall>fp\<in>set gps. fp_Category fp \<in> set AllCategories \<Longrightarrow> clean_baseline (promoted_view v pkg r gps)"
  by (auto simp: clean_baseline_def promoted_view_def merged_baseline_dom simp del: not_None_eq)

lemma on_Inr [simp]: "f a = (Inr x, a') \<Longrightarrow> on f k a = k x a'"
  by (simp add: on_def)

lemma on_Inl: "f a = (Inl e, a') \<Longrightarrow> on f k a = (Inl e, a')"
  by (simp add: on_def)

lemma call_simp [simp]: "f (ap_db a) = (r, db) \<Longrightarrow> call f a = (r, a\<lparr>ap_db := db\<rparr>)"
  by (simp add: call_def)

locale console_store = differ_store be integ rel view adm room
  for be :: "'db Backend" and integ rel view adm room +
  assumes ResolveRun_law:
    "integ db \<Longrightarrow> be_ResolveRunPrefix be p db = (rres, db') \<Longrightarrow>
       kept integ rel view (view db) db db' \<and> (case rres of Inr r \<Rightarrow> v_run (view db) (run_ID r) = Some r | Inl e \<Rightarrow> True)"
begin

text \<open>What follows the queries, whatever the allowlist query gave.\<close>

lemma promote_with:
  assumes c: "cl_store c = be" "permuting (cl_order c)" and r: "v_run v (run_ID r) = Some r" "run_PackageName r = pkg" "pkg \<noteq> []"
    and q: "be_ResolveRunPrefix be p (ap_db a) = (Inr r, db1)"
      "be_ListEventsByRun be (run_ID r) 0 db1 = (Inr (take 10000 (v_events v (run_ID r))), db2)" "be_ListAllowEntries be db2 = (als, db3)"
    and db3: "integ db3" "rel db3" "view db3 = v"
    and fps: "fps = run_fps v (case als of Inl e \<Rightarrow> [] | Inr es \<Rightarrow> es) pkg (run_ID r)"
    and rec: "recordable adm room v (run_ID r) pkg fp_Count fps"
  shows "\<exists>a'. baselinePromote c (p # args) a = (Inr (), a') \<and> integ (ap_db a') \<and> rel (ap_db a') \<and>
    view (ap_db a') = promoted_view v pkg r fps \<and> ap_world a' = ap_world a \<and> ap_err a' = ap_err a"
proof -
  let ?i = "run_ID r" and ?al = "case als of Inl e \<Rightarrow> [] | Inr es \<Rightarrow> es"
  let ?gps = "ExtractFingerprintsWith (cl_order c) (take 10000 (v_events v ?i)) (Some (NewFilter (EntriesForPackage ?al pkg)))"
  let ?rows = "promoted_rows c r (take 10000 (v_events v ?i)) als"
  have adm: "adm ?i" using run_admitted [OF db3(1)] db3(3) r(1) by simp
  have rows: "?rows = map (\<lambda>fp. baseline_row pkg ?i (fp_Count fp) fp) ?gps"
    by (simp add: promoted_rows_def r(2) Let_def)
  note x = extracted_fps [OF c(2), of v ?i ?al pkg]
  have "mergeable adm room ?i (v_baseline (view db3)) ?rows"
    unfolding rows
    by (rule recordable_mergeable [OF db3(1)])
      (use r db3(3) x rec run_fps_facts(2) recordable_set_cong [OF x(2)] in \<open>auto simp: fps\<close>)
  then obtain db4 where 4: "be_MergeBaseline be ?i ?rows db3 = (Inr (), db4)" "integ db4" "rel db4"
    "view db4 = v\<lparr>v_baseline := foldl (merge_entry ?i) (v_baseline v) ?rows\<rparr>"
    using MergeBaseline_ok [OF db3(1,2)] db3(3) by metis
  obtain db5 where 5: "be_MarkRunBaseline be ?i True db4 = (Inr (), db5)" "integ db5" "rel db5"
    "view db5 = (view db4)\<lparr>v_run := (v_run v)(?i \<mapsto> r\<lparr>run_IsBaseline := True\<rparr>)\<rparr>"
    using MarkRunBaseline_ok [OF 4(2,3), of ?i r True] 4(4) r(1) by auto
  obtain db6 where 6: "be_DeleteDeviationsForRun be ?i db5 = (Inr (), db6)" "integ db6" "rel db6"
    "view db6 = (view db5)\<lparr>v_devs := (v_devs (view db5))(?i := [])\<rparr>"
    using DeleteDeviations_ok [OF 5(2,3) adm] by blast
  have m: "merged_baseline ?i pkg fp_Count ?gps (v_baseline v) = merged_baseline ?i pkg fp_Count fps (v_baseline v)"
    using merged_baseline_permuted [OF x(1) x(3)] by (simp add: fps)
  have "view db6 = promoted_view v pkg r fps"
    using merge_rows [OF x(3)] m by (simp add: 6(4) 5(4) 4(4) rows promoted_view_def)
  then show ?thesis
    using 6(2,3) r by (simp add: baselinePromote_def c(1) q 4(1) 5(1) 6(1) say_def Let_def)
qed

lemma promote_ok:
  assumes db: "integ (ap_db a)" "rel (ap_db a)" and c: "cl_store c = be" "permuting (cl_order c)"
    and res: "be_ResolveRunPrefix be p (ap_db a) = (Inr r, db1)" and pkg: "run_PackageName r = pkg" "pkg \<noteq> []"
  defines "v \<equiv> view (ap_db a)"
  defines "fps \<equiv> run_fps v (v_allow v) pkg (run_ID r)"
  assumes rec: "recordable adm room v (run_ID r) pkg fp_Count fps"
  shows "\<exists>a'. baselinePromote c (p # args) a = (Inr (), a') \<and> integ (ap_db a') \<and> rel (ap_db a') \<and>
    view (ap_db a') = promoted_view v pkg r fps \<and> ap_world a' = ap_world a \<and> ap_err a' = ap_err a"
proof -
  have 1: "integ db1" "rel db1" "view db1 = v" "v_run v (run_ID r) = Some r"
    using ResolveRun_law [OF db(1) res] db(2) by (auto simp: kept_def v_def)
  have adm: "adm (run_ID r)" using run_admitted [OF db(1)] 1(4) by (simp add: v_def)
  obtain db2 where 2: "be_ListEventsByRun be (run_ID r) 0 db1 = (Inr (take 10000 (v_events v (run_ID r))), db2)"
    "integ db2" "rel db2" "view db2 = v"
    using ListEvents_ok [OF 1(1,2) adm] 1(3) by auto
  obtain db3 where 3: "be_ListAllowEntries be db2 = (Inr (v_allow v), db3)" "integ db3" "rel db3" "view db3 = v"
    using ListAllow_ok [OF 2(2,3)] 2(4) by auto
  show ?thesis
    by (rule promote_with [OF c 1(4) pkg res 2(1) 3 _ rec]) (simp add: fps_def)
qed

text \<open>The promoted run, analysed again, has no deviation.\<close>

lemma promote_accepts:
  assumes db: "integ (ap_db a)" "rel (ap_db a)" and c: "cl_store c = be" "permuting (cl_order c)"
    and res: "be_ResolveRunPrefix be p (ap_db a) = (Inr r, db1)" and pkg: "run_PackageName r = pkg" "pkg \<noteq> []"
  defines "v \<equiv> view (ap_db a)"
  defines "fps \<equiv> run_fps v (v_allow v) pkg (run_ID r)"
  assumes rec: "recordable adm room v (run_ID r) pkg fp_Count fps" and clean: "clean_baseline v"
    and again: "permuting ord" "inj newID" "\<forall>j. adm (newID j)" "\<forall>j s. s \<noteq> run_ID r \<longrightarrow> newID j \<notin> fst ` set (v_devs v s)"
      "analysable adm room (promoted_view v pkg r fps) (run_ID r) pkg fps"
  shows "\<exists>a' db' m'. baselinePromote c (p # args) a = (Inr (), a') \<and>
    AnalyzeRun be ord newID now sink (run_ID r) (ap_db a', m) = (Inr 0, db', m') \<and> v_devs (view db') (run_ID r) = []"
proof -
  let ?i = "run_ID r" and ?w = "promoted_view v pkg r fps"
  obtain a' where a': "baselinePromote c (p # args) a = (Inr (), a')" "integ (ap_db a')" "rel (ap_db a')" "view (ap_db a') = ?w"
    using promote_ok [OF db c res pkg, of args] rec by (auto simp: v_def fps_def)
  have w: "v_run ?w ?i = Some (r\<lparr>run_IsBaseline := True\<rparr>)" "run_PackageName (r\<lparr>run_IsBaseline := True\<rparr>) = pkg"
    by (simp_all add: pkg(1))
  have fps: "run_fps ?w (v_allow ?w) pkg ?i = fps" by (simp add: fps_def)
  show ?thesis
  proof (cases "has_baseline ?w pkg")
    case True
    have fresh: "\<forall>j s. newID j \<notin> fst ` set (v_devs ?w s)"
      using again(4) by (simp add: promoted_view_def)
    have "clean_baseline ?w"
      using promoted_clean [OF clean, of fps pkg r] run_fps_facts(2) by (auto simp: fps_def)
    then obtain db' m' ds where "AnalyzeRun be ord newID now sink ?i (ap_db a', m) = (Inr (int (length (novel_fps ?w (v_allow ?w) pkg ?i))), db', m')"
      "mset (map snd ds) = mset (map dev_of_fp (novel_fps ?w (v_allow ?w) pkg ?i))"
      "view db' = diff_view ?w ?i pkg (r\<lparr>run_IsBaseline := True\<rparr>) (run_fps ?w (v_allow ?w) pkg ?i) ds"
      using AnalyzeRun_later [OF a'(2,3), unfolded a'(4), OF w pkg(2) True _ again(1,2) fresh again(3), of now sink m] again(5)
      unfolding fps by blast
    moreover have "novel_fps ?w (v_allow ?w) pkg ?i = []"
      unfolding novel_fps_def fps filter_empty_conv using promoted_known by blast
    ultimately show ?thesis using a'(1) by (auto simp: diff_view_def)
  next
    case False
    then have "fps = []"
      using promoted_known [of "hd fps" fps v pkg r] by (cases fps) (auto simp: has_baseline_def known_fp_def simp del: not_None_eq)
    then have "recordable adm room ?w ?i pkg fp_Count fps" by (simp add: recordable_def)
    then obtain db' where "AnalyzeRun be ord newID now sink ?i (ap_db a', m) = (Inr 0, db', m)"
      "view db' = ?w\<lparr>v_baseline := merged_baseline ?i pkg fp_Count (run_fps ?w (v_allow ?w) pkg ?i) (v_baseline ?w),
         v_run := (v_run ?w)(?i \<mapsto> (r\<lparr>run_IsBaseline := True\<rparr>)\<lparr>run_IsBaseline := True\<rparr>)\<rparr>"
      using AnalyzeRun_first [OF a'(2,3), unfolded a'(4), OF w pkg(2) False again(1), of newID now sink m] unfolding fps by blast
    then show ?thesis using a'(1) by auto
  qed
qed

end

section \<open>Both backends keep it\<close>

lemma listed_run:
  assumes "distinct (map rn_id rs)" "q \<in> set rs" "run_ID (scan q) = rn_id q"
  shows "map_option scan (find (\<lambda>r. rn_id r = run_ID (scan q)) rs) = Some (scan q)"
proof -
  obtain q' where q': "find (\<lambda>r. rn_id r = rn_id q) rs = Some q'"
    using find_None_not_in [of rn_id "rn_id q" rs] assms(2) by fastforce
  then have "q' \<in> set rs" "rn_id q' = rn_id q" using find_Some_in [OF q'] by blast+
  then have "q' = q" using inj_on_key [OF assms(1) _ assms(2)] by blast
  then show ?thesis using q' assms(3) by simp
qed

interpretation sqc: console_store sqlite_Backend sqlite_integ reliable "\<lambda>db. sqlite_view (db_tab db)" "\<lambda>x. True" "\<lambda>n. True"
proof unfold_locales
  fix db db' :: sqlite and p :: string and rres :: "err + Run"
  assume a: "tables_ok (db_tab db)" "be_ResolveRunPrefix sqlite_Backend p db = (rres, db')"
  then have r: "resolve p (\<lambda>t. map scanRun (resolve_matches rn_id p (t_runs t))) db = (rres, db')"
    by (simp add: sqlite_ResolveRunPrefix_def)
  have tab: "db_tab db' = db_tab db" using resolve_tab r by (metis snd_conv)
  have rel: "reliable db \<Longrightarrow> reliable db'"
    using r query_outcome(2) unfolding resolve_def by (auto split: if_splits prod.splits sum.splits list.splits)
  have "v_run (sqlite_view (db_tab db)) (run_ID x) = Some x" if x: "rres = Inr x" for x
  proof -
    have "x \<in> set (map scanRun (resolve_matches rn_id p (t_runs (db_tab db))))"
      using r query_outcome(3) unfolding resolve_def x by (fastforce split: if_splits prod.splits sum.splits list.splits)
    then obtain q where q: "q \<in> set (t_runs (db_tab db))" "x = scanRun q"
      by (auto simp: resolve_matches_def limit_rows_def dest!: in_set_takeD)
    then show ?thesis
      using listed_run [of "t_runs (db_tab db)" q scanRun] a(1) by (simp add: tables_view_def tables_ok_def runs_ok_def scanRun_def)
  qed
  then show "kept sqlite_integ reliable (\<lambda>db. sqlite_view (db_tab db)) (sqlite_view (db_tab db)) db db' \<and>
      (case rres of Inr r \<Rightarrow> v_run (sqlite_view (db_tab db)) (run_ID r) = Some r | Inl e \<Rightarrow> True)"
    using tab rel a(1) by (auto simp: kept_def split: sum.split)
qed

interpretation pgc: console_store "postgres_Backend coll" pg_integ reliable "\<lambda>db. pg_view coll (db_tab db)" pg_text int4
  for coll
proof unfold_locales
  fix db db' :: postgres and p :: string and rres :: "err + Run"
  assume a: "pg_ok (db_tab db)" "be_ResolveRunPrefix (postgres_Backend coll) p db = (rres, db')"
  then have r: "pg_resolve p (\<lambda>t. map pg_scanRun (pg_matches rn_id p (t_runs t))) db = (rres, db')"
    by (simp add: postgres_ResolveRunPrefix_def)
  have tab: "db_tab db' = db_tab db" using pg_resolve_tab r by (metis snd_conv)
  have rel: "reliable db \<Longrightarrow> reliable db'"
    using r pg_query_outcome(2) unfolding pg_resolve_def by (auto split: if_splits prod.splits sum.splits list.splits)
  have "v_run (pg_view coll (db_tab db)) (run_ID x) = Some x" if x: "rres = Inr x" for x
  proof -
    have "x \<in> set (map pg_scanRun (pg_matches rn_id p (t_runs (db_tab db))))"
      using r pg_query_outcome(3) unfolding pg_resolve_def x by (fastforce split: if_splits prod.splits sum.splits list.splits)
    then obtain q where q: "q \<in> set (t_runs (db_tab db))" "x = pg_scanRun q"
      by (auto simp: pg_matches_def limit_rows_def dest!: in_set_takeD)
    then show ?thesis
      using listed_run [of "t_runs (db_tab db)" q pg_scanRun] a(1)
      by (simp add: tables_view_def pg_ok_def tables_ok_def runs_ok_def pg_scanRun_def)
  qed
  then show "kept pg_integ reliable (\<lambda>db. pg_view coll (db_tab db)) (pg_view coll (db_tab db)) db db' \<and>
      (case rres of Inr r \<Rightarrow> v_run (pg_view coll (db_tab db)) (run_ID r) = Some r | Inl e \<Rightarrow> True)"
    using tab rel a(1) by (auto simp: kept_def split: sum.split)
qed

end
