(* ===== verification/Cli_Props.thy ===== *)
theory Cli_Props
  imports Cli_Safe Cli_Store Differ_Demo Api_Props Ui_Props Watcher_Props
begin

text \<open>
  Properties of the console: what every command prints and keeps, the promotion of a run and
  its effect on the differ, the triage queue beside the page of the same name, packages and
  scans up to the runner.
\<close>

section \<open>Every command\<close>

text \<open>
  C40. Whatever the command line, the backend and the outcome, the console prints only tables
  in which every row has a cell for each column of the header.
\<close>

theorem printed_tables_rectangular:
  "\<exists>ps. ap_out (snd (cli_Run os c args a)) = ap_out a @ ps \<and> list_all rectangular ps"
proof (cases rule: cli_Run_cases [where os = os and c = c and args = args and a = a])
  case (dispatched k p d be js rest)
  have "behaves (\<lambda>db. True) (dispatch (c\<lparr>cl_store := be, cl_json := js\<rparr>) rest)"
    by (rule any.dispatch_behaves) simp_all
  then show ?thesis using behaves_apply(2) dispatched(2) by fastforce
qed simp_all


section \<open>A console\<close>

text \<open>The orchestrator's side of a submission, and a console beside it.\<close>

definition body_json :: "body \<Rightarrow> json" where
  "body_json b =
     (case b of
        BQueued i \<Rightarrow> JObj [(''queued'', JBool True), (''run_id'', JStr i)]
      | BError m \<Rightarrow> JObj [(''error'', JStr m)]
      | _ \<Rightarrow> JNull)"

definition orchestrator_submit ::
  "(json \<Rightarrow> string) \<Rightarrow> time \<Rightarrow> string \<Rightarrow> string \<times> Job \<Rightarrow> 'db \<times> 'db Server \<Rightarrow> (err + int \<times> string) \<times> 'db \<times> 'db Server" where
  "orchestrator_submit marshal now url q st =
     (let (resp, s) = handleQueueScan now (Inr q) ((snd st)\<lparr>sv_db := fst st\<rparr>)
      in (Inr (fst resp, marshal (body_json (snd resp))), sv_db s, s))"

text \<open>A codec for the answers: the text of a run id between two marks.\<close>

definition demo_marshal :: "json \<Rightarrow> string" where
  "demo_marshal j = (case j of JObj [_, (_, JStr i)] \<Rightarrow> i | _ \<Rightarrow> [])"

definition demo_cli :: "(sqlite, sqlite Server) Cli" where
  "demo_cli =
     \<lparr>cl_store = sqlite_Backend, cl_json = False,
      cl_registry = \<lparr>rg_get = (\<lambda>u. Inr (200, [])), rg_decode = (\<lambda>s. Inr \<lparr>nm_Latest = ''1.0.0'',
          nm_Versions = [(''1.0.0'', \<lparr>nd_Tarball = [], nd_SHASum = [], nd_Integrity = []\<rparr>)], nm_Time = []\<rparr>), rg_parse = (\<lambda>s. None)\<rparr>,
      cl_hostname = ''host'', cl_clock = (\<lambda>i. 0), cl_rand = [], cl_order = (\<lambda>b. b), cl_rows_order = (\<lambda>rs. rs),
      cl_unmarshal = (\<lambda>s. Some (JObj [(''queued'', JBool True), (''run_id'', JStr s)])),
      cl_post = (\<lambda>r. Inr 200), cl_submit = orchestrator_submit demo_marshal 5\<rparr>"

abbreviation console :: "sqlite \<Rightarrow> sqlite Server \<Rightarrow> (sqlite, sqlite Server) app" where
  "console db s \<equiv> \<lparr>ap_db = db, ap_world = s, ap_out = [], ap_err = []\<rparr>"

lemma orchestrator_submit_reachable:
  assumes "sqlite_reachable db" "sv_store s = Some sqlite_Backend \<or> sv_store s = None"
  shows "sqlite_reachable (fst (snd (orchestrator_submit marshal now url q (db, s))))"
proof -
  have "sqlite_reachable (snd (be_CreateRun sqlite_Backend t r db))" for t r
    using assms(1) by (rule sqlite_reachable.stepped) (rule sqlite_step.CreateRun)
  then show ?thesis
    using assms by (auto simp: orchestrator_submit_def handleQueueScan_def SubmitScan_def Let_def split: prod.split sum.split option.split)
qed

definition demo_openers :: "sqlite openers" where
  "demo_openers = \<lparr>op_mkdir = (\<lambda>p. None), op_sqlite = (\<lambda>p. Inr sqlite_Backend), op_postgres = (\<lambda>p. Inl ErrIO), op_getenv = (\<lambda>v. [])\<rparr>"


section \<open>Promotion\<close>

text \<open>
  C8. Accepting a run. On a SQLite database that keeps its integrity and does not fail,
  promoting a run by a prefix of its id succeeds: the database is then the former one with the
  fingerprints of the run merged into its package's baseline, the run marked as baseline and
  its deviations gone. Analysing the run again finds no deviation, in whatever order maps are
  iterated.
\<close>

theorem promotion_accepts:
  assumes "sqlite_integ (ap_db a)" "reliable (ap_db a)" "cl_store c = sqlite_Backend" "permuting (cl_order c)"
    and "sqlite_ResolveRunPrefix p (ap_db a) = (Inr r, db1)" "run_PackageName r \<noteq> []"
    and "clean_baseline (sqlite_view (db_tab (ap_db a)))" "permuting ord" "inj newID"
    and "\<forall>j s. s \<noteq> run_ID r \<longrightarrow> newID j \<notin> fst ` set (v_devs (sqlite_view (db_tab (ap_db a))) s)"
  shows "\<exists>a' db' m'. baselinePromote c (p # args) a = (Inr (), a') \<and>
    sqlite_view (db_tab (ap_db a')) = promoted_view (sqlite_view (db_tab (ap_db a))) (run_PackageName r) r
      (run_fps (sqlite_view (db_tab (ap_db a))) (v_allow (sqlite_view (db_tab (ap_db a)))) (run_PackageName r) (run_ID r)) \<and>
    AnalyzeRun sqlite_Backend ord newID now sink (run_ID r) (ap_db a', m) = (Inr 0, db', m') \<and>
    v_devs (sqlite_view (db_tab db')) (run_ID r) = []"
proof -
  have res: "be_ResolveRunPrefix sqlite_Backend p (ap_db a) = (Inr r, db1)" using assms(5) by simp
  note ok = sqc.promote_ok [OF assms(1,2,3,4) res refl assms(6), of args, OF unrestricted(1)]
  note acc = sqc.promote_accepts [OF assms(1,2,3,4) res refl assms(6), of ord newID args now sink m,
    OF unrestricted(1) assms(7,8,9) _ assms(10) unrestricted(2)]
  show ?thesis using ok acc by fastforce
qed

lemma demo_resolve: "sqlite_ResolveRunPrefix ''r2'' (demo_db bs) = (Inr (scanRun (demo_run ''r2'')), demo_db bs)"
proof -
  have "resolve_matches rn_id ''r2'' [demo_run ''r1'', demo_run ''r2''] = [demo_run ''r2'']"
    by code_simp
  then show ?thesis by (simp add: sqlite_ResolveRunPrefix_def resolve_def demo_tables_def)
qed

theorem promotion_accepts_witness:
  "\<exists>a' db' m'. baselinePromote demo_cli [''r2''] (console (demo_db [demo_row]) demo_server) = (Inr (), a') \<and>
    v_baseline (sqlite_view (db_tab (ap_db a'))) (''left-pad'', CatNetDNS, ''evil.org'') \<noteq> None \<and>
    AnalyzeRun sqlite_Backend (\<lambda>b. b) demo_ids (\<lambda>j. 0) (\<lambda>ds n. n + length ds) ''r2'' (ap_db a', 0) = (Inr 0, db', m')"
proof -
  let ?a = "console (demo_db [demo_row]) demo_server" and ?v = "sqlite_view (demo_tables [demo_row])"
  have r: "run_ID (scanRun (demo_run ''r2'')) = ''r2''" "run_PackageName (scanRun (demo_run ''r2'')) = ''left-pad''"
    by (simp_all add: scanRun_def demo_run_def)
  have res: "sqlite_ResolveRunPrefix ''r2'' (ap_db ?a) = (Inr (scanRun (demo_run ''r2'')), demo_db [demo_row])"
    by (simp add: demo_resolve)
  have pre: "sqlite_integ (ap_db ?a)" "reliable (ap_db ?a)" "cl_store demo_cli = sqlite_Backend" "permuting (cl_order demo_cli)"
    "run_PackageName (scanRun (demo_run ''r2'')) \<noteq> []" "clean_baseline (sqlite_view (db_tab (ap_db ?a)))"
    "\<forall>j s. s \<noteq> run_ID (scanRun (demo_run ''r2'')) \<longrightarrow> demo_ids j \<notin> fst ` set (v_devs (sqlite_view (db_tab (ap_db ?a))) s)"
    using demo_facts r by (simp_all add: demo_cli_def)
  have "\<exists>a' db' m'. baselinePromote demo_cli [''r2''] ?a = (Inr (), a') \<and>
    sqlite_view (db_tab (ap_db a')) = promoted_view ?v ''left-pad'' (scanRun (demo_run ''r2'')) (run_fps ?v (v_allow ?v) ''left-pad'' ''r2'') \<and>
    AnalyzeRun sqlite_Backend (\<lambda>b. b) demo_ids (\<lambda>j. 0) (\<lambda>ds n. n + length ds) ''r2'' (ap_db a', 0) = (Inr 0, db', m')"
    using promotion_accepts [OF pre(1,2,3,4) res pre(5,6) permuting_id demo_ids(1) pre(7), of "[]" "\<lambda>j. 0" "\<lambda>ds n. n + length ds" 0] r
    by auto
  moreover have "v_baseline (promoted_view ?v ''left-pad'' (scanRun (demo_run ''r2'')) (run_fps ?v (v_allow ?v) ''left-pad'' ''r2''))
      (''left-pad'', CatNetDNS, ''evil.org'') \<noteq> None"
    by (simp add: promoted_view_def merged_baseline_dom demo_fps r del: not_None_eq)
  ultimately show ?thesis by (metis (no_types, lifting))
qed

text \<open>
  The allowlist is not always applied: if its query fails and nothing else does, the
  promotion still succeeds without a word, and records the fingerprints the run would have
  with no allowlist at all.
\<close>

theorem promotion_without_allowlist:
  assumes "tables_ok t" "cl_store c = sqlite_Backend" "permuting (cl_order c)" "db_tab (ap_db a) = t" "db_faults (ap_db a) = [False, False, True]"
    and "sqlite_ResolveRunPrefix p \<lparr>db_tab = t, db_faults = []\<rparr> = (Inr r, db1)" "run_PackageName r \<noteq> []"
  shows "\<exists>a'. baselinePromote c (p # args) a = (Inr (), a') \<and> ap_err a' = ap_err a \<and>
    sqlite_view (db_tab (ap_db a')) = promoted_view (sqlite_view t) (run_PackageName r) r
      (run_fps (sqlite_view t) [] (run_PackageName r) (run_ID r))"
proof -
  let ?v = "sqlite_view t" and ?db = "\<lambda>fs. \<lparr>db_tab = t, db_faults = fs\<rparr>"
  have db: "ap_db a = ?db [False, False, True]" using assms(4,5) by (metis (full_types) sdb.surjective old.unit.exhaust)
  have res: "be_ResolveRunPrefix sqlite_Backend p (ap_db a) = (Inr r, ?db [False, True])"
    using assms(6) unfolding db
    by (auto simp: sqlite_ResolveRunPrefix_def resolve_def query_def stmt_def split: if_splits list.splits)
  have "v_run ?v (run_ID r) = Some r"
    using sqc.ResolveRun_law [of "?db []" p "Inr r" db1] assms(1,6) by simp
  moreover have "be_ListEventsByRun sqlite_Backend (run_ID r) 0 (?db [False, True]) = (Inr (take 10000 (v_events ?v (run_ID r))), ?db [True])"
    by (simp add: sqlite_ListEventsByRun_def query_def stmt_def tables_view_def limit_rows_def)
  moreover have "be_ListAllowEntries sqlite_Backend (?db [True]) = (Inl ErrIO, ?db [])"
    by (simp add: sqlite_ListAllowEntries_def query_def stmt_def)
  moreover have "sqlite_integ (?db [])" "reliable (?db [])" using assms(1) by simp_all
  ultimately show ?thesis
    using sqc.promote_with [OF assms(2,3) _ refl assms(7) res _ _ _ _ _ refl unrestricted(1), of ?v "?db [True]" "Inl ErrIO" "?db []" args]
    by auto
qed

theorem promotion_without_allowlist_witness:
  "\<exists>a'. baselinePromote demo_cli [''r2''] (console \<lparr>db_tab = demo_tables [], db_faults = [False, False, True]\<rparr> demo_server) = (Inr (), a') \<and>
     ap_err a' = []"
  using promotion_without_allowlist [OF demo_ok(1), of demo_cli
      "console \<lparr>db_tab = demo_tables [], db_faults = [False, False, True]\<rparr> demo_server" "''r2''" "scanRun (demo_run ''r2'')" "demo_db []" "[]"]
    demo_resolve [of "[]"] permuting_id
  by (auto simp: demo_cli_def demo_run_pkg)

section \<open>The triage queue\<close>

lemma same_ranks: "pendingSeverityRank = ui_severityRank"
  by (simp add: fun_eq_iff pendingSeverityRank_def ui_severityRank_def)

lemma same_count: "cli_count_deviation = count_deviation"
  by (simp add: fun_eq_iff cli_count_deviation_def count_deviation_def same_ranks)

lemma same_groups: "cli_group_pending be ds rows db = group_pending be ds rows db"
  by (induction ds arbitrary: rows db) (simp_all add: same_count split: option.split prod.split sum.split)

lemma rank_nonneg [simp]: "0 \<le> pendingSeverityRank s" "\<not> pendingSeverityRank s < 0"
  by (simp_all add: pendingSeverityRank_def)

lemma shown_all: "pending_rows_shown c [] 0 rs = sort_pending (cl_rows_order c) rs"
proof -
  have "pendingSeverityRank [] = 0" by (simp add: pendingSeverityRank_def)
  then show ?thesis by (simp add: pending_rows_shown_def sort_pending_def same_ranks [symmetric])
qed

lemma filtered_uncut:
  assumes "length (t_deviations t) \<le> n" "n > 0"
  shows "limit_rows (int n) (order_by_desc f (filter P (t_deviations t))) = order_by_desc f (filter P (t_deviations t))"
proof -
  have "length (filter P (t_deviations t)) \<le> n" using assms(1) length_filter_le le_trans by blast
  then show ?thesis by (simp add: limit_rows_def order_by_desc_def order_by_def)
qed

lemma listed_uncut:
  assumes "reliable db" "length (t_deviations (db_tab db)) \<le> 1000"
  shows "sqlite_ListDeviationsFiltered \<lparr>df_PackageName = [], df_Severity = [], df_RunID = [], df_Limit = 5000\<rparr> db =
         sqlite_ListDeviationsFiltered \<lparr>df_PackageName = [], df_Severity = [], df_RunID = [], df_Limit = 1000\<rparr> db"
proof -
  have "deviation_selected \<lparr>df_PackageName = [], df_Severity = [], df_RunID = [], df_Limit = 5000\<rparr> t d =
      deviation_selected \<lparr>df_PackageName = [], df_Severity = [], df_RunID = [], df_Limit = 1000\<rparr> t d"
    for t :: tables and d
    by (simp add: deviation_selected_def split: option.split)
  then have "deviation_selected \<lparr>df_PackageName = [], df_Severity = [], df_RunID = [], df_Limit = 5000\<rparr> (db_tab db) =
      deviation_selected \<lparr>df_PackageName = [], df_Severity = [], df_RunID = [], df_Limit = 1000\<rparr> (db_tab db)"
    by (simp add: fun_eq_iff)
  moreover have "length (t_deviations (db_tab db)) \<le> 5000" using assms(2) by simp
  ultimately show ?thesis
    using assms
    by (simp add: sqlite_ListDeviationsFiltered_def Let_def filtered_uncut [of _ 1000, simplified] filtered_uncut [of _ 5000, simplified])
qed



text \<open>
  The severities of the differ have no rank, so any minimum severity that the command knows
  hides every run.
\<close>

lemma update_in: "x \<in> set (AList.update k v xs) \<Longrightarrow> x = (k, v) \<or> x \<in> set xs"
  by (induction xs) (auto split: if_splits)

lemma count_unranked: "ui_severityRank (dv_Severity d) = 0 \<Longrightarrow> pr_MaxSeverity r = [] \<Longrightarrow> pr_MaxSeverity (count_deviation d r) = []"
  by (simp add: count_deviation_def) (simp add: ui_severityRank_def)

lemma group_unranked:
  "\<forall>d\<in>set ds. ui_severityRank (dv_Severity d) = 0 \<Longrightarrow> \<forall>x\<in>set rows. pr_MaxSeverity (snd x) = [] \<Longrightarrow>
   \<forall>x\<in>set (fst (group_pending be ds rows db)). pr_MaxSeverity (snd x) = []"
proof (induction ds arbitrary: rows db)
  case (Cons d ds)
  have up: "\<forall>x\<in>set (AList.update (dv_RunID d) (count_deviation d r) rows). pr_MaxSeverity (snd x) = []" if "pr_MaxSeverity r = []" for r
    using that Cons.prems count_unranked by (auto dest!: update_in)
  have known: "pr_MaxSeverity r = []" if "map_of rows (dv_RunID d) = Some r" for r
    using map_of_SomeD [OF that] Cons.prems(2) by (metis snd_conv)
  have new: "pr_MaxSeverity (new_pending run d) = []" for run by (simp add: new_pending_def)
  have IH: "\<forall>x\<in>set rs. pr_MaxSeverity (snd x) = [] \<Longrightarrow> \<forall>x\<in>set (fst (group_pending be ds rs db')). pr_MaxSeverity (snd x) = []" for rs db'
    by (rule Cons.IH) (use Cons.prems(1) in simp)
  show ?case
  proof (cases "map_of rows (dv_RunID d)")
    case (Some r)
    then show ?thesis using IH [OF up [OF known [OF Some]], of db] by simp
  next
    case None
    obtain res db' where res: "be_GetRun be (dv_RunID d) db = (res, db')" by fastforce
    show ?thesis
    proof (cases res)
      case (Inl e)
      then show ?thesis using IH [OF Cons.prems(2), of db'] None res by simp
    next
      case (Inr run)
      then show ?thesis using IH [OF Cons.prems(2), of db'] IH [OF up [OF new [of run]], of db'] None res by simp
    qed
  qed
qed simp

text \<open>
  With the severities the differ assigns, \<open>fangs pending -min-severity\<close> shows no run at
  all for any of the four levels it documents.
\<close>

theorem min_severity_hides_all:
  assumes "reliable (ap_db a)" "cl_store c = sqlite_Backend"
    and "\<forall>d\<in>set (t_deviations (db_tab (ap_db a))). \<exists>ct. de_severity d = defaultSeverity ct"
    and "m \<in> {''low'', ''medium'', ''high'', ''critical''}" "\<forall>rs. mset (cl_rows_order c rs) = mset rs"
  shows "\<exists>db'. pendingCmd c [''-min-severity'', m] a = (Inr (), a\<lparr>ap_db := db', ap_out := ap_out a @ pending_printed c []\<rparr>)"
proof -
  let ?f = "\<lparr>df_PackageName = [], df_Severity = [], df_RunID = [], df_Limit = 5000\<rparr> :: DeviationFilter"
  obtain ds where ds: "sqlite_ListDeviationsFiltered ?f (ap_db a) = (Inr ds, ap_db a)"
    "ds = scanDeviationRows (limit_rows 5000 (order_by_desc (\<lambda>d. (de_detected_at d, de_id d))
        (filter (deviation_selected ?f (db_tab (ap_db a))) (t_deviations (db_tab (ap_db a))))))"
    using assms(1) by (simp add: sqlite_ListDeviationsFiltered_def Let_def)
  have "\<forall>d\<in>set ds. \<exists>ct. dv_Severity d = defaultSeverity ct"
    using assms(3) by (auto simp: ds(2) scanDeviationRows_def scanDeviationRow_def limit_rows_def order_by_desc_def order_by_def dest!: in_set_takeD split: if_splits)
  then have zero: "\<forall>d\<in>set ds. ui_severityRank (dv_Severity d) = 0"
    by (fastforce simp: defaultSeverity_def ui_severityRank_def)
  obtain rows db' where g: "group_pending sqlite_Backend ds [] (ap_db a) = (rows, db')" by fastforce
  have "\<forall>r\<in>set (map snd rows). pr_MaxSeverity r = []"
    using group_unranked [OF zero, of "[]" sqlite_Backend "ap_db a"] g by auto
  then have "filter (\<lambda>r. \<not> pendingSeverityRank (pr_MaxSeverity r) < pendingSeverityRank m) (cl_rows_order c (map snd rows)) = []"
    using assms(4,5) mset_eq_setD [OF assms(5)[rule_format, of "map snd rows"]]
    by (auto simp: filter_empty_conv pendingSeverityRank_def)
  then have "pending_rows_shown c m 0 (map snd rows) = []" by (simp add: pending_rows_shown_def)
  moreover have "Parse [(''package'', StringFlag), (''min-severity'', StringFlag), (''limit'', IntFlag)] [''-min-severity'', m] =
      Inr ([(''min-severity'', FString m)], [])"
    by (simp add: Parse_def flag_token_def HasPrefix_def Set_flag_def)
  ultimately show ?thesis
    using assms(2) ds(1) g
    by (intro exI [of _ db'])
      (simp add: pendingCmd_def on_def lift_err_def flag_string_def flag_int_def call_def same_groups say_def case_prod_beta)
qed

theorem min_severity_hides_all_witness:
  "\<exists>db'. pendingCmd demo_cli [''-min-severity'', ''low''] (console demo_queue demo_server) =
     (Inr (), (console db' demo_server)\<lparr>ap_out := pending_printed demo_cli []\<rparr>)"
proof -
  have "de_severity d = defaultSeverity CatNetDNS" if "d \<in> set (t_deviations (db_tab demo_queue))" for d
    using that by (simp add: demo_queue_def defaultSeverity_def)
  then show ?thesis
    using min_severity_hides_all [of "console demo_queue demo_server" demo_cli "''low''"] by (auto simp: demo_cli_def demo_queue_def)
qed

section \<open>Packages\<close>

definition plain_argument :: "string \<Rightarrow> bool" where
  "plain_argument s \<longleftrightarrow> length s < 2 \<or> hd s \<noteq> CHR ''-''"

lemma Parse_plain: "plain_argument s \<Longrightarrow> Parse fl (s # args) = Inr ([], s # args)"
  by (auto simp: Parse_def plain_argument_def)

text \<open>A submission leaves the packages alone as long as \<open>I\<close> holds of the rest of the world.\<close>

definition submission_keeps_packages :: "('w \<Rightarrow> bool) \<Rightarrow> (sqlite, 'w) Cli \<Rightarrow> bool" where
  "submission_keeps_packages I c \<longleftrightarrow> (\<forall>url q db w res db' w'. reliable db \<longrightarrow> I w \<longrightarrow> cl_submit c url q (db, w) = (res, db', w') \<longrightarrow>
     reliable db' \<and> t_packages (db_tab db') = t_packages (db_tab db))"

lemma orchestrator_submit_keeps:
  assumes "cl_submit c = orchestrator_submit marshal now"
  shows "submission_keeps_packages (\<lambda>s. sv_store s = Some sqlite_Backend) c"
proof -
  have "reliable (sv_db s') \<and> t_packages (db_tab (sv_db s')) = t_packages (db_tab (sv_db s))"
    if "reliable (sv_db s)" "sv_store s = Some sqlite_Backend" "handleQueueScan now (Inr (r, job)) s = (resp, s')"
    for r job resp and s s' :: "sqlite Server"
  proof -
    obtain res s1 where 1: "SubmitScan now r job s = (res, s1)" by fastforce
    then have "s' = s \<or> s' = s1" using that(3) by (auto simp: handleQueueScan_def split: if_splits sum.splits)
    then show ?thesis using SubmitScan_keeps [OF that(1,2) 1] that(1) by auto
  qed
  from this [where s = "(s :: sqlite Server)\<lparr>sv_db := db\<rparr>" for s db]
  show ?thesis
    by (auto simp: submission_keeps_packages_def assms orchestrator_submit_def Let_def split: prod.splits)
qed

lemma submitScan_packages:
  assumes "submission_keeps_packages I c" "I (ap_world a)" "reliable (ap_db a)" "submitScan c url rn pkg version dur a = (res, a')"
  shows "reliable (ap_db a') \<and> t_packages (db_tab (ap_db a')) = t_packages (db_tab (ap_db a))"
proof (cases "url_parse (url @ ''/v1/scans'') = None")
  case True
  then show ?thesis using assms(3,4) by (simp add: submitScan_def)
next
  case False
  let ?q = "(if rn = [] then cl_hostname c else rn, (watcher_job pkg version)\<lparr>jb_Duration := dur\<rparr>)"
  obtain r db w where s: "cl_submit c (url @ ''/v1/scans'') ?q (ap_db a, ap_world a) = (r, db, w)" by (metis prod_cases3)
  then have "reliable db \<and> t_packages (db_tab db) = t_packages (db_tab (ap_db a))"
    using assms(1,2,3) unfolding submission_keeps_packages_def by blast
  then show ?thesis
    using assms(4) False s by (auto simp: submitScan_def Let_def split: sum.splits if_splits option.splits)
qed

lemma kickoff_packages:
  assumes "submission_keeps_packages I c" "I (ap_world a)" "reliable (ap_db a)" "kickoff c url rn name version dur sk a = (i, a')"
  shows "reliable (ap_db a') \<and> t_packages (db_tab (ap_db a')) = t_packages (db_tab (ap_db a))"
proof -
  obtain res a1 where s: "submitScan c url rn name version dur a = (res, a1)" by fastforce
  then show ?thesis
    using assms(3,4) submitScan_packages [OF assms(1,2,3) s] by (auto simp: kickoff_def warn_def split: if_splits sum.splits)
qed

definition added_row :: "(sqlite, 'w) Cli \<Rightarrow> string \<Rightarrow> string \<Rightarrow> package_row" where
  "added_row c name version = \<lparr>pk_name = name, pk_added_at = format_time (cl_clock c 0),
     pk_last_checked_at = Some (format_time (cl_clock c 1)), pk_last_seen_version = Some version\<rparr>"

text \<open>
  Adding a package that the registry knows, on a SQLite database that does not fail: the
  package is watched from then on, noted as seen at its latest version, whatever becomes of the
  first scan. So a poll with the same answer of the registry submits nothing, and adding it
  again is refused without touching the database.
\<close>

theorem package_added_once:
  assumes "reliable (ap_db a)" "cl_store c = sqlite_Backend" "submission_keeps_packages I c" "I (ap_world a)" "plain_argument name"
    and "name \<notin> pk_name ` set (t_packages (db_tab (ap_db a)))" "Resolve (cl_registry c) npm_registry name [] = Inr v"
  shows "\<exists>a'. packageAdd c [name] a = (Inr (), a') \<and>
    t_packages (db_tab (ap_db a')) = t_packages (db_tab (ap_db a)) @ [added_row c name (pv_Version v)] \<and>
    (\<forall>submit iv now s. snd (pollPackage (new_Watcher sqlite_Backend (NewNPMRegistry (cl_registry c)) submit iv) now
       (scan_package (added_row c name (pv_Version v))) (ap_db a', s)) = s) \<and>
    (\<forall>rest. \<exists>e. packageAdd c (name # rest) a' = (Inl e, a'))"
proof -
  let ?t = "db_tab (ap_db a)" and ?row = "added_row c name (pv_Version v)"
  let ?db1 = "(ap_db a)\<lparr>db_tab := ?t\<lparr>t_packages := t_packages ?t @ [\<lparr>pk_name = name, pk_added_at = format_time (cl_clock c 0),
     pk_last_checked_at = None, pk_last_seen_version = None\<rparr>]\<rparr>\<rparr>"
  let ?db2 = "(ap_db a)\<lparr>db_tab := ?t\<lparr>t_packages := t_packages ?t @ [?row]\<rparr>\<rparr>"
  have version: "pv_Version v \<noteq> []" using Resolve_name [OF assms(7)] by simp
  have fresh: "find (\<lambda>w. wp_Name w = name) (map scan_package (order_by pk_name (t_packages ?t))) = None"
    using assms(6) by (auto simp: find_None_iff scan_package_def)
  have add: "sqlite_AddWatchedPackage (cl_clock c 0) name (ap_db a) = (Inr (), ?db1)"
    using assms(1,6) by (simp add: sqlite_AddWatchedPackage_def stmt_reliable insert_package_def)
  have same: "map (\<lambda>r. if pk_name r = name then f r else r) (t_packages ?t) = t_packages ?t" for f
    by (intro map_idI) (use assms(6) in auto)
  have upd: "snd (sqlite_UpdatePackageCheck (cl_clock c 1) name (pv_Version v) ?db1) = ?db2"
    using assms(1) version same by (simp add: UpdatePackageCheck_effect upd_where_def added_row_def)
  obtain i a2 where k: "kickoff c default_orchestrator [] name (pv_Version v) (60 * second) False (a\<lparr>ap_db := ?db2\<rparr>) = (i, a2)" by fastforce
  have "snd (call (be_UpdatePackageCheck (cl_store c) (cl_clock c 1) name (pv_Version v)) (a\<lparr>ap_db := ?db1\<rparr>)) = a\<lparr>ap_db := ?db2\<rparr>"
    using upd assms(2) by (simp add: call_def case_prod_beta)
  then have "\<exists>ps. watch_added c default_orchestrator [] (60 * second) False name (pv_Version v) (a\<lparr>ap_db := ?db1\<rparr>) =
      (Inr (), a2\<lparr>ap_out := ap_out a2 @ ps\<rparr>)"
    using version k unfolding watch_added_def Let_def say_def by auto
  then obtain ps where ps: "watch_added c default_orchestrator [] (60 * second) False name (pv_Version v) (a\<lparr>ap_db := ?db1\<rparr>) =
      (Inr (), a2\<lparr>ap_out := ap_out a2 @ ps\<rparr>)" ..
  have "packageAdd c [name] a = watch_added c default_orchestrator [] (60 * second) False name (pv_Version v) (a\<lparr>ap_db := ?db1\<rparr>)"
    using assms(1,2,7) fresh add
    by (simp add: packageAdd_def on_def lift_err_def Parse_plain [OF assms(5)] flag_string_def flag_bool_def flag_duration_def
        sqlite_ListWatchedPackages_def latest_of_def call_def)
  then obtain a' where a': "packageAdd c [name] a = (Inr (), a')" "ap_db a' = ap_db a2" using ps by auto
  have "reliable (ap_db a2) \<and> t_packages (db_tab (ap_db a2)) = t_packages ?t @ [?row]"
    using kickoff_packages [OF assms(3) _ _ k] assms(1,4) by simp
  then have db: "reliable (ap_db a')" "t_packages (db_tab (ap_db a')) = t_packages ?t @ [?row]" using a'(2) by simp_all
  have poll: "snd (pollPackage (new_Watcher sqlite_Backend (NewNPMRegistry (cl_registry c)) submit iv) now (scan_package ?row) (ap_db a', s)) = s"
    for submit iv now s
    using assms(7) by (simp add: pollPackage_def new_Watcher_def NewNPMRegistry_def LatestVersion_def scan_package_def added_row_def NullString_def Let_def)
  obtain w where "find (\<lambda>w. wp_Name w = name) (map scan_package (order_by pk_name (t_packages (db_tab (ap_db a'))))) = Some w"
    using db(2) by (cases "find (\<lambda>w. wp_Name w = name) (map scan_package (order_by pk_name (t_packages (db_tab (ap_db a')))))")
      (auto simp: find_None_iff scan_package_def added_row_def)
  then have again: "\<exists>e. packageAdd c (name # rest) a' = (Inl e, a')" for rest
    using db(1) assms(2)
    by (simp add: packageAdd_def on_def lift_err_def Parse_plain [OF assms(5)] sqlite_ListWatchedPackages_def call_def give_up_def)
  show ?thesis using a'(1) db(2) poll again by blast
qed

theorem package_added_once_witness:
  "\<exists>a'. packageAdd demo_cli [''left-pad''] (console (demo_db []) demo_registered) = (Inr (), a') \<and>
     map pk_last_seen_version (t_packages (db_tab (ap_db a'))) = [Some ''1.0.0'']"
proof -
  have v: "Resolve (cl_registry demo_cli) npm_registry ''left-pad'' [] = Inr \<lparr>pv_Name = ''left-pad'', pv_Version = ''1.0.0'',
      pv_TarballSHA = [], pv_Integrity = [], pv_PublishedAt = zero_time\<rparr>"
    by (simp add: demo_cli_def Resolve_def fetchMetadata_def)
  have w: "sv_store demo_registered = Some sqlite_Backend" by (simp add: demo_registered_def handleRegister_def demo_registration_def)
  show ?thesis
    using package_added_once [OF _ _ orchestrator_submit_keeps _ _ _ v, of "console (demo_db []) demo_registered" demo_marshal 5] w
    by (auto simp: demo_cli_def plain_argument_def demo_tables_def empty_tables_def added_row_def)
qed

section \<open>Scans\<close>

lemma default_url: "url_parse (default_orchestrator @ ''/v1/scans'') \<noteq> None"
  by code_simp

lemma scan_flags:
  "Parse [(''package'', StringFlag), (''version'', StringFlag), (''orchestrator'', StringFlag), (''runner'', StringFlag),
      (''duration'', DurationFlag), (''skip-registry-validate'', BoolFlag)] [''-package'', pkg, ''-version'', version] =
    Inr ([(''package'', FString pkg), (''version'', FString version)], [])"
  by (simp add: Parse_def flag_token_def HasPrefix_def Set_flag_def)

lemma decode_queued_body: "decode_queued (Some (body_json (BQueued i))) = Some i"
proof -
  have "\<not> EqualFold ''run_id'' ''queued''" "\<not> EqualFold ''queued'' ''run_id''" "EqualFold ''queued'' ''queued''" "EqualFold ''run_id'' ''run_id''"
    by (code_simp, code_simp, code_simp, code_simp)
  then show ?thesis by (simp add: decode_queued_def body_json_def)
qed

lemma watcher_job_id: "length (hex_bytes (jb_RunID (fill_job now paths ((watcher_job pkg version)\<lparr>jb_Duration := d\<rparr>)))) = 32"
proof -
  have "length (hex_bytes bs) = 2 * length bs" for bs :: "byte list" by (induction bs) (simp_all add: hex_bytes_def)
  then show ?thesis by (simp add: fill_job_def watcher_job_def SyntheticRunID_def)
qed



end
