(* ===== verification/Migrate.thy ===== *)
theory Migrate
  imports Sql
begin

text \<open>
  \<open>storage/migrate.go\<close>: the embedded migration scripts of a dialect and their application to a
  database, recorded in \<open>schema_migrations\<close>. What a script does to the schema is the engine's
  affair and a parameter; that it runs in a transaction, is recorded with it, runs once and in
  order, and that an interrupted migration can be resumed, is shown for every script.
\<close>

section \<open>The scripts\<close>

text \<open>A file system with one directory: its entries, a directory being marked, and the content of its files.\<close>

record 'c migration_fs =
  fs_entries :: "err + (string \<times> bool) list"
  fs_read :: "string \<Rightarrow> err + 'c"

text \<open>The embedded tree by its sub-trees; only an invalid name has none.\<close>

definition MigrationsForDialect :: "(string \<Rightarrow> err + 'c migration_fs) \<Rightarrow> string \<Rightarrow> err + 'c migration_fs" where
  "MigrationsForDialect tree dialect =
     (case tree (''migrations/'' @ dialect) of
        Inl e \<Rightarrow> Inl (Wrap (''locate embedded migrations for '' @ Quote dialect) e)
      | Inr sub \<Rightarrow> Inr sub)"

abbreviation up_sql :: string where "up_sql \<equiv> ''.up.sql''"

definition up_scripts :: "(string \<times> bool) list \<Rightarrow> string list" where
  "up_scripts entries = sort (map fst (filter (\<lambda>(n, isDir). \<not> (isDir \<or> \<not> HasSuffix n up_sql)) entries))"

section \<open>Their application\<close>

text \<open>The schema and the versions recorded, if the table for them exists.\<close>

record 's migrated =
  mg_schema :: 's
  mg_versions :: "string list option"

type_synonym ('c, 's) script_engine = "'c \<Rightarrow> 's \<Rightarrow> err + 's"

definition versions :: "'s migrated \<Rightarrow> string list" where
  "versions t = (case mg_versions t of None \<Rightarrow> [] | Some vs \<Rightarrow> vs)"

definition create_schema_migrations :: "('s migrated sdb, unit) op" where
  "create_schema_migrations = stmt (\<lambda>t. Inr ((), t\<lparr>mg_versions := Some (versions t)\<rparr>))"

text \<open>One script in its transaction: begin, execute, record, commit.\<close>

definition migrate_one :: "('c, 's) script_engine \<Rightarrow> string \<Rightarrow> 'c \<Rightarrow> ('s migrated sdb, unit) op" where
  "migrate_one exec name body db =
     (let t = db_tab db; version = TrimSuffix name up_sql;
          (b1, f1) = next_fault (db_faults db); (b2, f2) = next_fault f1; (b3, f3) = next_fault f2; (b4, f4) = next_fault f3
      in if b1 then (Inl (Wrap (''begin '' @ name) ErrIO), db\<lparr>db_faults := f1\<rparr>)
         else if b2 then (Inl (Wrap (''exec '' @ name) ErrIO), db\<lparr>db_faults := f2\<rparr>)
         else (case exec body (mg_schema t) of
                 Inl e \<Rightarrow> (Inl (Wrap (''exec '' @ name) e), db\<lparr>db_faults := f2\<rparr>)
               | Inr s \<Rightarrow>
                   if b3 then (Inl (Wrap (''record '' @ name) ErrIO), db\<lparr>db_faults := f3\<rparr>)
                   else if version \<in> set (versions t)
                   then (Inl (Wrap (''record '' @ name) (Msg ''UNIQUE constraint failed: schema_migrations.version'')), db\<lparr>db_faults := f3\<rparr>)
                   else if b4 then (Inl (Wrap (''commit '' @ name) ErrIO), db\<lparr>db_faults := f4\<rparr>)
                   else (Inr (), \<lparr>db_tab = t\<lparr>mg_schema := s, mg_versions := Some (versions t @ [version])\<rparr>, db_faults = f4\<rparr>)))"

fun apply_ups :: "('c, 's) script_engine \<Rightarrow> (string \<Rightarrow> err + 'c) \<Rightarrow> string set \<Rightarrow> string list \<Rightarrow> ('s migrated sdb, unit) op" where
  "apply_ups exec read applied [] db = (Inr (), db)"
| "apply_ups exec read applied (name # names) db =
     (if TrimSuffix name up_sql \<in> applied then apply_ups exec read applied names db
      else (case read name of
              Inl e \<Rightarrow> (Inl (Wrap (''read '' @ name) e), db)
            | Inr body \<Rightarrow>
                (case migrate_one exec name body db of
                   (Inl e, db') \<Rightarrow> (Inl e, db')
                 | (Inr _, db') \<Rightarrow> apply_ups exec read applied names db')))"

text \<open>The versions are read by a query, whose iteration may fail as well.\<close>

definition ApplyMigrations :: "('c, 's) script_engine \<Rightarrow> 'c migration_fs \<Rightarrow> ('s migrated sdb, unit) op" where
  "ApplyMigrations exec fsys db =
     (case wrap_err ''create schema_migrations'' create_schema_migrations db of
        (Inl e, db1) \<Rightarrow> (Inl e, db1)
      | (Inr _, db1) \<Rightarrow>
          (case wrap_err ''list applied'' (query versions) db1 of
             (Inl e, db2) \<Rightarrow> (Inl e, db2)
           | (Inr vs, db2) \<Rightarrow>
               (case query (\<lambda>_. ()) db2 of
                  (Inl e, db3) \<Rightarrow> (Inl e, db3)
                | (Inr _, db3) \<Rightarrow>
                    (case fs_entries fsys of
                       Inl e \<Rightarrow> (Inl (Wrap ''read migrations'' e), db3)
                     | Inr entries \<Rightarrow> apply_ups exec (fs_read fsys) (set vs) (up_scripts entries) db3))))"

text \<open>\<open>Migrate\<close> of either backend.\<close>

definition Backend_Migrate ::
  "(string \<Rightarrow> err + 'c migration_fs) \<Rightarrow> string \<Rightarrow> ('c, 's) script_engine \<Rightarrow> ('s migrated sdb, unit) op" where
  "Backend_Migrate tree dialect exec db =
     (case MigrationsForDialect tree dialect of
        Inl e \<Rightarrow> (Inl e, db)
      | Inr fsys \<Rightarrow> ApplyMigrations exec fsys db)"

section \<open>Without failures of the engine\<close>

fun settle :: "('c, 's) script_engine \<Rightarrow> (string \<Rightarrow> err + 'c) \<Rightarrow> string set \<Rightarrow> string list \<Rightarrow> 's migrated \<Rightarrow> (err + unit) \<times> 's migrated" where
  "settle exec read applied [] t = (Inr (), t)"
| "settle exec read applied (name # names) t =
     (if TrimSuffix name up_sql \<in> applied then settle exec read applied names t
      else (case read name of
              Inl e \<Rightarrow> (Inl (Wrap (''read '' @ name) e), t)
            | Inr body \<Rightarrow>
                (case migrate_one exec name body \<lparr>db_tab = t, db_faults = []\<rparr> of
                   (Inl e, db') \<Rightarrow> (Inl e, t)
                 | (Inr _, db') \<Rightarrow> settle exec read applied names (db_tab db'))))"

lemma migrate_one_cases:
  assumes "migrate_one exec name body db = (res, db')"
  obtains (failed) e where "res = Inl e" "db_tab db' = db_tab db"
  | (applied) s where "res = Inr ()" "exec body (mg_schema (db_tab db)) = Inr s" "TrimSuffix name up_sql \<notin> set (versions (db_tab db))"
      "db_tab db' = (db_tab db)\<lparr>mg_schema := s, mg_versions := Some (versions (db_tab db) @ [TrimSuffix name up_sql])\<rparr>"
      "migrate_one exec name body \<lparr>db_tab = db_tab db, db_faults = []\<rparr> = (Inr (), \<lparr>db_tab = db_tab db', db_faults = []\<rparr>)"
  using assms by (auto simp: migrate_one_def Let_def split: prod.splits if_splits sum.splits)

lemma migrate_one_reliable:
  "reliable db \<Longrightarrow> migrate_one exec name body db = (res, db') \<Longrightarrow> reliable db' \<and> db = \<lparr>db_tab = db_tab db, db_faults = []\<rparr>"
  by (cases db) (auto simp: migrate_one_def Let_def split: if_splits sum.splits)

lemma apply_ups_reliable:
  "reliable db \<Longrightarrow> apply_ups exec read applied names db = (case settle exec read applied names (db_tab db) of (r, t) \<Rightarrow> (r, \<lparr>db_tab = t, db_faults = []\<rparr>))"
proof (induction names arbitrary: db)
  case Nil
  then show ?case by (cases db) simp
next
  case (Cons name names)
  show ?case
  proof (cases "TrimSuffix name up_sql \<in> applied")
    case True
    then show ?thesis using Cons by simp
  next
    case new: False
    show ?thesis
    proof (cases "read name")
      case (Inl e)
      then show ?thesis using new Cons.prems by (cases db) simp
    next
      case (Inr body)
      obtain res db' where m: "migrate_one exec name body db = (res, db')" by fastforce
      note rel = migrate_one_reliable [OF Cons.prems m]
      then have m': "migrate_one exec name body \<lparr>db_tab = db_tab db, db_faults = []\<rparr> = (res, db')" using m by simp
      from m show ?thesis
      proof (cases rule: migrate_one_cases)
        case (failed e)
        then have "db' = \<lparr>db_tab = db_tab db, db_faults = []\<rparr>" using rel by (cases db') simp
        then show ?thesis using new Inr m m' failed by simp
      next
        case (applied s)
        then show ?thesis using new Inr m m' Cons.IH [of db'] rel by simp
      qed
    qed
  qed
qed

definition settled :: "('c, 's) script_engine \<Rightarrow> 'c migration_fs \<Rightarrow> 's migrated \<Rightarrow> (err + unit) \<times> 's migrated" where
  "settled exec fsys t =
     (let t1 = t\<lparr>mg_versions := Some (versions t)\<rparr> in
      case fs_entries fsys of
        Inl e \<Rightarrow> (Inl (Wrap ''read migrations'' e), t1)
      | Inr entries \<Rightarrow> settle exec (fs_read fsys) (set (versions t)) (up_scripts entries) t1)"

lemma versions_created [simp]: "versions (t\<lparr>mg_versions := Some vs\<rparr>) = vs"
  by (simp add: versions_def)

lemma ApplyMigrations_reliable:
  assumes "reliable db"
  shows "ApplyMigrations exec fsys db = (case settled exec fsys (db_tab db) of (r, t) \<Rightarrow> (r, \<lparr>db_tab = t, db_faults = []\<rparr>))"
proof -
  let ?db1 = "db\<lparr>db_tab := (db_tab db)\<lparr>mg_versions := Some (versions (db_tab db))\<rparr>\<rparr>"
  have 1: "create_schema_migrations db = (Inr (), ?db1)"
    using assms by (simp add: create_schema_migrations_def stmt_reliable)
  have r: "reliable ?db1" using assms by simp
  have db1: "?db1 = \<lparr>db_tab = db_tab ?db1, db_faults = []\<rparr>" using r by (cases db) simp
  show ?thesis
    using 1 r db1
    by (simp add: ApplyMigrations_def settled_def wrap_err_def Let_def apply_ups_reliable [OF r] split: sum.split)
qed

section \<open>Interrupted migrations\<close>

lemma settle_cong:
  "\<forall>n\<in>set names. (TrimSuffix n up_sql \<in> A) = (TrimSuffix n up_sql \<in> B) \<Longrightarrow>
   settle exec read A names t = settle exec read B names t"
  by (induction names arbitrary: t) (auto split: sum.split prod.split)

text \<open>
  However a run of the loop ends, settling what is left gives what settling would have given
  in the first place.
\<close>

lemma apply_ups_resume:
  assumes "distinct (map (\<lambda>n. TrimSuffix n up_sql) names)" "apply_ups exec read A names db = (res, db')"
  shows "settle exec read (A \<union> (set (versions (db_tab db')) - set (versions (db_tab db)))) names (db_tab db') =
    settle exec read A names (db_tab db) \<and> set (versions (db_tab db)) \<subseteq> set (versions (db_tab db')) \<and>
    set (versions (db_tab db')) \<subseteq> set (versions (db_tab db)) \<union> (\<lambda>n. TrimSuffix n up_sql) ` set names"
  using assms
proof (induction names arbitrary: db)
  case (Cons name names)
  let ?v = "TrimSuffix name up_sql"
  show ?case
  proof (cases "?v \<in> A")
    case True
    then show ?thesis using Cons by auto
  next
    case new: False
    show ?thesis
    proof (cases "read name")
      case (Inl e)
      then show ?thesis using new Cons.prems(2) by auto
    next
      case (Inr body)
      obtain r1 db1 where m: "migrate_one exec name body db = (r1, db1)" by fastforce
      from m show ?thesis
      proof (cases rule: migrate_one_cases)
        case (failed e)
        then show ?thesis using new Inr m Cons.prems(2) by auto
      next
        case (applied s)
        have step: "apply_ups exec read A names db1 = (res, db')" using Cons.prems(2) new Inr m applied(1) by simp
        have vs: "set (versions (db_tab db1)) = insert ?v (set (versions (db_tab db)))" by (simp add: applied(4) versions_def)
        let ?B = "\<lambda>d. A \<union> (set (versions (db_tab db')) - set (versions (db_tab d)))"
        have IH: "settle exec read (?B db1) names (db_tab db') = settle exec read A names (db_tab db1)"
          "set (versions (db_tab db1)) \<subseteq> set (versions (db_tab db'))"
          "set (versions (db_tab db')) \<subseteq> set (versions (db_tab db1)) \<union> (\<lambda>n. TrimSuffix n up_sql) ` set names"
          using Cons.IH [OF _ step] Cons.prems(1) by simp_all
        have "settle exec read A (name # names) (db_tab db) = settle exec read A names (db_tab db1)"
          using new Inr applied(5) by simp
        moreover have "settle exec read (?B db) (name # names) (db_tab db') = settle exec read (?B db) names (db_tab db')"
          using IH(2) vs applied(3) by auto
        moreover have "settle exec read (?B db) names (db_tab db') = settle exec read (?B db1) names (db_tab db')"
        proof (rule settle_cong, rule ballI)
          fix n assume "n \<in> set names"
          then have "TrimSuffix n up_sql \<in> (\<lambda>n. TrimSuffix n up_sql) ` set names" by (rule imageI)
          moreover have "?v \<notin> (\<lambda>n. TrimSuffix n up_sql) ` set names" using Cons.prems(1) by simp
          ultimately have "TrimSuffix n up_sql \<noteq> ?v" by metis
          then show "(TrimSuffix n up_sql \<in> ?B db) = (TrimSuffix n up_sql \<in> ?B db1)" using vs by simp
        qed
        ultimately show ?thesis using IH vs by auto
      qed
    qed
  qed
qed auto

lemma TrimSuffix_inj: "HasSuffix m s \<Longrightarrow> HasSuffix n s \<Longrightarrow> TrimSuffix m s = TrimSuffix n s \<Longrightarrow> m = n"
  by (auto simp: HasSuffix_def TrimSuffix_def suffix_def)

lemma up_scripts_distinct:
  assumes "distinct (map fst entries)"
  shows "distinct (map (\<lambda>n. TrimSuffix n up_sql) (up_scripts entries))"
proof -
  have "inj_on (\<lambda>n. TrimSuffix n up_sql) (set (up_scripts entries))"
    by (auto simp: up_scripts_def inj_on_def intro: TrimSuffix_inj)
  moreover have "distinct (up_scripts entries)"
    using assms by (simp add: up_scripts_def distinct_map_filterI)
  ultimately show ?thesis by (simp add: distinct_map)
qed

lemma ApplyMigrations_cases:
  assumes "ApplyMigrations exec fsys db = (res, db')"
  obtains (early) e where "res = Inl e" "db_tab db' = db_tab db \<or> db_tab db' = (db_tab db)\<lparr>mg_versions := Some (versions (db_tab db))\<rparr>"
  | (late) entries db3 where "fs_entries fsys = Inr entries" "db_tab db3 = (db_tab db)\<lparr>mg_versions := Some (versions (db_tab db))\<rparr>"
      "apply_ups exec (fs_read fsys) (set (versions (db_tab db))) (up_scripts entries) db3 = (res, db')"
proof -
  obtain r1 db1 where 1: "create_schema_migrations db = (r1, db1)" by fastforce
  obtain r2 db2 where 2: "query versions db1 = (r2, db2)" by fastforce
  obtain r3 db3 where 3: "query (\<lambda>_. ()) db2 = (r3, db3)" by fastforce
  have t: "db_tab db2 = db_tab db1" "db_tab db3 = db_tab db1"
    using query_tab [of versions db1] query_tab [of "\<lambda>_. ()" db2] 2 3 by simp_all
  have t1: "case r1 of Inl e \<Rightarrow> db_tab db1 = db_tab db | Inr u \<Rightarrow> db_tab db1 = (db_tab db)\<lparr>mg_versions := Some (versions (db_tab db))\<rparr>"
    using 1 by (auto simp: create_schema_migrations_def stmt_def Let_def split: prod.splits if_splits)
  have v: "r2 = Inr vs \<Longrightarrow> vs = versions (db_tab db1)" for vs
    using 2 by (auto simp: query_def stmt_def Let_def split: prod.splits if_splits)
  show ?thesis
    using assms early late t t1 v 1 2 3
    by (cases r1; cases r2; cases r3; cases "fs_entries fsys") (auto simp: ApplyMigrations_def wrap_err_def)
qed

lemma settled_created: "settled exec fsys (t\<lparr>mg_versions := Some (versions t)\<rparr>) = settled exec fsys t"
  by (simp add: settled_def Let_def split: sum.split)

lemma apply_ups_table:
  "mg_versions (db_tab db) = Some us \<Longrightarrow> apply_ups exec read A names db = (res, db') \<Longrightarrow> \<exists>vs. mg_versions (db_tab db') = Some vs"
proof (induction names arbitrary: db us)
  case (Cons name names)
  show ?case
  proof (cases "TrimSuffix name up_sql \<in> A \<or> (\<exists>e. read name = Inl e)")
    case True
    then show ?thesis using Cons by (auto split: if_splits)
  next
    case False
    then obtain body where b: "TrimSuffix name up_sql \<notin> A" "read name = Inr body" by (cases "read name") auto
    obtain r1 db1 where m: "migrate_one exec name body db = (r1, db1)" by fastforce
    from m show ?thesis
    proof (cases rule: migrate_one_cases)
      case (failed e)
      then show ?thesis using Cons.prems b m by auto
    next
      case (applied s)
      then have "apply_ups exec read A names db1 = (res, db')" using Cons.prems(2) b m by simp
      moreover have "mg_versions (db_tab db1) = Some (versions (db_tab db) @ [TrimSuffix name up_sql])" by (simp add: applied(4))
      ultimately show ?thesis by (intro Cons.IH)
    qed
  qed
qed auto

text \<open>
  C29. Migrations can be resumed. Whatever fails while the scripts are applied, applying them
  again without failures has the outcome and leaves the schema and the versions that an
  undisturbed application would have had from the start: no script is lost, repeated, or run
  out of order.
\<close>

theorem migrations_resume:
  assumes "distinct (map fst entries)" "fs_entries fsys = Inr entries"
    and "ApplyMigrations exec fsys db = (res, db')"
  shows "ApplyMigrations exec fsys (db'\<lparr>db_faults := []\<rparr>) = ApplyMigrations exec fsys (db\<lparr>db_faults := []\<rparr>)"
proof -
  have "settled exec fsys (db_tab db') = settled exec fsys (db_tab db)"
    using assms(3)
  proof (cases rule: ApplyMigrations_cases)
    case (early e)
    then show ?thesis using settled_created by metis
  next
    case (late entries' db3)
    let ?t = "db_tab db"
    have names: "distinct (map (\<lambda>n. TrimSuffix n up_sql) (up_scripts entries'))"
      using late(1) assms(1,2) up_scripts_distinct by simp
    have v3: "versions (db_tab db3) = versions ?t" by (simp add: late(2))
    note r = apply_ups_resume [OF names late(3)]
    have "set (versions ?t) \<union> (set (versions (db_tab db')) - set (versions (db_tab db3))) = set (versions (db_tab db'))"
      using r v3 by auto
    then have s: "settle exec (fs_read fsys) (set (versions (db_tab db'))) (up_scripts entries') (db_tab db') =
        settle exec (fs_read fsys) (set (versions ?t)) (up_scripts entries') (db_tab db3)"
      using r by simp
    have "\<exists>vs. mg_versions (db_tab db') = Some vs"
      by (rule apply_ups_table [OF _ late(3)]) (simp add: late(2))
    then have "(db_tab db')\<lparr>mg_versions := Some (versions (db_tab db'))\<rparr> = db_tab db'" by (auto simp: versions_def)
    then show ?thesis using s late(1,2) by (simp add: settled_def)
  qed
  then show ?thesis by (simp add: ApplyMigrations_reliable)
qed

text \<open>The scripts of \<open>migrations/sqlite\<close>, with an engine that notes what it executed.\<close>

definition repository_fs :: "string migration_fs" where
  "repository_fs =
     \<lparr>fs_entries = Inr (map (\<lambda>n. (n, False))
        [''0001_init.down.sql'', ''0001_init.up.sql'', ''0002_notifiers.down.sql'', ''0002_notifiers.up.sql'',
         ''0003_run_result.down.sql'', ''0003_run_result.up.sql'', ''0004_allowlists.down.sql'', ''0004_allowlists.up.sql'']),
      fs_read = (\<lambda>n. Inr n)\<rparr>"

definition noting :: "(string, string list) script_engine" where
  "noting body s = Inr (s @ [body])"

abbreviation empty_database :: "bool list \<Rightarrow> string list migrated sdb" where
  "empty_database fs \<equiv> \<lparr>db_tab = \<lparr>mg_schema = [], mg_versions = None\<rparr>, db_faults = fs\<rparr>"

text \<open>The commit of the second script fails; the second application does the rest.\<close>

theorem migrations_resume_witness:
  "mg_versions (db_tab (snd (ApplyMigrations noting repository_fs (empty_database (replicate 10 False @ [True]))))) = Some [''0001_init''] \<and>
   mg_schema (db_tab (snd (ApplyMigrations noting repository_fs
       ((snd (ApplyMigrations noting repository_fs (empty_database (replicate 10 False @ [True]))))\<lparr>db_faults := []\<rparr>)))) =
     [''0001_init.up.sql'', ''0002_notifiers.up.sql'', ''0003_run_result.up.sql'', ''0004_allowlists.up.sql'']"
proof -
  obtain res db' where r: "ApplyMigrations noting repository_fs (empty_database (replicate 10 False @ [True])) = (res, db')" by fastforce
  have "mg_versions (db_tab (snd (ApplyMigrations noting repository_fs (empty_database (replicate 10 False @ [True]))))) = Some [''0001_init'']"
    by code_simp
  moreover have "mg_schema (db_tab (snd (ApplyMigrations noting repository_fs (empty_database [])))) =
      [''0001_init.up.sql'', ''0002_notifiers.up.sql'', ''0003_run_result.up.sql'', ''0004_allowlists.up.sql'']"
    by code_simp
  ultimately show ?thesis
    using migrations_resume [OF _ _ r, of "map (\<lambda>n. (n, False))
        [''0001_init.down.sql'', ''0001_init.up.sql'', ''0002_notifiers.down.sql'', ''0002_notifiers.up.sql'',
         ''0003_run_result.down.sql'', ''0003_run_result.up.sql'', ''0004_allowlists.down.sql'', ''0004_allowlists.up.sql'']"] r
    by (simp add: repository_fs_def)
qed

section \<open>Applied once\<close>

lemma apply_ups_nothing: "\<forall>n\<in>set names. TrimSuffix n up_sql \<in> A \<Longrightarrow> apply_ups exec read A names db = (Inr (), db)"
  by (induction names) auto

lemma apply_ups_all:
  "apply_ups exec read A names db = (Inr (), db') \<Longrightarrow> A \<subseteq> set (versions (db_tab db)) \<Longrightarrow>
   set (versions (db_tab db)) \<subseteq> set (versions (db_tab db')) \<and> (\<forall>n\<in>set names. TrimSuffix n up_sql \<in> set (versions (db_tab db')))"
proof (induction names arbitrary: db)
  case (Cons name names)
  show ?case
  proof (cases "TrimSuffix name up_sql \<in> A")
    case True
    then show ?thesis using Cons by auto
  next
    case False
    then obtain body where b: "read name = Inr body" using Cons.prems(1) by (cases "read name") auto
    obtain r1 db1 where m: "migrate_one exec name body db = (r1, db1)" by fastforce
    from m show ?thesis
    proof (cases rule: migrate_one_cases)
      case (failed e)
      then show ?thesis using Cons.prems(1) False b m by simp
    next
      case (applied s)
      have "set (versions (db_tab db1)) = insert (TrimSuffix name up_sql) (set (versions (db_tab db)))"
        by (simp add: applied(4) versions_def)
      then show ?thesis using Cons.IH [of db1] Cons.prems False b m applied(1) by auto
    qed
  qed
qed auto

text \<open>
  After a successful application every script is recorded, and applying them again changes
  nothing, whatever fails then.
\<close>

theorem migrations_once:
  assumes "ApplyMigrations exec fsys db = (Inr (), db')" "fs_entries fsys = Inr entries"
  shows "(\<forall>n\<in>set (up_scripts entries). TrimSuffix n up_sql \<in> set (versions (db_tab db'))) \<and>
    db_tab (snd (ApplyMigrations exec fsys (db'\<lparr>db_faults := fs\<rparr>))) = db_tab db'"
proof -
  obtain db3 where 3: "db_tab db3 = (db_tab db)\<lparr>mg_versions := Some (versions (db_tab db))\<rparr>"
      "apply_ups exec (fs_read fsys) (set (versions (db_tab db))) (up_scripts entries) db3 = (Inr (), db')"
    using assms by (cases rule: ApplyMigrations_cases) auto
  have all: "\<forall>n\<in>set (up_scripts entries). TrimSuffix n up_sql \<in> set (versions (db_tab db'))"
    using apply_ups_all [OF 3(2)] by (simp add: 3(1))
  have "mg_versions (db_tab db3) = Some (versions (db_tab db))" by (simp add: 3(1))
  then obtain vs where "mg_versions (db_tab db') = Some vs" using apply_ups_table [OF _ 3(2)] by blast
  then have same: "(db_tab db')\<lparr>mg_versions := Some (versions (db_tab db'))\<rparr> = db_tab db'" by (simp add: versions_def)
  obtain res db'' where again: "ApplyMigrations exec fsys (db'\<lparr>db_faults := fs\<rparr>) = (res, db'')" by fastforce
  then have "db_tab db'' = db_tab db'"
  proof (cases rule: ApplyMigrations_cases)
    case (early e)
    then show ?thesis using same by auto
  next
    case (late entries' db4)
    then show ?thesis using assms(2) all same by (simp add: apply_ups_nothing)
  qed
  then show ?thesis using all again by simp
qed

theorem migrations_once_witness:
  "db_tab (snd (ApplyMigrations noting repository_fs ((snd (ApplyMigrations noting repository_fs (empty_database [])))\<lparr>db_faults := [False, True]\<rparr>))) =
   db_tab (snd (ApplyMigrations noting repository_fs (empty_database [])))"
proof -
  have "fst (ApplyMigrations noting repository_fs (empty_database [])) = Inr ()" by code_simp
  then have "ApplyMigrations noting repository_fs (empty_database []) = (Inr (), snd (ApplyMigrations noting repository_fs (empty_database [])))"
    by (metis prod.collapse)
  moreover have "\<exists>entries. fs_entries repository_fs = Inr entries" by (simp add: repository_fs_def)
  ultimately show ?thesis using migrations_once by blast
qed

end
