(* ===== verification/Go_Mux.thy ===== *)
theory Go_Mux
  imports Go_Path Go_Url "HOL-Library.List_Lexorder" "HOL-Library.Char_ord"
begin

text \<open>
  The request multiplexer of \<open>net/http\<close> as the program uses it: patterns with a method, literal
  segments, wildcards and a trailing slash, the check for conflicts that makes a registration
  panic, the search for the handler of a request, redirects and the answers 404 and 405. No
  pattern of the program names a host. The tree of patterns is the list of the patterns that
  are left to match below a node.
\<close>

section \<open>Escapes\<close>

definition unhex :: "char \<Rightarrow> nat" where
  "unhex c = (let n = of_char c :: nat in if n \<le> 57 then n - 48 else if 97 \<le> n then n - 87 else n - 55)"

fun unescape :: "string \<Rightarrow> string option" where
  "unescape [] = Some []"
| "unescape (c # s) =
     (if c = CHR ''%'' then
        (case s of
           a # b # s' \<Rightarrow> if unhex_ok a \<and> unhex_ok b then map_option (Cons (char_of (16 * unhex a + unhex b))) (unescape s') else None
         | _ \<Rightarrow> None)
      else map_option (Cons c) (unescape s))"

definition pathUnescape :: "string \<Rightarrow> string" where
  "pathUnescape s = (case unescape s of None \<Rightarrow> s | Some u \<Rightarrow> u)"

section \<open>Patterns\<close>

text \<open>A trailing slash is a nameless \<open>Multi\<close>; \<open>{$}\<close> is the literal slash.\<close>

datatype segment = Seg string | Wild string | Multi string

record pattern =
  pt_method :: string
  pt_segments :: "segment list"

fun is_multi :: "segment \<Rightarrow> bool" where
  "is_multi (Multi n) = True"
| "is_multi s = False"

fun wild_names :: "segment list \<Rightarrow> string list" where
  "wild_names [] = []"
| "wild_names (Wild n # ss) = n # wild_names ss"
| "wild_names (Multi n # ss) = (if n = [] then wild_names ss else n # wild_names ss)"
| "wild_names (Seg s # ss) = wild_names ss"

definition isValidWildcardName :: "string \<Rightarrow> bool" where
  "isValidWildcardName s \<longleftrightarrow> s \<noteq> [] \<and> \<not> is_digit (hd s) \<and> list_all (\<lambda>c. is_letter c \<or> is_digit c \<or> c = CHR ''_'') s"

definition parse_segment :: "bool \<Rightarrow> string \<Rightarrow> segment option" where
  "parse_segment final s =
     (if CHR ''{'' \<notin> set s then Some (if s = [] \<and> final then Multi [] else Seg (pathUnescape s))
      else if hd s \<noteq> CHR ''{'' \<or> last s \<noteq> CHR ''}'' then None
      else
        (let name = butlast (tl s) in
         if name = ''$'' then (if final then Some (Seg ''/'') else None)
         else if HasSuffix name ''...'' then
           (if final \<and> isValidWildcardName (TrimSuffix name ''...'') then Some (Multi (TrimSuffix name ''...'')) else None)
         else if isValidWildcardName name then Some (Wild name) else None))"

fun parse_segments :: "string list \<Rightarrow> segment list option" where
  "parse_segments [] = Some []"
| "parse_segments (s # ss) =
     (case (parse_segment (ss = []) s, parse_segments ss) of
        (Some p, Some ps) \<Rightarrow> Some (p # ps)
      | _ \<Rightarrow> None)"

text \<open>A pattern without a method matches every method.\<close>

definition parsePattern :: "string \<Rightarrow> pattern option" where
  "parsePattern s =
     (let (method, rest) = (if CHR '' '' \<in> set s then cut (CHR '' '') s else ([], s)) in
      if \<not> HasPrefix rest ''/'' then None
      else (case parse_segments (split_on (CHR ''/'') (tl rest)) of
              None \<Rightarrow> None
            | Some ps \<Rightarrow> if distinct (wild_names ps) then Some \<lparr>pt_method = method, pt_segments = ps\<rparr> else None))"

section \<open>Conflicts\<close>

datatype relationship = Equivalent | MoreGeneral | MoreSpecific | Disjoint | Overlaps

fun inverseRelationship :: "relationship \<Rightarrow> relationship" where
  "inverseRelationship MoreGeneral = MoreSpecific"
| "inverseRelationship MoreSpecific = MoreGeneral"
| "inverseRelationship r = r"

fun combineRelationships :: "relationship \<Rightarrow> relationship \<Rightarrow> relationship" where
  "combineRelationships Equivalent r = r"
| "combineRelationships Disjoint r = Disjoint"
| "combineRelationships Overlaps r = (if r = Disjoint then Disjoint else Overlaps)"
| "combineRelationships r1 r2 =
     (if r2 = Equivalent then r1 else if r2 = inverseRelationship r1 then Overlaps else r2)"

fun compareSegments :: "segment \<Rightarrow> segment \<Rightarrow> relationship" where
  "compareSegments (Multi m) (Multi n) = Equivalent"
| "compareSegments (Multi m) s = MoreGeneral"
| "compareSegments s (Multi n) = MoreSpecific"
| "compareSegments (Wild m) (Wild n) = Equivalent"
| "compareSegments (Wild m) (Seg s) = (if s = ''/'' then Disjoint else MoreGeneral)"
| "compareSegments (Seg s) (Wild n) = (if s = ''/'' then Disjoint else MoreSpecific)"
| "compareSegments (Seg s) (Seg t) = (if s = t then Equivalent else Disjoint)"

fun compare_from :: "bool \<Rightarrow> bool \<Rightarrow> relationship \<Rightarrow> segment list \<Rightarrow> segment list \<Rightarrow> relationship" where
  "compare_from m1 m2 rel [] [] = rel"
| "compare_from m1 m2 rel [] ss2 = (if m1 then combineRelationships rel MoreGeneral else Disjoint)"
| "compare_from m1 m2 rel ss1 [] = (if m2 then combineRelationships rel MoreSpecific else Disjoint)"
| "compare_from m1 m2 rel (s1 # ss1) (s2 # ss2) =
     (let r = combineRelationships rel (compareSegments s1 s2) in
      if r = Disjoint then Disjoint else compare_from m1 m2 r ss1 ss2)"

definition comparePaths :: "pattern \<Rightarrow> pattern \<Rightarrow> relationship" where
  "comparePaths p1 p2 =
     (let ss1 = pt_segments p1; ss2 = pt_segments p2; m1 = is_multi (last ss1); m2 = is_multi (last ss2) in
      if length ss1 \<noteq> length ss2 \<and> \<not> m1 \<and> \<not> m2 then Disjoint
      else compare_from m1 m2 Equivalent ss1 ss2)"

definition compareMethods :: "pattern \<Rightarrow> pattern \<Rightarrow> relationship" where
  "compareMethods p1 p2 =
     (if pt_method p1 = pt_method p2 then Equivalent
      else if pt_method p1 = [] then MoreGeneral
      else if pt_method p2 = [] then MoreSpecific
      else if pt_method p1 = ''GET'' \<and> pt_method p2 = ''HEAD'' then MoreGeneral
      else if pt_method p2 = ''GET'' \<and> pt_method p1 = ''HEAD'' then MoreSpecific
      else Disjoint)"

definition conflictsWith :: "pattern \<Rightarrow> pattern \<Rightarrow> bool" where
  "conflictsWith p1 p2 \<longleftrightarrow> compareMethods p1 p2 \<noteq> Disjoint \<and>
     combineRelationships (compareMethods p1 p2) (comparePaths p1 p2) \<in> {Equivalent, Overlaps}"

text \<open>\<open>HandleFunc\<close> for a list of patterns; \<open>None\<close> is the panic of a bad or a conflicting pattern.\<close>

type_synonym 'h mux = "(pattern \<times> 'h) list"

fun register :: "(string \<times> 'h) list \<Rightarrow> 'h mux \<Rightarrow> 'h mux option" where
  "register [] m = Some m"
| "register ((s, h) # rs) m =
     (case parsePattern s of
        None \<Rightarrow> None
      | Some p \<Rightarrow> if list_ex (\<lambda>q. conflictsWith p (fst q)) m then None else register rs (m @ [(p, h)]))"

section \<open>Matching\<close>

definition firstSegment :: "string \<Rightarrow> string \<times> string" where
  "firstSegment path =
     (if path = ''/'' then (''/'', [])
      else (let p = drop 1 path in (pathUnescape (takeWhile (\<lambda>c. c \<noteq> CHR ''/'') p), dropWhile (\<lambda>c. c \<noteq> CHR ''/'') p)))"

text \<open>What is left of the patterns below the child for a literal, a wildcard and a multi wildcard.\<close>

fun lit_child :: "string \<Rightarrow> segment list \<times> 'a \<Rightarrow> (segment list \<times> 'a) list" where
  "lit_child s (Seg t # ps, a) = (if s = t then [(ps, a)] else [])"
| "lit_child s pa = []"

fun wild_child :: "segment list \<times> 'a \<Rightarrow> (segment list \<times> 'a) list" where
  "wild_child (Wild n # ps, a) = [(ps, a)]"
| "wild_child pa = []"

fun multi_child :: "segment list \<times> 'a \<Rightarrow> (string \<times> 'a) list" where
  "multi_child (Multi n # ps, a) = [(n, a)]"
| "multi_child pa = []"

fun leaf :: "segment list \<times> 'a \<Rightarrow> 'a list" where
  "leaf ([], a) = [a]"
| "leaf pa = []"

lemma firstSegment_shorter [simp]: "path \<noteq> [] \<Longrightarrow> length (snd (firstSegment path)) < length path"
  using length_dropWhile_le [of "\<lambda>c. c \<noteq> CHR ''/''" "drop 1 path"]
  by (cases path) (auto simp: firstSegment_def Let_def)

function matchPath :: "(segment list \<times> 'a) list \<Rightarrow> string \<Rightarrow> string list \<Rightarrow> ('a \<times> string list) option" where
  "matchPath ns path matches =
     (if path = [] then (case concat (map leaf ns) of [] \<Rightarrow> None | a # _ \<Rightarrow> Some (a, matches))
      else
        (let seg = fst (firstSegment path); rest = snd (firstSegment path) in
         case matchPath (if seg = [] then concat (map wild_child ns) else concat (map (lit_child seg) ns)) rest matches of
           Some r \<Rightarrow> Some r
         | None \<Rightarrow>
             (case (if seg \<noteq> ''/'' then matchPath (concat (map wild_child ns)) rest (matches @ [seg]) else None) of
                Some r \<Rightarrow> Some r
              | None \<Rightarrow>
                  (case concat (map multi_child ns) of
                     [] \<Rightarrow> None
                   | (n, a) # _ \<Rightarrow> Some (a, if n \<noteq> [] then matches @ [pathUnescape (drop 1 path)] else matches)))))"
  by auto
termination by (relation "measure (\<lambda>(ns, path, matches). length path)") simp_all

declare matchPath.simps [simp del]

definition entries_of :: "string \<Rightarrow> 'h mux \<Rightarrow> (segment list \<times> pattern \<times> 'h) list" where
  "entries_of method m = map (\<lambda>(p, h). (pt_segments p, p, h)) (filter (\<lambda>(p, h). pt_method p = method) m)"

definition tree_match :: "'h mux \<Rightarrow> string \<Rightarrow> string \<Rightarrow> ((pattern \<times> 'h) \<times> string list) option" where
  "tree_match m method path =
     (case (if method \<noteq> [] then matchPath (entries_of method m) path [] else None) of
        Some r \<Rightarrow> Some r
      | None \<Rightarrow>
          (case (if method = ''HEAD'' then matchPath (entries_of ''GET'' m) path [] else None) of
             Some r \<Rightarrow> Some r
           | None \<Rightarrow> matchPath (entries_of [] m) path []))"

definition exactMatch :: "((pattern \<times> 'h) \<times> string list) option \<Rightarrow> string \<Rightarrow> bool" where
  "exactMatch n path =
     (case n of
        None \<Rightarrow> False
      | Some ((p, h), ms) \<Rightarrow>
          if \<not> is_multi (last (pt_segments p)) then True
          else if path \<noteq> [] \<and> last path \<noteq> CHR ''/'' then False
          else length (pt_segments p) = count_list path (CHR ''/''))"

definition cleanPath :: "string \<Rightarrow> string" where
  "cleanPath p0 =
     (if p0 = [] then ''/''
      else
        (let p = (if hd p0 \<noteq> CHR ''/'' then CHR ''/'' # p0 else p0); np = Clean p in
         if last p = CHR ''/'' \<and> np \<noteq> ''/'' then np @ ''/'' else np))"

definition allowed_at :: "'h mux \<Rightarrow> string \<Rightarrow> string list" where
  "allowed_at m path =
     (let ms = filter (\<lambda>me. me \<noteq> [] \<and> matchPath (entries_of me m) path [] \<noteq> None) (remdups (map (\<lambda>q. pt_method (fst q)) m)) in
      ms @ (if ''GET'' \<in> set ms then [''HEAD''] else []))"

definition matchingMethods :: "'h mux \<Rightarrow> string \<Rightarrow> string list" where
  "matchingMethods m path =
     sort (remdups (allowed_at m path @ (if HasSuffix path ''/'' then [] else allowed_at m (path @ ''/''))))"

text \<open>
  The handler of a request with its path values, or the answer of the multiplexer. \<open>path\<close> is
  the path as it was sent; one with a bad escape never gets here.
\<close>

datatype 'h found = Handler 'h "(string \<times> string) list" | RedirectTo string | NotAllowed "string list" | NoHandler

definition path_values :: "pattern \<Rightarrow> string list \<Rightarrow> (string \<times> string) list" where
  "path_values p ms = zip (wild_names (pt_segments p)) ms"

definition findHandler :: "'h mux \<Rightarrow> string \<Rightarrow> string \<Rightarrow> 'h found" where
  "findHandler m method escapedPath =
     (let path = cleanPath escapedPath; n = tree_match m method path in
      if \<not> exactMatch n path \<and> \<not> HasSuffix path ''/'' \<and> exactMatch (tree_match m method (path @ ''/'')) (path @ ''/'')
      then RedirectTo (cleanPath (pathUnescape escapedPath) @ ''/'')
      else if path \<noteq> escapedPath then RedirectTo path
      else (case n of
              Some ((p, h), ms) \<Rightarrow> Handler h (path_values p ms)
            | None \<Rightarrow> if matchingMethods m path \<noteq> [] then NotAllowed (matchingMethods m path) else NoHandler))"

end
