(* ===== verification/Routes.thy ===== *)
theory Routes
  imports Go_Mux Ui
begin

text \<open>
  The HTTP surface of the orchestrator: the routes that \<open>api.Server\<close>, \<open>metrics.Registry\<close> and
  \<open>ui.Handler\<close> mount on one multiplexer, and what a request does to the server.
\<close>

section \<open>The routes\<close>

datatype handler =
    H_health | H_register | H_heartbeat | H_poll | H_scans | H_events | H_result | H_metrics
  | H_root | H_overview | H_packages | H_package | H_runs | H_run | H_lineage | H_deviations | H_deviation | H_event
  | H_pending | H_allowlist | H_notifiers | H_config | H_static

definition Server_Mount :: "(string \<times> handler) list" where
  "Server_Mount =
     [(''GET /v1/health'', H_health),
      (''POST /v1/runners/register'', H_register),
      (''POST /v1/runners/{id}/heartbeat'', H_heartbeat),
      (''GET /v1/runners/{id}/jobs'', H_poll),
      (''POST /v1/scans'', H_scans),
      (''POST /v1/runs/{run_id}/events'', H_events),
      (''POST /v1/runs/{run_id}/result'', H_result)]"

definition Registry_Mount :: "(string \<times> handler) list" where
  "Registry_Mount = [(''GET /metrics'', H_metrics)]"

definition Handler_Mount :: "(string \<times> handler) list" where
  "Handler_Mount =
     [(''GET /'', H_root),
      (''GET /ui/'', H_overview),
      (''GET /ui/packages'', H_packages),
      (''GET /ui/packages/{name}'', H_package),
      (''GET /ui/runs'', H_runs),
      (''GET /ui/runs/{id}'', H_run),
      (''GET /ui/runs/{id}/lineage'', H_lineage),
      (''GET /ui/deviations'', H_deviations),
      (''GET /ui/deviations/{id}'', H_deviation),
      (''GET /ui/events/{id}'', H_event),
      (''GET /ui/pending'', H_pending),
      (''GET /ui/allowlist'', H_allowlist),
      (''GET /ui/notifiers'', H_notifiers),
      (''GET /ui/config'', H_config),
      (''GET /static/'', H_static)]"

text \<open>The multiplexer of \<open>main\<close>; \<open>None\<close> is a panic.\<close>

definition mount_all :: "bool \<Rightarrow> bool \<Rightarrow> handler mux option" where
  "mount_all withMetrics withUI =
     register (Server_Mount @ (if withMetrics then Registry_Mount else []) @ (if withUI then Handler_Mount else [])) []"

section \<open>Requests\<close>

text \<open>
  A request: method, escaped path, the first values of the query parameters, and the body as
  the decoder of each handler reads it. \<open>wq_arrivals\<close> are the jobs that are queued while a poll
  waits.
\<close>

record wire_request =
  wq_method :: string
  wq_path :: string
  wq_query :: "string \<Rightarrow> string"
  wq_registration :: "string + RunnerRegistration"
  wq_heartbeat :: "(string + Heartbeat) option"
  wq_scan :: "string + string \<times> Job"
  wq_events :: "EventBatch list \<times> string option"
  wq_result :: "string + WireScanResult"
  wq_arrivals :: "(string \<times> Job) list"

text \<open>
  What a handler reads besides: the clock, the orders in which maps are ranged over, files; the
  configuration of the UI; the answers of the file server for embedded assets.
\<close>

record surroundings =
  sr_now :: time
  sr_event_clock :: "nat \<Rightarrow> time"
  sr_counts :: "(string \<times> int) list \<Rightarrow> (string \<times> int) list"
  sr_rows :: "pendingRow list \<Rightarrow> pendingRow list"
  sr_names :: "string list \<Rightarrow> string list"
  sr_runners :: "(string \<times> registeredRunner) list \<Rightarrow> (string \<times> registeredRunner) list"
  sr_ReadFile :: "string \<Rightarrow> file_read"
  sr_effectivePaths :: "WatchedPath list"
  sr_configPath :: string
  sr_asset :: "string \<Rightarrow> int \<times> string"

datatype page_shown =
    P_root "string + unit page"
  | P_overview "overviewView page"
  | P_packages "(PackageSummary list \<times> string list) page"
  | P_package "packageDetail page"
  | P_runs "runsView page"
  | P_run "runDetail page"
  | P_lineage "lineageView page"
  | P_deviations "(DeviationRow list \<times> DeviationFilter) page"
  | P_deviation "deviationDetail page"
  | P_event "(EventRow \<times> json option) page"
  | P_pending "pendingRow list page"
  | P_allowlist "allowlistView page"
  | P_notifiers "NotifierRow list page"
  | P_config "configView page"
  | P_asset "int \<times> string"
  | P_metrics "Registry option"

datatype http_answer =
    Answer response
  | Page page_shown
  | Redirected string
  | MethodNotAllowed "string list"
  | NotFound

text \<open>A page reads the store; pages are mounted only when there is one.\<close>

definition show_page :: "('v \<Rightarrow> page_shown) \<Rightarrow> ('db Backend \<Rightarrow> 'db \<Rightarrow> 'v \<times> 'db) \<Rightarrow> 'db Server \<Rightarrow> http_answer \<times> 'db Server" where
  "show_page c f s =
     (case sv_store s of
        None \<Rightarrow> (NotFound, s)
      | Some be \<Rightarrow> (let (p, db) = f be (sv_db s) in (Page (c p), s\<lparr>sv_db := db\<rparr>)))"

definition answer_api :: "response \<times> 'db Server \<Rightarrow> http_answer \<times> 'db Server" where
  "answer_api r = (Answer (fst r), snd r)"

definition path_value :: "(string \<times> string) list \<Rightarrow> string \<Rightarrow> string" where
  "path_value vs n = (case map_of vs n of None \<Rightarrow> [] | Some v \<Rightarrow> v)"

definition event_target :: "string \<Rightarrow> int" where
  "event_target t = (if t \<noteq> [] then (case Atoi t of Some n \<Rightarrow> n | None \<Rightarrow> 0) else 0)"

fun handle :: "surroundings \<Rightarrow> wire_request \<Rightarrow> (string \<times> string) list \<Rightarrow> handler \<Rightarrow> 'db Server \<Rightarrow> http_answer \<times> 'db Server" where
  "handle e q vs H_health s = answer_api (handleHealth s)"
| "handle e q vs H_register s = answer_api (handleRegister (sr_now e) (wq_registration q) s)"
| "handle e q vs H_heartbeat s = answer_api (handleHeartbeat (sr_now e) (path_value vs ''id'') (wq_heartbeat q) s)"
| "handle e q vs H_poll s = answer_api (handlePollJob (wq_arrivals q) (path_value vs ''id'') s)"
| "handle e q vs H_scans s = answer_api (handleQueueScan (sr_now e) (wq_scan q) s)"
| "handle e q vs H_events s =
     answer_api (handleEvents (sr_event_clock e) (sr_now e) (path_value vs ''run_id'') (fst (wq_events q)) (snd (wq_events q)) s)"
| "handle e q vs H_result s = answer_api (handleScanResult (sr_now e) (path_value vs ''run_id'') (wq_result q) s)"
| "handle e q vs H_metrics s = (Page (P_metrics (sv_metrics s)), s)"
| "handle e q vs H_root s = (Page (P_root (handleRoot (pathUnescape (wq_path q)))), s)"
| "handle e q vs H_overview s =
     show_page P_overview (\<lambda>be. handleOverview (sr_now e) (RegisteredRunnersDetail (sr_runners e) s) be (pathUnescape (wq_path q))) s"
| "handle e q vs H_packages s = show_page P_packages handlePackages s"
| "handle e q vs H_package s = show_page P_package (\<lambda>be. handlePackageDetail be (path_value vs ''name'')) s"
| "handle e q vs H_runs s = show_page P_runs (\<lambda>be. handleRuns be (wq_query q ''package'') (wq_query q ''limit'')) s"
| "handle e q vs H_run s = show_page P_run (\<lambda>be. handleRunDetail (sr_counts e) be (path_value vs ''id'') (wq_query q ''type'')) s"
| "handle e q vs H_lineage s =
     show_page P_lineage (\<lambda>be. handleLineage be (path_value vs ''id'') (event_target (wq_query q ''event'')) (wq_query q ''type'')) s"
| "handle e q vs H_deviations s =
     show_page P_deviations (\<lambda>be. handleDeviations be (wq_query q ''package'') (wq_query q ''severity'') (wq_query q ''run'')
       (wq_query q ''limit'')) s"
| "handle e q vs H_deviation s = show_page P_deviation (\<lambda>be. handleDeviationDetail be (path_value vs ''id'')) s"
| "handle e q vs H_event s = show_page P_event (\<lambda>be. handleEventDetail be (path_value vs ''id'')) s"
| "handle e q vs H_pending s = show_page P_pending (handlePending (sr_rows e)) s"
| "handle e q vs H_allowlist s = show_page P_allowlist (\<lambda>be. handleAllowlist (sr_names e) be (wq_query q ''package'')) s"
| "handle e q vs H_notifiers s = show_page P_notifiers handleNotifiers s"
| "handle e q vs H_config s = show_page P_config (handleConfig (sr_ReadFile e) (sr_effectivePaths e) (sr_configPath e)) s"
| "handle e q vs H_static s = (Page (P_asset (sr_asset e (drop (length ''/static/'') (pathUnescape (wq_path q))))), s)"

definition ServeHTTP :: "handler mux \<Rightarrow> surroundings \<Rightarrow> wire_request \<Rightarrow> 'db Server \<Rightarrow> http_answer \<times> 'db Server" where
  "ServeHTTP m e q s =
     (case findHandler m (wq_method q) (wq_path q) of
        Handler h vs \<Rightarrow> handle e q vs h s
      | RedirectTo u \<Rightarrow> (Redirected u, s)
      | NotAllowed ms \<Rightarrow> (MethodNotAllowed ms, s)
      | NoHandler \<Rightarrow> (NotFound, s))"

end
