(* ===== verification/Ui_Templates.thy ===== *)
theory Ui_Templates
  imports Routes Sqlite
begin

text \<open>
  \<open>ui/ui.go\<close>: the construction of the page handler from the embedded templates, and \<open>render\<close>.
  Parsing and executing a template is the library's and a parameter.
\<close>

text \<open>A page is named after its file; the layout is none.\<close>

definition page_name :: "string \<Rightarrow> string" where
  "page_name name =
     (let i = int (length name) - int (length ''.html'') in
      if i > 0 \<and> drop (nat i) name = ''.html'' then take (nat i) name else name)"

fun parse_pages :: "(string \<Rightarrow> string list \<Rightarrow> err + 't) \<Rightarrow> (string \<times> bool) list \<Rightarrow> (string \<times> 't) list \<Rightarrow> err + (string \<times> 't) list" where
  "parse_pages parse [] pages = Inr pages"
| "parse_pages parse ((name, isDir) # es) pages =
     (if isDir \<or> name = ''layout.html'' then parse_pages parse es pages
      else (case parse (page_name name) [''templates/layout.html'', ''templates/'' @ name] of
              Inl e \<Rightarrow> Inl (Wrap (''parse '' @ name) e)
            | Inr t \<Rightarrow> parse_pages parse es (AList.update (page_name name) t pages)))"

definition parsePages :: "(string \<Rightarrow> string list \<Rightarrow> err + 't) \<Rightarrow> err + (string \<times> bool) list \<Rightarrow> err + (string \<times> 't) list" where
  "parsePages parse entries = (case entries of Inl e \<Rightarrow> Inl e | Inr es \<Rightarrow> parse_pages parse es [])"

text \<open>\<open>New\<close>: the store is required, the templates must parse, the assets must be there.\<close>

record ('db, 't) Handler =
  hd_store :: "'db Backend"
  hd_version :: string
  hd_effectivePaths :: "WatchedPath list"
  hd_configPath :: string
  hd_pages :: "(string \<times> 't) list"

definition new_Handler ::
  "'db Backend option \<Rightarrow> string \<Rightarrow> WatchedPath list \<Rightarrow> string \<Rightarrow> (string \<Rightarrow> string list \<Rightarrow> err + 't) \<Rightarrow> err + (string \<times> bool) list \<Rightarrow> err option
    \<Rightarrow> err + ('db, 't) Handler" where
  "new_Handler store version paths configPath parse entries static =
     (case store of
        None \<Rightarrow> Inl (Msg ''ui: Store is required'')
      | Some be \<Rightarrow>
          (case parsePages parse entries of
             Inl e \<Rightarrow> Inl (Wrap ''ui: parse templates'' e)
           | Inr pages \<Rightarrow>
               (case static of
                  Some e \<Rightarrow> Inl (Wrap ''ui: sub static'' e)
                | None \<Rightarrow> Inr \<lparr>hd_store = be, hd_version = version, hd_effectivePaths = paths, hd_configPath = configPath,
                               hd_pages = pages\<rparr>)))"

text \<open>What \<open>render\<close> does: a missing template and a failing one are answered with status 500.\<close>

datatype 'v datum = Datum 'v | Text string | Instant time
datatype 'v rendering = TemplateNotFound | TemplateError err | Executed "(string \<times> 'v datum) list"

definition render ::
  "('t \<Rightarrow> (string \<times> 'v datum) list \<Rightarrow> err option) \<Rightarrow> time \<Rightarrow> ('db, 't) Handler \<Rightarrow> string \<Rightarrow> (string \<times> 'v datum) list \<Rightarrow> 'v rendering" where
  "render execute now h page data =
     (case map_of (hd_pages h) page of
        None \<Rightarrow> TemplateNotFound
      | Some tpl \<Rightarrow>
          (let d = AList.update ''Now'' (Instant now) (AList.update ''Version'' (Text (hd_version h)) (AList.update ''Page'' (Text page) data)) in
           case execute tpl d of None \<Rightarrow> Executed d | Some e \<Rightarrow> TemplateError e))"

section \<open>Every page has its template\<close>

text \<open>The page each handler renders.\<close>

fun page_of :: "handler \<Rightarrow> string option" where
  "page_of H_overview = Some ''overview''"
| "page_of H_packages = Some ''packages''"
| "page_of H_package = Some ''package_detail''"
| "page_of H_runs = Some ''runs''"
| "page_of H_run = Some ''run_detail''"
| "page_of H_lineage = Some ''lineage''"
| "page_of H_deviations = Some ''deviations''"
| "page_of H_deviation = Some ''deviation_detail''"
| "page_of H_event = Some ''event_detail''"
| "page_of H_pending = Some ''pending''"
| "page_of H_allowlist = Some ''allowlist''"
| "page_of H_notifiers = Some ''notifiers''"
| "page_of H_config = Some ''config''"
| "page_of h = None"

text \<open>The files of \<open>ui/templates\<close>.\<close>

definition embedded_templates :: "(string \<times> bool) list" where
  "embedded_templates = map (\<lambda>n. (n, False))
     [''allowlist.html'', ''config.html'', ''deviation_detail.html'', ''deviations.html'', ''event_detail.html'', ''layout.html'',
      ''lineage.html'', ''notifiers.html'', ''overview.html'', ''package_detail.html'', ''packages.html'', ''pending.html'',
      ''run_detail.html'', ''runs.html'']"

lemma parse_pages_keys:
  "parse_pages parse es pages = Inr ps \<Longrightarrow>
   fst ` set ps = fst ` set pages \<union> set (map (\<lambda>e. page_name (fst e)) (filter (\<lambda>e. \<not> snd e \<and> fst e \<noteq> ''layout.html'') es))"
proof (induction es arbitrary: pages)
  case (Cons e es)
  obtain name isDir where e: "e = (name, isDir)" by (cases e)
  show ?case
  proof (cases "isDir \<or> name = ''layout.html''")
    case True
    then show ?thesis using Cons e by auto
  next
    case False
    then obtain t where t: "parse_pages parse es (AList.update (page_name name) t pages) = Inr ps"
      using Cons.prems e by (auto split: sum.splits)
    show ?thesis using Cons.IH [OF t] False e by (auto simp: dom_update)
  qed
qed simp

text \<open>
  Whatever the parser makes of the templates: once the page handler is constructed, no page
  fails for want of its template.
\<close>

theorem templates_found:
  assumes "new_Handler store version paths configPath parse (Inr embedded_templates) static = Inr h" "page_of r = Some page"
  shows "render execute now h page data \<noteq> TemplateNotFound"
proof -
  from assms(1) obtain ps where ps: "parse_pages parse embedded_templates [] = Inr ps" "hd_pages h = ps"
    by (auto simp: new_Handler_def parsePages_def split: option.splits sum.splits)
  have "map (\<lambda>e. page_name (fst e)) (filter (\<lambda>e. \<not> snd e \<and> fst e \<noteq> ''layout.html'') embedded_templates) =
      [''allowlist'', ''config'', ''deviation_detail'', ''deviations'', ''event_detail'', ''lineage'', ''notifiers'', ''overview'',
       ''package_detail'', ''packages'', ''pending'', ''run_detail'', ''runs'']"
    by code_simp
  note names = parse_pages_keys [OF ps(1), unfolded this]
  have "page \<in> fst ` set ps"
    using assms(2) unfolding names by (cases r) auto
  then obtain t where "map_of ps page = Some t" by (metis map_of_eq_None_iff not_None_eq)
  then show ?thesis using ps(2) by (simp add: render_def Let_def split: option.split)
qed

lemma parse_pages_total:
  assumes "\<And>p fs. \<exists>x. parse p fs = Inr x"
  shows "\<exists>ps. parse_pages parse es ps0 = Inr ps"
  using assms by (induction es arbitrary: ps0) (auto split: sum.split, metis sum.distinct(1))

theorem templates_found_witness:
  "\<exists>h :: (sqlite, string) Handler. new_Handler (Some sqlite_Backend) [] [] [] (\<lambda>p fs. Inr p) (Inr embedded_templates) None = Inr h \<and>
     render (\<lambda>t d. None) 0 h ''pending'' ([] :: (string \<times> unit datum) list) \<noteq> TemplateNotFound"
proof -
  obtain ps :: "(string \<times> string) list" where "parse_pages (\<lambda>p fs. Inr p) embedded_templates [] = Inr ps"
    using parse_pages_total [of "\<lambda>p fs. Inr p" embedded_templates "[]"] by auto
  then obtain h :: "(sqlite, string) Handler" where
      h: "new_Handler (Some sqlite_Backend) [] [] [] (\<lambda>p fs. Inr p) (Inr embedded_templates) None = Inr h"
    by (simp add: new_Handler_def parsePages_def)
  show ?thesis
    using templates_found [OF h, of H_pending "''pending''"] h by auto
qed

end
