(* ===== verification/Orchestrator.thy ===== *)
theory Orchestrator
  imports Ui_Templates Notifier Watcher Config
begin

text \<open>
  \<open>cmd/fangs-orchestrator/main.go\<close> and the transport of \<open>api.ServeWith\<close>: the flags, the opening
  of the storage, the start-up in its order with every way to exit, and what is started. What
  the process reads of the host is a record of parameters.
\<close>

section \<open>Flags\<close>

definition main_flags :: "(string \<times> flag_kind) list" where
  "main_flags =
     [(''addr'', StringFlag), (''id'', StringFlag), (''storage'', StringFlag), (''sqlite-path'', StringFlag), (''postgres-dsn'', StringFlag),
      (''watch-interval'', DurationFlag), (''watch'', BoolFlag), (''ui'', BoolFlag), (''notifiers-file'', StringFlag),
      (''retention-days'', IntFlag), (''retention-interval'', DurationFlag), (''tls-cert'', StringFlag), (''tls-key'', StringFlag),
      (''tls-client-ca'', StringFlag), (''metrics'', BoolFlag), (''config'', StringFlag)]"

section \<open>The storage\<close>

text \<open>
  Opening a database may fail, and so may its migration; \<open>og_mkdir\<close> makes the directory.
\<close>

record 'db storage_opener =
  og_mkdir :: "string \<Rightarrow> err option"
  og_sqlite :: "string \<Rightarrow> err + 'db Backend"
  og_sqlite_migrate :: "string \<Rightarrow> err option"
  og_postgres :: "string \<Rightarrow> err + 'db Backend"
  og_postgres_migrate :: "string \<Rightarrow> err option"
  og_getenv :: "string \<Rightarrow> string"

definition open_migrated :: "string \<Rightarrow> err + 'db Backend \<Rightarrow> err option \<Rightarrow> err + 'db Backend option" where
  "open_migrated what opened migrated =
     (case opened of
        Inl e \<Rightarrow> Inl e
      | Inr be \<Rightarrow> (case migrated of Some e \<Rightarrow> Inl (Wrap what e) | None \<Rightarrow> Inr (Some be)))"

definition openStorage :: "'db storage_opener \<Rightarrow> string \<Rightarrow> string \<Rightarrow> string \<Rightarrow> err + 'db Backend option" where
  "openStorage og kind sqlitePath pgDSN =
     (if kind = ''none'' then Inr None
      else if kind = ''sqlite'' then
        (case og_mkdir og (Dir sqlitePath) of
           Some e \<Rightarrow> Inl (Wrap ''create sqlite dir'' e)
         | None \<Rightarrow> open_migrated ''sqlite migrate'' (og_sqlite og sqlitePath) (og_sqlite_migrate og sqlitePath))
      else if kind = ''postgres'' then
        (let dsn = (if pgDSN = [] then og_getenv og ''FANGS_PG_DSN'' else pgDSN) in
         if dsn = [] then Inl (Msg ''postgres backend requires -postgres-dsn or $FANGS_PG_DSN'')
         else open_migrated ''postgres migrate'' (og_postgres og dsn) (og_postgres_migrate og dsn))
      else Inl (Msg (''unknown -storage backend '' @ Quote kind @ '' (sqlite|postgres|none)'')))"

section \<open>The transport\<close>

record tls_config =
  tc_MinVersion :: nat
  tc_ClientCAs :: "string option"
  tc_RequireClientCert :: bool

text \<open>\<open>usable\<close> tells whether a PEM text holds a certificate.\<close>

definition buildServerTLSConfig :: "(string \<Rightarrow> err + string) \<Rightarrow> (string \<Rightarrow> bool) \<Rightarrow> string \<Rightarrow> err + tls_config" where
  "buildServerTLSConfig ReadFile usable clientCAFile =
     (let cfg = \<lparr>tc_MinVersion = 0x0303, tc_ClientCAs = None, tc_RequireClientCert = False\<rparr> in
      if clientCAFile = [] then Inr cfg
      else (case ReadFile clientCAFile of
              Inl e \<Rightarrow> Inl (Wrap (''read client CA '' @ Quote clientCAFile) e)
            | Inr caPEM \<Rightarrow>
                if \<not> usable caPEM then Inl (Msg (''client CA '' @ Quote clientCAFile @ '' contained no usable certs''))
                else Inr (cfg\<lparr>tc_ClientCAs := Some caPEM, tc_RequireClientCert := True\<rparr>)))"

datatype listening = ListenAndServe string | ListenAndServeTLS string tls_config string string

definition serve_transport ::
  "(string \<Rightarrow> err + string) \<Rightarrow> (string \<Rightarrow> bool) \<Rightarrow> string \<Rightarrow> string \<Rightarrow> string \<Rightarrow> string \<Rightarrow> err + listening" where
  "serve_transport ReadFile usable addr cert key clientCA =
     (if cert \<noteq> [] \<and> key \<noteq> [] then
        (case buildServerTLSConfig ReadFile usable clientCA of
           Inl e \<Rightarrow> Inl (Wrap ''tls config'' e)
         | Inr cfg \<Rightarrow> Inr (ListenAndServeTLS addr cfg cert key))
      else Inr (ListenAndServe addr))"

text \<open>How serving ends: the context is done and the server shut down, or the listener returned.\<close>

datatype serve_end = ContextDone "err option" | ListenerReturned err

definition ErrServerClosed :: err where
  "ErrServerClosed = Msg ''http: Server closed''"

definition serve_result :: "serve_end \<Rightarrow> err option" where
  "serve_result e =
     (case e of
        ContextDone None \<Rightarrow> None
      | ContextDone (Some x) \<Rightarrow> Some (Wrap ''http shutdown'' x)
      | ListenerReturned x \<Rightarrow> if errors_Is x ErrServerClosed then None else Some x)"

section \<open>Start-up\<close>

record ('db, 't) machine =
  mc_opening :: "'db storage_opener"
  mc_config :: "string \<Rightarrow> config_file"
  mc_yaml :: "string \<Rightarrow> err + Config"
  mc_sha256 :: "byte list \<Rightarrow> byte list"
  mc_outside :: outside
  mc_file :: "string \<Rightarrow> err + string"
  mc_usable :: "string \<Rightarrow> bool"
  mc_registry :: registry_net
  mc_clock :: "nat \<Rightarrow> time"
  mc_template :: "string \<Rightarrow> string list \<Rightarrow> err + 't"
  mc_version :: string

text \<open>
  What runs once the orchestrator is up: the server behind its routes, the notifier, the
  watcher's interval, the retention and its interval, and the listener.
\<close>

record ('db, 't) orchestrator =
  oc_server :: "'db Server"
  oc_notifier :: "'db Notifier option"
  oc_watch :: "duration option"
  oc_retention :: "(int \<times> duration) option"
  oc_pages :: "('db, 't) Handler option"
  oc_mux :: "handler mux"
  oc_listening :: listening

datatype ('db, 't) boot = Exit int | Panic | Running "('db, 't) orchestrator"

definition default_paths :: "Config \<Rightarrow> WatchedPath list" where
  "default_paths cfg = (let ps = WatchedPathsAsProto (Some cfg) in if ps = [] then DefaultWatchedPaths else ps)"

text \<open>The targets file, if there is one; \<open>None\<close> goes on.\<close>

definition load_targets ::
  "('db, 't) machine \<Rightarrow> 'db Backend option \<Rightarrow> string \<Rightarrow> 'db \<Rightarrow> ('db, 't) boot option \<times> 'db" where
  "load_targets mc store notifiersFile db =
     (case store of
        Some be \<Rightarrow>
          if notifiersFile = [] then (None, db)
          else (case LoadFromFile be (mc_outside mc) (mc_clock mc) notifiersFile (mc_file mc notifiersFile) db of
                  (None, db') \<Rightarrow> (Some Panic, db')
                | (Some (n, Some e), db') \<Rightarrow> (Some (Exit 1), db')
                | (Some (n, None), db') \<Rightarrow> (None, db'))
      | None \<Rightarrow> (None, db))"

text \<open>
  The server, the routes and the listener, over the database as the earlier steps left it. The
  watcher and the pruner are started just before the listener; when that fails the process
  exits under them.
\<close>

definition wire_up ::
  "('db, 't) machine \<Rightarrow> settings \<Rightarrow> Config \<Rightarrow> 'db Backend option \<Rightarrow> 'db \<Rightarrow> ('db, 't) boot" where
  "wire_up mc st cfg store db =
     (let srv = new_Server \<lparr>op_OrchestratorID = flag_string st ''id'' ''fangs-orchestrator'', op_Version = mc_version mc, op_Dispatcher = None,
            op_Storage = store, op_Notifier = (store \<noteq> None), op_DefaultWatchedPaths = default_paths cfg\<rparr> db;
          withMetrics = flag_bool st ''metrics'' True;
          srv' = (if withMetrics then SetMetrics (Some new_Registry) srv else srv);
          days = flag_int st ''retention-days'' 90;
          withUI = (flag_bool st ''ui'' True \<and> store \<noteq> None);
          pages = (if withUI then map_sum id Some (new_Handler store (mc_version mc) (default_paths cfg)
                     (flag_string st ''config'' ''config/orchestrator.yaml'') (mc_template mc) (Inr embedded_templates) None)
                   else Inr None)
      in case pages of
           Inl e \<Rightarrow> Exit 1
         | Inr h \<Rightarrow>
             (case mount_all withMetrics withUI of
                None \<Rightarrow> Panic
              | Some m \<Rightarrow>
                  (case serve_transport (mc_file mc) (mc_usable mc) (flag_string st ''addr'' ''127.0.0.1:8443'')
                          (flag_string st ''tls-cert'' []) (flag_string st ''tls-key'' []) (flag_string st ''tls-client-ca'' []) of
                     Inl e \<Rightarrow> Exit 1
                   | Inr l \<Rightarrow>
                       Running \<lparr>oc_server = srv',
                         oc_notifier = map_option (\<lambda>be. new_Notifier \<lparr>np_Store = be, np_HTTPTimeout = 0, np_MaxAttempts = 0, np_BaseDelay = 0\<rparr>) store,
                         oc_watch = (if flag_bool st ''watch'' True \<and> store \<noteq> None
                                     then Some (flag_duration st ''watch-interval'' (300 * second)) else None),
                         oc_retention = (if store \<noteq> None \<and> days > 0
                                         then Some (days, flag_duration st ''retention-interval'' (24 * 3600 * second)) else None),
                         oc_pages = h, oc_mux = m, oc_listening = l\<rparr>)))"

definition orchestrator_main :: "('db, 't) machine \<Rightarrow> string list \<Rightarrow> 'db \<Rightarrow> ('db, 't) boot \<times> 'db" where
  "orchestrator_main mc args db =
     (case Parse main_flags args of
        Inl e \<Rightarrow> (Exit (if errors_Is e ErrHelp then 0 else 2), db)
      | Inr (st, rest) \<Rightarrow>
          (let configPath = flag_string st ''config'' ''config/orchestrator.yaml'' in
           case Load (mc_yaml mc) configPath (mc_config mc configPath) of
             Inl e \<Rightarrow> (Exit 1, db)
           | Inr cfg \<Rightarrow>
               (case openStorage (mc_opening mc) (flag_string st ''storage'' ''sqlite'')
                       (flag_string st ''sqlite-path'' ''var/lib/fangs/fangs.db'') (flag_string st ''postgres-dsn'' []) of
                  Inl e \<Rightarrow> (Exit 1, db)
                | Inr store \<Rightarrow>
                    (let db1 = ApplyAllowlist (mc_sha256 mc) (mc_clock mc 0) (Some cfg) store db in
                     case load_targets mc store (flag_string st ''notifiers-file'' []) db1 of
                       (Some stop, db2) \<Rightarrow> (stop, db2)
                     | (None, db2) \<Rightarrow> (wire_up mc st cfg store db2, db2)))))"

text \<open>The watcher of the orchestrator: the public registry, and submissions to its own server.\<close>

definition main_watcher ::
  "registry_net \<Rightarrow> (string list \<Rightarrow> string list) \<Rightarrow> time \<Rightarrow> 'db Backend \<Rightarrow> duration \<Rightarrow> ('db, 'db Server) Watcher" where
  "main_watcher net ord now be interval = new_Watcher be (NewNPMRegistry net) (submit_release ord now) interval"

section \<open>Who is let in\<close>

fun client_cert_required :: "listening \<Rightarrow> bool" where
  "client_cert_required (ListenAndServe addr) = False"
| "client_cert_required (ListenAndServeTLS addr cfg cert key) = (tc_RequireClientCert cfg \<and> tc_ClientCAs cfg \<noteq> None)"

text \<open>
  Clients must show a certificate exactly if all three files are given, and then of a readable
  bundle with a certificate in it. With a bundle of client CAs but without the server's own
  certificate or key the orchestrator serves everyone over plain HTTP.
\<close>

theorem mutual_tls:
  assumes "serve_transport rf usable addr cert key ca = Inr l"
  shows "(client_cert_required l \<longleftrightarrow> cert \<noteq> [] \<and> key \<noteq> [] \<and> ca \<noteq> []) \<and> (cert = [] \<or> key = [] \<longrightarrow> l = ListenAndServe addr)"
  using assms by (auto simp: serve_transport_def buildServerTLSConfig_def Let_def split: if_splits sum.splits)

end
