(* ===== verification/Server_Keeps.thy ===== *)
theory Server_Keeps
  imports Storage_Keeps Routes Notifier Watcher Config
begin

text \<open>
  The parts of the orchestrator change a database by operations of its backend only. In the
  locales of \<open>Storage_Keeps\<close>: a property that the reading operations keep is kept by every page,
  one that all operations keep by every handler, analysis, poll, pruning and delivery.
\<close>

section \<open>Pages\<close>

context backend_reads
begin

lemma listed_keeps: "I (snd r) \<Longrightarrow> I (snd (listed r))"
  by (cases r; cases "fst r") (auto simp: listed_def)

lemmas page_keeps = reads_keep listed_keeps

lemma find_run_keeps: "I db \<Longrightarrow> I (snd (find_run be i db))"
  by (auto simp: find_run_def Let_def case_prod_beta page_keeps split: sum.split)

lemma find_deviation_keeps: "I db \<Longrightarrow> I (snd (find_deviation be i db))"
  by (auto simp: find_deviation_def Let_def case_prod_beta page_keeps)

lemma group_pending_keeps: "I db \<Longrightarrow> I (snd (group_pending be ds rows db))"
proof (induction ds arbitrary: rows db)
  case (Cons d ds)
  have "I (snd (be_GetRun be (dv_RunID d) db))" using Cons.prems by (rule reads_keep)
  then show ?case
    using Cons by (auto split: option.split prod.split sum.split)
qed simp

lemma list_pages_keep:
  assumes "I db"
  shows "I (snd (handleRuns be pkg limit db))" "I (snd (handleDeviations be pkg sev runID limit db))"
    "I (snd (handlePackages be db))" "I (snd (handlePackageDetail be name db))" "I (snd (handleNotifiers be db))"
    "I (snd (handleAllowlist ord be pkg db))" "I (snd (handleConfig rf ps cp be db))" "I (snd (handlePending ord' be db))"
  using assms
  by (simp_all add: handleRuns_def handleDeviations_def handlePackages_def handlePackageDetail_def handleNotifiers_def
      handleAllowlist_def handleConfig_def handlePending_def Let_def case_prod_beta page_keeps group_pending_keeps)

lemma overview_keeps: "I db \<Longrightarrow> I (snd (handleOverview now rs be path db))"
proof -
  assume a: "I db"
  have "I (snd (case r of (Inl e, d) \<Rightarrow> (0, d) | (Inr n, d) \<Rightarrow> (n, d)))" if "I (snd r)" for r :: "(err + int) \<times> 'db"
    using that by (cases r; cases "fst r") auto
  with a show ?thesis by (simp add: handleOverview_def Let_def case_prod_beta page_keeps)
qed

lemma option_call_keeps:
  "I (snd r) \<Longrightarrow> I (snd (case r of (Inl e, d) \<Rightarrow> (None, d) | (Inr x, d) \<Rightarrow> (Some x, d)))"
  by (cases r; cases "fst r") auto

lemma detail_pages_keep:
  assumes "I db"
  shows "I (snd (handleRunDetail ord be i ty db))" "I (snd (handleLineage be i target ty db))"
    "I (snd (handleDeviationDetail be i db))" "I (snd (handleEventDetail be i db))"
proof -
  show "I (snd (handleRunDetail ord be i ty db))"
    using assms by (simp add: handleRunDetail_def Let_def case_prod_beta page_keeps find_run_keeps split: page.split)
  show "I (snd (handleLineage be i target ty db))"
    using assms by (simp add: handleLineage_def Let_def case_prod_beta page_keeps find_run_keeps split: page.split)
  show "I (snd (handleDeviationDetail be i db))"
    using assms by (simp add: handleDeviationDetail_def Let_def case_prod_beta page_keeps option_call_keeps [unfolded case_prod_beta]
        find_deviation_keeps split: page.split)
  show "I (snd (handleEventDetail be i db))"
    using assms GetEvent_keeps [OF assms]
    by (auto simp: handleEventDetail_def split: sum.split prod.split) (metis snd_conv)+
qed

lemmas pages_keep = list_pages_keep overview_keeps detail_pages_keep

lemma show_page_keeps:
  assumes "\<And>db. I db \<Longrightarrow> I (snd (f be db))" "sv_store s = Some be" "I (sv_db s)"
  shows "\<exists>a d. show_page c f s = (a, s\<lparr>sv_db := d\<rparr>) \<and> I d"
  using assms by (auto simp: show_page_def case_prod_beta)

end

section \<open>Everything else\<close>

definition server_keeps :: "'db Backend \<Rightarrow> ('db \<Rightarrow> bool) \<Rightarrow> 'db Server \<Rightarrow> bool" where
  "server_keeps be I s \<longleftrightarrow> sv_store s = Some be \<and> I (sv_db s)"

context backend_ops
begin

lemma seedBaseline_keeps: "I db \<Longrightarrow> I (snd (seedBaseline be runID pkg fps db))"
  by (auto simp: seedBaseline_def Let_def case_prod_beta ops_keep split: sum.split)

lemma diffRun_keeps: "I db \<Longrightarrow> I (fst (snd (diffRun be newID now sink runID pkg bl fps (db, m))))"
  by (auto simp: diffRun_def Let_def case_prod_beta ops_keep split: sum.split)

lemma AnalyzeRun_keeps: "I db \<Longrightarrow> I (fst (snd (AnalyzeRun be ord newID now sink runID (db, m))))"
  by (simp add: AnalyzeRun_def Let_def case_prod_beta ops_keep seedBaseline_keeps diffRun_keeps split: sum.split)

lemma server_keeps_simps [simp]:
  "server_keeps be I (s\<lparr>sv_timers := t\<rparr>) = server_keeps be I s" "server_keeps be I (s\<lparr>sv_metrics := m\<rparr>) = server_keeps be I s" "server_keeps be I (s\<lparr>sv_dispatcher := d\<rparr>) = server_keeps be I s"
  "server_keeps be I (s\<lparr>sv_runners := rs\<rparr>) = server_keeps be I s" "server_keeps be I (s\<lparr>sv_triggered := tr\<rparr>) = server_keeps be I s"
  by (simp_all add: server_keeps_def)

lemma timer_fires_kept: "server_keeps be I s \<Longrightarrow> server_keeps be I (timer_fires ord newID clock a s)"
  using AnalyzeRun_keeps
  by (auto simp: server_keeps_def timer_fires_def timer_body_def Let_def case_prod_beta split: sum.split)

lemma SubmitScan_kept: "server_keeps be I s \<Longrightarrow> server_keeps be I (snd (SubmitScan now r job s))"
  by (simp add: server_keeps_def SubmitScan_def Let_def ops_keep)

lemma ingest_kept: "server_keeps be I s \<Longrightarrow> server_keeps be I (snd (ingest clock i bs c n s))"
proof (induction bs arbitrary: c n s)
  case (Cons b bs)
  obtain nb ne np where c: "c = (nb, ne, np)" by (cases c)
  have st: "sv_store s = Some be" "I (sv_db s)" using Cons.prems by (simp_all add: server_keeps_def)
  obtain r db' where a: "be_AppendEvents be i (batch_rows clock n i b) (sv_db s) = (r, db')" by fastforce
  then have "I db'" using AppendEvents_keeps [OF st(2)] by (metis snd_conv)
  then show ?case
    using Cons.IH st a by (auto simp: c server_keeps_def Let_def split: sum.split)
qed simp

lemma handlers_kept:
  assumes "server_keeps be I s"
  shows "server_keeps be I (snd (handleHealth s))" "server_keeps be I (snd (handleRegister now reg s))" "server_keeps be I (snd (handleHeartbeat now i hb s))"
    "server_keeps be I (snd (handlePollJob arr i s))" "server_keeps be I (snd (handleQueueScan now sc s))" "server_keeps be I (snd (handleEvents clock now i bs bad s))"
    "server_keeps be I (snd (handleScanResult now i res s))"
proof -
  show "server_keeps be I (snd (handleHealth s))" "server_keeps be I (snd (handleRegister now reg s))" "server_keeps be I (snd (handleHeartbeat now i hb s))"
    "server_keeps be I (snd (handlePollJob arr i s))"
    using assms
    by (simp_all add: handleHealth_def handleRegister_def handleHeartbeat_def handlePollJob_def
        split: sum.split option.split prod.split)
  show "server_keeps be I (snd (handleQueueScan now sc s))"
    using SubmitScan_kept [OF assms]
    by (auto simp: handleQueueScan_def assms split: sum.split prod.split) (metis snd_conv)+
  show "server_keeps be I (snd (handleEvents clock now i bs bad s))"
    using ingest_kept [OF assms, of clock i bs "(0, 0, 0)" 0] assms
    by (auto simp: handleEvents_def Let_def case_prod_beta scheduleDiffer_def server_keeps_def ops_keep split: option.split)
  show "server_keeps be I (snd (handleScanResult now i res s))"
    using assms
    by (auto simp: handleScanResult_def server_keeps_def case_prod_beta ops_keep split: sum.split)
qed

lemma handle_kept: "server_keeps be I s \<Longrightarrow> server_keeps be I (snd (handle e q vs h s))"
proof -
  assume k: "server_keeps be I s"
  then have st: "sv_store s = Some be" "I (sv_db s)" by (simp_all add: server_keeps_def)
  have page: "server_keeps be I (snd (show_page c f s))" if "\<And>db. I db \<Longrightarrow> I (snd (f be db))" for c :: "'v \<Rightarrow> page_shown" and f
    using show_page_keeps [of f s c, OF that st] st by (auto simp: server_keeps_def)
  show ?thesis
    using handlers_kept [OF k] k
    by (cases h) (auto simp: answer_api_def intro!: page pages_keep)
qed

lemma ServeHTTP_kept: "server_keeps be I s \<Longrightarrow> server_keeps be I (snd (ServeHTTP m e q s))"
  by (simp add: ServeHTTP_def handle_kept split: found.split)

lemma prune_runners_kept: "server_keeps be I s \<Longrightarrow> server_keeps be I (prune_runners now cutoff s)"
  by (simp add: prune_runners_def)

text \<open>The watcher, with the submission of the orchestrator.\<close>

lemma submit_release_kept:
  assumes "server_keeps be I s" "I db"
  shows "server_keeps be I (snd (snd (submit_release ord now pkg ver (db, s)))) \<and> I (fst (snd (submit_release ord now pkg ver (db, s))))"
proof -
  have "server_keeps be I (s\<lparr>sv_db := db\<rparr>)" using assms by (simp add: server_keeps_def)
  then have "server_keeps be I (snd (SubmitScan now r job (s\<lparr>sv_db := db\<rparr>)))" for r job by (rule SubmitScan_kept)
  then show ?thesis
    using assms by (auto simp: submit_release_def Let_def case_prod_beta server_keeps_def)
qed

lemma pollPackage_kept:
  assumes "wa_store w = be" "wa_submit w = submit_release ord t" "server_keeps be I s" "I db"
  shows "server_keeps be I (snd (pollPackage w now p (db, s))) \<and> I (fst (pollPackage w now p (db, s)))"
  using assms submit_release_kept [OF assms(3)]
  by (auto simp: pollPackage_def Let_def ops_keep split: sum.split)

lemma poll_all_kept:
  assumes "wa_store w = be" "wa_submit w = submit_release ord t"
  shows "server_keeps be I s \<Longrightarrow> I db \<Longrightarrow> server_keeps be I (snd (poll_all w cancelled clock k ps (db, s))) \<and> I (fst (poll_all w cancelled clock k ps (db, s)))"
proof (induction ps arbitrary: k db s)
  case (Cons p ps)
  obtain db' s' where p: "pollPackage w (clock k) p (db, s) = (db', s')" by fastforce
  then have "server_keeps be I s' \<and> I db'" using pollPackage_kept [OF assms Cons.prems, of "clock k" p] by simp
  then show ?case using Cons p by simp
qed simp

lemma PollOnce_kept:
  assumes "wa_store w = be" "wa_submit w = submit_release ord t" "server_keeps be I s" "I db"
  shows "server_keeps be I (snd (PollOnce w cancelled clock (db, s))) \<and> I (fst (PollOnce w cancelled clock (db, s)))"
  using poll_all_kept [OF assms(1,2,3)] assms ListWatchedPackages_keeps [OF assms(4)]
  by (simp add: PollOnce_def case_prod_beta split: sum.split)

text \<open>Retention, notification and configuration.\<close>

lemma prune_keeps: "I db \<Longrightarrow> I (prune be now days db)"
  by (simp add: prune_def ops_keep)

lemma recordAttempt_keeps: "I db \<Longrightarrow> I (recordAttempt be nv target run attempt status code body e n t db)"
  by (simp add: recordAttempt_def ops_keep)

lemma deliver_keeps:
  assumes "nr_store n = be"
  shows "deliver_from n nv target run c body ct attempt (db, m) = Some (db', m') \<Longrightarrow> I db \<Longrightarrow> I db'"
proof (induction "Suc (nr_maxAttempt n) - attempt" arbitrary: attempt db m)
  case 0
  then show ?case by (simp add: deliver_from.simps)
next
  case (Suc k)
  obtain code rb e where post: "post nv target body ct attempt = (code, rb, e)" by (metis prod_cases3)
  have "k = Suc (nr_maxAttempt n) - Suc attempt" "\<not> attempt > nr_maxAttempt n" using Suc.hyps(2) by simp_all
  note IH = Suc.hyps(1) [OF this(1)] and this(2)
  then show ?case
    using Suc.prems(1) post assms recordAttempt_keeps [OF Suc.prems(2)]
    by (subst (asm) deliver_from.simps) (auto simp: Let_def split: if_splits option.splits)
qed

lemma deliverWithRetry_keeps:
  "nr_store n = be \<Longrightarrow> deliverWithRetry n nv target run devs (db, m) = Some (db', m') \<Longrightarrow> I db \<Longrightarrow> I db'"
  using deliver_keeps recordAttempt_keeps by (auto simp: deliverWithRetry_def split: option.splits)

lemma Trigger_keeps: "nr_store n = be \<Longrightarrow> I db \<Longrightarrow> I (snd (Trigger n runID db))"
  by (simp add: Trigger_def case_prod_beta ops_keep split: sum.split)

lemma load_entries_keeps: "I db \<Longrightarrow> I (snd (load_entries be nv clock path k es db))"
proof (induction es arbitrary: k db)
  case (Cons e es)
  then show ?case using UpsertNotifier_keeps [OF Cons.prems] by (auto simp: case_prod_beta split: sum.split)
qed simp

lemma LoadFromFile_keeps: "I db \<Longrightarrow> I (snd (LoadFromFile be nv clock path f db))"
  using load_entries_keeps
  by (auto simp: LoadFromFile_def case_prod_beta split: sum.split list.split option.split)

lemma ApplyAllowlist_keeps: "store = Some be \<or> store = None \<Longrightarrow> I db \<Longrightarrow> I (ApplyAllowlist sha256 now c store db)"
proof -
  have "I db \<Longrightarrow> I (fold (\<lambda>row db. snd (be_AddAllowEntry be now row db)) rows db)" for rows db
    by (induction rows arbitrary: db) (simp_all add: ops_keep)
  then show "store = Some be \<or> store = None \<Longrightarrow> I db \<Longrightarrow> I (ApplyAllowlist sha256 now c store db)"
    by (auto simp: ApplyAllowlist_def split: option.split)
qed

end

end
