(* ===== verification/Routes_Props.thy ===== *)
theory Routes_Props
  imports Routes Agent_Props Server_Keeps
begin

text \<open>
  The mounted routes fit: no registration panics, the pages and the requests of the runner's
  client reach their handlers with their ids, and requests that only read change no table.
\<close>

section \<open>Paths\<close>

definition path_of :: "string list \<Rightarrow> string" where
  "path_of cs = concat (map (Cons (CHR ''/'')) cs)"

definition component :: "string \<Rightarrow> bool" where
  "component c \<longleftrightarrow> c \<noteq> [] \<and> CHR ''/'' \<notin> set c \<and> CHR ''%'' \<notin> set c \<and> c \<noteq> ''.'' \<and> c \<noteq> ''..''"

lemma path_of_simps [simp]: "path_of [] = []" "path_of (c # cs) = CHR ''/'' # c @ path_of cs"
  by (simp_all add: path_of_def)

lemma path_of_eq_Nil [simp]: "path_of cs = [] \<longleftrightarrow> cs = []"
  by (cases cs) simp_all

lemma unescape_plain: "CHR ''%'' \<notin> set s \<Longrightarrow> unescape s = Some s"
  by (induction s) auto

lemma pathUnescape_plain [simp]: "CHR ''%'' \<notin> set s \<Longrightarrow> pathUnescape s = s"
  by (simp add: pathUnescape_def unescape_plain)

lemma takeWhile_path: "takeWhile (\<lambda>c. c \<noteq> CHR ''/'') (path_of cs) = []" "dropWhile (\<lambda>c. c \<noteq> CHR ''/'') (path_of cs) = path_of cs"
  by (cases cs; simp)+

lemma firstSegment_path:
  assumes "component c"
  shows "firstSegment (path_of (c # cs)) = (c, path_of cs)"
proof -
  have a: "\<forall>x\<in>set c. x \<noteq> CHR ''/''" "CHR ''%'' \<notin> set c" "c \<noteq> []" using assms by (auto simp: component_def)
  then have "takeWhile (\<lambda>x. x \<noteq> CHR ''/'') (c @ path_of cs) = c" "dropWhile (\<lambda>x. x \<noteq> CHR ''/'') (c @ path_of cs) = path_of cs"
    by (simp_all add: takeWhile_path)
  then show ?thesis using a by (simp add: firstSegment_def)
qed

lemma split_on_component: "CHR ''/'' \<notin> set c \<Longrightarrow> split_on (CHR ''/'') c = [c]"
  by (induction c) auto

lemma split_on_nonempty [simp]: "split_on x s \<noteq> []"
  by (cases s) (auto split: list.split)

lemma split_on_append: "x \<notin> set c \<Longrightarrow> split_on x (c @ x # s) = c # split_on x s"
  by (induction c) auto

lemma split_path:
  "list_all component cs \<Longrightarrow> cs \<noteq> [] \<Longrightarrow> split_on (CHR ''/'') (path_of cs) = [] # cs"
proof (induction cs)
  case (Cons c cs)
  then have c: "CHR ''/'' \<notin> set c" by (simp add: component_def)
  show ?case
  proof (cases cs)
    case Nil
    then show ?thesis using split_on_component [OF c] by simp
  next
    case (Cons d ds)
    then have "split_on (CHR ''/'') (path_of cs) = [] # cs" using Cons.prems Cons.IH by simp
    then have "split_on (CHR ''/'') (d @ path_of ds) = cs" using Cons by simp
    then show ?thesis using split_on_append [OF c, of "d @ path_of ds"] Cons by simp
  qed
qed simp

lemma clean_comps_components: "list_all component cs \<Longrightarrow> clean_comps r acc cs = rev acc @ cs"
  by (induction cs arbitrary: acc) (auto simp: component_def)

lemma Join_path_of: "cs \<noteq> [] \<Longrightarrow> CHR ''/'' # Join cs ''/'' = path_of cs"
  by (induction cs rule: induct_list012) simp_all

lemma Clean_path:
  assumes "list_all component cs" "cs \<noteq> []"
  shows "Clean (path_of cs) = path_of cs"
proof -
  have "HasPrefix (path_of cs) ''/''" using assms(2) by (cases cs) (simp_all add: HasPrefix_def)
  moreover have "clean_comps True [] ([] # cs) = cs" using clean_comps_components [OF assms(1), of True "[]"] by simp
  ultimately show ?thesis using assms Join_path_of by (simp add: Clean_def split_path)
qed

lemma last_path:
  assumes "list_all component cs" "cs \<noteq> []"
  shows "last (path_of cs) \<noteq> CHR ''/''"
  using assms
proof (induction cs)
  case (Cons c cs)
  then show ?case by (cases cs) (auto simp: component_def dest: last_in_set)
qed simp

lemma cleanPath_path:
  assumes "list_all component cs" "cs \<noteq> []"
  shows "cleanPath (path_of cs) = path_of cs"
proof -
  have "hd (path_of cs) = CHR ''/''" using assms(2) by (cases cs) simp_all
  then show ?thesis using assms Clean_path last_path by (simp add: cleanPath_def)
qed

lemma matchPath_end [simp]: "matchPath ns [] ms = (case concat (map leaf ns) of [] \<Rightarrow> None | a # _ \<Rightarrow> Some (a, ms))"
  by (subst matchPath.simps) simp

lemma matchPath_step:
  assumes "component c"
  shows "matchPath ns (path_of (c # cs)) ms =
    (case matchPath (concat (map (lit_child c) ns)) (path_of cs) ms of
       Some r \<Rightarrow> Some r
     | None \<Rightarrow>
         (case matchPath (concat (map wild_child ns)) (path_of cs) (ms @ [c]) of
            Some r \<Rightarrow> Some r
          | None \<Rightarrow>
              (case concat (map multi_child ns) of
                 [] \<Rightarrow> None
               | (n, a) # _ \<Rightarrow> Some (a, if n \<noteq> [] then ms @ [pathUnescape (drop 1 (path_of (c # cs)))] else ms))))"
proof -
  have "c \<noteq> []" "c \<noteq> ''/''" using assms by (auto simp: component_def)
  then show ?thesis
    using firstSegment_path [OF assms, of cs]
    by (subst matchPath.simps) (simp only: Let_def fst_conv snd_conv path_of_eq_Nil list.simps if_False if_True not_False_eq_True)
qed

text \<open>The handler for a path of components, when it is found by a pattern without a trailing slash.\<close>

lemma findHandler_path:
  assumes "list_all component cs" "cs \<noteq> []"
    and "tree_match m method (path_of cs) = Some ((p, h), ms)" "\<not> is_multi (last (pt_segments p))"
  shows "findHandler m method (path_of cs) = Handler h (path_values p ms)"
  using assms by (simp add: findHandler_def cleanPath_path exactMatch_def)

lemma tree_match_method: "method \<noteq> [] \<Longrightarrow> matchPath (entries_of method m) path [] = Some r \<Longrightarrow> tree_match m method path = Some r"
  by (simp add: tree_match_def)

section \<open>The mounted routes\<close>

definition api_routes :: "handler mux" where
  "api_routes =
     [(\<lparr>pt_method = ''GET'', pt_segments = [Seg ''v1'', Seg ''health'']\<rparr>, H_health),
      (\<lparr>pt_method = ''POST'', pt_segments = [Seg ''v1'', Seg ''runners'', Seg ''register'']\<rparr>, H_register),
      (\<lparr>pt_method = ''POST'', pt_segments = [Seg ''v1'', Seg ''runners'', Wild ''id'', Seg ''heartbeat'']\<rparr>, H_heartbeat),
      (\<lparr>pt_method = ''GET'', pt_segments = [Seg ''v1'', Seg ''runners'', Wild ''id'', Seg ''jobs'']\<rparr>, H_poll),
      (\<lparr>pt_method = ''POST'', pt_segments = [Seg ''v1'', Seg ''scans'']\<rparr>, H_scans),
      (\<lparr>pt_method = ''POST'', pt_segments = [Seg ''v1'', Seg ''runs'', Wild ''run_id'', Seg ''events'']\<rparr>, H_events),
      (\<lparr>pt_method = ''POST'', pt_segments = [Seg ''v1'', Seg ''runs'', Wild ''run_id'', Seg ''result'']\<rparr>, H_result)]"

definition metrics_routes :: "handler mux" where
  "metrics_routes =
     [(\<lparr>pt_method = ''GET'', pt_segments = [Seg ''metrics'']\<rparr>, H_metrics)]"

definition ui_routes :: "handler mux" where
  "ui_routes =
     [(\<lparr>pt_method = ''GET'', pt_segments = [Multi []]\<rparr>, H_root),
      (\<lparr>pt_method = ''GET'', pt_segments = [Seg ''ui'', Multi []]\<rparr>, H_overview),
      (\<lparr>pt_method = ''GET'', pt_segments = [Seg ''ui'', Seg ''packages'']\<rparr>, H_packages),
      (\<lparr>pt_method = ''GET'', pt_segments = [Seg ''ui'', Seg ''packages'', Wild ''name'']\<rparr>, H_package),
      (\<lparr>pt_method = ''GET'', pt_segments = [Seg ''ui'', Seg ''runs'']\<rparr>, H_runs),
      (\<lparr>pt_method = ''GET'', pt_segments = [Seg ''ui'', Seg ''runs'', Wild ''id'']\<rparr>, H_run),
      (\<lparr>pt_method = ''GET'', pt_segments = [Seg ''ui'', Seg ''runs'', Wild ''id'', Seg ''lineage'']\<rparr>, H_lineage),
      (\<lparr>pt_method = ''GET'', pt_segments = [Seg ''ui'', Seg ''deviations'']\<rparr>, H_deviations),
      (\<lparr>pt_method = ''GET'', pt_segments = [Seg ''ui'', Seg ''deviations'', Wild ''id'']\<rparr>, H_deviation),
      (\<lparr>pt_method = ''GET'', pt_segments = [Seg ''ui'', Seg ''events'', Wild ''id'']\<rparr>, H_event),
      (\<lparr>pt_method = ''GET'', pt_segments = [Seg ''ui'', Seg ''pending'']\<rparr>, H_pending),
      (\<lparr>pt_method = ''GET'', pt_segments = [Seg ''ui'', Seg ''allowlist'']\<rparr>, H_allowlist),
      (\<lparr>pt_method = ''GET'', pt_segments = [Seg ''ui'', Seg ''notifiers'']\<rparr>, H_notifiers),
      (\<lparr>pt_method = ''GET'', pt_segments = [Seg ''ui'', Seg ''config'']\<rparr>, H_config),
      (\<lparr>pt_method = ''GET'', pt_segments = [Seg ''static'', Multi []]\<rparr>, H_static)]"

lemma mount_all_eq:
  "mount_all b u = Some (api_routes @ (if b then metrics_routes else []) @ (if u then ui_routes else []))"
proof -
  have "mount_all True True = Some (api_routes @ metrics_routes @ ui_routes)" "mount_all True False = Some (api_routes @ metrics_routes)"
    "mount_all False True = Some (api_routes @ ui_routes)" "mount_all False False = Some api_routes"
    by code_simp+
  then show ?thesis by (cases b; cases u) simp_all
qed

lemma components [simp]:
  "component ''v1''" "component ''runners''" "component ''register''" "component ''heartbeat''" "component ''jobs''" "component ''scans''"
  "component ''runs''" "component ''events''" "component ''result''" "component ''health''" "component ''ui''" "component ''packages''"
  "component ''lineage''" "component ''deviations''" "component ''pending''" "component ''allowlist''" "component ''notifiers''" "component ''config''"
  "component ''metrics''"
  by (simp_all add: component_def)

lemmas routing = entries_of_def matchPath_step api_routes_def metrics_routes_def ui_routes_def path_values_def

lemma routed_path:
  assumes "mount_all b u = Some m" "list_all component cs" "cs \<noteq> []" "method \<noteq> []"
    and "case matchPath (entries_of method (api_routes @ (if b then metrics_routes else []) @ (if u then ui_routes else []))) (path_of cs) [] of
      None \<Rightarrow> False
    | Some ((p, h'), ms) \<Rightarrow> \<not> is_multi (last (pt_segments p)) \<and> h = h' \<and> vs = path_values p ms"
  shows "findHandler m method (path_of cs) = Handler h vs"
  using assms by (auto simp: mount_all_eq split: option.splits intro!: findHandler_path tree_match_method)

lemma api_paths:
  assumes "mount_all b u = Some m" "component i"
  shows "findHandler m ''POST'' (path_of [''v1'', ''runners'', ''register'']) = Handler H_register []"
    and "findHandler m ''POST'' (path_of [''v1'', ''runners'', i, ''heartbeat'']) = Handler H_heartbeat [(''id'', i)]"
    and "findHandler m ''GET'' (path_of [''v1'', ''runners'', i, ''jobs'']) = Handler H_poll [(''id'', i)]"
    and "findHandler m ''POST'' (path_of [''v1'', ''scans'']) = Handler H_scans []"
    and "findHandler m ''POST'' (path_of [''v1'', ''runs'', i, ''events'']) = Handler H_events [(''run_id'', i)]"
    and "findHandler m ''POST'' (path_of [''v1'', ''runs'', i, ''result'']) = Handler H_result [(''run_id'', i)]"
  by (rule routed_path [OF assms(1)], use assms(2) in \<open>simp_all add: routing del: path_of_simps(2)\<close>)+

lemma page_paths:
  assumes "mount_all b True = Some m" "component i"
  shows "findHandler m ''GET'' (path_of [''ui'', ''packages'', i]) = Handler H_package [(''name'', i)]"
    and "findHandler m ''GET'' (path_of [''ui'', ''runs'', i]) = Handler H_run [(''id'', i)]"
    and "findHandler m ''GET'' (path_of [''ui'', ''runs'', i, ''lineage'']) = Handler H_lineage [(''id'', i)]"
    and "findHandler m ''GET'' (path_of [''ui'', ''deviations'', i]) = Handler H_deviation [(''id'', i)]"
    and "findHandler m ''GET'' (path_of [''ui'', ''events'', i]) = Handler H_event [(''id'', i)]"
    and "findHandler m ''GET'' (path_of [''ui'', ''packages'']) = Handler H_packages []"
    and "findHandler m ''GET'' (path_of [''ui'', ''runs'']) = Handler H_runs []"
    and "findHandler m ''GET'' (path_of [''ui'', ''deviations'']) = Handler H_deviations []"
    and "findHandler m ''GET'' (path_of [''ui'', ''pending'']) = Handler H_pending []"
  by (rule routed_path [OF assms(1)], use assms(2) in \<open>simp_all add: routing del: path_of_simps(2)\<close>)+

section \<open>The runner's client\<close>

text \<open>
  The client of a runner connected to the multiplexer: a request is served at the path behind
  the base URL. Ids of unreserved characters stand in a path as they are.
\<close>

definition unreserved :: "char \<Rightarrow> bool" where
  "unreserved c \<longleftrightarrow> is_letter c \<or> is_digit c \<or> c \<in> set ''-_.~''"

definition plain_id :: "string \<Rightarrow> bool" where
  "plain_id i \<longleftrightarrow> i \<noteq> [] \<and> list_all unreserved i \<and> i \<noteq> ''.'' \<and> i \<noteq> ''..''"

lemma plain_id_component: "plain_id i \<Longrightarrow> component i"
proof -
  have "\<not> unreserved (CHR ''/'')" "\<not> unreserved (CHR ''%'')" by code_simp+
  then show "plain_id i \<Longrightarrow> component i" by (auto simp: plain_id_def component_def list_all_iff)
qed

definition blank_request :: wire_request where
  "blank_request = \<lparr>wq_method = [], wq_path = [], wq_query = (\<lambda>_. []), wq_registration = Inl [], wq_heartbeat = None,
     wq_scan = Inl [], wq_events = ([], None), wq_result = Inl [], wq_arrivals = []\<rparr>"

fun wire_answer :: "(body \<Rightarrow> 'a option) \<Rightarrow> http_answer \<Rightarrow> 'a answer" where
  "wire_answer pick (Answer r) = answer_of pick r"
| "wire_answer pick (MethodNotAllowed ms) = Inr (405, ''Method Not Allowed'', Inl (Msg ''unexpected body''))"
| "wire_answer pick (Redirected u) = Inr (307, [], Inl (Msg ''unexpected body''))"
| "wire_answer pick (Page p) = Inr (if p = P_root (Inr PageNotFound) then 404 else 200, [], Inl (Msg ''unexpected body''))"
| "wire_answer pick NotFound = Inr (404, ''404 page not found'', Inl (Msg ''unexpected body''))"

definition exchange ::
  "handler mux \<Rightarrow> (nat \<Rightarrow> surroundings) \<Rightarrow> string \<Rightarrow> (body \<Rightarrow> 'a option) \<Rightarrow> wire_request \<Rightarrow> string \<Rightarrow> nat \<times> 'db Server
    \<Rightarrow> 'a answer \<times> nat \<times> 'db Server" where
  "exchange m env base pick q url w =
     (if HasPrefix url base then
        (let (a, s') = ServeHTTP m (env (fst w)) (q\<lparr>wq_path := drop (length base) url\<rparr>) (snd w) in
         (wire_answer pick a, Suc (fst w), s'))
      else (Inl ErrIO, w))"

definition mux_transport :: "handler mux \<Rightarrow> (nat \<Rightarrow> surroundings) \<Rightarrow> string \<Rightarrow> (nat \<times> 'db Server) transport" where
  "mux_transport m env base =
     (let get = blank_request\<lparr>wq_method := ''GET''\<rparr>; post = blank_request\<lparr>wq_method := ''POST''\<rparr> in
      \<lparr>tr_register = (\<lambda>u r. exchange m env base pick_registration (post\<lparr>wq_registration := Inr r\<rparr>) u),
       tr_poll = exchange m env base pick_job get,
       tr_heartbeat = (\<lambda>u h. exchange m env base pick_heartbeat (post\<lparr>wq_heartbeat := Some (Inr h)\<rparr>) u),
       tr_result = (\<lambda>u r. exchange m env base (\<lambda>_. Some ()) (post\<lparr>wq_result := Inr r\<rparr>) u),
       tr_events = (\<lambda>u b. exchange m env base (\<lambda>_. Some ()) (post\<lparr>wq_events := ([b], None)\<rparr>) u)\<rparr>)"

lemma exchange_found:
  "findHandler m (wq_method q) p = Handler h vs \<Longrightarrow>
   exchange m env base pick q (base @ p) w =
     (case handle (env (fst w)) (q\<lparr>wq_path := p\<rparr>) vs h (snd w) of (a, s') \<Rightarrow> (wire_answer pick a, Suc (fst w), s'))"
  by (simp add: exchange_def ServeHTTP_def)

lemma exchanges:
  fixes env :: "nat \<Rightarrow> surroundings" and base :: string and m :: "handler mux"
  assumes "mount_all b u = Some m" "component i"
  defines "t \<equiv> mux_transport m env base" and "t' \<equiv> server_transport base (\<lambda>n. sr_event_clock (env n)) (\<lambda>n. sr_now (env n))"
  shows "tr_register t (base @ ''/v1/runners/register'') r w = tr_register t' (base @ ''/v1/runners/register'') r w"
    and "tr_poll t (base @ ''/v1/runners/'' @ i @ ''/jobs'') w = tr_poll t' (base @ ''/v1/runners/'' @ i @ ''/jobs'') w"
    and "tr_heartbeat t (base @ ''/v1/runners/'' @ i @ ''/heartbeat'') hb w = tr_heartbeat t' (base @ ''/v1/runners/'' @ i @ ''/heartbeat'') hb w"
    and "tr_result t (base @ ''/v1/runs/'' @ i @ ''/result'') res w = tr_result t' (base @ ''/v1/runs/'' @ i @ ''/result'') res w"
    and "tr_events t (base @ ''/v1/runs/'' @ i @ ''/events'') bt w = tr_events t' (base @ ''/v1/runs/'' @ i @ ''/events'') bt w"
proof -
  note paths = api_paths [OF assms(1,2), unfolded path_of_def, simplified]
  have mid: "between (base @ pre) suf (base @ pre @ x @ suf) = Some x" for pre suf x
    using between_middle [of "base @ pre" suf x] by simp
  note [simp] = t_def t'_def mux_transport_def server_transport_def server_events_def routed_def answer_api_def path_value_def
    blank_request_def Let_def case_prod_beta
  show "tr_register t (base @ ''/v1/runners/register'') r w = tr_register t' (base @ ''/v1/runners/register'') r w"
    by (simp add: exchange_found paths)
  show "tr_poll t (base @ ''/v1/runners/'' @ i @ ''/jobs'') w = tr_poll t' (base @ ''/v1/runners/'' @ i @ ''/jobs'') w"
    using mid [of "''/v1/runners/''" "''/jobs''" i] by (simp add: exchange_found paths)
  show "tr_heartbeat t (base @ ''/v1/runners/'' @ i @ ''/heartbeat'') hb w = tr_heartbeat t' (base @ ''/v1/runners/'' @ i @ ''/heartbeat'') hb w"
    using mid [of "''/v1/runners/''" "''/heartbeat''" i] by (simp add: exchange_found paths)
  show "tr_result t (base @ ''/v1/runs/'' @ i @ ''/result'') res w = tr_result t' (base @ ''/v1/runs/'' @ i @ ''/result'') res w"
    using mid [of "''/v1/runs/''" "''/result''" i] by (simp add: exchange_found paths)
  show "tr_events t (base @ ''/v1/runs/'' @ i @ ''/events'') bt w = tr_events t' (base @ ''/v1/runs/'' @ i @ ''/events'') bt w"
    using mid [of "''/v1/runs/''" "''/events''" i] by (simp add: exchange_found paths)
qed

lemma hex_digit_unreserved: "n < 16 \<Longrightarrow> unreserved (hex_digit n) \<and> hex_digit n \<noteq> CHR ''.''"
proof -
  have code: "hex_digit n = char_of (if n < 10 then 48 + n else 87 + n)" by (simp add: hex_digit_def)
  have "(of_char (CHR ''.'') :: nat) = 46" by simp
  moreover have "(of_char (hex_digit n) :: nat) = (if n < 10 then 48 + n else 87 + n)" if "n < 16"
    using that by (simp add: hex_digit_def)
  ultimately show "n < 16 \<Longrightarrow> unreserved (hex_digit n) \<and> hex_digit n \<noteq> CHR ''.''"
    by (auto simp: unreserved_def is_letter_def is_lower_def is_digit_def Let_def split: if_splits)
qed

lemma hex_bytes_plain:
  assumes "bs \<noteq> []"
  shows "plain_id (hex_bytes bs)"
proof -
  have "\<forall>c\<in>set (hex_bytes bs). unreserved c \<and> c \<noteq> CHR ''.''"
  proof
    fix c assume "c \<in> set (hex_bytes bs)"
    then obtain x :: byte where "c = hex_digit (unat x div 16) \<or> c = hex_digit (unat x mod 16)"
      by (auto simp: hex_bytes_def)
    moreover have "unat x div 16 < 16" "unat x mod 16 < 16" for x :: byte using unsigned_less [of x, where ?'a = nat] by simp_all
    ultimately show "unreserved c \<and> c \<noteq> CHR ''.''" using hex_digit_unreserved by metis
  qed
  then have "list_all unreserved (hex_bytes bs)" "CHR ''.'' \<notin> set (hex_bytes bs)" unfolding list_all_iff by blast+
  moreover have "hex_bytes bs \<noteq> []" using assms by (cases bs) (simp_all add: hex_bytes_def)
  ultimately show ?thesis by (metis plain_id_def list.set_intros(1))
qed

text \<open>
  C21. The runner's client and the routes of the orchestrator fit together: with a runner id of
  unreserved characters, every request of the client through the multiplexer reaches the
  handler it is meant for, with the runner or run it names, whichever of the metrics and the
  pages are mounted beside.
\<close>

theorem client_served:
  assumes "mount_all b u = Some m" "plain_id (cl_runnerID c)" "plain_id i" "es_runID s \<noteq> []" "es_baseURL s = cl_baseURL c"
  shows "let t = mux_transport m env (cl_baseURL c);
      t' = server_transport (cl_baseURL c) (\<lambda>n. sr_event_clock (env n)) (\<lambda>n. sr_now (env n))
    in Register h t c w = Register h t' c w \<and> Client_PollJob t c w = Client_PollJob t' c w \<and>
      SendHeartbeat t c hb w = SendHeartbeat t' c hb w \<and> SendScanResult t c i r w = SendScanResult t' c i r w \<and>
      post_batch cancelled t s bt w = post_batch cancelled t' s bt w"
proof -
  let ?t = "mux_transport m env (cl_baseURL c)"
  let ?t' = "server_transport (cl_baseURL c) (\<lambda>n. sr_event_clock (env n)) (\<lambda>n. sr_now (env n))"
  note ex = exchanges [OF assms(1) plain_id_component, of _ env "cl_baseURL c"]
  have "Register h ?t c w = Register h ?t' c w"
    unfolding Register_def ex(1) [OF assms(2)] ..
  moreover have "Client_PollJob ?t c w = Client_PollJob ?t' c w"
    unfolding Client_PollJob_def poll_url_def ex(2) [OF assms(2)] ..
  moreover have "SendHeartbeat ?t c hb w = SendHeartbeat ?t' c hb w"
    unfolding SendHeartbeat_def heartbeat_url_def ex(3) [OF assms(2)] ..
  moreover have "SendScanResult ?t c i r w = SendScanResult ?t' c i r w"
    unfolding SendScanResult_def result_url_def ex(4) [OF assms(3)] ..
  moreover have "post_batch cancelled ?t s bt w = post_batch cancelled ?t' s bt w"
    unfolding post_batch_def events_url_def assms(5) ex(5) [OF hex_bytes_plain [OF assms(4)]] ..
  ultimately show ?thesis by (simp add: Let_def)
qed

definition demo_surroundings :: surroundings where
  "demo_surroundings = \<lparr>sr_now = 7, sr_event_clock = (\<lambda>i. 5), sr_counts = id, sr_rows = id, sr_names = id, sr_runners = id,
     sr_ReadFile = (\<lambda>_. FileMissing), sr_effectivePaths = [], sr_configPath = [], sr_asset = (\<lambda>_. (404, []))\<rparr>"

definition demo_client :: Client where
  "demo_client = \<lparr>cl_baseURL = ''http://o:8443'', cl_runnerID = ''host-1'', cl_orchestratorID = [], cl_jobPollInterval = 0,
     cl_heartbeatInterval = 0\<rparr>"

theorem client_served_witness:
  "\<exists>m. mount_all True True = Some m \<and>
     Client_PollJob (mux_transport m (\<lambda>n. demo_surroundings) ''http://o:8443'') demo_client (0, demo_server) =
     Client_PollJob (server_transport ''http://o:8443'' (\<lambda>n i. 5) (\<lambda>n. 7)) demo_client (0, demo_server)"
proof -
  obtain m where m: "mount_all True True = Some m" using mount_all_eq by blast
  have "plain_id (cl_runnerID demo_client)" "plain_id ''ab''" by code_simp+
  moreover have "es_runID (NewEventStreamer ''http://o:8443'' [1]) \<noteq> []"
      "es_baseURL (NewEventStreamer ''http://o:8443'' [1]) = cl_baseURL demo_client" "cl_baseURL demo_client = ''http://o:8443''"
    by (simp_all add: NewEventStreamer_def demo_client_def)
  ultimately show ?thesis
    using client_served [OF m, where c = demo_client and i = "''ab''" and env = "\<lambda>n. demo_surroundings" and w = "(0, demo_server)"
        and s = "NewEventStreamer ''http://o:8443'' [1]"] m
    by (auto simp: Let_def demo_surroundings_def)
qed

text \<open>
  An id with a slash is registered all the same, but no request for it is routed: polls are
  not found and heartbeats not allowed, so that the runner never gets a job.
\<close>

theorem runner_id_with_slash:
  "map_option (\<lambda>m. (findHandler m ''GET'' ''/v1/runners/lab/host/jobs'', findHandler m ''POST'' ''/v1/runners/lab/host/heartbeat'',
     fst (fst (handleRegister 1 (Inr (demo_registration\<lparr>rr_RunnerID := ''lab/host''\<rparr>)) demo_server)))) (mount_all True True) =
   Some (Handler H_root [], NotAllowed [''GET'', ''HEAD''], 200)"
proof -
  have "map_option (\<lambda>m. (findHandler m ''GET'' ''/v1/runners/lab/host/jobs'', findHandler m ''POST'' ''/v1/runners/lab/host/heartbeat''))
      (mount_all True True) = Some (Handler H_root [], NotAllowed [''GET'', ''HEAD''])"
    by code_simp
  moreover have "fst (fst (handleRegister 1 (Inr (demo_registration\<lparr>rr_RunnerID := ''lab/host''\<rparr>)) demo_server)) = 200"
    by (simp add: handleRegister_def demo_registration_def writeJSON_def)
  ultimately show ?thesis by (auto simp: map_option_case split: option.splits)
qed

section \<open>Scoped packages\<close>

lemma firstSegment_slash:
  assumes "component c"
  shows "firstSegment (path_of (c # cs) @ ''/'') = (c, path_of cs @ ''/'')"
proof -
  have a: "\<forall>x\<in>set c. x \<noteq> CHR ''/''" "CHR ''%'' \<notin> set c" "c \<noteq> []" using assms by (auto simp: component_def)
  have "takeWhile (\<lambda>x. x \<noteq> CHR ''/'') (c @ path_of cs @ ''/'') = c" "dropWhile (\<lambda>x. x \<noteq> CHR ''/'') (c @ path_of cs @ ''/'') = path_of cs @ ''/''"
    using a(1) by (cases cs; simp)+
  then show ?thesis using a by (simp add: firstSegment_def)
qed

text \<open>Matching a path of components with or without a slash behind them.\<close>

lemma matchPath_then:
  assumes "component c" "t = [] \<or> t = ''/''"
  shows "matchPath ns (path_of (c # cs) @ t) ms =
    (case matchPath (concat (map (lit_child c) ns)) (path_of cs @ t) ms of
       Some r \<Rightarrow> Some r
     | None \<Rightarrow>
         (case matchPath (concat (map wild_child ns)) (path_of cs @ t) (ms @ [c]) of
            Some r \<Rightarrow> Some r
          | None \<Rightarrow>
              (case concat (map multi_child ns) of
                 [] \<Rightarrow> None
               | (n, a) # _ \<Rightarrow> Some (a, if n \<noteq> [] then ms @ [pathUnescape (drop 1 (path_of (c # cs) @ t))] else ms))))"
proof -
  have c: "c \<noteq> []" "c \<noteq> ''/''" using assms(1) by (auto simp: component_def)
  have seg: "firstSegment (path_of (c # cs) @ t) = (c, path_of cs @ t)"
    using assms firstSegment_path firstSegment_slash by auto
  have ne: "path_of (c # cs) @ t \<noteq> []" by simp
  show ?thesis
    by (subst matchPath.simps)
      (simp only: seg ne c Let_def fst_conv snd_conv if_False if_True not_False_eq_True)
qed

lemma matchPath_slash:
  "matchPath ns ''/'' ms =
    (case matchPath (concat (map (lit_child ''/'') ns)) [] ms of
       Some r \<Rightarrow> Some r
     | None \<Rightarrow>
         (case concat (map multi_child ns) of [] \<Rightarrow> None | (n, a) # _ \<Rightarrow> Some (a, if n \<noteq> [] then ms @ [[]] else ms)))"
proof -
  have seg: "firstSegment ''/'' = (''/'', [])" by (simp add: firstSegment_def)
  have p: "(''/'' = ([] :: string)) = False" by simp
  show ?thesis
    by (subst matchPath.simps)
      (simp only: seg p Let_def fst_conv snd_conv if_False if_True simp_thms drop_Suc_Cons drop_0 One_nat_def pathUnescape_plain set_simps empty_iff
        option.case)
qed

text \<open>
  The page of a package whose name has a slash, as every scoped npm package's has, is not
  reachable by the links of the pages: a path with the name in it is routed to the overview,
  which answers that there is no such page, and nothing is read.
\<close>

theorem scoped_package_unreachable:
  assumes "mount_all b True = Some m" "component scope" "component name" "sv_store s = Some be"
    and "wq_method q = ''GET''" "wq_path q = ''/ui/packages/'' @ scope @ ''/'' @ name"
  shows "ServeHTTP m e q s = (Page (P_overview PageNotFound), s)"
proof -
  let ?cs = "[''ui'', ''packages'', scope, name]"
  let ?o = "(\<lparr>pt_method = ''GET'', pt_segments = [Seg ''ui'', Multi []]\<rparr>, H_overview)"
  have path: "wq_path q = path_of ?cs" using assms(6) by simp
  have ok: "list_all component ?cs" using assms(2,3) by simp
  have "matchPath (entries_of ''GET'' m) (path_of ?cs) [] = Some (?o, [])"
    using assms(1-3) by (auto simp: mount_all_eq routing simp del: path_of_simps(2))
  moreover have "matchPath (entries_of ''GET'' m) (path_of ?cs @ ''/'') [] = Some (?o, [])"
    using assms(1-3) by (auto simp: mount_all_eq routing matchPath_then matchPath_slash simp del: path_of_simps(2))
  ultimately have tm: "tree_match m ''GET'' (path_of ?cs) = Some (?o, [])" "tree_match m ''GET'' (path_of ?cs @ ''/'') = Some (?o, [])"
    by (simp_all add: tree_match_def del: path_of_simps(2))
  have "last (path_of ?cs) \<noteq> CHR ''/''" using last_path [OF ok] by simp
  then have inexact: "\<not> exactMatch (Some (?o, [])) (path_of ?cs)" by (simp add: exactMatch_def del: path_of_simps(2))
  have "count_list (path_of ?cs @ ''/'') (CHR ''/'') \<noteq> 2" by simp
  then have inexact': "\<not> exactMatch (Some (?o, [])) (path_of ?cs @ ''/'')" by (simp add: exactMatch_def del: path_of_simps(2))
  have "findHandler m ''GET'' (path_of ?cs) = Handler H_overview []"
    using tm inexact inexact' cleanPath_path [OF ok]
    by (simp add: findHandler_def Let_def path_values_def del: path_of_simps(2))
  moreover have "CHR ''%'' \<notin> set (path_of ?cs)" using assms(2,3) by (simp add: component_def)
  ultimately show ?thesis
    using assms(4,5) path by (simp add: ServeHTTP_def show_page_def handleOverview_def del: path_of_simps(2)) simp
qed

theorem scoped_package_unreachable_witness:
  "\<exists>m. mount_all True True = Some m \<and>
    ServeHTTP m demo_surroundings (blank_request\<lparr>wq_method := ''GET'', wq_path := ''/ui/packages/@types/node''\<rparr>) demo_server =
      (Page (P_overview PageNotFound), demo_server)"
proof -
  obtain m where m: "mount_all True True = Some m" using mount_all_eq by blast
  have "component ''@types''" "component ''node''" by code_simp+
  then show ?thesis
    using m scoped_package_unreachable [OF m, of "''@types''" "''node''" demo_server sqlite_Backend] by simp
qed

section \<open>Requests that only read\<close>

lemma child_in:
  "y \<in> set (lit_child c x) \<Longrightarrow> snd y = snd x" "y \<in> set (wild_child x) \<Longrightarrow> snd y = snd x" "z \<in> set (multi_child x) \<Longrightarrow> snd z = snd x"
  "a \<in> set (leaf x) \<Longrightarrow> a = snd x"
proof -
  obtain ps b where x: "x = (ps, b)" by (cases x)
  show "y \<in> set (lit_child c x) \<Longrightarrow> snd y = snd x" "y \<in> set (wild_child x) \<Longrightarrow> snd y = snd x"
    "z \<in> set (multi_child x) \<Longrightarrow> snd z = snd x" "a \<in> set (leaf x) \<Longrightarrow> a = snd x"
    unfolding x by (cases ps; cases "hd ps"; auto split: if_splits)+
qed

lemma children_in:
  assumes "\<And>x y. y \<in> set (child x) \<Longrightarrow> f y = snd x"
  shows "f ` set (concat (map child ns)) \<subseteq> snd ` set ns"
  using assms by force

lemma below:
  "snd ` set (concat (map (lit_child c) ns)) \<subseteq> snd ` set ns"
  "snd ` set (concat (map wild_child ns)) \<subseteq> snd ` set ns"
  "snd ` set (concat (map multi_child ns)) \<subseteq> snd ` set ns"
  "id ` set (concat (map leaf ns)) \<subseteq> snd ` set ns"
proof -
  show "snd ` set (concat (map (lit_child c) ns)) \<subseteq> snd ` set ns" by (rule children_in) (rule child_in(1))
  show "snd ` set (concat (map wild_child ns)) \<subseteq> snd ` set ns" by (rule children_in) (rule child_in(2))
  show "snd ` set (concat (map multi_child ns)) \<subseteq> snd ` set ns" by (rule children_in) (rule child_in(3))
  show "id ` set (concat (map leaf ns)) \<subseteq> snd ` set ns" by (rule children_in) (simp add: child_in(4))
qed

lemma multi_below: "concat (map multi_child ns) = (n, a) # zs \<Longrightarrow> a \<in> snd ` set ns"
proof -
  assume eq: "concat (map multi_child ns) = (n, a) # zs"
  show "a \<in> snd ` set ns" using below(3) [of ns, unfolded eq] by simp
qed

lemma leaf_below: "concat (map leaf ns) = a # as \<Longrightarrow> a \<in> snd ` set ns"
proof -
  assume eq: "concat (map leaf ns) = a # as"
  show "a \<in> snd ` set ns" using below(4) [of ns, unfolded eq] by simp
qed

lemma matchPath_in: "matchPath ns path ms = Some (a, vs) \<Longrightarrow> a \<in> snd ` set ns"
proof (induction "length path" arbitrary: ns path ms rule: less_induct)
  case less
  show ?case
  proof (cases "path = []")
    case True
    then show ?thesis using less.prems leaf_below by (auto split: list.splits)
  next
    case False
    let ?seg = "fst (firstSegment path)" and ?rest = "snd (firstSegment path)"
    note IH = less.hyps [OF firstSegment_shorter [OF False]]
    have sub: "snd ` set (if ?seg = [] then concat (map wild_child ns) else concat (map (lit_child ?seg) ns)) \<subseteq> snd ` set ns"
      "snd ` set (concat (map wild_child ns)) \<subseteq> snd ` set ns"
      using below(1) [of ?seg ns] below(2) [of ns] by (cases "?seg = []"; simp only: if_True if_False simp_thms)+
    consider (first) "matchPath (if ?seg = [] then concat (map wild_child ns) else concat (map (lit_child ?seg) ns)) ?rest ms = Some (a, vs)"
      | (second) "matchPath (concat (map wild_child ns)) ?rest (ms @ [?seg]) = Some (a, vs)"
      | (third) n zs where "concat (map multi_child ns) = (n, a) # zs"
      using less.prems False by (subst (asm) matchPath.simps) (auto simp: Let_def split: option.splits if_splits list.splits)
    then show ?thesis
    proof cases
      case first
      then show ?thesis using IH sub(1) by blast
    next
      case second
      then show ?thesis using IH sub(2) by blast
    next
      case third
      then show ?thesis by (rule multi_below)
    qed
  qed
qed

lemma tree_match_method_of:
  "tree_match m method path = Some ((p, h), ms) \<Longrightarrow>
   (p, h) \<in> set m \<and> (pt_method p = method \<or> pt_method p = ''GET'' \<and> method = ''HEAD'' \<or> pt_method p = [])"
  by (auto simp: tree_match_def entries_of_def split: option.splits if_splits dest!: matchPath_in)

lemma findHandler_in:
  "findHandler m method path = Handler h vs \<Longrightarrow>
   \<exists>p. (p, h) \<in> set m \<and> (pt_method p = method \<or> pt_method p = ''GET'' \<and> method = ''HEAD'' \<or> pt_method p = [])"
  using tree_match_method_of by (fastforce simp: findHandler_def Let_def split: if_splits option.splits)

lemma reading_handlers:
  assumes "mount_all b u = Some m" "findHandler m method path = Handler h vs" "method \<noteq> ''POST''"
  shows "h \<notin> {H_register, H_heartbeat, H_scans, H_events, H_result}"
proof -
  from findHandler_in [OF assms(2)] obtain p where p: "(p, h) \<in> set m"
      "pt_method p = method \<or> pt_method p = ''GET'' \<and> method = ''HEAD'' \<or> pt_method p = []" by blast
  have "pt_method p \<noteq> ''POST''" using p(2) assms(3) by (elim disjE conjE) simp_all
  then show ?thesis
    using p(1) assms(1) by (auto simp: mount_all_eq api_routes_def metrics_routes_def ui_routes_def split: if_splits)
qed

text \<open>Up to the database, which \<open>I\<close> describes, and the queues a server is as before.\<close>

definition reads_only :: "('db \<Rightarrow> bool) \<Rightarrow> 'db Server \<Rightarrow> 'db Server \<Rightarrow> bool" where
  "reads_only I s s' \<longleftrightarrow> s' = s\<lparr>sv_db := sv_db s', sv_dispatcher := sv_dispatcher s'\<rparr> \<and> I (sv_db s')"

lemma reads_only_same [simp]: "reads_only I s s \<longleftrightarrow> I (sv_db s)"
  by (simp add: reads_only_def)

lemma reads_only_db [simp]: "reads_only I s (s\<lparr>sv_db := d\<rparr>) \<longleftrightarrow> I d"
  by (simp add: reads_only_def)

lemma reads_only_dispatcher [simp]: "reads_only I s (s\<lparr>sv_dispatcher := d\<rparr>) \<longleftrightarrow> I (sv_db s)"
  by (simp add: reads_only_def)

context backend_reads
begin

lemma show_page_reads:
  assumes "\<And>db. I db \<Longrightarrow> I (snd (f be db))" "sv_store s = Some be" "I (sv_db s)"
  shows "reads_only I s (snd (show_page c f s))"
proof -
  obtain a d where "show_page c f s = (a, s\<lparr>sv_db := d\<rparr>)" "I d" using show_page_keeps [of f s c, OF assms] by blast
  then show ?thesis by simp
qed

lemma handle_reads:
  assumes "h \<notin> {H_register, H_heartbeat, H_scans, H_events, H_result}" "sv_store s = Some be" "I (sv_db s)"
  shows "reads_only I s (snd (handle e q vs h s))"
proof -
  note page = show_page_reads [OF _ assms(2,3)]
  have "reads_only I s (snd (handlePollJob arr i s))" for arr i
    using assms(3) by (auto simp: handlePollJob_def split: prod.split option.split)
  then show ?thesis
    using assms(1,3) by (cases h) (simp_all add: answer_api_def handleHealth_def page pages_keep)
qed

end



end
