(* ===== verification/System.thy ===== *)
theory System
  imports Orchestrator Server_Keeps Cli_Safe Api_Props Routes_Props Notifier_Props
begin

text \<open>
  The running orchestrator: requests through the routes, timers, the eviction of silent
  runners, polls of the registry, retention, notifications and the console beside it, in any
  order and with any failures. A step is a whole handler, analysis, poll of one package,
  attempt of a delivery or console command; the submissions of the console are requests of
  their own.
\<close>

section \<open>Steps\<close>

inductive orch_step :: "handler mux \<Rightarrow> 'db Backend \<Rightarrow> time \<Rightarrow> 'db Server \<Rightarrow> 'db Server \<Rightarrow> bool" for m be now where
  request: "sr_now e = now \<Longrightarrow> orch_step m be now s (snd (ServeHTTP m e q s))"
| analyses: "a \<in> set (tm_armed (sv_timers s)) \<Longrightarrow> snd (snd a) \<le> now \<Longrightarrow> orch_step m be now s (timer_fires ord newID clock a s)"
| evicts: "orch_step m be now s (prune_runners now (90 * second) s)"
| polls: "pollPackage (main_watcher net ord now be interval) now p (sv_db s, s) = (db', s') \<Longrightarrow>
    orch_step m be now s (s'\<lparr>sv_db := db'\<rparr>)"
| prunes: "orch_step m be now s (s\<lparr>sv_db := prune be now days (sv_db s)\<rparr>)"
| triggers: "runID \<in> set (sv_triggered s) \<Longrightarrow> nr_store n = be \<Longrightarrow> Trigger n runID (sv_db s) = (r, db') \<Longrightarrow>
    orch_step m be now s (s\<lparr>sv_db := db', sv_triggered := remove1 runID (sv_triggered s)\<rparr>)"
| delivers: "orch_step m be now s
    (s\<lparr>sv_db := recordAttempt be nv target run attempt status code body err n nextAt (sv_db s),
       sv_metrics := ObserveNotification (nt_Name target) status (sv_metrics s)\<rparr>)"
| console: "(\<And>x b. op_sqlite os x = Inr b \<Longrightarrow> b = be) \<Longrightarrow> (\<And>x b. op_postgres os x = Inr b \<Longrightarrow> b = be) \<Longrightarrow>
    (\<And>url q st. snd (cl_submit c url q st) = st) \<Longrightarrow> ap_db a = sv_db s \<Longrightarrow>
    orch_step m be now s (s\<lparr>sv_db := ap_db (snd (cli_Run os (c :: ('db, unit) Cli) args a))\<rparr>)"

inductive orch_run :: "handler mux \<Rightarrow> 'db Backend \<Rightarrow> time \<Rightarrow> 'db Server \<Rightarrow> time \<Rightarrow> 'db Server \<Rightarrow> bool" for m be t0 s0 where
  started: "orch_run m be t0 s0 t0 s0"
| goes_on: "orch_run m be t0 s0 t s \<Longrightarrow> t \<le> t' \<Longrightarrow> orch_step m be t' s s' \<Longrightarrow> orch_run m be t0 s0 t' s'"

section \<open>What the steps keep\<close>

text \<open>The registry and the timers change by few operations only.\<close>

lemma show_page_server: "\<exists>d. snd (show_page c f s) = s\<lparr>sv_db := d\<rparr>"
proof (cases "sv_store s")
  case None
  then have "snd (show_page c f s) = s\<lparr>sv_db := sv_db s\<rparr>" by (simp add: show_page_def)
  then show ?thesis ..
next
  case (Some be)
  then have "snd (show_page c f s) = s\<lparr>sv_db := snd (f be (sv_db s))\<rparr>" by (simp add: show_page_def case_prod_beta)
  then show ?thesis ..
qed

lemma show_page_frame [simp]:
  "sv_runners (snd (show_page c f s)) = sv_runners s" "sv_timers (snd (show_page c f s)) = sv_timers s"
  using show_page_server [of c f s] by auto

lemma ingest_timers: "sv_timers (snd (ingest clock i bs c n s)) = sv_timers s"
proof (induction bs arbitrary: c n s)
  case (Cons b bs)
  obtain nb ne np where "c = (nb, ne, np)" by (metis prod_cases3)
  with Cons show ?case by (auto simp: Let_def split: option.splits prod.splits sum.splits)
qed simp

lemma SubmitScan_frame [simp]:
  "sv_runners (snd (SubmitScan now r job s)) = sv_runners s" "sv_timers (snd (SubmitScan now r job s)) = sv_timers s"
  by (simp_all add: SubmitScan_def Let_def)

lemma timers_frame [simp]:
  "sv_timers (snd (handleHealth s)) = sv_timers s"
  "sv_timers (snd (handleRegister now reg s)) = sv_timers s"
  "sv_timers (snd (handleHeartbeat now i hb s)) = sv_timers s"
  "sv_timers (snd (handlePollJob arrivals i s)) = sv_timers s"
  "sv_timers (snd (handleScanResult now i w s)) = sv_timers s"
  by (simp_all add: handleHealth_def handleRegister_def handleHeartbeat_def handlePollJob_def handleScanResult_def
      split: sum.split option.split prod.split)

lemma handleQueueScan_timers [simp]: "sv_timers (snd (handleQueueScan now q s)) = sv_timers s"
  by (auto simp: handleQueueScan_def SubmitScan_def Let_def split: sum.splits prod.splits if_splits)

lemma handleEvents_timers_ok: "timers_ok (sv_timers s) \<Longrightarrow> timers_ok (sv_timers (snd (handleEvents clock now i bs bad s)))"
  using ingest_timers [of clock i bs "(0, 0, 0)" 0 s]
  by (auto simp: handleEvents_def Let_def case_prod_beta scheduleDiffer_def arm_ok split: option.split)

lemma timer_fires_timers_ok: "timers_ok (sv_timers s) \<Longrightarrow> timers_ok (sv_timers (timer_fires ord newID clock a s))"
proof -
  assume "timers_ok (sv_timers s)"
  then have "timers_ok ((sv_timers s)\<lparr>tm_armed := remove1 a (tm_armed (sv_timers s))\<rparr>)" by (rule remove_armed_ok)
  moreover from deregister_ok [OF this, of "fst (snd a)"]
  have "timers_ok ((sv_timers s)\<lparr>tm_armed := remove1 a (tm_armed (sv_timers s)), tm_reg := (tm_reg (sv_timers s))(fst (snd a) := None)\<rparr>)"
    by simp
  ultimately show ?thesis
    by (auto simp: timer_fires_def timer_body_def Let_def split: option.split prod.split sum.split)
qed

text \<open>The invariant of the running orchestrator.\<close>

definition orch_ok :: "'db Backend \<Rightarrow> ('db \<Rightarrow> bool) \<Rightarrow> time \<Rightarrow> 'db Server \<Rightarrow> bool" where
  "orch_ok be I now s \<longleftrightarrow> server_keeps be I s \<and> registry_ok now s \<and> timers_ok (sv_timers s)"

lemmas registry_frame = registry_ok_cong [OF show_page_frame(1)] registry_ok_cong [OF runners_frame(1)]
  registry_ok_cong [OF runners_frame(2)] registry_ok_cong [OF runners_frame(3)] registry_ok_cong [OF runners_frame(4)]
  registry_ok_cong [OF runners_frame(5)] registry_ok_cong [OF runners_frame(6)]

lemma ServeHTTP_registry: "sr_now e = now \<Longrightarrow> registry_ok now s \<Longrightarrow> registry_ok now (snd (ServeHTTP m e q s))"
proof -
  assume a: "sr_now e = now" "registry_ok now s"
  have "registry_ok now (snd (handle e q vs h s))" for vs h
    using a by (cases h) (simp_all add: answer_api_def register_ok heartbeat_ok registry_frame)
  then show ?thesis using a(2) by (simp add: ServeHTTP_def split: found.split)
qed

lemma ServeHTTP_timers: "timers_ok (sv_timers s) \<Longrightarrow> timers_ok (sv_timers (snd (ServeHTTP m e q s)))"
proof -
  assume a: "timers_ok (sv_timers s)"
  have "timers_ok (sv_timers (snd (handle e q vs h s)))" for vs h
    using a by (cases h) (simp_all add: answer_api_def handleEvents_timers_ok)
  then show ?thesis using a by (simp add: ServeHTTP_def split: found.split)
qed

lemma submit_release_frame:
  "sv_runners (snd (snd (submit_release ord now pkg ver (db, s)))) = sv_runners s"
  "sv_timers (snd (snd (submit_release ord now pkg ver (db, s)))) = sv_timers s"
  by (simp_all add: submit_release_def Let_def case_prod_beta)

lemma pollPackage_frame:
  assumes "pollPackage (main_watcher net ord t be interval) now p (db, s) = (db', s')"
  shows "sv_runners s' = sv_runners s" "sv_timers s' = sv_timers s"
proof -
  have "sv_runners (snd (pollPackage (main_watcher net ord t be interval) now p (db, s))) = sv_runners s"
    "sv_timers (snd (pollPackage (main_watcher net ord t be interval) now p (db, s))) = sv_timers s"
    by (simp_all add: pollPackage_def main_watcher_def new_Watcher_def Let_def submit_release_frame split: sum.split)
  then show "sv_runners s' = sv_runners s" "sv_timers s' = sv_timers s" using assms by simp_all
qed

context backend_ops
begin

lemma orch_step_kept: "orch_step m be now s s' \<Longrightarrow> server_keeps be I s \<Longrightarrow> server_keeps be I s'"
proof (induction rule: orch_step.induct)
  case (polls net ord interval p s db' s')
  then have "server_keeps be I s' \<and> I db'"
    using pollPackage_kept [of "main_watcher net ord now be interval" ord now s "sv_db s" now p]
    by (simp add: main_watcher_def new_Watcher_def server_keeps_def)
  then show ?case by (simp add: server_keeps_def)
next
  case (triggers runID s n r db')
  then show ?case using Trigger_keeps [of n "sv_db s" runID] by (simp add: server_keeps_def)
next
  case (console os c a s args)
  have "I (fst (snd (cl_submit c url q (db, w))))" if "I db" for url q db w
    using console.hyps(3) [of url q "(db, w)"] that by simp
  then have "I (ap_db (snd (cli_Run os c args a)))"
    using console by (intro cli_Run_keeps) (auto simp: server_keeps_def)
  then show ?case using console.prems by (simp add: server_keeps_def)
qed (simp_all add: ServeHTTP_kept timer_fires_kept prune_runners_kept, simp_all add: server_keeps_def prune_keeps recordAttempt_keeps)

lemma orch_step_ok:
  assumes "orch_step m be now s s'" "orch_ok be I now s"
  shows "orch_ok be I now s'"
proof -
  have k: "server_keeps be I s" and r: "registry_ok now s" and t: "timers_ok (sv_timers s)" using assms(2) by (simp_all add: orch_ok_def)
  have "registry_ok now s' \<and> timers_ok (sv_timers s')"
    using assms(1) r t
  proof (induction rule: orch_step.induct)
    case (request e s q)
    then show ?case by (simp add: ServeHTTP_registry ServeHTTP_timers)
  next
    case (analyses a s ord newID clock)
    then show ?case by (simp add: timer_fires_timers_ok registry_frame)
  next
    case (evicts s)
    then show ?case by (simp add: prune_ok) (simp add: prune_runners_def)
  next
    case (polls net ord interval p s db' s')
    then show ?case using pollPackage_frame [OF polls.hyps] by (simp add: registry_ok_def)
  qed (simp_all add: registry_ok_def)
  then show ?thesis using orch_step_kept [OF assms(1) k] by (simp add: orch_ok_def)
qed

lemma orch_run_ok:
  assumes "orch_run m be t0 s0 t s" "orch_ok be I t0 s0"
  shows "t0 \<le> t \<and> orch_ok be I t s"
  using assms
proof (induction rule: orch_run.induct)
  case (goes_on t s t' s')
  then have "orch_ok be I t' s" using registry_ok_later by (auto simp: orch_ok_def)
  then show ?case using goes_on orch_step_ok by auto
qed simp

end

section \<open>From the command line on\<close>

definition opens :: "'db storage_opener \<Rightarrow> 'db Backend \<Rightarrow> bool" where
  "opens og be \<longleftrightarrow> (\<forall>x b. og_sqlite og x = Inr b \<longrightarrow> b = be) \<and> (\<forall>x b. og_postgres og x = Inr b \<longrightarrow> b = be)"

lemma openStorage_gives: "opens og be \<Longrightarrow> openStorage og k p d = Inr store \<Longrightarrow> store = None \<or> store = Some be"
  by (auto simp: opens_def openStorage_def open_migrated_def Let_def split: if_splits option.splits sum.splits)

lemma wire_up_running:
  assumes "wire_up mc st cfg store db = Running oc"
  shows "sv_store (oc_server oc) = store" "sv_db (oc_server oc) = db" "sv_runners (oc_server oc) = []"
    "timers_ok (sv_timers (oc_server oc))" "\<exists>b u. mount_all b u = Some (oc_mux oc)"
proof -
  from assms obtain b u where "oc_mux oc = m \<Longrightarrow> mount_all b u = Some m" for m
    by (auto simp: wire_up_def Let_def split: sum.splits option.splits)
  then show "\<exists>b u. mount_all b u = Some (oc_mux oc)" by blast
qed (use assms in \<open>auto simp: wire_up_def Let_def new_Server_def SetMetrics_def timers_ok_init split: sum.splits option.splits\<close>)

lemma load_targets_never_runs: "load_targets mc store f db \<noteq> (Some (Running oc), db')"
  by (auto simp: load_targets_def split: option.splits if_splits prod.splits)

context backend_ops
begin

lemma boot_ok:
  assumes "orchestrator_main mc args db0 = (Running oc, db)" "opens (mc_opening mc) be" "I db0" "sv_store (oc_server oc) \<noteq> None"
  shows "orch_ok be I t (oc_server oc)"
proof -
  from assms(1) obtain st cfg store db1 where
      store: "store = None \<or> store = Some be" and
      db1: "db1 = ApplyAllowlist (mc_sha256 mc) (mc_clock mc 0) (Some cfg) store db0" and
      targets: "load_targets mc store (flag_string st ''notifiers-file'' []) db1 = (None, db)" and
      run: "wire_up mc st cfg store db = Running oc"
    using openStorage_gives [OF assms(2)]
    by (fastforce simp: orchestrator_main_def Let_def load_targets_never_runs split: sum.splits prod.splits option.splits)
  note w = wire_up_running [OF run]
  have be: "store = Some be" using store w(1) assms(4) by auto
  have "I db1" using ApplyAllowlist_keeps [OF disj_commute [THEN iffD1, OF store] assms(3)] db1 by simp
  then have "I db"
    using targets LoadFromFile_keeps be by (auto simp: load_targets_def split: if_splits option.splits prod.splits) (metis snd_conv)+
  then show ?thesis using w be by (simp add: orch_ok_def server_keeps_def registry_ok_def)
qed

end

text \<open>
  C3. The integrity of the whole orchestrator. From a start on any command line with a reachable
  SQLite database on, whatever requests come, timers fire, packages are polled, events are
  pruned, notifications are sent and console commands are run, in whatever order and whatever
  fails: the database stays reachable, so that its keys, references and checks hold; the
  registry has every runner once, under its own id and seen no later than now; and the
  timers that are due belong to one run each.
\<close>

theorem system_integrity:
  assumes "orchestrator_main mc args db0 = (Running oc, db)" "opens (mc_opening mc) sqlite_Backend" "sqlite_reachable db0"
    and "sv_store (oc_server oc) \<noteq> None" "orch_run (oc_mux oc) sqlite_Backend t0 (oc_server oc) t s"
  shows "sqlite_reachable (sv_db s) \<and> tables_ok (db_tab (sv_db s)) \<and> registry_ok t s \<and> timers_ok (sv_timers s)"
proof -
  from sqs.orch_run_ok [OF assms(5) sqs.boot_ok [OF assms(1-4)]]
  have "orch_ok sqlite_Backend sqlite_reachable t s" by simp
  then show ?thesis by (simp add: orch_ok_def server_keeps_def sqlite_reachable_ok)
qed

definition demo_machine :: "(sqlite, string) machine" where
  "demo_machine = \<lparr>mc_opening = \<lparr>og_mkdir = (\<lambda>_. None), og_sqlite = (\<lambda>_. Inr sqlite_Backend), og_sqlite_migrate = (\<lambda>_. None),
       og_postgres = (\<lambda>_. Inl ErrIO), og_postgres_migrate = (\<lambda>_. None), og_getenv = (\<lambda>_. [])\<rparr>,
     mc_config = (\<lambda>_. NoFile), mc_yaml = (\<lambda>_. Inl ErrIO), mc_sha256 = id, mc_outside = demo_outside, mc_file = (\<lambda>_. Inl ErrIO),
     mc_usable = (\<lambda>_. False), mc_registry = \<lparr>rg_get = (\<lambda>_. Inl ErrIO), rg_decode = (\<lambda>_. Inl ErrIO), rg_parse = (\<lambda>_. None)\<rparr>,
     mc_clock = int, mc_template = (\<lambda>p fs. Inr p), mc_version = ''dev''\<rparr>"

lemma demo_machine_runs: "\<exists>oc db. orchestrator_main demo_machine [] db0 = (Running oc, db) \<and> sv_store (oc_server oc) \<noteq> None"
proof -
  obtain ps :: "(string \<times> string) list" where ps: "parse_pages (\<lambda>p fs. Inr p) embedded_templates [] = Inr ps"
    using parse_pages_total [of "\<lambda>p fs. Inr p" embedded_templates "[]"] by auto
  have st: "Parse main_flags [] = Inr ([], [])" by (simp add: Parse_def)
  have opened: "openStorage (mc_opening demo_machine) ''sqlite'' x y = Inr (Some sqlite_Backend)" for x y
    by (simp add: openStorage_def open_migrated_def demo_machine_def)
  have "\<exists>oc. wire_up demo_machine [] empty_Config (Some sqlite_Backend) d = Running oc \<and> sv_store (oc_server oc) \<noteq> None" for d
    by (simp add: wire_up_def Let_def new_Handler_def parsePages_def ps demo_machine_def mount_all_eq serve_transport_def
        flag_string_def flag_bool_def new_Server_def SetMetrics_def)
  moreover have "flag_string [] n x = x" for n x by (simp add: flag_string_def)
  moreover have "Load (mc_yaml demo_machine) p (mc_config demo_machine p) = Inr empty_Config" for p by (simp add: Load_def demo_machine_def)
  ultimately show ?thesis
    by (simp add: orchestrator_main_def st Let_def opened load_targets_def)
qed

theorem system_integrity_witness:
  "\<exists>oc db. orchestrator_main demo_machine [] \<lparr>db_tab = empty_tables, db_faults = []\<rparr> = (Running oc, db) \<and>
     orch_run (oc_mux oc) sqlite_Backend 0 (oc_server oc) 5 (prune_runners 5 (90 * second) (oc_server oc)) \<and>
     tables_ok (db_tab (sv_db (prune_runners 5 (90 * second) (oc_server oc))))"
proof -
  let ?db = "\<lparr>db_tab = empty_tables, db_faults = []\<rparr>"
  obtain oc db where m: "orchestrator_main demo_machine [] ?db = (Running oc, db)" "sv_store (oc_server oc) \<noteq> None"
    using demo_machine_runs by blast
  have o: "opens (mc_opening demo_machine) sqlite_Backend" by (simp add: opens_def demo_machine_def)
  have r: "orch_run (oc_mux oc) sqlite_Backend 0 (oc_server oc) 5 (prune_runners 5 (90 * second) (oc_server oc))"
    by (rule orch_run.goes_on [OF orch_run.started _ orch_step.evicts]) simp
  show ?thesis
    using system_integrity [OF m(1) o sqlite_reachable.opened m(2) r] m(1) r by blast
qed

text \<open>The same of Postgres, whatever its collation.\<close>

theorem system_integrity_postgres:
  assumes "orchestrator_main mc args db0 = (Running oc, db)" "opens (mc_opening mc) (postgres_Backend coll)" "postgres_reachable coll db0"
    and "sv_store (oc_server oc) \<noteq> None" "orch_run (oc_mux oc) (postgres_Backend coll) t0 (oc_server oc) t s"
  shows "postgres_reachable coll (sv_db s) \<and> registry_ok t s \<and> timers_ok (sv_timers s)"
proof -
  from pgs.orch_run_ok [OF assms(5) pgs.boot_ok [OF assms(1-4)]]
  have "orch_ok (postgres_Backend coll) (postgres_reachable coll) t s" by simp
  then show ?thesis by (simp add: orch_ok_def server_keeps_def)
qed

end
