(* ===== verification/Pipeline.thy ===== *)
theory Pipeline
  imports Server_Keeps Agent_Props
begin

text \<open>
  From an event on the runner to a deviation: the streamer, the event handler, the timer and the analysis
  together, on SQLite.
\<close>

section \<open>What event requests leave alone\<close>

interpretation sqi: backend_ops sqlite_Backend sqlite_integ
  by unfold_locales (blast intro: sqlite_step_ok sqlite_step.intros)+

text \<open>
  While the events of a run arrive, the rest stays: what the differ compares with, who is notified,
  the package of the run.
\<close>

definition awaits :: "string \<Rightarrow> sqlite Server \<Rightarrow> sqlite Server \<Rightarrow> bool" where
  "awaits i s0 s \<longleftrightarrow>
     (let v0 = sqlite_view (db_tab (sv_db s0)); v = sqlite_view (db_tab (sv_db s)) in
      sv_store s = Some sqlite_Backend \<and> reliable (sv_db s) \<and> sqlite_integ (sv_db s) \<and>
      v_baseline v = v_baseline v0 \<and> v_devs v = v_devs v0 \<and> v_allow v = v_allow v0 \<and>
      map_option (\<lambda>r. (run_PackageName r, run_IsBaseline r)) (v_run v i) = map_option (\<lambda>r. (run_PackageName r, run_IsBaseline r)) (v_run v0 i) \<and>
      sv_hasNotifier s = sv_hasNotifier s0 \<and> sv_triggered s = sv_triggered s0)"

definition due_for :: "string \<Rightarrow> 'db Server \<Rightarrow> bool" where
  "due_for i s \<longleftrightarrow> (\<exists>a\<in>set (tm_armed (sv_timers s)). fst (snd a) = i)"

lemma arm_due: "\<exists>a\<in>set (tm_armed (arm now i t)). fst (snd a) = i"
  by (auto simp: arm_def split: option.split)

lemma view_run_in: "v_run (sqlite_view t) i \<noteq> None \<longleftrightarrow> i \<in> rn_id ` set (t_runs t)"
  by (auto simp: tables_view_def find_None_iff)

lemma events_done_view:
  fixes t :: tables and now :: time and i :: string and es :: "EventRow list"
  defines "v \<equiv> sqlite_view t" and "v' \<equiv> sqlite_view (events_done now i es t)"
  shows "v_baseline v' = v_baseline v" "v_devs v' = v_devs v" "v_allow v' = v_allow v"
    and "map_option (\<lambda>r. (run_PackageName r, run_IsBaseline r)) (v_run v' i) = map_option (\<lambda>r. (run_PackageName r, run_IsBaseline r)) (v_run v i)"
proof -
  have "find (\<lambda>r. rn_id r = i) (upd_where (\<lambda>r. rn_id r = i) (set_state x st re) rs) = map_option (set_state x st re) (find (\<lambda>r. rn_id r = i) rs)"
    for x st re and rs :: "run_row list"
    by (induction rs) (auto simp: set_state_def)
  moreover have "run_PackageName (scanRun (set_state x st re r)) = run_PackageName (scanRun r)" "run_IsBaseline (scanRun (set_state x st re r)) = run_IsBaseline (scanRun r)"
    for x st re r by (simp_all add: scanRun_def set_state_def)
  ultimately show "map_option (\<lambda>r. (run_PackageName r, run_IsBaseline r)) (v_run v' i) = map_option (\<lambda>r. (run_PackageName r, run_IsBaseline r)) (v_run v i)"
    by (simp add: v_def v'_def tables_view_def events_done_def option.map_comp comp_def)
qed (simp_all add: v_def v'_def tables_view_def events_done_def append_tab_def)

lemma awaits_handleEvents:
  assumes "awaits i s0 s" "i \<noteq> []" "v_run (sqlite_view (db_tab (sv_db s0))) i \<noteq> None"
  shows "awaits i s0 (snd (handleEvents clock now i bs None s)) \<and> due_for i (snd (handleEvents clock now i bs None s))"
proof -
  have a: "sv_store s = Some sqlite_Backend" "reliable (sv_db s)" "sqlite_integ (sv_db s)"
    using assms(1) by (simp_all add: awaits_def Let_def)
  have "v_run (sqlite_view (db_tab (sv_db s))) i \<noteq> None"
    using assms(1,3) by (auto simp: awaits_def Let_def)
  then have r: "i \<in> rn_id ` set (t_runs (db_tab (sv_db s)))" by (simp only: view_run_in)
  from handleEvents_reliable [OF a(1,2) assms(2) r, of clock now bs] obtain m where
    m: "snd (handleEvents clock now i bs None s) = s\<lparr>sv_db := (sv_db s)\<lparr>db_tab := events_done now i
        (stream_rows clock 0 i (concat (map eb_Events bs))) (db_tab (sv_db s))\<rparr>, sv_metrics := m, sv_timers := arm now i (sv_timers s)\<rparr>"
    by auto
  have "server_keeps sqlite_Backend sqlite_integ s" using a by (simp add: server_keeps_def)
  then have "server_keeps sqlite_Backend sqlite_integ (snd (handleEvents clock now i bs None s))" by (rule sqi.handlers_kept)
  then show ?thesis
    using assms(1) arm_due [of now i "sv_timers s"] unfolding m
    by (simp add: awaits_def Let_def server_keeps_def events_done_view due_for_def)
qed


text \<open>What event requests of a run keep, its streamer keeps; the first batch arms a timer.\<close>

lemma streamed_awaits:
  assumes "streamed (server_transport base clock now) (new_stream base runID (0, s0)) acc ps y"
    and "awaits i s0 s0" "i = hex_bytes runID" "i \<noteq> []" "v_run (sqlite_view (db_tab (sv_db s0))) i \<noteq> None"
  shows "awaits i s0 (snd (sy_world y)) \<and> (delivered ps \<noteq> [] \<longrightarrow> due_for i (snd (sy_world y)))"
  using assms(1)
proof (induction rule: streamed.induct)
  case start
  show ?case using assms(2) by (simp add: new_stream_def delivered_def)
next
  case (step acc ps y a y')
  let ?tr = "server_transport base clock now"
  show ?case
  proof (cases "\<exists>s. flushed_by a (sy_streamer y) = Some s \<and> es_pending s \<noteq> []")
    case True
    then obtain s where s: "flushed_by a (sy_streamer y) = Some s" "es_pending s \<noteq> []" by blast
    have "events_url s = (base @ ''/v1/runs/'') @ i @ ''/events''"
      using flushed_by_url [OF s(1)] streamed_url [OF step.hyps(1)] assms(3) by (simp add: events_url_def)
    then have u: "between (base @ ''/v1/runs/'') ''/events'' (events_url s) = Some i" by (simp only: between_middle)
    let ?p = "post_batch (sy_cancelled y) ?tr s (batch_of s) (sy_world y)"
    have w: "sy_world y' = snd ?p" "posted_by ?tr a y = [(batch_of s, fst ?p)]"
      using s by (simp_all add: world_step [OF step.hyps(2)] posted_by_def)
    show ?thesis
    proof (cases "sy_cancelled y")
      case False
      with awaits_handleEvents [OF conjunct1 [OF step.IH] assms(4,5), of "clock (fst (sy_world y))" "now (fst (sy_world y))" "[batch_of s]"]
      show ?thesis
        unfolding w by (simp add: u post_batch_def server_transport_def server_events_def routed_def answer_of_def case_prod_beta Let_def)
    qed (use step.IH w in \<open>simp add: post_batch_def delivered_def\<close>)
  next
    case False
    then have "posted_by ?tr a y = []" "sy_world y' = sy_world y"
      by (auto simp: posted_by_def world_step [OF step.hyps(2)] split: option.splits)
    then show ?thesis using step.IH by simp
  qed
qed


section \<open>What an analysis makes of the stored events\<close>

definition event_row :: "string \<Rightarrow> EventEnvelope \<Rightarrow> EventRow" where
  "event_row i e = \<lparr>ev_ID = 0, ev_RunID = i, ev_TsNS = 0, ev_Type = EventType_String (ee_Type e), ev_Data = Some (ee_Payload e)\<rparr>"

definition unknown :: "store_view \<Rightarrow> string \<Rightarrow> EventRow set \<Rightarrow> (Category \<times> string) set" where
  "unknown v pkg E =
     {cv. (\<exists>e\<in>E. contribution (Some (NewFilter (EntriesForPackage (v_allow v) pkg))) e = Some cv) \<and> v_baseline v (pkg, cv) = None}"

text \<open>Only the type and the payload of an event matter.\<close>

definition content :: "EventRow \<Rightarrow> string \<times> string \<times> json option" where
  "content e = (ev_RunID e, ev_Type e, ev_Data e)"

lemma contribution_content: "content e = content e' \<Longrightarrow> contribution f e = contribution f e'"
  by (simp add: content_def contribution_def cong: option.case_cong if_cong)

lemma unknown_content: "content ` E = content ` E' \<Longrightarrow> unknown v pkg E = unknown v pkg E'"
proof -
  have "unknown v pkg E \<subseteq> unknown v pkg E'" if h: "content ` E \<subseteq> content ` E'" for E E'
  proof
    fix cv assume "cv \<in> unknown v pkg E"
    then obtain e where e: "e \<in> E" "contribution (Some (NewFilter (EntriesForPackage (v_allow v) pkg))) e = Some cv" "v_baseline v (pkg, cv) = None"
      by (auto simp: unknown_def)
    with h obtain e' where "e' \<in> E'" "content e = content e'" by blast
    from this(2) have "contribution (Some (NewFilter (EntriesForPackage (v_allow v) pkg))) e' = Some cv"
      using e(2) contribution_content [of e e'] by metis
    then show "cv \<in> unknown v pkg E'" unfolding unknown_def using e(3) \<open>e' \<in> E'\<close> by blast
  qed
  then show "content ` E = content ` E' \<Longrightarrow> unknown v pkg E = unknown v pkg E'" by (metis order_refl subset_antisym)
qed

lemma novel_unknown:
  assumes "length (v_events v i) \<le> 10000"
  shows "(\<lambda>fp. (fp_Category fp, fp_Value fp)) ` set (novel_fps v (v_allow v) pkg i) = unknown v pkg (set (v_events v i))"
proof -
  define f where "f = Some (NewFilter (EntriesForPackage (v_allow v) pkg))"
  define C where "C = {cv. \<exists>e\<in>set (v_events v i). contribution f e = Some cv}"
  have key: "(fp_Category (summary_fp f es cv), fp_Value (summary_fp f es cv)) = cv" for es cv
    by (simp add: summary_fp_def)
  have known: "known_fp v pkg (summary_fp f es cv) \<longleftrightarrow> v_baseline v (pkg, cv) \<noteq> None" for es cv
    by (simp add: summary_fp_def known_fp_def)
  have "set (novel_fps v (v_allow v) pkg i) = {fp \<in> summary_fp f (v_events v i) ` C. \<not> known_fp v pkg fp}"
    using assms by (simp add: novel_fps_def run_fps_def fingerprints_spec_set C_def flip: f_def)
  also have "\<dots> = summary_fp f (v_events v i) ` {cv \<in> C. v_baseline v (pkg, cv) = None}"
    by (auto simp only: known mem_Collect_eq not_not image_iff)
  finally have "(\<lambda>fp. (fp_Category fp, fp_Value fp)) ` set (novel_fps v (v_allow v) pkg i) = {cv \<in> C. v_baseline v (pkg, cv) = None}"
    by (simp only: image_image key image_ident)
  then show ?thesis unfolding unknown_def C_def f_def by simp
qed

lemma view_events_content:
  "content ` set (v_events (sqlite_view t) i) = {x \<in> set (stored t). fst x = i}"
  "length (v_events (sqlite_view t) i) = length (filter (\<lambda>x. fst x = i) (stored t))"
  by (auto simp: tables_view_def order_by_def stored_def content_def filter_map comp_def image_iff)

text \<open>The events a run gained, however they were stamped, in the views before and after.\<close>

lemma stored_seen:
  assumes "stored t' = stored t @ map (as_stored i) acc"
  shows "content ` set (v_events (sqlite_view t') i) = content ` (set (v_events (sqlite_view t) i) \<union> set (map (event_row i) acc))"
    and "length (v_events (sqlite_view t') i) = length (v_events (sqlite_view t) i) + length acc"
proof -
  have "content ` set (map (event_row i) acc) = set (map (as_stored i) acc)"
    by (simp add: image_image content_def event_row_def as_stored_def)
  moreover have "x \<in> set (map (as_stored i) acc) \<Longrightarrow> fst x = i" for x by (auto simp: as_stored_def)
  ultimately have "content ` (set (v_events (sqlite_view t) i) \<union> set (map (event_row i) acc)) = {x \<in> set (stored t') . fst x = i}"
    unfolding image_Un view_events_content assms by (simp only: set_append) blast
  then show "content ` set (v_events (sqlite_view t') i) = content ` (set (v_events (sqlite_view t) i) \<union> set (map (event_row i) acc))"
    by (simp only: view_events_content)
  show "length (v_events (sqlite_view t') i) = length (v_events (sqlite_view t) i) + length acc"
    by (simp add: view_events_content assms filter_map comp_def as_stored_def)
qed


text \<open>The analysis a timer starts, seen from the server.\<close>

lemma dev_keys:
  assumes "mset (map snd ds) = mset (map dev_of_fp fps)"
  shows "(\<lambda>(d, c, x, ev, sev). (c, x)) ` set ds = (\<lambda>fp. (fp_Category fp, fp_Value fp)) ` set fps"
proof -
  have "(\<lambda>(c, x, ev, sev). (c, x)) ` set (map snd ds) = (\<lambda>(c, x, ev, sev). (c, x)) ` set (map dev_of_fp fps)"
    using assms by (metis set_mset_mset)
  then show ?thesis by (simp add: image_image case_prod_beta dev_of_fp_def)
qed

lemma timer_analyses:
  fixes s :: "sqlite Server" and clock :: "nat \<Rightarrow> time" and ord :: "bucket \<Rightarrow> bucket" and newID :: "nat \<Rightarrow> string"
    and a :: "nat \<times> string \<times> time" and i pkg :: string
  defines "v \<equiv> sqlite_view (db_tab (sv_db s))" and "s' \<equiv> timer_fires ord newID clock a s"
  defines "new \<equiv> unknown v pkg (set (v_events v i))"
  assumes "sv_store s = Some sqlite_Backend" "sqlite_integ (sv_db s)" "reliable (sv_db s)"
    and "v_run v i = Some r" "run_PackageName r = pkg" "pkg \<noteq> []" "has_baseline v pkg" "clean_baseline v"
    and "permuting ord" "inj newID" "\<forall>j s. newID j \<notin> fst ` set (v_devs v s)"
    and "length (v_events v i) \<le> 10000" "fst (snd a) = i"
  shows "(\<lambda>(d, c, x, ev, sev). (c, x)) ` set (v_devs (sqlite_view (db_tab (sv_db s'))) i) = new \<and>
    (\<forall>j. j \<noteq> i \<longrightarrow> v_devs (sqlite_view (db_tab (sv_db s'))) j = v_devs v j) \<and>
    map_option run_IsBaseline (v_run (sqlite_view (db_tab (sv_db s'))) i) = Some (run_IsBaseline r \<or> new = {}) \<and>
    sv_triggered s' = sv_triggered s @ (if sv_hasNotifier s \<and> new \<noteq> {} then [i] else [])"
proof -
  let ?fps = "novel_fps v (v_allow v) pkg i"
  from sq.AnalyzeRun_later [OF assms(5,6) assms(7) [unfolded v_def] assms(8,9) assms(10,11) [unfolded v_def] assms(12,13) assms(14) [unfolded v_def]
      allI [OF TrueI] unrestricted(2), of clock ObserveDeviationsWritten "sv_metrics s"]
  obtain db' m' ds where A: "AnalyzeRun sqlite_Backend ord newID clock ObserveDeviationsWritten i (sv_db s, sv_metrics s) = (Inr (int (length ?fps)), db', m')"
      "mset (map snd ds) = mset (map dev_of_fp ?fps)"
      "sqlite_view (db_tab db') = diff_view v i pkg r (run_fps v (v_allow v) pkg i) ds"
    unfolding v_def by blast
  have new: "(\<lambda>fp. (fp_Category fp, fp_Value fp)) ` set ?fps = new"
    unfolding new_def by (rule novel_unknown [OF assms(15)])
  then have none: "?fps = [] \<longleftrightarrow> new = {}" by auto
  have "sv_db s' = db'" "sv_triggered s' = sv_triggered s @ (if sv_hasNotifier s \<and> ?fps \<noteq> [] then [i] else [])"
    using assms(4,16) A(1) by (simp_all add: s'_def timer_fires_def timer_body_def Let_def)
  then show ?thesis
    using A(3) assms(7) dev_keys [OF A(2)] new none by (simp add: diff_view_def flip: novel_fps_def)
qed

section \<open>From the streamer to the deviations\<close>

text \<open>
  C1. What a package is newly seen doing is reported, and nothing else is. The events a runner's streamer
  accepted for a run of a package with a baseline, once it has ended by being closed, lead to an armed timer;
  when it fires, whichever of the run's it is, the deviations of the run are exactly the (category, value)
  pairs that some event of the run stands for, the operator's allowlist leaves and the baseline does not know;
  the run becomes part of the baseline if there are none, its notification is due if there are
  some and a notifier is configured, and the deviations of the other runs are as they were.
\<close>

theorem observed_become_deviations:
  fixes s0 :: "sqlite Server"
  defines "v \<equiv> sqlite_view (db_tab (sv_db s0))"
  assumes "sv_store s0 = Some sqlite_Backend" "sqlite_integ (sv_db s0)" "reliable (sv_db s0)"
    and "runID \<noteq> []" "v_run v (hex_bytes runID) = Some r" "run_PackageName r = pkg" "pkg \<noteq> []"
    and "has_baseline v pkg" "clean_baseline v" "permuting ord" "inj newID" "\<forall>j s. newID j \<notin> fst ` set (v_devs v s)"
    and "streamed (server_transport base clock now) (new_stream base runID (0, s0)) acc ps y"
    and "es_done (sy_streamer y)" "\<not> sy_cancelled y" "acc \<noteq> []" "length (v_events v (hex_bytes runID)) + length acc \<le> 10000"
  shows "let i = hex_bytes runID; s1 = snd (sy_world y); new = unknown v pkg (set (v_events v i) \<union> set (map (event_row i) acc)) in
    due_for i s1 \<and>
    (\<forall>a\<in>set (tm_armed (sv_timers s1)). fst (snd a) = i \<longrightarrow>
       (let s2 = timer_fires ord newID clock' a s1; v2 = sqlite_view (db_tab (sv_db s2)) in
        (\<lambda>(d, c, x, ev, sev). (c, x)) ` set (v_devs v2 i) = new \<and> (\<forall>j. j \<noteq> i \<longrightarrow> v_devs v2 j = v_devs v j) \<and>
        map_option run_IsBaseline (v_run v2 i) = Some (run_IsBaseline r \<or> new = {}) \<and>
        sv_triggered s2 = sv_triggered s0 @ (if sv_hasNotifier s0 \<and> new \<noteq> {} then [i] else [])))"
proof -
  let ?i = "hex_bytes runID" and ?s1 = "snd (sy_world y)"
  let ?v1 = "sqlite_view (db_tab (sv_db ?s1))"
  have i: "?i \<noteq> []" by (rule hex_bytes_nonempty [OF assms(5)])
  have in0: "?i \<in> rn_id ` set (t_runs (db_tab (sv_db s0)))" using assms(6) unfolding v_def view_run_in [symmetric] by simp
  note c = closed_stream [OF assms(2,4,5) in0 assms(14-16)]
  have "delivered ps \<noteq> []" using c(1,3) assms(17) by (cases ps) (auto simp: delivered_def)
  moreover have "awaits ?i s0 s0" using assms(2-4) by (simp add: awaits_def Let_def)
  ultimately have w: "awaits ?i s0 ?s1" "due_for ?i ?s1"
    using streamed_awaits [OF assms(14) _ refl i] assms(6) by (simp_all add: v_def)
  have st: "stored (db_tab (sv_db ?s1)) = stored (db_tab (sv_db s0)) @ map (as_stored ?i) acc"
    using c(2,3) by (simp add: fed_def comp_def)
  note seen = stored_seen [OF st]
  from w(1) have v1: "v_baseline ?v1 = v_baseline v" "v_devs ?v1 = v_devs v" "v_allow ?v1 = v_allow v"
    and r1: "map_option (\<lambda>r. (run_PackageName r, run_IsBaseline r)) (v_run ?v1 ?i) = Some (pkg, run_IsBaseline r)"
    and s1: "sv_store ?s1 = Some sqlite_Backend" "sqlite_integ (sv_db ?s1)" "reliable (sv_db ?s1)" "sv_hasNotifier ?s1 = sv_hasNotifier s0"
      "sv_triggered ?s1 = sv_triggered s0"
    using assms(6,7) by (simp_all add: awaits_def Let_def v_def)
  from r1 obtain r' where r': "v_run ?v1 ?i = Some r'" "run_PackageName r' = pkg" "run_IsBaseline r' = run_IsBaseline r" by auto
  have new: "unknown ?v1 pkg (set (v_events ?v1 ?i)) = unknown v pkg (set (v_events v ?i) \<union> set (map (event_row ?i) acc))"
    unfolding unknown_content [OF seen(1)] by (simp add: unknown_def v1 v_def)
  have len: "length (v_events ?v1 ?i) \<le> 10000" using seen(2) assms(18) by (simp add: v_def)
  have b: "has_baseline ?v1 pkg" "clean_baseline ?v1" "\<forall>j s. newID j \<notin> fst ` set (v_devs ?v1 s)"
    using assms(9,10,13) by (simp_all add: has_baseline_def clean_baseline_def v1)
  show ?thesis
    using timer_analyses [OF s1(1-3) r'(1,2) assms(8) b(1,2) assms(11,12) b(3) len, of _ clock'] w(2)
    unfolding new v1 r'(3) s1(4,5) by (simp only: Let_def) blast
qed


definition demo_detecting :: "sqlite Server" where
  "demo_detecting = demo_server\<lparr>sv_db := (demo_db [demo_row])\<lparr>db_tab := (demo_tables [demo_row])\<lparr>t_runs := t_runs (demo_tables []) @ [demo_run ''07'']\<rparr>\<rparr>,
     sv_hasNotifier := True\<rparr>"

lemma demo_detecting_facts:
  defines "v \<equiv> sqlite_view (db_tab (sv_db demo_detecting))"
  shows "sv_store demo_detecting = Some sqlite_Backend" "sqlite_integ (sv_db demo_detecting)" "reliable (sv_db demo_detecting)"
    and "hex_bytes [7] = ''07''" "v_run v ''07'' = Some (scanRun (demo_run ''07''))" "has_baseline v ''left-pad''" "clean_baseline v"
    and "\<forall>j s. demo_ids j \<notin> fst ` set (v_devs v s)" "v_events v ''07'' = []" "sv_triggered demo_detecting = []"
    and "unknown v ''left-pad'' {event_row ''07'' (demo_envelope ''evil.org'')} = {(CatNetDNS, ''evil.org'')}"
proof -
  show "sqlite_integ (sv_db demo_detecting)" by code_simp
  show "hex_bytes [7] = ''07''" by code_simp
  have b: "v_baseline v = v_baseline (sqlite_view (demo_tables [demo_row]))" "v_devs v = v_devs (sqlite_view (demo_tables [demo_row]))"
    by (simp_all add: v_def demo_detecting_def tables_view_def)
  show "has_baseline v ''left-pad''" "clean_baseline v" "\<forall>j s. demo_ids j \<notin> fst ` set (v_devs v s)"
    using demo_has_baseline demo_ids(2) by (simp_all add: has_baseline_def clean_baseline_def b)
  show "v_run v ''07'' = Some (scanRun (demo_run ''07''))"
    by (simp add: v_def demo_detecting_def tables_view_def demo_tables_def demo_run_def)
  show "v_events v ''07'' = []"
    by (simp add: v_def demo_detecting_def tables_view_def demo_tables_def demo_event_def order_by_def)
  have "event_row ''07'' (demo_envelope ''evil.org'') = demo_event 0 ''07'' ''evil.org''"
    by (simp add: event_row_def demo_envelope_def demo_event_def EventType_String_def)
  then show "unknown v ''left-pad'' {event_row ''07'' (demo_envelope ''evil.org'')} = {(CatNetDNS, ''evil.org'')}"
    by (auto simp: unknown_def demo_contribution b demo_baseline)
  show "reliable (sv_db demo_detecting)" by (simp add: demo_detecting_def)
  show "sv_store demo_detecting = Some sqlite_Backend" "sv_triggered demo_detecting = []"
    by (simp_all add: demo_detecting_def demo_server_def new_Server_def)
qed

theorem observed_become_deviations_witness:
  "\<exists>ps y a. streamed (server_transport ''http://o'' (\<lambda>n k. int k) int) (new_stream ''http://o'' [7] (0, demo_detecting)) [demo_envelope ''evil.org''] ps y \<and>
     (let s2 = timer_fires (\<lambda>b. b) demo_ids int a (snd (sy_world y)) in
      (\<lambda>(d, c, x, ev, sev). (c, x)) ` set (v_devs (sqlite_view (db_tab (sv_db s2))) ''07'') = {(CatNetDNS, ''evil.org'')} \<and>
      sv_triggered s2 = [''07''])"
proof -
  let ?tr = "server_transport ''http://o'' (\<lambda>n k. int k) int"
  obtain ps y where y: "streamed ?tr (new_stream ''http://o'' [7] (0, demo_detecting)) [demo_envelope ''evil.org''] ps y"
      "es_done (sy_streamer y)" "\<not> sy_cancelled y"
    using one_event_stream [of ?tr "''http://o''" "[7]" "(0, demo_detecting)" "demo_envelope ''evil.org''"] by blast
  note f = demo_detecting_facts
  from observed_become_deviations [OF f(1,2,3) _ _ demo_run_pkg _ f(6,7) permuting_id demo_ids(1) f(8) y, of "''07''" int]
  have "due_for ''07'' (snd (sy_world y)) \<and> (\<forall>a\<in>set (tm_armed (sv_timers (snd (sy_world y)))). fst (snd a) = ''07'' \<longrightarrow>
      (let s2 = timer_fires (\<lambda>b. b) demo_ids int a (snd (sy_world y)) in
      (\<lambda>(d, c, x, ev, sev). (c, x)) ` set (v_devs (sqlite_view (db_tab (sv_db s2))) ''07'') = {(CatNetDNS, ''evil.org'')} \<and>
      sv_triggered s2 = [''07'']))"
    by (simp add: f Let_def) (simp add: demo_detecting_def)
  then show ?thesis using y(1) unfolding due_for_def by blast
qed

end
