(* ===== verification/Contract.thy ===== *)
theory Contract
  imports Storage
begin

text \<open>
  \<open>storage/storagetest/contract.go\<close>: the contract that every backend is tested against, as a
  function of the backend, the clock and the database. A subtest reports the checks that
  failed; \<open>t.Fatalf\<close> ends it, \<open>t.Errorf\<close> does not. The subtests share the database.
\<close>

section \<open>Tests\<close>

type_synonym 'db outcome = "string list \<times> 'db"

definition expect :: "string \<Rightarrow> bool \<Rightarrow> string list" where
  "expect what b = (if b then [] else [what])"

text \<open>A step that must succeed, and one whose error is dropped.\<close>

definition must :: "string \<Rightarrow> (err + 'a) \<times> 'db \<Rightarrow> ('a \<Rightarrow> 'db \<Rightarrow> 'db outcome) \<Rightarrow> 'db outcome" where
  "must what r k = (case r of (Inl e, db) \<Rightarrow> ([what], db) | (Inr x, db) \<Rightarrow> k x db)"

definition got :: "'a \<Rightarrow> (err + 'a) \<times> 'db \<Rightarrow> ('a \<Rightarrow> 'db \<Rightarrow> 'db outcome) \<Rightarrow> 'db outcome" where
  "got zero r k = k (case fst r of Inl e \<Rightarrow> zero | Inr x \<Rightarrow> x) (snd r)"

definition fails_with :: "err \<Rightarrow> err + 'a \<Rightarrow> bool" where
  "fails_with t r = (case r of Inl e \<Rightarrow> errors_Is e t | Inr x \<Rightarrow> False)"

text \<open>Reports of checks that do not end the subtest, before the rest of it.\<close>

definition reported :: "string list \<Rightarrow> 'db outcome \<Rightarrow> 'db outcome" where
  "reported fs o1 = (fs @ fst o1, snd o1)"

definition succeeds :: "string \<Rightarrow> (err + 'a) \<times> 'db \<Rightarrow> ('db \<Rightarrow> 'db outcome) \<Rightarrow> 'db outcome" where
  "succeeds what r k = reported (expect what (\<not> isl (fst r))) (k (snd r))"

section \<open>Zero values and literals\<close>

definition zero_Run :: Run where
  "zero_Run = \<lparr>run_ID = [], run_PackageName = [], run_Version = [], run_TarballSHA256 = [], run_LockfileSHA256 = [], run_NodeVersion = [],
     run_NPMVersion = [], run_State = [], run_Attempt = 0, run_IsBaseline = False, run_StartedAt = None, run_FinishedAt = None,
     run_FailureReason = [], run_EventsEmitted = 0, run_EventsDropped = 0, run_DurationNS = 0\<rparr>"

definition pending_run :: "string \<Rightarrow> Run" where
  "pending_run i = zero_Run\<lparr>run_ID := i, run_State := RunStatePending, run_Attempt := 1\<rparr>"

definition package_run :: "string \<Rightarrow> Run" where
  "package_run i = (pending_run i)\<lparr>run_PackageName := ''p'', run_Version := ''1''\<rparr>"

definition result_literal :: "string \<Rightarrow> string \<Rightarrow> int \<Rightarrow> int \<Rightarrow> int \<Rightarrow> ScanResult" where
  "result_literal status reason emitted dropped duration =
     \<lparr>sr_Status = status, sr_Reason = reason, sr_EventsEmitted = emitted, sr_EventsDropped = dropped, sr_DurationNS = duration\<rparr>"

definition event_literal :: "string \<Rightarrow> int \<Rightarrow> string \<Rightarrow> json \<Rightarrow> EventRow" where
  "event_literal i ts ty body = \<lparr>ev_ID = 0, ev_RunID = i, ev_TsNS = ts, ev_Type = ty, ev_Data = Some body\<rparr>"

definition notification_literal :: "string \<Rightarrow> int \<Rightarrow> string \<Rightarrow> time \<Rightarrow> int \<Rightarrow> string \<Rightarrow> NotificationRow" where
  "notification_literal i attempt status now code msg =
     \<lparr>nf_ID = i, nf_RunID = ''notif-run'', nf_NotifierName = ''notif-audit'', nf_Attempt = attempt, nf_Status = status,
      nf_LastAttemptedAt = Some now, nf_NextAttemptAt = None, nf_ResponseCode = code, nf_ResponseBody = [], nf_ErrorMsg = msg,
      nf_DeviationCount = 3, nf_CreatedAt = zero_time\<rparr>"

section \<open>Runs\<close>

type_synonym 'db subtest = "'db Backend \<Rightarrow> (nat \<Rightarrow> time) \<Rightarrow> 'db \<Rightarrow> 'db outcome"

definition test_roundtrip :: "'db subtest" where
  "test_roundtrip b clock db =
     must ''CreateRun'' (be_CreateRun b (clock 0) ((pending_run ''run-001'')\<lparr>run_PackageName := ''left-pad'', run_Version := ''1.3.0''\<rparr>) db) (\<lambda>_ db.
     must ''GetRun'' (be_GetRun b ''run-001'' db) (\<lambda>r db.
       (expect ''roundtrip mismatch'' (run_ID r = ''run-001'' \<and> run_PackageName r = ''left-pad'' \<and> run_Version r = ''1.3.0'') @
        expect ''state'' (run_State r = RunStatePending), db)))"

definition test_missing :: "'db subtest" where
  "test_missing b clock db =
     (let (r, db) = be_GetRun b ''does-not-exist'' db in (expect ''want ErrNotFound'' (fails_with ErrNotFound r), db))"

definition test_duplicate :: "'db subtest" where
  "test_duplicate b clock db =
     must ''first CreateRun'' (be_CreateRun b (clock 0) (pending_run ''run-dup'') db) (\<lambda>_ db.
       let (r, db) = be_CreateRun b (clock 1) (pending_run ''run-dup'') db in (expect ''want ErrConflict'' (fails_with ErrConflict r), db))"

definition test_transitions :: "'db subtest" where
  "test_transitions b clock db =
     must ''CreateRun'' (be_CreateRun b (clock 0) (pending_run ''run-trans'') db) (\<lambda>_ db.
     must ''update -> building'' (be_UpdateRunState b (clock 1) ''run-trans'' RunStateBuilding [] db) (\<lambda>_ db.
     got zero_Run (be_GetRun b ''run-trans'' db) (\<lambda>r db.
     reported (expect ''state after building update'' (run_State r = RunStateBuilding) @
               expect ''StartedAt not stamped on building transition'' (run_StartedAt r \<noteq> None)) (
     must ''update -> done'' (be_UpdateRunState b (clock 2) ''run-trans'' RunStateDone [] db) (\<lambda>_ db.
     got zero_Run (be_GetRun b ''run-trans'' db) (\<lambda>r db.
       (expect ''FinishedAt not stamped on done transition'' (run_FinishedAt r \<noteq> None), db)))))))"

definition test_failed :: "'db subtest" where
  "test_failed b clock db =
     (let db = snd (be_CreateRun b (clock 0) (pending_run ''run-fail'') db) in
      must ''update -> failed'' (be_UpdateRunState b (clock 1) ''run-fail'' RunStateFailed ''image pull timeout'' db) (\<lambda>_ db.
      got zero_Run (be_GetRun b ''run-fail'' db) (\<lambda>r db.
        (expect ''state'' (run_State r = RunStateFailed) @ expect ''failure_reason'' (run_FailureReason r = ''image pull timeout''), db))))"

definition test_update_missing :: "'db subtest" where
  "test_update_missing b clock db =
     (let (r, db) = be_UpdateRunState b (clock 0) ''no-such-run'' RunStateDone [] db in (expect ''want ErrNotFound'' (fails_with ErrNotFound r), db))"

text \<open>The loop of the ordering test; an error in it ends the subtest.\<close>

fun start_runs :: "'db Backend \<Rightarrow> (nat \<Rightarrow> time) \<Rightarrow> string list \<Rightarrow> ('db \<Rightarrow> 'db outcome) \<Rightarrow> 'db \<Rightarrow> 'db outcome" where
  "start_runs b clock [] k db = k db"
| "start_runs b clock (i # is) k db =
     (let db = snd (be_CreateRun b (clock 0) (pending_run i) db) in
      must ''UpdateRunState'' (be_UpdateRunState b (clock 1) i RunStateBuilding [] db) (\<lambda>_ db.
      start_runs b (\<lambda>n. clock (n + 2)) is k db))"

text \<open>The position a Go map gives for an id: the last one, or zero when it is missing.\<close>

definition position :: "Run list \<Rightarrow> string \<Rightarrow> nat" where
  "position rs i = (case map_of (rev (zip (map run_ID rs) [0..<length rs])) i of None \<Rightarrow> 0 | Some n \<Rightarrow> n)"

definition test_newest_first :: "'db subtest" where
  "test_newest_first b clock db =
     start_runs b clock [''list-a'', ''list-b'', ''list-c''] (\<lambda>db.
     must ''ListRuns'' (be_ListRuns b 50 db) (\<lambda>runs db.
       (expect ''ordering wrong'' (position runs ''list-c'' < position runs ''list-a''), db))) db"

section \<open>Events\<close>

definition test_events :: "'db subtest" where
  "test_events b clock db =
     (let db = snd (be_CreateRun b (clock 0) (pending_run ''run-evt'') db) in
      must ''AppendEvents'' (be_AppendEvents b ''run-evt''
        [event_literal ''run-evt'' 200 ''file_access'' (JObj [(''path'', JStr ''/etc/shadow'')]),
         event_literal ''run-evt'' 100 ''file_access'' (JObj [(''path'', JStr ''/etc/passwd'')]),
         event_literal ''run-evt'' 300 ''net_connect'' (JObj [(''dest'', JStr ''1.2.3.4:443'')])] db) (\<lambda>_ db.
      must ''EventCount'' (be_EventCount b ''run-evt'' db) (\<lambda>count db.
      reported (expect ''EventCount'' (count = 3)) (
      must ''ListEventsByRun'' (be_ListEventsByRun b ''run-evt'' 0 db) (\<lambda>out db.
        if length out \<noteq> 3 then ([''want 3''], db)
        else (expect ''not ordered by ts_ns'' (ev_TsNS (out ! 0) = 100 \<and> ev_TsNS (out ! 1) = 200 \<and> ev_TsNS (out ! 2) = 300) @
              expect ''type roundtrip'' (ev_Type (out ! 2) = ''net_connect''), db))))))"

definition test_no_events :: "'db subtest" where
  "test_no_events b clock db =
     (let db = snd (be_CreateRun b (clock 0) (pending_run ''run-empty'') db) in
      succeeds ''AppendEvents(nil)'' (be_AppendEvents b ''run-empty'' [] db) (\<lambda>db.
      got 0 (be_EventCount b ''run-empty'' db) (\<lambda>n db. (expect ''expected 0 events'' (n = 0), db))))"

definition test_events_missing_run :: "'db subtest" where
  "test_events_missing_run b clock db =
     (let (r, db) = be_AppendEvents b ''no-run'' [event_literal ''no-run'' 1 ''file_access'' (JObj [])] db in
      (expect ''expected error'' (isl r), db))"

definition test_prune :: "'db subtest" where
  "test_prune b clock db =
     (let db = snd (be_CreateRun b (clock 0) (package_run ''prune-run'') db);
          db = snd (be_AppendEvents b ''prune-run'' [event_literal ''prune-run'' 1 ''file_access'' (JObj []),
                 event_literal ''prune-run'' 1 ''net_connect'' (JObj [])] db) in
      got [] (be_ListEventsByRun b ''prune-run'' 0 db) (\<lambda>evs db.
      if length evs \<noteq> 2 then ([''seed: expected 2 events''], db)
      else
      must ''WriteDeviations'' (be_WriteDeviations b [\<lparr>dv_ID = ''dev-prune'', dv_RunID = ''prune-run'', dv_Category = ''net_new_destination'',
        dv_Value = ''1.1.1.1:80'', dv_EvidenceEventID = ev_ID (evs ! 1), dv_Severity = ''high'', dv_DetectedAt = clock 1, dv_NotifiedAt = None,
        dv_Suppressed = False\<rparr>] db) (\<lambda>_ db.
      must ''PruneEvents'' (be_PruneEvents b (clock 2 + 24 * 3600 * 10 ^ 9) db) (\<lambda>n db.
      reported (expect ''expected at least 1'' (n \<ge> 1)) (
      got [] (be_ListEventsByRun b ''prune-run'' 0 db) (\<lambda>left db.
        (expect ''pinned evidence event was pruned'' (list_ex (\<lambda>e. ev_ID e = ev_ID (evs ! 1)) left), db)))))))"

section \<open>Results\<close>

definition test_result :: "'db subtest" where
  "test_result b clock db =
     (let db = snd (be_CreateRun b (clock 0) (package_run ''scan-res-1'') db) in
      must ''RecordScanResult'' (be_RecordScanResult b (clock 1) ''scan-res-1'' (result_literal ''ok'' [] 42 3 5500000000) db) (\<lambda>_ db.
      got zero_Run (be_GetRun b ''scan-res-1'' db) (\<lambda>r db.
        (expect ''state'' (run_State r = RunStateDone) @ expect ''finished_at not stamped'' (run_FinishedAt r \<noteq> None) @
         expect ''metrics'' (run_EventsEmitted r = 42 \<and> run_EventsDropped r = 3 \<and> run_DurationNS r = 5500000000), db))))"

definition test_failed_result :: "'db subtest" where
  "test_failed_result b clock db =
     (let db = snd (be_CreateRun b (clock 0) (package_run ''scan-res-2'') db) in
      must ''RecordScanResult'' (be_RecordScanResult b (clock 1) ''scan-res-2'' (result_literal ''failed'' ''container exited 137'' 0 0 0) db) (\<lambda>_ db.
      got zero_Run (be_GetRun b ''scan-res-2'' db) (\<lambda>r db.
        (expect ''state'' (run_State r = RunStateFailed) @ expect ''failure_reason'' (run_FailureReason r = ''container exited 137''), db))))"

definition test_result_missing :: "'db subtest" where
  "test_result_missing b clock db =
     (let (r, db) = be_RecordScanResult b (clock 0) ''ghost'' (result_literal ''ok'' [] 0 0 0) db in
      (expect ''want ErrNotFound'' (fails_with ErrNotFound r), db))"

definition test_dropped :: "'db subtest" where
  "test_dropped b clock db =
     (let db = snd (be_CreateRun b (clock 0) (package_run ''drop-a'') db);
          db = snd (be_CreateRun b (clock 1) (package_run ''drop-b'') db);
          db = snd (be_RecordScanResult b (clock 2) ''drop-a'' (result_literal ''ok'' [] 0 5 0) db);
          db = snd (be_RecordScanResult b (clock 3) ''drop-b'' (result_literal ''ok'' [] 0 7 0) db) in
      must ''EventsDroppedTotal'' (be_EventsDroppedTotal b db) (\<lambda>n db. (expect ''want at least 12'' (n \<ge> 12), db)))"

section \<open>Allowlist and notifiers\<close>

definition has_id :: "string \<Rightarrow> AllowEntry list \<Rightarrow> bool" where
  "has_id i es = list_ex (\<lambda>e. al_ID e = i) es"

definition test_allowlist :: "'db subtest" where
  "test_allowlist b clock db =
     must ''AddAllowEntry global'' (be_AddAllowEntry b (clock 0) \<lparr>al_ID = ''allow-glob-1'', al_Scope = AllowScopeGlobal, al_PackageName = [],
       al_Kind = AllowKindCIDR, al_Value = ''10.0.0.0/8'', al_Note = ''internal'', al_CreatedAt = zero_time\<rparr> db) (\<lambda>_ db.
     must ''AddAllowEntry package'' (be_AddAllowEntry b (clock 1) \<lparr>al_ID = ''allow-pkg-1'', al_Scope = AllowScopePackage, al_PackageName = ''axios'',
       al_Kind = AllowKindSNI, al_Value = ''telemetry.example'', al_Note = [], al_CreatedAt = zero_time\<rparr> db) (\<lambda>_ db.
     must ''ListAllowEntries'' (be_ListAllowEntries b db) (\<lambda>all db.
     reported (expect ''ListAllowEntries missing entries'' (has_id ''allow-glob-1'' all \<and> has_id ''allow-pkg-1'' all) @
       expect ''EntriesForPackage(axios) missing entries''
         (has_id ''allow-glob-1'' (EntriesForPackage all ''axios'') \<and> has_id ''allow-pkg-1'' (EntriesForPackage all ''axios'')) @
       concat (map (\<lambda>e. expect ''EntriesForPackage(lodash) leaked'' (al_ID e \<noteq> ''allow-pkg-1'')) (EntriesForPackage all ''lodash''))) (
     must ''ResolveAllowPrefix'' (be_ResolveAllowPrefix b ''allow-glob'' db) (\<lambda>e db.
     reported (expect ''ResolveAllowPrefix wrong row'' (al_ID e = ''allow-glob-1'')) (
     let (r, db) = be_ResolveAllowPrefix b ''missing-'' db in
     reported (expect ''ResolveAllowPrefix missing'' (fails_with ErrNotFound r)) (
     succeeds ''DeleteAllowEntry'' (be_DeleteAllowEntry b ''allow-glob-1'' db) (\<lambda>db.
     succeeds ''DeleteAllowEntry idempotent'' (be_DeleteAllowEntry b ''allow-glob-1'' db) (\<lambda>db.
     let (r, db) = be_ResolveAllowPrefix b ''allow-glob'' db in
     (expect ''expected ErrNotFound after delete'' (fails_with ErrNotFound r), db))))))))))"

definition contract_notifier :: "string \<Rightarrow> string \<Rightarrow> string \<Rightarrow> NotifierRow" where
  "contract_notifier name url severity =
     \<lparr>nt_Name = name, nt_URL = url, nt_Template = ''generic'', nt_SecretEnv = [], nt_Headers = [], nt_MinSeverity = severity, nt_Enabled = True,
      nt_CreatedAt = zero_time, nt_UpdatedAt = zero_time\<rparr>"

definition test_notifiers :: "'db subtest" where
  "test_notifiers b clock db =
     must ''UpsertNotifier'' (be_UpsertNotifier b (clock 0) (contract_notifier ''notif-1'' ''https://hooks.example/x'' ''high'') db) (\<lambda>_ db.
     must ''UpsertNotifier update'' (be_UpsertNotifier b (clock 1) (contract_notifier ''notif-1'' ''https://hooks.example/updated'' ''high'') db) (\<lambda>_ db.
     must ''GetNotifier'' (be_GetNotifier b ''notif-1'' db) (\<lambda>n db.
     reported (expect ''upsert didn't update URL'' (nt_URL n = ''https://hooks.example/updated'')) (
     must ''ListNotifiers'' (be_ListNotifiers b db) (\<lambda>ns db.
     reported (expect ''ListNotifiers missing notif-1'' (list_ex (\<lambda>n. nt_Name n = ''notif-1'') ns)) (
     let (r, db) = be_GetNotifier b ''no-such-notifier'' db in
     reported (expect ''GetNotifier missing'' (fails_with ErrNotFound r)) (
     succeeds ''DeleteNotifier'' (be_DeleteNotifier b ''notif-1'' db) (\<lambda>db.
     succeeds ''DeleteNotifier idempotent'' (be_DeleteNotifier b ''notif-1'' db) (\<lambda>db. ([], db))))))))))"

definition test_notifications :: "'db subtest" where
  "test_notifications b clock db =
     (let db = snd (be_CreateRun b (clock 0) (package_run ''notif-run'') db);
          db = snd (be_UpsertNotifier b (clock 1) (contract_notifier ''notif-audit'' ''https://x'' []) db);
          now = clock 2 in
      must ''RecordNotification 1'' (be_RecordNotification b (clock 3) (notification_literal ''nrow-1'' 1 ''failed'' now 503 ''upstream down'') db) (\<lambda>_ db.
      must ''RecordNotification 2'' (be_RecordNotification b (clock 4) (notification_literal ''nrow-2'' 2 ''sent'' now 200 []) db) (\<lambda>_ db.
      must ''ListNotificationsByRun'' (be_ListNotificationsByRun b ''notif-run'' db) (\<lambda>rows db.
        if length rows \<noteq> 2 then ([''expected 2 attempts''], db)
        else (expect ''not ordered by attempt'' (nf_Attempt (rows ! 0) = 1 \<and> nf_Attempt (rows ! 1) = 2) @
              expect ''status roundtrip'' (nf_Status (rows ! 0) = ''failed'' \<and> nf_Status (rows ! 1) = ''sent'') @
              expect ''response_code roundtrip'' (nf_ResponseCode (rows ! 1) = 200), db)))))"

section \<open>The contract\<close>

definition subtests :: "'db subtest list" where
  "subtests =
     [test_roundtrip, test_missing, test_duplicate, test_transitions, test_failed, test_update_missing, test_events, test_no_events,
      test_newest_first, test_events_missing_run, test_result, test_failed_result, test_result_missing, test_dropped, test_prune,
      test_allowlist, test_notifiers, test_notifications]"

text \<open>The readings of the clock go on from subtest to subtest; none needs more than ten.\<close>

fun run_subtests :: "'db subtest list \<Rightarrow> 'db Backend \<Rightarrow> (nat \<Rightarrow> time) \<Rightarrow> 'db \<Rightarrow> 'db outcome" where
  "run_subtests [] b clock db = ([], db)"
| "run_subtests (t # ts) b clock db =
     (let (fs, db') = t b clock db in reported fs (run_subtests ts b (\<lambda>n. clock (n + 10)) db'))"

definition RunContract :: "'db subtest" where
  "RunContract b clock db = run_subtests subtests b clock db"

end
