(* ===== verification/Contract_Props.thy ===== *)
theory Contract_Props
  imports Contract Sqlite Postgres Schema_View
begin

text \<open>
  Both backends keep the contract. Each subtest is followed symbolically from any state that
  the ones before it can have left; what it leaves is again such a state.
\<close>

section \<open>The state between two subtests\<close>

abbreviation db_of :: "'t \<Rightarrow> 't sdb" where "db_of t \<equiv> \<lparr>db_tab = t, db_faults = []\<rparr>"

text \<open>
  The subtests so far left the runs \<open>R\<close> and the deviations \<open>Dv\<close>, and nothing in the tables of the
  last ones.
\<close>

definition tested :: "string list \<Rightarrow> string list \<Rightarrow> ('ts, 'b) db_tables \<Rightarrow> bool" where
  "tested R Dv t \<longleftrightarrow> map rn_id (t_runs t) = R \<and> list_all (\<lambda>r. rn_events_dropped r \<in> {0..7}) (t_runs t) \<and>
     list_all (\<lambda>e. ev_RunID e \<in> set R \<and> ev_ID e \<le> t_seq t) (t_events t) \<and> map de_id (t_deviations t) = Dv \<and>
     t_allowlists t = [] \<and> t_notifiers t = [] \<and> t_notifications t = []"

lemma tested_runs: "tested R Dv t \<Longrightarrow> rn_id ` set (t_runs t) = set R"
  by (auto simp: tested_def)

lemma tested_events: "tested R Dv t \<Longrightarrow> i \<notin> set R \<Longrightarrow> filter (\<lambda>e. ev_RunID e = i) (t_events t) = []"
  by (auto simp: tested_def list_all_iff filter_empty_conv)

definition passes :: "('db subtest) \<Rightarrow> 'db Backend \<Rightarrow> (nat \<Rightarrow> time) \<Rightarrow> ('db \<Rightarrow> bool) \<Rightarrow> ('db \<Rightarrow> bool) \<Rightarrow> bool" where
  "passes test be c P Q \<longleftrightarrow> (\<forall>db. P db \<longrightarrow> fst (test be c db) = [] \<and> Q (snd (test be c db)))"

definition in_state :: "string list \<Rightarrow> string list \<Rightarrow> ('ts, 'b) db_tables sdb \<Rightarrow> bool" where
  "in_state R Dv db \<longleftrightarrow> db_faults db = [] \<and> tested R Dv (db_tab db)"

lemma passesI:
  assumes "\<And>t. tested R Dv t \<Longrightarrow> \<exists>t'. test be c (db_of t) = ([], db_of t') \<and> tested R' Dv' t'"
  shows "passes test be c (in_state R Dv) (in_state R' Dv')"
  unfolding passes_def
proof (intro allI impI)
  fix db :: "('a, 'b) db_tables sdb"
  assume "in_state R Dv db"
  then have "db = db_of (db_tab db)" "tested R Dv (db_tab db)" by (simp_all add: in_state_def)
  then show "fst (test be c db) = [] \<and> in_state R' Dv' (snd (test be c db))"
    using assms [of "db_tab db"] by (metis fst_conv snd_conv in_state_def sdb.select_convs)
qed

text \<open>What the last subtests need.\<close>

definition no_targets :: "string list \<Rightarrow> ('ts, 'b) db_tables sdb \<Rightarrow> bool" where
  "no_targets R db \<longleftrightarrow> db_faults db = [] \<and> map rn_id (t_runs (db_tab db)) = R \<and> t_notifiers (db_tab db) = [] \<and> t_notifications (db_tab db) = []"

lemma passes_no_targetsI:
  assumes "\<And>t. tested R Dv t \<Longrightarrow> \<exists>aw. test be c (db_of t) = ([], db_of (t\<lparr>t_allowlists := aw\<rparr>))"
  shows "passes test be c (in_state R Dv) (no_targets R)"
  unfolding passes_def
proof (intro allI impI)
  fix db :: "('a, 'b) db_tables sdb"
  assume "in_state R Dv db"
  then have db: "db = db_of (db_tab db)" "tested R Dv (db_tab db)" by (simp_all add: in_state_def)
  then obtain aw where "test be c db = ([], db_of ((db_tab db)\<lparr>t_allowlists := aw\<rparr>))" using assms by metis
  then show "fst (test be c db) = [] \<and> no_targets R (snd (test be c db))"
    using db(2) by (simp add: no_targets_def tested_def)
qed

lemma passes_targetsI:
  assumes "\<And>t. map rn_id (t_runs t) = R \<Longrightarrow> rn_id ` set (t_runs t) = set R \<Longrightarrow> t_notifiers t = [] \<Longrightarrow> t_notifications t = [] \<Longrightarrow>
    \<exists>t'. test be c (db_of t) = ([], db_of t') \<and> Q (db_of t')"
  shows "passes test be c (no_targets R) Q"
  unfolding passes_def
proof (intro allI impI)
  fix db :: "('a, 'b) db_tables sdb"
  assume "no_targets R db"
  then have db: "db = db_of (db_tab db)" "map rn_id (t_runs (db_tab db)) = R" "t_notifiers (db_tab db) = []" "t_notifications (db_tab db) = []"
    by (simp_all add: no_targets_def)
  then have "rn_id ` set (t_runs (db_tab db)) = set R" by auto
  then show "fst (test be c db) = [] \<and> Q (snd (test be c db))"
    using assms [of "db_tab db"] db by (metis fst_conv snd_conv)
qed

lemma pass_Nil: "passes (run_subtests []) be c P P"
  by (simp add: passes_def)

lemma pass_Cons:
  "passes test be c P Q \<Longrightarrow> passes (run_subtests ts) be (\<lambda>n. c (n + 10)) Q Q' \<Longrightarrow> passes (run_subtests (test # ts)) be c P Q'"
  by (simp add: passes_def reported_def Let_def case_prod_beta)

named_theorems contract_simps

lemma find_fresh [contract_simps]: "x \<notin> f ` set xs \<Longrightarrow> find (\<lambda>y. f y = x) xs = None"
  by (auto simp: find_None_iff)
lemma filter_fresh [contract_simps]: "x \<notin> f ` set xs \<Longrightarrow> filter (\<lambda>y. f y = x) xs = []"
  by (auto simp: filter_empty_conv)
lemma upd_fresh [contract_simps]: "x \<notin> f ` set xs \<Longrightarrow> upd_where (\<lambda>y. f y = x) g xs = xs"
  by (rule upd_where_none) auto
lemma upd_app [contract_simps]: "upd_where p g (xs @ ys) = upd_where p g xs @ upd_where p g ys"
  by (simp add: upd_where_def)

lemmas [contract_simps] = find_append must_def got_def succeeds_def reported_def expect_def fails_with_def Let_def
  stmt_def must_affect_def wrap_err_def insert_run_def update_runs_def RunState_IsValid_def
  pending_run_def zero_Run_def package_run_def set_state_def affected_def set_result_def result_state_def result_literal_def

lemma unique_text [simp]: "isUniqueViolation unique_failed"
  by code_simp

section \<open>SQLite\<close>

lemmas [contract_simps] = sqlite_CreateRun_def sqlite_GetRun_def sqlite_UpdateRunState_def sqlite_RecordScanResult_def encode_run_def scanRun_def
  nullableTime_def

lemma tested_add_run:
  "tested R Dv t \<Longrightarrow> rn_events_dropped r \<in> {0..7} \<Longrightarrow> R' = R @ [rn_id r] \<Longrightarrow> tested R' Dv (t\<lparr>t_runs := t_runs t @ [r]\<rparr>)"
  by (auto simp: tested_def list_all_iff)


lemmas [contract_simps] = tested_runs tested_add_run

lemma sqlite_run_tests:
  "''run-001'' \<notin> set R \<Longrightarrow> passes test_roundtrip sqlite_Backend c (in_state R Dv) (in_state (R @ [''run-001'']) Dv)"
  "''does-not-exist'' \<notin> set R \<Longrightarrow> passes test_missing sqlite_Backend c (in_state R Dv) (in_state R Dv)"
  "''run-dup'' \<notin> set R \<Longrightarrow> passes test_duplicate sqlite_Backend c (in_state R Dv) (in_state (R @ [''run-dup'']) Dv)"
  "''run-trans'' \<notin> set R \<Longrightarrow> passes test_transitions sqlite_Backend c (in_state R Dv) (in_state (R @ [''run-trans'']) Dv)"
  "''run-fail'' \<notin> set R \<Longrightarrow> passes test_failed sqlite_Backend c (in_state R Dv) (in_state (R @ [''run-fail'']) Dv)"
  "''no-such-run'' \<notin> set R \<Longrightarrow> passes test_update_missing sqlite_Backend c (in_state R Dv) (in_state R Dv)"
  by (rule passesI; simp add: test_roundtrip_def test_missing_def test_duplicate_def test_transitions_def test_failed_def test_update_missing_def
      contract_simps)+

lemma sqlite_result_tests:
  "''scan-res-1'' \<notin> set R \<Longrightarrow> passes test_result sqlite_Backend c (in_state R Dv) (in_state (R @ [''scan-res-1'']) Dv)"
  "''scan-res-2'' \<notin> set R \<Longrightarrow> passes test_failed_result sqlite_Backend c (in_state R Dv) (in_state (R @ [''scan-res-2'']) Dv)"
  "''ghost'' \<notin> set R \<Longrightarrow> passes test_result_missing sqlite_Backend c (in_state R Dv) (in_state R Dv)"
  by (rule passesI; simp add: test_result_def test_failed_result_def test_result_missing_def contract_simps)+

lemmas [contract_simps] = sqlite_AppendEvents_def in_tx_def insert_event_def sqlite_EventCount_def sqlite_ListEventsByRun_def order_by_def limit_rows_def
  tested_events event_literal_def

lemma tested_add_events [contract_simps]:
  "tested R Dv t \<Longrightarrow> rn_events_dropped r \<in> {0..7} \<Longrightarrow> list_all (\<lambda>e. ev_RunID e = rn_id r \<and> ev_ID e \<le> n) es \<Longrightarrow> t_seq t \<le> n \<Longrightarrow> R' = R @ [rn_id r] \<Longrightarrow>
   tested R' Dv (t\<lparr>t_runs := t_runs t @ [r], t_events := t_events t @ es, t_seq := n\<rparr>)"
  by (auto simp: tested_def list_all_iff)

lemma sqlite_event_tests:
  "''run-evt'' \<notin> set R \<Longrightarrow> passes test_events sqlite_Backend c (in_state R Dv) (in_state (R @ [''run-evt'']) Dv)"
  "''run-empty'' \<notin> set R \<Longrightarrow> passes test_no_events sqlite_Backend c (in_state R Dv) (in_state (R @ [''run-empty'']) Dv)"
  "''no-run'' \<notin> set R \<Longrightarrow> passes test_events_missing_run sqlite_Backend c (in_state R Dv) (in_state R Dv)"
  by (rule passesI; simp add: test_events_def test_no_events_def test_events_missing_run_def contract_simps)+

lemma tested_dropped:
  assumes "tested R Dv t"
  shows "0 \<le> sum_list (map rn_events_dropped (t_runs t)) \<and> sum_list (map rn_events_dropped (t_runs t)) \<le> 7 * int (length R)"
proof -
  have "list_all (\<lambda>r. rn_events_dropped r \<in> {0..7}) rs \<Longrightarrow>
      0 \<le> sum_list (map rn_events_dropped rs) \<and> sum_list (map rn_events_dropped rs) \<le> 7 * int (length rs)" for rs :: "('a, 'b) run_cols list"
    by (induction rs) auto
  moreover have "length R = length (t_runs t)" using assms by (auto simp: tested_def)
  ultimately show ?thesis using assms by (simp add: tested_def)
qed

lemma tested_add_runs [contract_simps]:
  "tested R Dv t \<Longrightarrow> list_all (\<lambda>r. rn_events_dropped r \<in> {0..7}) rs \<Longrightarrow> R' = R @ map rn_id rs \<Longrightarrow> tested R' Dv (t\<lparr>t_runs := t_runs t @ rs\<rparr>)"
  by (auto simp: tested_def list_all_iff)

lemma sqlite_dropped_test:
  assumes "''drop-a'' \<notin> set R" "''drop-b'' \<notin> set R"
  shows "passes test_dropped sqlite_Backend c (in_state R Dv) (in_state (R @ [''drop-a'', ''drop-b'']) Dv)"
proof (rule passesI)
  fix t :: tables
  assume t: "tested R Dv t"
  then show "\<exists>t'. test_dropped sqlite_Backend c (db_of t) = ([], db_of t') \<and> tested (R @ [''drop-a'', ''drop-b'']) Dv t'"
    using assms tested_dropped [OF t] by (simp add: test_dropped_def sqlite_EventsDroppedTotal_def contract_simps)
qed

lemmas [contract_simps] = sqlite_WriteDeviations_def insert_deviation_def add_deviation_def encode_deviation_def sqlite_PruneEvents_def delete_events_def

lemma tested_evidence [contract_simps]:
  "tested R [] t \<Longrightarrow> rn_events_dropped r \<in> {0..7} \<Longrightarrow> list_all (\<lambda>e. ev_RunID e = rn_id r \<and> ev_ID e \<le> n) es \<Longrightarrow> t_seq t \<le> n \<Longrightarrow> R' = R @ [rn_id r] \<Longrightarrow>
   Dv' = [de_id d] \<Longrightarrow> tested R' Dv' (t\<lparr>t_runs := t_runs t @ [r], t_seq := n, t_deviations := [d], t_events := filter p (t_events t) @ es\<rparr>)"
  by (auto simp: tested_def list_all_iff)

lemma tested_events_both [contract_simps]:
  "tested R Dv t \<Longrightarrow> i \<notin> set R \<Longrightarrow> filter (\<lambda>e. p e \<and> ev_RunID e = i) (t_events t) = []"
  by (auto simp: tested_def list_all_iff filter_empty_conv)

lemma sqlite_prune_test:
  assumes "''prune-run'' \<notin> set R" "c 2 > 0"
  shows "passes test_prune sqlite_Backend c (in_state R []) (in_state (R @ [''prune-run'']) [''dev-prune''])"
proof (rule passesI)
  fix t :: tables
  assume t: "tested R [] t"
  then have "t_deviations t = []" by (simp add: tested_def)
  with t show "\<exists>t'. test_prune sqlite_Backend c (db_of t) = ([], db_of t') \<and> tested (R @ [''prune-run'']) [''dev-prune''] t'"
    using assms by (simp add: test_prune_def contract_simps)
qed

section \<open>The order of runs\<close>

lemma position_nth: "distinct (map run_ID rs) \<Longrightarrow> n < length rs \<Longrightarrow> position rs (run_ID (rs ! n)) = n"
proof -
  assume a: "distinct (map run_ID rs)" "n < length rs"
  let ?z = "zip (map run_ID rs) [0..<length rs]"
  have "(run_ID (rs ! n), n) \<in> set (rev ?z)" using a(2) by (force simp: set_zip)
  moreover have "distinct (map fst (rev ?z))" using a(1) by (simp add: rev_map [symmetric])
  ultimately have "map_of (rev ?z) (run_ID (rs ! n)) = Some n" by simp
  then show ?thesis by (simp add: position_def)
qed

text \<open>What is listed by a descending key has the larger key first.\<close>

lemma newer_first:
  assumes "distinct (map run_ID (map f rs))" "x \<in> set rs" "y \<in> set rs" "k x < k y" "length rs \<le> n"
  shows "position (map f (take n (order_by_desc k rs))) (run_ID (f y)) < position (map f (take n (order_by_desc k rs))) (run_ID (f x))"
proof -
  let ?ys = "order_by_desc k rs"
  have set: "set ?ys = set rs" "length ?ys = length rs" "mset ?ys = mset rs" by (simp_all add: order_by_desc_def)
  then have all: "take n ?ys = ?ys" using assms(5) by simp
  have "mset (map run_ID (map f ?ys)) = mset (map run_ID (map f rs))" using set(3) by simp
  then have d: "distinct (map run_ID (map f ?ys))" using assms(1) by (metis mset_eq_imp_distinct_iff)
  obtain a b where ab: "a < length ?ys" "?ys ! a = x" "b < length ?ys" "?ys ! b = y"
    using assms(2,3) set(1) by (metis in_set_conv_nth)
  have "sorted (rev (map k ?ys))" by (simp add: order_by_desc_def rev_map)
  then have "b < a" using sorted_rev_nth_mono [of "map k ?ys" a b] ab assms(4) by (metis leD length_map not_le_imp_less nth_map)
  then show ?thesis using position_nth [OF d, of a] position_nth [OF d, of b] ab all by simp
qed

lemma sqlite_order_test:
  assumes "distinct R" "''list-a'' \<notin> set R" "''list-b'' \<notin> set R" "''list-c'' \<notin> set R" "length R \<le> 47" "format_time (c 0) < format_time (c 4)"
  shows "passes test_newest_first sqlite_Backend c (in_state R Dv) (in_state (R @ [''list-a'', ''list-b'', ''list-c'']) Dv)"
proof (rule passesI)
  fix t :: tables
  assume t: "tested R Dv t"
  let ?row = "\<lambda>i s. encode_run (pending_run i)\<lparr>rn_state := RunStateBuilding, rn_started_at := Some (format_time s)\<rparr>"
  let ?rs = "t_runs t @ [?row ''list-a'' (c 0), ?row ''list-b'' (c (Suc (Suc 0))), ?row ''list-c'' (c (Suc (Suc (Suc (Suc 0)))))]"
  let ?p = "position (map scanRun (take 50 (order_by_desc rn_started_at ?rs)))"
  have ids: "run_ID (scanRun (?row i s)) = i" for i s by (simp add: contract_simps)
  have "map run_ID (map scanRun ?rs) = R @ [''list-a'', ''list-b'', ''list-c'']"
    using t by (simp add: tested_def scanRun_def comp_def ids [unfolded scanRun_def]) (simp add: contract_simps)
  moreover have "length ?rs \<le> 50" using t assms(5) by (auto simp: tested_def)
  moreover have "rn_started_at (?row ''list-a'' (c 0)) < rn_started_at (?row ''list-c'' (c (Suc (Suc (Suc (Suc 0))))))"
    using assms(6) by (simp add: eval_nat_numeral)
  ultimately have "?p (run_ID (scanRun (?row ''list-c'' (c (Suc (Suc (Suc (Suc 0)))))))) < ?p (run_ID (scanRun (?row ''list-a'' (c 0))))"
    using assms(1-4) by (intro newer_first) simp_all
  then have p: "?p ''list-c'' < ?p ''list-a''" unfolding ids .
  show "\<exists>t'. test_newest_first sqlite_Backend c (db_of t) = ([], db_of t') \<and> tested (R @ [''list-a'', ''list-b'', ''list-c'']) Dv t'"
    using t assms(1-4) p [unfolded encode_run_def pending_run_def zero_Run_def] by (simp add: test_newest_first_def sqlite_ListRuns_def contract_simps)
qed

section \<open>Allowlist and notifiers\<close>

lemmas [contract_simps] = sqlite_AddAllowEntry_def insert_allow_def encode_allow_def allow_checks_def sqlite_ListAllowEntries_def scanAllowEntry_def
  sqlite_ResolveAllowPrefix_def sqlite_DeleteAllowEntry_def resolve_def resolve_matches_def NullString_def nullableString_def has_id_def

lemma like_allow [contract_simps]:
  "like lower_char ''allow-glob%'' ''allow-glob-1''" "\<not> like lower_char ''allow-glob%'' ''allow-pkg-1''"
  "\<not> like lower_char ''missing-%'' ''allow-glob-1''" "\<not> like lower_char ''missing-%'' ''allow-pkg-1''"
  by code_simp+

lemma sqlite_allow_test: "passes test_allowlist sqlite_Backend c (in_state R Dv) (no_targets R)"
proof (rule passes_no_targetsI)
  fix t :: tables
  assume "tested R Dv t"
  then have "t_allowlists t = []" by (simp add: tested_def)
  then show "\<exists>aw. test_allowlist sqlite_Backend c (db_of t) = ([], db_of (t\<lparr>t_allowlists := aw\<rparr>))"
    by (simp add: test_allowlist_def contract_simps del: like.simps) blast
qed

lemmas [contract_simps] = sqlite_UpsertNotifier_def upsert_notifier_def encode_notifier_def sqlite_ListNotifiers_def sqlite_GetNotifier_def scanNotifier_def
  sqlite_DeleteNotifier_def delete_notifier_def sqlite_RecordNotification_def insert_notification_def encode_notification_def
  sqlite_ListNotificationsByRun_def scanNotification_def contract_notifier_def notification_literal_def boolInt_def

lemma sqlite_target_tests:
  "passes test_notifiers sqlite_Backend c (no_targets R) (no_targets R)"
  "''notif-run'' \<notin> set R \<Longrightarrow> passes test_notifications sqlite_Backend c (no_targets R) (\<lambda>_. True)"
  by (rule passes_targetsI; simp add: no_targets_def test_notifiers_def test_notifications_def contract_simps)+

lemmas sqlite_tests = sqlite_run_tests sqlite_event_tests sqlite_order_test sqlite_result_tests sqlite_dropped_test sqlite_prune_test sqlite_allow_test
  sqlite_target_tests

lemma contract_on_sqlite:
  assumes "\<And>m n. m < n \<Longrightarrow> format_time (c m) < format_time (c n)" "\<And>n. 0 < c n"
  shows "passes RunContract sqlite_Backend c (in_state [] []) (\<lambda>_. True)"
proof -
  have "passes (run_subtests subtests) sqlite_Backend c (in_state [] []) (\<lambda>_. True)"
    unfolding subtests_def by ((rule pass_Cons, (rule sqlite_tests; simp add: assms))+, rule pass_Nil)
  then show ?thesis by (simp add: passes_def RunContract_def)
qed

section \<open>Postgres\<close>

lemmas [contract_simps] = pg_stmt_def pg_query_def pg_query_row_def postgres_CreateRun_def run_texts_def postgres_GetRun_def postgres_UpdateRunState_def
  postgres_RecordScanResult_def pg_encode_run_def pg_scanRun_def pg_nullableTime_def int4_def pg_text_def

lemma pg_unique_text [simp]: "pg_isUniqueViolation (pg_error unique_failed)"
  by code_simp

lemma pg_not_found [simp]: "pg_error ErrNotFound = ErrNotFound"
  by (simp add: pg_error_def)

lemma postgres_run_tests:
  "''run-001'' \<notin> set R \<Longrightarrow> passes test_roundtrip (postgres_Backend coll) c (in_state R Dv) (in_state (R @ [''run-001'']) Dv)"
  "''does-not-exist'' \<notin> set R \<Longrightarrow> passes test_missing (postgres_Backend coll) c (in_state R Dv) (in_state R Dv)"
  "''run-dup'' \<notin> set R \<Longrightarrow> passes test_duplicate (postgres_Backend coll) c (in_state R Dv) (in_state (R @ [''run-dup'']) Dv)"
  "''run-trans'' \<notin> set R \<Longrightarrow> passes test_transitions (postgres_Backend coll) c (in_state R Dv) (in_state (R @ [''run-trans'']) Dv)"
  "''run-fail'' \<notin> set R \<Longrightarrow> passes test_failed (postgres_Backend coll) c (in_state R Dv) (in_state (R @ [''run-fail'']) Dv)"
  "''no-such-run'' \<notin> set R \<Longrightarrow> passes test_update_missing (postgres_Backend coll) c (in_state R Dv) (in_state R Dv)"
  by (rule passesI; simp add: test_roundtrip_def test_missing_def test_duplicate_def test_transitions_def test_failed_def test_update_missing_def
      contract_simps)+

lemma postgres_result_tests:
  "''scan-res-1'' \<notin> set R \<Longrightarrow> passes test_result (postgres_Backend coll) c (in_state R Dv) (in_state (R @ [''scan-res-1'']) Dv)"
  "''scan-res-2'' \<notin> set R \<Longrightarrow> passes test_failed_result (postgres_Backend coll) c (in_state R Dv) (in_state (R @ [''scan-res-2'']) Dv)"
  "''ghost'' \<notin> set R \<Longrightarrow> passes test_result_missing (postgres_Backend coll) c (in_state R Dv) (in_state R Dv)"
  by (rule passesI; simp add: test_result_def test_failed_result_def test_result_missing_def contract_simps)+

lemmas [contract_simps] = postgres_AppendEvents_def pg_in_tx_def pg_insert_event_def jsonb_def postgres_EventCount_def postgres_ListEventsByRun_def

lemma tested_seq [contract_simps]: "tested R Dv t \<Longrightarrow> t_seq t \<le> n \<Longrightarrow> tested R Dv (t\<lparr>t_seq := n\<rparr>)"
  by (auto simp: tested_def list_all_iff)

lemma postgres_event_tests:
  "''run-evt'' \<notin> set R \<Longrightarrow> passes test_events (postgres_Backend coll) c (in_state R Dv) (in_state (R @ [''run-evt'']) Dv)"
  "''run-empty'' \<notin> set R \<Longrightarrow> passes test_no_events (postgres_Backend coll) c (in_state R Dv) (in_state (R @ [''run-empty'']) Dv)"
  "''no-run'' \<notin> set R \<Longrightarrow> passes test_events_missing_run (postgres_Backend coll) c (in_state R Dv) (in_state R Dv)"
  by (rule passesI; simp add: test_events_def test_no_events_def test_events_missing_run_def contract_simps)+

lemma postgres_dropped_test:
  assumes "''drop-a'' \<notin> set R" "''drop-b'' \<notin> set R" "length R \<le> 100"
  shows "passes test_dropped (postgres_Backend coll) c (in_state R Dv) (in_state (R @ [''drop-a'', ''drop-b'']) Dv)"
proof (rule passesI)
  fix t :: pg_tables
  assume t: "tested R Dv t"
  then show "\<exists>t'. test_dropped (postgres_Backend coll) c (db_of t) = ([], db_of t') \<and> tested (R @ [''drop-a'', ''drop-b'']) Dv t'"
    using assms tested_dropped [OF t] by (simp add: test_dropped_def postgres_EventsDroppedTotal_def contract_simps)
qed

lemmas [contract_simps] = postgres_WriteDeviations_def failing_def pg_insert_deviation_def pg_encode_deviation_def postgres_PruneEvents_def

lemma postgres_prune_test:
  assumes "''prune-run'' \<notin> set R" "c 2 > 0"
  shows "passes test_prune (postgres_Backend coll) c (in_state R []) (in_state (R @ [''prune-run'']) [''dev-prune''])"
proof (rule passesI)
  fix t :: pg_tables
  assume t: "tested R [] t"
  then have "t_deviations t = []" by (simp add: tested_def)
  with t show "\<exists>t'. test_prune (postgres_Backend coll) c (db_of t) = ([], db_of t') \<and> tested (R @ [''prune-run'']) [''dev-prune''] t'"
    using assms by (simp add: test_prune_def contract_simps)
qed

lemma postgres_order_test:
  assumes "distinct R" "''list-a'' \<notin> set R" "''list-b'' \<notin> set R" "''list-c'' \<notin> set R" "length R \<le> 47" "pg_time (c 0) < pg_time (c 4)"
  shows "passes test_newest_first (postgres_Backend coll) c (in_state R Dv) (in_state (R @ [''list-a'', ''list-b'', ''list-c'']) Dv)"
proof (rule passesI)
  fix t :: pg_tables
  assume t: "tested R Dv t"
  let ?row = "\<lambda>i s. pg_encode_run (pending_run i)\<lparr>rn_state := RunStateBuilding, rn_started_at := Some (pg_time s)\<rparr>"
  let ?rs = "t_runs t @ [?row ''list-a'' (c 0), ?row ''list-b'' (c (Suc (Suc 0))), ?row ''list-c'' (c (Suc (Suc (Suc (Suc 0)))))]"
  let ?p = "position (map pg_scanRun (take 50 (order_by_desc rn_started_at ?rs)))"
  have ids: "run_ID (pg_scanRun (?row i s)) = i" for i s by (simp add: contract_simps)
  have "map run_ID (map pg_scanRun ?rs) = R @ [''list-a'', ''list-b'', ''list-c'']"
    using t by (simp add: tested_def pg_scanRun_def comp_def ids [unfolded pg_scanRun_def]) (simp add: contract_simps)
  moreover have "length ?rs \<le> 50" using t assms(5) by (auto simp: tested_def)
  moreover have "rn_started_at (?row ''list-a'' (c 0)) < rn_started_at (?row ''list-c'' (c (Suc (Suc (Suc (Suc 0))))))"
    using assms(6) by (simp add: eval_nat_numeral)
  ultimately have "?p (run_ID (pg_scanRun (?row ''list-c'' (c (Suc (Suc (Suc (Suc 0)))))))) < ?p (run_ID (pg_scanRun (?row ''list-a'' (c 0))))"
    using assms(1-4) by (intro newer_first) simp_all
  then have p: "?p ''list-c'' < ?p ''list-a''" unfolding ids .
  show "\<exists>t'. test_newest_first (postgres_Backend coll) c (db_of t) = ([], db_of t') \<and> tested (R @ [''list-a'', ''list-b'', ''list-c'']) Dv t'"
    using t assms(1-4) p [unfolded pg_encode_run_def pending_run_def zero_Run_def]
    by (simp add: test_newest_first_def postgres_ListRuns_def contract_simps)
qed

lemmas [contract_simps] = postgres_AddAllowEntry_def pg_encode_allow_def postgres_ListAllowEntries_def scanAllowEntryPg_def nullableStringPg_def
  postgres_ResolveAllowPrefix_def postgres_DeleteAllowEntry_def pg_resolve_def pg_matches_def

lemma pg_like_allow [contract_simps]:
  "pg_like ''allow-glob%'' ''allow-glob-1''" "\<not> pg_like ''allow-glob%'' ''allow-pkg-1''"
  "\<not> pg_like ''missing-%'' ''allow-glob-1''" "\<not> pg_like ''missing-%'' ''allow-pkg-1''"
  by code_simp+

lemma has_id_iff: "has_id i es \<longleftrightarrow> (\<exists>e\<in>set es. al_ID e = i)"
  by (auto simp: has_id_def list_ex_iff)

lemma entries_for_package:
  "(\<exists>e\<in>set (EntriesForPackage es p). P e) \<longleftrightarrow>
     (\<exists>e\<in>set es. (al_Scope e = AllowScopeGlobal \<or> al_Scope e = AllowScopePackage \<and> al_PackageName e = p) \<and> P e)"
  "(\<forall>e\<in>set (EntriesForPackage es p). P e) \<longleftrightarrow>
     (\<forall>e\<in>set es. al_Scope e = AllowScopeGlobal \<or> al_Scope e = AllowScopePackage \<and> al_PackageName e = p \<longrightarrow> P e)"
  by (induction es) auto

lemma no_reports: "concat (map (\<lambda>e. if P e then [] else [w]) es) = [] \<longleftrightarrow> (\<forall>e\<in>set es. P e)"
  by auto

lemma set_order_by: "set (order_by k rs) = set rs"
  by (simp add: order_by_def)

text \<open>The order of the entries is the collation's and does not matter.\<close>

lemma postgres_allow_test: "passes test_allowlist (postgres_Backend coll) c (in_state R Dv) (no_targets R)"
proof (rule passes_no_targetsI)
  fix t :: pg_tables
  assume "tested R Dv t"
  then have "t_allowlists t = []" by (simp add: tested_def)
  then show "\<exists>aw. test_allowlist (postgres_Backend coll) c (db_of t) = ([], db_of (t\<lparr>t_allowlists := aw\<rparr>))"
    by (simp add: test_allowlist_def contract_simps has_id_iff entries_for_package set_order_by no_reports
        del: order_by_def has_id_def concat_eq_Nil_conv) blast
qed

lemmas [contract_simps] = postgres_UpsertNotifier_def pg_encode_notifier_def postgres_ListNotifiers_def postgres_GetNotifier_def scanNotifierPg_def
  postgres_DeleteNotifier_def postgres_RecordNotification_def pg_encode_notification_def postgres_ListNotificationsByRun_def scanNotificationPg_def

lemma postgres_target_tests:
  "passes test_notifiers (postgres_Backend coll) c (no_targets R) (no_targets R)"
  "''notif-run'' \<notin> set R \<Longrightarrow> passes test_notifications (postgres_Backend coll) c (no_targets R) (\<lambda>_. True)"
  by (rule passes_targetsI; simp add: no_targets_def test_notifiers_def test_notifications_def contract_simps)+

lemmas postgres_tests = postgres_run_tests postgres_event_tests postgres_order_test postgres_result_tests postgres_dropped_test postgres_prune_test
  postgres_allow_test postgres_target_tests

lemma contract_on_postgres:
  assumes "\<And>m n. m < n \<Longrightarrow> pg_time (c m) < pg_time (c n)" "\<And>n. 0 < c n"
  shows "passes RunContract (postgres_Backend coll) c (in_state [] []) (\<lambda>_. True)"
proof -
  have "passes (run_subtests subtests) (postgres_Backend coll) c (in_state [] []) (\<lambda>_. True)"
    unfolding subtests_def by ((rule pass_Cons, (rule postgres_tests; simp add: assms))+, rule pass_Nil)
  then show ?thesis by (simp add: passes_def RunContract_def)
qed

section \<open>The contract holds, given time\<close>

lemma fresh_state: "in_state [] [] \<lparr>db_tab = empty_tables, db_faults = []\<rparr>"
  by (simp add: in_state_def tested_def empty_tables_def)

text \<open>
  C4. Both backends keep the storage contract: on a fresh database that does not fail, no check
  of any subtest fails, whatever the clock reads as long as later readings are stored as
  later instants, and for Postgres whatever the collation.
\<close>

theorem contract_kept:
  assumes "\<And>n. 0 < c n"
  shows "((\<forall>m n. m < n \<longrightarrow> format_time (c m) < format_time (c n)) \<longrightarrow>
      fst (RunContract sqlite_Backend c \<lparr>db_tab = empty_tables, db_faults = []\<rparr>) = []) \<and>
    ((\<forall>m n. m < n \<longrightarrow> pg_time (c m) < pg_time (c n)) \<longrightarrow>
      fst (RunContract (postgres_Backend coll) c \<lparr>db_tab = empty_tables, db_faults = []\<rparr>) = [])"
proof (intro conjI impI)
  assume "\<forall>m n. m < n \<longrightarrow> format_time (c m) < format_time (c n)"
  then show "fst (RunContract sqlite_Backend c \<lparr>db_tab = empty_tables, db_faults = []\<rparr>) = []"
    using contract_on_sqlite [of c] assms by (simp add: passes_def fresh_state)
next
  assume "\<forall>m n. m < n \<longrightarrow> pg_time (c m) < pg_time (c n)"
  then show "fst (RunContract (postgres_Backend coll) c \<lparr>db_tab = empty_tables, db_faults = []\<rparr>) = []"
    using contract_on_postgres [of c] assms by (simp add: passes_def fresh_state)
qed

lemma whole_seconds: "m < n \<Longrightarrow> format_time (int (Suc m) * 1000000000) < format_time (int (Suc n) * 1000000000)"
  by (simp add: format_time_def Let_def)

theorem contract_kept_witness:
  "fst (RunContract sqlite_Backend (\<lambda>n. int (Suc n) * 1000000000) \<lparr>db_tab = empty_tables, db_faults = []\<rparr>) = [] \<and>
   fst (RunContract (postgres_Backend id) (\<lambda>n. int (Suc n) * 1000000000) \<lparr>db_tab = empty_tables, db_faults = []\<rparr>) = []"
proof -
  have "pg_time (int (Suc m) * 1000000000) < pg_time (int (Suc n) * 1000000000)" if "m < n" for m n
    using that by (simp add: pg_time_def)
  then show ?thesis
    using contract_kept [of "\<lambda>n. int (Suc n) * 1000000000" id] whole_seconds by simp
qed

text \<open>
  The condition matters: the text of an instant does not order like the instant. When the
  first of the three runs of the ordering subtest is created exactly half a second past a second and
  the others two and four milliseconds later, SQLite lists the first before the last.
\<close>

theorem contract_flaky:
  "fst (test_newest_first sqlite_Backend (\<lambda>n. 1000500000000 + int n * 1000000) \<lparr>db_tab = empty_tables, db_faults = []\<rparr>) = [''ordering wrong'']"
  by code_simp

end
