(* ===== verification/Smoketest.thy ===== *)
theory Smoketest
  imports Sensor_Props
begin

text \<open>
  \<open>cmd/sensor-smoketest\<close>: the flag values, one session of the sensor on a cgroup, and the lines
  printed for its events. The text of the relative time (a floating-point number) is a
  parameter, as are the file system, the kernel, the clock and the standard output.
\<close>

section \<open>Watched paths\<close>

record watchSpec =
  sp_Prefix :: string
  sp_CredTagged :: bool

definition watchList_String :: "watchSpec list \<Rightarrow> string" where
  "watchList_String w = Join (map (\<lambda>s. if sp_CredTagged s then sp_Prefix s @ ''@cred'' else sp_Prefix s) w) '',''"

definition watchList_Set :: "string \<Rightarrow> watchSpec list \<Rightarrow> err + watchSpec list" where
  "watchList_Set value w =
     (let credTagged = HasSuffix value ''@cred'';
          v = (if credTagged then TrimSuffix value ''@cred'' else value)
      in if v = [] then Inl (Msg ''empty path prefix'')
         else if \<not> HasPrefix v ''/'' then Inl (Msg (''watch prefix must be absolute (start with /): '' @ Quote v))
         else if length v > 256 then Inl (Msg (''watch prefix exceeds 256 bytes: '' @ Quote v))
         else Inr (w @ [\<lparr>sp_Prefix = v, sp_CredTagged = credTagged\<rparr>]))"

text \<open>The values of the repeated flag, in their order.\<close>

fun watchList_all :: "string list \<Rightarrow> watchSpec list \<Rightarrow> err + watchSpec list" where
  "watchList_all [] w = Inr w"
| "watchList_all (v # vs) w = (case watchList_Set v w of Inl e \<Rightarrow> Inl e | Inr w' \<Rightarrow> watchList_all vs w')"

section \<open>Run ids\<close>

definition fromHexChar :: "char \<Rightarrow> nat option" where
  "fromHexChar c =
     (let n = (of_char c :: nat) in
      if 48 \<le> n \<and> n \<le> 57 then Some (n - 48)
      else if 97 \<le> n \<and> n \<le> 102 then Some (n - 87)
      else if 65 \<le> n \<and> n \<le> 70 then Some (n - 55)
      else None)"

text \<open>\<open>hex.DecodeString\<close>; the message for an invalid byte also names it.\<close>

fun hex_decode :: "string \<Rightarrow> err + byte list" where
  "hex_decode [] = Inr []"
| "hex_decode [c] = (if fromHexChar c = None then Inl (Msg ''encoding/hex: invalid byte'') else Inl (Msg ''encoding/hex: odd length hex string''))"
| "hex_decode (a # b # s) =
     (case (fromHexChar a, fromHexChar b) of
        (Some x, Some y) \<Rightarrow> (case hex_decode s of Inl e \<Rightarrow> Inl e | Inr bs \<Rightarrow> Inr (of_nat (16 * x + y) # bs))
      | _ \<Rightarrow> Inl (Msg ''encoding/hex: invalid byte''))"

definition put_uint64 :: "64 word \<Rightarrow> byte list" where
  "put_uint64 w = map (\<lambda>i. ucast (drop_bit (56 - 8 * i) w)) [0..<8]"

definition parseOrGenerateRunID :: "time \<Rightarrow> string \<Rightarrow> err + byte list" where
  "parseOrGenerateRunID now hexStr =
     (if hexStr = [] then Inr (put_uint64 (of_int now) @ replicate 8 0)
      else (case hex_decode hexStr of
              Inl e \<Rightarrow> Inl (Wrap ''parse hex'' e)
            | Inr b \<Rightarrow>
                if length b \<noteq> 16
                then Inl (Msg (''run id must be exactly 16 bytes (32 hex chars); got '' @ Itoa (int (length b)) @ '' bytes''))
                else Inr b))"

definition smoke_cgroupIDFromPath :: "(string \<Rightarrow> err + 64 word) \<Rightarrow> string \<Rightarrow> err + 64 word" where
  "smoke_cgroupIDFromPath stat path = (case stat path of Inl e \<Rightarrow> Inl (Wrap ''stat'' e) | Inr ino \<Rightarrow> Inr ino)"

section \<open>Lines\<close>

record headerJSON =
  hj_TsRel :: string
  hj_Type :: string
  hj_RunID :: string
  hj_CgroupID :: "64 word"
  hj_PID :: "32 word"
  hj_TID :: "32 word"
  hj_PPID :: "32 word"
  hj_UID :: "32 word"
  hj_GID :: "32 word"
  hj_Comm :: string
  hj_Tags :: "string list"

definition familyString :: "byte \<Rightarrow> string" where
  "familyString f = (if f = AFInet then ''ipv4'' else if f = AFInet6 then ''ipv6'' else ''family_'' @ Itoa (uint f))"

definition formatIP :: "byte \<Rightarrow> byte list \<Rightarrow> string" where
  "formatIP family addr =
     (if family = AFInet then (if length addr < 4 then [] else format_ipv4 (take 4 addr))
      else if family = AFInet6 then (if length addr < 16 then [] else Join (map hex_nat (v6_fields addr)) '':'')
      else [])"

definition decodeTags :: "byte \<Rightarrow> string list" where
  "decodeTags b = (if bit b 0 then [''interesting''] else []) @ (if bit b 1 then [''cred_access''] else [])"

definition jsonifyHeader :: "string \<Rightarrow> Event \<Rightarrow> headerJSON" where
  "jsonifyHeader rel ev =
     (let h = Event_EventHeader ev in
      \<lparr>hj_TsRel = rel, hj_Type = EventType_String (Event_EventType ev), hj_RunID = hex_bytes (eh_RunID h), hj_CgroupID = eh_CgroupID h,
       hj_PID = eh_PID h, hj_TID = eh_TID h, hj_PPID = eh_PPID h, hj_UID = eh_UID h, hj_GID = eh_GID h, hj_Comm = cstring (eh_Comm h),
       hj_Tags = decodeTags (eh_Tags h)\<rparr>)"

record ancestorJSON =
  aj_PID :: "32 word"
  aj_PPID :: "32 word"
  aj_Comm :: string

datatype line =
    OpenatLine headerJSON (oj_DFD: "32 word") (oj_Flags: "32 word") (oj_Path: string) (oj_Truncated: bool)
  | ExecLine headerJSON (xj_BinaryPath: string) (xj_Argc: byte) (xj_Argv: "string list") (xj_Ancestors: "ancestorJSON list")
  | NetConnectLine headerJSON (nj_Family: string) (nj_DestAddr: string) (nj_DestPort: "16 word") (nj_Sockfd: "32 word")
  | DnsQueryLine headerJSON (dj_Family: string) (dj_DestAddr: string) (dj_DestPort: "16 word") (dj_QueryLen: "16 word") (dj_QName: string)
      (dj_QType: nat) (dj_ParseErr: string)
  | TlsSniLine headerJSON (tj_Source: string) (tj_SNI: string) (tj_DuplicateOf: string) (tj_ParseErr: string)

definition argv_text :: "ExecEvent \<Rightarrow> nat \<Rightarrow> string option" where
  "argv_text e i =
     (case at (ex_ArgvLens e) i of
        None \<Rightarrow> None
      | Some n \<Rightarrow> (let start = i * 64; len = (if unat n > 64 then 64 else unat n) in map_option cstring (slice (ex_Argv e) start (start + len))))"

definition shown_ancestors :: "Ancestor list \<Rightarrow> ancestorJSON list" where
  "shown_ancestors as = map (\<lambda>a. \<lparr>aj_PID = an_PID a, aj_PPID = an_PPID a, aj_Comm = cstring (an_Comm a)\<rparr>)
     (takeWhile (\<lambda>a. \<not> (an_PID a = 0 \<and> an_PPID a = 0)) as)"

definition error_text :: "err option \<Rightarrow> string" where
  "error_text e = (case e of None \<Rightarrow> [] | Some x \<Rightarrow> err_text x)"

text \<open>\<open>None\<close> is a panic of a slice.\<close>

fun eventToJSON :: "string \<Rightarrow> Event \<Rightarrow> line option" where
  "eventToJSON rel (FileAccess e) =
     (let r = fa_Raw e; pathEnd = (if unat (oa_PathLen r) > length (oa_Path r) then length (oa_Path r) else unat (oa_PathLen r)) in
      map_option (\<lambda>p. OpenatLine (jsonifyHeader rel (FileAccess e)) (oa_DFD r) (oa_Flags r) (cstring p) (oa_Truncated r = 1))
        (slice (oa_Path r) 0 pathEnd))"
| "eventToJSON rel (Exec e) =
     (let r = xe_Raw e in
      map_option (\<lambda>argv. ExecLine (jsonifyHeader rel (Exec e)) (cstring (ex_BinaryPath r)) (ex_Argc r) argv (shown_ancestors (ex_Ancestors r)))
        (those (map (argv_text r) [0..<min (unat (ex_Argc r)) 8])))"
| "eventToJSON rel (NetConnect e) =
     (let r = ne_Raw e in
      Some (NetConnectLine (jsonifyHeader rel (NetConnect e)) (familyString (nc_Family r)) (formatIP (nc_Family r) (nc_DestAddr r)) (nc_DestPort r)
        (nc_Sockfd r)))"
| "eventToJSON rel (DNSQuery e) =
     (let r = de_Raw e in
      Some (DnsQueryLine (jsonifyHeader rel (DNSQuery e)) (familyString (dq_Family r)) (formatIP (dq_Family r) (dq_DestAddr r)) (dq_DestPort r)
        (dq_QueryLen r) (de_QName e) (de_QType e) (error_text (de_ParseErr e))))"
| "eventToJSON rel (TLSSni e) =
     Some (TlsSniLine (jsonifyHeader rel (TLSSni e)) (TLSSourceName (ts_Source (te_Raw e))) (te_SNI e) (te_DuplicateOf e) (error_text (te_ParseErr e)))"

section \<open>A session\<close>

record smoke_host =
  sh_stat :: "string \<Rightarrow> err + 64 word"
  sh_now :: time
  sh_kernel :: kernel
  sh_records :: "(time \<times> byte list) list"
  sh_rel :: "nat \<Rightarrow> string"
  sh_encode :: "nat \<Rightarrow> err option"

text \<open>
  The loop over the events: the lines that were written, and the error that ended it. It counts the
  events also when nothing is printed.
\<close>

fun print_events :: "smoke_host \<Rightarrow> bool \<Rightarrow> Event list \<Rightarrow> nat \<Rightarrow> (err option \<times> line list \<times> nat) option" where
  "print_events h jsonOut [] n = Some (None, [], n)"
| "print_events h jsonOut (e # es) n =
     (if \<not> jsonOut then print_events h jsonOut es (n + 1)
      else (case eventToJSON (sh_rel h n) e of
              None \<Rightarrow> None
            | Some l \<Rightarrow>
                (case sh_encode h n of
                   Some er \<Rightarrow> Some (Some (Wrap ''json encode'' er), [], n + 1)
                 | None \<Rightarrow> map_option (\<lambda>(er, ls, k). (er, l # ls, k)) (print_events h jsonOut es (n + 1)))))"

definition smoke_opts :: "64 word \<Rightarrow> byte list \<Rightarrow> watchSpec list \<Rightarrow> AddCgroupOptions" where
  "smoke_opts cg runID ws =
     \<lparr>ao_CgroupID = cg, ao_RunID = runID, ao_WatchedPaths = map (\<lambda>w. \<lparr>wt_Prefix = sp_Prefix w, wt_CredTagged = sp_CredTagged w\<rparr>) ws\<rparr>"

text \<open>\<open>run\<close>: what it returns, prints and leaves in the kernel maps; the removal of the cgroup is deferred.\<close>

definition smoke_run ::
  "smoke_host \<Rightarrow> string \<Rightarrow> string \<Rightarrow> bool \<Rightarrow> watchSpec list \<Rightarrow> Sensor \<Rightarrow> (err option \<times> line list \<times> Sensor) option" where
  "smoke_run h cgroupPath runIDHex jsonOut ws s =
     (case smoke_cgroupIDFromPath (sh_stat h) cgroupPath of
        Inl e \<Rightarrow> Some (Some (Wrap (''resolve cgroup id from '' @ Quote cgroupPath) e), [], s)
      | Inr cg \<Rightarrow>
     (case parseOrGenerateRunID (sh_now h) runIDHex of
        Inl e \<Rightarrow> Some (Some (Wrap ''run id'' e), [], s)
      | Inr runID \<Rightarrow>
     (case New \<lparr>so_EnsureTracefs = True, so_DedupWindow = 5 * second, so_LibSSLPath = []\<rparr> (sh_kernel h) of
        Inl e \<Rightarrow> Some (Some e, [], s)
      | Inr (links, d) \<Rightarrow>
     (case AddCgroup (smoke_opts cg runID ws) s of
        (Some e, s1) \<Rightarrow> Some (Some (Wrap ''AddCgroup'' e), [], s1)
      | (None, s1) \<Rightarrow>
     (case Events (sh_records h) d of
        None \<Rightarrow> None
      | Some (es, d') \<Rightarrow> map_option (\<lambda>(er, ls, n). (er, ls, RemoveCgroup cg s1)) (print_events h jsonOut es 0))))))"

text \<open>\<open>main\<close> after the flags are parsed: the exit status, the lines and the maps.\<close>

definition smoke_main ::
  "smoke_host \<Rightarrow> string \<Rightarrow> string \<Rightarrow> bool \<Rightarrow> watchSpec list \<Rightarrow> Sensor \<Rightarrow> (int \<times> line list \<times> Sensor) option" where
  "smoke_main h cgroupPath runIDHex jsonOut ws s =
     (if cgroupPath = [] then Some (2, [], s)
      else if ws = [] then Some (2, [], s)
      else map_option (\<lambda>(er, ls, s'). (if er = None then 0 else 1, ls, s')) (smoke_run h cgroupPath runIDHex jsonOut ws s))"

section \<open>Every event can be printed\<close>

text \<open>The arrays of an execution have the sizes of the kernel's record.\<close>

fun sized :: "Event \<Rightarrow> bool" where
  "sized (Exec e) \<longleftrightarrow> length (ex_ArgvLens (xe_Raw e)) = 8 \<and> length (ex_Argv (xe_Raw e)) = 512"
| "sized e \<longleftrightarrow> True"

lemma argv_text_some:
  assumes "length (ex_ArgvLens r) = 8" "length (ex_Argv r) = 512" "i < 8"
  shows "argv_text r i = Some (cstring (take (min (unat (ex_ArgvLens r ! i)) 64) (drop (i * 64) (ex_Argv r))))"
proof -
  have "i * 64 + 64 \<le> 512" using assms(3) by simp
  then show ?thesis using assms by (auto simp: argv_text_def slice_def at_def Let_def min_def)
qed

lemma those_map_Some: "(\<And>x. x \<in> set xs \<Longrightarrow> f x = Some (g x)) \<Longrightarrow> those (map f xs) = Some (map g xs)"
  by (induction xs) auto

lemma printed_argv:
  assumes "length (ex_ArgvLens r) = 8" "length (ex_Argv r) = 512"
  shows "those (map (argv_text r) [0..<min n 8]) =
    Some (map (\<lambda>i. cstring (take (min (unat (ex_ArgvLens r ! i)) 64) (drop (i * 64) (ex_Argv r)))) [0..<min n 8])"
  by (rule those_map_Some) (simp add: argv_text_some [OF assms])

lemma eventToJSON_total: "sized ev \<Longrightarrow> \<exists>l. eventToJSON rel ev = Some l"
  by (cases ev) (simp_all add: slice_def Let_def printed_argv)

lemma sized_untagged [simp]: "sized (untagged ev) = sized ev"
  by (cases ev) simp_all

lemma decoded_sized: "decoded raw = Some ev \<Longrightarrow> sized ev"
proof (cases ev)
  case (Exec e)
  assume "decoded raw = Some ev"
  then have "decodeExecEvent raw = Some (Inr e)"
    using Exec by (auto simp: decoded_def decodeRecord_def map_sum_def split: if_splits option.splits sum.splits)
  then have rd: "read_exec raw = Inr (xe_Raw e)" by (auto simp: decodeExecEvent_def split: sum.splits)
  have "length (ex_ArgvLens r) = 8 \<and> length (ex_Argv r) = 512" if "read_exec raw = Inr r" for r
    using that by (auto simp: read_exec_def bytes_at_def split: if_splits)
  from this [OF rd] show ?thesis using Exec by simp
qed simp_all

lemma Events_sized: "\<exists>es d'. Events rs d = Some (es, d') \<and> list_all sized es"
proof (induction rs arbitrary: d)
  case (Cons r rs)
  obtain now raw where r: "r = (now, raw)" by fastforce
  obtain e d1 where h: "handle_record now raw d = Some (e, d1)"
    and c: "case decoded raw of None \<Rightarrow> e = None
      | Some ev \<Rightarrow> (case e of None \<Rightarrow> kprobe_connect ev | Some ev' \<Rightarrow> untagged ev' = untagged ev)"
    using handle_record_cases by metis
  have "sized ev'" if some: "e = Some ev'" for ev'
  proof -
    obtain ev where ev: "decoded raw = Some ev" "untagged ev' = untagged ev"
      using c [unfolded some] by (cases "decoded raw") auto
    from decoded_sized [OF ev(1)] ev(2) show ?thesis by (metis sized_untagged)
  qed
  then show ?case using Cons.IH [of d1] r h by (cases e) fastforce+
qed simp

lemma print_events_total: "list_all sized es \<Longrightarrow> \<exists>er ls k. print_events h j es n = Some (er, ls, k)"
proof (induction es arbitrary: n)
  case (Cons e es)
  then obtain l where l: "eventToJSON (sh_rel h n) e = Some l" using eventToJSON_total [of e] by auto
  obtain er ls k where "print_events h j es (n + 1) = Some (er, ls, k)" using Cons.IH [of "n + 1"] Cons.prems by auto
  then show ?case using l by (auto split: option.split)
qed simp

text \<open>
  A session never panics, whatever the kernel writes into its records, and leaves the kernel
  maps as it found them, however it ends.
\<close>

theorem smoke_session:
  assumes "sn_faults s = []" "\<And>cg. sn_registered s cg = None \<and> sn_cgmap s cg = None" "\<And>k. sn_paths s k = None"
  shows "\<exists>status ls. smoke_main h cgroupPath runIDHex jsonOut ws s = Some (status, ls, s)"
proof -
  have run: "\<exists>er ls. smoke_run h cgroupPath runIDHex jsonOut ws s = Some (er, ls, s)"
  proof (cases "smoke_cgroupIDFromPath (sh_stat h) cgroupPath")
    case cg: (Inr cg)
    show ?thesis
    proof (cases "parseOrGenerateRunID (sh_now h) runIDHex")
      case runID: (Inr runID)
      show ?thesis
      proof (cases "New \<lparr>so_EnsureTracefs = True, so_DedupWindow = 5 * second, so_LibSSLPath = []\<rparr> (sh_kernel h)")
        case new: (Inr ld)
        obtain links d where ld: "ld = (links, d)" by fastforce
        obtain es d' where es: "Events (sh_records h) d = Some (es, d')" "list_all sized es" using Events_sized by blast
        obtain er ls k where pr: "print_events h jsonOut es 0 = Some (er, ls, k)" using print_events_total [OF es(2)] by blast
        obtain e s1 where add: "AddCgroup (smoke_opts cg runID ws) s = (e, s1)" by fastforce
        have "e \<noteq> None \<and> s1 = s \<or> e = None \<and> RemoveCgroup cg s1 = s"
          using AddCgroup_effect [of s "smoke_opts cg runID ws"] assms add by (auto simp: smoke_opts_def split: if_splits)
        then show ?thesis using cg runID new ld es(1) pr add by (auto simp: smoke_run_def)
      qed (use cg runID in \<open>simp add: smoke_run_def\<close>)
    qed (use cg in \<open>simp add: smoke_run_def\<close>)
  qed (simp add: smoke_run_def)
  then show ?thesis by (auto simp: smoke_main_def)
qed

section \<open>What is printed is what the runner reports\<close>

lemma formatIP_v4: "length addr = 16 \<Longrightarrow> formatIP AFInet addr = formatDestIP AFInet addr"
  by (simp add: formatIP_def formatDestIP_def ip_string_def)

lemma dest_sizes:
  "read_connect raw = Inr c \<Longrightarrow> length (nc_DestAddr c) = 16" "read_dns raw = Inr q \<Longrightarrow> length (dq_DestAddr q) = 16"
  by (auto simp: read_connect_def read_dns_def bytes_at_def split: if_splits)

lemma argv_slot_text:
  assumes "length (ex_ArgvLens r) = 8" "length (ex_Argv r) = 512" "i < 8" "ex_ArgvLens r ! i \<le> 64"
  shows "map_option cstring (argv_slot r i) = argv_text r i"
proof -
  have "unat (ex_ArgvLens r ! i) \<le> 64" using assms(4) by (simp add: word_le_nat_alt)
  then show ?thesis using assms(1-3) by (auto simp: argv_slot_def argv_text_some slice_def at_def Let_def min_def)
qed

text \<open>
  The printed lines agree with what the runner reports of the same record: the path, the binary and the
  arguments (when the kernel kept each within its 64 bytes), the source of a server name, and
  IPv4 destinations.
\<close>

lemma printed_exec:
  assumes "decodeExecEvent raw = Some (Inr e)" "list_all (\<lambda>n. n \<le> 64) (ex_ArgvLens (xe_Raw e))" "sized (Exec e)"
  shows "those (map (argv_text (xe_Raw e)) [0..<min (unat (ex_Argc (xe_Raw e))) 8]) = Some (xe_ArgvStrs e)"
proof -
  let ?r = "xe_Raw e" and ?is = "[0..<min (unat (ex_Argc (xe_Raw e))) 8]"
  from assms(1) obtain argv where argv: "those (map (argv_slot ?r) ?is) = Some argv" "xe_ArgvStrs e = map cstring argv"
    by (auto simp: decodeExecEvent_def split: sum.splits)
  have those_cstring: "those (map f xs) = Some ys \<Longrightarrow> those (map (\<lambda>x. map_option cstring (f x)) xs) = Some (map cstring ys)"
    for f :: "nat \<Rightarrow> byte list option" and xs ys
    by (induction xs arbitrary: ys) (auto split: option.splits)
  have "ex_ArgvLens ?r ! i \<le> 64" if "i < 8" for i using assms(2,3) that by (auto simp: list_all_length)
  then have eq: "map (argv_text ?r) ?is = map (\<lambda>i. map_option cstring (argv_slot ?r i)) ?is"
    using assms(3) by (simp add: argv_slot_text)
  show ?thesis unfolding eq argv(2) by (rule those_cstring [OF argv(1)])
qed

theorem printed_as_decoded:
  assumes "decoded raw = Some ev"
  shows "\<exists>l. eventToJSON rel ev = Some l \<and>
    (case ev of
       FileAccess e \<Rightarrow> oj_Path l = fa_PathName e
     | Exec e \<Rightarrow> xj_BinaryPath l = xe_BinaryPathStr e \<and> (list_all (\<lambda>n. n \<le> 64) (ex_ArgvLens (xe_Raw e)) \<longrightarrow> xj_Argv l = xe_ArgvStrs e)
     | NetConnect e \<Rightarrow> nc_Family (ne_Raw e) = AFInet \<longrightarrow> nj_DestAddr l = ne_DestIP e
     | DNSQuery e \<Rightarrow> dq_Family (de_Raw e) = AFInet \<longrightarrow> dj_DestAddr l = de_DestIP e
     | TLSSni e \<Rightarrow> tj_Source l = te_SourceName e)"
proof (cases ev)
  case (FileAccess e)
  then have d: "decodeOpenatEvent raw = Some (Inr e)"
    using assms by (auto simp: decoded_def decodeRecord_def map_sum_def split: if_splits option.splits sum.splits)
  then show ?thesis
    using FileAccess by (auto simp: decodeOpenatEvent_def capped_def slice_def Let_def split: sum.splits if_splits)
next
  case (Exec e)
  then have d: "decodeExecEvent raw = Some (Inr e)"
    using assms by (auto simp: decoded_def decodeRecord_def map_sum_def split: if_splits option.splits sum.splits)
  then have "xe_BinaryPathStr e = cstring (ex_BinaryPath (xe_Raw e))" by (auto simp: decodeExecEvent_def split: sum.splits)
  then show ?thesis
    using Exec printed_exec [OF d] decoded_sized [OF assms] eventToJSON_total [of ev rel] by (auto simp: Let_def)
next
  case (NetConnect e)
  then have "decodeNetConnectEvent raw = Some (Inr e)"
    using assms by (auto simp: decoded_def decodeRecord_def map_sum_def split: if_splits option.splits sum.splits)
  then have "read_connect raw = Inr (ne_Raw e)" "ne_DestIP e = formatDestIP (nc_Family (ne_Raw e)) (nc_DestAddr (ne_Raw e))"
    by (auto simp: decodeNetConnectEvent_def split: sum.splits)
  then show ?thesis using NetConnect dest_sizes(1) formatIP_v4 by (auto simp: Let_def)
next
  case (DNSQuery e)
  then have d: "decodeDNSQueryEvent raw = Some (Inr e)"
    using assms by (auto simp: decoded_def decodeRecord_def map_sum_def split: if_splits option.splits sum.splits)
  obtain q where q: "read_dns raw = Inr q" using d by (auto simp: decodeDNSQueryEvent_def split: sum.splits)
  obtain p z where "capped (unat (dq_QueryLen q)) (dq_Query q) = Some p" "parseDNSQuestion p = Some z"
    using capped_safe parsers_safe(1) by metis
  then have "de_Raw e = q" "de_DestIP e = formatDestIP (dq_Family q) (dq_DestAddr q)"
    using d q by (cases z; auto simp: decodeDNSQueryEvent_def Let_def)+
  then show ?thesis using DNSQuery dest_sizes(2) [OF q] formatIP_v4 by (auto simp: Let_def)
next
  case (TLSSni e)
  then have d: "decodeTLSSniEvent raw = Some (Inr e)"
    using assms by (auto simp: decoded_def decodeRecord_def map_sum_def split: if_splits option.splits sum.splits)
  obtain q where q: "read_sni raw = Inr q" using d by (auto simp: decodeTLSSniEvent_def split: sum.splits)
  obtain p z s where "capped (unat (ts_RawPayloadLen q)) (ts_RawPayload q) = Some p" "parseClientHelloSNI p = Some z"
      "capped (unat (ts_SniLen q)) (ts_SNI q) = Some s"
    using capped_safe parsers_safe(2) by metis
  then have "te_SourceName e = TLSSourceName (ts_Source (te_Raw e))"
    using d q by (cases z) (auto simp: decodeTLSSniEvent_def Let_def split: if_splits)
  then show ?thesis using TLSSni by simp
qed

section \<open>Run ids\<close>

lemma fromHexChar_digit: "n < 16 \<Longrightarrow> fromHexChar (hex_digit n) = Some n"
proof -
  assume "n < 16"
  then have "(of_char (hex_digit n) :: nat) = (if n < 10 then 48 + n else 87 + n)" by (simp add: hex_digit_def)
  then show ?thesis using \<open>n < 16\<close> by (auto simp: fromHexChar_def Let_def split: if_splits)
qed

lemma hex_decode_bytes: "hex_decode (hex_bytes bs) = Inr bs"
proof (induction bs)
  case (Cons b bs)
  have "unat b < 256" using unsigned_less [of b, where ?'a = nat] by simp
  then have "fromHexChar (hex_digit (unat b div 16)) = Some (unat b div 16)" "fromHexChar (hex_digit (unat b mod 16)) = Some (unat b mod 16)"
    by (auto intro!: fromHexChar_digit)
  moreover have "16 * (unat b div 16) + unat b mod 16 = unat b" by simp
  ultimately show ?case using Cons by (simp add: hex_bytes_def)
qed (simp add: hex_bytes_def)

text \<open>A run id is read back from the form in which it is printed; without one, ids are sixteen bytes long too.\<close>

theorem run_id_roundtrip:
  "(length i = 16 \<longrightarrow> parseOrGenerateRunID now (hex_bytes i) = Inr i) \<and>
   (parseOrGenerateRunID now s = Inr r \<longrightarrow> length r = 16)"
proof -
  have "hex_bytes i \<noteq> []" if "length i = 16" using that by (cases i) (simp_all add: hex_bytes_def)
  then show ?thesis
    by (auto simp: parseOrGenerateRunID_def hex_decode_bytes put_uint64_def split: sum.splits if_splits)
qed

end
