(* ===== verification/Runner_Main.thy ===== *)
theory Runner_Main
  imports Runner_Props Flags
begin

text \<open>
  \<open>main\<close> of \<open>cmd/fangs-runner\<close>: the start-up with every way to exit, the poll loop over the jobs, and
  the goroutine that forwards the events of the one sensor to the streamer of the current
  job, as a step relation with the jobs beside it.
\<close>

section \<open>Start-up\<close>

definition runner_flags :: "(string \<times> flag_kind) list" where
  "runner_flags =
     [(''orchestrator'', StringFlag), (''runner-id'', StringFlag), (''tls-ca'', StringFlag), (''tls-cert'', StringFlag), (''tls-key'', StringFlag),
      (''timeout'', DurationFlag)]"

definition client_options :: "settings \<Rightarrow> ClientOptions" where
  "client_options st =
     \<lparr>co_OrchestratorURL = flag_string st ''orchestrator'' ''http://127.0.0.1:8443'', co_RunnerID = flag_string st ''runner-id'' [],
      co_Timeout = flag_duration st ''timeout'' (30 * second), co_TLSCAFile = flag_string st ''tls-ca'' [],
      co_TLSCertFile = flag_string st ''tls-cert'' [], co_TLSKeyFile = flag_string st ''tls-key'' []\<rparr>"

datatype runner_boot = RunnerExit int | RunnerUp Client "probe list" dedups

definition runner_start ::
  "host \<Rightarrow> kernel \<Rightarrow> 'w transport \<Rightarrow> string list \<Rightarrow> 'w \<Rightarrow> runner_boot \<times> 'w" where
  "runner_start h k tr args w =
     (case Parse runner_flags args of
        Inl e \<Rightarrow> (RunnerExit (if errors_Is e ErrHelp then 0 else 2), w)
      | Inr (st, rest) \<Rightarrow>
          (case new_Client h (client_options st) of
             Inl e \<Rightarrow> (RunnerExit 1, w)
           | Inr (c, timeout, transport) \<Rightarrow>
               (case New \<lparr>so_EnsureTracefs = True, so_DedupWindow = 5 * second, so_LibSSLPath = []\<rparr> k of
                  Inl e \<Rightarrow> (RunnerExit 1, w)
                | Inr (links, d) \<Rightarrow>
                    (case Register h tr c w of
                       (Some e, c', w') \<Rightarrow> (RunnerExit 1, w')
                     | (None, c', w') \<Rightarrow> (RunnerUp c' links d, w')))))"

section \<open>The poll loop\<close>

text \<open>How long a pause lasts when the context is done after \<open>ended\<close>, if it is.\<close>

definition sleepWithCtx :: "duration \<Rightarrow> duration option \<Rightarrow> duration" where
  "sleepWithCtx d ended = (if d \<le> 0 then 0 else case ended of None \<Rightarrow> d | Some c \<Rightarrow> min d c)"

text \<open>
  One turn of the loop: a pause, or a whole job with the post of its result, whose error is
  only logged. \<open>'w\<close> is the network, \<open>'e\<close> the host of the containers; \<open>None\<close> is a panic.
\<close>

definition post_result :: "'w transport \<Rightarrow> Client \<Rightarrow> Job \<Rightarrow> job_step list \<Rightarrow> 'w \<Rightarrow> 'w" where
  "post_result tr c job steps w =
     (case last steps of Posted r \<Rightarrow> snd (SendScanResult tr c (hex_bytes (jb_RunID job)) r w) | _ \<Rightarrow> w)"

definition runner_turn ::
  "'w transport \<Rightarrow> 'e job_env \<Rightarrow> Client \<Rightarrow> Sensor \<times> 'e \<times> 'w \<Rightarrow> (duration \<times> job_step list \<times> Sensor \<times> 'e \<times> 'w) option" where
  "runner_turn tr env c st =
     (case st of (s, e, w) \<Rightarrow>
        (case poll_turn tr c w of
           (Sleep d, w') \<Rightarrow> Some (d, [], s, e, w')
         | (Work job, w') \<Rightarrow>
             (case runJob env job (s, e) of
                None \<Rightarrow> None
              | Some (steps, s', e') \<Rightarrow> Some (0, steps, s', e', post_result tr c job steps w'))))"

text \<open>The turns until the context is done, each with the surroundings its job meets.\<close>

fun poll_loop ::
  "'w transport \<Rightarrow> Client \<Rightarrow> 'e job_env list \<Rightarrow> Sensor \<times> 'e \<times> 'w \<Rightarrow> (job_step list list \<times> Sensor \<times> 'e \<times> 'w) option" where
  "poll_loop tr c [] st = Some ([], st)"
| "poll_loop tr c (env # envs) st =
     (case runner_turn tr env c st of
        None \<Rightarrow> None
      | Some (d, steps, st') \<Rightarrow> map_option (\<lambda>(ss, st''). (steps # ss, st'')) (poll_loop tr c envs st'))"

section \<open>The forwarder\<close>

text \<open>
  The streamers are shared between the jobs, their loops and the forwarder; they are numbered. The
  forwarder reads the current one under the lock and sends after releasing it: \<open>fw_held\<close> is what
  it holds in between. The sensor's channel and a record of what was sent where are
  \<open>fw_channel\<close> and \<open>fw_sent\<close>.
\<close>

record forwarding =
  fw_channel :: "Event list"
  fw_streams :: "nat \<Rightarrow> EventStreamer option"
  fw_cur :: "nat option"
  fw_runHex :: string
  fw_held :: "(nat option \<times> Event) option"
  fw_sent :: "(byte list \<times> Event) list"
  fw_panicked :: bool

definition new_forwarding :: forwarding where
  "new_forwarding = \<lparr>fw_channel = [], fw_streams = (\<lambda>_. None), fw_cur = None, fw_runHex = [], fw_held = None, fw_sent = [], fw_panicked = False\<rparr>"

definition setStreamer :: "nat option \<Rightarrow> string \<Rightarrow> forwarding \<Rightarrow> forwarding" where
  "setStreamer i runHex f = f\<lparr>fw_cur := i, fw_runHex := runHex\<rparr>"

definition envelope :: "(Event \<Rightarrow> json) \<Rightarrow> Event \<Rightarrow> EventEnvelope" where
  "envelope marshal ev = \<lparr>ee_Type = Event_EventType ev, ee_Payload = marshal ev\<rparr>"

definition forward_take :: "forwarding \<Rightarrow> forwarding option" where
  "forward_take f =
     (case (fw_held f, fw_channel f) of
        (None, ev # evs) \<Rightarrow> Some (f\<lparr>fw_channel := evs, fw_held := Some (fw_cur f, ev)\<rparr>)
      | _ \<Rightarrow> None)"

definition forward_send :: "(Event \<Rightarrow> json) \<Rightarrow> forwarding \<Rightarrow> forwarding option" where
  "forward_send marshal f =
     (case fw_held f of
        None \<Rightarrow> None
      | Some (None, ev) \<Rightarrow> Some (f\<lparr>fw_held := None\<rparr>)
      | Some (Some i, ev) \<Rightarrow>
          (case fw_streams f i of
             None \<Rightarrow> None
           | Some s \<Rightarrow>
               (case Send (envelope marshal ev) s of
                  None \<Rightarrow> Some (f\<lparr>fw_panicked := True\<rparr>)
                | Some s' \<Rightarrow> Some (f\<lparr>fw_streams := (fw_streams f)(i \<mapsto> s'), fw_held := None, fw_sent := fw_sent f @ [(es_runID s, ev)]\<rparr>))))"

text \<open>
  A job installs a new streamer, and when it ends clears the current one and closes its own, in
  this order. The streamer's loop (\<open>stream_step\<close>) takes events out of its channel.
\<close>

inductive forward_step :: "string \<Rightarrow> (Event \<Rightarrow> json) \<Rightarrow> forwarding \<Rightarrow> forwarding \<Rightarrow> bool" for base marshal where
  observed: "forward_step base marshal f (f\<lparr>fw_channel := fw_channel f @ [ev]\<rparr>)"
| taken: "forward_take f = Some f' \<Longrightarrow> forward_step base marshal f f'"
| sent: "forward_send marshal f = Some f' \<Longrightarrow> forward_step base marshal f f'"
| started: "fw_streams f i = None \<Longrightarrow> fw_cur f = None \<Longrightarrow>
    forward_step base marshal f (setStreamer (Some i) (hex_bytes runID) (f\<lparr>fw_streams := (fw_streams f)(i \<mapsto> NewEventStreamer base runID)\<rparr>))"
| cleared: "forward_step base marshal f (setStreamer None [] f)"
| closed: "fw_streams f i = Some s \<Longrightarrow> fw_cur f \<noteq> Some i \<Longrightarrow> close_in s = Some s' \<Longrightarrow>
    forward_step base marshal f (f\<lparr>fw_streams := (fw_streams f)(i \<mapsto> s')\<rparr>)"
| streamed: "fw_streams f i = Some s \<Longrightarrow> es_closed s' = es_closed s \<Longrightarrow> es_runID s' = es_runID s \<Longrightarrow>
    forward_step base marshal f (f\<lparr>fw_streams := (fw_streams f)(i \<mapsto> s')\<rparr>)"

abbreviation forward_run :: "string \<Rightarrow> (Event \<Rightarrow> json) \<Rightarrow> forwarding \<Rightarrow> forwarding \<Rightarrow> bool" where
  "forward_run base marshal \<equiv> (forward_step base marshal)\<^sup>*\<^sup>*"

inductive_cases forward_stepE: "forward_step base marshal f f'"

section \<open>The loop keeps the runner ready\<close>

text \<open>
  However many jobs a runner works on and however they end: between them its sensor watches nothing and
  no container is left, and every job posted exactly one result.
\<close>

lemma runner_turn_ready:
  assumes "daemon_ok (je_engine env) cs" "dirs_ok (je_engine env) cs"
    and "runner_turn tr env c (new_Sensor [], e, w) = Some (d, steps, s', e', w')"
  shows "s' = new_Sensor [] \<and> cs e' = cs e \<and> (steps = [] \<or> length (filter is_post steps) = 1)"
proof -
  obtain n w1 where n: "poll_turn tr c w = (n, w1)" by fastforce
  show ?thesis
  proof (cases n)
    case (Work job)
    then obtain s1 e1 where "runJob env job (new_Sensor [], e) = Some (steps, s1, e1)" "s' = s1" "e' = e1"
      using assms(3) n by (auto simp: runner_turn_def split: option.splits)
    with runJob_effect [OF assms(1,2) this(1)] show ?thesis by auto
  qed (use assms(3) n in \<open>simp add: runner_turn_def\<close>)
qed

theorem runner_stays_ready:
  assumes "\<forall>env\<in>set envs. daemon_ok (je_engine env) cs \<and> dirs_ok (je_engine env) cs"
    and "poll_loop tr c envs (new_Sensor [], e, w) = Some (jobs, s', e', w')"
  shows "s' = new_Sensor [] \<and> cs e' = cs e \<and> (\<forall>steps\<in>set jobs. steps = [] \<or> length (filter is_post steps) = 1)"
  using assms
proof (induction envs arbitrary: e w jobs)
  case (Cons env envs)
  from Cons.prems(2) obtain d steps s1 e1 w1 js where
      t: "runner_turn tr env c (new_Sensor [], e, w) = Some (d, steps, s1, e1, w1)" "poll_loop tr c envs (s1, e1, w1) = Some (js, s', e', w')"
      "jobs = steps # js"
    by (auto split: option.splits)
  have r: "s1 = new_Sensor [] \<and> cs e1 = cs e \<and> (steps = [] \<or> length (filter is_post steps) = 1)"
    using Cons.prems(1) by (intro runner_turn_ready [OF _ _ t(1)]) simp_all
  with Cons.IH [of e1 w1 js] Cons.prems(1) t show ?case by auto
qed simp

section \<open>Races of the forwarder\<close>

definition forward_ok :: "forwarding \<Rightarrow> bool" where
  "forward_ok f \<longleftrightarrow> (\<forall>i. fw_cur f = Some i \<longrightarrow> (\<exists>s. fw_streams f i = Some s \<and> \<not> es_closed s)) \<and>
     (\<forall>i ev. fw_held f = Some (Some i, ev) \<longrightarrow> fw_streams f i \<noteq> None)"

lemma Send_open: "\<not> es_closed s \<Longrightarrow> \<exists>s'. Send e s = Some s' \<and> \<not> es_closed s'"
  by (simp add: Send_def)

lemma Send_keeps_open: "Send e s = Some s' \<Longrightarrow> es_closed s' = es_closed s"
  by (auto simp: Send_def split: if_splits)

lemma forward_step_ok: "forward_step base marshal f f' \<Longrightarrow> forward_ok f \<Longrightarrow> forward_ok f'"
proof (induction rule: forward_step.induct)
  case (taken f f')
  then show ?case by (auto simp: forward_ok_def forward_take_def split: option.splits list.splits)
next
  case (sent f f')
  then show ?case
    by (auto simp: forward_ok_def forward_send_def Send_keeps_open split: option.splits prod.splits)
next
  case (started f i runID)
  then show ?case by (auto simp: forward_ok_def setStreamer_def NewEventStreamer_def)
qed (auto simp: forward_ok_def setStreamer_def split: if_splits)

lemma forward_run_ok: "forward_run base marshal f f' \<Longrightarrow> forward_ok f \<Longrightarrow> forward_ok f'"
  by (induction rule: rtranclp.induct) (auto intro: forward_step_ok)

lemma new_forwarding_ok: "forward_ok new_forwarding"
  by (simp add: forward_ok_def new_forwarding_def)

lemmas then_step = rtranclp.rtrancl_into_rtrancl

text \<open>
  If the forwarder sent before anyone else moved, it would never panic; as it sends after
  releasing the lock, it can: an event arrives, the forwarder reads the streamer, the job ends and closes
  it, the forwarder sends.
\<close>

theorem forward_race:
  "(\<forall>f f1 f2. forward_run base marshal new_forwarding f \<and> forward_take f = Some f1 \<and> forward_send marshal f1 = Some f2 \<longrightarrow>
      fw_panicked f2 = fw_panicked f) \<and>
   (\<exists>f. forward_run base marshal new_forwarding f \<and> fw_panicked f)"
proof (intro conjI allI impI)
  fix f f1 f2
  assume a: "forward_run base marshal new_forwarding f \<and> forward_take f = Some f1 \<and> forward_send marshal f1 = Some f2"
  then have ok: "forward_ok f" using forward_run_ok new_forwarding_ok by blast
  from a obtain ev evs where f1: "f1 = f\<lparr>fw_channel := evs, fw_held := Some (fw_cur f, ev)\<rparr>"
    by (auto simp: forward_take_def split: option.splits list.splits)
  show "fw_panicked f2 = fw_panicked f"
  proof (cases "fw_cur f")
    case (Some i)
    then obtain s where s: "fw_streams f i = Some s" "\<not> es_closed s" using ok by (auto simp: forward_ok_def)
    from Send_open [OF s(2)] obtain s' where "Send (envelope marshal ev) s = Some s'" by blast
    then show ?thesis using a f1 Some s(1) by (auto simp: forward_send_def)
  qed (use a f1 in \<open>auto simp: forward_send_def\<close>)
next
  fix ev :: Event
  let ?s = "NewEventStreamer base []"
  define f1 where "f1 = setStreamer (Some 0) (hex_bytes []) (new_forwarding\<lparr>fw_streams := [0 \<mapsto> ?s]\<rparr>)"
  define f2 where "f2 = f1\<lparr>fw_channel := [ev]\<rparr>"
  define f3 where "f3 = f2\<lparr>fw_channel := [], fw_held := Some (Some 0, ev)\<rparr>"
  define f4 where "f4 = setStreamer None [] f3"
  define f5 where "f5 = f4\<lparr>fw_streams := (fw_streams f4)(0 \<mapsto> ?s\<lparr>es_closed := True\<rparr>)\<rparr>"
  define f6 where "f6 = f5\<lparr>fw_panicked := True\<rparr>"
  note defs = f1_def f2_def f3_def f4_def f5_def f6_def new_forwarding_def setStreamer_def NewEventStreamer_def
  have s1: "forward_step base marshal new_forwarding f1"
    using forward_step.started [of new_forwarding 0 base marshal "[]"] by (simp add: f1_def new_forwarding_def)
  have s2: "forward_step base marshal f1 f2"
    using forward_step.observed [of base marshal f1 ev] by (simp add: f2_def) (simp add: defs)
  have s3: "forward_step base marshal f2 f3"
    by (rule forward_step.taken) (simp add: forward_take_def defs)
  have s4: "forward_step base marshal f3 f4" unfolding f4_def by (rule forward_step.cleared)
  have s5: "forward_step base marshal f4 f5"
    unfolding f5_def by (rule forward_step.closed [of _ _ ?s]) (simp_all add: close_in_def defs)
  have s6: "forward_step base marshal f5 f6"
    by (rule forward_step.sent) (simp add: forward_send_def Send_def defs)
  have "forward_run base marshal new_forwarding f6"
    by (rule then_step [OF then_step [OF then_step [OF then_step [OF then_step [OF r_into_rtranclp [of "forward_step base marshal", OF s1] s2] s3] s4] s5] s6])
  then show "\<exists>f. forward_run base marshal new_forwarding f \<and> fw_panicked f" by (auto simp: f6_def)
qed

text \<open>
  The forwarder does not look at the run an event belongs to, though the event names it: an event
  that is observed during one job and still in the channel when the next one has installed its streamer
  is sent, and stored, as an event of the next run.
\<close>

theorem late_event_misattributed:
  "\<exists>f f'. forward_run base marshal new_forwarding f \<and> fw_runHex f = hex_bytes r1 \<and> fw_channel f = [ev] \<and>
     forward_run base marshal f f' \<and> fw_sent f' = [(r2, ev)]"
proof -
  let ?s = "NewEventStreamer base r1" and ?t = "NewEventStreamer base r2"
  define f1 where "f1 = setStreamer (Some 0) (hex_bytes r1) (new_forwarding\<lparr>fw_streams := [0 \<mapsto> ?s]\<rparr>)"
  define f2 where "f2 = f1\<lparr>fw_channel := [ev]\<rparr>"
  define f3 where "f3 = setStreamer None [] f2"
  define f4 where "f4 = f3\<lparr>fw_streams := (fw_streams f3)(0 \<mapsto> ?s\<lparr>es_closed := True\<rparr>)\<rparr>"
  define f5 where "f5 = setStreamer (Some 1) (hex_bytes r2) (f4\<lparr>fw_streams := (fw_streams f4)(1 \<mapsto> ?t)\<rparr>)"
  define f6 where "f6 = f5\<lparr>fw_channel := [], fw_held := Some (Some 1, ev)\<rparr>"
  note defs = f1_def f2_def f3_def f4_def f5_def f6_def new_forwarding_def setStreamer_def NewEventStreamer_def
  have s1: "forward_step base marshal new_forwarding f1"
    using forward_step.started [of new_forwarding 0 base marshal r1] by (simp add: f1_def new_forwarding_def)
  have s2: "forward_step base marshal f1 f2"
    using forward_step.observed [of base marshal f1 ev] by (simp add: f2_def) (simp add: defs)
  have s3: "forward_step base marshal f2 f3" unfolding f3_def by (rule forward_step.cleared)
  have s4: "forward_step base marshal f3 f4"
    unfolding f4_def by (rule forward_step.closed [of _ _ ?s]) (simp_all add: close_in_def defs)
  have s5: "forward_step base marshal f4 f5" unfolding f5_def by (rule forward_step.started) (simp_all add: defs)
  have s6: "forward_step base marshal f5 f6" by (rule forward_step.taken) (simp add: forward_take_def defs)
  obtain f7 where f7: "forward_send marshal f6 = Some f7" "fw_sent f7 = [(r2, ev)]"
    by (simp add: forward_send_def Send_def in_capacity_def defs)
  have s7: "forward_step base marshal f6 f7" by (rule forward_step.sent) (rule f7(1))
  have "forward_run base marshal f2 f7"
    by (rule then_step [OF then_step [OF then_step [OF then_step [OF r_into_rtranclp [of "forward_step base marshal", OF s3] s4] s5] s6] s7])
  moreover have "forward_run base marshal new_forwarding f2" by (rule then_step [OF r_into_rtranclp [of "forward_step base marshal", OF s1] s2])
  moreover have "fw_runHex f2 = hex_bytes r1" "fw_channel f2 = [ev]" by (simp_all add: defs)
  ultimately show ?thesis using f7(2) by blast
qed

end
