(* ===== verification/Sensor_Close.thy ===== *)
theory Sensor_Close
  imports Sensor_Props
begin

text \<open>
  The end of a sensor (\<open>Close\<close> and \<open>tearDownAll\<close> of \<open>sensor.go\<close>). Beside the maps, an attached sensor has
  its links, its reader and the loaded BPF objects; \<open>at_once\<close> tells that \<open>closeOnce\<close> has run. The order
  in which the map of the registered cgroups is ranged over is a parameter, as is the answer of the
  library to the close of the objects.
\<close>

record attached =
  at_sensor :: Sensor
  at_links :: "probe list"
  at_reader :: bool
  at_loaded :: bool
  at_once :: bool
  at_closeErr :: "err option"

definition attach :: "probe list \<Rightarrow> bool list \<Rightarrow> attached" where
  "attach links fs = \<lparr>at_sensor = new_Sensor fs, at_links = links, at_reader = True, at_loaded = True, at_once = False, at_closeErr = None\<rparr>"

definition forget_cgroups :: "64 word list \<Rightarrow> Sensor \<Rightarrow> Sensor" where
  "forget_cgroups cgs s = (fold (\<lambda>cg s. snd (Cgmap_Delete cg s)) cgs s)\<lparr>sn_registered := (\<lambda>_. None)\<rparr>"

definition tearDownAll :: "64 word list \<Rightarrow> err option \<Rightarrow> attached \<Rightarrow> attached" where
  "tearDownAll cgs objs_close a =
     a\<lparr>at_reader := False, at_links := [], at_sensor := forget_cgroups cgs (at_sensor a), at_loaded := False,
       at_closeErr := (case (objs_close, at_closeErr a) of (Some e, None) \<Rightarrow> Some e | _ \<Rightarrow> at_closeErr a)\<rparr>"

definition Close :: "64 word list \<Rightarrow> err option \<Rightarrow> attached \<Rightarrow> err option \<times> attached" where
  "Close cgs objs_close a =
     (let a' = (if at_once a then a else (tearDownAll cgs objs_close a)\<lparr>at_once := True\<rparr>) in (at_closeErr a', a'))"

lemma Cgmap_Delete_effect:
  "sn_cgmap (snd (Cgmap_Delete cg s)) k \<noteq> None \<Longrightarrow> sn_cgmap s k \<noteq> None"
  "sn_faults s = [] \<Longrightarrow> sn_cgmap (snd (Cgmap_Delete cg s)) = (sn_cgmap s)(cg := None) \<and> sn_faults (snd (Cgmap_Delete cg s)) = []"
  "sn_registered (snd (Cgmap_Delete cg s)) = sn_registered s" "sn_paths (snd (Cgmap_Delete cg s)) = sn_paths s"
  by (auto simp: Cgmap_Delete_def map_op_def split: list.splits if_splits)

lemma fold_Cgmap_Delete:
  "sn_faults s = [] \<Longrightarrow> sn_cgmap (fold (\<lambda>cg s. snd (Cgmap_Delete cg s)) cgs s) k = (if k \<in> set cgs then None else sn_cgmap s k)"
proof (induction cgs arbitrary: s)
  case (Cons cg cgs)
  then show ?case using Cgmap_Delete_effect(2) [of s cg] by auto
qed simp

text \<open>
  A sensor closes once: the first call detaches every probe, closes the reader and the objects, forgets every
  cgroup and, when no deletion fails, takes exactly the registered ones out of the kernel's
  map; every later call, whatever the library would answer, returns the first answer and changes nothing.
\<close>

theorem Close_once:
  assumes "at_once a = False" "set cgs = dom (sn_registered (at_sensor a))" "sn_faults (at_sensor a) = []"
  shows "let (e, a') = Close cgs r a in
    at_links a' = [] \<and> \<not> at_reader a' \<and> \<not> at_loaded a' \<and> sn_registered (at_sensor a') = (\<lambda>_. None) \<and>
    sn_cgmap (at_sensor a') = sn_cgmap (at_sensor a) |` (- dom (sn_registered (at_sensor a))) \<and>
    Close cgs' r' a' = (e, a') \<and> (at_closeErr a = None \<longrightarrow> e = r)"
proof -
  have "sn_cgmap (forget_cgroups cgs (at_sensor a)) = sn_cgmap (at_sensor a) |` (- dom (sn_registered (at_sensor a)))"
    using assms(2) by (auto simp: forget_cgroups_def fold_Cgmap_Delete [OF assms(3)] restrict_map_def fun_eq_iff)
  moreover have "sn_registered (forget_cgroups cgs (at_sensor a)) = (\<lambda>_. None)" by (simp add: forget_cgroups_def)
  ultimately show ?thesis
    using assms(1) by (simp add: Close_def tearDownAll_def Let_def split: option.split)
qed

end
