(* ===== verification/Spec2Isabelle.thy ===== *)
theory Spec2Isabelle
  imports Differ_Props Api_Props Notifier_Props Watcher_Props Runner_Props Ui_Props Postgres_Props Cli_Props Migrate System Pipeline Contract_Props Smoketest Runner_Main Sensor_Close
begin

text \<open>
  FANGS: a verification development.

  FANGS watches npm packages. An orchestrator polls the registry, queues a scan for every new
  release and hands it to a runner; the runner installs the package in a container under an
  eBPF sensor and streams the observed events back; the orchestrator stores them, and a differ
  reduces a run to fingerprints, compares them with the package's baseline and records what is
  new as deviations, about which a notifier tells webhook targets. Operators look at the pages
  of the orchestrator and use a console on the same database. The development models the Go
  code of all these parts (under \<open>src/\<close>) as functions over explicit state and proves what
  makes each correct and what they achieve together.

  \<^bold>\<open>Conventions.\<close> A Go struct is a record with the fields' names behind a prefix, an enumeration a
  set of string constants or a datatype, an error a value of \<open>err\<close> (\<open>Prelude\<close>) in the left of a
  sum. A method that changes state takes the state last and returns it. Strings are byte
  strings. A panic is the value \<open>None\<close> of an option around the result, so that its absence is
  a theorem. Where Go iterates a map, the order is a parameter that permutes. What lies outside
  the source is a parameter: the network and the registry (\<open>registry_net\<close>, \<open>outside\<close>,
  transports), the kernel and its maps, the container daemon (\<open>engine\<close>), the clock, random
  bytes, the JSON and YAML texts (given by the value they parse to), hash functions, the
  collation of a Postgres database. The SQL engines are modelled by tables with their
  constraints and a script of failures \<open>db_faults\<close>, one entry per interaction with the engine: a
  theorem for all scripts holds whatever fails, \<open>reliable\<close> says that nothing does.

  \<^bold>\<open>Foundations.\<close> \<open>Prelude\<close> (errors, generic lemmas, rule collections), \<open>Go_Strings\<close>, \<open>Net\<close>, \<open>Json\<close>,
  \<open>Go_Url\<close>, \<open>Go_Path\<close>, \<open>Go_Time\<close>, \<open>Flags\<close>, \<open>Go_Mux\<close> (what the program uses of Go's \<open>strings\<close>, \<open>strconv\<close>,
  \<open>net\<close>, \<open>encoding/json\<close>, \<open>net/url\<close>, \<open>path\<close>, \<open>time\<close>, \<open>flag\<close> and of the multiplexer of \<open>net/http\<close>), \<open>Sql\<close> (\<open>database/sql\<close> and the language: statements, transactions,
  ordering, \<open>LIKE\<close>, the text form of timestamps).

  \<^bold>\<open>The differ\<close> (\<open>internal/orchestrator/differ\<close>). \<open>Normalize\<close> (regular expressions with Go's
  leftmost-first matching, the path rules), \<open>Allow_Filter\<close> (CDN ranges, operator allowlist),
  \<open>Fingerprint\<close> (extraction from events; one fingerprint per pair, for every map order),
  \<open>Analyze\<close> (\<open>AnalyzeRun\<close> and its abstract store), \<open>Differ_Store\<close> (the locale \<open>differ_store\<close>: the
  contract with the storage, and what an analysis achieves, proved from the contract alone),
  \<open>Differ_Demo\<close>, \<open>Differ_Props\<close> (the outcome on SQLite, exact on a reliable database and
  contained under every failure).

  \<^bold>\<open>Storage\<close> (\<open>internal/orchestrator/storage\<close>). \<open>Storage\<close> (rows, the record \<open>Backend\<close> of the
  interface), \<open>Schema\<close>, \<open>Schema_Inv\<close>, \<open>Schema_View\<close> (the tables of both dialects, the statements
  they share, their integrity and their abstraction to the differ's store), \<open>Sqlite\<close>,
  \<open>Sqlite_Inv\<close>, \<open>Sqlite_Store\<close>, \<open>Sqlite_Props\<close> and \<open>Postgres\<close>, \<open>Postgres_Inv\<close>, \<open>Postgres_Store\<close>,
  \<open>Postgres_Props\<close> (every method of the two backends; reachable databases by rule induction over
  all operations and failures; the interpretations \<open>sq\<close> and \<open>pg\<close> of \<open>differ_store\<close>; that an analysis
  does the same on both; where they differ), \<open>Storage_Keeps\<close> (the locales \<open>backend_reads\<close> and
  \<open>backend_ops\<close>: a property of databases that the operations keep, interpreted with the reachable
  databases of both backends and, for the reading operations, with unchanged tables), \<open>Migrate\<close>
  (\<open>migrate.go\<close>: which scripts are applied, and that an interrupted migration resumes), \<open>Contract\<close>,
  \<open>Contract_Props\<close> (\<open>storagetest/contract.go\<close>: the contract as a function, kept by both backends).

  \<^bold>\<open>The orchestrator.\<close> \<open>Proto\<close> (wire messages), \<open>Metrics\<close>, \<open>Dispatcher\<close> (\<open>core/dispatcher.go\<close>; each
  critical section a step of a system with any number of callers: first in, first out, no lost
  wake-up), \<open>Api\<close>, \<open>Api_Timers\<close>, \<open>Api_Props\<close> (\<open>api/server.go\<close>: every handler, the registry, the
  debounced analysis as a system of timers that misses no run), \<open>Notifier\<close>, \<open>Notifier_Props\<close>
  (requests, signatures, retry loop, templates, targets file), \<open>Watcher\<close>, \<open>Config\<close>,
  \<open>Watcher_Props\<close> (release polling, retention, configured allowlist), \<open>Lineage\<close>, \<open>Lineage_Props\<close>,
  \<open>Ui\<close>, \<open>Ui_Props\<close>, \<open>Ui_Templates\<close> (the data of every page; the process forest and the triage queue;
  pages and their templates), \<open>Routes\<close>, \<open>Routes_Props\<close> (every route and what a request does; that the
  runner's client is served, that only POST requests write), \<open>Orchestrator\<close> (\<open>main.go\<close>: flags,
  storage, start-up, transport), \<open>Server_Keeps\<close> and \<open>System\<close> (the running orchestrator as a step
  relation over all of the above with the console beside it, and its invariant), \<open>Pipeline\<close> (from an event
  on a runner to the deviation and the notification it leads to, through all the parts between).

  \<^bold>\<open>The runner.\<close> \<open>Parsing\<close> (DNS and TLS parsers with every index checked), \<open>Sensor_Events\<close>,
  \<open>Sensor\<close>, \<open>Sensor_Props\<close>, \<open>Sensor_Close\<close> (decoding, kernel maps, deduplication, the event stream, the end
  of a sensor), \<open>Agent\<close>,
  \<open>Agent_Props\<close> (HTTP client; the event streamer as a step relation, from an accepted event to
  the orchestrator's table), \<open>Sandbox\<close>, \<open>Sandbox_Props\<close> (container driver and cgroups), \<open>Runner\<close>,
  \<open>Runner_Props\<close> (one job from start to result, the heartbeat), \<open>Runner_Main\<close> (start-up, the poll loop,
  the goroutine that forwards events to the current job's streamer and its races), \<open>Smoketest\<close>
  (\<open>cmd/sensor-smoketest\<close>: a session of the sensor and its printed lines).

  \<^bold>\<open>The console\<close> (\<open>cmd/fangs-cli\<close>). \<open>Cli_Format\<close> (what is printed), \<open>Cli\<close>, \<open>Cli_Commands\<close>, \<open>Cli_Main\<close>
  (every command and \<open>Run\<close>), \<open>Cli_Safe\<close> (in the locale \<open>backend_ops\<close>: what the operations keep is
  kept by every command line), \<open>Cli_Store\<close> (the locale \<open>console_store\<close>, which extends \<open>differ_store\<close>: the
  promotion of a run, interpreted for both backends), \<open>Cli_Props\<close> (promotion and re-analysis, the
  triage queue beside the page, packages beside the watcher, scans up to the runner's poll).

  \<^bold>\<open>Loops and bounds.\<close> Every recursion is proved terminating: the matcher of regular expressions,
  the packet parsers, the lineage traversal, the retry loop and \<open>PollJob\<close> by measures. The two
  polling loops of a launch (\<open>stableCgroup\<close>, \<open>waitForRunning\<close>) read a clock; with a clock that
  advances they are shown to end within 1002 and 2002 turns respectively, which their deadlines give. The
  limits of the code are kept as numbers: 10000 events per analysis, 64 events per batch and a
  channel of 1024 in the streamer, 1000 deviations on the triage page and 5000 in the console,
  4096 bytes of a response, 90 seconds until a runner is pruned, 2 seconds of debouncing.
  Integers have their width where it matters (kernel records, ports, durations in the back-off,
  32-bit counters of Postgres); elsewhere they are unbounded.

  \<^bold>\<open>Not modelled.\<close> The BPF programs (C, compiled by a generator); the SQL of the migration scripts
  (the tables state the schema they leave) and the connection pool; listeners, signal handling
  and logging of the three \<open>main\<close> packages; registration with Prometheus; the text of the HTML
  templates; the alignment of \<open>text/tabwriter\<close> and the text layout of JSON documents; floating-point
  texts.
\<close>

end
